(* ===== verification/Prelude.thy ===== *)
theory Prelude
  imports Main "HOL-Library.AList" "HOL-Library.List_Lexorder" "HOL-Library.Char_ord"
begin

text \<open>
  What every component shares: results that are a value or a raised exception, computations that
  thread a state through such results (with the two-sided triples used to reason about them),
  association lists in the order Python dictionaries keep, and text helpers.
\<close>

section \<open>Fact collections\<close>

named_theorems triple_rules \<open>structural rules of the two-sided triples\<close>
named_theorems doc_simps \<open>reading and writing of dictionary documents\<close>
named_theorems shape_simps \<open>text recognisers on generated text\<close>

section \<open>Results\<close>

text \<open>A Python call either raises (\<open>Inl\<close>) or returns (\<open>Inr\<close>).\<close>

definition rbind :: "'e + 'a \<Rightarrow> ('a \<Rightarrow> 'e + 'b) \<Rightarrow> 'e + 'b" where
  "rbind m f = (case m of Inl e \<Rightarrow> Inl e | Inr x \<Rightarrow> f x)"

definition rcatch :: "'e + 'a \<Rightarrow> ('e \<Rightarrow> 'e + 'a) \<Rightarrow> 'e + 'a" where
  "rcatch m h = (case m of Inl e \<Rightarrow> h e | Inr x \<Rightarrow> Inr x)"

definition rguard :: "bool \<Rightarrow> 'e \<Rightarrow> 'e + unit" where
  "rguard ok e = (if ok then Inr () else Inl e)"

definition is_ok :: "'e + 'a \<Rightarrow> bool" where
  "is_ok m = (case m of Inl _ \<Rightarrow> False | Inr _ \<Rightarrow> True)"

fun rall :: "('a \<Rightarrow> 'e + unit) \<Rightarrow> 'a list \<Rightarrow> 'e + unit" where
  "rall f [] = Inr ()"
| "rall f (x # xs) = rbind (f x) (\<lambda>_. rall f xs)"

lemma rbind_simps [simp]:
  "rbind (Inl e) f = Inl e" "rbind (Inr x) f = f x"
  by (simp_all add: rbind_def)

lemma rcatch_simps [simp]:
  "rcatch (Inl e) h = h e" "rcatch (Inr x) h = Inr x"
  by (simp_all add: rcatch_def)

lemma is_ok_simps [simp]: "is_ok (Inl e) = False" "is_ok (Inr x) = True"
  by (simp_all add: is_ok_def)

lemma is_ok_iff: "is_ok m \<longleftrightarrow> (\<exists>x. m = Inr x)"
  by (cases m) auto

lemma rbind_Inr_iff: "rbind m f = Inr y \<longleftrightarrow> (\<exists>x. m = Inr x \<and> f x = Inr y)"
  by (cases m) auto

lemma rbind_Inl_iff: "rbind m f = Inl e \<longleftrightarrow> m = Inl e \<or> (\<exists>x. m = Inr x \<and> f x = Inl e)"
  by (cases m) auto

lemma rbind_assoc: "rbind (rbind m f) g = rbind m (\<lambda>x. rbind (f x) g)"
  by (cases m) auto

lemma rguard_Inr_iff [simp]: "rguard ok e = Inr u \<longleftrightarrow> ok"
  by (auto simp: rguard_def)

lemma rguard_Inl_iff [simp]: "rguard ok e = Inl e' \<longleftrightarrow> \<not> ok \<and> e' = e"
  by (auto simp: rguard_def)

lemma rcatch_Inr_iff: "rcatch m h = Inr y \<longleftrightarrow> m = Inr y \<or> (\<exists>e. m = Inl e \<and> h e = Inr y)"
  by (cases m) auto

lemma rall_Inr_iff: "rall f xs = Inr u \<longleftrightarrow> (\<forall>x \<in> set xs. f x = Inr ())"
  by (induction xs) (auto simp: rbind_Inr_iff)

lemma rall_Inl_obtain: "rall f xs = Inl e \<Longrightarrow> \<exists>x \<in> set xs. f x = Inl e"
  by (induction xs) (auto simp: rbind_Inl_iff)

lemma rbind_cong [fundef_cong]:
  "m = m' \<Longrightarrow> (\<And>x. m' = Inr x \<Longrightarrow> f x = f' x) \<Longrightarrow> rbind m f = rbind m' f'"
  by (cases m') auto

section \<open>Stateful computations that may raise\<close>

text \<open>
  The state survives a raise, as Python's objects do: only the control flow is cut short.
\<close>

type_synonym ('s, 'e, 'a) act = "'s \<Rightarrow> ('e + 'a) \<times> 's"

definition aret :: "'a \<Rightarrow> ('s, 'e, 'a) act" where
  "aret x = (\<lambda>s. (Inr x, s))"

definition athrow :: "'e \<Rightarrow> ('s, 'e, 'a) act" where
  "athrow e = (\<lambda>s. (Inl e, s))"

definition abind :: "('s, 'e, 'a) act \<Rightarrow> ('a \<Rightarrow> ('s, 'e, 'b) act) \<Rightarrow> ('s, 'e, 'b) act" where
  "abind m f = (\<lambda>s. case m s of (Inl e, s') \<Rightarrow> (Inl e, s') | (Inr x, s') \<Rightarrow> f x s')"

definition acatch :: "('s, 'e, 'a) act \<Rightarrow> ('e \<Rightarrow> ('s, 'e, 'a) act) \<Rightarrow> ('s, 'e, 'a) act" where
  "acatch m h = (\<lambda>s. case m s of (Inl e, s') \<Rightarrow> h e s' | (Inr x, s') \<Rightarrow> (Inr x, s'))"

definition alift :: "'e + 'a \<Rightarrow> ('s, 'e, 'a) act" where
  "alift r = (\<lambda>s. (r, s))"

definition aget :: "('s \<Rightarrow> 'a) \<Rightarrow> ('s, 'e, 'a) act" where
  "aget f = (\<lambda>s. (Inr (f s), s))"

definition amod :: "('s \<Rightarrow> 's) \<Rightarrow> ('s, 'e, unit) act" where
  "amod f = (\<lambda>s. (Inr (), f s))"

definition aguard :: "bool \<Rightarrow> 'e \<Rightarrow> ('s, 'e, unit) act" where
  "aguard ok e = (if ok then aret () else athrow e)"

definition aif :: "bool \<Rightarrow> ('s, 'e, unit) act \<Rightarrow> ('s, 'e, unit) act" where
  "aif b m = (if b then m else aret ())"

fun aforall :: "('a \<Rightarrow> ('s, 'e, unit) act) \<Rightarrow> 'a list \<Rightarrow> ('s, 'e, unit) act" where
  "aforall f [] = aret ()"
| "aforall f (x # xs) = abind (f x) (\<lambda>_. aforall f xs)"

fun amap :: "('a \<Rightarrow> ('s, 'e, 'b) act) \<Rightarrow> 'a list \<Rightarrow> ('s, 'e, 'b list) act" where
  "amap f [] = aret []"
| "amap f (x # xs) = abind (f x) (\<lambda>y. abind (amap f xs) (\<lambda>ys. aret (y # ys)))"

lemma act_apply [simp]:
  "aret x s = (Inr x, s)" "athrow e s = (Inl e, s)" "alift r s = (r, s)"
  "aget f s = (Inr (f s), s)" "amod g s = (Inr (), g s)"
  by (simp_all add: aret_def athrow_def alift_def aget_def amod_def)

lemma abind_apply:
  "abind m f s = (case m s of (Inl e, s') \<Rightarrow> (Inl e, s') | (Inr x, s') \<Rightarrow> f x s')"
  by (simp add: abind_def)

lemma abind_ret [simp]: "abind (aret x) f = f x"
  by (simp add: abind_def fun_eq_iff)

lemma abind_throw [simp]: "abind (athrow e) f = athrow e"
  by (simp add: abind_def fun_eq_iff)

lemma abind_Inr_iff:
  "abind m f s = (Inr y, t) \<longleftrightarrow> (\<exists>x s'. m s = (Inr x, s') \<and> f x s' = (Inr y, t))"
  by (auto simp: abind_def split: prod.splits sum.splits)

lemma abind_Inl_iff:
  "abind m f s = (Inl e, t) \<longleftrightarrow>
    m s = (Inl e, t) \<or> (\<exists>x s'. m s = (Inr x, s') \<and> f x s' = (Inl e, t))"
  by (auto simp: abind_def split: prod.splits sum.splits)

lemma abind_cases:
  assumes "abind m f s = (r, t)"
  obtains (raised) e where "m s = (Inl e, t)" "r = Inl e"
    | (went) x s' where "m s = (Inr x, s')" "f x s' = (r, t)"
  using assms by (auto simp: abind_def split: prod.splits sum.splits)

subsection \<open>Triples\<close>

text \<open>
  \<open>triple P m Q E\<close>: from any state in \<open>P\<close>, a return satisfies \<open>Q\<close> and a raise satisfies \<open>E\<close>.
  Every computation of the model is total, so these are total-correctness statements.
\<close>

definition triple ::
  "('s \<Rightarrow> bool) \<Rightarrow> ('s, 'e, 'a) act \<Rightarrow> ('a \<Rightarrow> 's \<Rightarrow> bool) \<Rightarrow> ('e \<Rightarrow> 's \<Rightarrow> bool) \<Rightarrow> bool" where
  "triple P m Q E \<longleftrightarrow>
    (\<forall>s. P s \<longrightarrow> (case m s of (Inl e, s') \<Rightarrow> E e s' | (Inr x, s') \<Rightarrow> Q x s'))"

abbreviation keeps :: "('s \<Rightarrow> bool) \<Rightarrow> ('s, 'e, 'a) act \<Rightarrow> bool" where
  "keeps P m \<equiv> triple P m (\<lambda>_. P) (\<lambda>_. P)"

lemma tripleI:
  assumes "\<And>s x t. P s \<Longrightarrow> m s = (Inr x, t) \<Longrightarrow> Q x t"
    and "\<And>s e t. P s \<Longrightarrow> m s = (Inl e, t) \<Longrightarrow> E e t"
  shows "triple P m Q E"
  using assms by (auto simp: triple_def split: prod.splits sum.splits)

lemma triple_ok: "triple P m Q E \<Longrightarrow> P s \<Longrightarrow> m s = (Inr x, t) \<Longrightarrow> Q x t"
  by (fastforce simp: triple_def)

lemma triple_err: "triple P m Q E \<Longrightarrow> P s \<Longrightarrow> m s = (Inl e, t) \<Longrightarrow> E e t"
  by (fastforce simp: triple_def)

lemma triple_conseq:
  assumes "triple P' m Q' E'" and "\<And>s. P s \<Longrightarrow> P' s"
    and "\<And>x s. Q' x s \<Longrightarrow> Q x s" and "\<And>e s. E' e s \<Longrightarrow> E e s"
  shows "triple P m Q E"
  using assms by (fastforce simp: triple_def split: prod.splits sum.splits)

lemma triple_bind [triple_rules]:
  assumes "triple P m R E" and "\<And>x. triple (R x) (f x) Q E"
  shows "triple P (abind m f) Q E"
  using assms by (fastforce simp: triple_def abind_def split: prod.splits sum.splits)

lemma triple_catch [triple_rules]:
  assumes "triple P m Q R" and "\<And>e. triple (R e) (h e) Q E"
  shows "triple P (acatch m h) Q E"
  using assms by (fastforce simp: triple_def acatch_def split: prod.splits sum.splits)

lemma triple_ret [triple_rules]: "(\<And>s. P s \<Longrightarrow> Q x s) \<Longrightarrow> triple P (aret x) Q E"
  by (simp add: triple_def)

lemma triple_throw [triple_rules]: "(\<And>s. P s \<Longrightarrow> E e s) \<Longrightarrow> triple P (athrow e) Q E"
  by (simp add: triple_def)

lemma triple_lift [triple_rules]:
  "(\<And>s x. P s \<Longrightarrow> r = Inr x \<Longrightarrow> Q x s) \<Longrightarrow> (\<And>s e. P s \<Longrightarrow> r = Inl e \<Longrightarrow> E e s)
    \<Longrightarrow> triple P (alift r) Q E"
  by (auto simp: triple_def split: sum.splits)

lemma triple_get [triple_rules]: "(\<And>s. P s \<Longrightarrow> Q (f s) s) \<Longrightarrow> triple P (aget f) Q E"
  by (simp add: triple_def)

lemma triple_mod [triple_rules]: "(\<And>s. P s \<Longrightarrow> Q () (f s)) \<Longrightarrow> triple P (amod f) Q E"
  by (simp add: triple_def)

lemma triple_guard [triple_rules]:
  "(\<And>s. P s \<Longrightarrow> ok \<Longrightarrow> Q () s) \<Longrightarrow> (\<And>s. P s \<Longrightarrow> \<not> ok \<Longrightarrow> E e s) \<Longrightarrow> triple P (aguard ok e) Q E"
  by (auto simp: triple_def aguard_def)

lemma triple_if [triple_rules]:
  "(b \<Longrightarrow> triple P m Q E) \<Longrightarrow> (\<not> b \<Longrightarrow> triple P n Q E) \<Longrightarrow> triple P (if b then m else n) Q E"
  by simp

lemma triple_aif [triple_rules]:
  "(b \<Longrightarrow> triple P m Q E) \<Longrightarrow> (\<And>s. \<not> b \<Longrightarrow> P s \<Longrightarrow> Q () s) \<Longrightarrow> triple P (aif b m) Q E"
  by (auto simp: aif_def triple_def)

lemma triple_case_option [triple_rules]:
  "(x = None \<Longrightarrow> triple P m Q E) \<Longrightarrow> (\<And>y. x = Some y \<Longrightarrow> triple P (f y) Q E)
    \<Longrightarrow> triple P (case x of None \<Rightarrow> m | Some y \<Rightarrow> f y) Q E"
  by (cases x) auto

lemma triple_case_sum:
  "(\<And>y. x = Inl y \<Longrightarrow> triple P (f y) Q E) \<Longrightarrow> (\<And>y. x = Inr y \<Longrightarrow> triple P (g y) Q E)
    \<Longrightarrow> triple P (case x of Inl y \<Rightarrow> f y | Inr y \<Rightarrow> g y) Q E"
  by (cases x) auto

lemma triple_case_prod:
  "(\<And>a b. x = (a, b) \<Longrightarrow> triple P (f a b) Q E) \<Longrightarrow> triple P (case x of (a, b) \<Rightarrow> f a b) Q E"
  by (cases x) auto

lemma triple_let [triple_rules]: "(\<And>y. y = x \<Longrightarrow> triple P (f y) Q E) \<Longrightarrow> triple P (let y = x in f y) Q E"
  by simp

lemma keeps_aforall: "(\<And>x. x \<in> set xs \<Longrightarrow> keeps P (f x)) \<Longrightarrow> keeps P (aforall f xs)"
proof (induction xs)
  case Nil
  then show ?case by (simp add: triple_def)
next
  case (Cons x xs)
  then show ?case by (auto intro!: triple_bind [where R = "\<lambda>_. P"])
qed

lemma keeps_amap: "(\<And>x. x \<in> set xs \<Longrightarrow> keeps P (f x)) \<Longrightarrow> keeps P (amap f xs)"
proof (induction xs)
  case Nil
  then show ?case by (simp add: triple_def)
next
  case (Cons x xs)
  then show ?case
    by (auto intro!: triple_bind [where R = "\<lambda>_. P"] triple_ret)
qed

section \<open>Dictionaries as association lists\<close>

text \<open>
  A Python dictionary keeps insertion order: an assignment to a present key updates in place, to a
  new key appends. \<open>AList.update\<close> does exactly this.
\<close>

lemma map_of_update: "map_of (AList.update k v kvs) k' = (if k = k' then Some v else map_of kvs k')"
  by (simp add: AList.update_conv')

lemma map_of_delete: "map_of (AList.delete k kvs) k' = (if k = k' then None else map_of kvs k')"
  by (simp add: AList.delete_conv')

lemma keys_update:
  "map fst (AList.update k v kvs) = (if k \<in> fst ` set kvs then map fst kvs else map fst kvs @ [k])"
  by (induction kvs) auto

lemma distinct_update: "distinct (map fst kvs) \<Longrightarrow> distinct (map fst (AList.update k v kvs))"
  by (rule AList.distinct_update)

lemma distinct_delete: "distinct (map fst kvs) \<Longrightarrow> distinct (map fst (AList.delete k kvs))"
  by (rule AList.distinct_delete)

lemma set_update_distinct:
  "distinct (map fst kvs) \<Longrightarrow>
    set (AList.update k v kvs) = insert (k, v) {p \<in> set kvs. fst p \<noteq> k}"
  by (induction kvs) (auto simp: image_iff)

section \<open>Text\<close>

definition char_between :: "char \<Rightarrow> char \<Rightarrow> char \<Rightarrow> bool" where
  "char_between lo hi c \<longleftrightarrow> lo \<le> c \<and> c \<le> hi"

definition is_digit_char :: "char \<Rightarrow> bool" where
  "is_digit_char c \<longleftrightarrow> char_between (CHR ''0'') (CHR ''9'') c"

definition is_upper_char :: "char \<Rightarrow> bool" where
  "is_upper_char c \<longleftrightarrow> char_between (CHR ''A'') (CHR ''Z'') c"

definition is_lower_char :: "char \<Rightarrow> bool" where
  "is_lower_char c \<longleftrightarrow> char_between (CHR ''a'') (CHR ''z'') c"

definition is_alnum_char :: "char \<Rightarrow> bool" where
  "is_alnum_char c \<longleftrightarrow> is_digit_char c \<or> is_upper_char c \<or> is_lower_char c"

definition is_hex_char :: "char \<Rightarrow> bool" where
  "is_hex_char c \<longleftrightarrow> is_digit_char c \<or> char_between (CHR ''a'') (CHR ''f'') c"

lemma char_le_of_char: "(c :: char) \<le> d \<longleftrightarrow> (of_char c :: nat) \<le> of_char d"
  by (simp add: less_eq_char_def)

definition starts_with :: "string \<Rightarrow> string \<Rightarrow> bool" where
  "starts_with p s \<longleftrightarrow> take (length p) s = p"

fun join :: "string \<Rightarrow> string list \<Rightarrow> string" where
  "join sep [] = []"
| "join sep [x] = x"
| "join sep (x # y # zs) = x @ sep @ join sep (y # zs)"

definition digit_char :: "nat \<Rightarrow> char" where
  "digit_char d = char_of (48 + d)"

definition digit_val :: "char \<Rightarrow> nat" where
  "digit_val c = of_char c - 48"

fun nat_str :: "nat \<Rightarrow> string" where
  "nat_str n = (if n < 10 then [digit_char n] else nat_str (n div 10) @ [digit_char (n mod 10)])"

declare nat_str.simps [simp del]

definition int_str :: "int \<Rightarrow> string" where
  "int_str i = (if i < 0 then CHR ''-'' # nat_str (nat (- i)) else nat_str (nat i))"

definition str_nat :: "string \<Rightarrow> nat" where
  "str_nat s = foldl (\<lambda>n c. 10 * n + digit_val c) 0 s"

lemma digit_char_val [simp]: "d < 10 \<Longrightarrow> digit_val (digit_char d) = d"
  by (simp add: digit_char_def digit_val_def)

lemma digit_char_is_digit [simp]: "d < 10 \<Longrightarrow> is_digit_char (digit_char d)"
  by (simp add: digit_char_def is_digit_char_def char_between_def char_le_of_char)

lemma str_nat_snoc: "str_nat (s @ [c]) = 10 * str_nat s + digit_val c"
  by (simp add: str_nat_def)

lemma str_nat_nat_str [simp]: "str_nat (nat_str n) = n"
proof (induction n rule: nat_str.induct)
  case (1 n)
  show ?case
  proof (cases "n < 10")
    case True
    then show ?thesis by (simp add: nat_str.simps [of n] str_nat_def)
  next
    case False
    with "1.IH" have "str_nat (nat_str (n div 10)) = n div 10" by simp
    with False show ?thesis by (simp add: nat_str.simps [of n] str_nat_snoc)
  qed
qed

lemma nat_str_nonempty [simp]: "nat_str n \<noteq> []"
  by (subst nat_str.simps) simp

lemma nat_str_digits: "list_all is_digit_char (nat_str n)"
proof (induction n rule: nat_str.induct)
  case (1 n)
  then show ?case by (cases "n < 10") (simp_all add: nat_str.simps [of n])
qed

text \<open>ASCII case mapping, which is what \<open>str.upper\<close> and \<open>str.lower\<close> do on ASCII text.\<close>

definition to_upper_char :: "char \<Rightarrow> char" where
  "to_upper_char c = (if is_lower_char c then char_of ((of_char c :: nat) - 32) else c)"

definition to_lower_char :: "char \<Rightarrow> char" where
  "to_lower_char c = (if is_upper_char c then char_of ((of_char c :: nat) + 32) else c)"

definition str_upper :: "string \<Rightarrow> string" where
  "str_upper s = map to_upper_char s"

definition str_lower :: "string \<Rightarrow> string" where
  "str_lower s = map to_lower_char s"

definition is_space_char :: "char \<Rightarrow> bool" where
  "is_space_char c \<longleftrightarrow> (let n = (of_char c :: nat) in (9 \<le> n \<and> n \<le> 13) \<or> (28 \<le> n \<and> n \<le> 32) \<or> n = 133 \<or> n = 160)"

definition str_strip :: "string \<Rightarrow> string" where
  "str_strip s = rev (dropWhile is_space_char (rev (dropWhile is_space_char s)))"

end
