(* ===== verification/Exec_Errors.thy ===== *)
theory Exec_Errors
  imports Prelude
begin

text \<open>
  The exceptions of \<open>backend/app/execution/errors.py\<close>, with the Python and contract exceptions that
  meet them. An exception is its class and its message; \<open>isinstance\<close> follows the class hierarchy.
\<close>

datatype exn_class =
    ExecutionError | CommandValidationError | UnknownCommandError | IdempotencyConflictError
  | ExpectedVersionConflict | RepositoryUnavailableError | FencingError | LeaseNotHeldError
  | ClockRollbackError | MutationRejected | AuthorityRejected | PlanRejected
  | StartQuoteReplanRequired | StartQuoteEvidenceInvalid | ActiveResumeFreshSnapshotRequired
  | UnknownOutcomeError | RestartReconciliationRequired | GatewayTimeout | GatewayUnavailable
  | StartQuoteSourceUnavailable | GatewayConfigurationError | SnapshotRejected | DurableStateCorrupt
  | CommodityExecutionContractError | ExecutionStartQuoteProofError
  | ExecutionStartQuotePriceIncompatible
  | ArtifactContractError | ExecutableTargetAdapterError
  | FormalTickReadError | FormalTickSourceUnavailable | FormalTickEvidenceInvalid
  | PyException | PyValueError | PyTypeError | PyKeyError | PyAttributeError | PyRuntimeError
  | PyOSError | PyTimeoutError | PyConnectionError | PyOverflowError
  | PyInvalidOperation

text \<open>The direct bases of a class.\<close>

fun bases :: "exn_class \<Rightarrow> exn_class list" where
  "bases ExecutionError = [PyException]"
| "bases CommandValidationError = [ExecutionError, PyValueError]"
| "bases UnknownCommandError = [CommandValidationError]"
| "bases IdempotencyConflictError = [ExecutionError]"
| "bases ExpectedVersionConflict = [ExecutionError]"
| "bases RepositoryUnavailableError = [ExecutionError]"
| "bases FencingError = [ExecutionError]"
| "bases LeaseNotHeldError = [FencingError]"
| "bases ClockRollbackError = [FencingError]"
| "bases MutationRejected = [ExecutionError]"
| "bases AuthorityRejected = [MutationRejected]"
| "bases PlanRejected = [MutationRejected]"
| "bases StartQuoteReplanRequired = [PlanRejected]"
| "bases StartQuoteEvidenceInvalid = [PlanRejected]"
| "bases ActiveResumeFreshSnapshotRequired = [MutationRejected]"
| "bases UnknownOutcomeError = [MutationRejected]"
| "bases RestartReconciliationRequired = [MutationRejected]"
| "bases GatewayTimeout = [ExecutionError]"
| "bases GatewayUnavailable = [ExecutionError]"
| "bases StartQuoteSourceUnavailable = [GatewayUnavailable]"
| "bases GatewayConfigurationError = [GatewayUnavailable]"
| "bases SnapshotRejected = [MutationRejected]"
| "bases DurableStateCorrupt = [RepositoryUnavailableError]"
| "bases CommodityExecutionContractError = [PyValueError]"
| "bases ExecutionStartQuoteProofError = [PyValueError]"
| "bases ExecutionStartQuotePriceIncompatible = [ExecutionStartQuoteProofError]"
| "bases ArtifactContractError = [PyValueError]"
| "bases ExecutableTargetAdapterError = [PyValueError]"
| "bases FormalTickReadError = [PyValueError]"
| "bases FormalTickSourceUnavailable = [FormalTickReadError]"
| "bases FormalTickEvidenceInvalid = [FormalTickReadError]"
| "bases PyTimeoutError = [PyOSError]"
| "bases PyConnectionError = [PyOSError]"
| "bases PyException = []"
| "bases c = [PyException]"

text \<open>The hierarchy is five classes deep at most.\<close>

fun subclass_within :: "nat \<Rightarrow> exn_class \<Rightarrow> exn_class \<Rightarrow> bool" where
  "subclass_within 0 c d = (c = d)"
| "subclass_within (Suc n) c d = (c = d \<or> list_ex (\<lambda>b. subclass_within n b d) (bases c))"

definition derives_from :: "exn_class \<Rightarrow> exn_class \<Rightarrow> bool" where
  "derives_from c d = subclass_within 5 c d"

datatype exn = Exn (exn_class: exn_class) (exn_text: string)

type_synonym 'a res = "exn + 'a"

definition is_a :: "exn \<Rightarrow> exn_class \<Rightarrow> bool" where
  "is_a e c \<longleftrightarrow> derives_from (exn_class e) c"

definition raise :: "exn_class \<Rightarrow> string \<Rightarrow> 'a res" where
  "raise c msg = Inl (Exn c msg)"

text \<open>\<open>type(exc).__name__\<close> for the classes whose name the program records.\<close>

fun class_name :: "exn_class \<Rightarrow> string" where
  "class_name MutationRejected = ''MutationRejected''"
| "class_name AuthorityRejected = ''AuthorityRejected''"
| "class_name PlanRejected = ''PlanRejected''"
| "class_name StartQuoteReplanRequired = ''StartQuoteReplanRequired''"
| "class_name StartQuoteEvidenceInvalid = ''StartQuoteEvidenceInvalid''"
| "class_name ActiveResumeFreshSnapshotRequired = ''ActiveResumeFreshSnapshotRequired''"
| "class_name UnknownOutcomeError = ''UnknownOutcomeError''"
| "class_name RestartReconciliationRequired = ''RestartReconciliationRequired''"
| "class_name SnapshotRejected = ''SnapshotRejected''"
| "class_name c = ''Exception''"

lemma raise_neq [simp]: "raise c m \<noteq> Inr x" "Inr x \<noteq> raise c m"
  by (simp_all add: raise_def)

lemma raise_eq_Inl [simp]: "raise c m = Inl e \<longleftrightarrow> e = Exn c m"
  by (auto simp: raise_def)

lemma rbind_raise [simp]: "rbind (raise c m) f = raise c m"
  by (simp add: raise_def)

lemma is_ok_raise [simp]: "\<not> is_ok (raise c m)"
  by (simp add: raise_def)

lemma subclass_refl [simp]: "derives_from c c"
  by (simp add: derives_from_def eval_nat_numeral)

lemma is_a_Exn: "is_a (Exn c m) d = derives_from c d"
  by (simp add: is_a_def)

lemma subclass_unfold:
  "derives_from c d \<longleftrightarrow> c = d \<or> list_ex (\<lambda>b. subclass_within 4 b d) (bases c)"
  by (simp add: derives_from_def eval_nat_numeral)

lemma mutation_rejected_subclasses:
  "derives_from c MutationRejected \<longleftrightarrow>
    c \<in> {MutationRejected, AuthorityRejected, PlanRejected, StartQuoteReplanRequired,
      StartQuoteEvidenceInvalid, ActiveResumeFreshSnapshotRequired, UnknownOutcomeError,
      RestartReconciliationRequired, SnapshotRejected}"
  by (cases c) (simp_all add: derives_from_def eval_nat_numeral)

lemma repository_subclasses:
  "derives_from c RepositoryUnavailableError \<longleftrightarrow> c \<in> {RepositoryUnavailableError, DurableStateCorrupt}"
  by (cases c) (simp_all add: derives_from_def eval_nat_numeral)

lemma snapshot_rejected_subclasses: "derives_from c SnapshotRejected \<longleftrightarrow> c = SnapshotRejected"
  by (cases c) (simp_all add: derives_from_def eval_nat_numeral)

end
