(* ===== verification/Sha256.thy ===== *)
theory Sha256
  imports Prelude "HOL-Library.Word"
begin

unbundle bit_operations_syntax

text \<open>
  The digest the program takes from its standard library: \<open>hashlib.sha256(data).hexdigest()\<close> on a
  byte string. Bytes are naturals below 256, the words of the compression function are 32 bits wide
  and wrap. What the rest of the development uses is the shape of the result (64 lowercase
  hexadecimal digits) and that it is a function of the bytes.
\<close>

type_synonym w32 = "32 word"

definition sha_k :: "w32 list" where
  "sha_k =
  [ 1116352408, 1899447441, 3049323471, 3921009573, 961987163, 1508970993, 2453635748,
     2870763221, 3624381080, 310598401, 607225278, 1426881987, 1925078388, 2162078206,
     2614888103, 3248222580, 3835390401, 4022224774, 264347078, 604807628, 770255983,
     1249150122, 1555081692, 1996064986, 2554220882, 2821834349, 2952996808, 3210313671,
     3336571891, 3584528711, 113926993, 338241895, 666307205, 773529912, 1294757372,
     1396182291, 1695183700, 1986661051, 2177026350, 2456956037, 2730485921, 2820302411,
     3259730800, 3345764771, 3516065817, 3600352804, 4094571909, 275423344, 430227734,
     506948616, 659060556, 883997877, 958139571, 1322822218, 1537002063, 1747873779,
     1955562222, 2024104815, 2227730452, 2361852424, 2428436474, 2756734187, 3204031479,
     3329325298]"

definition sha_h0 :: "w32 list" where
  "sha_h0 =
  [ 1779033703, 3144134277, 1013904242, 2773480762, 1359893119, 2600822924, 528734635,
     1541459225]"

definition be_word :: "nat list \<Rightarrow> w32" where
  "be_word bs = foldl (\<lambda>w b. push_bit 8 w OR of_nat b) 0 bs"

definition be_bytes :: "nat \<Rightarrow> nat \<Rightarrow> nat list" where
  "be_bytes n v = map (\<lambda>i. v div 256 ^ (n - 1 - i) mod 256) [0..<n]"

definition sha_pad :: "nat list \<Rightarrow> nat list" where
  "sha_pad bs = bs @ 128 # replicate ((119 - length bs mod 64) mod 64) 0 @ be_bytes 8 (8 * length bs)"

function chunks :: "nat \<Rightarrow> 'a list \<Rightarrow> 'a list list" where
  "chunks n xs = (if xs = [] \<or> n = 0 then [] else take n xs # chunks n (drop n xs))"
  by pat_completeness auto
termination
  by (relation "measure (\<lambda>(n, xs). length xs)") auto

declare chunks.simps [simp del]

definition sha_rotr :: "nat \<Rightarrow> w32 \<Rightarrow> w32" where
  "sha_rotr n x = drop_bit n x OR push_bit (32 - n) x"

definition sha_s0 :: "w32 \<Rightarrow> w32" where
  "sha_s0 x = sha_rotr 7 x XOR sha_rotr 18 x XOR drop_bit 3 x"

definition sha_s1 :: "w32 \<Rightarrow> w32" where
  "sha_s1 x = sha_rotr 17 x XOR sha_rotr 19 x XOR drop_bit 10 x"

definition sha_S0 :: "w32 \<Rightarrow> w32" where
  "sha_S0 x = sha_rotr 2 x XOR sha_rotr 13 x XOR sha_rotr 22 x"

definition sha_S1 :: "w32 \<Rightarrow> w32" where
  "sha_S1 x = sha_rotr 6 x XOR sha_rotr 11 x XOR sha_rotr 25 x"

definition sha_ch :: "w32 \<Rightarrow> w32 \<Rightarrow> w32 \<Rightarrow> w32" where
  "sha_ch x y z = (x AND y) XOR (NOT x AND z)"

definition sha_maj :: "w32 \<Rightarrow> w32 \<Rightarrow> w32 \<Rightarrow> w32" where
  "sha_maj x y z = (x AND y) XOR (x AND z) XOR (y AND z)"

text \<open>The schedule is kept newest first: the 16 message words reversed, then 48 more on top.\<close>

fun sha_schedule :: "nat \<Rightarrow> w32 list \<Rightarrow> w32 list" where
  "sha_schedule 0 ws = ws"
| "sha_schedule (Suc n) ws =
     sha_schedule n ((sha_s1 (ws ! 1) + ws ! 6 + sha_s0 (ws ! 14) + ws ! 15) # ws)"

fun sha_round :: "w32 list \<Rightarrow> w32 \<times> w32 \<Rightarrow> w32 list" where
  "sha_round [a, b, c, d, e, f, g, h] (k, w) =
     (let t1 = h + sha_S1 e + sha_ch e f g + k + w;
          t2 = sha_S0 a + sha_maj a b c
      in [t1 + t2, a, b, c, d + t1, e, f, g])"
| "sha_round hs kw = hs"

definition sha_block :: "w32 list \<Rightarrow> nat list \<Rightarrow> w32 list" where
  "sha_block hs block =
     (let ws = rev (sha_schedule 48 (rev (map be_word (chunks 4 block))))
      in map2 (+) hs (foldl sha_round hs (zip sha_k ws)))"

definition hex_digit :: "nat \<Rightarrow> char" where
  "hex_digit d = (if d < 10 then char_of (48 + d) else char_of (87 + d))"

definition hex_word :: "w32 \<Rightarrow> string" where
  "hex_word w = map (\<lambda>i. hex_digit (unat (drop_bit i w AND 15))) [28, 24, 20, 16, 12, 8, 4, 0]"

definition sha256_hex :: "nat list \<Rightarrow> string" where
  "sha256_hex bs = concat (map hex_word (foldl sha_block sha_h0 (chunks 64 (sha_pad bs))))"

section \<open>The shape of a digest\<close>

lemma hex_digit_is_hex: "d < 16 \<Longrightarrow> is_hex_char (hex_digit d)"
  by (auto simp: hex_digit_def is_hex_char_def is_digit_char_def char_between_def char_le_of_char)

lemma low_nibble_less: "unat (x AND 15 :: w32) < 16"
proof -
  have "unat (x AND 15 :: w32) \<le> unat (15 :: w32)"
    by (rule word_and_le1 [THEN word_le_nat_alt [THEN iffD1]])
  then show ?thesis by simp
qed

lemma length_hex_word [simp]: "length (hex_word w) = 8"
  by (simp add: hex_word_def)

lemma hex_word_is_hex: "list_all is_hex_char (hex_word w)"
  by (simp add: hex_word_def hex_digit_is_hex low_nibble_less)

lemma length_sha_round: "length hs = 8 \<Longrightarrow> length (sha_round hs kw) = 8"
  by (cases "(hs, kw)" rule: sha_round.cases) (auto simp: Let_def)

lemma length_foldl_round: "length hs = 8 \<Longrightarrow> length (foldl sha_round hs kws) = 8"
  by (induction kws arbitrary: hs) (auto simp: length_sha_round)

lemma length_sha_block: "length hs = 8 \<Longrightarrow> length (sha_block hs block) = 8"
  by (simp add: sha_block_def Let_def length_foldl_round)

lemma length_foldl_block: "length hs = 8 \<Longrightarrow> length (foldl sha_block hs blocks) = 8"
  by (induction blocks arbitrary: hs) (auto simp: length_sha_block)

lemma length_concat_hex_words: "length (concat (map hex_word ws)) = 8 * length ws"
  by (induction ws) auto

lemma length_sha256_hex [simp]: "length (sha256_hex bs) = 64"
proof -
  have "length (foldl sha_block sha_h0 (chunks 64 (sha_pad bs))) = 8"
    by (rule length_foldl_block) (simp add: sha_h0_def)
  then show ?thesis by (simp add: sha256_hex_def length_concat_hex_words)
qed

lemma sha256_hex_is_hex: "list_all is_hex_char (sha256_hex bs)"
  by (auto simp: sha256_hex_def list_all_iff dest: hex_word_is_hex [unfolded list_all_iff, rule_format])

end
