(* ===== verification/Py_Json.thy ===== *)
theory Py_Json
  imports Sha256 "HOL-Library.Multiset"
begin

text \<open>
  The values the program passes around as JSON documents: what \<open>json.loads\<close> produces and
  \<open>json.dumps\<close> accepts. A dictionary keeps its insertion order. Strings are Latin-1 texts. A float
  is kept as the decimal \<open>m * 10 ^ e\<close> that \<open>repr\<close> prints for it, the three values that JSON does
  not have (NaN and the infinities) are \<open>JNonFinite\<close>.
\<close>

datatype json =
    JNull
  | JBool bool
  | JInt int
  | JDec int int
  | JNonFinite
  | JStr string
  | JArr "json list"
  | JObj "(string \<times> json) list"

section \<open>Dictionaries\<close>

fun is_obj :: "json \<Rightarrow> bool" where
  "is_obj (JObj _) = True"
| "is_obj _ = False"

fun items :: "json \<Rightarrow> (string \<times> json) list" where
  "items (JObj kvs) = kvs"
| "items _ = []"

definition keys :: "json \<Rightarrow> string list" where
  "keys d = map fst (items d)"

definition dget :: "json \<Rightarrow> string \<Rightarrow> json option" where
  "dget d k = map_of (items d) k"

text \<open>\<open>d.get(k, v)\<close>, and \<open>d[k]\<close> on documents whose field \<open>k\<close> has been checked to be there.\<close>

definition get_or :: "json \<Rightarrow> string \<Rightarrow> json \<Rightarrow> json" where
  "get_or d k v = (case dget d k of None \<Rightarrow> v | Some x \<Rightarrow> x)"

definition fld :: "json \<Rightarrow> string \<Rightarrow> json" where
  "fld d k = get_or d k JNull"

definition dset :: "json \<Rightarrow> string \<Rightarrow> json \<Rightarrow> json" where
  "dset d k v = JObj (AList.update k v (items d))"

definition dpop :: "json \<Rightarrow> string \<Rightarrow> json" where
  "dpop d k = JObj (AList.delete k (items d))"

definition dupdate :: "json \<Rightarrow> (string \<times> json) list \<Rightarrow> json" where
  "dupdate d kvs = foldl (\<lambda>d (k, v). dset d k v) d kvs"

definition has_key :: "json \<Rightarrow> string \<Rightarrow> bool" where
  "has_key d k \<longleftrightarrow> k \<in> set (keys d)"

definition dlen :: "json \<Rightarrow> int" where
  "dlen d = int (length (items d))"

text \<open>\<open>set(d) == {...}\<close> and \<open>set(d) <= {...}\<close>.\<close>

definition keys_are :: "json \<Rightarrow> string list \<Rightarrow> bool" where
  "keys_are d ks \<longleftrightarrow> list_all (\<lambda>k. k \<in> set ks) (keys d) \<and> list_all (\<lambda>k. k \<in> set (keys d)) ks"

definition keys_within :: "json \<Rightarrow> string list \<Rightarrow> bool" where
  "keys_within d ks \<longleftrightarrow> list_all (\<lambda>k. k \<in> set ks) (keys d)"

definition jarr :: "json \<Rightarrow> json list" where
  "jarr j = (case j of JArr xs \<Rightarrow> xs | _ \<Rightarrow> [])"

definition jappend :: "json \<Rightarrow> json \<Rightarrow> json" where
  "jappend j x = JArr (jarr j @ [x])"

lemma keys_simps [simp]: "keys (JObj kvs) = map fst kvs" "is_obj (dset d k v)" "is_obj (dpop d k)"
  by (simp_all add: keys_def dset_def dpop_def)

lemma jarr_simps [simp]: "jarr (JArr xs) = xs" "jarr (jappend j x) = jarr j @ [x]"
  by (simp_all add: jarr_def jappend_def)

lemma dget_JObj [simp]: "dget (JObj kvs) k = map_of kvs k"
  by (simp add: dget_def)

lemma read_JObj:
  "fld (JObj kvs) k = (case map_of kvs k of None \<Rightarrow> JNull | Some v \<Rightarrow> v)"
  "get_or (JObj kvs) k v = (case map_of kvs k of None \<Rightarrow> v | Some w \<Rightarrow> w)"
  by (simp_all add: fld_def get_or_def)

lemma dget_dset [doc_simps]: "dget (dset d k v) k' = (if k = k' then Some v else dget d k')"
  by (simp add: dset_def dget_def map_of_update)

lemma dget_dpop [doc_simps]: "dget (dpop d k) k' = (if k = k' then None else dget d k')"
  by (simp add: dpop_def dget_def map_of_delete)

lemma fld_dset [doc_simps]: "fld (dset d k v) k' = (if k = k' then v else fld d k')"
  by (simp add: fld_def get_or_def dget_dset)

lemma get_or_dset [doc_simps]: "get_or (dset d k v) k' w = (if k = k' then v else get_or d k' w)"
  by (simp add: get_or_def dget_dset)

lemma has_key_dset [doc_simps]: "has_key (dset d k v) k' \<longleftrightarrow> k' = k \<or> has_key d k'"
  by (auto simp: has_key_def keys_def dset_def keys_update)

lemma has_key_dpop [doc_simps]: "has_key (dpop d k) k' \<longleftrightarrow> k' \<noteq> k \<and> has_key d k'"
  by (force simp: has_key_def keys_def dpop_def AList.delete_eq image_iff)

lemma has_key_iff: "has_key d k \<longleftrightarrow> dget d k \<noteq> None"
  by (simp add: has_key_def keys_def dget_def map_of_eq_None_iff)

lemma has_keyE: "has_key d k \<Longrightarrow> dget d k = Some (fld d k)"
  by (auto simp: has_key_iff fld_def get_or_def)

lemma dget_Some_fld: "dget d k = Some v \<Longrightarrow> fld d k = v"
  by (simp add: fld_def get_or_def)

lemma fld_not_null: "fld d k \<noteq> JNull \<Longrightarrow> dget d k = Some (fld d k)"
  by (auto simp: fld_def get_or_def split: option.splits)

lemma dget_mem: "dget d k = Some v \<Longrightarrow> (k, v) \<in> set (items d)"
  by (simp add: dget_def map_of_SomeD)

lemma items_dset: "items (dset d k v) = AList.update k v (items d)"
  by (simp add: dset_def)

lemma keys_dset: "keys (dset d k v) = (if has_key d k then keys d else keys d @ [k])"
  by (simp add: keys_def dset_def keys_update has_key_def)

lemma set_keys_dset [simp]: "set (keys (dset d k v)) = insert k (set (keys d))"
  by (auto simp: keys_dset has_key_def)

lemma distinct_keys_dset [simp]: "distinct (keys d) \<Longrightarrow> distinct (keys (dset d k v))"
  by (auto simp: keys_dset has_key_def)

lemma distinct_keys_dpop [simp]: "distinct (keys d) \<Longrightarrow> distinct (keys (dpop d k))"
  by (simp add: keys_def dpop_def distinct_delete)

lemma set_keys_dpop [simp]: "set (keys (dpop d k)) = set (keys d) - {k}"
  by (force simp: keys_def dpop_def AList.delete_eq image_iff)

lemma dlen_keys: "dlen d = int (length (keys d))"
  by (simp add: dlen_def keys_def)

lemma dlen_card: "distinct (keys d) \<Longrightarrow> dlen d = int (card (set (keys d)))"
  by (simp add: dlen_keys distinct_card)

lemma dupdate_simps [simp]:
  "dupdate d [] = d" "dupdate d ((k, v) # kvs) = dupdate (dset d k v) kvs"
  by (simp_all add: dupdate_def)

lemma keys_are_iff: "keys_are d ks \<longleftrightarrow> set (keys d) = set ks"
  by (auto simp: keys_are_def list_all_iff)

lemma keys_within_iff: "keys_within d ks \<longleftrightarrow> set (keys d) \<subseteq> set ks"
  by (auto simp: keys_within_def list_all_iff)

lemma keys_are_has_key: "keys_are d ks \<Longrightarrow> k \<in> set ks \<Longrightarrow> has_key d k"
  by (simp add: keys_are_iff has_key_def)

lemma keys_are_dset: "keys_are d ks \<Longrightarrow> k \<in> set ks \<Longrightarrow> keys_are (dset d k v) ks"
  by (auto simp: keys_are_iff)

section \<open>Python's view of a value\<close>

definition is_jstr :: "json \<Rightarrow> bool" where
  "is_jstr j = (case j of JStr _ \<Rightarrow> True | _ \<Rightarrow> False)"

definition is_jbool :: "json \<Rightarrow> bool" where
  "is_jbool j = (case j of JBool _ \<Rightarrow> True | _ \<Rightarrow> False)"

definition is_jarr :: "json \<Rightarrow> bool" where
  "is_jarr j = (case j of JArr _ \<Rightarrow> True | _ \<Rightarrow> False)"

text \<open>\<open>isinstance(v, int) and not isinstance(v, bool)\<close>, with a lower bound where the code has one.\<close>

definition is_jint :: "json \<Rightarrow> bool" where
  "is_jint j = (case j of JInt _ \<Rightarrow> True | _ \<Rightarrow> False)"

definition int_at_least :: "int \<Rightarrow> json \<Rightarrow> bool" where
  "int_at_least lo j = (case j of JInt n \<Rightarrow> lo \<le> n | _ \<Rightarrow> False)"

definition the_str :: "json \<Rightarrow> string" where
  "the_str j = (case j of JStr s \<Rightarrow> s | _ \<Rightarrow> [])"

definition the_int :: "json \<Rightarrow> int" where
  "the_int j = (case j of JInt n \<Rightarrow> n | JBool True \<Rightarrow> 1 | _ \<Rightarrow> 0)"

definition str_sat :: "(string \<Rightarrow> bool) \<Rightarrow> json \<Rightarrow> bool" where
  "str_sat p j = (case j of JStr s \<Rightarrow> p s | _ \<Rightarrow> False)"

fun truthy :: "json \<Rightarrow> bool" where
  "truthy JNull = False"
| "truthy (JBool b) = b"
| "truthy (JInt n) = (n \<noteq> 0)"
| "truthy (JDec m e) = (m \<noteq> 0)"
| "truthy JNonFinite = True"
| "truthy (JStr s) = (s \<noteq> [])"
| "truthy (JArr xs) = (xs \<noteq> [])"
| "truthy (JObj kvs) = (kvs \<noteq> [])"

lemma is_jstrE: "is_jstr j \<Longrightarrow> \<exists>s. j = JStr s"
  by (cases j) (auto simp: is_jstr_def)

lemma str_satE: "str_sat p j \<Longrightarrow> \<exists>s. j = JStr s \<and> p s"
  by (cases j) (auto simp: str_sat_def)

lemma int_at_leastE: "int_at_least lo j \<Longrightarrow> \<exists>n. j = JInt n \<and> lo \<le> n"
  by (cases j) (auto simp: int_at_least_def)

lemma py_view_simps [simp]:
  "str_sat p (JStr s) = p s" "int_at_least lo (JInt n) = (lo \<le> n)" "is_jint (JInt n)"
  "the_str (JStr s) = s" "the_int (JInt n) = n" "is_jstr (JStr s)" "is_jbool (JBool b)"
  "is_jarr (JArr xs)" "\<not> int_at_least lo JNull" "\<not> str_sat p JNull" "\<not> is_jstr JNull" "\<not> is_jstr (JInt n)"
  "\<not> is_jint JNull" "\<not> is_jint (JStr s)" "\<not> is_jint (JBool b)"
  "\<not> is_jbool JNull" "\<not> is_jarr JNull" "is_jarr (jappend j x)" "\<not> str_sat p (JInt n)"
  by (simp_all add: str_sat_def int_at_least_def is_jint_def the_str_def the_int_def is_jstr_def
      is_jbool_def is_jarr_def jappend_def)

section \<open>Equality of values\<close>

text \<open>
  Python's \<open>==\<close> ignores the order of dictionary keys and does not tell \<open>True\<close> from \<open>1\<close> or \<open>1.0\<close>.
  Both are removed by normalising: keys sorted, numbers as a decimal with no trailing zero.
\<close>

function dec_norm :: "int \<Rightarrow> int \<Rightarrow> json" where
  "dec_norm m e = (if m = 0 then JDec 0 0 else if m mod 10 = 0 then dec_norm (m div 10) (e + 1) else JDec m e)"
  by pat_completeness auto
termination
  by (relation "measure (\<lambda>(m, e). nat \<bar>m\<bar>)") auto

declare dec_norm.simps [simp del]

definition sort_items :: "(string \<times> json) list \<Rightarrow> (string \<times> json) list" where
  "sort_items kvs = sort_key fst kvs"

fun py_norm :: "json \<Rightarrow> json" where
  "py_norm (JBool b) = dec_norm (if b then 1 else 0) 0"
| "py_norm (JInt n) = dec_norm n 0"
| "py_norm (JDec m e) = dec_norm m e"
| "py_norm (JArr xs) = JArr (map py_norm xs)"
| "py_norm (JObj kvs) = JObj (sort_items (map (\<lambda>(k, v). (k, py_norm v)) kvs))"
| "py_norm j = j"

definition jeq :: "json \<Rightarrow> json \<Rightarrow> bool" where
  "jeq a b \<longleftrightarrow> py_norm a = py_norm b"

lemma jeq_refl [simp]: "jeq a a"
  by (simp add: jeq_def)

lemma jeq_sym: "jeq a b \<Longrightarrow> jeq b a"
  by (simp add: jeq_def)

lemma jeq_trans [trans]: "jeq a b \<Longrightarrow> jeq b c \<Longrightarrow> jeq a c"
  by (simp add: jeq_def)

lemma dec_norm_is_dec: "\<exists>m' e'. dec_norm m e = JDec m' e'"
  by (induction m e rule: dec_norm.induct) (subst dec_norm.simps, auto)

lemma dec_norm_not [simp]: "dec_norm m e \<noteq> JStr s" "dec_norm m e \<noteq> JNull" "JStr s \<noteq> dec_norm m e"
  "JNull \<noteq> dec_norm m e" "dec_norm m e \<noteq> JObj kvs" "JObj kvs \<noteq> dec_norm m e"
  "dec_norm m e \<noteq> JArr xs" "JArr xs \<noteq> dec_norm m e"
  using dec_norm_is_dec [of m e] by auto

lemma jeq_JStr [simp]: "jeq (JStr s) j \<longleftrightarrow> j = JStr s" "jeq j (JStr s) \<longleftrightarrow> j = JStr s"
  by (cases j; auto simp: jeq_def)+

lemma jeq_JNull [simp]: "jeq JNull j \<longleftrightarrow> j = JNull" "jeq j JNull \<longleftrightarrow> j = JNull"
  by (cases j; auto simp: jeq_def)+

lemma map_of_sort_items: "distinct (map fst kvs) \<Longrightarrow> map_of (sort_items kvs) k = map_of kvs k"
proof -
  assume d: "distinct (map fst kvs)"
  have "mset (map fst (sort_items kvs)) = mset (map fst kvs)"
    by (simp add: sort_items_def)
  then have "distinct (map fst (sort_items kvs))"
    using d mset_eq_imp_distinct_iff by blast
  moreover have "set (sort_items kvs) = set kvs" by (simp add: sort_items_def)
  ultimately show ?thesis using d by (metis map_of_inject_set)
qed

section \<open>Canonical text\<close>

text \<open>
  \<open>json.dumps(v, ensure_ascii=False, allow_nan=False, sort_keys=True, separators=(",", ":"))\<close>.
\<close>

fun canon :: "json \<Rightarrow> json" where
  "canon (JArr xs) = JArr (map canon xs)"
| "canon (JObj kvs) = JObj (sort_items (map (\<lambda>(k, v). (k, canon v)) kvs))"
| "canon j = j"

fun finite_json :: "json \<Rightarrow> bool" where
  "finite_json JNonFinite = False"
| "finite_json (JArr xs) = list_all finite_json xs"
| "finite_json (JObj kvs) = list_all (\<lambda>(k, v). finite_json v) kvs"
| "finite_json j = True"

definition esc_char :: "char \<Rightarrow> string" where
  "esc_char c =
     (let n = (of_char c :: nat) in
      if n = 34 then [char_of (92 :: nat), c]
      else if n = 92 then [c, c]
      else if n = 10 then [char_of (92 :: nat), CHR ''n'']
      else if n = 13 then [char_of (92 :: nat), CHR ''r'']
      else if n = 9 then [char_of (92 :: nat), CHR ''t'']
      else if n = 8 then [char_of (92 :: nat), CHR ''b'']
      else if n = 12 then [char_of (92 :: nat), CHR ''f'']
      else if n < 32 then char_of (92 :: nat) # ''u00'' @ [hex_digit (n div 16), hex_digit (n mod 16)]
      else [c])"

definition quote :: "string \<Rightarrow> string" where
  "quote s = char_of (34 :: nat) # concat (map esc_char s) @ [char_of (34 :: nat)]"

text \<open>\<open>float.__repr__\<close>, from the shortest digits and the position of the decimal point.\<close>

definition float_repr :: "int \<Rightarrow> int \<Rightarrow> string" where
  "float_repr m0 e0 =
     (case dec_norm m0 e0 of
        JDec m e \<Rightarrow>
          (let sign = (if m < 0 then ''-'' else []);
               ds = nat_str (nat \<bar>m\<bar>);
               pt = (if m = 0 then 1 else int (length ds) + e)
           in if - 4 < pt \<and> pt \<le> 16
              then sign @
                (if pt \<le> 0 then ''0.'' @ replicate (nat (- pt)) (CHR ''0'') @ ds
                 else if int (length ds) \<le> pt
                 then ds @ replicate (nat pt - length ds) (CHR ''0'') @ ''.0''
                 else take (nat pt) ds @ ''.'' @ drop (nat pt) ds)
              else sign @ take 1 ds @ (if 1 < length ds then ''.'' @ drop 1 ds else []) @ ''e'' @
                (if pt < 1 then ''-'' else ''+'') @
                (if \<bar>pt - 1\<bar> < 10 then ''0'' else []) @ nat_str (nat \<bar>pt - 1\<bar>))
      | _ \<Rightarrow> [])"

fun render :: "json \<Rightarrow> string" where
  "render JNull = ''null''"
| "render (JBool b) = (if b then ''true'' else ''false'')"
| "render (JInt n) = int_str n"
| "render (JDec m e) = float_repr m e"
| "render JNonFinite = ''NaN''"
| "render (JStr s) = quote s"
| "render (JArr xs) = ''['' @ join '','' (map render xs) @ '']''"
| "render (JObj kvs) = ''{'' @ join '','' (map (\<lambda>(k, v). quote k @ '':'' @ render v) kvs) @ ''}''"

definition utf8_char :: "char \<Rightarrow> nat list" where
  "utf8_char c = (let n = of_char c in if n < 128 then [n] else [192 + n div 64, 128 + n mod 64])"

definition utf8 :: "string \<Rightarrow> nat list" where
  "utf8 s = concat (map utf8_char s)"

definition json_text :: "json \<Rightarrow> string" where
  "json_text v = render (canon v)"

definition json_hash :: "json \<Rightarrow> string" where
  "json_hash v = sha256_hex (utf8 (json_text v))"

lemma length_json_hash [simp]: "length (json_hash v) = 64"
  by (simp add: json_hash_def)

lemma json_hash_is_hex: "list_all is_hex_char (json_hash v)"
  by (simp add: json_hash_def sha256_hex_is_hex)

lemma json_hash_nonempty [simp]: "json_hash v \<noteq> []"
  using length_json_hash [of v] by (metis length_0_conv zero_neq_numeral)

section \<open>str()\<close>

definition py_quote :: "string \<Rightarrow> string" where
  "py_quote s =
     (if char_of (39 :: nat) \<in> set s \<and> char_of (34 :: nat) \<notin> set s
      then char_of (34 :: nat) # s @ [char_of (34 :: nat)]
      else char_of (39 :: nat) # s @ [char_of (39 :: nat)])"

fun py_repr :: "json \<Rightarrow> string" where
  "py_repr JNull = ''None''"
| "py_repr (JBool b) = (if b then ''True'' else ''False'')"
| "py_repr (JInt n) = int_str n"
| "py_repr (JDec m e) = float_repr m e"
| "py_repr JNonFinite = ''nan''"
| "py_repr (JStr s) = py_quote s"
| "py_repr (JArr xs) = ''['' @ join '', '' (map py_repr xs) @ '']''"
| "py_repr (JObj kvs) = ''{'' @ join '', '' (map (\<lambda>(k, v). py_quote k @ '': '' @ py_repr v) kvs) @ ''}''"

definition py_str :: "json \<Rightarrow> string" where
  "py_str j = (case j of JStr s \<Rightarrow> s | _ \<Rightarrow> py_repr j)"

lemma py_str_JStr [simp]: "py_str (JStr s) = s"
  by (simp add: py_str_def)

section \<open>Canonical text ignores the order of keys\<close>

lemma sort_items_perm:
  assumes "mset kvs = mset kvs'" and "distinct (map fst kvs)"
  shows "sort_items kvs = sort_items kvs'"
proof -
  have "inj_on fst (set kvs)"
    using assms(2) by (simp add: distinct_map)
  then show ?thesis
    unfolding sort_items_def using assms(1)
    by (intro sort_key_inj_key_eq) (simp_all add: mset_sort)
qed

section \<open>Values with distinct keys\<close>

text \<open>Python dictionaries have one value per key, at every level of a document.\<close>

fun wf_json :: "json \<Rightarrow> bool" where
  "wf_json (JArr xs) = list_all wf_json xs"
| "wf_json (JObj kvs) = (distinct (map fst kvs) \<and> list_all (\<lambda>(k, v). wf_json v) kvs)"
| "wf_json j = True"

lemma insort_key_map:
  "insort_key f (h x) (map h xs) = map h (insort_key (f \<circ> h) x xs)"
  by (induction xs) auto

lemma sort_key_map: "sort_key f (map h xs) = map h (sort_key (f \<circ> h) xs)"
  by (induction xs) (simp_all add: insort_key_map comp_def insort_key_map [unfolded comp_def])

lemma sort_items_map: "sort_items (map (\<lambda>(k, v). (k, h v)) kvs) = map (\<lambda>(k, v). (k, h v)) (sort_items kvs)"
  unfolding sort_items_def
  by (subst sort_key_map) (simp add: comp_def case_prod_unfold)

lemma sort_items_idem [simp]: "sort_items (sort_items kvs) = sort_items kvs"
  unfolding sort_items_def by (rule sorted_sort_id [OF sorted_sort_key] sort_key_id_if_sorted
    [OF sorted_sort_key])+

lemma set_sort_items [simp]: "set (sort_items kvs) = set kvs"
  by (simp add: sort_items_def)

lemma distinct_sort_items [simp]:
  "distinct (map fst (sort_items kvs)) = distinct (map fst kvs)"
proof -
  have "mset (map fst (sort_items kvs)) = mset (map fst kvs)" by (simp add: sort_items_def)
  then show ?thesis using mset_eq_imp_distinct_iff by blast
qed

lemma map_snd_cong:
  "(\<And>k v. (k, v) \<in> set kvs \<Longrightarrow> f v = g v) \<Longrightarrow> map (\<lambda>(k, v). (k, f v)) kvs = map (\<lambda>(k, v). (k, g v)) kvs"
  by auto

lemma map_pair_comp:
  "map (\<lambda>(k, v). (k, f v)) (map (\<lambda>(k, v). (k, g v)) kvs) = map (\<lambda>(k, v). (k, f (g v))) kvs"
  by (induction kvs) auto

lemma canon_JObj: "canon (JObj kvs) = JObj (map (\<lambda>(k, v). (k, canon v)) (sort_items kvs))"
  by (simp add: sort_items_map)

lemma canon_canon [simp]: "canon (canon j) = canon j"
proof (induction j)
  case (JObj kvs)
  have "map (\<lambda>(k, v). (k, canon (canon v))) (sort_items kvs) = map (\<lambda>(k, v). (k, canon v)) (sort_items kvs)"
    by (rule map_snd_cong) (use JObj in force)
  then show ?case
    by (simp only: canon_JObj sort_items_map sort_items_idem map_pair_comp)
qed auto

lemma py_norm_canon [simp]: "py_norm (canon j) = py_norm j"
proof (induction j)
  case (JObj kvs)
  have "map (\<lambda>(k, v). (k, py_norm (canon v))) (sort_items kvs) = map (\<lambda>(k, v). (k, py_norm v)) (sort_items kvs)"
    by (rule map_snd_cong) (use JObj in force)
  then show ?case
    by (simp only: canon_JObj py_norm.simps sort_items_map sort_items_idem map_pair_comp)
qed auto

lemma jeq_canon [simp]: "jeq (canon a) b = jeq a b" "jeq a (canon b) = jeq a b"
  by (simp_all add: jeq_def)

lemma keys_canon: "set (keys (canon d)) = set (keys d)"
  by (cases d) (auto simp: keys_def sort_items_map image_iff Bex_def)

lemma distinct_keys: "wf_json d \<Longrightarrow> distinct (keys d)"
  by (cases d) (simp_all add: keys_def)

lemma wf_json_canon [simp]: "wf_json j \<Longrightarrow> wf_json (canon j)"
proof (induction j)
  case (JObj kvs)
  then show ?case
    by (auto simp: sort_items_map list_all_iff comp_def case_prod_unfold)
qed (auto simp: list_all_iff)

lemma dget_canon: "wf_json d \<Longrightarrow> dget (canon d) k = map_option canon (dget d k)"
proof (cases d)
  case (JObj kvs)
  assume "wf_json d"
  then have "map_of (sort_items (map (\<lambda>(k, v). (k, canon v)) kvs)) k
      = map_of (map (\<lambda>(k, v). (k, canon v)) kvs) k"
    using JObj by (intro map_of_sort_items) (simp add: comp_def case_prod_unfold)
  then show ?thesis
    using JObj by (simp add: map_of_map)
qed (simp_all add: dget_def)

lemma fld_canon: "wf_json d \<Longrightarrow> fld (canon d) k = canon (fld d k)"
  by (simp add: fld_def get_or_def dget_canon split: option.splits)

lemma get_or_canon: "wf_json d \<Longrightarrow> get_or (canon d) k (canon v) = canon (get_or d k v)"
  by (simp add: get_or_def dget_canon split: option.splits)

lemma has_key_canon [simp]: "has_key (canon d) k = has_key d k"
  by (simp add: has_key_def keys_canon)

lemma wf_json_dget: "wf_json d \<Longrightarrow> dget d k = Some v \<Longrightarrow> wf_json v"
  by (cases d) (auto simp: list_all_iff dget_def dest: map_of_SomeD)

lemma wf_json_fld [simp]: "wf_json d \<Longrightarrow> wf_json (fld d k)"
  using wf_json_dget by (auto simp: fld_def get_or_def split: option.splits)

lemma set_update_subset: "set (AList.update k v kvs) \<subseteq> insert (k, v) (set kvs)"
  by (induction kvs) auto

lemma wf_json_dset [simp]: "wf_json d \<Longrightarrow> wf_json v \<Longrightarrow> wf_json (dset d k v)"
  using set_update_subset [of k v "items d"]
  by (cases d) (auto simp: dset_def list_all_iff distinct_update)

lemma wf_json_dpop [simp]: "wf_json d \<Longrightarrow> wf_json (dpop d k)"
proof (cases d)
  case (JObj kvs)
  assume "wf_json d"
  moreover have "set (AList.delete k kvs) \<subseteq> set kvs" by (auto simp: AList.delete_eq)
  ultimately show ?thesis
    using JObj by (auto simp: dpop_def list_all_iff distinct_delete)
qed (simp_all add: dpop_def)

lemma canon_scalar [simp]: "is_jstr j \<Longrightarrow> canon j = j" "is_jint j \<Longrightarrow> canon j = j"
  by (cases j; simp add: is_jstr_def is_jint_def)+

lemma canon_eq_scalar [simp]:
  "canon j = JStr s \<longleftrightarrow> j = JStr s" "canon j = JNull \<longleftrightarrow> j = JNull" "canon j = JInt n \<longleftrightarrow> j = JInt n"
  "canon j = JBool b \<longleftrightarrow> j = JBool b"
  by (cases j; simp)+

lemma canon_views [simp]:
  "str_sat p (canon j) = str_sat p j" "int_at_least n (canon j) = int_at_least n j"
  "is_obj (canon j) = is_obj j" "is_jstr (canon j) = is_jstr j" "is_jarr (canon j) = is_jarr j"
  "is_jbool (canon j) = is_jbool j" "is_jint (canon j) = is_jint j" "the_str (canon j) = the_str j"
  "the_int (canon j) = the_int j"
  by (cases j; simp add: str_sat_def int_at_least_def is_jstr_def is_jarr_def is_jbool_def is_jint_def
      the_str_def the_int_def sort_items_def)+

lemma truthy_canon [simp]: "truthy (canon j) = truthy j"
proof (cases j)
  case (JObj kvs)
  have "sort_items (map (\<lambda>(k, v). (k, canon v)) kvs) = [] \<longleftrightarrow> kvs = []"
    using set_sort_items [of "map (\<lambda>(k, v). (k, canon v)) kvs"]
    by (metis list.map_disc_iff set_empty)
  then show ?thesis using JObj by simp
qed simp_all

lemma keys_are_canon [simp]: "keys_are (canon d) ks = keys_are d ks"
  by (simp add: keys_are_iff keys_canon)

lemma dlen_canon [simp]: "dlen (canon d) = dlen d"
  by (cases d) (simp_all add: dlen_def sort_items_def)

lemma finite_json_canon [simp]: "finite_json (canon j) = finite_json j"
proof (induction j)
  case (JObj kvs)
  then show ?case
    by (force simp: sort_items_map list_all_iff case_prod_unfold)
qed (auto simp: list_all_iff)

lemma jarr_canon: "jarr (canon j) = map canon (jarr j)"
  by (cases j) (simp_all add: jarr_def)

lemma sort_items_filter: "sort_items (filter P kvs) = filter P (sort_items kvs)"
  by (simp add: sort_items_def filter_sort)

lemma canon_dpop: "canon (dpop d k) = dpop (canon d) k"
proof (cases d)
  case (JObj kvs)
  have "map (\<lambda>(k, v). (k, canon v)) (filter (\<lambda>p. k \<noteq> fst p) xs)
      = filter (\<lambda>p. k \<noteq> fst p) (map (\<lambda>(k, v). (k, canon v)) xs)" for xs
    by (induction xs) auto
  then show ?thesis
    using JObj by (simp only: dpop_def items.simps canon_JObj AList.delete_eq case_prod_unfold
        sort_items_filter)
qed (simp_all add: dpop_def sort_items_def)

lemma json_hash_canon [simp]: "json_hash (canon j) = json_hash j"
  by (simp add: json_hash_def json_text_def)

end
