(* ===== verification/Py_Time.thy ===== *)
theory Py_Time
  imports Prelude
begin

text \<open>
  Instants. The program only handles aware UTC datetimes; one is the number of microseconds since
  1970-01-01T00:00:00Z, which is the resolution of Python's \<open>datetime\<close>. The text form is the
  \<open>Z\<close> form of the schemas: a shape check as the program's regular expression makes it, then the
  calendar check of \<open>datetime.fromisoformat\<close>. The main result is that formatting an instant of the
  years 1 to 9999 and parsing the text gives the instant back.
\<close>

section \<open>The proleptic Gregorian calendar\<close>

definition is_leap :: "int \<Rightarrow> bool" where
  "is_leap y \<longleftrightarrow> y mod 4 = 0 \<and> (y mod 100 \<noteq> 0 \<or> y mod 400 = 0)"

definition days_before_year :: "int \<Rightarrow> int" where
  "days_before_year y = (let a = y - 1 in 365 * a + a div 4 - a div 100 + a div 400)"

definition month_start :: "bool \<Rightarrow> int \<Rightarrow> int" where
  "month_start leap m =
     (let l = (if leap then 1 else 0) in
      if m \<le> 1 then 0 else if m = 2 then 31 else if m = 3 then 59 + l else if m = 4 then 90 + l
      else if m = 5 then 120 + l else if m = 6 then 151 + l else if m = 7 then 181 + l
      else if m = 8 then 212 + l else if m = 9 then 243 + l else if m = 10 then 273 + l
      else if m = 11 then 304 + l else if m = 12 then 334 + l else 365 + l)"

definition days_in_month :: "int \<Rightarrow> int \<Rightarrow> int" where
  "days_in_month y m = month_start (is_leap y) (m + 1) - month_start (is_leap y) m"

definition month_of :: "bool \<Rightarrow> int \<Rightarrow> int" where
  "month_of leap n =
     (if n < month_start leap 2 then 1 else if n < month_start leap 3 then 2
      else if n < month_start leap 4 then 3 else if n < month_start leap 5 then 4
      else if n < month_start leap 6 then 5 else if n < month_start leap 7 then 6
      else if n < month_start leap 8 then 7 else if n < month_start leap 9 then 8
      else if n < month_start leap 10 then 9 else if n < month_start leap 11 then 10
      else if n < month_start leap 12 then 11 else 12)"

text \<open>Day numbers count from 0 at 0001-01-01.\<close>

definition day_number :: "int \<Rightarrow> int \<Rightarrow> int \<Rightarrow> int" where
  "day_number y m d = days_before_year y + month_start (is_leap y) m + d - 1"

definition year_of_day :: "int \<Rightarrow> int" where
  "year_of_day n =
     (let r400 = n mod 146097;
          c = min 3 (r400 div 36524); r100 = r400 - 36524 * c;
          r4 = r100 mod 1461;
          g = min 3 (r4 div 365)
      in 400 * (n div 146097) + 100 * c + 4 * (r100 div 1461) + g + 1)"

definition civil_of_day :: "int \<Rightarrow> int \<times> int \<times> int" where
  "civil_of_day n =
     (let y = year_of_day n; r = n - days_before_year y; m = month_of (is_leap y) r
      in (y, m, r - month_start (is_leap y) m + 1))"

definition valid_date :: "int \<Rightarrow> int \<Rightarrow> int \<Rightarrow> bool" where
  "valid_date y m d \<longleftrightarrow> 1 \<le> y \<and> y \<le> 9999 \<and> 1 \<le> m \<and> m \<le> 12 \<and> 1 \<le> d \<and> d \<le> days_in_month y m"

text \<open>Monday is 0, as \<open>date.weekday\<close> has it; 0001-01-01 was a Monday.\<close>

definition weekday :: "int \<Rightarrow> int" where
  "weekday n = n mod 7"

definition epoch_day :: int where
  "epoch_day = 719162"

definition day_micros :: int where
  "day_micros = 86400000000"

lemma epoch_day_is_1970: "day_number 1970 1 1 = epoch_day"
  by (simp add: day_number_def days_before_year_def is_leap_def month_start_def epoch_day_def Let_def)

definition year_len :: "int \<Rightarrow> int" where
  "year_len y = (if is_leap y then 366 else 365)"

text \<open>A year as 400-, 100-, 4- and 1-year steps after the year 1.\<close>

lemma div_mod_eq:
  fixes x b q r :: int
  assumes "x = b * q + r" and "0 \<le> r" and "r < b"
  shows "x div b = q" and "x mod b = r"
  using assms int_div_pos_eq int_mod_pos_eq by metis+

lemma split_year:
  fixes y :: int
  obtains q c f g where "y = 400 * q + 100 * c + 4 * f + g + 1"
    and "0 \<le> c" "c \<le> 3" "0 \<le> f" "f \<le> 24" "0 \<le> g" "g \<le> 3"
proof
  let ?a = "y - 1"
  show "y = 400 * (?a div 400) + 100 * (?a mod 400 div 100) + 4 * (?a mod 400 mod 100 div 4)
      + ?a mod 400 mod 100 mod 4 + 1"
    by (simp add: algebra_simps)
  show "0 \<le> ?a mod 400 div 100" "0 \<le> ?a mod 400 mod 100 div 4" "0 \<le> ?a mod 400 mod 100 mod 4"
    by (simp_all add: pos_imp_zdiv_nonneg_iff)
  have "?a mod 400 < 400" "?a mod 400 mod 100 < 100" "?a mod 400 mod 100 mod 4 < 4" by simp_all
  then show "?a mod 400 div 100 \<le> 3" "?a mod 400 mod 100 div 4 \<le> 24" "?a mod 400 mod 100 mod 4 \<le> 3"
    by linarith+
qed

lemma leap_split:
  assumes "y = 400 * q + 100 * c + 4 * f + g + 1"
    and "0 \<le> c" "c \<le> 3" "0 \<le> f" "f \<le> 24" "0 \<le> g" "g \<le> (3 :: int)"
  shows "is_leap y \<longleftrightarrow> g = 3 \<and> (f = 24 \<longrightarrow> c = 3)"
proof (cases "g = 3")
  case False
  have "y mod 4 = g + 1"
    using assms False by (intro div_mod_eq(2) [where q = "100 * q + 25 * c + f"]) auto
  with False assms(6) show ?thesis by (simp add: is_leap_def)
next
  case g: True
  have m4: "y mod 4 = 0"
    using assms g by (intro div_mod_eq(2) [where q = "100 * q + 25 * c + f + 1"]) auto
  show ?thesis
  proof (cases "f = 24")
    case False
    have "y mod 100 = 4 * f + 4"
      using assms g False by (intro div_mod_eq(2) [where q = "4 * q + c"]) auto
    with m4 False g assms(4) show ?thesis by (simp add: is_leap_def)
  next
    case f: True
    have m100: "y mod 100 = 0"
      using assms f g by (intro div_mod_eq(2) [where q = "4 * q + c + 1"]) auto
    have "y mod 400 = (if c = 3 then 0 else 100 * c + 100)"
    proof (cases "c = 3")
      case True
      then show ?thesis
        using assms f g by (auto intro!: div_mod_eq(2) [where q = "q + 1"])
    next
      case False
      then show ?thesis
        using assms f g by (auto intro!: div_mod_eq(2) [where q = q])
    qed
    with m4 m100 f g assms(2) show ?thesis by (simp add: is_leap_def)
  qed
qed

lemma days_before_year_split:
  assumes "y = 400 * q + 100 * c + 4 * f + g + 1"
    and "0 \<le> c" "c \<le> 3" "0 \<le> f" "f \<le> 24" "0 \<le> g" "g \<le> (3 :: int)"
  shows "days_before_year y = 146097 * q + 36524 * c + 1461 * f + 365 * g"
proof -
  have "(y - 1) div 4 = 100 * q + 25 * c + f"
    using assms by (intro div_mod_eq(1) [where r = g]) auto
  moreover have "(y - 1) div 100 = 4 * q + c"
    using assms by (intro div_mod_eq(1) [where r = "4 * f + g"]) auto
  moreover have "(y - 1) div 400 = q"
    using assms by (intro div_mod_eq(1) [where r = "100 * c + 4 * f + g"]) auto
  ultimately show ?thesis using assms(1) by (simp add: days_before_year_def Let_def)
qed

text \<open>The last day of a leap cycle lies on the fifth slot of its division, hence the two minima.\<close>

lemma capped_div:
  fixes b q r :: int
  assumes "0 \<le> r" and "r < b \<or> q = 3 \<and> r = b" and "q \<le> 3" and "0 < b"
  shows "min 3 ((b * q + r) div b) = q"
proof (cases "r < b")
  case True
  with assms show ?thesis using div_mod_eq(1) [of "b * q + r" b q r] by simp
next
  case False
  with assms have "b * q + r = b * 4" "q = 3" by auto
  with assms(4) show ?thesis by simp
qed

lemma year_of_day_correct:
  assumes "0 \<le> r" and "r < year_len y"
  shows "year_of_day (days_before_year y + r) = y"
proof -
  obtain q c f g where y: "y = 400 * q + 100 * c + 4 * f + g + 1"
    and b: "0 \<le> c" "c \<le> 3" "0 \<le> f" "f \<le> 24" "0 \<le> g" "g \<le> 3"
    by (rule split_year)
  have r: "r < 365 \<or> r = 365 \<and> g = 3 \<and> (f = 24 \<longrightarrow> c = 3)"
    using assms(2) leap_split [OF y b] by (auto simp: year_len_def split: if_splits)
  define u where "u = 365 * g + r"
  define t where "t = 1461 * f + u"
  define s where "s = 36524 * c + t"
  have u: "0 \<le> u" "u < 1461" using r b assms(1) by (auto simp: u_def)
  have t: "0 \<le> t" "t < 36524 \<or> c = 3 \<and> t = 36524"
    using r b assms(1) by (cases "f = 24"; auto simp: u_def t_def)+
  have s: "0 \<le> s" "s < 146097" using t b by (auto simp: s_def)
  have n: "days_before_year y + r = 146097 * q + s"
    using days_before_year_split [OF y b] by (simp add: s_def t_def u_def)
  have 1: "(146097 * q + s) div 146097 = q" "(146097 * q + s) mod 146097 = s"
    using s by (auto intro: div_mod_eq)
  have 2: "min 3 (s div 36524) = c"
    using t b unfolding s_def by (intro capped_div) auto
  have 3: "t div 1461 = f" "t mod 1461 = u"
    using u by (auto simp: t_def intro: div_mod_eq)
  have 4: "min 3 (u div 365) = g"
    using r b assms(1) unfolding u_def by (intro capped_div) auto
  have 5: "s - 36524 * c = t" by (simp add: s_def)
  have "year_of_day (146097 * q + s) = 400 * q + 100 * c + 4 * f + g + 1"
    unfolding year_of_day_def Let_def 1 2 5 3 4 by (rule refl)
  then show ?thesis unfolding n using y by simp
qed

lemma month_start_values [simp]:
  "month_start l 1 = 0" "month_start l 2 = 31" "month_start l 3 = (if l then 60 else 59)"
  "month_start l 4 = (if l then 91 else 90)" "month_start l 5 = (if l then 121 else 120)"
  "month_start l 6 = (if l then 152 else 151)" "month_start l 7 = (if l then 182 else 181)"
  "month_start l 8 = (if l then 213 else 212)" "month_start l 9 = (if l then 244 else 243)"
  "month_start l 10 = (if l then 274 else 273)" "month_start l 11 = (if l then 305 else 304)"
  "month_start l 12 = (if l then 335 else 334)" "month_start l 13 = (if l then 366 else 365)"
  by (simp_all add: month_start_def)

lemma month_cases:
  assumes "1 \<le> m" and "m \<le> (12 :: int)"
  shows "m = 1 \<or> m = 2 \<or> m = 3 \<or> m = 4 \<or> m = 5 \<or> m = 6 \<or> m = 7 \<or> m = 8 \<or> m = 9 \<or> m = 10 \<or> m = 11 \<or> m = 12"
  using assms by arith

lemma month_of_correct:
  assumes "1 \<le> m" and "m \<le> 12" and "0 \<le> k" and "k < month_start leap (m + 1) - month_start leap m"
  shows "month_of leap (month_start leap m + k) = m"
  using month_cases [OF assms(1,2)] assms(3,4)
  by (cases leap; elim disjE) (simp_all add: month_of_def)

lemma month_start_bounds:
  assumes "1 \<le> m" and "m \<le> 12"
  shows "0 \<le> month_start leap m" and "month_start leap (m + 1) \<le> (if leap then 366 else 365)"
  using month_cases [OF assms] by (elim disjE; simp)+

lemma civil_of_day_number:
  assumes "valid_date y m d"
  shows "civil_of_day (day_number y m d) = (y, m, d)"
proof -
  let ?r = "month_start (is_leap y) m + (d - 1)"
  have v: "1 \<le> m" "m \<le> 12" "1 \<le> d" "d \<le> days_in_month y m"
    using assms by (auto simp: valid_date_def)
  have "0 \<le> ?r" "?r < year_len y"
    using v month_start_bounds [OF v(1,2), of "is_leap y"]
    by (auto simp: days_in_month_def year_len_def split: if_splits)
  then have "year_of_day (days_before_year y + ?r) = y" by (rule year_of_day_correct)
  moreover have "month_of (is_leap y) ?r = m"
    using v by (intro month_of_correct) (auto simp: days_in_month_def)
  moreover have "day_number y m d = days_before_year y + ?r" by (simp add: day_number_def)
  ultimately show ?thesis by (simp add: civil_of_day_def Let_def)
qed

lemma day_split:
  fixes n :: int
  shows "0 \<le> n - days_before_year (year_of_day n)"
    and "n - days_before_year (year_of_day n) < year_len (year_of_day n)"
proof -
  define s where "s = n mod 146097"
  define c where "c = min 3 (s div 36524)"
  define t where "t = s - 36524 * c"
  define f where "f = t div 1461"
  define u where "u = t mod 1461"
  define g where "g = min 3 (u div 365)"
  define r where "r = u - 365 * g"
  have s: "0 \<le> s" "s < 146097" by (simp_all add: s_def)
  have c: "0 \<le> c" "c \<le> 3" using s by (simp_all add: c_def pos_imp_zdiv_nonneg_iff)
  have t: "0 \<le> t" "t < 36524 \<or> c = 3 \<and> t = 36524"
  proof -
    have "36524 * (s div 36524) + s mod 36524 = s" "0 \<le> s mod 36524" "s mod 36524 < 36524" by simp_all
    then show "0 \<le> t" "t < 36524 \<or> c = 3 \<and> t = 36524"
      using s(2) unfolding t_def c_def min_def by (auto split: if_splits)
  qed
  have tu: "t = 1461 * f + u" "0 \<le> u" "u < 1461" by (simp_all add: f_def u_def)
  have f: "0 \<le> f" "f \<le> 24" using t tu by (linarith)+
  have g: "0 \<le> g" "g \<le> 3" using tu by (simp_all add: g_def pos_imp_zdiv_nonneg_iff)
  have r: "0 \<le> r" "r < 365 \<or> g = 3 \<and> r = 365"
  proof -
    have "365 * (u div 365) + u mod 365 = u" "0 \<le> u mod 365" "u mod 365 < 365" by simp_all
    then show "0 \<le> r" "r < 365 \<or> g = 3 \<and> r = 365"
      using tu(3) unfolding r_def g_def min_def by (auto split: if_splits)
  qed
  have y: "year_of_day n = 400 * (n div 146097) + 100 * c + 4 * f + g + 1"
    unfolding year_of_day_def Let_def s_def [symmetric] c_def [symmetric] t_def [symmetric]
      f_def [symmetric] u_def [symmetric] g_def [symmetric] by (rule refl)
  have "n = 146097 * (n div 146097) + s" by (simp add: s_def)
  then have n: "n - days_before_year (year_of_day n) = r"
    using days_before_year_split [OF y c f g] tu(1) by (simp add: t_def r_def)
  have "f = 24 \<longrightarrow> c = 3" if "r = 365" "g = 3" using that t tu(1) by (auto simp: r_def)
  then have "r < year_len (year_of_day n)"
    using r leap_split [OF y c f g] by (auto simp: year_len_def)
  with n r(1) show "0 \<le> n - days_before_year (year_of_day n)"
    and "n - days_before_year (year_of_day n) < year_len (year_of_day n)" by simp_all
qed

lemma month_of_props:
  assumes "0 \<le> r" and "r < (if leap then 366 else 365)"
  shows "1 \<le> month_of leap r" and "month_of leap r \<le> 12" and "month_start leap (month_of leap r) \<le> r"
    and "r < month_start leap (month_of leap r + 1)"
  using assms by (cases leap; simp add: month_of_def)+

lemma civil_of_day_props:
  assumes "civil_of_day n = (y, m, d)"
  shows "day_number y m d = n" and "1 \<le> m" and "m \<le> 12" and "1 \<le> d" and "d \<le> days_in_month y m"
    and "y = year_of_day n"
proof -
  let ?r = "n - days_before_year (year_of_day n)"
  have r: "0 \<le> ?r" "?r < (if is_leap (year_of_day n) then 366 else 365)"
    using day_split [of n] by (auto simp: year_len_def split: if_splits)
  note m = month_of_props [OF r]
  have eq: "y = year_of_day n" "m = month_of (is_leap y) ?r" "d = ?r - month_start (is_leap y) m + 1"
    using assms by (auto simp: civil_of_day_def Let_def)
  show "y = year_of_day n" by (rule eq)
  show "day_number y m d = n" using eq by (simp add: day_number_def)
  show "1 \<le> m" "m \<le> 12" "1 \<le> d" "d \<le> days_in_month y m"
    using m eq by (auto simp: days_in_month_def)
qed

definition max_day :: int where
  "max_day = 3652058"

lemma div_step:
  fixes y k :: int
  assumes "0 < k"
  shows "y div k = (y - 1) div k + (if y mod k = 0 then 1 else 0)"
proof (cases "y mod k = 0")
  case True
  have "y - 1 = k * (y div k - 1) + (k - 1)"
    using True mult_div_mod_eq [of k y] by (simp add: algebra_simps)
  then have "(y - 1) div k = y div k - 1"
    using assms by (intro div_mod_eq(1) [where r = "k - 1"]) auto
  with True show ?thesis by simp
next
  case False
  have "y - 1 = k * (y div k) + (y mod k - 1)"
    using mult_div_mod_eq [of k y] by simp
  moreover have "0 \<le> y mod k" "y mod k < k" using assms by simp_all
  ultimately have "(y - 1) div k = y div k" using False by (intro div_mod_eq(1) [where r = "y mod k - 1"]) auto
  with False show ?thesis by simp
qed

lemma leap_count:
  fixes A B C A' B' C' :: int
  assumes "A = A' + (if p4 then 1 else 0)" and "B = B' + (if p100 then 1 else 0)"
    and "C = C' + (if p400 then 1 else 0)" and "p400 \<Longrightarrow> p100" and "p100 \<Longrightarrow> p4"
  shows "A - B + C = A' - B' + C' + (if p4 \<and> (\<not> p100 \<or> p400) then 1 else 0)"
  using assms by (cases p4; cases p100; cases p400) simp_all

lemma days_before_next_year: "days_before_year (y + 1) = days_before_year y + year_len y"
proof -
  have 1: "y mod 400 = 0 \<Longrightarrow> y mod 100 = 0"
    unfolding mod_eq_0_iff_dvd by (rule dvd_trans [of 100 400]) simp_all
  have 2: "y mod 100 = 0 \<Longrightarrow> y mod 4 = 0"
    unfolding mod_eq_0_iff_dvd by (rule dvd_trans [of 4 100]) simp_all
  define A B C where "A = y div 4" and "B = y div 100" and "C = y div 400"
  define A' B' C' where "A' = (y - 1) div 4" and "B' = (y - 1) div 100" and "C' = (y - 1) div 400"
  define L where "L = (if y mod 4 = 0 \<and> (\<not> y mod 100 = 0 \<or> y mod 400 = 0) then 1 else 0 :: int)"
  have "A - B + C = A' - B' + C' + L"
    unfolding L_def A_def B_def C_def A'_def B'_def C'_def
    by (rule leap_count [OF div_step div_step div_step 1 2]) simp_all
  moreover have "days_before_year (y + 1) = 365 * y + A - B + C"
    by (simp only: days_before_year_def Let_def A_def B_def C_def add_diff_cancel_right')
  moreover have "days_before_year y = 365 * (y - 1) + A' - B' + C'"
    by (simp only: days_before_year_def Let_def A'_def B'_def C'_def)
  moreover have "year_len y = 365 + L"
    by (simp add: year_len_def is_leap_def L_def)
  ultimately show ?thesis by simp
qed

lemma days_before_year_mono:
  assumes "y \<le> z"
  shows "days_before_year y \<le> days_before_year z"
  using assms
proof (induction z rule: int_ge_induct)
  case base
  show ?case by simp
next
  case (step z)
  then show ?case by (simp add: days_before_next_year year_len_def)
qed

lemma year_of_day_range:
  assumes "0 \<le> n" and "n \<le> max_day"
  shows "1 \<le> year_of_day n" and "year_of_day n \<le> 9999"
proof -
  show "1 \<le> year_of_day n"
  proof (rule ccontr)
    assume "\<not> 1 \<le> year_of_day n"
    then have "days_before_year (year_of_day n + 1) \<le> days_before_year 1"
      by (intro days_before_year_mono) simp
    with day_split(2) [of n] assms(1) show False
      by (simp add: days_before_next_year) (simp add: days_before_year_def)
  qed
  show "year_of_day n \<le> 9999"
  proof (rule ccontr)
    assume "\<not> year_of_day n \<le> 9999"
    then have "days_before_year 10000 \<le> days_before_year (year_of_day n)"
      by (intro days_before_year_mono) simp
    with day_split(1) [of n] assms(2) show False
      by (simp add: days_before_year_def Let_def max_day_def)
  qed
qed

section \<open>The text form\<close>

text \<open>
  \<open>UTC_RE\<close>: date, \<open>T\<close>, time, an optional fraction of one to six digits, \<open>Z\<close>. A pattern is a text
  in which \<open>d\<close> stands for a digit and any other character for itself.
\<close>

fun pattern_ok :: "string \<Rightarrow> string \<Rightarrow> bool" where
  "pattern_ok [] [] = True"
| "pattern_ok (p # ps) (c # cs) =
     ((if p = CHR ''d'' then is_digit_char c else c = p) \<and> pattern_ok ps cs)"
| "pattern_ok _ _ = False"

definition fraction_digits :: "string \<Rightarrow> string" where
  "fraction_digits s = butlast (drop 20 s)"

definition utc_shape :: "string \<Rightarrow> bool" where
  "utc_shape s \<longleftrightarrow>
     pattern_ok ''dddd-dd-ddTdd:dd:dd'' (take 19 s) \<and>
     (drop 19 s = ''Z'' \<or>
      (20 < length s \<and> s ! 19 = CHR ''.'' \<and> last s = CHR ''Z'' \<and>
       list_all is_digit_char (fraction_digits s) \<and>
       1 \<le> length (fraction_digits s) \<and> length (fraction_digits s) \<le> 6))"

definition int_field :: "string \<Rightarrow> nat \<Rightarrow> nat \<Rightarrow> int" where
  "int_field s i n = int (str_nat (take n (drop i s)))"

definition fraction_micros :: "string \<Rightarrow> int" where
  "fraction_micros s =
     (let ds = fraction_digits s in int (str_nat (ds @ replicate (6 - length ds) (CHR ''0''))))"

definition utc_micros :: "string \<Rightarrow> int option" where
  "utc_micros s =
     (let y = int_field s 0 4; mo = int_field s 5 2; d = int_field s 8 2;
          h = int_field s 11 2; mi = int_field s 14 2; sec = int_field s 17 2
      in if valid_date y mo d \<and> h \<le> 23 \<and> mi \<le> 59 \<and> sec \<le> 59
         then Some ((day_number y mo d - epoch_day) * day_micros
                    + ((h * 60 + mi) * 60 + sec) * 1000000 + fraction_micros s)
         else None)"

definition pad2 :: "nat \<Rightarrow> string" where
  "pad2 n = [digit_char (n div 10), digit_char (n mod 10)]"

definition pad4 :: "nat \<Rightarrow> string" where
  "pad4 n = pad2 (n div 100) @ pad2 (n mod 100)"

definition pad6 :: "nat \<Rightarrow> string" where
  "pad6 n = pad2 (n div 10000) @ pad4 (n mod 10000)"

definition strip_zeros :: "string \<Rightarrow> string" where
  "strip_zeros s = rev (dropWhile (\<lambda>c. c = CHR ''0'') (rev s))"

definition utc_text :: "int \<Rightarrow> string" where
  "utc_text t =
     (let (y, mo, d) = civil_of_day (t div day_micros + epoch_day);
          r = nat (t mod day_micros); sec = r div 1000000;
          tail = strip_zeros (pad6 (r mod 1000000))
      in pad4 (nat y) @ ''-'' @ pad2 (nat mo) @ ''-'' @ pad2 (nat d) @ ''T'' @
         pad2 (sec div 3600) @ '':'' @ pad2 (sec div 60 mod 60) @ '':'' @ pad2 (sec mod 60) @
         (if tail = [] then [] else ''.'' @ tail) @ ''Z'')"

definition in_calendar :: "int \<Rightarrow> bool" where
  "in_calendar t \<longleftrightarrow> 0 \<le> t div day_micros + epoch_day \<and> t div day_micros + epoch_day \<le> max_day"

section \<open>Formatting and parsing back\<close>

lemma pad_lengths [simp]: "length (pad2 n) = 2" "length (pad4 n) = 4" "length (pad6 n) = 6"
  by (simp_all add: pad2_def pad4_def pad6_def)

lemma pad2_is_digits: "n < 100 \<Longrightarrow> list_all is_digit_char (pad2 n)"
  by (simp add: pad2_def)

lemma pad4_is_digits: "n < 10000 \<Longrightarrow> list_all is_digit_char (pad4 n)"
  by (simp add: pad4_def pad2_is_digits)

lemma pad6_is_digits: "n < 1000000 \<Longrightarrow> list_all is_digit_char (pad6 n)"
  by (simp add: pad6_def pad2_is_digits pad4_is_digits)

lemma str_nat_append: "str_nat (xs @ ys) = str_nat xs * 10 ^ length ys + str_nat ys"
proof (induction ys rule: rev_induct)
  case Nil
  show ?case by (simp add: str_nat_def)
next
  case (snoc y ys)
  have "str_nat (xs @ ys @ [y]) = 10 * str_nat (xs @ ys) + digit_val y"
    using str_nat_snoc [of "xs @ ys" y] by simp
  with snoc.IH show ?case by (simp add: str_nat_snoc algebra_simps)
qed

lemma str_nat_pad2: "n < 100 \<Longrightarrow> str_nat (pad2 n) = n"
  by (simp add: pad2_def str_nat_def)

lemma str_nat_pad4: "n < 10000 \<Longrightarrow> str_nat (pad4 n) = n"
  by (simp add: pad4_def str_nat_append str_nat_pad2)

lemma str_nat_pad6: "n < 1000000 \<Longrightarrow> str_nat (pad6 n) = n"
  by (simp add: pad6_def str_nat_append str_nat_pad2 str_nat_pad4)

lemma strip_zeros_restore:
  "strip_zeros s @ replicate (length s - length (strip_zeros s)) (CHR ''0'') = s"
proof -
  let ?P = "\<lambda>c. c = CHR ''0''"
  have zeros: "takeWhile ?P xs = replicate (length (takeWhile ?P xs)) (CHR ''0'')" for xs
    by (induction xs) auto
  have split: "s = strip_zeros s @ rev (takeWhile ?P (rev s))"
    unfolding strip_zeros_def by (metis rev_append rev_rev_ident takeWhile_dropWhile_id)
  then have "length s = length (strip_zeros s) + length (takeWhile ?P (rev s))"
    by (metis length_append length_rev)
  then have "rev (takeWhile ?P (rev s)) = replicate (length s - length (strip_zeros s)) (CHR ''0'')"
    using zeros [of "rev s"] by (metis add_diff_cancel_left' rev_replicate)
  with split show ?thesis by simp
qed

lemma strip_zeros_digits: "list_all is_digit_char s \<Longrightarrow> list_all is_digit_char (strip_zeros s)"
  by (auto simp: strip_zeros_def list_all_iff dest: set_dropWhileD)

lemma strip_zeros_length: "length (strip_zeros s) \<le> length s"
  by (simp add: strip_zeros_def) (metis length_dropWhile_le length_rev)

lemma pattern_ok_append:
  "length ps = length cs \<Longrightarrow> pattern_ok (ps @ ps') (cs @ cs') \<longleftrightarrow> pattern_ok ps cs \<and> pattern_ok ps' cs'"
  by (induction ps cs rule: list_induct2) auto

lemma pattern_ok_pad2: "n < 100 \<Longrightarrow> pattern_ok ''dd'' (pad2 n)"
  by (simp add: pad2_def)

text \<open>The nineteen characters in front of the fraction, from their six fields.\<close>

definition clock_text :: "nat \<Rightarrow> nat \<Rightarrow> nat \<Rightarrow> nat \<Rightarrow> nat \<Rightarrow> nat \<Rightarrow> string" where
  "clock_text y mo d h mi sec =
     pad4 y @ ''-'' @ pad2 mo @ ''-'' @ pad2 d @ ''T'' @ pad2 h @ '':'' @ pad2 mi @ '':'' @ pad2 sec"

definition micro_tail :: "nat \<Rightarrow> string" where
  "micro_tail u = (let tail = strip_zeros (pad6 u) in (if tail = [] then [] else ''.'' @ tail) @ ''Z'')"

lemma length_clock_text [simp]: "length (clock_text y mo d h mi sec) = 19"
  by (simp add: clock_text_def)

lemma clock_text_shape:
  assumes "y < 10000" "mo < 100" "d < 100" "h < 100" "mi < 100" "sec < 100"
  shows "pattern_ok ''dddd-dd-ddTdd:dd:dd'' (clock_text y mo d h mi sec)"
  using assms by (simp add: clock_text_def pad4_def pad2_def)

lemma clock_text_fields:
  assumes "y < 10000" "mo < 100" "d < 100" "h < 100" "mi < 100" "sec < 100"
  shows "int_field (clock_text y mo d h mi sec @ z) 0 4 = int y"
    "int_field (clock_text y mo d h mi sec @ z) 5 2 = int mo"
    "int_field (clock_text y mo d h mi sec @ z) 8 2 = int d"
    "int_field (clock_text y mo d h mi sec @ z) 11 2 = int h"
    "int_field (clock_text y mo d h mi sec @ z) 14 2 = int mi"
    "int_field (clock_text y mo d h mi sec @ z) 17 2 = int sec"
  using assms
  by (simp_all add: int_field_def clock_text_def str_nat_pad4 str_nat_pad2)

lemma micro_tail_digits:
  "length c = 19 \<Longrightarrow> fraction_digits (c @ micro_tail u) = strip_zeros (pad6 u)"
  by (simp add: fraction_digits_def micro_tail_def Let_def)

lemma micro_tail_shape:
  assumes "u < 1000000" and "length c = 19"
  shows "utc_shape (c @ micro_tail u) \<longleftrightarrow> pattern_ok ''dddd-dd-ddTdd:dd:dd'' c"
proof (cases "strip_zeros (pad6 u) = []")
  case True
  then show ?thesis using assms by (simp add: utc_shape_def micro_tail_def Let_def)
next
  case False
  let ?s = "c @ micro_tail u"
  have "list_all is_digit_char (strip_zeros (pad6 u))"
    by (intro strip_zeros_digits pad6_is_digits assms)
  moreover have "1 \<le> length (strip_zeros (pad6 u))" using False by (cases "strip_zeros (pad6 u)") auto
  moreover have "length (strip_zeros (pad6 u)) \<le> 6" using strip_zeros_length [of "pad6 u"] by simp
  moreover have "20 < length ?s" "?s ! 19 = CHR ''.''" "last ?s = CHR ''Z''"
    using False assms(2) by (simp_all add: micro_tail_def Let_def nth_append)
  ultimately show ?thesis
    using assms(2) micro_tail_digits [OF assms(2), of u] by (simp add: utc_shape_def)
qed

lemma micro_tail_micros:
  assumes "u < 1000000" and "length c = 19"
  shows "fraction_micros (c @ micro_tail u) = int u"
  using strip_zeros_restore [of "pad6 u"] assms
  by (simp add: fraction_micros_def micro_tail_digits Let_def str_nat_pad6)

lemma utc_text_parts:
  assumes "in_calendar t"
  obtains y mo d h mi sec u where "utc_text t = clock_text y mo d h mi sec @ micro_tail u"
    and "valid_date (int y) (int mo) (int d)" and "y < 10000" "mo < 100" "d < 100"
    and "h \<le> 23" "mi \<le> 59" "sec \<le> 59" "u < 1000000"
    and "t = (day_number (int y) (int mo) (int d) - epoch_day) * day_micros
      + ((int h * 60 + int mi) * 60 + int sec) * 1000000 + int u"
proof -
  let ?n = "t div day_micros + epoch_day"
  obtain y mo d where ymd: "civil_of_day ?n = (y, mo, d)" by (metis prod_cases3)
  note c = civil_of_day_props [OF ymd]
  have yr: "1 \<le> y" "y \<le> 9999"
    using year_of_day_range [of ?n] assms c(6) by (auto simp: in_calendar_def)
  have dl: "d \<le> 31"
    using c(2,3,5) month_cases [OF c(2,3)] by (auto simp: days_in_month_def split: if_splits)
  define r where "r = nat (t mod day_micros)"
  define sec where "sec = r div 1000000"
  have r: "int r = t mod day_micros" "r < 86400000000"
    by (simp_all add: r_def day_micros_def nat_less_iff)
  have sec: "sec < 86400" using r(2) by (simp add: sec_def less_mult_imp_div_less)
  have "utc_text t = clock_text (nat y) (nat mo) (nat d) (sec div 3600) (sec div 60 mod 60) (sec mod 60)
      @ micro_tail (r mod 1000000)"
    unfolding utc_text_def Let_def ymd prod.case r_def [symmetric] sec_def [symmetric]
    by (simp add: clock_text_def micro_tail_def Let_def)
  moreover have "valid_date (int (nat y)) (int (nat mo)) (int (nat d))"
    using c yr by (simp add: valid_date_def)
  moreover have "nat y < 10000" "nat mo < 100" "nat d < 100" using yr c(3) dl by auto
  moreover have "sec div 3600 \<le> 23" "sec div 60 mod 60 \<le> 59" "sec mod 60 \<le> 59" "r mod 1000000 < 1000000"
    using sec by simp_all
  moreover have "t = (day_number (int (nat y)) (int (nat mo)) (int (nat d)) - epoch_day) * day_micros
      + ((int (sec div 3600) * 60 + int (sec div 60 mod 60)) * 60 + int (sec mod 60)) * 1000000
      + int (r mod 1000000)"
  proof -
    have "(sec div 3600 * 60 + sec div 60 mod 60) * 60 + sec mod 60 = sec"
      using div_mult2_eq [of sec 60 60] by simp
    then have "((sec div 3600 * 60 + sec div 60 mod 60) * 60 + sec mod 60) * 1000000 + r mod 1000000 = r"
      by (simp add: sec_def)
    then have "((int (sec div 3600) * 60 + int (sec div 60 mod 60)) * 60 + int (sec mod 60)) * 1000000
      + int (r mod 1000000) = int r"
      by (metis (no_types, opaque_lifting) of_nat_add of_nat_mult of_nat_numeral)
    moreover have "t = t div day_micros * day_micros + int r" by (simp add: r(1))
    moreover have "day_number (int (nat y)) (int (nat mo)) (int (nat d)) - epoch_day = t div day_micros"
      using c yr by simp
    ultimately show ?thesis by simp
  qed
  ultimately show ?thesis by (rule that)
qed

lemma utc_text_parses:
  assumes "in_calendar t"
  shows "utc_shape (utc_text t)" and "utc_micros (utc_text t) = Some t"
proof -
  obtain y mo d h mi sec u where p: "utc_text t = clock_text y mo d h mi sec @ micro_tail u"
    and v: "valid_date (int y) (int mo) (int d)" and b: "y < 10000" "mo < 100" "d < 100"
    and hms: "h \<le> 23" "mi \<le> 59" "sec \<le> 59" and u: "u < 1000000"
    and t: "t = (day_number (int y) (int mo) (int d) - epoch_day) * day_micros
      + ((int h * 60 + int mi) * 60 + int sec) * 1000000 + int u"
    using utc_text_parts [OF assms] .
  have b': "h < 100" "mi < 100" "sec < 100" using hms by auto
  show "utc_shape (utc_text t)"
    unfolding p using u by (simp add: micro_tail_shape clock_text_shape b b')
  show "utc_micros (utc_text t) = Some t"
    unfolding p utc_micros_def Let_def clock_text_fields [OF b b']
    using v hms t by (simp add: micro_tail_micros u)
qed

end
