(* ===== verification/Exec_Models.thy ===== *)
theory Exec_Models
  imports Exec_Errors Py_Json Py_Time
begin

text \<open>
  \<open>backend/app/execution/models.py\<close>: identifiers, timestamps, canonical hashes, the typed command
  envelope Control sends, and the dataclasses whose dictionaries make up the durable state.
\<close>

section \<open>Constants\<close>

definition SCHEMA_VERSION :: string where
  "SCHEMA_VERSION = ''web_bridge_control_execution_command_v1''"

definition STATUS_SCHEMA_VERSION :: string where
  "STATUS_SCHEMA_VERSION = ''web_bridge_execution_status_v1''"

definition SERVICE :: string where
  "SERVICE = ''execution-orchestrator''"

definition CONTROL_SERVICE :: string where
  "CONTROL_SERVICE = ''control-api''"

definition COMMANDS :: "string list" where
  "COMMANDS = [''status'', ''overview'', ''preview'', ''enable'', ''revoke'', ''start'', ''stop'',
     ''reconcile'', ''drain'', ''safe_to_restart'']"

definition ROLES :: "string list" where
  "ROLES = [''viewer'', ''trader'', ''admin'', ''system'']"

definition MODES :: "string list" where
  "MODES = [''offline_preview'', ''simnow_preview'']"

definition ZERO_HASH :: string where
  "ZERO_HASH = replicate 64 (CHR ''0'')"

definition UNKNOWN_ID :: string where
  "UNKNOWN_ID = ''unknown00''"

definition EPOCH_TIMESTAMP :: string where
  "EPOCH_TIMESTAMP = ''1970-01-01T00:00:00Z''"

definition FUTURE_SKEW_SECONDS :: int where
  "FUTURE_SKEW_SECONDS = 2"

definition SNAPSHOT_STALE_SECONDS :: int where
  "SNAPSHOT_STALE_SECONDS = 60"

section \<open>The four recognised text shapes\<close>

definition id_rest_char :: "char \<Rightarrow> bool" where
  "id_rest_char c \<longleftrightarrow> is_alnum_char c \<or> c \<in> {CHR ''.'', CHR ''_'', CHR '':'', CHR ''-''}"

definition id_shape :: "nat \<Rightarrow> string \<Rightarrow> bool" where
  "id_shape lo s \<longleftrightarrow>
     (case s of [] \<Rightarrow> False | c # cs \<Rightarrow>
        is_alnum_char c \<and> list_all id_rest_char cs \<and> lo \<le> length cs \<and> length cs \<le> 127)"

definition IDENTIFIER_RE :: "string \<Rightarrow> bool" where
  "IDENTIFIER_RE s = id_shape 7 s"

definition IDEMPOTENCY_RE :: "string \<Rightarrow> bool" where
  "IDEMPOTENCY_RE s = id_shape 15 s"

definition SHA256_RE :: "string \<Rightarrow> bool" where
  "SHA256_RE s \<longleftrightarrow> length s = 64 \<and> list_all is_hex_char s"

definition UTC_RE :: "string \<Rightarrow> bool" where
  "UTC_RE s = utc_shape s"

lemma SHA256_RE_json_hash [simp]: "SHA256_RE (json_hash v)"
  by (simp add: SHA256_RE_def json_hash_is_hex)

lemma SHA256_RE_zero [simp]: "SHA256_RE ZERO_HASH"
  by (simp add: SHA256_RE_def ZERO_HASH_def list_all_iff is_hex_char_def is_digit_char_def
      char_between_def char_le_of_char)

lemma IDENTIFIER_RE_unknown [simp]: "IDENTIFIER_RE UNKNOWN_ID"
  by (simp add: IDENTIFIER_RE_def UNKNOWN_ID_def id_shape_def id_rest_char_def is_alnum_char_def
      is_digit_char_def is_upper_char_def is_lower_char_def char_between_def char_le_of_char)

lemma IDENTIFIER_RE_length: "IDENTIFIER_RE s \<Longrightarrow> 8 \<le> length s \<and> length s \<le> 128"
  by (auto simp: IDENTIFIER_RE_def id_shape_def split: list.splits)

lemma IDENTIFIER_RE_nonempty [simp]: "IDENTIFIER_RE s \<Longrightarrow> s \<noteq> []"
  using IDENTIFIER_RE_length by fastforce

lemma IDEMPOTENCY_is_IDENTIFIER: "IDEMPOTENCY_RE s \<Longrightarrow> IDENTIFIER_RE s"
  by (auto simp: IDENTIFIER_RE_def IDEMPOTENCY_RE_def id_shape_def split: list.splits)

lemma SHA256_RE_nonempty [simp]: "SHA256_RE s \<Longrightarrow> s \<noteq> []"
  by (auto simp: SHA256_RE_def)

lemma epoch_text: "utc_text 0 = EPOCH_TIMESTAMP"
proof -
  have "valid_date 1970 1 1"
    by (simp add: valid_date_def days_in_month_def)
  then have c: "civil_of_day epoch_day = (1970, 1, 1)"
    using civil_of_day_number [of 1970 1 1] by (simp add: epoch_day_is_1970)
  have p: "pad4 1970 = ''1970''" "pad2 1 = ''01''" "pad2 0 = ''00''" "strip_zeros (pad6 0) = []"
    by (simp_all add: pad4_def pad2_def pad6_def digit_char_def strip_zeros_def char_of_def bit_iff_odd)
  have "EPOCH_TIMESTAMP = pad4 1970 @ ''-'' @ pad2 1 @ ''-'' @ pad2 1 @ ''T'' @
      pad2 0 @ '':'' @ pad2 0 @ '':'' @ pad2 0 @ ''Z''"
    by (simp only: p EPOCH_TIMESTAMP_def append.simps)
  moreover have "utc_text 0 = pad4 1970 @ ''-'' @ pad2 1 @ ''-'' @ pad2 1 @ ''T'' @
      pad2 0 @ '':'' @ pad2 0 @ '':'' @ pad2 0 @ ''Z''"
    by (simp only: utc_text_def c p(4) div_0 mod_0 add_0 Let_def prod.case nat_numeral nat_one_as_int
      semiring_1_class.of_nat_0 nat_0 One_nat_def) (simp add: p)
  ultimately show ?thesis by simp
qed

lemma epoch_in_calendar: "in_calendar 0"
  by (simp add: in_calendar_def epoch_day_def max_day_def)

lemma UTC_RE_epoch [simp]: "UTC_RE EPOCH_TIMESTAMP"
  using utc_text_parses(1) [OF epoch_in_calendar] by (simp add: UTC_RE_def epoch_text)

section \<open>Timestamps\<close>

text \<open>\<open>format_utc\<close> on an aware datetime of the calendar.\<close>

definition format_utc :: "int \<Rightarrow> string" where
  "format_utc t = utc_text t"

definition parse_utc :: "json \<Rightarrow> string \<Rightarrow> string res" where
  "parse_utc value field_name =
     (if \<not> str_sat UTC_RE value
      then raise CommandValidationError (field_name @ '' must be a UTC Z timestamp'')
      else if utc_micros (the_str value) = None
      then raise CommandValidationError (field_name @ '' is not a valid timestamp'')
      else Inr (the_str value))"

definition timestamp_of :: "json \<Rightarrow> string \<Rightarrow> int res" where
  "timestamp_of value field_name =
     rbind (parse_utc value field_name) (\<lambda>s. Inr (case utc_micros s of None \<Rightarrow> 0 | Some t \<Rightarrow> t))"

lemma parse_utc_format: "in_calendar t \<Longrightarrow> parse_utc (JStr (format_utc t)) f = Inr (format_utc t)"
  by (simp add: parse_utc_def format_utc_def UTC_RE_def utc_text_parses)

lemma timestamp_of_format: "in_calendar t \<Longrightarrow> timestamp_of (JStr (format_utc t)) f = Inr t"
  using utc_text_parses(2) [of t]
  by (simp add: timestamp_of_def parse_utc_format) (simp add: format_utc_def)

lemma timestamp_of_epoch: "timestamp_of (JStr EPOCH_TIMESTAMP) f = Inr 0"
  using timestamp_of_format [OF epoch_in_calendar] by (simp add: format_utc_def epoch_text)

lemma timestamp_of_Inl: "timestamp_of v f = Inl e \<Longrightarrow> exn_class e = CommandValidationError"
  by (auto simp: timestamp_of_def parse_utc_def rbind_Inl_iff split: if_splits)

section \<open>Field validators\<close>

definition strict_string :: "json \<Rightarrow> string \<Rightarrow> nat \<Rightarrow> nat \<Rightarrow> string res" where
  "strict_string value field_name lo hi =
     (if str_sat (\<lambda>s. lo \<le> length s \<and> length s \<le> hi) value then Inr (the_str value)
      else raise CommandValidationError
        (field_name @ '' must be a string of length '' @ nat_str lo @ ''..'' @ nat_str hi))"

definition validate_identifier :: "json \<Rightarrow> string \<Rightarrow> string res" where
  "validate_identifier value field_name =
     (if str_sat IDENTIFIER_RE value then Inr (the_str value)
      else raise CommandValidationError (field_name @ '' is not a valid identifier''))"

definition validate_idempotency_key :: "json \<Rightarrow> string res" where
  "validate_idempotency_key value =
     (if str_sat IDEMPOTENCY_RE value then Inr (the_str value)
      else raise CommandValidationError ''idempotency_key is not valid'')"

definition validate_sha256 :: "json \<Rightarrow> string \<Rightarrow> string res" where
  "validate_sha256 value field_name =
     (if str_sat SHA256_RE value then Inr (the_str value)
      else raise CommandValidationError (field_name @ '' must be a lowercase SHA-256 hash''))"

definition strict_int :: "json \<Rightarrow> string \<Rightarrow> int \<Rightarrow> int res" where
  "strict_int value field_name minimum =
     (if int_at_least minimum value then Inr (the_int value)
      else raise CommandValidationError
        (field_name @ '' must be an integer >= '' @ int_str minimum))"

definition canonical_json :: "json \<Rightarrow> string res" where
  "canonical_json value =
     (if finite_json value then Inr (json_text value)
      else raise CommandValidationError ''value is not canonical JSON'')"

definition sha256_json :: "json \<Rightarrow> string res" where
  "sha256_json value = rbind (canonical_json value) (\<lambda>text. Inr (sha256_hex (utf8 text)))"

text \<open>\<open>json.loads(canonical_json(v))\<close>: the value again, its keys sorted.\<close>

definition detach :: "json \<Rightarrow> json res" where
  "detach value = rbind (canonical_json value) (\<lambda>_. Inr (canon value))"

definition required :: "json \<Rightarrow> string list \<Rightarrow> string \<Rightarrow> unit res" where
  "required value names ctx =
     (let missing = filter (\<lambda>n. \<not> has_key value n) names
      in if missing = [] then Inr ()
         else raise CommandValidationError (ctx @ '' missing required field(s): '' @ join '', '' missing))"

definition reject_unknown :: "json \<Rightarrow> string list \<Rightarrow> string \<Rightarrow> unit res" where
  "reject_unknown value allowed ctx =
     (let unknown = filter (\<lambda>k. k \<notin> set allowed) (keys value)
      in if unknown = [] then Inr ()
         else raise CommandValidationError
           (ctx @ '' contains unknown field(s): '' @ join '', '' (sort (remdups unknown))))"

lemma validate_identifier_Inr_iff: "validate_identifier v f = Inr s \<longleftrightarrow> v = JStr s \<and> IDENTIFIER_RE s"
  by (cases v) (auto simp: validate_identifier_def str_sat_def)

lemma validate_sha256_Inr_iff: "validate_sha256 v f = Inr s \<longleftrightarrow> v = JStr s \<and> SHA256_RE s"
  by (cases v) (auto simp: validate_sha256_def str_sat_def)

lemma validate_idempotency_key_Inr_iff:
  "validate_idempotency_key v = Inr s \<longleftrightarrow> v = JStr s \<and> IDEMPOTENCY_RE s"
  by (cases v) (auto simp: validate_idempotency_key_def str_sat_def)

lemma strict_string_Inr_iff:
  "strict_string v f lo hi = Inr s \<longleftrightarrow> v = JStr s \<and> lo \<le> length s \<and> length s \<le> hi"
  by (cases v) (auto simp: strict_string_def str_sat_def)

lemma strict_int_Inr_iff: "strict_int v f lo = Inr n \<longleftrightarrow> v = JInt n \<and> lo \<le> n"
  by (cases v) (auto simp: strict_int_def int_at_least_def)

lemma parse_utc_Inr_iff:
  "parse_utc v f = Inr s \<longleftrightarrow> v = JStr s \<and> UTC_RE s \<and> utc_micros s \<noteq> None"
  by (cases v) (auto simp: parse_utc_def str_sat_def)

lemma sha256_json_Inr: "finite_json v \<Longrightarrow> sha256_json v = Inr (json_hash v)"
  by (simp add: sha256_json_def canonical_json_def json_hash_def)

lemma sha256_json_Inr_iff: "sha256_json v = Inr h \<longleftrightarrow> finite_json v \<and> h = json_hash v"
  by (auto simp: sha256_json_def canonical_json_def json_hash_def)

lemma required_Inr_iff [simp]: "required v names ctx = Inr u \<longleftrightarrow> (\<forall>n \<in> set names. has_key v n)"
  by (auto simp: required_def Let_def filter_empty_conv)

lemma reject_unknown_Inr_iff [simp]:
  "reject_unknown v allowed ctx = Inr u \<longleftrightarrow> set (keys v) \<subseteq> set allowed"
  by (auto simp: reject_unknown_def Let_def filter_empty_conv)

lemmas validator_iffs = validate_identifier_Inr_iff validate_sha256_Inr_iff
  validate_idempotency_key_Inr_iff strict_string_Inr_iff strict_int_Inr_iff parse_utc_Inr_iff

end
