(* ===== verification/Exec_Envelope.thy ===== *)
theory Exec_Envelope
  imports Exec_Models
begin

text \<open>
  The typed half of \<open>backend/app/execution/models.py\<close>: the command envelope with its validation and
  its fingerprint, and the dataclasses whose dictionaries fill the durable state.
\<close>

section \<open>Actor and expected version\<close>

record actor =
  act_service :: string
  act_principal :: string
  act_operator :: string
  act_role :: string

definition actor_fields :: "string list" where
  "actor_fields = [''service'', ''principal'', ''operator'', ''role'']"

definition actor_from_mapping :: "json \<Rightarrow> actor res" where
  "actor_from_mapping value =
     (if \<not> is_obj value then raise CommandValidationError ''actor must be an object''
      else rbind (reject_unknown value actor_fields ''actor'') (\<lambda>_.
        rbind (required value actor_fields ''actor'') (\<lambda>_.
        rbind (strict_string (fld value ''service'') ''actor.service'' 1 128) (\<lambda>service.
        if service \<noteq> CONTROL_SERVICE
        then raise CommandValidationError ''actor.service must be control-api''
        else if \<not> str_sat (\<lambda>r. r \<in> set ROLES) (fld value ''role'')
        then raise CommandValidationError ''actor.role is not supported''
        else rbind (strict_string (fld value ''principal'') ''actor.principal'' 1 128) (\<lambda>principal.
          rbind (strict_string (fld value ''operator'') ''actor.operator'' 1 128) (\<lambda>operator.
          Inr \<lparr>act_service = service, act_principal = principal, act_operator = operator,
            act_role = the_str (fld value ''role'')\<rparr>))))))"

definition actor_as_dict :: "actor \<Rightarrow> json" where
  "actor_as_dict a = JObj
     [(''service'', JStr (act_service a)), (''principal'', JStr (act_principal a)),
      (''operator'', JStr (act_operator a)), (''role'', JStr (act_role a))]"

record expected_version =
  ev_state_version :: int
  ev_plan_hash :: "string option"
  ev_authority_hash :: "string option"
  ev_leader_epoch :: "int option"
  ev_fencing_token :: "int option"

text \<open>\<open>if name in value: kwargs[name] = check(value[name])\<close>.\<close>

definition optional_field :: "json \<Rightarrow> string \<Rightarrow> (json \<Rightarrow> 'a res) \<Rightarrow> 'a option res" where
  "optional_field value name check =
     (case dget value name of None \<Rightarrow> Inr None | Some v \<Rightarrow> rbind (check v) (\<lambda>x. Inr (Some x)))"

definition expected_fields :: "string list" where
  "expected_fields =
     [''state_version'', ''plan_hash'', ''authority_hash'', ''leader_epoch'', ''fencing_token'']"

definition expected_from_mapping :: "json \<Rightarrow> expected_version res" where
  "expected_from_mapping value =
     (if \<not> is_obj value then raise CommandValidationError ''expected must be an object''
      else rbind (reject_unknown value expected_fields ''expected'') (\<lambda>_.
        rbind (required value [''state_version''] ''expected'') (\<lambda>_.
        rbind (strict_int (fld value ''state_version'') ''expected.state_version'' 0) (\<lambda>version.
        rbind (optional_field value ''leader_epoch'' (\<lambda>v. strict_int v ''expected.leader_epoch'' 0)) (\<lambda>epoch.
        rbind (optional_field value ''fencing_token'' (\<lambda>v. strict_int v ''expected.fencing_token'' 0)) (\<lambda>token.
        rbind (optional_field value ''plan_hash'' (\<lambda>v. validate_sha256 v ''expected.plan_hash'')) (\<lambda>plan.
        rbind (optional_field value ''authority_hash'' (\<lambda>v. validate_sha256 v ''expected.authority_hash'')) (\<lambda>auth.
          Inr \<lparr>ev_state_version = version, ev_plan_hash = plan, ev_authority_hash = auth,
            ev_leader_epoch = epoch, ev_fencing_token = token\<rparr>))))))))"

definition present :: "string \<Rightarrow> ('a \<Rightarrow> json) \<Rightarrow> 'a option \<Rightarrow> (string \<times> json) list" where
  "present k enc x = (case x of None \<Rightarrow> [] | Some v \<Rightarrow> [(k, enc v)])"

definition expected_as_dict :: "expected_version \<Rightarrow> json" where
  "expected_as_dict e = JObj
     ((''state_version'', JInt (ev_state_version e)) #
      present ''plan_hash'' JStr (ev_plan_hash e) @
      present ''authority_hash'' JStr (ev_authority_hash e) @
      present ''leader_epoch'' JInt (ev_leader_epoch e) @
      present ''fencing_token'' JInt (ev_fencing_token e))"

section \<open>Payloads\<close>

text \<open>The allowed and the required fields of a command's payload.\<close>

fun payload_spec :: "string \<Rightarrow> (string list \<times> string list) option" where
  "payload_spec command =
     (if command = ''status'' then Some ([], [])
      else if command = ''overview'' then Some ([], [])
      else if command = ''preview'' then Some
        ([''plan_hash'', ''artifact_hash'', ''mode'', ''receipt_id''],
         [''plan_hash'', ''artifact_hash'', ''mode''])
      else if command = ''enable'' then Some
        ([''authority_artifact_id'', ''authority_hash'', ''expires_at'', ''reason''],
         [''authority_artifact_id'', ''authority_hash'', ''expires_at'', ''reason''])
      else if command = ''revoke'' then Some ([''reason''], [''reason''])
      else if command = ''start'' then Some
        ([''plan_id'', ''plan_hash'', ''reason''], [''plan_id'', ''plan_hash'', ''reason''])
      else if command = ''stop'' then Some ([''reason''], [''reason''])
      else if command = ''reconcile'' then Some
        ([''reconciliation_run_id'', ''snapshot_id'', ''snapshot_fact_binding'', ''reason''],
         [''reconciliation_run_id'', ''snapshot_id'', ''reason''])
      else if command = ''drain'' then Some
        ([''drain_id'', ''reason'', ''deadline_at''], [''drain_id'', ''reason''])
      else if command = ''safe_to_restart'' then Some
        ([''receipt_id'', ''reason''], [''receipt_id'', ''reason''])
      else None)"

declare payload_spec.simps [simp del]

definition check_reason :: "json \<Rightarrow> unit res" where
  "check_reason raw = rbind (strict_string (fld raw ''reason'') ''payload.reason'' 8 500) (\<lambda>_. Inr ())"

definition check_preview :: "json \<Rightarrow> unit res" where
  "check_preview raw =
     rbind (validate_sha256 (fld raw ''plan_hash'') ''payload.plan_hash'') (\<lambda>_.
     rbind (validate_sha256 (fld raw ''artifact_hash'') ''payload.artifact_hash'') (\<lambda>_.
     if \<not> str_sat (\<lambda>m. m \<in> set MODES) (fld raw ''mode'')
     then raise CommandValidationError ''payload.mode is not supported''
     else if fld raw ''mode'' = JStr ''simnow_preview'' then
       (if \<not> has_key raw ''receipt_id''
        then raise CommandValidationError ''simnow_preview requires payload.receipt_id''
        else rbind (validate_identifier (fld raw ''receipt_id'') ''payload.receipt_id'') (\<lambda>_. Inr ()))
     else if has_key raw ''receipt_id''
     then raise CommandValidationError ''offline_preview does not accept payload.receipt_id''
     else Inr ()))"

definition check_enable :: "json \<Rightarrow> unit res" where
  "check_enable raw =
     rbind (validate_identifier (fld raw ''authority_artifact_id'') ''payload.authority_artifact_id'') (\<lambda>_.
     rbind (validate_sha256 (fld raw ''authority_hash'') ''payload.authority_hash'') (\<lambda>_.
     rbind (parse_utc (fld raw ''expires_at'') ''payload.expires_at'') (\<lambda>_. check_reason raw)))"

definition check_start :: "json \<Rightarrow> unit res" where
  "check_start raw =
     rbind (validate_identifier (fld raw ''plan_id'') ''payload.plan_id'') (\<lambda>_.
     rbind (validate_sha256 (fld raw ''plan_hash'') ''payload.plan_hash'') (\<lambda>_. check_reason raw))"

definition binding_counts :: "string list" where
  "binding_counts = [''generation'', ''active_order_count'', ''state_version'', ''durable_broker_generation'']"

definition binding_fields :: "string list" where
  "binding_fields = [''generation'', ''position_snapshot_hash'', ''active_order_count'',
     ''active_orders_sha256'', ''state_version'', ''durable_broker_generation'']"

definition check_fact_binding :: "json \<Rightarrow> unit res" where
  "check_fact_binding binding =
     (if \<not> (is_obj binding \<and> keys_are binding binding_fields)
      then raise CommandValidationError ''payload.snapshot_fact_binding is invalid''
      else rbind (rall (\<lambda>f. if int_at_least 0 (fld binding f) then Inr ()
          else raise CommandValidationError (''payload.snapshot_fact_binding.'' @ f @ '' is invalid''))
          binding_counts) (\<lambda>_.
        rbind (validate_sha256 (fld binding ''position_snapshot_hash'')
          ''payload.snapshot_fact_binding.position_snapshot_hash'') (\<lambda>_.
        rbind (validate_sha256 (fld binding ''active_orders_sha256'')
          ''payload.snapshot_fact_binding.active_orders_sha256'') (\<lambda>_. Inr ()))))"

definition check_reconcile :: "json \<Rightarrow> unit res" where
  "check_reconcile raw =
     rbind (validate_identifier (fld raw ''reconciliation_run_id'') ''payload.reconciliation_run_id'') (\<lambda>_.
     rbind (validate_identifier (fld raw ''snapshot_id'') ''payload.snapshot_id'') (\<lambda>_.
     rbind (case dget raw ''snapshot_fact_binding'' of None \<Rightarrow> Inr () | Some b \<Rightarrow> check_fact_binding b)
       (\<lambda>_. check_reason raw)))"

definition check_drain :: "json \<Rightarrow> unit res" where
  "check_drain raw =
     rbind (validate_identifier (fld raw ''drain_id'') ''payload.drain_id'') (\<lambda>_.
     rbind (check_reason raw) (\<lambda>_.
     case dget raw ''deadline_at'' of None \<Rightarrow> Inr ()
     | Some v \<Rightarrow> rbind (parse_utc v ''payload.deadline_at'') (\<lambda>_. Inr ())))"

definition check_restart :: "json \<Rightarrow> unit res" where
  "check_restart raw =
     rbind (validate_identifier (fld raw ''receipt_id'') ''payload.receipt_id'') (\<lambda>_. check_reason raw)"

definition payload_check :: "string \<Rightarrow> json \<Rightarrow> unit res" where
  "payload_check command raw =
     (if command = ''preview'' then check_preview raw
      else if command = ''enable'' then check_enable raw
      else if command = ''revoke'' \<or> command = ''stop'' then check_reason raw
      else if command = ''start'' then check_start raw
      else if command = ''reconcile'' then check_reconcile raw
      else if command = ''drain'' then check_drain raw
      else if command = ''safe_to_restart'' then check_restart raw
      else Inr ())"

definition payload_of :: "string \<Rightarrow> json \<Rightarrow> json res" where
  "payload_of command value =
     (if \<not> is_obj value then raise CommandValidationError ''payload must be an object''
      else case payload_spec command of
        None \<Rightarrow> raise UnknownCommandError command
      | Some (allowed, required_names) \<Rightarrow>
          rbind (reject_unknown value allowed (command @ ''.payload'')) (\<lambda>_.
          rbind (required value required_names (command @ ''.payload'')) (\<lambda>_.
          if command \<in> {''status'', ''overview''} \<and> truthy value
          then raise CommandValidationError (command @ ''.payload must be empty'')
          else rbind (payload_check command value) (\<lambda>_. detach value))))"

section \<open>The envelope\<close>

record envelope =
  env_command_id :: string
  env_idempotency_key :: string
  env_correlation_id :: string
  env_issued_at :: string
  env_actor :: actor
  env_command :: string
  env_expected :: expected_version
  env_payload :: json

definition ALLOWED_FIELDS :: "string list" where
  "ALLOWED_FIELDS = [''schema_version'', ''command_id'', ''idempotency_key'', ''correlation_id'',
     ''issued_at'', ''actor'', ''command'', ''expected'', ''payload'']"

definition envelope_from_mapping :: "json \<Rightarrow> envelope res" where
  "envelope_from_mapping value =
     (if \<not> is_obj value then raise CommandValidationError ''command envelope must be an object''
      else rbind (reject_unknown value ALLOWED_FIELDS ''command envelope'') (\<lambda>_.
        rbind (required value ALLOWED_FIELDS ''command envelope'') (\<lambda>_.
        if fld value ''schema_version'' \<noteq> JStr SCHEMA_VERSION
        then raise CommandValidationError ''unsupported command schema_version''
        else if \<not> str_sat (\<lambda>c. c \<in> set COMMANDS) (fld value ''command'')
        then raise UnknownCommandError (py_str (fld value ''command''))
        else rbind (validate_identifier (fld value ''command_id'') ''command_id'') (\<lambda>command_id.
          rbind (validate_idempotency_key (fld value ''idempotency_key'')) (\<lambda>key.
          rbind (validate_identifier (fld value ''correlation_id'') ''correlation_id'') (\<lambda>correlation_id.
          rbind (parse_utc (fld value ''issued_at'') ''issued_at'') (\<lambda>issued_at.
          rbind (actor_from_mapping (fld value ''actor'')) (\<lambda>actor.
          rbind (expected_from_mapping (fld value ''expected'')) (\<lambda>expected.
          rbind (payload_of (the_str (fld value ''command'')) (fld value ''payload'')) (\<lambda>payload.
            Inr \<lparr>env_command_id = command_id, env_idempotency_key = key,
              env_correlation_id = correlation_id, env_issued_at = issued_at, env_actor = actor,
              env_command = the_str (fld value ''command''), env_expected = expected,
              env_payload = payload\<rparr>)))))))))) "

text \<open>The schema version is the constant every accepted envelope carries.\<close>

definition envelope_dump :: "envelope \<Rightarrow> json" where
  "envelope_dump e = JObj
     [(''schema_version'', JStr SCHEMA_VERSION),
      (''command_id'', JStr (env_command_id e)),
      (''idempotency_key'', JStr (env_idempotency_key e)),
      (''correlation_id'', JStr (env_correlation_id e)),
      (''issued_at'', JStr (env_issued_at e)),
      (''actor'', actor_as_dict (env_actor e)),
      (''command'', JStr (env_command e)),
      (''expected'', expected_as_dict (env_expected e)),
      (''payload'', canon (env_payload e))]"

definition canonical_command :: "envelope \<Rightarrow> json" where
  "canonical_command e = JObj
     [(''actor'', actor_as_dict (env_actor e)), (''command'', JStr (env_command e)),
      (''expected'', expected_as_dict (env_expected e)), (''payload'', env_payload e)]"

definition command_hash :: "envelope \<Rightarrow> string res" where
  "command_hash e = sha256_json (canonical_command e)"

section \<open>The sections of the durable state\<close>

record leader_token =
  lt_scope :: string
  lt_owner_id :: string
  lt_epoch :: int
  lt_fencing_token :: int
  lt_lease_expires_at :: string
  lt_instance_id :: string

definition leader_token_as_dict :: "leader_token \<Rightarrow> bool \<Rightarrow> json" where
  "leader_token_as_dict t held = JObj
     ([(''scope'', JStr (lt_scope t)), (''owner_id'', JStr (lt_owner_id t)),
       (''held'', JBool held), (''epoch'', JInt (lt_epoch t)),
       (''fencing_token'', JInt (lt_fencing_token t)),
       (''lease_expires_at'', JStr (lt_lease_expires_at t))] @
      (if lt_instance_id t \<noteq> [] then [(''instance_id'', JStr (lt_instance_id t))] else []))"

record authority_state =
  as_state :: string
  as_artifact_id :: string
  as_artifact_hash :: string
  as_expires_at :: string

definition default_authority :: authority_state where
  "default_authority = \<lparr>as_state = ''DISABLED'', as_artifact_id = UNKNOWN_ID,
     as_artifact_hash = ZERO_HASH, as_expires_at = EPOCH_TIMESTAMP\<rparr>"

definition authority_as_dict :: "authority_state \<Rightarrow> json" where
  "authority_as_dict a = JObj
     [(''state'', JStr (as_state a)), (''artifact_id'', JStr (as_artifact_id a)),
      (''artifact_hash'', JStr (as_artifact_hash a)), (''expires_at'', JStr (as_expires_at a))]"

record plan_state =
  ps_state :: string
  ps_plan_id :: string
  ps_plan_hash :: string
  ps_version :: int
  ps_preview_mode :: string
  ps_preview_receipt_id :: string
  ps_preview_receipt_sha256 :: string
  ps_preview_artifact_id :: string
  ps_preview_artifact_sha256 :: string

definition default_plan :: plan_state where
  "default_plan = \<lparr>ps_state = ''IDLE'', ps_plan_id = UNKNOWN_ID, ps_plan_hash = ZERO_HASH,
     ps_version = 0, ps_preview_mode = '''', ps_preview_receipt_id = UNKNOWN_ID,
     ps_preview_receipt_sha256 = ZERO_HASH, ps_preview_artifact_id = UNKNOWN_ID,
     ps_preview_artifact_sha256 = ZERO_HASH\<rparr>"

definition plan_as_dict :: "plan_state \<Rightarrow> json" where
  "plan_as_dict p = JObj
     [(''state'', JStr (ps_state p)), (''plan_id'', JStr (ps_plan_id p)),
      (''plan_hash'', JStr (ps_plan_hash p)), (''version'', JInt (ps_version p)),
      (''preview_mode'', JStr (ps_preview_mode p)),
      (''preview_receipt_id'', JStr (ps_preview_receipt_id p)),
      (''preview_receipt_sha256'', JStr (ps_preview_receipt_sha256 p)),
      (''preview_artifact_id'', JStr (ps_preview_artifact_id p)),
      (''preview_artifact_sha256'', JStr (ps_preview_artifact_sha256 p))]"

text \<open>
  The optional fields of an intent keep the value of the document they were read from, \<open>JNull\<close> for
  \<open>None\<close>.
\<close>

record send_intent =
  si_intent_id :: string
  si_idempotency_key :: string
  si_state :: string
  si_plan_id :: string
  si_plan_hash :: string
  si_leader_epoch :: int
  si_fencing_token :: int
  si_created_at :: string
  si_action :: string
  si_broker_order_id :: json
  si_request_hash :: string
  si_target_intent_id :: json
  si_unknown_reason :: json
  si_receipt_id :: json
  si_receipt_hash :: json

definition unless_none :: "string \<Rightarrow> json \<Rightarrow> (string \<times> json) list" where
  "unless_none k v = (if v = JNull then [] else [(k, v)])"

definition send_intent_as_dict :: "send_intent \<Rightarrow> json" where
  "send_intent_as_dict i = JObj
     ([(''intent_id'', JStr (si_intent_id i)), (''idempotency_key'', JStr (si_idempotency_key i)),
       (''state'', JStr (si_state i)), (''plan_id'', JStr (si_plan_id i)),
       (''plan_hash'', JStr (si_plan_hash i)), (''leader_epoch'', JInt (si_leader_epoch i)),
       (''fencing_token'', JInt (si_fencing_token i)), (''created_at'', JStr (si_created_at i))] @
      unless_none ''broker_order_id'' (si_broker_order_id i) @
      unless_none ''receipt_id'' (si_receipt_id i) @
      unless_none ''receipt_hash'' (si_receipt_hash i))"

record reconciliation_state =
  rs_state :: string
  rs_run_id :: string
  rs_last_completed_at :: string
  rs_unknown_outcomes :: int
  rs_fresh_snapshot_id :: string

definition default_reconciliation :: reconciliation_state where
  "default_reconciliation = \<lparr>rs_state = ''REQUIRED'', rs_run_id = UNKNOWN_ID,
     rs_last_completed_at = EPOCH_TIMESTAMP, rs_unknown_outcomes = 0,
     rs_fresh_snapshot_id = UNKNOWN_ID\<rparr>"

definition reconciliation_as_dict :: "reconciliation_state \<Rightarrow> json" where
  "reconciliation_as_dict r = JObj
     [(''state'', JStr (rs_state r)), (''run_id'', JStr (rs_run_id r)),
      (''last_completed_at'', JStr (rs_last_completed_at r)),
      (''unknown_outcomes'', JInt (rs_unknown_outcomes r)),
      (''fresh_snapshot_id'', JStr (rs_fresh_snapshot_id r))]"

record broker_state =
  bs_connected :: bool
  bs_generation :: int
  bs_active_order_count :: int
  bs_position_snapshot_hash :: string
  bs_last_snapshot_at :: string
  bs_orders :: json
  bs_positions :: json

definition default_broker :: broker_state where
  "default_broker = \<lparr>bs_connected = False, bs_generation = 0, bs_active_order_count = 0,
     bs_position_snapshot_hash = ZERO_HASH, bs_last_snapshot_at = EPOCH_TIMESTAMP,
     bs_orders = JObj [], bs_positions = JObj []\<rparr>"

definition broker_as_dict :: "broker_state \<Rightarrow> json" where
  "broker_as_dict b = JObj
     [(''connected'', JBool (bs_connected b)), (''generation'', JInt (bs_generation b)),
      (''active_order_count'', JInt (bs_active_order_count b)),
      (''position_snapshot_hash'', JStr (bs_position_snapshot_hash b)),
      (''last_snapshot_at'', JStr (bs_last_snapshot_at b)),
      (''orders'', bs_orders b), (''positions'', bs_positions b)]"

record command_receipt =
  cr_service :: string
  cr_idempotency_key :: string
  cr_command_hash :: string
  cr_command_id :: string
  cr_correlation_id :: string
  cr_actor :: json
  cr_status :: string
  cr_state_version :: int
  cr_result :: json
  cr_observed_at :: string

definition receipt_as_dict :: "command_receipt \<Rightarrow> json" where
  "receipt_as_dict r = JObj
     [(''service'', JStr (cr_service r)), (''idempotency_key'', JStr (cr_idempotency_key r)),
      (''command_hash'', JStr (cr_command_hash r)), (''command_id'', JStr (cr_command_id r)),
      (''correlation_id'', JStr (cr_correlation_id r)), (''actor'', cr_actor r),
      (''status'', JStr (cr_status r)), (''state_version'', JInt (cr_state_version r)),
      (''result'', cr_result r), (''observed_at'', JStr (cr_observed_at r))]"

end
