(* ===== verification/Py_Decimal.thy ===== *)
theory Py_Decimal
  imports Complex_Main Exec_Errors Py_Json
begin

text \<open>
  The two number systems prices go through, both over exact rationals: \<open>decimal.Decimal\<close> with its
  28-digit context that rounds half to even, and binary64 floats. A float result that is too large
  is \<open>None\<close>, positive infinity; every float computed here is non-negative.
\<close>

section \<open>Rounding to a number of digits\<close>

fun ilog :: "nat \<Rightarrow> nat \<Rightarrow> nat" where
  "ilog b n = (if b < 2 \<or> n < b then 0 else Suc (ilog b (n div b)))"

declare ilog.simps [simp del]

definition rpow :: "nat \<Rightarrow> int \<Rightarrow> rat" where
  "rpow b k = (if 0 \<le> k then of_nat b ^ nat k else 1 / of_nat b ^ nat (- k))"

text \<open>The exponent of the leading digit of a positive rational.\<close>

definition magnitude :: "nat \<Rightarrow> rat \<Rightarrow> int" where
  "magnitude b x =
     (let (p, q) = quotient_of x; k = int (ilog b (nat p)) - int (ilog b (nat q))
      in if rpow b k \<le> x then k else k - 1)"

definition round_half_even :: "rat \<Rightarrow> int" where
  "round_half_even x =
     (let f = \<lfloor>x\<rfloor>; d = x - of_int f
      in if d < 1 / 2 then f else if 1 / 2 < d then f + 1 else if even f then f else f + 1)"

definition dec28 :: "rat \<Rightarrow> rat" where
  "dec28 x =
     (if x = 0 then 0
      else let e = magnitude 10 \<bar>x\<bar> - 27 in of_int (round_half_even (x / rpow 10 e)) * rpow 10 e)"

definition float_exponent :: "rat \<Rightarrow> int" where
  "float_exponent x = (if x = 0 then - 1074 else max (magnitude 2 \<bar>x\<bar> - 52) (- 1074))"

definition to_float :: "rat \<Rightarrow> rat option" where
  "to_float x =
     (let e = float_exponent x; r = of_int (round_half_even (x / rpow 2 e)) * rpow 2 e
      in if rpow 2 1024 \<le> \<bar>r\<bar> then None else Some r)"

definition fmul :: "rat option \<Rightarrow> rat \<Rightarrow> rat option" where
  "fmul x c = (case x of None \<Rightarrow> None | Some a \<Rightarrow> to_float (a * c))"

definition fmin :: "rat option \<Rightarrow> rat option \<Rightarrow> rat option" where
  "fmin x y = (case (x, y) of (None, _) \<Rightarrow> y | (_, None) \<Rightarrow> x | (Some a, Some b) \<Rightarrow> Some (min a b))"

definition fmax :: "rat option \<Rightarrow> rat option \<Rightarrow> rat option" where
  "fmax x y = (case (x, y) of (Some a, Some b) \<Rightarrow> Some (max a b) | _ \<Rightarrow> None)"

definition fgreater :: "rat option \<Rightarrow> rat option \<Rightarrow> bool" where
  "fgreater x y = (case (x, y) of (_, None) \<Rightarrow> False | (None, Some _) \<Rightarrow> True | (Some a, Some b) \<Rightarrow> b < a)"

text \<open>\<open>math.ulp\<close> of a float.\<close>

definition ulp_of :: "rat option \<Rightarrow> rat option" where
  "ulp_of x = (case x of None \<Rightarrow> None | Some a \<Rightarrow> Some (rpow 2 (float_exponent a)))"

definition fabs :: "rat option \<Rightarrow> rat option" where
  "fabs x = map_option abs x"

definition float_literal :: "rat \<Rightarrow> rat" where
  "float_literal x = (case to_float x of None \<Rightarrow> 0 | Some r \<Rightarrow> r)"

section \<open>Numbers of a document\<close>

text \<open>\<open>Decimal(str(v))\<close> of an int or a finite float; \<open>None\<close> where it is not a finite number.\<close>

definition dec_value :: "json \<Rightarrow> rat option" where
  "dec_value v =
     (case v of JInt n \<Rightarrow> Some (of_int n) | JDec m e \<Rightarrow> Some (of_int m * rpow 10 e) | _ \<Rightarrow> None)"

definition is_float :: "json \<Rightarrow> bool" where
  "is_float v = (case v of JDec _ _ \<Rightarrow> True | JNonFinite \<Rightarrow> True | _ \<Rightarrow> False)"

section \<open>Facts\<close>

lemma rpow_pos: "0 < b \<Longrightarrow> 0 < rpow b k"
  by (simp add: rpow_def)

lemma rpow_0 [simp]: "rpow b 0 = 1"
  by (simp add: rpow_def)

lemma round_half_even_of_int [simp]: "round_half_even (of_int n) = n"
  by (simp add: round_half_even_def)

lemma round_half_even_near: "\<bar>of_int (round_half_even x) - x\<bar> \<le> 1 / 2"
proof -
  have "of_int \<lfloor>x\<rfloor> \<le> x" "x < of_int \<lfloor>x\<rfloor> + 1" by linarith+
  then show ?thesis by (auto simp: round_half_even_def Let_def)
qed

lemma dec28_0 [simp]: "dec28 0 = 0"
  by (simp add: dec28_def)

text \<open>A decimal of at most 28 digits is left alone.\<close>

definition fits28 :: "rat \<Rightarrow> bool" where
  "fits28 x \<longleftrightarrow> dec28 x = x"

lemma fits28_I: "x = of_int m * rpow 10 (magnitude 10 \<bar>x\<bar> - 27) \<Longrightarrow> fits28 x"
  using rpow_pos [of 10 "magnitude 10 \<bar>x\<bar> - 27"]
  by (simp add: fits28_def dec28_def Let_def) (metis nonzero_mult_div_cancel_right order_less_irrefl
      round_half_even_of_int)

lemma fgreater_None [simp]: "\<not> fgreater x None"
  by (cases x) (simp_all add: fgreater_def)

end
