(* ===== verification/Quote_Proof.thy ===== *)
theory Quote_Proof
  imports Exec_Models Py_Decimal
begin

text \<open>
  \<open>backend/app/execution/start_quote_proof.py\<close>, the proof that a fresh quote admits one order: its
  validation without a target plan (as the repository and the orchestrator use it) and its binding
  to one broker request, with the price grid of \<open>shared/commodity_execution/v1.py\<close>.
\<close>

definition EXECUTION_START_QUOTE_PROOF_SCHEMA_VERSION :: string where
  "EXECUTION_START_QUOTE_PROOF_SCHEMA_VERSION = ''web_bridge_execution_start_quote_proof_v1''"

definition V3_FORMAL_QUOTE_MAX_AGE_SECONDS :: int where
  "V3_FORMAL_QUOTE_MAX_AGE_SECONDS = 5"

definition FORMAL_TICK_FUTURE_SKEW_SECONDS :: int where
  "FORMAL_TICK_FUTURE_SKEW_SECONDS = 2"

definition PROOF_FIELDS :: "string list" where
  "PROOF_FIELDS = [''schema_version'', ''execution_run_id'', ''phase'', ''plan_id'', ''plan_hash'',
     ''creation_quote_proof_sha256'', ''validated_at_utc'', ''max_age_seconds'',
     ''future_skew_seconds'', ''journal_authenticated'', ''start_authorized'', ''bindings'',
     ''proof_sha256'']"

definition BINDING_FIELDS :: "string list" where
  "BINDING_FIELDS = [''order_ref'', ''exact_contract'', ''offset'', ''execution_run_id'', ''phase'',
     ''plan_id'', ''plan_hash'', ''creation_quote_proof_sha256'', ''source'', ''vt_symbol'',
     ''price_side'', ''stream_generation'', ''ingest_id'', ''ingest_seq'', ''event_hash'',
     ''received_at_utc'', ''reference_price'', ''price_tick'', ''protected_price'']"

definition BOUNDED_BINDING_FIELDS :: "string list" where
  "BOUNDED_BINDING_FIELDS = BINDING_FIELDS @ [''immutable_order_price'']"

section \<open>Set membership\<close>

text \<open>
  \<open>v in {...}\<close> on a set of strings: a list or a dictionary is unhashable and raises TypeError.
\<close>

definition member_of :: "json \<Rightarrow> string list \<Rightarrow> bool res" where
  "member_of v names =
     (case v of JArr _ \<Rightarrow> raise PyTypeError ''unhashable type''
      | JObj _ \<Rightarrow> raise PyTypeError ''unhashable type''
      | JStr s \<Rightarrow> Inr (s \<in> set names)
      | _ \<Rightarrow> Inr False)"

definition require_member :: "json \<Rightarrow> string list \<Rightarrow> exn \<Rightarrow> unit res" where
  "require_member v names e = rbind (member_of v names) (\<lambda>b. rguard b e)"

lemma require_member_Inr_iff [simp]:
  "require_member v names e = Inr u \<longleftrightarrow> (\<exists>s \<in> set names. v = JStr s)"
  by (cases v) (auto simp: require_member_def member_of_def)

section \<open>Prices\<close>

definition decimal_of :: "json \<Rightarrow> string \<Rightarrow> rat res" where
  "decimal_of value label =
     (case dec_value value of
        None \<Rightarrow> raise ExecutionStartQuoteProofError (label @ '' is invalid'')
      | Some d \<Rightarrow> Inr d)"

definition price_tolerance :: "rat \<Rightarrow> rat \<Rightarrow> rat option" where
  "price_tolerance value tick =
     (let vf = to_float value; tf = to_float tick
      in fmin (fmul (fabs tf) (float_literal (1 / 10 ^ 6)))
           (fmax (fmul (ulp_of vf) 8) (fmul (fabs tf) (float_literal (1 / 10 ^ 9)))))"

definition normalize_near_grid_price :: "rat \<Rightarrow> rat \<Rightarrow> rat res" where
  "normalize_near_grid_price value tick =
     (if tick \<le> 0 then raise PyValueError ''price or tick is invalid''
      else let quotient = dec28 (value / tick);
             aligned = dec28 (of_int (round_half_even quotient) * tick);
             price_error = dec28 \<bar>dec28 (value - aligned)\<bar>
           in if fgreater (to_float price_error) (price_tolerance value tick)
              then raise PyValueError ''price is not aligned to tick''
              else Inr aligned)"

text \<open>\<open>try: ... except ValueError as exc: raise ExecutionStartQuoteProofError(msg)\<close>.\<close>

definition quote_error_on_value_error :: "'a res \<Rightarrow> string \<Rightarrow> 'a res" where
  "quote_error_on_value_error r msg =
     rcatch r (\<lambda>e. if is_a e PyValueError then raise ExecutionStartQuoteProofError msg else Inl e)"

definition protected_price :: "json \<Rightarrow> rat res" where
  "protected_price binding =
     rbind (decimal_of (fld binding ''reference_price'') ''quote reference_price'') (\<lambda>reference0.
     rbind (decimal_of (fld binding ''price_tick'') ''quote price_tick'') (\<lambda>tick.
     rbind (quote_error_on_value_error (normalize_near_grid_price reference0 tick)
       ''quote price/tick is invalid'') (\<lambda>reference.
     let protected =
       (if fld binding ''price_side'' = JStr ''ask'' then dec28 (reference + tick)
        else dec28 (reference - tick))
     in quote_error_on_value_error (normalize_near_grid_price protected tick)
          ''quote price/tick is invalid'')))"

definition protected_price_is_compatible :: "string \<Rightarrow> string \<Rightarrow> rat \<Rightarrow> rat \<Rightarrow> bool" where
  "protected_price_is_compatible price_contract direction protected limit =
     (if price_contract = ''BOUNDED''
      then (if direction = ''LONG'' then protected \<le> limit else limit \<le> protected)
      else protected = limit)"

section \<open>Validation\<close>

abbreviation quote_error :: "string \<Rightarrow> exn" where
  "quote_error msg \<equiv> Exn ExecutionStartQuoteProofError msg"

definition timestamp_micros :: "json \<Rightarrow> int res" where
  "timestamp_micros v =
     (case utc_micros (the_str v) of
        None \<Rightarrow> raise PyValueError ''Invalid isoformat string'' | Some t \<Rightarrow> Inr t)"

definition check_proof_policy :: "json \<Rightarrow> unit res" where
  "check_proof_policy raw =
     (let bad = quote_error ''execution start quote proof policy is invalid''
      in rbind (rguard (fld raw ''schema_version'' = JStr EXECUTION_START_QUOTE_PROOF_SCHEMA_VERSION
            \<and> is_float (fld raw ''max_age_seconds'')
            \<and> jeq (fld raw ''max_age_seconds'') (JInt V3_FORMAL_QUOTE_MAX_AGE_SECONDS)
            \<and> is_float (fld raw ''future_skew_seconds'')
            \<and> jeq (fld raw ''future_skew_seconds'') (JInt FORMAL_TICK_FUTURE_SKEW_SECONDS)
            \<and> fld raw ''journal_authenticated'' = JBool True
            \<and> fld raw ''start_authorized'' = JBool True) bad)
         (\<lambda>_. require_member (fld raw ''phase'') [''CLOSE'', ''OPEN''] bad))"

definition check_proof_identity :: "json \<Rightarrow> unit res" where
  "check_proof_identity raw =
     rbind (rall (\<lambda>f. rcatch
          (rbind (validate_identifier (fld raw f) (''execution_start_quote_proof.'' @ f)) (\<lambda>_. Inr ()))
          (\<lambda>e. Inl (quote_error (exn_text e)))) [''execution_run_id'', ''plan_id'']) (\<lambda>_.
     rall (\<lambda>f. rguard (str_sat SHA256_RE (fld raw f))
          (quote_error (''execution start quote proof '' @ f @ '' is invalid'')))
       [''plan_hash'', ''creation_quote_proof_sha256'', ''proof_sha256''])"

definition LINEAGE_FIELDS :: "string list" where
  "LINEAGE_FIELDS =
     [''execution_run_id'', ''phase'', ''plan_id'', ''plan_hash'', ''creation_quote_proof_sha256'']"

definition check_binding_evidence :: "json \<Rightarrow> unit res" where
  "check_binding_evidence binding =
     (let bad = quote_error ''execution start quote binding evidence is invalid''
      in rbind (rguard (fld binding ''source'' = JStr ''windows-tick-wire-v1'') bad) (\<lambda>_.
         rbind (require_member (fld binding ''price_side'') [''ask'', ''bid''] bad) (\<lambda>_.
         rguard (str_sat (\<lambda>s. s \<noteq> []) (fld binding ''stream_generation'')
             \<and> str_sat (\<lambda>s. s \<noteq> []) (fld binding ''ingest_id'')
             \<and> int_at_least 1 (fld binding ''ingest_seq'')
             \<and> str_sat SHA256_RE (fld binding ''event_hash'')
             \<and> str_sat UTC_RE (fld binding ''received_at_utc'')) bad)))"

definition check_binding_price :: "json \<Rightarrow> unit res" where
  "check_binding_price binding =
     rbind (protected_price binding) (\<lambda>protected.
     rbind (quote_error_on_value_error
         (rbind (decimal_of (fld binding ''protected_price'') ''quote protected_price'') (\<lambda>p.
          rbind (decimal_of (fld binding ''price_tick'') ''quote price_tick'') (\<lambda>tick.
          normalize_near_grid_price p tick)))
         ''execution start quote protected price is invalid'') (\<lambda>bound_protected.
     rbind (rguard (0 < protected \<and> protected = bound_protected)
         (quote_error ''execution start quote protected price is invalid'')) (\<lambda>_.
     case dget binding ''immutable_order_price'' of None \<Rightarrow> Inr ()
     | Some v \<Rightarrow> rbind (decimal_of v ''immutable order price'') (\<lambda>_. Inr ()))))"

definition check_binding :: "json \<Rightarrow> int \<Rightarrow> string \<times> json \<Rightarrow> unit res" where
  "check_binding raw validated_at entry =
     (let (order_ref, binding) = entry in
      rbind (rguard (is_obj binding \<and>
          (keys_are binding BINDING_FIELDS \<or> keys_are binding BOUNDED_BINDING_FIELDS))
        (quote_error ''execution start quote binding fields are not exact'')) (\<lambda>_.
      rbind (rguard (fld binding ''order_ref'' = JStr order_ref)
        (quote_error ''execution start quote order identity mismatches'')) (\<lambda>_.
      rbind (rguard (list_all (\<lambda>f. jeq (fld binding f) (fld raw f)) LINEAGE_FIELDS)
        (quote_error ''execution start quote binding lineage mismatches'')) (\<lambda>_.
      rbind (check_binding_evidence binding) (\<lambda>_.
      rbind (timestamp_micros (fld binding ''received_at_utc'')) (\<lambda>received_at.
      rbind (rguard (validated_at - received_at \<le> V3_FORMAL_QUOTE_MAX_AGE_SECONDS * 1000000
          \<and> - (FORMAL_TICK_FUTURE_SKEW_SECONDS * 1000000) \<le> validated_at - received_at)
        (quote_error ''execution start quote binding is stale or from the future'')) (\<lambda>_.
      check_binding_price binding)))))))"

definition validate_execution_start_quote_proof :: "json \<Rightarrow> json res" where
  "validate_execution_start_quote_proof value =
     (if \<not> is_obj value
      then raise ExecutionStartQuoteProofError ''execution start quote proof must be an object''
      else if \<not> finite_json value
      then raise ExecutionStartQuoteProofError ''execution start quote proof must be canonical JSON''
      else let raw = canon value in
        rbind (rguard (keys_are raw PROOF_FIELDS)
          (quote_error ''execution start quote proof fields are not exact'')) (\<lambda>_.
        rbind (check_proof_policy raw) (\<lambda>_.
        rbind (check_proof_identity raw) (\<lambda>_.
        rbind (rguard (str_sat UTC_RE (fld raw ''validated_at_utc''))
          (quote_error ''execution start quote proof timestamp is invalid'')) (\<lambda>_.
        rbind (timestamp_micros (fld raw ''validated_at_utc'')) (\<lambda>validated_at.
        rbind (rguard (fld raw ''proof_sha256'' = JStr (json_hash (dpop raw ''proof_sha256'')))
          (quote_error ''execution start quote proof hash mismatch'')) (\<lambda>_.
        rbind (rguard (is_obj (fld raw ''bindings'') \<and> truthy (fld raw ''bindings''))
          (quote_error ''execution start quote proof bindings are invalid'')) (\<lambda>_.
        rbind (rall (check_binding raw validated_at) (items (fld raw ''bindings''))) (\<lambda>_.
        Inr raw)))))))))"

section \<open>Binding a one-order proof to a broker request\<close>

definition require_quote_proof_order_request :: "json \<Rightarrow> json \<Rightarrow> json res" where
  "require_quote_proof_order_request proof request =
     rbind (validate_execution_start_quote_proof proof) (\<lambda>raw.
     if \<not> is_obj request \<or> dlen (fld raw ''bindings'') \<noteq> 1
     then raise ExecutionStartQuoteProofError ''execution start quote proof is not one exact order''
     else let (order_ref, binding) = hd (items (fld raw ''bindings''));
            direction = fld request ''direction'';
            expected_side = (if direction = JStr ''LONG'' then ''ask'' else ''bid'');
            symbol = py_str (fld request ''symbol''); exchange = py_str (fld request ''exchange'');
            bad = quote_error ''execution start quote proof does not bind order request''
       in rbind (require_member direction [''LONG'', ''SHORT''] bad) (\<lambda>_.
          rbind (rguard (fld request ''reference'' = JStr order_ref
              \<and> fld binding ''exact_contract'' = JStr (exchange @ ''.'' @ symbol)
              \<and> fld binding ''vt_symbol'' = JStr (symbol @ ''.'' @ exchange)
              \<and> fld binding ''price_side'' = JStr expected_side
              \<and> jeq (fld binding ''offset'') (fld request ''offset'')) bad) (\<lambda>_.
          rbind (protected_price binding) (\<lambda>protected.
          rbind (decimal_of (fld request ''price'') ''order price'') (\<lambda>request_price.
          if fld binding ''immutable_order_price'' = JNull
          then (if protected \<noteq> request_price then Inl bad else Inr raw)
          else rbind (decimal_of (fld binding ''immutable_order_price'') ''immutable order price'') (\<lambda>limit.
            if request_price \<noteq> limit
              \<or> \<not> protected_price_is_compatible ''BOUNDED'' (the_str direction) protected limit
            then Inl bad else Inr raw))))))"

section \<open>Facts\<close>

lemma validate_quote_proof_Inr:
  assumes "validate_execution_start_quote_proof value = Inr raw"
  shows "raw = canon value" "keys_are raw PROOF_FIELDS" "is_obj value" "finite_json value"
    "fld raw ''proof_sha256'' = JStr (json_hash (dpop raw ''proof_sha256''))"
    "is_obj (fld raw ''bindings'')" "items (fld raw ''bindings'') \<noteq> []"
    "\<exists>t. timestamp_micros (fld raw ''validated_at_utc'') = Inr t \<and>
      (\<forall>e \<in> set (items (fld raw ''bindings'')). check_binding raw t e = Inr ())"
proof -
  note a = assms [unfolded validate_execution_start_quote_proof_def Let_def]
  show "raw = canon value" "keys_are raw PROOF_FIELDS" "is_obj value" "finite_json value"
    "fld raw ''proof_sha256'' = JStr (json_hash (dpop raw ''proof_sha256''))"
    "is_obj (fld raw ''bindings'')"
    "\<exists>t. timestamp_micros (fld raw ''validated_at_utc'') = Inr t \<and>
      (\<forall>e \<in> set (items (fld raw ''bindings'')). check_binding raw t e = Inr ())"
    using a by (auto simp: rbind_Inr_iff rall_Inr_iff split: if_splits)
  show "items (fld raw ''bindings'') \<noteq> []"
    using a by (cases "fld raw ''bindings''") (auto simp: rbind_Inr_iff split: if_splits)
qed

lemma check_binding_Inr:
  assumes "check_binding raw t (r, b) = Inr ()"
  shows "fld b ''order_ref'' = JStr r"
    "f \<in> set LINEAGE_FIELDS \<Longrightarrow> jeq (fld b f) (fld raw f)"
    "\<exists>u. timestamp_micros (fld b ''received_at_utc'') = Inr u \<and> t - u \<le> 5000000 \<and> - 2000000 \<le> t - u"
    "\<exists>p. protected_price b = Inr p \<and> 0 < p"
  using assms
  by (auto simp: check_binding_def rbind_Inr_iff list_all_iff check_binding_price_def
      V3_FORMAL_QUOTE_MAX_AGE_SECONDS_def FORMAL_TICK_FUTURE_SKEW_SECONDS_def)

lemma protected_price_side:
  assumes "protected_price b = Inr p"
  shows "\<exists>ref tick. dec_value (fld b ''price_tick'') = Some tick \<and> 0 < tick \<and>
    normalize_near_grid_price (if fld b ''price_side'' = JStr ''ask'' then dec28 (ref + tick)
      else dec28 (ref - tick)) tick = Inr p"
  using assms
  by (fastforce simp: protected_price_def rbind_Inr_iff decimal_of_def quote_error_on_value_error_def
      rcatch_Inr_iff normalize_near_grid_price_def Let_def split: option.splits if_splits)

lemma to_float_nonneg: "0 \<le> x \<Longrightarrow> to_float x = Some r \<Longrightarrow> 0 \<le> r"
proof -
  assume x: "0 \<le> x" and r: "to_float x = Some r"
  have p: "0 < rpow 2 (float_exponent x)" by (rule rpow_pos) simp
  have "0 \<le> round_half_even (x / rpow 2 (float_exponent x))"
    using x p by (simp add: round_half_even_def Let_def)
  then show "0 \<le> r" using r p by (auto simp: to_float_def Let_def split: if_splits)
qed

lemma float_literal_nonneg: "0 \<le> x \<Longrightarrow> 0 \<le> float_literal x"
  using to_float_nonneg [of x] by (auto simp: float_literal_def split: option.splits)

lemma fmul_nonneg: "(\<And>a. x = Some a \<Longrightarrow> 0 \<le> a) \<Longrightarrow> 0 \<le> c \<Longrightarrow> fmul x c = Some r \<Longrightarrow> 0 \<le> r"
  by (cases x) (auto simp: fmul_def intro: to_float_nonneg [OF mult_nonneg_nonneg])

lemma price_tolerance_nonneg: "price_tolerance v t = Some r \<Longrightarrow> 0 \<le> r"
proof -
  assume r: "price_tolerance v t = Some r"
  let ?a = "fmul (fabs (to_float t)) (float_literal (1 / 10 ^ 6))"
    and ?b = "fmul (ulp_of (to_float v)) 8" and ?c = "fmul (fabs (to_float t)) (float_literal (1 / 10 ^ 9))"
  have f: "fabs (to_float t) = Some a \<Longrightarrow> 0 \<le> a" for a by (auto simp: fabs_def)
  have "?a = Some x \<Longrightarrow> 0 \<le> x" "?c = Some x \<Longrightarrow> 0 \<le> x" for x
    by (erule fmul_nonneg [rotated 2], use f float_literal_nonneg in auto)+
  moreover have "?b = Some x \<Longrightarrow> 0 \<le> x" for x
    by (erule fmul_nonneg [rotated 2])
      (auto simp: ulp_of_def rpow_def split: option.splits)
  ultimately show "0 \<le> r"
    using r by (auto simp: price_tolerance_def Let_def fmin_def fmax_def split: option.splits)
qed

text \<open>A price already on the grid, with at most 28 digits, is returned unchanged.\<close>

lemma normalize_on_grid:
  assumes tick: "0 < tick" and on_grid: "value = of_int k * tick"
    and fits: "fits28 value" "fits28 (of_int k)"
  shows "normalize_near_grid_price value tick = Inr value"
proof -
  have "to_float 0 = Some 0"
    by (simp add: to_float_def Let_def round_half_even_def rpow_def)
  then have "\<not> fgreater (to_float 0) (price_tolerance value tick)"
    using price_tolerance_nonneg [of "value" tick]
    by (cases "price_tolerance value tick") (auto simp: fgreater_def)
  then show ?thesis
    using tick fits on_grid
    by (simp add: normalize_near_grid_price_def Let_def fits28_def)
qed

end
