(* ===== verification/Exec_Validate.thy ===== *)
theory Exec_Validate
  imports Exec_Envelope Quote_Proof
begin

text \<open>
  The validators of \<open>backend/app/execution/repository.py\<close>: log entries, the sections of the durable
  document, and \<open>_validate_state\<close>, which every document read or written has to pass.
\<close>

abbreviation repo_error :: "string \<Rightarrow> exn" where
  "repo_error msg \<equiv> Exn RepositoryUnavailableError msg"

definition need :: "bool \<Rightarrow> string \<Rightarrow> unit res" where
  "need ok msg = rguard ok (repo_error msg)"

lemma need_Inr_iff [simp]: "need ok msg = Inr u \<longleftrightarrow> ok"
  by (simp add: need_def)

text \<open>Checks run one after the other; the first failure is raised.\<close>

definition checks :: "unit res list \<Rightarrow> unit res" where
  "checks cs = rall id cs"

lemma checks_Inr_iff [simp]: "checks cs = Inr u \<longleftrightarrow> (\<forall>c \<in> set cs. c = Inr ())"
  by (simp add: checks_def rall_Inr_iff)

definition state_digest :: "json \<Rightarrow> string res" where
  "state_digest state =
     rcatch (sha256_json (dpop state ''state_hash''))
       (\<lambda>_. raise RepositoryUnavailableError ''durable state cannot be canonically hashed'')"

definition require_log_timestamp :: "json \<Rightarrow> string \<Rightarrow> unit res" where
  "require_log_timestamp value field =
     need (str_sat UTC_RE value) (''durable log '' @ field @ '' is invalid'')"

section \<open>Log entries\<close>

definition RECEIPT_FIELDS :: "string list" where
  "RECEIPT_FIELDS = [''service'', ''idempotency_key'', ''command_hash'', ''command_id'',
     ''correlation_id'', ''actor'', ''status'', ''state_version'', ''result'', ''observed_at'']"

definition validate_receipt_entry :: "json \<Rightarrow> unit res" where
  "validate_receipt_entry value = checks
     [need (is_obj value) ''durable receipt is invalid'',
      need (keys_are value RECEIPT_FIELDS) ''durable receipt fields are invalid'',
      need (str_sat IDENTIFIER_RE (fld value ''service'')) ''durable receipt service is invalid'',
      need (str_sat IDEMPOTENCY_RE (fld value ''idempotency_key''))
        ''durable receipt idempotency key is invalid'',
      need (str_sat SHA256_RE (fld value ''command_hash'')) ''durable receipt command_hash is invalid'',
      need (str_sat IDENTIFIER_RE (fld value ''command_id'')) ''durable receipt command_id is invalid'',
      need (str_sat IDENTIFIER_RE (fld value ''correlation_id''))
        ''durable receipt correlation_id is invalid'',
      need (is_obj (fld value ''actor'') \<and> keys_are (fld value ''actor'') actor_fields)
        ''durable receipt actor is invalid'',
      need (list_all (\<lambda>f. str_sat (\<lambda>s. s \<noteq> []) (fld (fld value ''actor'') f)) (keys (fld value ''actor'')))
        ''durable receipt actor is invalid'',
      require_member (fld value ''status'') [''COMPLETED'', ''REJECTED'']
        (repo_error ''durable receipt status is invalid''),
      need (int_at_least 1 (fld value ''state_version'')) ''durable receipt state version is invalid'',
      need (is_obj (fld value ''result'')) ''durable receipt result is invalid'',
      require_log_timestamp (fld value ''observed_at'') ''observed_at'']"

definition audit_schema :: "string \<Rightarrow> string list option" where
  "audit_schema kind =
     (if kind = ''reconcile_rejected'' then Some [''kind'', ''reason'', ''observed_at'']
      else if kind = ''cancel_rejected''
      then Some [''kind'', ''target_intent_id'', ''reason'', ''observed_at'']
      else if kind = ''emergency_stop'' then Some [''kind'', ''reason'', ''observed_at'']
      else if kind = ''fail_closed_halt'' then Some [''kind'', ''reason'', ''observed_at'']
      else if kind = ''test'' then Some [''kind'', ''observed_at'']
      else None)"

definition validate_audit_entry :: "json \<Rightarrow> unit res" where
  "validate_audit_entry value =
     (if \<not> is_obj value \<or> \<not> is_jstr (fld value ''kind'')
      then raise RepositoryUnavailableError ''durable audit entry is invalid''
      else if fld value ''kind'' = JStr ''command_receipt''
      then validate_receipt_entry (dpop value ''kind'')
      else checks
        [need (case audit_schema (the_str (fld value ''kind'')) of None \<Rightarrow> False
               | Some allowed \<Rightarrow> keys_are value allowed) ''durable audit entry fields are invalid'',
         require_log_timestamp (fld value ''observed_at'') ''observed_at'',
         need (has_key value ''reason'' \<longrightarrow> str_sat (\<lambda>s. s \<noteq> []) (fld value ''reason''))
           ''durable audit reason is invalid'',
         need (has_key value ''target_intent_id'' \<longrightarrow>
             str_sat IDENTIFIER_RE (fld value ''target_intent_id''))
           ''durable audit target is invalid''])"

definition validate_plan_terminal :: "json \<Rightarrow> unit res" where
  "validate_plan_terminal value = checks
     [need (keys_are value [''kind'', ''plan_id'', ''plan_hash'', ''plan_version'', ''archived_at''])
        ''durable plan archive fields are invalid'',
      need (str_sat IDENTIFIER_RE (fld value ''plan_id'')) ''durable plan archive id is invalid'',
      need (str_sat SHA256_RE (fld value ''plan_hash'')) ''durable plan archive hash is invalid'',
      need (int_at_least 0 (fld value ''plan_version'')) ''durable plan archive version is invalid'',
      require_log_timestamp (fld value ''archived_at'') ''archived_at'']"

definition validate_intent_terminal :: "json \<Rightarrow> unit res" where
  "validate_intent_terminal value = checks
     [need (keys_are value
          [''kind'', ''intent_id'', ''idempotency_key'', ''broker_order_id'', ''archived_at''])
        ''durable intent archive fields are invalid'',
      need (str_sat IDENTIFIER_RE (fld value ''intent_id'')) ''durable intent archive id is invalid'',
      need (str_sat IDEMPOTENCY_RE (fld value ''idempotency_key''))
        ''durable intent archive key is invalid'',
      need (fld value ''broker_order_id'' = JNull \<or> is_jstr (fld value ''broker_order_id''))
        ''durable intent archive broker id is invalid'',
      require_log_timestamp (fld value ''archived_at'') ''archived_at'']"

definition legacy_final_fields :: "string list" where
  "legacy_final_fields = [''kind'', ''plan_id'', ''plan_hash'', ''plan_version'', ''receipt_id'',
     ''final_position_hash'', ''archived_at'']"

definition new_final_fields :: "string list" where
  "new_final_fields = legacy_final_fields @ [''target_position_hash'', ''positions'']"

definition v3_final_fields :: "string list" where
  "v3_final_fields = new_final_fields @
     [''execution_run_id'', ''creation_quote_proof_sha256'', ''start_quote_proof_sha256'']"

definition validate_final_positions :: "json \<Rightarrow> unit res" where
  "validate_final_positions value = checks
     [need (str_sat SHA256_RE (fld value ''target_position_hash''))
        ''durable final plan archive target_position_hash is invalid'',
      need (is_obj (fld value ''positions'')) ''durable final plan archive positions are invalid'',
      need (finite_json (fld value ''positions'')) ''durable final plan archive positions are invalid'',
      need (jeq (JStr (json_hash (fld value ''positions''))) (fld value ''final_position_hash''))
        ''durable final plan archive full position hash is invalid'']"

definition validate_final_v3 :: "json \<Rightarrow> unit res" where
  "validate_final_v3 value = checks
     [need (str_sat IDENTIFIER_RE (fld value ''execution_run_id''))
        ''durable final plan archive execution_run_id is invalid'',
      need (str_sat SHA256_RE (fld value ''creation_quote_proof_sha256''))
        ''durable final plan archive creation_quote_proof_sha256 is invalid'',
      need (str_sat SHA256_RE (fld value ''start_quote_proof_sha256''))
        ''durable final plan archive start_quote_proof_sha256 is invalid'']"

definition validate_final_completed :: "json \<Rightarrow> unit res" where
  "validate_final_completed value =
     (let full = keys_are value new_final_fields \<or> keys_are value v3_final_fields
      in checks
     [need (keys_are value legacy_final_fields \<or> full) ''durable final plan archive fields are invalid'',
      need (str_sat IDENTIFIER_RE (fld value ''plan_id'')) ''durable final plan archive plan_id is invalid'',
      need (str_sat IDENTIFIER_RE (fld value ''receipt_id''))
        ''durable final plan archive receipt_id is invalid'',
      need (str_sat SHA256_RE (fld value ''plan_hash'')) ''durable final plan archive plan_hash is invalid'',
      need (str_sat SHA256_RE (fld value ''final_position_hash''))
        ''durable final plan archive final_position_hash is invalid'',
      (if full then validate_final_positions value else Inr ()),
      (if keys_are value v3_final_fields then validate_final_v3 value else Inr ()),
      need (int_at_least 0 (fld value ''plan_version'')) ''durable final plan archive version is invalid'',
      require_log_timestamp (fld value ''archived_at'') ''archived_at''])"

definition validate_archive_entry :: "json \<Rightarrow> unit res" where
  "validate_archive_entry value =
     (if \<not> is_obj value \<or> \<not> is_jstr (fld value ''kind'')
      then raise RepositoryUnavailableError ''durable terminal archive entry is invalid''
      else if fld value ''kind'' = JStr ''plan_terminal'' then validate_plan_terminal value
      else if fld value ''kind'' = JStr ''intent_terminal'' then validate_intent_terminal value
      else if fld value ''kind'' = JStr ''final_plan_completed'' then validate_final_completed value
      else raise RepositoryUnavailableError ''durable terminal archive kind is invalid'')"

section \<open>Sections of the document\<close>

definition required_sections :: "string list" where
  "required_sections = [''state_version'', ''lifecycle'', ''authority'', ''plan'', ''send_intents'',
     ''intent_keys'', ''unknown_outcomes'', ''reconciliation'', ''broker'', ''lease'', ''receipts'',
     ''audit'', ''terminal_archive'', ''previous_state_hash'', ''state_hash'']"

definition check_shape :: "json \<Rightarrow> string \<Rightarrow> unit res" where
  "check_shape state scope =
     (let missing = filter (\<lambda>k. \<not> has_key state k) required_sections
      in checks
     ([need (is_obj state) ''durable state is not an object'',
       need (fld state ''schema_version'' = JStr ''execution_durable_state_v1'')
         ''durable state schema version is unknown'',
       need (missing = []) (''durable state missing safety section(s): '' @ join '', '' (sort missing)),
       need (keys_are state (''schema_version'' # required_sections))
         ''durable state fields are not exact'',
       need (is_jint (fld state ''state_version'')) ''durable state version is invalid'',
       need (int_at_least 0 (fld state ''state_version'')) ''durable state version is negative'',
       need (is_obj (fld state ''lease'')) ''durable lease is invalid'',
       need (fld (fld state ''lease'') ''scope'' = JStr scope)
         ''durable lease scope does not match repository''] @
      map (\<lambda>s. need (is_obj (fld state s)) (''durable '' @ s @ '' is invalid''))
        [''authority'', ''plan'', ''reconciliation'', ''broker'',
         ''send_intents'', ''intent_keys'', ''unknown_outcomes'', ''receipts''] @
      map (\<lambda>s. need (is_jarr (fld state s)) (''durable '' @ s @ '' is invalid''))
        [''audit'', ''terminal_archive'']))"

definition LIFECYCLES :: "string list" where
  "LIFECYCLES = [''STARTING'', ''READY'', ''DEGRADED'', ''DRAINING'', ''HALTED_RECONCILE_REQUIRED'',
     ''HALTED_UNKNOWN_OUTCOME'', ''STOPPING'']"

definition AUTHORITY_STATES :: "string list" where
  "AUTHORITY_STATES = [''DISABLED'', ''ENABLED'', ''EXPIRED'', ''REVOKED'', ''UNKNOWN'']"

definition PLAN_STATES :: "string list" where
  "PLAN_STATES = [''IDLE'', ''PREVIEWED'', ''ACTIVE'', ''STOPPING'', ''TERMINAL'', ''UNKNOWN'']"

definition RECONCILIATION_STATES :: "string list" where
  "RECONCILIATION_STATES =
     [''NOT_REQUIRED'', ''REQUIRED'', ''IN_PROGRESS'', ''RECONCILED'', ''UNKNOWN'']"

definition check_states :: "json \<Rightarrow> unit res" where
  "check_states state = checks
     [require_member (fld state ''lifecycle'') LIFECYCLES (repo_error ''durable lifecycle is unknown''),
      require_member (fld (fld state ''authority'') ''state'') AUTHORITY_STATES
        (repo_error ''durable authority state is unknown''),
      require_member (fld (fld state ''plan'') ''state'') PLAN_STATES
        (repo_error ''durable plan state is unknown''),
      require_member (fld (fld state ''reconciliation'') ''state'') RECONCILIATION_STATES
        (repo_error ''durable reconciliation state is unknown'')]"

definition AUTHORITY_FIELDS :: "string list" where
  "AUTHORITY_FIELDS = [''state'', ''artifact_id'', ''artifact_hash'', ''expires_at'']"

definition check_authority :: "json \<Rightarrow> unit res" where
  "check_authority authority = checks
     [need (keys_are authority AUTHORITY_FIELDS) ''durable authority fields are invalid'',
      need (str_sat IDENTIFIER_RE (fld authority ''artifact_id''))
        ''durable authority artifact id is invalid'',
      need (str_sat SHA256_RE (fld authority ''artifact_hash'')) ''durable authority hash is invalid'',
      need (str_sat UTC_RE (fld authority ''expires_at'')) ''durable authority expiry is invalid'']"

definition PLAN_FIELDS :: "string list" where
  "PLAN_FIELDS = [''state'', ''plan_id'', ''plan_hash'', ''version'', ''preview_mode'',
     ''preview_receipt_id'', ''preview_receipt_sha256'', ''preview_artifact_id'',
     ''preview_artifact_sha256'']"

definition preview_defaults :: "json \<Rightarrow> bool" where
  "preview_defaults plan \<longleftrightarrow>
     fld plan ''preview_receipt_id'' = JStr UNKNOWN_ID \<and>
     fld plan ''preview_receipt_sha256'' = JStr ZERO_HASH \<and>
     fld plan ''preview_artifact_id'' = JStr UNKNOWN_ID \<and>
     fld plan ''preview_artifact_sha256'' = JStr ZERO_HASH"

definition check_plan :: "json \<Rightarrow> unit res" where
  "check_plan plan = checks
     [need (keys_are plan PLAN_FIELDS) ''durable plan fields are invalid'',
      need (str_sat IDENTIFIER_RE (fld plan ''plan_id'')) ''durable plan id is invalid'',
      need (str_sat SHA256_RE (fld plan ''plan_hash'')) ''durable plan hash is invalid'',
      need (int_at_least 0 (fld plan ''version'')) ''durable plan version is invalid'',
      require_member (fld plan ''preview_mode'') ['''', ''offline_preview'', ''simnow_preview'']
        (repo_error ''durable preview mode is invalid''),
      need (str_sat IDENTIFIER_RE (fld plan ''preview_receipt_id''))
        ''durable preview receipt id is invalid'',
      need (str_sat SHA256_RE (fld plan ''preview_receipt_sha256''))
        ''durable preview_receipt_sha256 is invalid'',
      need (str_sat SHA256_RE (fld plan ''preview_artifact_sha256''))
        ''durable preview_artifact_sha256 is invalid'',
      need (str_sat IDENTIFIER_RE (fld plan ''preview_artifact_id''))
        ''durable preview artifact id is invalid'',
      need (\<not> (fld plan ''preview_mode'' = JStr ''simnow_preview'' \<and> preview_defaults plan))
        ''SIMNOW preview is missing custody provenance'',
      need (\<not> (fld plan ''preview_mode'' \<noteq> JStr ''simnow_preview'' \<and> \<not> preview_defaults plan))
        ''non-SIMNOW preview retains custody provenance'']"

definition LEASE_FIELDS :: "string list" where
  "LEASE_FIELDS = [''scope'', ''owner_id'', ''epoch'', ''fencing_token'', ''lease_expires_at'',
     ''instance_id'']"

definition check_lease :: "json \<Rightarrow> unit res" where
  "check_lease lease =
     (let owner = fld lease ''owner_id''; instance_id = fld lease ''instance_id''
      in checks
     [need (keys_are lease LEASE_FIELDS) ''durable lease fields are invalid'',
      need (int_at_least 0 (fld lease ''epoch'')) ''durable lease epoch is invalid'',
      need (int_at_least 0 (fld lease ''fencing_token'')) ''durable lease fencing_token is invalid'',
      need (str_sat UTC_RE (fld lease ''lease_expires_at'')) ''durable lease expiry is invalid'',
      need (truthy owner \<longrightarrow> str_sat IDENTIFIER_RE owner) ''durable lease owner is invalid'',
      need (truthy owner \<longrightarrow> str_sat IDENTIFIER_RE instance_id) ''durable lease instance is invalid'',
      need (truthy owner \<or> instance_id = JStr []) ''released lease retains an instance''])"

definition BROKER_FIELDS :: "string list" where
  "BROKER_FIELDS = [''connected'', ''generation'', ''active_order_count'',
     ''position_snapshot_hash'', ''last_snapshot_at'', ''orders'', ''positions'']"

definition check_broker :: "json \<Rightarrow> unit res" where
  "check_broker broker = checks
     [need (keys_are broker BROKER_FIELDS) ''durable broker fields are invalid'',
      need (is_jbool (fld broker ''connected'')) ''durable broker connected flag is invalid'',
      need (int_at_least 0 (fld broker ''generation'')) ''durable broker generation is invalid'',
      need (int_at_least 0 (fld broker ''active_order_count''))
        ''durable broker active_order_count is invalid'',
      need (str_sat SHA256_RE (fld broker ''position_snapshot_hash''))
        ''durable broker position hash is invalid'',
      need (str_sat UTC_RE (fld broker ''last_snapshot_at''))
        ''durable broker snapshot timestamp is invalid'',
      need (is_obj (fld broker ''orders'')) ''durable broker orders facts are invalid'',
      need (is_obj (fld broker ''positions'')) ''durable broker positions facts are invalid'']"

definition check_hashes :: "json \<Rightarrow> unit res" where
  "check_hashes state = checks
     [need (str_sat (\<lambda>h. h = [] \<or> SHA256_RE h) (fld state ''previous_state_hash''))
        ''durable previous state hash is invalid'',
      need (\<not> (0 < the_int (fld state ''state_version'') \<and> \<not> truthy (fld state ''previous_state_hash'')))
        ''durable state hash chain predecessor is missing'',
      need (str_sat SHA256_RE (fld state ''state_hash'')) ''durable state hash is invalid'']"

section \<open>Intents, indexes and outcomes\<close>

definition INTENT_STATES :: "string list" where
  "INTENT_STATES = [''PERSISTED'', ''SUBMITTED'', ''ACKNOWLEDGED'', ''UNKNOWN_OUTCOME'',
     ''RECONCILED'', ''CANCEL_REQUESTED'', ''CANCELLED'', ''TERMINAL'']"

definition check_intent_quote :: "json \<Rightarrow> unit res" where
  "check_intent_quote raw =
     (let proof = fld raw ''execution_start_quote_proof'';
          sha = fld raw ''execution_start_quote_proof_sha256''
      in rbind (need ((proof = JNull) = (sha = JNull))
           ''durable send intent start quote proof is incomplete'') (\<lambda>_.
         if proof = JNull then Inr ()
         else rbind (rcatch (validate_execution_start_quote_proof proof) (\<lambda>e.
             if is_a e PyValueError
             then raise RepositoryUnavailableError ''durable send intent start quote proof is invalid''
             else Inl e)) (\<lambda>validated. checks
           [need (jeq sha (fld validated ''proof_sha256''))
              ''durable send intent start quote proof hash mismatches'',
            need (get_or raw ''action'' (JStr ''send'') = JStr ''send''
                \<and> jeq (fld validated ''plan_id'') (fld raw ''plan_id'')
                \<and> jeq (fld validated ''plan_hash'') (fld raw ''plan_hash''))
              ''durable send intent start quote proof binding mismatches''])))"

definition check_intent :: "string \<times> json \<Rightarrow> unit res" where
  "check_intent entry =
     (let (intent_id, raw) = entry in checks
     [need (\<not> starts_with ''key:'' intent_id)
        ''legacy intent key aliases are not canonical durable state'',
      need (is_obj raw) ''durable send intent is invalid'',
      need (fld raw ''intent_id'' = JStr intent_id) ''durable send intent identity/state is invalid'',
      require_member (fld raw ''state'') INTENT_STATES
        (repo_error ''durable send intent identity/state is invalid''),
      need (str_sat IDENTIFIER_RE (fld raw ''plan_id'')) ''durable send intent plan id is invalid'',
      need (str_sat SHA256_RE (fld raw ''plan_hash'')) ''durable send intent plan hash is invalid'',
      need (str_sat IDEMPOTENCY_RE (fld raw ''idempotency_key''))
        ''durable send intent idempotency key is invalid'',
      require_member (get_or raw ''action'' (JStr ''send'')) [''send'', ''cancel'']
        (repo_error ''durable send intent action is invalid''),
      need (truthy (get_or raw ''request_hash'' (JStr [])) \<longrightarrow>
          str_sat SHA256_RE (fld raw ''request_hash'')) ''durable send intent request hash is invalid'',
      need (fld raw ''receipt_id'' = JNull \<or> str_sat IDENTIFIER_RE (fld raw ''receipt_id''))
        ''durable send intent receipt id is invalid'',
      need (fld raw ''receipt_hash'' = JNull \<or> str_sat SHA256_RE (fld raw ''receipt_hash''))
        ''durable send intent receipt hash is invalid'',
      check_intent_quote raw,
      need (fld raw ''target_intent_id'' = JNull \<or> str_sat IDENTIFIER_RE (fld raw ''target_intent_id''))
        ''durable send intent target is invalid'',
      need (int_at_least 1 (fld raw ''leader_epoch'')) ''durable send intent fence is invalid'',
      need (int_at_least 1 (fld raw ''fencing_token'')) ''durable send intent fence is invalid'',
      need (str_sat UTC_RE (fld raw ''created_at'')) ''durable send intent timestamp is invalid''])"

definition check_intent_key :: "json \<Rightarrow> string \<times> json \<Rightarrow> unit res" where
  "check_intent_key state entry =
     (let (key, intent_id) = entry in
      need (IDEMPOTENCY_RE key \<and> is_jstr intent_id
          \<and> has_key (fld state ''send_intents'') (the_str intent_id)
          \<and> fld (fld (fld state ''send_intents'') (the_str intent_id)) ''idempotency_key'' = JStr key)
        ''durable intent idempotency index is invalid'')"

definition check_unknown :: "json \<Rightarrow> string \<Rightarrow> unit res" where
  "check_unknown state intent_id =
     need (has_key (fld state ''send_intents'') intent_id) ''durable unknown outcome has no intent''"

definition check_receipt :: "string \<times> json \<Rightarrow> unit res" where
  "check_receipt entry =
     (let (key, receipt) = entry in checks
     [need (CHR '':'' \<in> set key) ''durable receipt index key is invalid'',
      validate_receipt_entry receipt,
      need (key = the_str (fld receipt ''service'') @ '':'' @ the_str (fld receipt ''idempotency_key''))
        ''durable receipt index binding is invalid''])"

definition check_unknown_intent :: "json \<Rightarrow> string \<times> json \<Rightarrow> unit res" where
  "check_unknown_intent state entry =
     (let (intent_id, raw) = entry in
      need (\<not> (fld raw ''state'' = JStr ''UNKNOWN_OUTCOME''
          \<and> \<not> has_key (fld state ''unknown_outcomes'') intent_id))
        ''durable unknown intent is missing its outcome record'')"

definition check_indexes :: "json \<Rightarrow> unit res" where
  "check_indexes state = checks
     [rall check_intent (items (fld state ''send_intents'')),
      rall (check_intent_key state) (items (fld state ''intent_keys'')),
      rall (check_unknown state) (keys (fld state ''unknown_outcomes'')),
      rall check_receipt (items (fld state ''receipts'')),
      rall (check_unknown_intent state) (items (fld state ''send_intents'')),
      need (jeq (fld (fld state ''reconciliation'') ''unknown_outcomes'')
          (JInt (dlen (fld state ''unknown_outcomes''))))
        ''durable reconciliation unknown count is inconsistent'']"

section \<open>The whole document\<close>

definition check_document :: "json \<Rightarrow> string \<Rightarrow> unit res" where
  "check_document state scope = checks
     [check_shape state scope,
      rall validate_audit_entry (jarr (fld state ''audit'')),
      rall validate_archive_entry (jarr (fld state ''terminal_archive'')),
      check_states state,
      check_authority (fld state ''authority''),
      check_plan (fld state ''plan''),
      check_lease (fld state ''lease''),
      check_broker (fld state ''broker''),
      check_hashes state,
      check_indexes state]"

definition validate_state :: "json \<Rightarrow> string \<Rightarrow> json res" where
  "validate_state raw scope =
     rbind (check_document raw scope) (\<lambda>_.
     rbind (state_digest raw) (\<lambda>h.
     rbind (need (JStr h = fld raw ''state_hash'') ''durable state hash mismatch'') (\<lambda>_.
     Inr raw)))"

definition initial_body :: "string \<Rightarrow> json" where
  "initial_body scope = JObj
     [(''schema_version'', JStr ''execution_durable_state_v1''),
      (''state_version'', JInt 0),
      (''lifecycle'', JStr ''STARTING''),
      (''authority'', authority_as_dict default_authority),
      (''plan'', plan_as_dict default_plan),
      (''send_intents'', JObj []),
      (''intent_keys'', JObj []),
      (''unknown_outcomes'', JObj []),
      (''reconciliation'', reconciliation_as_dict default_reconciliation),
      (''broker'', broker_as_dict default_broker),
      (''lease'', JObj
        [(''scope'', JStr scope), (''owner_id'', JStr []), (''epoch'', JInt 0),
         (''fencing_token'', JInt 0), (''lease_expires_at'', JStr EPOCH_TIMESTAMP),
         (''instance_id'', JStr [])]),
      (''receipts'', JObj []),
      (''audit'', JArr []),
      (''terminal_archive'', JArr []),
      (''previous_state_hash'', JStr [])]"

definition initial_state :: "string \<Rightarrow> json" where
  "initial_state scope =
     dset (initial_body scope) ''state_hash'' (JStr (json_hash (initial_body scope)))"

end
