(* ===== verification/Exec_Repository.thy ===== *)
theory Exec_Repository
  imports Exec_Validate
begin

text \<open>
  \<open>DurableExecutionRepository\<close> of \<open>backend/app/execution/repository.py\<close>: the document in memory, the
  file it is written to, and the compare-and-swap mutation every change of the durable state goes
  through. Locks make an operation one step; what other processes do to the file between two
  operations of this one, whether locking works and how a write ends are answers of the environment,
  numbered by a counter of the operations.
\<close>

section \<open>State and environment\<close>

text \<open>What a read of the state path gives: no file, a read or decode error, or a JSON value.\<close>

datatype disk = NoFile | Unreadable | Stored json

text \<open>\<open>_persist\<close> can fail before or after \<open>os.replace\<close> has installed the new file.\<close>

datatype write_outcome = WriteOk | FailBeforeReplace | FailAfterReplace

record env =
  e_scope :: string
  e_path :: bool
  e_clock :: "nat \<Rightarrow> int"
  e_uuid :: "nat \<Rightarrow> string"
  e_others :: "nat \<Rightarrow> disk \<Rightarrow> disk"
  e_lock :: "nat \<Rightarrow> bool"
  e_write :: "nat \<Rightarrow> write_outcome"

record repo =
  r_mem :: json
  r_available :: bool
  r_initialized :: bool
  r_disk :: disk
  r_tick :: nat

type_synonym ('z, 'a) op = "('z repo_scheme, exn, 'a) act"

definition next_tick :: "('z, nat) op" where
  "next_tick = (\<lambda>s. (Inr (r_tick s), s\<lparr>r_tick := Suc (r_tick s)\<rparr>))"

section \<open>Pure cores\<close>

definition load_state :: "string \<Rightarrow> bool \<Rightarrow> disk \<Rightarrow> json res" where
  "load_state scope path disk =
     (if \<not> path then Inr (initial_state scope)
      else case disk of
        NoFile \<Rightarrow> Inr (initial_state scope)
      | Unreadable \<Rightarrow> raise RepositoryUnavailableError ''cannot read durable execution state''
      | Stored raw \<Rightarrow> validate_state raw scope)"

definition version_of :: "json \<Rightarrow> int" where
  "version_of state = the_int (fld state ''state_version'')"

definition HIGH_WATERS :: "(string \<times> string) list" where
  "HIGH_WATERS = [(''lease'', ''epoch''), (''lease'', ''fencing_token''), (''plan'', ''version''),
     (''broker'', ''generation'')]"

definition high_water :: "json \<Rightarrow> string \<times> string \<Rightarrow> int" where
  "high_water state sf = the_int (fld (fld state (fst sf)) (snd sf))"

definition refresh_checks :: "json \<Rightarrow> json \<Rightarrow> unit res" where
  "refresh_checks mem candidate = checks
     ([need (version_of mem \<le> version_of candidate) ''durable state version regressed'',
       need (\<not> (version_of candidate = version_of mem
           \<and> \<not> jeq (fld candidate ''state_hash'') (fld mem ''state_hash'')))
         ''durable state replacement at the same version''] @
      (if version_of mem < version_of candidate
       then need (jeq (fld candidate ''previous_state_hash'') (fld mem ''state_hash''))
              ''durable state hash chain was replaced'' #
            map (\<lambda>sf. need (high_water mem sf \<le> high_water candidate sf)
                (''durable '' @ fst sf @ '' '' @ snd sf @ '' regressed'')) HIGH_WATERS
       else []))"

definition refreshed :: "string \<Rightarrow> bool \<Rightarrow> bool \<Rightarrow> json \<Rightarrow> disk \<Rightarrow> json res" where
  "refreshed scope path initialized mem disk =
     (if \<not> path then Inr mem
      else case disk of
        NoFile \<Rightarrow>
          if initialized then raise RepositoryUnavailableError ''durable execution state was deleted''
          else Inr mem
      | Unreadable \<Rightarrow> raise RepositoryUnavailableError ''cannot refresh durable execution state''
      | Stored raw \<Rightarrow>
          rbind (validate_state raw scope) (\<lambda>candidate.
          rbind (refresh_checks mem candidate) (\<lambda>_. Inr candidate)))"

definition MUTABLE_INTENT_FIELDS :: "string list" where
  "MUTABLE_INTENT_FIELDS = [''state'', ''broker_order_id'', ''unknown_reason'']"

definition creation_facts :: "json \<Rightarrow> json" where
  "creation_facts intent = JObj (filter (\<lambda>p. fst p \<notin> set MUTABLE_INTENT_FIELDS) (items intent))"

text \<open>\<open>int(v)\<close>; a text counts when it is an optionally signed run of digits.\<close>

definition py_int :: "json \<Rightarrow> int option" where
  "py_int v =
     (case v of
        JInt n \<Rightarrow> Some n
      | JBool b \<Rightarrow> Some (if b then 1 else 0)
      | JDec m e \<Rightarrow> Some (let x = of_int m * rpow 10 e in if 0 \<le> x then \<lfloor>x\<rfloor> else - \<lfloor>- x\<rfloor>)
      | JStr s \<Rightarrow>
          (let t = str_strip s; neg = starts_with ''-'' t;
               ds = (if neg \<or> starts_with ''+'' t then drop 1 t else t)
           in if ds \<noteq> [] \<and> list_all is_digit_char ds
              then Some (if neg then - int (str_nat ds) else int (str_nat ds)) else None)
      | _ \<Rightarrow> None)"

definition not_regressed :: "json \<Rightarrow> json \<Rightarrow> string \<Rightarrow> string \<Rightarrow> unit res" where
  "not_regressed old new field what =
     (case (py_int (get_or old field (JInt 0)), py_int (get_or new field (JInt 0))) of
        (Some a, Some b) \<Rightarrow> need (a \<le> b) (''durable '' @ what @ '' regressed'')
      | _ \<Rightarrow> raise RepositoryUnavailableError (''durable '' @ what @ '' is invalid''))"

definition log_appended :: "json \<Rightarrow> json \<Rightarrow> string \<Rightarrow> unit res" where
  "log_appended previous candidate section =
     (let old = jarr (fld previous section); new = jarr (fld candidate section)
      in need (\<not> (length new < length old \<or> \<not> jeq (JArr (take (length old) new)) (JArr old)))
           (''durable '' @ section @ '' is not append-only''))"

definition intent_kept :: "json \<Rightarrow> string \<times> json \<Rightarrow> unit res" where
  "intent_kept new_intents entry =
     (let (intent_id, old) = entry; new = fld new_intents intent_id
      in checks
     [need (has_key new_intents intent_id) ''durable send intent was deleted'',
      need (jeq (fld new ''intent_id'') (fld old ''intent_id'')) ''durable send intent identity changed'',
      need (jeq (creation_facts new) (creation_facts old))
        ''durable send intent creation facts changed''])"

definition assert_append_only :: "json \<Rightarrow> json \<Rightarrow> unit res" where
  "assert_append_only previous candidate = checks
     [log_appended previous candidate ''audit'',
      log_appended previous candidate ''terminal_archive'',
      rall (intent_kept (fld candidate ''send_intents'')) (items (fld previous ''send_intents'')),
      rall (\<lambda>(k, v). need (jeq (fld (fld candidate ''intent_keys'') k) v)
          ''durable idempotency index was removed or changed'') (items (fld previous ''intent_keys'')),
      rall (\<lambda>(k, v). need (jeq (fld (fld candidate ''receipts'') k) v)
          ''durable command receipt was removed or changed'') (items (fld previous ''receipts'')),
      not_regressed (fld previous ''lease'') (fld candidate ''lease'') ''epoch'' ''lease epoch'',
      not_regressed (fld previous ''lease'') (fld candidate ''lease'') ''fencing_token''
        ''lease fencing_token'',
      not_regressed (fld previous ''plan'') (fld candidate ''plan'') ''version'' ''plan version'',
      not_regressed (fld previous ''broker'') (fld candidate ''broker'') ''generation''
        ''broker generation'']"

text \<open>The hash chain link and the digest that \<open>_persist\<close> adds before it validates.\<close>

definition sealed :: "string \<Rightarrow> json \<Rightarrow> json \<Rightarrow> json res" where
  "sealed scope mem state =
     (let linked = dset state ''previous_state_hash'' (get_or mem ''state_hash'' (JStr []))
      in rbind (state_digest linked) (\<lambda>h. validate_state (dset linked ''state_hash'' (JStr h)) scope))"

section \<open>Operations\<close>

definition require_available :: "('z, unit) op" where
  "require_available = (\<lambda>s. aguard (r_available s)
     (repo_error ''durable execution repository unavailable'') s)"

text \<open>
  \<open>_file_guard\<close>: other processes act until the lock is taken; an OSError of the guarded block is
  reported as a lock failure.
\<close>

definition file_guard :: "env \<Rightarrow> ('z, 'a) op \<Rightarrow> ('z, 'a) op" where
  "file_guard e m =
     (if \<not> e_path e then m
      else abind next_tick (\<lambda>n.
        abind (amod (\<lambda>s. s\<lparr>r_disk := e_others e n (r_disk s)\<rparr>)) (\<lambda>_.
        abind (aguard (e_lock e n) (repo_error ''cannot lock durable execution state'')) (\<lambda>_.
        acatch m (\<lambda>x. if is_a x PyOSError
          then athrow (repo_error ''cannot lock durable execution state'') else athrow x)))))"

definition refresh_from_disk :: "env \<Rightarrow> ('z, unit) op" where
  "refresh_from_disk e = (\<lambda>s.
     case refreshed (e_scope e) (e_path e) (r_initialized s) (r_mem s) (r_disk s) of
       Inl x \<Rightarrow> (Inl x, s)
     | Inr d \<Rightarrow> (Inr (), s\<lparr>r_mem := d\<rparr>))"

definition snapshot :: "env \<Rightarrow> ('z, json) op" where
  "snapshot e =
     abind require_available (\<lambda>_.
     file_guard e (abind (refresh_from_disk e) (\<lambda>_. aget r_mem)))"

definition state_version :: "env \<Rightarrow> ('z, int) op" where
  "state_version e =
     abind require_available (\<lambda>_.
     file_guard e (abind (refresh_from_disk e) (\<lambda>_. aget (\<lambda>s. version_of (r_mem s)))))"

definition persist :: "env \<Rightarrow> json \<Rightarrow> ('z, unit) op" where
  "persist e state =
     abind (aget r_mem) (\<lambda>mem.
     abind (alift (sealed (e_scope e) mem state)) (\<lambda>candidate.
     if \<not> e_path e then amod (\<lambda>s. s\<lparr>r_mem := candidate\<rparr>)
     else abind next_tick (\<lambda>n.
       case e_write e n of
         FailBeforeReplace \<Rightarrow> athrow (repo_error ''cannot durably write execution state'')
       | FailAfterReplace \<Rightarrow>
           abind (amod (\<lambda>s. s\<lparr>r_disk := Stored (canon candidate)\<rparr>)) (\<lambda>_.
           athrow (repo_error ''cannot durably write execution state''))
       | WriteOk \<Rightarrow>
           amod (\<lambda>s. s\<lparr>r_disk := Stored (canon candidate), r_mem := candidate, r_initialized := True\<rparr>))))"

text \<open>
  A mutator receives a copy of the document and returns its result with the changed copy; it may
  use the rest of the process state (a clock reading, say) but not the repository's own fields. The
  document handed back to the caller is the one before \<open>_persist\<close> sealed it.
\<close>

type_synonym ('z, 'a) mutator = "json \<Rightarrow> ('z, 'a \<times> json) op"

definition version_conflict :: "int option \<Rightarrow> int \<Rightarrow> exn" where
  "version_conflict expected current = Exn ExpectedVersionConflict
     (''state version conflict: expected '' @ (case expected of None \<Rightarrow> [] | Some v \<Rightarrow> int_str v) @
      '', actual '' @ int_str current)"

definition mutate_locked :: "env \<Rightarrow> ('z, 'a) mutator \<Rightarrow> int option \<Rightarrow> ('z, 'a \<times> json) op" where
  "mutate_locked e f expected =
     abind (refresh_from_disk e) (\<lambda>_.
     abind (aget r_mem) (\<lambda>mem.
     let current = version_of mem in
     abind (aguard (expected = None \<or> expected = Some current) (version_conflict expected current)) (\<lambda>_.
     abind (f mem) (\<lambda>(result, candidate).
     abind (alift (assert_append_only mem candidate)) (\<lambda>_.
     let final = dset candidate ''state_version'' (JInt (current + 1)) in
     abind (persist e final) (\<lambda>_. aret (result, final)))))))"

definition mutate :: "env \<Rightarrow> ('z, 'a) mutator \<Rightarrow> int option \<Rightarrow> ('z, 'a \<times> json) op" where
  "mutate e f expected =
     abind require_available (\<lambda>_. file_guard e (mutate_locked e f expected))"

definition pure_mutator :: "(json \<Rightarrow> json res) \<Rightarrow> ('z, unit) mutator" where
  "pure_mutator f d = alift (rbind (f d) (\<lambda>d'. Inr ((), d')))"

definition write_doc :: "env \<Rightarrow> (json \<Rightarrow> json res) \<Rightarrow> int option \<Rightarrow> ('z, json) op" where
  "write_doc e f expected = abind (mutate e (pure_mutator f) expected) (\<lambda>(_, d). aret d)"

definition open_repo :: "env \<Rightarrow> disk \<Rightarrow> repo res" where
  "open_repo e disk =
     rbind (load_state (e_scope e) (e_path e) disk) (\<lambda>d.
     Inr \<lparr>r_mem = d, r_available = True, r_initialized = (e_path e \<and> disk \<noteq> NoFile),
       r_disk = disk, r_tick = 0\<rparr>)"

section \<open>The named owner methods\<close>

definition replace_doc :: "env \<Rightarrow> json \<Rightarrow> int option \<Rightarrow> ('z, json) op" where
  "replace_doc e state expected = write_doc e (\<lambda>_. validate_state state (e_scope e)) expected"

definition set_default :: "json \<Rightarrow> string \<Rightarrow> json \<Rightarrow> json" where
  "set_default d k v = (if has_key d k then d else dset d k v)"

definition append_to :: "json \<Rightarrow> string \<Rightarrow> json \<Rightarrow> json" where
  "append_to state section entry = dset state section (jappend (fld state section) entry)"

definition append_audit :: "env \<Rightarrow> json \<Rightarrow> int option \<Rightarrow> ('z, json) op" where
  "append_audit e entry expected =
     abind next_tick (\<lambda>n. write_doc e (\<lambda>d. Inr (append_to d ''audit''
       (set_default entry ''observed_at'' (JStr (format_utc (e_clock e n)))))) expected)"

definition get_section :: "env \<Rightarrow> string \<Rightarrow> ('z, json) op" where
  "get_section e name = abind (snapshot e) (\<lambda>d. aret (fld d name))"

definition put_section :: "env \<Rightarrow> string \<Rightarrow> json \<Rightarrow> int option \<Rightarrow> ('z, json) op" where
  "put_section e name v expected =
     abind (write_doc e (\<lambda>d. Inr (dset d name v)) expected) (\<lambda>d. aret (fld d name))"

definition get_active_plan :: "env \<Rightarrow> ('z, json) op" where
  "get_active_plan e = get_section e ''plan''"

definition put_active_plan :: "env \<Rightarrow> json \<Rightarrow> int option \<Rightarrow> ('z, json) op" where
  "put_active_plan e plan expected = put_section e ''plan'' plan expected"

definition get_authority :: "env \<Rightarrow> ('z, json) op" where
  "get_authority e = get_section e ''authority''"

definition put_authority :: "env \<Rightarrow> json \<Rightarrow> int option \<Rightarrow> ('z, json) op" where
  "put_authority e authority expected = put_section e ''authority'' authority expected"

definition get_intent :: "env \<Rightarrow> string \<Rightarrow> ('z, json option) op" where
  "get_intent e intent_id =
     abind (get_section e ''send_intents'') (\<lambda>intents.
     let v = fld intents intent_id in aret (if is_obj v then Some v else None))"

definition list_intents :: "env \<Rightarrow> ('z, json list) op" where
  "list_intents e =
     abind (get_section e ''send_intents'') (\<lambda>intents.
     aret (map snd (filter (\<lambda>(k, v). \<not> starts_with ''key:'' k) (items intents))))"

definition put_intent :: "env \<Rightarrow> string \<Rightarrow> json \<Rightarrow> int option \<Rightarrow> ('z, json) op" where
  "put_intent e intent_id intent expected =
     abind (write_doc e (\<lambda>d.
       let d1 = dset d ''send_intents'' (dset (fld d ''send_intents'') intent_id intent);
           key = fld intent ''idempotency_key''
       in Inr (if str_sat (\<lambda>k. k \<noteq> []) key
               then dset d1 ''intent_keys'' (dset (fld d1 ''intent_keys'') (the_str key) (JStr intent_id))
               else d1)) expected)
       (\<lambda>d. aret (fld (fld d ''send_intents'') intent_id))"

definition get_unknown_outcomes :: "env \<Rightarrow> ('z, json) op" where
  "get_unknown_outcomes e = get_section e ''unknown_outcomes''"

text \<open>\<open>state["send_intents"][id][field] = v\<close>, and the same through a section.\<close>

definition set_in :: "json \<Rightarrow> string \<Rightarrow> string \<Rightarrow> json \<Rightarrow> json" where
  "set_in state section field v = dset state section (dset (fld state section) field v)"

definition set_intent_field :: "json \<Rightarrow> string \<Rightarrow> string \<Rightarrow> json \<Rightarrow> json" where
  "set_intent_field state intent_id field v =
     set_in state ''send_intents'' intent_id (dset (fld (fld state ''send_intents'') intent_id) field v)"

definition mark_unknown_doc :: "string \<Rightarrow> json \<Rightarrow> json \<Rightarrow> json" where
  "mark_unknown_doc intent_id v d =
     (let d1 = set_in d ''unknown_outcomes'' intent_id v;
          d2 = (if is_obj (fld (fld d1 ''send_intents'') intent_id)
                then set_intent_field d1 intent_id ''state'' (JStr ''UNKNOWN_OUTCOME'') else d1);
          d3 = set_in d2 ''reconciliation'' ''state'' (JStr ''UNKNOWN'');
          d4 = set_in d3 ''reconciliation'' ''unknown_outcomes'' (JInt (dlen (fld d3 ''unknown_outcomes'')))
      in dset d4 ''lifecycle'' (JStr ''HALTED_UNKNOWN_OUTCOME''))"

definition set_unknown_outcome :: "env \<Rightarrow> string \<Rightarrow> json \<Rightarrow> int option \<Rightarrow> ('z, json) op" where
  "set_unknown_outcome e intent_id v expected =
     abind (write_doc e (\<lambda>d. Inr (mark_unknown_doc intent_id v d)) expected)
       (\<lambda>d. aret (get_or (fld d ''unknown_outcomes'') intent_id (JObj [])))"

definition clear_unknown_doc :: "string \<Rightarrow> json \<Rightarrow> json" where
  "clear_unknown_doc intent_id d =
     (let d1 = dset d ''unknown_outcomes'' (dpop (fld d ''unknown_outcomes'') intent_id);
          d2 = (if is_obj (fld (fld d1 ''send_intents'') intent_id)
                then set_intent_field d1 intent_id ''state'' (JStr ''RECONCILED'') else d1);
          n = dlen (fld d2 ''unknown_outcomes'');
          d3 = set_in d2 ''reconciliation'' ''unknown_outcomes'' (JInt n)
      in if n = 0 then set_in d3 ''reconciliation'' ''state'' (JStr ''RECONCILED'') else d3)"

definition clear_unknown_outcome :: "env \<Rightarrow> string \<Rightarrow> int option \<Rightarrow> ('z, json) op" where
  "clear_unknown_outcome e intent_id expected =
     abind (write_doc e (\<lambda>d. Inr (clear_unknown_doc intent_id d)) expected)
       (\<lambda>d. aret (fld d ''unknown_outcomes''))"

definition get_reconciliation :: "env \<Rightarrow> ('z, json) op" where
  "get_reconciliation e = get_section e ''reconciliation''"

definition put_reconciliation :: "env \<Rightarrow> json \<Rightarrow> int option \<Rightarrow> ('z, json) op" where
  "put_reconciliation e v expected = put_section e ''reconciliation'' v expected"

definition get_lease :: "env \<Rightarrow> ('z, json) op" where
  "get_lease e = get_section e ''lease''"

definition get_receipt :: "env \<Rightarrow> string \<Rightarrow> string \<Rightarrow> ('z, json option) op" where
  "get_receipt e service idempotency_key =
     abind (get_section e ''receipts'') (\<lambda>receipts.
     let v = fld receipts (service @ '':'' @ idempotency_key) in aret (if is_obj v then Some v else None))"

definition append_terminal_archive :: "env \<Rightarrow> json \<Rightarrow> int option \<Rightarrow> ('z, json) op" where
  "append_terminal_archive e entry expected =
     abind next_tick (\<lambda>n.
     abind (write_doc e (\<lambda>d. Inr (append_to d ''terminal_archive''
       (set_default entry ''archived_at'' (JStr (format_utc (e_clock e n)))))) expected)
       (\<lambda>d. aret (last (jarr (fld d ''terminal_archive'')))))"

definition set_available :: "bool \<Rightarrow> ('z, unit) op" where
  "set_available b = amod (\<lambda>s. s\<lparr>r_available := b\<rparr>)"

definition mark_unavailable :: "('z, unit) op" where
  "mark_unavailable = set_available False"

definition mark_available :: "('z, unit) op" where
  "mark_available = set_available True"

end
