(* ===== verification/Repository_Facts.thy ===== *)
theory Repository_Facts
  imports Exec_Repository "HOL-Library.Sublist"
begin

text \<open>
  What the repository promises: a document it holds is valid, a mutation either installs a sealed
  successor of the document it read or leaves the memory alone, and the recorded history only grows.
\<close>

section \<open>Valid documents\<close>

definition valid_doc :: "string \<Rightarrow> json \<Rightarrow> bool" where
  "valid_doc scope d \<longleftrightarrow> validate_state d scope = Inr d"

lemma validate_state_Inr_iff: "validate_state raw scope = Inr d \<longleftrightarrow> d = raw \<and> valid_doc scope raw"
  by (auto simp: valid_doc_def validate_state_def rbind_Inr_iff)

lemma state_digest_Inr_iff:
  "state_digest d = Inr h \<longleftrightarrow> finite_json (dpop d ''state_hash'') \<and> h = json_hash (dpop d ''state_hash'')"
  by (auto simp: state_digest_def rcatch_Inr_iff sha256_json_Inr_iff)

lemma valid_doc_iff:
  "valid_doc scope d \<longleftrightarrow> check_document d scope = Inr () \<and> finite_json (dpop d ''state_hash'') \<and>
    fld d ''state_hash'' = JStr (json_hash (dpop d ''state_hash''))"
  by (auto simp: valid_doc_def validate_state_def rbind_Inr_iff state_digest_Inr_iff)

lemma valid_doc_checks:
  assumes "valid_doc scope d"
  shows "check_shape d scope = Inr ()" "check_states d = Inr ()"
    "check_authority (fld d ''authority'') = Inr ()" "check_plan (fld d ''plan'') = Inr ()"
    "check_lease (fld d ''lease'') = Inr ()" "check_broker (fld d ''broker'') = Inr ()"
    "check_hashes d = Inr ()" "check_indexes d = Inr ()"
    "a \<in> set (jarr (fld d ''audit'')) \<Longrightarrow> validate_audit_entry a = Inr ()"
    "a \<in> set (jarr (fld d ''terminal_archive'')) \<Longrightarrow> validate_archive_entry a = Inr ()"
  using assms by (simp_all add: valid_doc_iff check_document_def rall_Inr_iff)

lemma valid_doc_shape:
  assumes "valid_doc scope d"
  shows "is_obj d" "keys_are d (''schema_version'' # required_sections)"
    "int_at_least 0 (fld d ''state_version'')" "fld (fld d ''lease'') ''scope'' = JStr scope"
    "s \<in> {''authority'', ''plan'', ''reconciliation'', ''broker'', ''lease'', ''send_intents'',
       ''intent_keys'', ''unknown_outcomes'', ''receipts''} \<Longrightarrow> is_obj (fld d s)"
    "s \<in> {''audit'', ''terminal_archive''} \<Longrightarrow> is_jarr (fld d s)"
  using valid_doc_checks(1) [OF assms] by (auto simp: check_shape_def Let_def)

lemma valid_doc_lease:
  assumes "valid_doc scope d"
  shows "int_at_least 0 (fld (fld d ''lease'') ''epoch'')"
    "int_at_least 0 (fld (fld d ''lease'') ''fencing_token'')"
    "str_sat UTC_RE (fld (fld d ''lease'') ''lease_expires_at'')"
    "keys_are (fld d ''lease'') LEASE_FIELDS"
    "truthy (fld (fld d ''lease'') ''owner_id'') \<Longrightarrow> str_sat IDENTIFIER_RE (fld (fld d ''lease'') ''owner_id'')"
    "truthy (fld (fld d ''lease'') ''owner_id'') \<Longrightarrow> str_sat IDENTIFIER_RE (fld (fld d ''lease'') ''instance_id'')"
  using valid_doc_checks(5) [OF assms] by (simp_all add: check_lease_def Let_def)

lemma valid_doc_ints:
  assumes "valid_doc scope d"
  shows "int_at_least 0 (fld (fld d ''plan'') ''version'')"
    "int_at_least 0 (fld (fld d ''broker'') ''generation'')"
    "int_at_least 0 (fld (fld d ''broker'') ''active_order_count'')"
  using valid_doc_checks(4,6) [OF assms] by (simp_all add: check_plan_def check_broker_def)

lemma valid_doc_high_water:
  assumes "valid_doc scope d" and "sf \<in> set HIGH_WATERS"
  shows "fld (fld d (fst sf)) (snd sf) = JInt (high_water d sf)" "0 \<le> high_water d sf"
  using assms(2) valid_doc_lease(1,2) [OF assms(1)] valid_doc_ints(1,2) [OF assms(1)]
  by (auto simp: HIGH_WATERS_def high_water_def dest!: int_at_leastE)

lemma valid_doc_intents:
  assumes "valid_doc scope d"
  shows "dget (fld d ''send_intents'') i = Some raw \<Longrightarrow> check_intent (i, raw) = Inr ()"
    "dget (fld d ''intent_keys'') k = Some v \<Longrightarrow> check_intent_key d (k, v) = Inr ()"
    "has_key (fld d ''unknown_outcomes'') u \<Longrightarrow> has_key (fld d ''send_intents'') u"
    "dget (fld d ''receipts'') k = Some r \<Longrightarrow> check_receipt (k, r) = Inr ()"
    "dget (fld d ''send_intents'') i = Some raw \<Longrightarrow> fld raw ''state'' = JStr ''UNKNOWN_OUTCOME''
      \<Longrightarrow> has_key (fld d ''unknown_outcomes'') i"
    "jeq (fld (fld d ''reconciliation'') ''unknown_outcomes'') (JInt (dlen (fld d ''unknown_outcomes'')))"
  using valid_doc_checks(8) [OF assms]
  by (auto simp: check_indexes_def rall_Inr_iff check_unknown_def check_unknown_intent_def
      has_key_def dest!: dget_mem)

section \<open>Sealing\<close>

lemma sealed_Inr:
  assumes "sealed scope mem st = Inr d"
  shows "valid_doc scope d" "fld d ''previous_state_hash'' = get_or mem ''state_hash'' (JStr [])"
    "k \<notin> {''state_hash'', ''previous_state_hash''} \<Longrightarrow> fld d k = fld st k"
  using assms
  by (auto simp: sealed_def Let_def rbind_Inr_iff validate_state_Inr_iff doc_simps)

lemma valid_doc_hash:
  assumes "valid_doc scope d"
  shows "fld d ''state_hash'' = JStr (json_hash (dpop d ''state_hash''))"
  using assms by (simp add: valid_doc_iff)

section \<open>Growth\<close>

definition log_of :: "json \<Rightarrow> string \<Rightarrow> json list" where
  "log_of d section = map py_norm (jarr (fld d section))"

text \<open>Every entry of a dictionary is still there, related by \<open>R\<close>.\<close>

definition retains :: "(json \<Rightarrow> json \<Rightarrow> bool) \<Rightarrow> json \<Rightarrow> json \<Rightarrow> bool" where
  "retains R old new \<longleftrightarrow> (\<forall>k v. dget old k = Some v \<longrightarrow> (\<exists>v'. dget new k = Some v' \<and> R v v'))"

definition grows :: "json \<Rightarrow> json \<Rightarrow> bool" where
  "grows d d' \<longleftrightarrow>
     prefix (log_of d ''audit'') (log_of d' ''audit'') \<and>
     prefix (log_of d ''terminal_archive'') (log_of d' ''terminal_archive'') \<and>
     retains (\<lambda>v v'. jeq (creation_facts v') (creation_facts v))
       (fld d ''send_intents'') (fld d' ''send_intents'') \<and>
     retains (\<lambda>v v'. jeq v' v) (fld d ''intent_keys'') (fld d' ''intent_keys'') \<and>
     retains (\<lambda>v v'. jeq v' v) (fld d ''receipts'') (fld d' ''receipts'') \<and>
     (\<forall>sf \<in> set HIGH_WATERS. high_water d sf \<le> high_water d' sf)"

lemma retains_refl: "(\<And>v. R v v) \<Longrightarrow> retains R d d"
  by (simp add: retains_def)

lemma retains_trans:
  "retains R a b \<Longrightarrow> retains R b c \<Longrightarrow> (\<And>x y z. R x y \<Longrightarrow> R y z \<Longrightarrow> R x z) \<Longrightarrow> retains R a c"
  unfolding retains_def by metis

lemma grows_refl [simp]: "grows d d"
  by (simp add: grows_def retains_refl)

lemma grows_trans [trans]: "grows a b \<Longrightarrow> grows b c \<Longrightarrow> grows a c"
  unfolding grows_def
  by (auto intro: prefix_order.trans retains_trans jeq_trans order_trans)

lemma log_appended_prefix:
  assumes "log_appended a b s = Inr ()"
  shows "prefix (log_of a s) (log_of b s)"
proof -
  have "length (jarr (fld a s)) \<le> length (jarr (fld b s))"
    and "map py_norm (take (length (jarr (fld a s))) (jarr (fld b s))) = map py_norm (jarr (fld a s))"
    using assms by (auto simp: log_appended_def Let_def jeq_def)
  then have "take (length (log_of a s)) (log_of b s) = log_of a s"
    by (simp add: log_of_def take_map)
  then show ?thesis by (metis take_is_prefix)
qed

lemma checked_index_retained:
  assumes "rall (\<lambda>(k, v). need (jeq (fld new k) v) msg) (items old) = Inr ()"
    and "\<And>k v. dget old k = Some v \<Longrightarrow> v \<noteq> JNull"
  shows "retains (\<lambda>v v'. jeq v' v) old new"
  unfolding retains_def
proof (intro allI impI)
  fix k v assume v: "dget old k = Some v"
  then have "jeq (fld new k) v"
    using assms(1) dget_mem by (fastforce simp: rall_Inr_iff)
  moreover from this have "fld new k \<noteq> JNull"
    using assms(2) [OF v] by auto
  ultimately show "\<exists>v'. dget new k = Some v' \<and> jeq v' v"
    using fld_not_null by blast
qed

lemma intents_retained:
  assumes "rall (intent_kept new) (items old) = Inr ()"
  shows "retains (\<lambda>v v'. jeq (creation_facts v') (creation_facts v)) old new"
  unfolding retains_def
proof (intro allI impI)
  fix k v assume "dget old k = Some v"
  then have "intent_kept new (k, v) = Inr ()"
    using assms dget_mem by (fastforce simp: rall_Inr_iff)
  then have "has_key new k" "jeq (creation_facts (fld new k)) (creation_facts v)"
    by (simp_all add: intent_kept_def Let_def)
  then show "\<exists>v'. dget new k = Some v' \<and> jeq (creation_facts v') (creation_facts v)"
    using has_keyE by blast
qed

lemma not_regressed_le:
  assumes "not_regressed a b f w = Inr ()" and "fld a f = JInt m" "fld b f = JInt n"
  shows "m \<le> n"
proof -
  have "get_or a f (JInt 0) = JInt m" "get_or b f (JInt 0) = JInt n"
    using assms(2,3) by (auto simp: fld_def get_or_def split: option.splits)
  then show ?thesis using assms(1) by (simp add: not_regressed_def py_int_def)
qed

lemma append_only_grows:
  assumes old: "valid_doc scope mem" and app: "assert_append_only mem cand = Inr ()"
    and new: "valid_doc scope d"
    and same: "\<And>k. k \<notin> {''state_version'', ''state_hash'', ''previous_state_hash''} \<Longrightarrow> fld d k = fld cand k"
  shows "grows mem d"
proof -
  have logs: "prefix (log_of mem s) (log_of d s)" if "s \<in> {''audit'', ''terminal_archive''}" for s
    using that app same [of s] log_appended_prefix [of mem cand s]
    by (auto simp: assert_append_only_def log_of_def)
  have intents: "retains (\<lambda>v v'. jeq (creation_facts v') (creation_facts v))
      (fld mem ''send_intents'') (fld d ''send_intents'')"
    using app same [of "''send_intents''"] by (auto simp: assert_append_only_def intro: intents_retained)
  have key: "v \<noteq> JNull" if "dget (fld mem ''intent_keys'') k = Some v" for k v
    using valid_doc_intents(2) [OF old that] by (auto simp: check_intent_key_def)
  have receipt: "v \<noteq> JNull" if "dget (fld mem ''receipts'') k = Some v" for k v
    using valid_doc_intents(4) [OF old that] by (auto simp: check_receipt_def validate_receipt_entry_def)
  have index: "retains (\<lambda>v v'. jeq v' v) (fld mem ''intent_keys'') (fld d ''intent_keys'')"
    using app same [of "''intent_keys''"]
    by (intro checked_index_retained key) (auto simp: assert_append_only_def)
  have receipts: "retains (\<lambda>v v'. jeq v' v) (fld mem ''receipts'') (fld d ''receipts'')"
    using app same [of "''receipts''"]
    by (intro checked_index_retained receipt) (auto simp: assert_append_only_def)
  have "high_water mem sf \<le> high_water d sf" if sf: "sf \<in> set HIGH_WATERS" for sf
  proof -
    have "not_regressed (fld mem (fst sf)) (fld d (fst sf)) (snd sf)
        (fst sf @ '' '' @ snd sf) = Inr ()"
      using app sf same [of "''lease''"] same [of "''plan''"] same [of "''broker''"]
      by (auto simp: assert_append_only_def HIGH_WATERS_def)
    then show ?thesis
      using valid_doc_high_water(1) [OF old sf] valid_doc_high_water(1) [OF new sf] not_regressed_le
      by blast
  qed
  with logs intents index receipts show ?thesis by (simp add: grows_def)
qed

section \<open>Mutations\<close>

definition repo_part :: "'z repo_scheme \<Rightarrow> json \<times> bool \<times> bool \<times> disk" where
  "repo_part s = (r_mem s, r_available s, r_initialized s, r_disk s)"

text \<open>A computation that leaves the repository's own fields alone.\<close>

definition neutral :: "('z, 'a) op \<Rightarrow> bool" where
  "neutral m \<longleftrightarrow> (\<forall>s. repo_part (snd (m s)) = repo_part s)"

lemma neutralD: "neutral m \<Longrightarrow> m s = (r, s') \<Longrightarrow> repo_part s' = repo_part s"
  by (metis neutral_def snd_conv)

lemma neutral_lift [intro, simp]: "neutral (alift r)" "neutral (aret x)" "neutral (athrow y)"
  "neutral (aget g)" "neutral next_tick"
  by (simp_all add: neutral_def repo_part_def next_tick_def)

lemma neutral_bind [intro]: "neutral m \<Longrightarrow> (\<And>x. neutral (f x)) \<Longrightarrow> neutral (abind m f)"
  by (auto simp: neutral_def abind_def split: prod.splits sum.splits) (metis snd_conv)+

lemma neutral_if [intro]: "neutral m \<Longrightarrow> neutral n \<Longrightarrow> neutral (if b then m else n)"
  by simp

lemma neutral_guard [intro, simp]: "neutral (aguard b x)"
  by (simp add: aguard_def)

lemma neutral_pure [intro, simp]: "neutral (pure_mutator f d)"
  by (simp add: pure_mutator_def)

text \<open>The file as the operation finds it once it holds the lock.\<close>

definition seen_disk :: "env \<Rightarrow> 'z repo_scheme \<Rightarrow> disk" where
  "seen_disk e s = (if e_path e then e_others e (r_tick s) (r_disk s) else r_disk s)"

definition current_doc :: "env \<Rightarrow> 'z repo_scheme \<Rightarrow> json res" where
  "current_doc e s = refreshed (e_scope e) (e_path e) (r_initialized s) (r_mem s) (seen_disk e s)"

lemma file_guard_Inr:
  "file_guard e m s = (Inr x, s') \<longleftrightarrow>
    (if e_path e then e_lock e (r_tick s) \<and> m (s\<lparr>r_tick := Suc (r_tick s), r_disk := seen_disk e s\<rparr>) = (Inr x, s')
     else m s = (Inr x, s'))"
  by (auto simp: file_guard_def abind_Inr_iff next_tick_def aguard_def acatch_def seen_disk_def
      split: prod.splits sum.splits if_splits)

lemma refresh_Inr:
  "refresh_from_disk e s = (Inr u, s') \<longleftrightarrow>
    (\<exists>d. refreshed (e_scope e) (e_path e) (r_initialized s) (r_mem s) (r_disk s) = Inr d
      \<and> s' = s\<lparr>r_mem := d\<rparr>)"
  by (auto simp: refresh_from_disk_def split: sum.splits)

lemma require_available_Inr: "require_available s = (Inr u, s') \<longleftrightarrow> r_available s \<and> s' = s"
  by (auto simp: require_available_def aguard_def)

lemma persist_Inr:
  "persist e st s = (Inr u, s') \<Longrightarrow>
    sealed (e_scope e) (r_mem s) st = Inr (r_mem s') \<and> r_available s' = r_available s \<and>
    (if e_path e then r_disk s' = Stored (canon (r_mem s')) \<and> r_initialized s'
     else r_disk s' = r_disk s \<and> r_initialized s' = r_initialized s)"
  by (cases "e_path e"; cases "e_write e (r_tick s)")
    (auto simp: persist_def abind_Inr_iff next_tick_def)

lemma seen_disk_update [simp]: "\<not> e_path e \<Longrightarrow> seen_disk e s = r_disk s"
  by (simp add: seen_disk_def)

text \<open>What a successful mutation did.\<close>

lemma mutate_ok:
  assumes m: "mutate e f ex s = (Inr (r, d), s')" and n: "\<And>d. neutral (f d)"
  obtains mem cand t t' where
    "r_available s" "current_doc e s = Inr mem" "ex = None \<or> ex = Some (version_of mem)"
    "r_mem t = mem" "f mem t = (Inr (r, cand), t')" "assert_append_only mem cand = Inr ()"
    "d = dset cand ''state_version'' (JInt (version_of mem + 1))"
    "sealed (e_scope e) mem d = Inr (r_mem s')"
    "r_available s'" "e_path e \<Longrightarrow> r_disk s' = Stored (canon (r_mem s'))" "e_path e \<Longrightarrow> r_initialized s'"
    "\<not> e_path e \<Longrightarrow> r_disk s' = r_disk s"
proof -
  define s1 where "s1 = (if e_path e then s\<lparr>r_tick := Suc (r_tick s), r_disk := seen_disk e s\<rparr> else s)"
  have s1: "r_mem s1 = r_mem s" "r_initialized s1 = r_initialized s" "r_disk s1 = seen_disk e s"
    "r_available s1 = r_available s"
    by (simp_all add: s1_def)
  obtain mem cand t t' s2 where av: "r_available s" and cur: "current_doc e s = Inr mem"
    and ex: "ex = None \<or> ex = Some (version_of mem)" and t: "t = s1\<lparr>r_mem := mem\<rparr>"
    and f: "f mem t = (Inr (r, cand), t')" and app: "assert_append_only mem cand = Inr ()"
    and d: "d = dset cand ''state_version'' (JInt (version_of mem + 1))"
    and p: "persist e d t' = (Inr (), s')"
    using m s1
    by (auto simp: mutate_def mutate_locked_def abind_Inr_iff require_available_Inr file_guard_Inr refresh_Inr
        current_doc_def s1_def aguard_def Let_def split: if_splits prod.splits option.splits)
  have "repo_part t' = repo_part t" using n f by (rule neutralD)
  then have t': "r_mem t' = mem" "r_available t'" "r_disk t' = seen_disk e s"
    using t s1 av by (simp_all add: repo_part_def)
  show thesis
    using that [OF av cur ex _ f app d] persist_Inr [OF p] t t' by (auto split: if_splits)
qed

lemma mutate_successor:
  assumes "mutate e f ex s = (Inr (r, d), s')" and "\<And>d. neutral (f d)"
    and "valid_doc (e_scope e) (r_mem s)"
  shows "\<exists>mem. current_doc e s = Inr mem \<and> valid_doc (e_scope e) mem \<and>
    valid_doc (e_scope e) (r_mem s') \<and> grows mem (r_mem s') \<and>
    version_of (r_mem s') = version_of mem + 1 \<and>
    fld (r_mem s') ''previous_state_hash'' = fld mem ''state_hash''"
proof -
  from assms(1,2) obtain mem cand where cur: "current_doc e s = Inr mem"
    and app: "assert_append_only mem cand = Inr ()"
    and d: "d = dset cand ''state_version'' (JInt (version_of mem + 1))"
    and sl: "sealed (e_scope e) mem d = Inr (r_mem s')"
    by (rule mutate_ok)
  have mem: "valid_doc (e_scope e) mem"
    using cur assms(3)
    by (auto simp: current_doc_def refreshed_def rbind_Inr_iff validate_state_Inr_iff
        split: if_splits disk.splits)
  have same: "fld (r_mem s') k = fld cand k"
    if "k \<notin> {''state_version'', ''state_hash'', ''previous_state_hash''}" for k
    using sealed_Inr(3) [OF sl, of k] that by (auto simp: d doc_simps)
  have "version_of (r_mem s') = version_of mem + 1"
    using sealed_Inr(3) [OF sl, of "''state_version''"] by (simp add: d doc_simps version_of_def)
  moreover have "fld (r_mem s') ''previous_state_hash'' = fld mem ''state_hash''"
    using sealed_Inr(2) [OF sl] valid_doc_hash [OF mem]
    by (auto simp: fld_def get_or_def split: option.splits)
  ultimately show ?thesis
    using cur mem sealed_Inr(1) [OF sl] append_only_grows [OF mem app sealed_Inr(1) [OF sl] same]
    by auto
qed

section \<open>Reading back what was written\<close>

text \<open>
  A document is written with sorted keys. Every check gives the same answer on the document read
  back, so a valid document is valid again.
\<close>

lemma get_or_canon_str: "wf_json d \<Longrightarrow> get_or (canon d) k (JStr s) = canon (get_or d k (JStr s))"
  using get_or_canon [of d k "JStr s"] by simp

lemma keys_check_canon: "list_all P (keys (canon d)) = list_all P (keys d)"
  by (simp add: list_all_iff keys_canon)

lemmas canon_reads = fld_canon get_or_canon_str keys_check_canon

lemma receipt_entry_canon:
  "wf_json v \<Longrightarrow> validate_receipt_entry (canon v) = Inr () \<longleftrightarrow> validate_receipt_entry v = Inr ()"
  by (simp add: validate_receipt_entry_def require_log_timestamp_def canon_reads)

lemma audit_entry_canon:
  "wf_json v \<Longrightarrow> validate_audit_entry (canon v) = Inr () \<longleftrightarrow> validate_audit_entry v = Inr ()"
  using receipt_entry_canon [of "dpop v ''kind''"]
  by (simp add: validate_audit_entry_def require_log_timestamp_def canon_reads canon_dpop
      split: option.splits)

lemma archive_entry_canon:
  "wf_json v \<Longrightarrow> validate_archive_entry (canon v) = Inr () \<longleftrightarrow> validate_archive_entry v = Inr ()"
  by (simp add: validate_archive_entry_def validate_plan_terminal_def validate_intent_terminal_def
      validate_final_completed_def validate_final_positions_def validate_final_v3_def Let_def
      require_log_timestamp_def canon_reads)

lemma quote_proof_canon:
  "validate_execution_start_quote_proof (canon v) = validate_execution_start_quote_proof v"
  by (simp add: validate_execution_start_quote_proof_def)

lemma intent_quote_canon:
  "wf_json v \<Longrightarrow> check_intent_quote (canon v) = Inr () \<longleftrightarrow> check_intent_quote v = Inr ()"
  by (simp add: check_intent_quote_def Let_def canon_reads quote_proof_canon rbind_Inr_iff)

lemma intent_canon:
  "wf_json v \<Longrightarrow> check_intent (i, canon v) = Inr () \<longleftrightarrow> check_intent (i, v) = Inr ()"
  by (simp add: check_intent_def canon_reads intent_quote_canon)

lemma receipt_canon:
  "wf_json v \<Longrightarrow> check_receipt (k, canon v) = Inr () \<longleftrightarrow> check_receipt (k, v) = Inr ()"
  by (simp add: check_receipt_def canon_reads receipt_entry_canon)

lemma rall_items_canon:
  assumes "wf_json d" and "\<And>k v. wf_json v \<Longrightarrow> f (k, canon v) = Inr () \<longleftrightarrow> g (k, v) = Inr ()"
  shows "rall f (items (canon d)) = Inr () \<longleftrightarrow> rall g (items d) = Inr ()"
proof (cases d)
  case (JObj kvs)
  have "rall f (items (canon d)) = Inr () \<longleftrightarrow> (\<forall>(k, v) \<in> set kvs. f (k, canon v) = Inr ())"
    by (auto simp: JObj rall_Inr_iff simp del: canon.simps simp: canon_JObj)
  also have "\<dots> \<longleftrightarrow> rall g (items d) = Inr ()"
    using assms by (fastforce simp: JObj rall_Inr_iff list_all_iff)
  finally show ?thesis .
qed simp_all

lemma rall_keys_canon: "rall f (keys (canon d)) = Inr () \<longleftrightarrow> rall f (keys d) = Inr ()"
  by (simp add: rall_Inr_iff keys_canon)

lemma rall_jarr_canon:
  assumes "wf_json d" and "\<And>v. wf_json v \<Longrightarrow> f (canon v) = Inr () \<longleftrightarrow> f v = Inr ()"
  shows "rall f (jarr (canon d)) = Inr () \<longleftrightarrow> rall f (jarr d) = Inr ()"
  using assms by (cases d) (auto simp: rall_Inr_iff list_all_iff jarr_def)

lemma indexes_canon:
  assumes wf: "wf_json d"
  shows "check_indexes (canon d) = Inr () \<longleftrightarrow> check_indexes d = Inr ()"
proof -
  have keys: "check_intent_key (canon d) (k, canon v) = Inr () \<longleftrightarrow> check_intent_key d (k, v) = Inr ()" for k v
    using wf by (simp add: check_intent_key_def canon_reads)
  have unknown: "check_unknown (canon d) = check_unknown d"
    using wf by (simp add: check_unknown_def canon_reads fun_eq_iff)
  have marked: "check_unknown_intent (canon d) (i, canon v) = Inr () \<longleftrightarrow> check_unknown_intent d (i, v) = Inr ()"
    if "wf_json v" for i v
    using wf that by (simp add: check_unknown_intent_def canon_reads)
  show ?thesis
    using wf by (simp add: check_indexes_def fld_canon unknown rall_keys_canon
        rall_items_canon [where g = check_intent, OF _ intent_canon]
        rall_items_canon [where g = "check_intent_key d", OF _ keys]
        rall_items_canon [where g = check_receipt, OF _ receipt_canon]
        rall_items_canon [where g = "check_unknown_intent d", OF _ marked])
qed

lemma shape_canon: "wf_json d \<Longrightarrow> check_shape (canon d) scope = check_shape d scope"
  by (simp add: check_shape_def canon_reads)

lemma document_canon:
  assumes "wf_json d"
  shows "check_document (canon d) scope = Inr () \<longleftrightarrow> check_document d scope = Inr ()"
  using assms
  by (simp add: check_document_def shape_canon fld_canon indexes_canon
      rall_jarr_canon [where f = validate_audit_entry, OF _ audit_entry_canon]
      rall_jarr_canon [where f = validate_archive_entry, OF _ archive_entry_canon]
      check_states_def check_authority_def check_plan_def preview_defaults_def check_lease_def
      check_broker_def check_hashes_def Let_def)

lemma valid_doc_canon:
  assumes "valid_doc scope d" and "wf_json d"
  shows "valid_doc scope (canon d)"
  using assms by (simp add: valid_doc_iff document_canon fld_canon canon_dpop [symmetric])

lemma retains_canon:
  "wf_json d \<Longrightarrow> (\<And>v. R v (canon v)) \<Longrightarrow> retains R d (canon d)"
  by (auto simp: retains_def dget_canon)

lemma creation_facts_canon: "creation_facts (canon v) = canon (creation_facts v)"
proof (cases v)
  case (JObj kvs)
  have "filter (\<lambda>p. fst p \<notin> set MUTABLE_INTENT_FIELDS) (map (\<lambda>(k, v). (k, canon v)) xs)
      = map (\<lambda>(k, v). (k, canon v)) (filter (\<lambda>p. fst p \<notin> set MUTABLE_INTENT_FIELDS) xs)" for xs
    by (induction xs) auto
  then show ?thesis
    by (simp only: JObj creation_facts_def canon_JObj items.simps sort_items_filter)
qed (simp_all add: creation_facts_def sort_items_def)

lemma grows_canon: "wf_json d \<Longrightarrow> grows d (canon d)"
  by (auto simp: grows_def log_of_def fld_canon jarr_canon comp_def high_water_def creation_facts_canon
      intro!: retains_canon)

lemma version_of_canon [simp]: "wf_json d \<Longrightarrow> version_of (canon d) = version_of d"
  by (simp add: version_of_def fld_canon)

section \<open>Sealing succeeds on a checked document\<close>

lemma finite_json_dset [simp]:
  "finite_json d \<Longrightarrow> finite_json v \<Longrightarrow> finite_json (dset d k v)"
  using set_update_subset [of k v "items d"] by (cases d) (auto simp: dset_def list_all_iff)

lemma finite_json_dpop [simp]: "finite_json d \<Longrightarrow> finite_json (dpop d k)"
  by (cases d) (auto simp: dpop_def list_all_iff AList.delete_eq)

lemma delete_updated: "AList.delete k (AList.update k v kvs) = AList.delete k kvs"
  by (induction kvs) auto

lemma dpop_dset [simp]: "dpop (dset d k v) k = dpop d k"
  by (cases d) (simp_all add: dpop_def dset_def delete_updated)

lemma shape_iff:
  "check_shape d scope = Inr () \<longleftrightarrow>
    is_obj d \<and> keys_are d (''schema_version'' # required_sections) \<and>
    fld d ''schema_version'' = JStr ''execution_durable_state_v1'' \<and>
    int_at_least 0 (fld d ''state_version'') \<and> fld (fld d ''lease'') ''scope'' = JStr scope \<and>
    list_all (\<lambda>s. is_obj (fld d s)) [''lease'', ''authority'', ''plan'', ''reconciliation'', ''broker'',
      ''send_intents'', ''intent_keys'', ''unknown_outcomes'', ''receipts''] \<and>
    is_jarr (fld d ''audit'') \<and> is_jarr (fld d ''terminal_archive'')"
proof -
  have "keys_are d (''schema_version'' # required_sections) \<Longrightarrow>
      filter (\<lambda>k. \<not> has_key d k) required_sections = []"
    by (auto simp: filter_empty_conv dest: keys_are_has_key)
  moreover have "int_at_least 0 v \<Longrightarrow> is_jint v" for v
    by (cases v) (simp_all add: int_at_least_def)
  ultimately show ?thesis by (auto simp: check_shape_def Let_def)
qed

lemma indexes_dset:
  "k \<notin> {''send_intents'', ''intent_keys'', ''unknown_outcomes'', ''receipts'', ''reconciliation''}
    \<Longrightarrow> check_indexes (dset d k v) = check_indexes d"
  by (simp add: check_indexes_def doc_simps check_intent_key_def [abs_def] check_unknown_def [abs_def]
      check_unknown_intent_def [abs_def])

text \<open>Replacing one section that passes its own check.\<close>

lemma document_with_lease:
  assumes "check_document d scope = Inr ()" and "check_lease l = Inr ()" and "is_obj l"
    and "fld l ''scope'' = JStr scope"
  shows "check_document (dset d ''lease'' l) scope = Inr ()"
  using assms
  by (simp add: check_document_def shape_iff keys_are_dset required_sections_def doc_simps indexes_dset
      check_states_def check_hashes_def)

definition reseal :: "json \<Rightarrow> int \<Rightarrow> string \<Rightarrow> string \<Rightarrow> json" where
  "reseal d n h h' = dset (dset (dset d ''state_version'' (JInt n)) ''previous_state_hash'' (JStr h))
     ''state_hash'' (JStr h')"

lemma fld_reseal [doc_simps]:
  "fld (reseal d n h h') k =
    (if k = ''state_hash'' then JStr h' else if k = ''previous_state_hash'' then JStr h
     else if k = ''state_version'' then JInt n else fld d k)"
  by (simp add: reseal_def doc_simps)

lemma check_document_reseal:
  assumes d: "check_document d scope = Inr ()" and h: "0 \<le> n" "SHA256_RE h" "SHA256_RE h'"
  shows "check_document (reseal d n h h') scope = Inr ()"
proof -
  have shape: "check_shape d scope = Inr ()" using d by (simp add: check_document_def)
  then have "is_obj d" "keys_are d (''schema_version'' # required_sections)"
    by (simp_all add: check_shape_def Let_def)
  moreover from this have "keys_are (reseal d n h h') (''schema_version'' # required_sections)"
    unfolding reseal_def by (intro keys_are_dset) (simp_all add: required_sections_def)
  moreover from this have "filter (\<lambda>k. \<not> has_key (reseal d n h h') k) required_sections = []"
    by (auto simp: filter_empty_conv dest: keys_are_has_key)
  ultimately have "check_shape (reseal d n h h') scope = Inr ()"
    using shape h(1) by (simp add: check_shape_def Let_def doc_simps) (simp add: reseal_def)
  moreover have "check_hashes (reseal d n h h') = Inr ()"
    using h by (auto simp: check_hashes_def doc_simps)
  moreover have "check_indexes (reseal d n h h') = check_indexes d"
    by (simp add: check_indexes_def doc_simps check_intent_key_def [abs_def] check_unknown_def [abs_def]
        check_unknown_intent_def [abs_def])
  ultimately show ?thesis
    using d by (simp add: check_document_def check_states_def doc_simps)
qed

lemma sealed_reseal:
  assumes "valid_doc scope mem" and "check_document d scope = Inr ()" and "finite_json d" and "0 \<le> n"
  shows "\<exists>h'. sealed scope mem (dset d ''state_version'' (JInt n)) =
    Inr (reseal d n (the_str (fld mem ''state_hash'')) h') \<and> SHA256_RE h'"
proof -
  let ?h = "the_str (fld mem ''state_hash'')"
  let ?l = "dset (dset d ''state_version'' (JInt n)) ''previous_state_hash'' (JStr ?h)"
  have h: "fld mem ''state_hash'' = JStr ?h" "SHA256_RE ?h"
    using valid_doc_hash [OF assms(1)] by simp_all
  have prev: "get_or mem ''state_hash'' (JStr []) = JStr ?h"
    using h(1) by (auto simp: fld_def get_or_def split: option.splits)
  have digest: "state_digest ?l = Inr (json_hash (dpop ?l ''state_hash''))"
    using assms(3) by (simp add: state_digest_Inr_iff)
  let ?w = "dset ?l ''state_hash'' (JStr (json_hash (dpop ?l ''state_hash'')))"
  have w: "?w = reseal d n ?h (json_hash (dpop ?l ''state_hash''))" by (simp add: reseal_def)
  have "valid_doc scope ?w"
    using check_document_reseal [OF assms(2,4) h(2)] assms(3)
    by (simp add: valid_doc_iff w doc_simps) (simp add: reseal_def)
  then have "validate_state ?w scope = Inr ?w" by (simp add: valid_doc_def)
  then show ?thesis
    using digest w by (auto simp: sealed_def Let_def prev)
qed

section \<open>The first document\<close>

lemma initial_state_valid: "valid_doc scope (initial_state scope)"
proof -
  have shape: "check_shape (initial_state scope) scope = Inr ()"
    by (simp add: check_shape_def Let_def initial_state_def initial_body_def required_sections_def
        keys_are_def has_key_def keys_def fld_def get_or_def dget_def dset_def authority_as_dict_def
        plan_as_dict_def reconciliation_as_dict_def broker_as_dict_def)
  have secs: "fld (initial_state scope) ''audit'' = JArr []"
    "fld (initial_state scope) ''terminal_archive'' = JArr []"
    "fld (initial_state scope) ''lifecycle'' = JStr ''STARTING''"
    "fld (initial_state scope) ''authority'' = authority_as_dict default_authority"
    "fld (initial_state scope) ''plan'' = plan_as_dict default_plan"
    "fld (initial_state scope) ''reconciliation'' = reconciliation_as_dict default_reconciliation"
    "fld (initial_state scope) ''broker'' = broker_as_dict default_broker"
    "fld (initial_state scope) ''send_intents'' = JObj []"
    "fld (initial_state scope) ''intent_keys'' = JObj []"
    "fld (initial_state scope) ''unknown_outcomes'' = JObj []"
    "fld (initial_state scope) ''receipts'' = JObj []"
    "fld (initial_state scope) ''lease'' = JObj
        [(''scope'', JStr scope), (''owner_id'', JStr []), (''epoch'', JInt 0),
         (''fencing_token'', JInt 0), (''lease_expires_at'', JStr EPOCH_TIMESTAMP),
         (''instance_id'', JStr [])]"
    "fld (initial_state scope) ''state_version'' = JInt 0"
    "fld (initial_state scope) ''previous_state_hash'' = JStr []"
    "fld (initial_state scope) ''state_hash'' = JStr (json_hash (initial_body scope))"
    by (simp_all add: initial_state_def doc_simps) (simp_all add: initial_body_def read_JObj)
  have doc: "check_document (initial_state scope) scope = Inr ()"
    by (simp add: check_document_def shape secs check_states_def check_hashes_def check_indexes_def
        check_authority_def check_plan_def check_lease_def check_broker_def preview_defaults_def Let_def
        authority_as_dict_def default_authority_def plan_as_dict_def default_plan_def
        reconciliation_as_dict_def default_reconciliation_def broker_as_dict_def default_broker_def
        keys_are_def read_JObj AUTHORITY_FIELDS_def PLAN_FIELDS_def LEASE_FIELDS_def
        BROKER_FIELDS_def LIFECYCLES_def AUTHORITY_STATES_def PLAN_STATES_def RECONCILIATION_STATES_def
        dlen_def)
  have pop: "dpop (initial_state scope) ''state_hash'' = initial_body scope"
    by (simp add: initial_state_def initial_body_def dpop_def dset_def)
  have "finite_json (initial_body scope)"
    by (simp add: initial_body_def authority_as_dict_def plan_as_dict_def reconciliation_as_dict_def
        broker_as_dict_def default_broker_def)
  with doc pop secs(15) show ?thesis by (simp add: valid_doc_iff)
qed

lemma initial_state_wf: "wf_json (initial_state scope)"
proof -
  have "wf_json (initial_body scope)"
    by (simp add: initial_body_def authority_as_dict_def plan_as_dict_def reconciliation_as_dict_def
        broker_as_dict_def default_broker_def)
  then show ?thesis by (simp add: initial_state_def)
qed

end
