(* ===== verification/Repository_History.thy ===== *)
theory Repository_History
  imports Repository_Facts
begin

text \<open>
  The history of the durable document: every file any process of a group installs is the sealed
  successor of the file it read, so the files form one chain along which the history only grows,
  whatever the interleaving and however a write fails.
\<close>

section \<open>Stores whose documents only grow\<close>

locale growing_store =
  fixes ok :: "'d \<Rightarrow> bool" and ver :: "'d \<Rightarrow> int" and le :: "'d \<Rightarrow> 'd \<Rightarrow> bool"
    and next_doc :: "'d \<Rightarrow> 'd \<Rightarrow> bool"
  assumes le_refl: "le d d"
    and le_trans: "le a b \<Longrightarrow> le b c \<Longrightarrow> le a c"
    and next_ok: "ok d \<Longrightarrow> next_doc d d' \<Longrightarrow> ok d'"
    and next_le: "ok d \<Longrightarrow> next_doc d d' \<Longrightarrow> le d d'"
    and next_ver: "ok d \<Longrightarrow> next_doc d d' \<Longrightarrow> ver d' = ver d + 1"
begin

lemma run_ok: "next_doc\<^sup>*\<^sup>* d d' \<Longrightarrow> ok d \<Longrightarrow> ok d' \<and> le d d' \<and> ver d \<le> ver d'"
proof (induction rule: rtranclp_induct)
  case base
  then show ?case by (simp add: le_refl)
next
  case (step y z)
  then show ?case using next_ok next_le next_ver le_trans by fastforce
qed

lemma run_length: "(next_doc ^^ n) d d' \<Longrightarrow> ok d \<Longrightarrow> ver d' = ver d + int n"
proof (induction n arbitrary: d')
  case (Suc n)
  then obtain y where y: "(next_doc ^^ n) d y" "next_doc y d'" by auto
  then have "ok y" using run_ok Suc.prems(2) by (meson relpowp_imp_rtranclp)
  then show ?case using Suc y next_ver by simp
qed simp

lemma run_plus: "next_doc\<^sup>+\<^sup>+ d d' \<Longrightarrow> ok d \<Longrightarrow> ok d' \<and> ver d < ver d'"
proof (induction rule: tranclp_induct)
  case (base y)
  then show ?case using next_ok next_ver by simp
next
  case (step y z)
  then show ?case using next_ok [of y z] next_ver [of y z] by simp
qed

lemma no_cycle: "ok d \<Longrightarrow> \<not> next_doc\<^sup>+\<^sup>+ d d"
  using run_plus [of d d] by auto

end

section \<open>Successive files\<close>

definition good_doc :: "string \<Rightarrow> json \<Rightarrow> bool" where
  "good_doc scope d \<longleftrightarrow> valid_doc scope d \<and> wf_json d"

text \<open>\<open>successor scope d d'\<close>: \<open>d'\<close> is the file of an accepted change of the document \<open>d\<close>.\<close>

definition successor :: "string \<Rightarrow> json \<Rightarrow> json \<Rightarrow> bool" where
  "successor scope d d' \<longleftrightarrow>
     (\<exists>cand w. wf_json cand \<and> assert_append_only d cand = Inr () \<and>
        sealed scope d (dset cand ''state_version'' (JInt (version_of d + 1))) = Inr w \<and> d' = canon w)"

lemma sealed_wf: "sealed scope mem st = Inr w \<Longrightarrow> wf_json mem \<Longrightarrow> wf_json st \<Longrightarrow> wf_json w"
  by (auto simp: sealed_def Let_def rbind_Inr_iff validate_state_Inr_iff get_or_def
      intro!: wf_json_dset split: option.splits dest: wf_json_dget)

lemma successor_facts:
  assumes "good_doc scope d" and "successor scope d d'"
  shows "good_doc scope d'" "grows d d'" "version_of d' = version_of d + 1"
    "fld d' ''previous_state_hash'' = fld d ''state_hash''"
proof -
  from assms(2) obtain cand w where wf: "wf_json cand" and app: "assert_append_only d cand = Inr ()"
    and sl: "sealed scope d (dset cand ''state_version'' (JInt (version_of d + 1))) = Inr w"
    and d': "d' = canon w"
    by (auto simp: successor_def)
  have d: "valid_doc scope d" "wf_json d" using assms(1) by (simp_all add: good_doc_def)
  have w: "valid_doc scope w" "wf_json w"
    using sealed_Inr(1) [OF sl] sealed_wf [OF sl d(2)] wf by simp_all
  have same: "fld w k = fld cand k"
    if "k \<notin> {''state_version'', ''state_hash'', ''previous_state_hash''}" for k
    using sealed_Inr(3) [OF sl, of k] that by (auto simp: doc_simps)
  show "good_doc scope d'" using w by (simp add: good_doc_def d' valid_doc_canon)
  show "grows d d'"
    using append_only_grows [OF d(1) app w(1) same] grows_canon [OF w(2)] grows_trans d' by blast
  show "version_of d' = version_of d + 1"
    using sealed_Inr(3) [OF sl, of "''state_version''"] w(2) by (simp add: d' doc_simps version_of_def fld_canon)
  show "fld d' ''previous_state_hash'' = fld d ''state_hash''"
    using sealed_Inr(2) [OF sl] valid_doc_hash [OF d(1)] w(2)
    by (auto simp: d' fld_canon fld_def [of d] get_or_def split: option.splits)
qed

interpretation chain: growing_store "good_doc scope" version_of grows "successor scope" for scope
  by unfold_locales (auto intro: successor_facts grows_trans)

section \<open>Processes that share the file\<close>

record cluster =
  cl_disk :: disk
  cl_proc :: "nat \<Rightarrow> repo option"

definition wf_mutator :: "('z, 'a) mutator \<Rightarrow> bool" where
  "wf_mutator f \<longleftrightarrow> (\<forall>d s x c s'. wf_json d \<longrightarrow> f d s = (Inr (x, c), s') \<longrightarrow> wf_json c)"

text \<open>
  A process opens the file, mutates, reads or dies. Each operation runs under the file lock, so the
  others do nothing during it; its write may fail at any point.
\<close>

definition shared :: "string \<Rightarrow> env \<Rightarrow> bool" where
  "shared scope e \<longleftrightarrow> e_scope e = scope \<and> e_path e \<and> (\<forall>n d. e_others e n d = d)"

inductive cluster_step :: "string \<Rightarrow> cluster \<Rightarrow> cluster \<Rightarrow> bool" for scope where
  Open: "shared scope e \<Longrightarrow> open_repo e (cl_disk c) = Inr r
    \<Longrightarrow> cluster_step scope c (c\<lparr>cl_proc := (cl_proc c)(p := Some r)\<rparr>)"
| Mutate: "cl_proc c p = Some r \<Longrightarrow> shared scope e \<Longrightarrow> (\<And>d. neutral (f d)) \<Longrightarrow> wf_mutator f
    \<Longrightarrow> mutate e (f :: (unit, unit) mutator) ex (r\<lparr>r_disk := cl_disk c\<rparr>) = (res, r')
    \<Longrightarrow> cluster_step scope c (c\<lparr>cl_disk := r_disk r', cl_proc := (cl_proc c)(p := Some r')\<rparr>)"
| Read: "cl_proc c p = Some r \<Longrightarrow> shared scope e
    \<Longrightarrow> snapshot e (r\<lparr>r_disk := cl_disk c\<rparr>) = (res, r')
    \<Longrightarrow> cluster_step scope c (c\<lparr>cl_disk := r_disk r', cl_proc := (cl_proc c)(p := Some r')\<rparr>)"
| Die: "cluster_step scope c (c\<lparr>cl_proc := (cl_proc c)(p := None)\<rparr>)"

inductive_cases cluster_stepE: "cluster_step scope c c'"

lemma persist_disk:
  "persist e st s = (res, s') \<Longrightarrow> r_disk s' = r_disk s \<or>
    (\<exists>w. sealed (e_scope e) (r_mem s) st = Inr w \<and> r_disk s' = Stored (canon w))"
  by (cases "sealed (e_scope e) (r_mem s) st"; cases "e_path e"; cases "e_write e (r_tick s)")
    (auto simp: persist_def abind_def next_tick_def)

lemma file_guard_disk:
  assumes "shared scope e" and "file_guard e m s = (res, s')"
  shows "r_disk s' = r_disk s \<or> (\<exists>res'. m (s\<lparr>r_tick := Suc (r_tick s)\<rparr>) = (res', s'))"
  using assms
  by (auto simp: file_guard_def shared_def abind_def next_tick_def aguard_def acatch_def
      split: prod.splits sum.splits if_splits)

lemma refresh_disk: "refresh_from_disk e s = (r, s') \<Longrightarrow> r_disk s' = r_disk s"
  by (auto simp: refresh_from_disk_def split: sum.splits)

lemma mutate_locked_disk:
  assumes n: "\<And>d. neutral (f d)" and m: "mutate_locked e f ex s = (res, s')"
  obtains (kept) "r_disk s' = r_disk s"
    | (wrote) mem t x cand t' w where "refreshed (e_scope e) (e_path e) (r_initialized s) (r_mem s) (r_disk s) = Inr mem"
      "f mem t = (Inr (x, cand), t')" "assert_append_only mem cand = Inr ()"
      "sealed (e_scope e) mem (dset cand ''state_version'' (JInt (version_of mem + 1))) = Inr w"
      "r_disk s' = Stored (canon w)"
  using m unfolding mutate_locked_def
proof (cases rule: abind_cases)
  case (raised x)
  then show ?thesis using refresh_disk kept by metis
next
  case (went u s1)
  then obtain mem where mem: "refreshed (e_scope e) (e_path e) (r_initialized s) (r_mem s) (r_disk s) = Inr mem"
    and s1: "s1 = s\<lparr>r_mem := mem\<rparr>"
    by (auto simp: refresh_Inr)
  obtain r1 t1 where f: "f mem s1 = (r1, t1)" by (cases "f mem s1")
  have t1: "r_disk t1 = r_disk s" "r_mem t1 = mem"
    using neutralD [OF n f] by (simp_all add: repo_part_def s1)
  have "r_disk s' = r_disk s \<or> (\<exists>x cand res'. r1 = Inr (x, cand) \<and> assert_append_only mem cand = Inr () \<and>
      persist e (dset cand ''state_version'' (JInt (version_of mem + 1))) t1 = (res', s'))"
    using went(2) f t1
    by (auto simp: s1 Let_def aguard_def elim!: abind_cases split: if_splits)
  then show ?thesis
  proof (elim disjE exE conjE)
    fix x cand res' assume "r1 = Inr (x, cand)" and app: "assert_append_only mem cand = Inr ()"
      and p: "persist e (dset cand ''state_version'' (JInt (version_of mem + 1))) t1 = (res', s')"
    then show ?thesis
      using persist_disk [OF p] t1 f mem kept wrote by auto
  qed (rule kept)
qed

lemma mutate_disk:
  assumes e: "shared scope e" and n: "\<And>d. neutral (f d)" and wf: "wf_mutator f"
    and doc: "r_disk s = Stored d" "wf_json d"
    and m: "mutate e f ex s = (res, s')"
  shows "r_disk s' = Stored d \<or> (\<exists>d'. successor scope d d' \<and> r_disk s' = Stored d')"
  using m unfolding mutate_def
proof (cases rule: abind_cases)
  case (raised x)
  then show ?thesis using doc by (auto simp: require_available_def aguard_def split: if_splits)
next
  case (went u s1)
  then have s1: "s1 = s" by (simp add: require_available_Inr)
  from file_guard_disk [OF e went(2)] show ?thesis
  proof (elim disjE exE)
    fix res' assume "mutate_locked e f ex (s1\<lparr>r_tick := Suc (r_tick s1)\<rparr>) = (res', s')"
    with n show ?thesis
    proof (cases rule: mutate_locked_disk)
      case (wrote mem t x cand t' w)
      have "mem = d"
        using wrote(1) e doc by (auto simp: s1 shared_def refreshed_def rbind_Inr_iff validate_state_Inr_iff)
      moreover have "wf_json cand"
        using wf wrote(2) doc(2) \<open>mem = d\<close> unfolding wf_mutator_def by blast
      ultimately show ?thesis
        using wrote e by (auto simp: successor_def shared_def)
    qed (simp add: s1 doc)
  qed (simp add: s1 doc)
qed

lemma snapshot_disk:
  assumes e: "shared scope e" and m: "snapshot e s = (res, s')"
  shows "r_disk s' = r_disk s"
  using m unfolding snapshot_def
proof (cases rule: abind_cases)
  case (raised x)
  then show ?thesis by (auto simp: require_available_def aguard_def split: if_splits)
next
  case (went u s1)
  then have "s1 = s" by (simp add: require_available_Inr)
  with file_guard_disk [OF e went(2)] show ?thesis
    by (auto elim!: abind_cases dest: refresh_disk)
qed

lemma cluster_step_disk:
  assumes "cluster_step scope c c'" and "cl_disk c = Stored d" and "good_doc scope d"
  shows "\<exists>d'. cl_disk c' = Stored d' \<and> (successor scope)\<^sup>=\<^sup>= d d'"
  using assms(1)
proof (cases rule: cluster_step.cases)
  case (Mutate p r e f ex res r')
  have "r_disk r' = Stored d \<or> (\<exists>d'. successor scope d d' \<and> r_disk r' = Stored d')"
    by (rule mutate_disk [OF Mutate(3) Mutate(4) Mutate(5) _ _ Mutate(6)])
      (use assms in \<open>auto simp: good_doc_def\<close>)
  then show ?thesis using Mutate(1) by auto
next
  case (Read p r e res r')
  then have "r_disk r' = Stored d"
    using snapshot_disk [OF Read(3) Read(4)] assms(2) by simp
  then show ?thesis using Read(1) by auto
qed (use assms in auto)

lemma cluster_run_disk:
  assumes "(cluster_step scope)\<^sup>*\<^sup>* c c'" and "cl_disk c = Stored d" and "good_doc scope d"
  shows "\<exists>d'. cl_disk c' = Stored d' \<and> (successor scope)\<^sup>*\<^sup>* d d'"
  using assms(1)
proof (induction rule: rtranclp_induct)
  case base
  then show ?case using assms(2) by blast
next
  case (step y z)
  then obtain dy where dy: "cl_disk y = Stored dy" "(successor scope)\<^sup>*\<^sup>* d dy" by blast
  moreover have "good_doc scope dy" using chain.run_ok [OF dy(2) assms(3)] by simp
  ultimately obtain dz where "cl_disk z = Stored dz" "(successor scope)\<^sup>=\<^sup>= dy dz"
    using cluster_step_disk [OF step(2)] by blast
  then show ?case using dy(2) by auto
qed

end
