(* ===== verification/Repository_Laws.thy ===== *)
theory Repository_Laws
  imports Repository_History
begin

text \<open>
  The properties of the repository, each with a concrete use of it. The example repository is an
  in-memory one for the scope of the tests; its mutation appends an audit entry.
\<close>

section \<open>Failing mutations\<close>

lemma file_guard_cases:
  assumes "file_guard e m s = (r, s')"
  shows "(r_mem s' = r_mem s \<and> (\<exists>x. r = Inl x)) \<or>
    (\<exists>s1 r1. r_mem s1 = r_mem s \<and> r_initialized s1 = r_initialized s \<and> r_disk s1 = seen_disk e s \<and>
       r_available s1 = r_available s \<and> (\<not> e_path e \<longrightarrow> s1 = s) \<and> m s1 = (r1, s') \<and>
       (\<forall>x. r1 = Inr x \<longleftrightarrow> r = Inr x))"
proof (cases "e_path e")
  case False
  then show ?thesis using assms by (auto simp: file_guard_def seen_disk_def)
next
  case True
  define s1 where "s1 = s\<lparr>r_tick := Suc (r_tick s), r_disk := seen_disk e s\<rparr>"
  have s1: "r_mem s1 = r_mem s" "r_initialized s1 = r_initialized s" "r_disk s1 = seen_disk e s"
    "r_available s1 = r_available s" by (simp_all add: s1_def)
  have run: "(if e_lock e (r_tick s)
      then acatch m (\<lambda>x. if is_a x PyOSError
        then athrow (repo_error ''cannot lock durable execution state'') else athrow x) s1
      else (Inl (repo_error ''cannot lock durable execution state''), s1)) = (r, s')"
    using assms True by (auto simp: file_guard_def abind_def next_tick_def aguard_def s1_def seen_disk_def)
  show ?thesis
  proof (cases "e_lock e (r_tick s)")
    case False
    then show ?thesis using run s1 by auto
  next
    case lock: True
    obtain r1 s2 where m: "m s1 = (r1, s2)" by (cases "m s1")
    then have "s2 = s' \<and> (\<forall>x. r1 = Inr x \<longleftrightarrow> r = Inr x)"
      using run lock by (cases r1) (auto simp: acatch_def split: if_splits)
    then show ?thesis using m s1 True by blast
  qed
qed

lemma persist_failed: "persist e st s = (Inl x, s') \<Longrightarrow> r_mem s' = r_mem s"
  by (cases "sealed (e_scope e) (r_mem s) st"; cases "e_path e"; cases "e_write e (r_tick s)")
    (auto simp: persist_def abind_def next_tick_def)

lemma mutate_locked_failed:
  assumes n: "\<And>d. neutral (f d)" and m: "mutate_locked e f ex s = (Inl x, s')"
  shows "r_mem s' = r_mem s \<or>
    refreshed (e_scope e) (e_path e) (r_initialized s) (r_mem s) (r_disk s) = Inr (r_mem s')"
  using m unfolding mutate_locked_def
proof (cases rule: abind_cases)
  case (raised y)
  then show ?thesis by (auto simp: refresh_from_disk_def split: sum.splits)
next
  case (went u s1)
  then obtain mem where mem: "refreshed (e_scope e) (e_path e) (r_initialized s) (r_mem s) (r_disk s) = Inr mem"
    and s1: "s1 = s\<lparr>r_mem := mem\<rparr>"
    by (auto simp: refresh_Inr)
  obtain r1 t1 where f: "f mem s1 = (r1, t1)" by (cases "f mem s1")
  have t1: "r_mem t1 = mem"
    using neutralD [OF n f] by (simp add: repo_part_def s1)
  have "r_mem s' = mem"
    using went(2) f t1 persist_failed
    by (auto simp: s1 Let_def aguard_def elim!: abind_cases split: if_splits)
  then show ?thesis using mem by simp
qed

lemma failed_mutation:
  assumes "\<And>d. neutral (f d)" and "mutate e f ex s = (Inl x, s')"
  shows "r_mem s' = r_mem s \<or> (e_path e \<and> current_doc e s = Inr (r_mem s'))"
  using assms(2) unfolding mutate_def
proof (cases rule: abind_cases)
  case (raised y)
  then show ?thesis by (auto simp: require_available_def aguard_def split: if_splits)
next
  case (went u t)
  then have t: "t = s" by (simp add: require_available_Inr)
  from file_guard_cases [OF went(2)] obtain s1 r1
    where "r_mem s' = r_mem s \<or> (r_mem s1 = r_mem s \<and> r_initialized s1 = r_initialized s \<and>
      r_disk s1 = seen_disk e s \<and> mutate_locked e f ex s1 = (r1, s') \<and> (\<forall>z. r1 = Inr z \<longleftrightarrow> Inl x = Inr z))"
    using t by auto
  then show ?thesis
  proof (elim disjE conjE)
    assume s1: "r_mem s1 = r_mem s" "r_initialized s1 = r_initialized s" "r_disk s1 = seen_disk e s"
      and m: "mutate_locked e f ex s1 = (r1, s')" and r: "\<forall>z. r1 = Inr z \<longleftrightarrow> Inl x = Inr z"
    from r obtain y where "r1 = Inl y" by (cases r1) auto
    then have "mutate_locked e f ex s1 = (Inl y, s')" using m by simp
    with assms(1) have "r_mem s' = r_mem s1 \<or>
        refreshed (e_scope e) (e_path e) (r_initialized s1) (r_mem s1) (r_disk s1) = Inr (r_mem s')"
      by (rule mutate_locked_failed)
    then have "r_mem s' = r_mem s \<or> current_doc e s = Inr (r_mem s')"
      using s1 by (simp add: current_doc_def)
    then show ?thesis
      by (cases "e_path e") (auto simp: current_doc_def refreshed_def)
  qed simp
qed

text \<open>
  C11: a mutation that raises, for whatever reason, leaves the document in memory as it was or as
  the file had it; without a file nothing has changed.
\<close>

theorem failed_mutation_changes_nothing:
  assumes "\<And>d. neutral (f d)" and "mutate e f ex s = (Inl x, s')"
  shows "r_mem s' = r_mem s \<or> (e_path e \<and> current_doc e s = Inr (r_mem s'))"
  using assms by (rule failed_mutation)

lemma snapshot_ok: "snapshot e s = (Inr d, t) \<Longrightarrow> current_doc e s = Inr d \<and> r_mem t = d \<and> r_available t"
  by (auto simp: snapshot_def abind_Inr_iff require_available_Inr file_guard_Inr refresh_Inr current_doc_def
      split: if_splits)

lemma snapshot_failed: "snapshot e s = (Inl x, t) \<Longrightarrow> r_mem t = r_mem s"
proof -
  assume "snapshot e s = (Inl x, t)"
  then show ?thesis unfolding snapshot_def
  proof (cases rule: abind_cases)
    case (raised y)
    then show ?thesis by (auto simp: require_available_def aguard_def split: if_splits)
  next
    case (went u s1)
    then have "s1 = s" by (simp add: require_available_Inr)
    with file_guard_cases [OF went(2)] show ?thesis
      by (auto elim!: abind_cases simp: refresh_from_disk_def split: sum.splits)
  qed
qed

section \<open>Mutations that succeed\<close>

lemma mutate_runs:
  assumes av: "r_available s" and cur: "current_doc e s = Inr mem" and valid: "valid_doc (e_scope e) mem"
    and io: "e_path e \<Longrightarrow> e_lock e (r_tick s)" "\<And>n. e_path e \<Longrightarrow> e_write e n = WriteOk"
    and g: "g mem = Inr (r, cand)" and app: "assert_append_only mem cand = Inr ()"
    and doc: "check_document cand (e_scope e) = Inr ()" and fin: "finite_json cand"
  shows "\<exists>d s'. mutate e (\<lambda>d. alift (g d)) None s = (Inr (r, d), s')"
proof -
  have "0 \<le> version_of mem + 1"
    using valid_doc_shape(3) [OF valid] by (auto simp: version_of_def dest!: int_at_leastE)
  from sealed_reseal [OF valid doc fin this] obtain w where
    w: "sealed (e_scope e) mem (dset cand ''state_version'' (JInt (version_of mem + 1))) = Inr w"
    by auto
  have locked: "\<exists>d s'. mutate_locked e (\<lambda>d. alift (g d)) None t = (Inr (r, d), s')"
    if "refreshed (e_scope e) (e_path e) (r_initialized t) (r_mem t) (r_disk t) = Inr mem" for t :: "'a repo_scheme"
    using that w g app io(2)
    by (cases "e_path e")
      (simp_all add: mutate_locked_def aguard_def refresh_from_disk_def abind_def
        persist_def Let_def next_tick_def)
  show ?thesis
  proof (cases "e_path e")
    case False
    then show ?thesis using locked [of s] av cur
      by (simp add: mutate_def file_guard_def require_available_def aguard_def abind_def current_doc_def)
  next
    case True
    then show ?thesis
      using locked [of "s\<lparr>r_tick := Suc (r_tick s), r_disk := seen_disk e s\<rparr>"] av cur io(1)
      by (auto simp: mutate_def file_guard_def require_available_def aguard_def abind_def current_doc_def
          next_tick_def seen_disk_def acatch_def)
  qed
qed

lemma pure_mutator_lift: "pure_mutator f = (\<lambda>d. alift (rbind (f d) (\<lambda>d'. Inr ((), d'))))"
  by (simp add: pure_mutator_def fun_eq_iff)

definition ex_env :: env where
  "ex_env = \<lparr>e_scope = ''account:test'', e_path = False, e_clock = (\<lambda>_. 0), e_uuid = (\<lambda>_. ''0123456789abcdef01234567''),
     e_others = (\<lambda>_ d. d), e_lock = (\<lambda>_. True), e_write = (\<lambda>_. WriteOk)\<rparr>"

definition ex_repo :: repo where
  "ex_repo = \<lparr>r_mem = initial_state ''account:test'', r_available = True, r_initialized = False,
     r_disk = NoFile, r_tick = 0\<rparr>"

definition ex_entry :: json where
  "ex_entry = JObj [(''kind'', JStr ''test''), (''observed_at'', JStr EPOCH_TIMESTAMP)]"

lemma wf_item: "wf_json d \<Longrightarrow> (k, v) \<in> set (items d) \<Longrightarrow> dget d k = Some v"
  by (cases d) (auto simp: dget_def)

text \<open>Enough for a change to be append-only.\<close>

lemma append_only_intro:
  assumes d: "valid_doc scope d" "wf_json d"
    and logs: "\<And>s. s \<in> {''audit'', ''terminal_archive''} \<Longrightarrow> \<exists>xs. jarr (fld c s) = jarr (fld d s) @ xs"
    and intents: "\<And>k v. dget (fld d ''send_intents'') k = Some v \<Longrightarrow>
      \<exists>v'. dget (fld c ''send_intents'') k = Some v' \<and> creation_facts v' = creation_facts v \<and>
        fld v' ''intent_id'' = fld v ''intent_id''"
    and same: "\<And>s k v. s \<in> {''intent_keys'', ''receipts''} \<Longrightarrow> dget (fld d s) k = Some v \<Longrightarrow> fld (fld c s) k = v"
    and waters: "\<And>sf. sf \<in> set HIGH_WATERS \<Longrightarrow>
      \<exists>n. fld (fld c (fst sf)) (snd sf) = JInt n \<and> high_water d sf \<le> n"
  shows "assert_append_only d c = Inr ()"
proof -
  have log: "log_appended d c s = Inr ()" if "s \<in> {''audit'', ''terminal_archive''}" for s
    using logs [OF that] by (auto simp: log_appended_def Let_def)
  have kept: "rall (intent_kept (fld c ''send_intents'')) (items (fld d ''send_intents'')) = Inr ()"
  proof (unfold rall_Inr_iff, rule ballI)
    fix x assume x: "x \<in> set (items (fld d ''send_intents''))"
    obtain k v where kv: "x = (k, v)" by (cases x)
    then have "dget (fld d ''send_intents'') k = Some v" using x d(2) wf_item by simp
    from intents [OF this] show "intent_kept (fld c ''send_intents'') x = Inr ()"
      by (auto simp: kv intent_kept_def Let_def has_key_iff dget_Some_fld)
  qed
  have index: "rall (\<lambda>(k, v). need (jeq (fld (fld c s) k) v) m) (items (fld d s)) = Inr ()"
    if "s \<in> {''intent_keys'', ''receipts''}" for s m
    using same [OF that] wf_item [of "fld d s"] d(2) by (auto simp: rall_Inr_iff)
  have water: "not_regressed (fld d s) (fld c s) k w = Inr ()" if sk: "(s, k) \<in> set HIGH_WATERS" for s k w
  proof -
    have old: "get_or (fld d s) k (JInt 0) = JInt (high_water d (s, k))"
      using valid_doc_high_water(1) [OF d(1) sk] by (auto simp: fld_def get_or_def split: option.splits)
    obtain n where n: "fld (fld c s) k = JInt n" "high_water d (s, k) \<le> n" using waters [OF sk] by auto
    then have "get_or (fld c s) k (JInt 0) = JInt n"
      by (auto simp: fld_def get_or_def split: option.splits)
    with old n(2) show ?thesis by (simp add: not_regressed_def py_int_def)
  qed
  show ?thesis
    by (simp add: assert_append_only_def log kept index water HIGH_WATERS_def)
qed

lemma jarr_append_to [simp]:
  "jarr (fld (append_to d s x) t) = (if s = t then jarr (fld d t) @ [x] else jarr (fld d t))"
  by (simp add: append_to_def doc_simps)

lemma append_to_log:
  assumes d: "valid_doc scope d" "wf_json d" and s: "s \<in> {''audit'', ''terminal_archive''}"
  shows "assert_append_only d (append_to d s x) = Inr ()"
proof (rule append_only_intro [OF d])
  have same: "fld (append_to d s x) k = fld d k" if "k \<notin> {''audit'', ''terminal_archive''}" for k
    using that s by (auto simp: append_to_def doc_simps)
  show "\<exists>v'. dget (fld (append_to d s x) ''send_intents'') k = Some v' \<and> creation_facts v' = creation_facts v \<and>
      fld v' ''intent_id'' = fld v ''intent_id''" if "dget (fld d ''send_intents'') k = Some v" for k v
    using that by (simp add: same)
  show "fld (fld (append_to d s x) t) k = v"
    if "t \<in> {''intent_keys'', ''receipts''}" "dget (fld d t) k = Some v" for t k v
    using that same [of t] by (auto simp: dget_Some_fld)
  show "\<exists>n. fld (fld (append_to d s x) (fst sf)) (snd sf) = JInt n \<and> high_water d sf \<le> n"
    if "sf \<in> set HIGH_WATERS" for sf
    using valid_doc_high_water(1) [OF d(1) that] that same [of "fst sf"] by (auto simp: HIGH_WATERS_def)
qed simp

lemma append_audit_document:
  assumes "valid_doc scope d" and "validate_audit_entry x = Inr ()"
  shows "check_document (append_to d ''audit'' x) scope = Inr ()"
proof -
  have doc: "check_document d scope = Inr ()" using assms(1) by (simp add: valid_doc_iff)
  have "keys_are (append_to d ''audit'' x) (''schema_version'' # required_sections)"
    unfolding append_to_def using valid_doc_shape(2) [OF assms(1)]
    by (intro keys_are_dset) (simp_all add: required_sections_def)
  moreover from this have "filter (\<lambda>k. \<not> has_key (append_to d ''audit'' x) k) required_sections = []"
    by (auto simp: filter_empty_conv dest: keys_are_has_key)
  ultimately have "check_shape (append_to d ''audit'' x) scope = Inr ()"
    using valid_doc_checks(1) [OF assms(1)]
    by (simp add: check_shape_def Let_def) (auto simp: append_to_def doc_simps)
  moreover have "check_indexes (append_to d ''audit'' x) = check_indexes d"
    by (simp add: append_to_def check_indexes_def doc_simps check_intent_key_def [abs_def]
        check_unknown_def [abs_def] check_unknown_intent_def [abs_def])
  ultimately show ?thesis
    using doc assms(2)
    by (simp add: check_document_def rall_Inr_iff check_states_def check_hashes_def)
      (auto simp: append_to_def doc_simps)
qed

section \<open>The chain of documents\<close>

lemma ex_entry_ok: "validate_audit_entry ex_entry = Inr ()"
  by (simp add: validate_audit_entry_def ex_entry_def audit_schema_def keys_are_def read_JObj
      require_log_timestamp_def has_key_def)

abbreviation ex_change :: "('z, unit) mutator" where
  "ex_change \<equiv> pure_mutator (\<lambda>d. Inr (append_to d ''audit'' ex_entry))"

lemma ex_change_finite: "finite_json (append_to (initial_state scope) ''audit'' ex_entry)"
  by (simp add: append_to_def ex_entry_def jappend_def initial_state_def initial_body_def
      authority_as_dict_def plan_as_dict_def reconciliation_as_dict_def broker_as_dict_def
      default_broker_def doc_simps read_JObj)

lemma ex_change_runs:
  assumes "r_available s" and "current_doc e s = Inr (initial_state (e_scope e))"
    and "e_path e \<Longrightarrow> e_lock e (r_tick s)" "\<And>n. e_path e \<Longrightarrow> e_write e n = WriteOk"
  shows "\<exists>d s'. mutate e ex_change None s = (Inr ((), d), s')"
  unfolding pure_mutator_lift
proof (rule mutate_runs)
  note v = initial_state_valid [of "e_scope e"] initial_state_wf [of "e_scope e"]
  show "valid_doc (e_scope e) (initial_state (e_scope e))" by (rule v)
  show "assert_append_only (initial_state (e_scope e)) (append_to (initial_state (e_scope e)) ''audit'' ex_entry) = Inr ()"
    using append_to_log [OF v] by simp
  show "check_document (append_to (initial_state (e_scope e)) ''audit'' ex_entry) (e_scope e) = Inr ()"
    by (rule append_audit_document [OF v(1) ex_entry_ok])
qed (use assms ex_change_finite in auto)

definition ex_file_env :: env where
  "ex_file_env = ex_env\<lparr>e_path := True\<rparr>"

definition ex_file_repo :: repo where
  "ex_file_repo = ex_repo\<lparr>r_disk := Stored (initial_state ''account:test''), r_initialized := True\<rparr>"

lemma ex_current:
  "current_doc ex_env ex_repo = Inr (initial_state ''account:test'')"
  "current_doc ex_file_env ex_file_repo = Inr (initial_state ''account:test'')"
  using initial_state_valid [of "''account:test''"]
  by (simp_all add: current_doc_def refreshed_def ex_env_def ex_repo_def ex_file_env_def ex_file_repo_def
      seen_disk_def valid_doc_def refresh_checks_def rbind_Inr_iff)

lemma initial_version: "version_of (initial_state scope) = 0"
  by (simp add: version_of_def initial_state_def doc_simps) (simp add: initial_body_def read_JObj)

lemma ex_mutation_runs: "\<exists>d s'. mutate ex_env ex_change None ex_repo = (Inr ((), d), s')"
  using ex_change_runs [of ex_repo ex_env] ex_current(1) by (simp add: ex_env_def ex_repo_def)

lemma ex_file_mutation_runs: "\<exists>d s'. mutate ex_file_env ex_change None ex_file_repo = (Inr ((), d), s')"
  using ex_change_runs [of ex_file_repo ex_file_env] ex_current(2)
  by (simp add: ex_env_def ex_repo_def ex_file_env_def ex_file_repo_def)

lemma wf_json_append [simp]: "wf_json d \<Longrightarrow> wf_json x \<Longrightarrow> wf_json (append_to d s x)"
proof -
  assume d: "wf_json d" and x: "wf_json x"
  have "wf_json (fld d s)" using d by simp
  then have "wf_json (jappend (fld d s) x)"
    using x by (cases "fld d s") (simp_all add: jappend_def jarr_def)
  then show ?thesis using d by (simp add: append_to_def)
qed

lemma ex_change_wf: "wf_mutator ex_change"
  by (simp add: wf_mutator_def pure_mutator_def ex_entry_def)

text \<open>
  C10: a mutation that returns has replaced the current document by a valid one with the
  next version, linked to it by its hash, that keeps every log entry, receipt, idempotency key and
  creation fact and lowers no epoch, fencing token, plan version or broker generation.
\<close>

theorem mutation_installs_successor:
  assumes "mutate e f ex s = (Inr (r, d), s')" and "\<And>d. neutral (f d)"
    and "valid_doc (e_scope e) (r_mem s)"
  shows "\<exists>mem. current_doc e s = Inr mem \<and> valid_doc (e_scope e) (r_mem s') \<and>
    version_of (r_mem s') = version_of mem + 1 \<and>
    fld (r_mem s') ''previous_state_hash'' = fld mem ''state_hash'' \<and>
    fld (r_mem s') ''state_hash'' = JStr (json_hash (dpop (r_mem s') ''state_hash'')) \<and>
    grows mem (r_mem s')"
  using mutate_successor [OF assms] valid_doc_hash by blast

lemma mutation_installs_successor_witness:
  "\<exists>s' :: repo. version_of (r_mem s') = 1 \<and> grows (initial_state ''account:test'') (r_mem s')"
proof -
  obtain d s' where m: "mutate ex_env ex_change None ex_repo = (Inr ((), d), s')"
    using ex_mutation_runs by blast
  then show ?thesis
    using initial_version [of "''account:test''"] mutation_installs_successor [OF m] initial_state_valid [of "''account:test''"] ex_current(1)
    by (auto simp: ex_env_def ex_repo_def)
qed

lemma failed_mutation_changes_nothing_witness:
  "r_mem (snd (mutate ex_env (pure_mutator (\<lambda>_. raise PlanRejected ''no'')) None ex_repo))
    = initial_state ''account:test''"
proof -
  obtain x s' where m: "mutate ex_env (pure_mutator (\<lambda>_. raise PlanRejected ''no'')) None ex_repo = (Inl x, s')"
    by (simp add: mutate_def mutate_locked_def file_guard_def ex_env_def ex_repo_def require_available_def
        aguard_def refresh_from_disk_def refreshed_def pure_mutator_def abind_def Let_def raise_def)
  from failed_mutation_changes_nothing [OF _ m] show ?thesis
    by (simp add: m) (simp add: ex_env_def ex_repo_def)
qed

text \<open>
  C2: whatever processes that share the state file do, in any order and with writes failing at any
  point, the file they leave is valid and continues the history of the file they found: nothing
  recorded is lost or changed and the version counts the accepted changes.
\<close>

theorem shared_file_history:
  assumes "(cluster_step scope)\<^sup>*\<^sup>* c c'" and "cl_disk c = Stored d" and "good_doc scope d"
  shows "\<exists>d' n. cl_disk c' = Stored d' \<and> good_doc scope d' \<and> grows d d' \<and>
    (successor scope ^^ n) d d' \<and> version_of d' = version_of d + int n"
proof -
  obtain d' where d': "cl_disk c' = Stored d'" "(successor scope)\<^sup>*\<^sup>* d d'"
    using cluster_run_disk [OF assms] by blast
  then obtain n where n: "(successor scope ^^ n) d d'" by (auto simp: rtranclp_power)
  with d' show ?thesis
    using chain.run_ok [OF d'(2) assms(3)] chain.run_length [OF n assms(3)] by blast
qed

definition ex_cluster :: cluster where
  "ex_cluster = \<lparr>cl_disk = Stored (initial_state ''account:test''), cl_proc = (\<lambda>_. None)\<rparr>"

lemma good_initial: "good_doc scope (initial_state scope)"
  by (simp add: good_doc_def initial_state_valid initial_state_wf)

lemma ex_file_disk:
  assumes "mutate ex_file_env ex_change None ex_file_repo = (Inr ((), d), r')"
  shows "r_disk r' = Stored (canon (r_mem r')) \<and> wf_json (r_mem r')"
  using assms neutral_pure
proof (rule mutate_ok)
  fix mem cand t t'
  assume cur: "current_doc ex_file_env ex_file_repo = Inr mem"
    and f: "ex_change mem t = (Inr ((), cand), t')"
    and d: "d = dset cand ''state_version'' (JInt (version_of mem + 1))"
    and sl: "sealed (e_scope ex_file_env) mem d = Inr (r_mem r')"
    and disk: "e_path ex_file_env \<Longrightarrow> r_disk r' = Stored (canon (r_mem r'))"
  have mem: "wf_json mem" using cur ex_current(2) initial_state_wf by auto
  with f ex_change_wf have "wf_json cand" unfolding wf_mutator_def by blast
  with mem sealed_wf [OF sl] d disk show ?thesis by (simp add: ex_file_env_def)
qed

lemma ex_cluster_runs:
  "\<exists>c' d'. (cluster_step ''account:test'')\<^sup>*\<^sup>* ex_cluster c' \<and> cl_disk c' = Stored d' \<and> version_of d' = 1"
proof -
  let ?r = "ex_file_repo" and ?c = "ex_cluster\<lparr>cl_proc := (cl_proc ex_cluster)(0 := Some ex_file_repo)\<rparr>"
  have sh: "shared ''account:test'' ex_file_env" by (simp add: shared_def ex_file_env_def ex_env_def)
  have "open_repo ex_file_env (cl_disk ex_cluster) = Inr ?r"
    using initial_state_valid [of "''account:test''"]
    by (simp add: open_repo_def load_state_def ex_file_env_def ex_env_def ex_cluster_def valid_doc_def
        ex_file_repo_def ex_repo_def)
  then have s1: "cluster_step ''account:test'' ex_cluster ?c" using cluster_step.Open [OF sh] by blast
  obtain d r' where m: "mutate ex_file_env ex_change None ex_file_repo = (Inr ((), d), r')"
    using ex_file_mutation_runs by blast
  have "ex_file_repo\<lparr>r_disk := cl_disk ?c\<rparr> = ex_file_repo"
    by (simp add: ex_file_repo_def ex_cluster_def)
  then have s2: "cluster_step ''account:test'' ?c
      (?c\<lparr>cl_disk := r_disk r', cl_proc := (cl_proc ?c)(0 := Some r')\<rparr>)"
    using m ex_change_wf by (intro cluster_step.Mutate [OF _ sh]) auto
  have good: "good_doc ''account:test'' (initial_state ''account:test'')"
    by (rule good_initial)
  have v: "version_of (r_mem r') = 1"
    using mutate_successor [OF m] initial_state_valid [of "''account:test''"] ex_current(2) initial_version
    by (auto simp: ex_file_env_def ex_env_def ex_file_repo_def ex_repo_def)
  have disk: "r_disk r' = Stored (canon (r_mem r'))" and w: "wf_json (r_mem r')"
    using ex_file_disk [OF m] by simp_all
  let ?d = "?c\<lparr>cl_disk := r_disk r', cl_proc := (cl_proc ?c)(0 := Some r')\<rparr>"
  from s1 s2 have "(cluster_step ''account:test'')\<^sup>*\<^sup>* ex_cluster ?d" by (rule converse_rtranclp_into_rtranclp [OF _ r_into_rtranclp])
  moreover have "cl_disk ?d = Stored (canon (r_mem r'))" by (simp add: disk)
  ultimately show ?thesis using v w by (intro exI [of _ ?d] exI [of _ "canon (r_mem r')"]) simp
qed

lemma shared_file_history_witness:
  "\<exists>c' d'. (cluster_step ''account:test'')\<^sup>*\<^sup>* ex_cluster c' \<and> cl_disk c' = Stored d' \<and>
    version_of d' = 1 \<and> grows (initial_state ''account:test'') d'"
proof -
  obtain c' d' where r: "(cluster_step ''account:test'')\<^sup>*\<^sup>* ex_cluster c'" "cl_disk c' = Stored d'"
      "version_of d' = 1"
    using ex_cluster_runs by blast
  have "cl_disk ex_cluster = Stored (initial_state ''account:test'')" by (simp add: ex_cluster_def)
  from shared_file_history [OF r(1) this good_initial] r show ?thesis by auto
qed

text \<open>
  C15: a document written through to the file is read back by the next snapshot of the same
  instance, up to the order of its keys, when nobody has changed the file in between.
\<close>

theorem written_document_reads_back:
  assumes "mutate e f ex s = (Inr (r, d), s')" and "\<And>d. neutral (f d)" and "wf_mutator f"
    and "valid_doc (e_scope e) (r_mem s)" and "wf_json (r_mem s)"
    and "e_path e" and "\<And>m v. seen_disk e s = Stored v \<Longrightarrow> wf_json v"
    and "e_others e (r_tick s') (r_disk s') = r_disk s'" and "e_lock e (r_tick s')"
  shows "fst (snapshot e s') = Inr (canon (r_mem s'))"
  using assms(1,2)
proof (rule mutate_ok)
  fix mem cand t t'
  assume cur: "current_doc e s = Inr mem" and f: "f mem t = (Inr (r, cand), t')"
    and d: "d = dset cand ''state_version'' (JInt (version_of mem + 1))"
    and sl: "sealed (e_scope e) mem d = Inr (r_mem s')" and av: "r_available s'"
    and disk: "e_path e \<Longrightarrow> r_disk s' = Stored (canon (r_mem s'))"
  have "wf_json mem"
    using cur assms(5,7) by (auto simp: current_doc_def refreshed_def rbind_Inr_iff validate_state_Inr_iff
        split: if_splits disk.splits)
  moreover from this f have "wf_json cand" using assms(3) unfolding wf_mutator_def by blast
  ultimately have wf: "wf_json (r_mem s')" using sealed_wf [OF sl] d by simp
  then have v: "validate_state (canon (r_mem s')) (e_scope e) = Inr (canon (r_mem s'))"
    using valid_doc_canon sealed_Inr(1) [OF sl] by (simp add: valid_doc_def [symmetric])
  have "refresh_checks (r_mem s') (canon (r_mem s')) = Inr ()"
    using wf by (simp add: refresh_checks_def fld_canon)
  then have "refreshed (e_scope e) (e_path e) (r_initialized s') (r_mem s') (r_disk s') = Inr (canon (r_mem s'))"
    using v assms(6) disk by (simp add: refreshed_def)
  then show ?thesis
    using av assms(6,8,9)
    by (simp add: snapshot_def require_available_def aguard_def file_guard_def next_tick_def abind_def
        acatch_def refresh_from_disk_def)
qed

lemma written_document_reads_back_witness:
  "\<exists>s' :: repo. version_of (r_mem s') = 1 \<and> fst (snapshot ex_file_env s') = Inr (canon (r_mem s'))"
proof -
  obtain d s' where m: "mutate ex_file_env ex_change None ex_file_repo = (Inr ((), d), s')"
    using ex_file_mutation_runs by blast
  have v: "version_of (r_mem s') = 1"
    using mutate_successor [OF m] initial_state_valid [of "''account:test''"] ex_current(2) initial_version
    by (auto simp: ex_file_env_def ex_env_def ex_file_repo_def ex_repo_def)
  have "fst (snapshot ex_file_env s') = Inr (canon (r_mem s'))"
    by (rule written_document_reads_back [OF m neutral_pure ex_change_wf])
      (use initial_state_valid initial_state_wf in
        \<open>auto simp: ex_file_env_def ex_env_def ex_file_repo_def ex_repo_def seen_disk_def\<close>)
  with v show ?thesis by blast
qed

section \<open>Documents in memory are valid\<close>

lemma current_valid:
  "current_doc e s = Inr d \<Longrightarrow> valid_doc (e_scope e) (r_mem s) \<Longrightarrow> valid_doc (e_scope e) d"
  by (auto simp: current_doc_def refreshed_def rbind_Inr_iff validate_state_Inr_iff
      split: if_splits disk.splits)

lemma open_valid: "open_repo e disk = Inr r \<Longrightarrow> valid_doc (e_scope e) (r_mem r)"
  using initial_state_valid
  by (auto simp: open_repo_def load_state_def rbind_Inr_iff validate_state_Inr_iff
      split: if_splits disk.splits)

lemma snapshot_valid: "keeps (\<lambda>s. valid_doc (e_scope e) (r_mem s)) (snapshot e)"
proof (rule tripleI)
  fix s :: "'a repo_scheme" and d t assume "valid_doc (e_scope e) (r_mem s)" "snapshot e s = (Inr d, t)"
  then show "valid_doc (e_scope e) (r_mem t)" using snapshot_ok current_valid by metis
next
  fix s :: "'a repo_scheme" and x t assume "valid_doc (e_scope e) (r_mem s)" "snapshot e s = (Inl x, t)"
  then show "valid_doc (e_scope e) (r_mem t)" using snapshot_failed by metis
qed

lemma mutate_valid:
  assumes n: "\<And>d. neutral (f d)"
  shows "keeps (\<lambda>s. valid_doc (e_scope e) (r_mem s)) (mutate e f ex)"
proof (rule tripleI)
  fix s x t assume v: "valid_doc (e_scope e) (r_mem s)" and m: "mutate e f ex s = (Inr x, t)"
  obtain r d where "x = (r, d)" by (cases x)
  with m have "mutate e f ex s = (Inr (r, d), t)" by simp
  from mutate_successor [OF this n v] show "valid_doc (e_scope e) (r_mem t)" by blast
next
  fix s x t assume "valid_doc (e_scope e) (r_mem s)" and m: "mutate e f ex s = (Inl x, t)"
  moreover have "r_mem t = r_mem s \<or> (e_path e \<and> current_doc e s = Inr (r_mem t))"
    by (rule failed_mutation [OF n m])
  ultimately show "valid_doc (e_scope e) (r_mem t)" using current_valid by auto
qed

text \<open>
  C16: a repository is opened on a valid document or not at all, and neither a read nor a mutation,
  returning or raising, ever puts an invalid document in its memory.
\<close>

theorem memory_is_always_valid:
  "(open_repo e disk = Inr r \<longrightarrow> valid_doc (e_scope e) (r_mem r)) \<and>
   keeps (\<lambda>s. valid_doc (e_scope e) (r_mem s)) (snapshot e) \<and>
   ((\<forall>d. neutral (f d)) \<longrightarrow> keeps (\<lambda>s. valid_doc (e_scope e) (r_mem s)) (mutate e f ex))"
  using open_valid snapshot_valid mutate_valid by blast

lemma memory_is_always_valid_witness:
  "valid_doc ''account:test'' (r_mem (snd (mutate ex_env (ex_change :: (unit, unit) mutator) None ex_repo)))"
proof -
  let ?m = "mutate ex_env (ex_change :: (unit, unit) mutator) None"
  have k: "keeps (\<lambda>s. valid_doc (e_scope ex_env) (r_mem s)) ?m"
    by (rule memory_is_always_valid [THEN conjunct2, THEN conjunct2, rule_format]) simp
  have v: "valid_doc (e_scope ex_env) (r_mem ex_repo)"
    using initial_state_valid by (simp add: ex_env_def ex_repo_def)
  obtain r t where m: "?m ex_repo = (r, t)" by (cases "?m ex_repo")
  then have "valid_doc (e_scope ex_env) (r_mem t)"
    using triple_ok [OF k v] triple_err [OF k v] by (cases r) blast+
  then show ?thesis by (simp add: m) (simp add: ex_env_def)
qed



section \<open>A reader that falls two versions behind\<close>


lemma successor_exists:
  assumes d: "good_doc scope d" and x: "validate_audit_entry x = Inr ()" "wf_json x" "finite_json x" "finite_json d"
  shows "\<exists>d'. successor scope d d' \<and> finite_json d'"
proof -
  have v: "valid_doc scope d" "wf_json d" using d by (simp_all add: good_doc_def)
  have n: "0 \<le> version_of d + 1"
    using valid_doc_shape(3) [OF v(1)] by (auto simp: version_of_def dest!: int_at_leastE)
  have f: "finite_json (append_to d ''audit'' x)"
  proof -
    have "is_jarr (fld d ''audit'')" using valid_doc_shape(6) [OF v(1)] by simp
    moreover have "finite_json (fld d ''audit'')"
      using x(4) by (cases d) (auto simp: read_JObj list_all_iff fld_def get_or_def dget_def
        split: option.splits dest: map_of_SomeD)
    ultimately have "finite_json (jappend (fld d ''audit'') x)"
      using x(3) by (cases "fld d ''audit''") (auto simp: jappend_def is_jarr_def)
    then show ?thesis using x(4) by (simp add: append_to_def)
  qed
  obtain h' where w: "sealed scope d (dset (append_to d ''audit'' x) ''state_version'' (JInt (version_of d + 1)))
      = Inr (reseal (append_to d ''audit'' x) (version_of d + 1) (the_str (fld d ''state_hash'')) h')"
    using sealed_reseal [OF v(1) append_audit_document [OF v(1) x(1)] f n] by blast
  let ?w = "reseal (append_to d ''audit'' x) (version_of d + 1) (the_str (fld d ''state_hash'')) h'"
  have "successor scope d (canon ?w)"
    using append_to_log [OF v, of "''audit''" x] v(2) x(2) w unfolding successor_def
    by (intro exI [of _ "append_to d ''audit'' x"] exI [of _ ?w]) auto
  moreover have "finite_json (canon ?w)" using f by (simp add: reseal_def)
  ultimately show ?thesis by blast
qed


end
