(* ===== verification/Exec_Fencing.thy ===== *)
theory Exec_Fencing
  imports Exec_Repository
begin

text \<open>
  \<open>backend/app/execution/fencing.py\<close>: the single-leader lease. A fencer is a repository with a
  clock high-water mark, a latch for a clock that went backwards and the token it holds.
\<close>

record fenv = env +
  fe_scope :: string
  fe_lease_us :: int

record fencer = repo +
  f_last_now :: "int option"
  f_rollback :: bool
  f_token :: "leader_token option"

type_synonym ('z, 'a) fop = "('z fencer_scheme, exn, 'a) act"

text \<open>A caller passes no token, the token object itself, or some mapping.\<close>

datatype token_arg = NoToken | TokenObj leader_token | TokenMap json

definition parse_timestamp :: "json \<Rightarrow> int res" where
  "parse_timestamp text = timestamp_of text ''lease_expires_at''"

definition lease_expiry :: "json \<Rightarrow> int res" where
  "lease_expiry lease =
     parse_timestamp (JStr (py_str (get_or lease ''lease_expires_at'' (JStr EPOCH_TIMESTAMP))))"

section \<open>The clock\<close>

definition utc_now :: "'e env_scheme \<Rightarrow> ('z repo_scheme, exn, int) act" where
  "utc_now e = abind next_tick (\<lambda>n. aret (e_clock e n))"

definition clock_reading :: "'e env_scheme \<Rightarrow> int option \<Rightarrow> ('z repo_scheme, exn, int) act" where
  "clock_reading e t = (case t of Some t \<Rightarrow> aret t | None \<Rightarrow> utc_now e)"

definition lease_clock :: "'e fenv_scheme \<Rightarrow> int option \<Rightarrow> ('z, int) fop" where
  "lease_clock e t =
     abind (clock_reading e t) (\<lambda>current s.
       case f_last_now s of
         Some l \<Rightarrow>
           if current < l
           then (Inl (Exn ClockRollbackError ''clock rollback detected; fencing is halted''),
                 s\<lparr>f_rollback := True\<rparr>)
           else if f_rollback s
           then (Inl (Exn ClockRollbackError ''fencing halted after clock rollback''),
                 s\<lparr>f_last_now := Some current\<rparr>)
           else (Inr current, s\<lparr>f_last_now := Some current\<rparr>)
       | None \<Rightarrow>
           if f_rollback s
           then (Inl (Exn ClockRollbackError ''fencing halted after clock rollback''),
                 s\<lparr>f_last_now := Some current\<rparr>)
           else (Inr current, s\<lparr>f_last_now := Some current\<rparr>))"

section \<open>Tokens against a document\<close>

definition coerce_token :: "string \<Rightarrow> token_arg \<Rightarrow> leader_token res" where
  "coerce_token scope token =
     (case token of
        NoToken \<Rightarrow> raise FencingError ''fencing token is required''
      | TokenObj t \<Rightarrow> Inr t
      | TokenMap m \<Rightarrow>
          if \<not> is_obj m then raise FencingError ''invalid fencing token''
          else if \<not> list_all (has_key m) [''scope'', ''owner_id'', ''epoch'', ''fencing_token'', ''lease_expires_at'']
          then raise FencingError ''incomplete fencing token''
          else if fld m ''scope'' \<noteq> JStr scope then raise FencingError ''foreign fencing scope''
          else if \<not> str_sat IDENTIFIER_RE (fld m ''owner_id'')
          then raise FencingError ''invalid fencing owner''
          else if \<not> int_at_least 1 (fld m ''epoch'') then raise FencingError ''invalid fencing epoch''
          else if \<not> int_at_least 1 (fld m ''fencing_token'')
          then raise FencingError ''invalid fencing token''
          else rbind (parse_utc (fld m ''lease_expires_at'') ''lease_expires_at'') (\<lambda>expires.
            if \<not> str_sat (\<lambda>s. s \<noteq> []) (get_or m ''instance_id'' (JStr []))
            then raise FencingError ''fencing token is missing process instance binding''
            else Inr \<lparr>lt_scope = scope, lt_owner_id = the_str (fld m ''owner_id''),
              lt_epoch = the_int (fld m ''epoch''), lt_fencing_token = the_int (fld m ''fencing_token''),
              lt_lease_expires_at = expires, lt_instance_id = the_str (fld m ''instance_id'')\<rparr>))"

text \<open>\<open>token or self._token\<close>; an empty mapping counts as no token.\<close>

definition or_own :: "token_arg \<Rightarrow> leader_token option \<Rightarrow> token_arg" where
  "or_own token own =
     (let absent = (case token of NoToken \<Rightarrow> True | TokenObj _ \<Rightarrow> False | TokenMap m \<Rightarrow> \<not> truthy m)
      in if absent then (case own of None \<Rightarrow> NoToken | Some t \<Rightarrow> TokenObj t) else token)"

definition assert_state_token ::
  "string \<Rightarrow> json \<Rightarrow> leader_token \<Rightarrow> int \<Rightarrow> bool \<Rightarrow> bool \<Rightarrow> unit res" where
  "assert_state_token scope state supplied now allow_expired allow_renewed =
     (let lease = fld state ''lease'' in
      if \<not> is_obj lease then raise FencingError ''durable lease is unavailable''
      else if fld lease ''scope'' \<noteq> JStr scope then raise FencingError ''foreign fencing scope''
      else if fld lease ''owner_id'' \<noteq> JStr (lt_owner_id supplied)
        \<or> \<not> jeq (fld lease ''epoch'') (JInt (lt_epoch supplied))
        \<or> \<not> jeq (fld lease ''fencing_token'') (JInt (lt_fencing_token supplied))
        \<or> fld lease ''instance_id'' \<noteq> JStr (lt_instance_id supplied)
      then raise FencingError ''stale or foreign fencing token''
      else rbind (lease_expiry lease) (\<lambda>expiry.
        rbind (if allow_renewed
            then rbind (parse_timestamp (JStr (lt_lease_expires_at supplied))) (\<lambda>supplied_expiry.
              rguard (supplied_expiry \<le> expiry)
                (Exn FencingError ''fencing lease expiry is newer than durable lease''))
            else rguard (fld lease ''lease_expires_at'' = JStr (lt_lease_expires_at supplied))
              (Exn FencingError ''fencing lease expiry mismatch'')) (\<lambda>_.
        rguard (allow_expired \<or> now < expiry) (Exn FencingError ''fencing lease is expired''))))"

section \<open>Acquire, renew, release\<close>

definition int_or_raise :: "json \<Rightarrow> int res" where
  "int_or_raise v = (case py_int v of None \<Rightarrow> raise PyTypeError ''int()'' | Some n \<Rightarrow> Inr n)"

definition acquire_writer ::
  "string \<Rightarrow> string \<Rightarrow> int \<Rightarrow> string \<Rightarrow> string \<Rightarrow> json \<Rightarrow> (leader_token \<times> json) res" where
  "acquire_writer scope owner_id current expiry_text instance_id state =
     (let lease = fld state ''lease'' in
      if fld lease ''scope'' \<noteq> JStr scope then raise FencingError ''lease scope mismatch''
      else rbind (parse_timestamp (get_or lease ''lease_expires_at'' (JStr EPOCH_TIMESTAMP))) (\<lambda>old_expires.
        rbind (int_or_raise (get_or lease ''epoch'' (JInt 0))) (\<lambda>old_epoch.
        rbind (int_or_raise (get_or lease ''fencing_token'' (JInt 0))) (\<lambda>old_token.
        if truthy (get_or lease ''owner_id'' (JStr [])) \<and> current < old_expires
        then raise LeaseNotHeldError ''another live leader instance owns the lease''
        else let token = \<lparr>lt_scope = scope, lt_owner_id = owner_id, lt_epoch = old_epoch + 1,
               lt_fencing_token = old_token + 1, lt_lease_expires_at = expiry_text,
               lt_instance_id = instance_id\<rparr>
             in Inr (token, dset state ''lease'' (dupdate lease
               [(''scope'', JStr scope), (''owner_id'', JStr (lt_owner_id token)),
                (''epoch'', JInt (lt_epoch token)), (''fencing_token'', JInt (lt_fencing_token token)),
                (''lease_expires_at'', JStr (lt_lease_expires_at token)),
                (''instance_id'', JStr (lt_instance_id token))]))))))"

definition acquire :: "'e fenv_scheme \<Rightarrow> string \<Rightarrow> int option \<Rightarrow> ('z, leader_token) fop" where
  "acquire e owner_id now =
     abind (alift (validate_identifier (JStr owner_id) ''owner_id'')) (\<lambda>owner_id.
     abind (lease_clock e now) (\<lambda>current.
     let expiry_text = format_utc (current + fe_lease_us e) in
     abind next_tick (\<lambda>n.
     let instance_id = ''leader-instance-'' @ e_uuid e n in
     abind (mutate (env.truncate e)
       (\<lambda>state. alift (acquire_writer (fe_scope e) owner_id current expiry_text instance_id state)) None)
       (\<lambda>(token, _). abind (amod (\<lambda>s. s\<lparr>f_token := Some token\<rparr>)) (\<lambda>_. aret token)))))"

definition renew_writer ::
  "string \<Rightarrow> leader_token \<Rightarrow> int \<Rightarrow> string \<Rightarrow> json \<Rightarrow> (leader_token \<times> json) res" where
  "renew_writer scope supplied current expiry_text state =
     rbind (assert_state_token scope state supplied current False False) (\<lambda>_.
     Inr (supplied\<lparr>lt_scope := scope, lt_lease_expires_at := expiry_text\<rparr>,
       set_in state ''lease'' ''lease_expires_at'' (JStr expiry_text)))"

definition own_token :: "'e fenv_scheme \<Rightarrow> token_arg \<Rightarrow> ('z, leader_token) fop" where
  "own_token e token =
     abind (aget f_token) (\<lambda>own. alift (coerce_token (fe_scope e) (or_own token own)))"

definition renew :: "'e fenv_scheme \<Rightarrow> token_arg \<Rightarrow> int option \<Rightarrow> ('z, leader_token) fop" where
  "renew e token now =
     abind (own_token e token) (\<lambda>supplied.
     abind (lease_clock e now) (\<lambda>current.
     let expiry_text = format_utc (current + fe_lease_us e) in
     abind (mutate (env.truncate e)
       (\<lambda>state. alift (renew_writer (fe_scope e) supplied current expiry_text state)) None)
       (\<lambda>(renewed, _). abind (amod (\<lambda>s. s\<lparr>f_token := Some renewed\<rparr>)) (\<lambda>_. aret renewed))))"

definition release_writer :: "string \<Rightarrow> leader_token \<Rightarrow> int \<Rightarrow> json \<Rightarrow> (unit \<times> json) res" where
  "release_writer scope supplied current state =
     rbind (assert_state_token scope state supplied current True False) (\<lambda>_.
     Inr ((), set_in (set_in (set_in state ''lease'' ''owner_id'' (JStr []))
       ''lease'' ''lease_expires_at'' (JStr EPOCH_TIMESTAMP)) ''lease'' ''instance_id'' (JStr [])))"

definition release :: "'e fenv_scheme \<Rightarrow> token_arg \<Rightarrow> int option \<Rightarrow> ('z, leader_token) fop" where
  "release e token now =
     abind (own_token e token) (\<lambda>supplied.
     abind (lease_clock e now) (\<lambda>current.
     abind (mutate (env.truncate e)
       (\<lambda>state. alift (release_writer (fe_scope e) supplied current state)) None) (\<lambda>_.
     abind (amod (\<lambda>s. if f_token s = Some supplied then s\<lparr>f_token := None\<rparr> else s)) (\<lambda>_.
     aret supplied))))"

section \<open>Admission\<close>

definition validate_token :: "'e fenv_scheme \<Rightarrow> token_arg \<Rightarrow> int option \<Rightarrow> ('z, leader_token) fop" where
  "validate_token e token now =
     abind (own_token e token) (\<lambda>supplied.
     abind (lease_clock e now) (\<lambda>current.
     abind (snapshot (env.truncate e)) (\<lambda>state.
     abind (alift (assert_state_token (fe_scope e) state supplied current False False)) (\<lambda>_.
     aret supplied))))"

definition fence_match :: "leader_token \<Rightarrow> int \<Rightarrow> int \<Rightarrow> unit res" where
  "fence_match supplied leader_epoch fencing_token =
     rguard (lt_epoch supplied = leader_epoch \<and> lt_fencing_token supplied = fencing_token)
       (Exn FencingError ''fencing epoch/token mismatch'')"

definition admission ::
  "'e fenv_scheme \<Rightarrow> int option \<Rightarrow> int option \<Rightarrow> token_arg \<Rightarrow> int option \<Rightarrow> ('z, leader_token) fop" where
  "admission e leader_epoch fencing_token token now =
     (case (leader_epoch, fencing_token) of
        (Some epoch, Some fence) \<Rightarrow>
          if token = NoToken
          then athrow (Exn FencingError ''explicit fencing token is required for mutation'')
          else abind (validate_token e token now) (\<lambda>supplied.
            abind (alift (fence_match supplied epoch fence)) (\<lambda>_. aret supplied))
      | _ \<Rightarrow> athrow (Exn FencingError ''leader_epoch and fencing_token are required''))"

definition planned_dispatch_admission ::
  "'e fenv_scheme \<Rightarrow> int option \<Rightarrow> int option \<Rightarrow> token_arg \<Rightarrow> int option \<Rightarrow> ('z, leader_token) fop" where
  "planned_dispatch_admission e leader_epoch fencing_token token now =
     (case (leader_epoch, fencing_token) of
        (Some epoch, Some fence) \<Rightarrow>
          if token = NoToken
          then athrow (Exn FencingError ''explicit fencing token is required for mutation'')
          else abind (alift (coerce_token (fe_scope e) token)) (\<lambda>supplied.
            abind (lease_clock e now) (\<lambda>current.
            abind (snapshot (env.truncate e)) (\<lambda>state.
            abind (alift (assert_state_token (fe_scope e) state supplied current False True)) (\<lambda>_.
            abind (alift (fence_match supplied epoch fence)) (\<lambda>_. aret supplied)))))
      | _ \<Rightarrow> athrow (Exn FencingError ''leader_epoch and fencing_token are required''))"

text \<open>
  The two forms that check a transaction's candidate document; \<open>planned\<close> accepts the expiry from
  before a renewal.
\<close>

definition validate_candidate ::
  "bool \<Rightarrow> 'e fenv_scheme \<Rightarrow> json \<Rightarrow> int option \<Rightarrow> int option \<Rightarrow> token_arg \<Rightarrow> int option \<Rightarrow> ('z, leader_token) fop" where
  "validate_candidate planned e state leader_epoch fencing_token token now =
     (case (leader_epoch, fencing_token) of
        (Some epoch, Some fence) \<Rightarrow>
          if token = NoToken
          then athrow (Exn FencingError ''explicit fencing epoch/token are required'')
          else abind (alift (coerce_token (fe_scope e) token)) (\<lambda>supplied.
            abind (lease_clock e now) (\<lambda>current.
            abind (alift (assert_state_token (fe_scope e) state supplied current False planned)) (\<lambda>_.
            abind (alift (fence_match supplied epoch fence)) (\<lambda>_. aret supplied))))
      | _ \<Rightarrow> athrow (Exn FencingError ''explicit fencing epoch/token are required''))"

definition validate_against_state ::
  "'e fenv_scheme \<Rightarrow> json \<Rightarrow> int option \<Rightarrow> int option \<Rightarrow> token_arg \<Rightarrow> int option \<Rightarrow> ('z, leader_token) fop" where
  "validate_against_state = validate_candidate False"

definition validate_planned_dispatch_against_state ::
  "'e fenv_scheme \<Rightarrow> json \<Rightarrow> int option \<Rightarrow> int option \<Rightarrow> token_arg \<Rightarrow> int option \<Rightarrow> ('z, leader_token) fop" where
  "validate_planned_dispatch_against_state = validate_candidate True"

section \<open>Projections\<close>

definition is_held :: "leader_token option \<Rightarrow> json \<Rightarrow> int \<Rightarrow> int \<Rightarrow> bool" where
  "is_held own lease expires now =
     (case own of None \<Rightarrow> False
      | Some t \<Rightarrow> fld lease ''owner_id'' = JStr (lt_owner_id t) \<and> jeq (fld lease ''epoch'') (JInt (lt_epoch t))
          \<and> jeq (fld lease ''fencing_token'') (JInt (lt_fencing_token t))
          \<and> fld lease ''instance_id'' = JStr (lt_instance_id t) \<and> now < expires)"

definition held :: "'e fenv_scheme \<Rightarrow> ('z, bool) fop" where
  "held e =
     abind (acatch (abind (snapshot (env.truncate e)) (\<lambda>d. aret (Some d)))
       (\<lambda>x. if is_a x RepositoryUnavailableError then aret None else athrow x)) (\<lambda>state.
     case state of None \<Rightarrow> aret False
     | Some d \<Rightarrow>
       let lease = fld d ''lease'' in
       case lease_expiry lease of
         Inl x \<Rightarrow> if is_a x FencingError \<or> is_a x PyTypeError \<or> is_a x PyValueError
                then aret False else athrow x
       | Inr expires \<Rightarrow>
           abind (utc_now e) (\<lambda>now. abind (aget f_token) (\<lambda>own. aret (is_held own lease expires now))))"

definition lease_projection :: "json \<Rightarrow> int \<Rightarrow> int \<Rightarrow> json" where
  "lease_projection lease expiry now =
     (if truthy (fld lease ''owner_id'')
      then let live = expiry > now in
        dset (dset lease ''held'' (JBool live)) ''state''
          (JStr (if live then ''ACTIVE'' else ''EXPIRED_BOUND''))
      else dset (dset lease ''held'' (JBool False)) ''state'' (JStr ''RELEASED''))"

definition current_lease :: "'e fenv_scheme \<Rightarrow> ('z, json) fop" where
  "current_lease e =
     abind (snapshot (env.truncate e)) (\<lambda>state.
     let lease = fld state ''lease'' in
     abind (alift (rcatch (parse_timestamp (JStr (py_str (fld lease ''lease_expires_at'')))) (\<lambda>x.
         if is_a x CommandValidationError \<or> is_a x PyTypeError \<or> is_a x PyValueError
         then raise RepositoryUnavailableError ''durable lease expiry is invalid'' else Inl x))) (\<lambda>expiry.
     if truthy (fld lease ''owner_id'')
     then abind (utc_now e) (\<lambda>now. aret (lease_projection lease expiry now))
     else aret (lease_projection lease expiry 0)))"

end
