(* ===== verification/Fencing_Facts.thy ===== *)
theory Fencing_Facts
  imports Exec_Fencing Repository_History
begin

text \<open>
  What the lease promises: one identity per document, a strictly higher epoch for every leader, and
  no way back for a token once it has been superseded or for a clock once it ran backwards.
\<close>

section \<open>Fenced documents\<close>

locale fenced =
  fixes accepts :: "'d \<Rightarrow> 't \<Rightarrow> bool" and doc_epoch :: "'d \<Rightarrow> int" and tok_epoch :: "'t \<Rightarrow> int"
    and le :: "'d \<Rightarrow> 'd \<Rightarrow> bool"
  assumes accepted_epoch: "accepts d t \<Longrightarrow> tok_epoch t = doc_epoch d"
    and epoch_mono: "le d d' \<Longrightarrow> doc_epoch d \<le> doc_epoch d'"
begin

lemma superseded: "tok_epoch t < doc_epoch d \<Longrightarrow> le d d' \<Longrightarrow> \<not> accepts d' t"
  using accepted_epoch [of d' t] epoch_mono [of d d'] by auto

lemma same_leader: "accepts d t \<Longrightarrow> accepts d u \<Longrightarrow> tok_epoch t = tok_epoch u"
  by (simp add: accepted_epoch)

lemma accepted_between: "accepts d t \<Longrightarrow> accepts d' t \<Longrightarrow> le d m \<Longrightarrow> le m d' \<Longrightarrow> doc_epoch m = tok_epoch t"
  using accepted_epoch epoch_mono by (metis order_antisym)

end

definition lease_epoch :: "json \<Rightarrow> int" where
  "lease_epoch d = high_water d (''lease'', ''epoch'')"

definition lease_fence :: "json \<Rightarrow> int" where
  "lease_fence d = high_water d (''lease'', ''fencing_token'')"

definition token_accepted :: "string \<Rightarrow> json \<Rightarrow> leader_token \<Rightarrow> bool" where
  "token_accepted scope d t \<longleftrightarrow> valid_doc scope d \<and>
     (\<exists>now expired renewed. assert_state_token scope d t now expired renewed = Inr ())"

lemma lease_ints:
  assumes "valid_doc scope d"
  shows "fld (fld d ''lease'') ''epoch'' = JInt (lease_epoch d)"
    "fld (fld d ''lease'') ''fencing_token'' = JInt (lease_fence d)"
  using valid_doc_high_water(1) [OF assms, of "(''lease'', ''epoch'')"]
    valid_doc_high_water(1) [OF assms, of "(''lease'', ''fencing_token'')"]
  by (simp_all add: HIGH_WATERS_def lease_epoch_def lease_fence_def)

lemma dec_norm_inj: "dec_norm m 0 = dec_norm n 0 \<longleftrightarrow> m = n"
proof
  have val: "dec_norm m e = JDec m' e' \<Longrightarrow> of_int m * rpow 10 e = (of_int m' * rpow 10 e' :: rat)" for m e m' e'
  proof (induction m e arbitrary: m' e' rule: dec_norm.induct)
    case (1 m e)
    show ?case
    proof (cases "m = 0 \<or> m mod 10 \<noteq> 0")
      case True
      then show ?thesis using "1.prems" by (subst (asm) dec_norm.simps) (auto split: if_splits)
    next
      case False
      then have "dec_norm (m div 10) (e + 1) = JDec m' e'"
        using "1.prems" by (subst (asm) dec_norm.simps) simp
      then have "of_int (m div 10) * rpow 10 (e + 1) = (of_int m' * rpow 10 e' :: rat)"
        using False "1.IH" by simp
      moreover have "rpow 10 (e + 1) = (10 * rpow 10 e :: rat)"
      proof (cases "0 \<le> e")
        case True
        then show ?thesis by (simp add: rpow_def nat_add_distrib)
      next
        case neg: False
        then have "nat (- e) = Suc (nat (- (e + 1)))" by simp
        then show ?thesis using neg by (cases "e = - 1") (simp_all add: rpow_def)
      qed
      moreover have "of_int m = (of_int (m div 10) * 10 :: rat)"
        using False by (metis dvd_div_mult_self mod_eq_0_iff_dvd of_int_mult of_int_numeral)
      ultimately show ?thesis by simp
    qed
  qed
  assume eq: "dec_norm m 0 = dec_norm n 0"
  obtain m' e' where d: "dec_norm m 0 = JDec m' e'" using dec_norm_is_dec by blast
  from val [OF d] val [of n 0, OF d [unfolded eq]] have "(of_int m :: rat) = of_int n" by simp
  then show "m = n" by simp
qed simp

lemma jeq_JInt [simp]: "jeq (JInt m) (JInt n) \<longleftrightarrow> m = n"
  by (simp add: jeq_def dec_norm_inj)

lemma assert_state_token_Inr:
  assumes "assert_state_token scope d t now expired renewed = Inr ()"
  shows "fld (fld d ''lease'') ''owner_id'' = JStr (lt_owner_id t)"
    "jeq (fld (fld d ''lease'') ''epoch'') (JInt (lt_epoch t))"
    "jeq (fld (fld d ''lease'') ''fencing_token'') (JInt (lt_fencing_token t))"
    "fld (fld d ''lease'') ''instance_id'' = JStr (lt_instance_id t)"
    "fld (fld d ''lease'') ''scope'' = JStr scope"
    "\<exists>expiry. lease_expiry (fld d ''lease'') = Inr expiry \<and> (expired \<or> now < expiry)"
    "\<not> renewed \<Longrightarrow> fld (fld d ''lease'') ''lease_expires_at'' = JStr (lt_lease_expires_at t)"
  using assms by (auto simp: assert_state_token_def Let_def rbind_Inr_iff split: if_splits)

lemma token_accepted_epoch:
  assumes "token_accepted scope d t"
  shows "lt_epoch t = lease_epoch d" "lt_fencing_token t = lease_fence d"
  using assms assert_state_token_Inr(2,3) [of scope d t] lease_ints [of scope d]
  by (fastforce simp: token_accepted_def)+

lemma grows_high_water:
  assumes "grows d d'"
  shows "lease_epoch d \<le> lease_epoch d'" "lease_fence d \<le> lease_fence d'"
  using assms by (simp_all add: grows_def HIGH_WATERS_def lease_epoch_def lease_fence_def)

interpretation by_epoch: fenced "token_accepted scope" lease_epoch lt_epoch grows for scope
  by unfold_locales (simp_all add: token_accepted_epoch grows_high_water)

interpretation by_fence: fenced "token_accepted scope" lease_fence lt_fencing_token grows for scope
  by unfold_locales (simp_all add: token_accepted_epoch grows_high_water)

section \<open>Acquire\<close>

lemma dupdate_lease:
  "dupdate l [(''scope'', a), (''owner_id'', b), (''epoch'', c), (''fencing_token'', f),
     (''lease_expires_at'', x), (''instance_id'', i)] =
   dset (dset (dset (dset (dset (dset l ''scope'' a) ''owner_id'' b) ''epoch'' c) ''fencing_token'' f)
     ''lease_expires_at'' x) ''instance_id'' i"
  by simp

lemma acquire_writer_ok:
  assumes "valid_doc scope d" and "acquire_writer scope w0 now x i d = Inr (t, d')"
  shows "t = \<lparr>lt_scope = scope, lt_owner_id = w0, lt_epoch = lease_epoch d + 1,
      lt_fencing_token = lease_fence d + 1, lt_lease_expires_at = x, lt_instance_id = i\<rparr>"
    "fld (fld d' ''lease'') ''owner_id'' = JStr w0" "fld (fld d' ''lease'') ''epoch'' = JInt (lease_epoch d + 1)"
    "fld (fld d' ''lease'') ''fencing_token'' = JInt (lease_fence d + 1)"
    "fld (fld d' ''lease'') ''lease_expires_at'' = JStr x" "fld (fld d' ''lease'') ''instance_id'' = JStr i"
    "fld (fld d' ''lease'') ''scope'' = JStr scope"
    "\<exists>old. parse_timestamp (fld (fld d ''lease'') ''lease_expires_at'') = Inr old \<and>
      (truthy (fld (fld d ''lease'') ''owner_id'') \<longrightarrow> old \<le> now)"
    "k \<noteq> ''lease'' \<Longrightarrow> fld d' k = fld d k"
proof -
  have g: "get_or (fld d ''lease'') k v = fld (fld d ''lease'') k"
    if "fld (fld d ''lease'') k \<noteq> JNull" for k v
    using fld_not_null [OF that] by (simp add: get_or_def)
  have e: "get_or (fld d ''lease'') ''epoch'' (JInt 0) = JInt (lease_epoch d)"
      "get_or (fld d ''lease'') ''fencing_token'' (JInt 0) = JInt (lease_fence d)"
    using lease_ints [OF assms(1)] by (auto simp: g)
  have x: "get_or (fld d ''lease'') ''lease_expires_at'' (JStr EPOCH_TIMESTAMP)
      = fld (fld d ''lease'') ''lease_expires_at''"
    using valid_doc_lease(3) [OF assms(1)] by (intro g) auto
  have w: "truthy (get_or (fld d ''lease'') ''owner_id'' (JStr [])) = truthy (fld (fld d ''lease'') ''owner_id'')"
    by (simp add: fld_def get_or_def split: option.splits)
  note facts = assms(2) [unfolded acquire_writer_def Let_def dupdate_lease e x w int_or_raise_def]
  show "t = \<lparr>lt_scope = scope, lt_owner_id = w0, lt_epoch = lease_epoch d + 1,
      lt_fencing_token = lease_fence d + 1, lt_lease_expires_at = x, lt_instance_id = i\<rparr>"
    "fld (fld d' ''lease'') ''owner_id'' = JStr w0" "fld (fld d' ''lease'') ''epoch'' = JInt (lease_epoch d + 1)"
    "fld (fld d' ''lease'') ''fencing_token'' = JInt (lease_fence d + 1)"
    "fld (fld d' ''lease'') ''lease_expires_at'' = JStr x" "fld (fld d' ''lease'') ''instance_id'' = JStr i"
    "fld (fld d' ''lease'') ''scope'' = JStr scope"
    "\<exists>old. parse_timestamp (fld (fld d ''lease'') ''lease_expires_at'') = Inr old \<and>
      (truthy (fld (fld d ''lease'') ''owner_id'') \<longrightarrow> old \<le> now)"
    "k \<noteq> ''lease'' \<Longrightarrow> fld d' k = fld d k"
    using facts by (auto simp: rbind_Inr_iff py_int_def doc_simps split: if_splits)
qed

end
