(* ===== verification/Fencing_Laws.thy ===== *)
theory Fencing_Laws
  imports Fencing_Facts Repository_Laws
begin

text \<open>
  The properties of the lease and the fencing tokens, each with a concrete use.
\<close>

section \<open>Helpers\<close>

lemma scope_truncate [simp]:
  "e_scope (env.truncate e) = e_scope e" "e_path (env.truncate e) = e_path e"
  "e_clock (env.truncate e) = e_clock e" "e_lock (env.truncate e) = e_lock e"
  "e_write (env.truncate e) = e_write e" "e_others (env.truncate e) = e_others e"
  by (simp_all add: env.truncate_def)

lemma next_tick_Inr: "next_tick s = (Inr n, s') \<longleftrightarrow> n = r_tick s \<and> s' = s\<lparr>r_tick := Suc (r_tick s)\<rparr>"
  by (auto simp: next_tick_def)

text \<open>A clock reading that returned has moved the high-water mark and nothing of the repository.\<close>

lemma lease_clock_Inr:
  assumes "lease_clock e t s = (Inr cur, s')"
  shows "f_last_now s' = Some cur" "\<not> f_rollback s" "\<not> f_rollback s'" "f_token s' = f_token s"
    "repo_part s' = repo_part s" "f_last_now s = Some l \<Longrightarrow> l \<le> cur" "t = Some v \<Longrightarrow> cur = v"
  using assms
  by (auto simp: lease_clock_def clock_reading_def utc_now_def abind_Inr_iff next_tick_Inr repo_part_def
      split: option.splits if_splits)

lemma repo_part_fields:
  "repo_part s = repo_part t \<Longrightarrow> r_mem s = r_mem t \<and> r_available s = r_available t \<and>
    r_initialized s = r_initialized t \<and> r_disk s = r_disk t"
  by (simp add: repo_part_def)

lemma token_update [simp]: "repo_part (s\<lparr>f_token := x\<rparr>) = repo_part s" "r_mem (s\<lparr>f_token := x\<rparr>) = r_mem s"
  by (simp_all add: repo_part_def)

lemma mutate_keeps_fencer:
  assumes "mutate e (\<lambda>d. alift (g d)) ex s = (r, s')"
  shows "f_token (s' :: 'z fencer_scheme) = f_token s \<and> f_last_now s' = f_last_now s \<and> f_rollback s' = f_rollback s"
proof -
  have p: "f_token t = f_token s \<and> f_last_now t = f_last_now s \<and> f_rollback t = f_rollback s"
    if "persist e st s = (x, t)" for st x and s t :: "'z fencer_scheme"
    using that by (cases "sealed (e_scope e) (r_mem s) st"; cases "e_path e"; cases "e_write e (r_tick s)")
      (auto simp: persist_def abind_def next_tick_def)
  have l: "f_token t = f_token s \<and> f_last_now t = f_last_now s \<and> f_rollback t = f_rollback s"
    if "mutate_locked e (\<lambda>d. alift (g d)) ex s = (x, t)" for x and s t :: "'z fencer_scheme"
    using that unfolding mutate_locked_def
    by (auto simp: refresh_from_disk_def aguard_def Let_def elim!: abind_cases split: sum.splits if_splits prod.splits
        dest!: p)
  show ?thesis
    using assms unfolding mutate_def
  proof (cases rule: abind_cases)
    case (raised x)
    then show ?thesis by (auto simp: require_available_def aguard_def split: if_splits)
  next
    case (went u s1)
    then have "s1 = s" by (simp add: require_available_Inr)
    then show ?thesis
      using went(2) l [of s] l [of "s\<lparr>r_tick := Suc (r_tick s), r_disk := e_others e (r_tick s) (r_disk s)\<rparr>"]
      by (auto simp: file_guard_def next_tick_def aguard_def acatch_def abind_def
          split: if_splits prod.splits sum.splits)
  qed
qed

section \<open>Acquiring the lease\<close>

lemma acquire_ok:
  assumes a: "acquire e w now (s :: 'z fencer_scheme) = (Inr tok, s')" and sc: "fe_scope e = e_scope e"
    and v: "valid_doc (e_scope e) (r_mem s)"
  obtains d cur n and t :: "'z fencer_scheme" where "repo_part t = repo_part s" "current_doc (env.truncate e) t = Inr d"
    "valid_doc (e_scope e) d" "valid_doc (e_scope e) (r_mem s')" "grows d (r_mem s')"
    "tok = \<lparr>lt_scope = e_scope e, lt_owner_id = w, lt_epoch = lease_epoch d + 1,
      lt_fencing_token = lease_fence d + 1, lt_lease_expires_at = format_utc (cur + fe_lease_us e),
      lt_instance_id = ''leader-instance-'' @ e_uuid e n\<rparr>"
    "\<exists>old. parse_timestamp (fld (fld d ''lease'') ''lease_expires_at'') = Inr old \<and>
      (truthy (fld (fld d ''lease'') ''owner_id'') \<longrightarrow> old \<le> cur)"
    "fld (fld (r_mem s') ''lease'') ''owner_id'' = JStr w"
    "fld (fld (r_mem s') ''lease'') ''epoch'' = JInt (lt_epoch tok)"
    "fld (fld (r_mem s') ''lease'') ''fencing_token'' = JInt (lt_fencing_token tok)"
    "fld (fld (r_mem s') ''lease'') ''lease_expires_at'' = JStr (lt_lease_expires_at tok)"
    "fld (fld (r_mem s') ''lease'') ''instance_id'' = JStr (lt_instance_id tok)"
    "f_token s' = Some tok" "f_last_now s' = Some cur" "\<And>x. now = Some x \<Longrightarrow> cur = x"
proof -
  obtain cur s1 n t s2 doc where c: "lease_clock e now s = (Inr cur, s1)"
    and t: "t = s1\<lparr>r_tick := Suc (r_tick s1)\<rparr>" "n = r_tick s1"
    and m: "mutate (env.truncate e) (\<lambda>state. alift (acquire_writer (e_scope e) w cur
        (format_utc (cur + fe_lease_us e)) (''leader-instance-'' @ e_uuid e n) state)) None t = (Inr (tok, doc), s2)"
    and s': "s' = s2\<lparr>f_token := Some tok\<rparr>"
    using a sc by (auto simp: acquire_def abind_Inr_iff Let_def next_tick_Inr validator_iffs split: prod.splits)
  note clk = lease_clock_Inr [OF c]
  have part: "repo_part t = repo_part s" using clk(5) by (simp add: t repo_part_def)
  have vt: "valid_doc (e_scope (env.truncate e)) (r_mem t)" using v repo_part_fields [OF part] by simp
  from m obtain d cand where d: "current_doc (env.truncate e) t = Inr d"
    and f: "acquire_writer (e_scope e) w cur (format_utc (cur + fe_lease_us e))
      (''leader-instance-'' @ e_uuid e n) d = Inr (tok, cand)"
    and doc: "doc = dset cand ''state_version'' (JInt (version_of d + 1))"
    and sl: "sealed (e_scope (env.truncate e)) d doc = Inr (r_mem s2)"
    by (rule mutate_ok) auto
  obtain d0 where "current_doc (env.truncate e) t = Inr d0" "valid_doc (e_scope e) d0"
    "valid_doc (e_scope e) (r_mem s2)" "grows d0 (r_mem s2)"
    using mutate_successor [OF m _ vt] by auto
  then have g: "valid_doc (e_scope e) d" "valid_doc (e_scope e) (r_mem s2)" "grows d (r_mem s2)"
    using d by simp_all
  have lease: "fld (r_mem s2) ''lease'' = fld cand ''lease''"
    using sealed_Inr(3) [OF sl, of "''lease''"] by (simp add: doc doc_simps)
  note w = acquire_writer_ok [OF g(1) f]
  show thesis
    by (rule that [OF part d g(1) _ _ w(1,8)])
      (use g w lease clk mutate_keeps_fencer [OF m] in \<open>auto simp: s' t(1)\<close>)
qed

lemma accepted_until_expiry:
  assumes "valid_doc scope d" and "fld (fld d ''lease'') ''owner_id'' = JStr (lt_owner_id tok)"
    "fld (fld d ''lease'') ''epoch'' = JInt (lt_epoch tok)"
    "fld (fld d ''lease'') ''fencing_token'' = JInt (lt_fencing_token tok)"
    "fld (fld d ''lease'') ''lease_expires_at'' = JStr (format_utc x)"
    "fld (fld d ''lease'') ''instance_id'' = JStr (lt_instance_id tok)"
    "lt_lease_expires_at tok = format_utc x" and "in_calendar x"
  shows "assert_state_token scope d tok now False renewed
    = (if now < x then Inr () else raise FencingError ''fencing lease is expired'')"
proof -
  have sc: "fld (fld d ''lease'') ''scope'' = JStr scope" "is_obj (fld d ''lease'')"
    using valid_doc_shape [OF assms(1)] by simp_all
  have ex: "lease_expiry (fld d ''lease'') = Inr x"
    using assms(5,8) timestamp_of_format [of x]
    by (simp add: lease_expiry_def parse_timestamp_def get_or_def fld_def split: option.splits)
  have ts: "parse_timestamp (JStr (format_utc x)) = Inr x"
    using timestamp_of_format [OF assms(8)] by (simp add: parse_timestamp_def)
  show ?thesis
    using assms(2-7) by (simp add: assert_state_token_def Let_def sc ex ts rguard_def raise_def)
qed

definition ex_fenv :: fenv where
  "ex_fenv = env.extend ex_env \<lparr>fe_scope = ''account:test'', fe_lease_us = 15000000\<rparr>"

definition ex_fencer :: fencer where
  "ex_fencer = repo.extend ex_repo \<lparr>f_last_now = None, f_rollback = False, f_token = None\<rparr>"

lemma ex_fenv_simps [simp]:
  "env.truncate ex_fenv = ex_env" "fe_scope ex_fenv = ''account:test''" "e_scope ex_fenv = ''account:test''"
  "fe_lease_us ex_fenv = 15000000" "e_path ex_fenv = False" "e_clock ex_fenv n = 0"
  "e_uuid ex_fenv n = ''0123456789abcdef01234567''"
  by (simp_all add: ex_fenv_def ex_env_def env.extend_def env.truncate_def)

lemma ex_fencer_simps [simp]:
  "r_mem ex_fencer = initial_state ''account:test''" "r_available ex_fencer" "\<not> r_initialized ex_fencer"
  "r_disk ex_fencer = NoFile" "f_last_now ex_fencer = None" "\<not> f_rollback ex_fencer" "f_token ex_fencer = None"
  "r_tick ex_fencer = 0"
  by (simp_all add: ex_fencer_def ex_repo_def repo.extend_def)

lemma initial_lease:
  "fld (initial_state scope) ''lease'' = JObj [(''scope'', JStr scope), (''owner_id'', JStr []), (''epoch'', JInt 0),
     (''fencing_token'', JInt 0), (''lease_expires_at'', JStr EPOCH_TIMESTAMP), (''instance_id'', JStr [])]"
  by (simp add: initial_state_def doc_simps) (simp add: initial_body_def read_JObj)

definition ex_lease :: "string \<Rightarrow> string \<Rightarrow> json" where
  "ex_lease w i = JObj [(''scope'', JStr ''account:test''), (''owner_id'', JStr w), (''epoch'', JInt 1),
     (''fencing_token'', JInt 1), (''lease_expires_at'', JStr (format_utc 15000000)), (''instance_id'', JStr i)]"

lemma ex_writer:
  "acquire_writer ''account:test'' w 0 (format_utc 15000000) i (initial_state ''account:test'')
    = Inr (\<lparr>lt_scope = ''account:test'', lt_owner_id = w, lt_epoch = 1, lt_fencing_token = 1,
        lt_lease_expires_at = format_utc 15000000, lt_instance_id = i\<rparr>,
      dset (initial_state ''account:test'') ''lease'' (ex_lease w i))"
  by (simp add: acquire_writer_def initial_lease read_JObj parse_timestamp_def timestamp_of_epoch
      int_or_raise_def py_int_def Let_def ex_lease_def dset_def [of "JObj xs" for xs])

lemma lease_append_only:
  assumes d: "valid_doc scope d" "wf_json d" and e: "fld l ''epoch'' = JInt m" "lease_epoch d \<le> m"
    and f: "fld l ''fencing_token'' = JInt n" "lease_fence d \<le> n"
  shows "assert_append_only d (dset d ''lease'' l) = Inr ()"
proof (rule append_only_intro [OF d])
  show "\<exists>k. fld (fld (dset d ''lease'' l) (fst sf)) (snd sf) = JInt k \<and> high_water d sf \<le> k"
    if "sf \<in> set HIGH_WATERS" for sf
    using that e f valid_doc_high_water(1) [OF d(1) that]
    by (auto simp: HIGH_WATERS_def doc_simps lease_epoch_def lease_fence_def)
qed (auto simp: doc_simps dget_Some_fld)

lemma in_calendar_15s: "in_calendar 15000000"
  by (simp add: in_calendar_def day_micros_def epoch_day_def max_day_def)

lemma ex_acquire_runs:
  assumes "IDENTIFIER_RE w"
  shows "\<exists>tok s'. acquire ex_fenv w (Some 0) ex_fencer = (Inr tok, s')"
proof -
  let ?i = "''leader-instance-0123456789abcdef01234567''"
  let ?g = "acquire_writer ''account:test'' w 0 (format_utc 15000000) ?i"
  let ?s = "ex_fencer\<lparr>f_last_now := Some 0, r_tick := Suc 0\<rparr>"
  let ?d = "initial_state ''account:test''"
  note v = initial_state_valid [of "''account:test''"] initial_state_wf [of "''account:test''"]
  have i: "IDENTIFIER_RE ?i"
    by (simp add: IDENTIFIER_RE_def id_shape_def id_rest_char_def is_alnum_char_def is_digit_char_def
        is_upper_char_def is_lower_char_def char_between_def char_le_of_char)
  have u: "UTC_RE (format_utc 15000000)"
    using utc_text_parses(1) [OF in_calendar_15s] by (simp add: UTC_RE_def format_utc_def)
  have "\<exists>d s'. mutate ex_env (\<lambda>d. alift (?g d)) None ?s =
      (Inr (\<lparr>lt_scope = ''account:test'', lt_owner_id = w, lt_epoch = 1, lt_fencing_token = 1,
        lt_lease_expires_at = format_utc 15000000, lt_instance_id = ?i\<rparr>, d), s')"
  proof (rule mutate_runs)
    show "current_doc ex_env ?s = Inr ?d" by (simp add: current_doc_def refreshed_def ex_env_def)
    show "?g ?d = Inr (\<lparr>lt_scope = ''account:test'', lt_owner_id = w, lt_epoch = 1, lt_fencing_token = 1,
        lt_lease_expires_at = format_utc 15000000, lt_instance_id = ?i\<rparr>, dset ?d ''lease'' (ex_lease w ?i))"
      by (rule ex_writer)
    show "assert_append_only ?d (dset ?d ''lease'' (ex_lease w ?i)) = Inr ()"
      by (rule lease_append_only [OF v, where m = 1 and n = 1])
        (simp_all add: ex_lease_def read_JObj lease_epoch_def lease_fence_def high_water_def initial_lease)
    show "check_document (dset ?d ''lease'' (ex_lease w ?i)) (e_scope ex_env) = Inr ()"
      using v(1) assms i u
      by (intro document_with_lease)
        (simp_all add: valid_doc_iff ex_env_def ex_lease_def check_lease_def Let_def read_JObj keys_are_def
          LEASE_FIELDS_def)
    show "finite_json (dset ?d ''lease'' (ex_lease w ?i))"
      by (simp add: ex_lease_def initial_state_def initial_body_def authority_as_dict_def plan_as_dict_def
          reconciliation_as_dict_def broker_as_dict_def default_broker_def)
  qed (use v in \<open>simp_all add: ex_env_def\<close>)
  then show ?thesis
    using assms
    by (auto simp: acquire_def abind_def lease_clock_def clock_reading_def next_tick_def Let_def
        validate_identifier_def)
qed

lemma ex_leader_id [simp]: "IDENTIFIER_RE ''leader-0001''" "IDENTIFIER_RE ''leader-0002''"
  by (simp_all add: IDENTIFIER_RE_def id_shape_def id_rest_char_def is_alnum_char_def is_digit_char_def
      is_upper_char_def is_lower_char_def char_between_def char_le_of_char)

text \<open>
  C13: a leader that acquires the lease gets the next epoch and the next fencing token, only when
  the lease it found was free or had expired by its clock, and its token is accepted against the
  document it installed exactly until the lease runs out.
\<close>

theorem acquire_takes_over_expired_lease:
  assumes "acquire e w now (s :: 'z fencer_scheme) = (Inr tok, s')" and "fe_scope e = e_scope e"
    and "valid_doc (e_scope e) (r_mem s)"
  shows "\<exists>d cur (t :: 'z fencer_scheme). repo_part t = repo_part s \<and> current_doc (env.truncate e) t = Inr d \<and>
    lt_epoch tok = lease_epoch d + 1 \<and> lt_fencing_token tok = lease_fence d + 1 \<and>
    (\<exists>old. parse_timestamp (fld (fld d ''lease'') ''lease_expires_at'') = Inr old \<and>
      (truthy (fld (fld d ''lease'') ''owner_id'') \<longrightarrow> old \<le> cur)) \<and>
    (now = Some cur \<or> now = None) \<and>
    (in_calendar (cur + fe_lease_us e) \<longrightarrow>
      (\<forall>moment renewed. assert_state_token (e_scope e) (r_mem s') tok moment False renewed
        = (if moment < cur + fe_lease_us e then Inr () else raise FencingError ''fencing lease is expired'')))"
  using assms
proof (rule acquire_ok)
  fix d cur n and t :: "'z fencer_scheme"
  assume part: "repo_part t = repo_part s" "current_doc (env.truncate e) t = Inr d"
    and v: "valid_doc (e_scope e) (r_mem s')"
    and tok: "tok = \<lparr>lt_scope = e_scope e, lt_owner_id = w, lt_epoch = lease_epoch d + 1,
      lt_fencing_token = lease_fence d + 1, lt_lease_expires_at = format_utc (cur + fe_lease_us e),
      lt_instance_id = ''leader-instance-'' @ e_uuid e n\<rparr>"
    and old: "\<exists>old. parse_timestamp (fld (fld d ''lease'') ''lease_expires_at'') = Inr old \<and>
      (truthy (fld (fld d ''lease'') ''owner_id'') \<longrightarrow> old \<le> cur)"
    and l: "fld (fld (r_mem s') ''lease'') ''owner_id'' = JStr w"
    "fld (fld (r_mem s') ''lease'') ''epoch'' = JInt (lt_epoch tok)"
    "fld (fld (r_mem s') ''lease'') ''fencing_token'' = JInt (lt_fencing_token tok)"
    "fld (fld (r_mem s') ''lease'') ''lease_expires_at'' = JStr (lt_lease_expires_at tok)"
    "fld (fld (r_mem s') ''lease'') ''instance_id'' = JStr (lt_instance_id tok)"
    and clk: "\<And>x. now = Some x \<Longrightarrow> cur = x"
  have "assert_state_token (e_scope e) (r_mem s') tok moment False renewed
        = (if moment < cur + fe_lease_us e then Inr () else raise FencingError ''fencing lease is expired'')"
    if "in_calendar (cur + fe_lease_us e)" for moment renewed
    by (rule accepted_until_expiry [OF v]) (use l tok that in auto)
  moreover have "now = Some cur \<or> now = None" using clk by (cases now) auto
  ultimately show ?thesis using part old tok by (intro exI [of _ d] exI [of _ cur] exI [of _ t]) auto
qed

lemma acquire_takes_over_expired_lease_witness:
  "\<exists>tok (s' :: fencer). acquire ex_fenv ''leader-0001'' (Some 0) ex_fencer = (Inr tok, s') \<and>
    lt_epoch tok = 1 \<and> assert_state_token ''account:test'' (r_mem s') tok 14999999 False False = Inr () \<and>
    assert_state_token ''account:test'' (r_mem s') tok 15000000 False False
      = raise FencingError ''fencing lease is expired''"
proof -
  obtain tok s' where a: "acquire ex_fenv ''leader-0001'' (Some 0) ex_fencer = (Inr tok, s')"
    using ex_acquire_runs by fastforce
  from acquire_takes_over_expired_lease [OF a] initial_state_valid [of "''account:test''"]
  obtain d t where "repo_part (t :: fencer) = repo_part ex_fencer" "current_doc ex_env t = Inr d"
    and tok: "lt_epoch tok = lease_epoch d + 1"
    "\<forall>moment renewed. assert_state_token ''account:test'' (r_mem s') tok moment False renewed
        = (if moment < 15000000 then Inr () else raise FencingError ''fencing lease is expired'')"
    using in_calendar_15s by auto
  then have "d = initial_state ''account:test''"
    using repo_part_fields [of t ex_fencer] by (simp add: current_doc_def refreshed_def ex_env_def)
  then have "lt_epoch tok = 1"
    using tok(1) by (simp add: lease_epoch_def high_water_def initial_lease read_JObj)
  with a tok(2) show ?thesis by auto
qed

text \<open>
  C12: a token that was accepted against some document is never accepted again, by any process, at
  any time and in any mode, once the history has reached a document with a higher epoch.
\<close>

theorem superseded_token_is_dead:
  assumes "good_doc scope d0" and "assert_state_token scope d0 old now0 expired0 renewed0 = Inr ()"
    and "(successor scope)\<^sup>*\<^sup>* d0 d1" and "lease_epoch d0 < lease_epoch d1"
    and "(successor scope)\<^sup>*\<^sup>* d1 d'"
  shows "assert_state_token scope d' old now expired renewed \<noteq> Inr ()"
proof -
  have d1: "good_doc scope d1" using chain.run_ok [OF assms(3,1)] by simp
  have d': "good_doc scope d'" "grows d1 d'" using chain.run_ok [OF assms(5) d1] by simp_all
  have "token_accepted scope d0 old" using assms(1,2) by (auto simp: token_accepted_def good_doc_def)
  then have "lt_epoch old = lease_epoch d0" by (rule token_accepted_epoch)
  then have "\<not> token_accepted scope d' old" using assms(4) d'(2) by (intro by_epoch.superseded) auto
  then show ?thesis using d'(1) by (auto simp: token_accepted_def good_doc_def)
qed

lemma successor_with_lease:
  assumes d: "good_doc scope d" "finite_json d" and l: "check_lease l = Inr ()" "is_obj l" "wf_json l" "finite_json l"
    "fld l ''scope'' = JStr scope" "fld l ''epoch'' = JInt m" "lease_epoch d \<le> m"
    "fld l ''fencing_token'' = JInt n" "lease_fence d \<le> n"
  shows "\<exists>d'. successor scope d d' \<and> finite_json d' \<and> fld d' ''lease'' = canon l"
proof -
  have v: "valid_doc scope d" "wf_json d" using d(1) by (simp_all add: good_doc_def)
  have n: "0 \<le> version_of d + 1"
    using valid_doc_shape(3) [OF v(1)] by (auto simp: version_of_def dest!: int_at_leastE)
  let ?c = "dset d ''lease'' l"
  have "check_document ?c scope = Inr ()"
    using v(1) l by (intro document_with_lease) (simp_all add: valid_doc_iff)
  from sealed_reseal [OF v(1) this _ n] d(2) l(4) obtain h' where
    w: "sealed scope d (dset ?c ''state_version'' (JInt (version_of d + 1)))
      = Inr (reseal ?c (version_of d + 1) (the_str (fld d ''state_hash'')) h')"
    by auto
  let ?w = "reseal ?c (version_of d + 1) (the_str (fld d ''state_hash'')) h'"
  have "successor scope d (canon ?w)"
    using lease_append_only [OF v l(6,7,8,9)] v(2) l(3) w unfolding successor_def
    by (intro exI [of _ ?c] exI [of _ ?w]) auto
  moreover have "wf_json ?w" using v(2) l(3) by (simp add: reseal_def)
  moreover have "finite_json (canon ?w)" using d(2) l(4) by (simp add: reseal_def)
  ultimately show ?thesis by (intro exI [of _ "canon ?w"]) (simp add: fld_canon doc_simps)
qed

definition ex_lease_of :: "int \<Rightarrow> int \<Rightarrow> json" where
  "ex_lease_of k x = JObj [(''scope'', JStr ''account:test''), (''owner_id'', JStr ''leader-0001''), (''epoch'', JInt k),
     (''fencing_token'', JInt k), (''lease_expires_at'', JStr (format_utc x)), (''instance_id'', JStr ''leader-0002'')]"

lemma ex_lease_of_ok:
  assumes "0 \<le> k" "in_calendar x"
  shows "check_lease (ex_lease_of k x) = Inr ()" "wf_json (ex_lease_of k x)" "finite_json (ex_lease_of k x)"
    "is_obj (ex_lease_of k x)"
  using utc_text_parses(1) [OF assms(2)] assms(1)
  by (simp_all add: ex_lease_of_def check_lease_def Let_def read_JObj keys_are_def LEASE_FIELDS_def UTC_RE_def
      format_utc_def)

lemma ex_lease_of_wf: "wf_json (ex_lease_of k x)"
  by (simp add: ex_lease_of_def)

lemma canon_ex_lease: "fld (canon (ex_lease_of k x)) f = fld (ex_lease_of k x) f"
  by (simp add: fld_canon [OF ex_lease_of_wf]) (simp add: ex_lease_of_def read_JObj)

lemma initial_finite: "finite_json (initial_state scope)"
  by (simp add: initial_state_def initial_body_def authority_as_dict_def plan_as_dict_def
      reconciliation_as_dict_def broker_as_dict_def default_broker_def)

definition ex_token :: leader_token where
  "ex_token = \<lparr>lt_scope = ''account:test'', lt_owner_id = ''leader-0001'', lt_epoch = 1, lt_fencing_token = 1,
     lt_lease_expires_at = format_utc 15000000, lt_instance_id = ''leader-0002''\<rparr>"

lemma ex_two_leaders:
  "\<exists>d0 d1. good_doc ''account:test'' d0 \<and> assert_state_token ''account:test'' d0 ex_token 0 False False = Inr () \<and>
    successor ''account:test'' d0 d1 \<and> lease_epoch d0 < lease_epoch d1"
proof -
  have init: "lease_epoch (initial_state ''account:test'') = 0" "lease_fence (initial_state ''account:test'') = 0"
    by (simp_all add: lease_epoch_def lease_fence_def high_water_def initial_lease read_JObj)
  note l1 = ex_lease_of_ok [of 1 15000000] and l2 = ex_lease_of_ok [of 2 15000000]
  have e: "fld (ex_lease_of k x) ''epoch'' = JInt k" "fld (ex_lease_of k x) ''fencing_token'' = JInt k"
    "fld (ex_lease_of k x) ''scope'' = JStr ''account:test''" for k x
    by (simp_all add: ex_lease_of_def read_JObj)
  obtain d0 where d0: "successor ''account:test'' (initial_state ''account:test'') d0" "finite_json d0"
      "fld d0 ''lease'' = canon (ex_lease_of 1 15000000)"
    using successor_with_lease [OF good_initial initial_finite, of "ex_lease_of 1 15000000" "''account:test''" 1 1]
      l1 e init in_calendar_15s by auto
  have g0: "good_doc ''account:test'' d0" using successor_facts(1) [OF good_initial d0(1)] .
  have ep0: "lease_epoch d0 = 1" "lease_fence d0 = 1"
    by (simp_all add: lease_epoch_def lease_fence_def high_water_def d0(3) canon_ex_lease e)
  obtain d1 where d1: "successor ''account:test'' d0 d1" "fld d1 ''lease'' = canon (ex_lease_of 2 15000000)"
    using successor_with_lease [OF g0 d0(2), of "ex_lease_of 2 15000000" 2 2] l2 e ep0 in_calendar_15s by auto
  have "lease_epoch d1 = 2" by (simp add: lease_epoch_def high_water_def d1(2) canon_ex_lease e)
  moreover have "assert_state_token ''account:test'' d0 ex_token 0 False False = Inr ()"
    using accepted_until_expiry [of "''account:test''" d0 ex_token 15000000 0 False] g0 in_calendar_15s
    by (simp add: good_doc_def d0(3) canon_ex_lease) (simp add: ex_lease_of_def ex_token_def read_JObj)
  ultimately show ?thesis using g0 d1(1) ep0 by (intro exI [of _ d0] exI [of _ d1]) simp
qed

lemma superseded_token_is_dead_witness:
  "\<exists>d0 d1. assert_state_token ''account:test'' d0 ex_token 0 False False = Inr () \<and>
    successor ''account:test'' d0 d1 \<and> assert_state_token ''account:test'' d1 ex_token 0 False False \<noteq> Inr ()"
proof -
  obtain d0 d1 where d: "good_doc ''account:test'' d0" "assert_state_token ''account:test'' d0 ex_token 0 False False = Inr ()"
    "successor ''account:test'' d0 d1" "lease_epoch d0 < lease_epoch d1"
    using ex_two_leaders by blast
  have "(successor ''account:test'')\<^sup>*\<^sup>* d0 d1" using d(3) by (rule r_into_rtranclp)
  from superseded_token_is_dead [OF d(1,2) this d(4) rtranclp.rtrancl_refl] d show ?thesis by blast
qed

section \<open>The clock\<close>

definition latched :: "json \<Rightarrow> 'z fencer_scheme \<Rightarrow> bool" where
  "latched d s \<longleftrightarrow> f_rollback s \<and> r_mem s = d"

text \<open>From a latched fencer the computation cannot return.\<close>

abbreviation stuck :: "json \<Rightarrow> ('z, 'a) fop \<Rightarrow> bool" where
  "stuck d m \<equiv> triple (latched d) m (\<lambda>_ _. False) (\<lambda>_. latched d)"

lemma stuck_clock: "stuck d (lease_clock e t)"
  by (rule tripleI)
    (auto simp: latched_def lease_clock_def clock_reading_def utc_now_def abind_def next_tick_def
      split: option.splits if_splits prod.splits sum.splits)

lemma stuck_clock_then: "stuck d (abind (lease_clock e t) f)"
  by (rule triple_bind [OF stuck_clock]) (simp add: triple_def)

lemma stuck_then: "keeps (latched d) m \<Longrightarrow> (\<And>x. stuck d (f x)) \<Longrightarrow> stuck d (abind m f)"
  by (rule triple_bind)

lemma keeps_pure: "keeps (latched d) (alift r)" "keeps (latched d) (own_token e t)" "stuck d (athrow x)"
  by (auto simp: triple_def own_token_def abind_def latched_def split: sum.splits)

lemma stuck_ops:
  "stuck d (acquire e w now)" "stuck d (renew e t now)" "stuck d (release e t now)"
  "stuck d (validate_token e t now)" "stuck d (planned_dispatch_admission e a b t now)"
  unfolding acquire_def renew_def release_def validate_token_def planned_dispatch_admission_def
  by (auto intro!: stuck_then stuck_clock_then keeps_pure simp: Let_def split: option.splits)

lemma stuck_admission: "stuck d (admission e a b t now)"
  unfolding admission_def
  by (auto intro!: keeps_pure triple_bind [OF stuck_ops(4)] simp: triple_def [of "\<lambda>_. False"] split: option.splits)

definition fencing_op :: "'e fenv_scheme \<Rightarrow> ('z, leader_token) fop \<Rightarrow> bool" where
  "fencing_op e m \<longleftrightarrow> (\<exists>w now. m = acquire e w now) \<or> (\<exists>t now. m = renew e t now) \<or>
     (\<exists>t now. m = release e t now) \<or> (\<exists>a b t now. m = admission e a b t now) \<or>
     (\<exists>a b t now. m = planned_dispatch_admission e a b t now)"

text \<open>
  C14: after one clock reading below an earlier one, the fencer admits nothing any more: acquire,
  renew, release and both admissions raise, whatever the clock says later, and the document in
  memory and the latch stay as they are.
\<close>

theorem clock_rollback_latches:
  assumes "current < l" and "f_last_now s = Some l"
  shows "\<exists>s'. lease_clock e (Some current) s
      = (Inl (Exn ClockRollbackError ''clock rollback detected; fencing is halted''), s') \<and>
    (\<forall>m. fencing_op e m \<longrightarrow> (\<exists>x s''. m s' = (Inl x, s'') \<and> f_rollback s'' \<and> r_mem s'' = r_mem s))"
proof -
  let ?s = "s\<lparr>f_rollback := True\<rparr>"
  have first: "lease_clock e (Some current) s
      = (Inl (Exn ClockRollbackError ''clock rollback detected; fencing is halted''), ?s)"
    using assms by (simp add: lease_clock_def clock_reading_def abind_def)
  have "\<exists>x s''. m ?s = (Inl x, s'') \<and> f_rollback s'' \<and> r_mem s'' = r_mem s" if "fencing_op e m" for m
  proof -
    have st: "stuck (r_mem s) m"
      using that unfolding fencing_op_def
      by (elim disjE exE) (simp_all only: stuck_ops stuck_admission)
    have l: "latched (r_mem s) ?s" by (simp add: latched_def)
    obtain r s'' where "m ?s = (r, s'')" by (cases "m ?s")
    then show ?thesis
      using triple_ok [OF st l] triple_err [OF st l] by (cases r) (auto simp: latched_def)
  qed
  with first show ?thesis by blast
qed

lemma clock_rollback_latches_witness:
  "\<exists>x s'. admission ex_fenv (Some 1) (Some 1) (TokenObj ex_token) (Some 99)
     (snd (lease_clock ex_fenv (Some 4) (ex_fencer\<lparr>f_last_now := Some 5\<rparr>))) = (Inl x, s')"
proof -
  let ?s = "ex_fencer\<lparr>f_last_now := Some 5\<rparr>"
  have "(4 :: int) < 5" "f_last_now ?s = Some 5" by simp_all
  from clock_rollback_latches [OF this, of ex_fenv] obtain s' where
    "lease_clock ex_fenv (Some 4) ?s = (Inl (Exn ClockRollbackError ''clock rollback detected; fencing is halted''), s')"
    "\<forall>m. fencing_op ex_fenv m \<longrightarrow> (\<exists>x s''. m s' = (Inl x, s'') \<and> f_rollback s'' \<and> r_mem s'' = r_mem ?s)"
    by blast
  moreover have "fencing_op ex_fenv (admission ex_fenv (Some 1) (Some 1) (TokenObj ex_token) (Some 99))"
    unfolding fencing_op_def by blast
  ultimately show ?thesis by fastforce
qed

end
