(* ===== verification/Position_Projection.thy ===== *)
theory Position_Projection
  imports Exec_Models "HOL-Library.Product_Lexorder"
begin

text \<open>
  The position projections of \<open>shared/commodity_execution/v1.py\<close>: what a target plan commits to about
  an account's positions, independent of the broker's row names, row order and other fields.
\<close>

section \<open>Shapes and texts\<close>

definition contract_error :: "string \<Rightarrow> 'a res" where
  "contract_error msg = raise CommodityExecutionContractError msg"

definition CONTRACT_ID_RE :: "string \<Rightarrow> bool" where
  "CONTRACT_ID_RE s = id_shape 7 s"

definition SYMBOL_RE :: "string \<Rightarrow> bool" where
  "SYMBOL_RE s \<longleftrightarrow>
     (case s of [] \<Rightarrow> False | c # cs \<Rightarrow>
        (is_upper_char c \<or> is_lower_char c) \<and> list_all is_alnum_char cs \<and> length cs \<le> 31)"

definition GATEWAY_NAME_RE :: "string \<Rightarrow> bool" where
  "GATEWAY_NAME_RE s \<longleftrightarrow> s = ''CTP'' \<or> id_shape 7 s"

definition EXCHANGES :: "string list" where
  "EXCHANGES = [''CFFEX'', ''CZCE'', ''DCE'', ''GFEX'', ''INE'', ''SHFE'']"

definition YD_AWARE_EXCHANGES :: "string list" where
  "YD_AWARE_EXCHANGES = [''INE'', ''SHFE'']"

definition contract_sha256_json :: "json \<Rightarrow> string res" where
  "contract_sha256_json v =
     (if finite_json v then Inr (json_hash v) else contract_error ''value is not canonical JSON'')"

definition projection_text :: "json \<Rightarrow> string \<Rightarrow> string res" where
  "projection_text value field =
     (if \<not> is_jstr value then contract_error (''target position '' @ field @ '' is invalid'')
      else let normalized = str_strip (the_str value)
           in if normalized = [] then contract_error (''target position '' @ field @ '' is invalid'')
              else Inr (str_upper normalized))"

definition projection_account_scope :: "json \<Rightarrow> string res" where
  "projection_account_scope value =
     (if \<not> is_jstr value then contract_error ''target position account_scope is invalid''
      else let normalized = str_strip (the_str value)
           in if CONTRACT_ID_RE normalized then Inr normalized
              else contract_error ''target position account_scope is invalid'')"

section \<open>Rows\<close>

text \<open>Gateway, symbol, exchange and direction.\<close>

type_synonym position_key = "string \<times> string \<times> string \<times> string"

definition key_exchange :: "position_key \<Rightarrow> string" where
  "key_exchange k = fst (snd (snd k))"

definition projection_position_fields :: "json \<Rightarrow> position_key res" where
  "projection_position_fields raw =
     rbind (projection_text (fld raw ''gateway_name'') ''gateway_name'') (\<lambda>gateway_name.
     rbind (projection_text (fld raw ''symbol'') ''symbol'') (\<lambda>symbol.
     rbind (projection_text (fld raw ''exchange'') ''exchange'') (\<lambda>exchange.
     rbind (projection_text (fld raw ''direction'') ''direction'') (\<lambda>direction.
     if GATEWAY_NAME_RE gateway_name \<and> SYMBOL_RE symbol \<and> exchange \<in> set EXCHANGES
       \<and> direction \<in> {''LONG'', ''SHORT''}
     then Inr (gateway_name, symbol, exchange, direction)
     else contract_error ''target position semantics are invalid''))))"

text \<open>A row with volume zero contributes nothing and its other fields are not looked at.\<close>

definition row_volume :: "string \<Rightarrow> json \<Rightarrow> int res" where
  "row_volume what raw =
     (if \<not> is_obj raw then contract_error (what @ '' position row is invalid'')
      else if \<not> int_at_least 0 (fld raw ''volume'')
      then contract_error (what @ '' position volume is invalid'')
      else Inr (the_int (fld raw ''volume'')))"

definition target_row :: "json \<Rightarrow> (position_key \<times> int) list res" where
  "target_row raw =
     rbind (row_volume ''target'' raw) (\<lambda>volume.
     if volume = 0 then Inr []
     else rbind (projection_position_fields raw) (\<lambda>key. Inr [(key, volume)]))"

definition before_row :: "json \<Rightarrow> (position_key \<times> int \<times> int option) list res" where
  "before_row raw =
     rbind (row_volume ''before'' raw) (\<lambda>volume.
     if volume = 0 then Inr []
     else rbind (projection_position_fields raw) (\<lambda>key.
       if key_exchange key \<notin> set YD_AWARE_EXCHANGES then Inr [(key, volume, None)]
       else let yd = fld raw ''yd_volume'' in
         if int_at_least 0 yd \<and> the_int yd \<le> volume then Inr [(key, volume, Some (the_int yd))]
         else contract_error ''before SHFE/INE position yd_volume is invalid''))"

section \<open>Aggregation\<close>

definition target_add ::
  "(position_key \<times> int) list \<Rightarrow> position_key \<times> int \<Rightarrow> (position_key \<times> int) list" where
  "target_add acc kv =
     AList.update (fst kv) ((case map_of acc (fst kv) of None \<Rightarrow> 0 | Some v \<Rightarrow> v) + snd kv) acc"

fun target_aggregates ::
  "(position_key \<times> int) list \<Rightarrow> (string \<times> json) list \<Rightarrow> (position_key \<times> int) list res" where
  "target_aggregates acc [] = Inr acc"
| "target_aggregates acc ((row_key, raw) # rows) =
     rbind (target_row raw) (\<lambda>kvs. target_aggregates (foldl target_add acc kvs) rows)"

type_synonym before_entry = "position_key \<times> int \<times> int option"

definition before_add :: "before_entry list \<Rightarrow> before_entry \<Rightarrow> before_entry list res" where
  "before_add acc kv =
     (let (key, volume, yd) = kv;
          (prior, prior_yd) = (case map_of acc key of
             None \<Rightarrow> (0, if key_exchange key \<in> set YD_AWARE_EXCHANGES then Some 0 else None)
           | Some v \<Rightarrow> v)
      in if prior_yd = None \<and> yd \<noteq> None then contract_error ''before position yd_volume is invalid''
         else Inr (AList.update key (prior + volume,
             case yd of None \<Rightarrow> None
             | Some y \<Rightarrow> Some ((case prior_yd of None \<Rightarrow> 0 | Some p \<Rightarrow> p) + y)) acc))"

fun before_aggregates :: "before_entry list \<Rightarrow> (string \<times> json) list \<Rightarrow> before_entry list res" where
  "before_aggregates acc [] = Inr acc"
| "before_aggregates acc ((row_key, raw) # rows) =
     rbind (before_row raw) (\<lambda>kvs.
     rbind (case kvs of [] \<Rightarrow> Inr acc | kv # _ \<Rightarrow> before_add acc kv) (\<lambda>acc'.
     before_aggregates acc' rows))"

section \<open>The projections and their hashes\<close>

definition position_columns :: "position_key \<Rightarrow> int \<Rightarrow> (string \<times> json) list" where
  "position_columns key volume =
     (let (gateway_name, symbol, exchange, direction) = key in
      [(''gateway_name'', JStr gateway_name), (''symbol'', JStr symbol), (''exchange'', JStr exchange),
       (''direction'', JStr direction), (''volume'', JInt volume)])"

definition projection_document :: "string \<Rightarrow> string \<Rightarrow> json list \<Rightarrow> json" where
  "projection_document scope environment rows = JObj
     [(''account_scope'', JStr scope), (''environment'', JStr environment), (''positions'', JArr rows)]"

definition canonical_target_position_projection :: "json \<Rightarrow> json \<Rightarrow> json \<Rightarrow> json res" where
  "canonical_target_position_projection positions account_scope environment =
     (if \<not> is_obj positions then contract_error ''target positions must be an object''
      else rbind (projection_account_scope account_scope) (\<lambda>scope.
        rbind (projection_text environment ''environment'') (\<lambda>env.
        rbind (target_aggregates [] (items positions)) (\<lambda>aggregates.
        Inr (projection_document scope env
          (map (\<lambda>(key, volume). JObj (position_columns key volume)) (sort_key fst aggregates)))))))"

definition target_position_projection_hash :: "json \<Rightarrow> json \<Rightarrow> json \<Rightarrow> string res" where
  "target_position_projection_hash positions account_scope environment =
     rbind (canonical_target_position_projection positions account_scope environment) contract_sha256_json"

definition before_projection_row :: "before_entry \<Rightarrow> json" where
  "before_projection_row entry =
     (let (key, volume, yd) = entry in
      JObj (position_columns key volume @
        (if key_exchange key \<in> set YD_AWARE_EXCHANGES
         then [(''yd_volume'', case yd of None \<Rightarrow> JNull | Some y \<Rightarrow> JInt y)] else [])))"

definition before_rows :: "before_entry list \<Rightarrow> json list res" where
  "before_rows aggregates =
     rbind (rall (\<lambda>(key, volume, yd).
         if key_exchange key \<in> set YD_AWARE_EXCHANGES \<and> yd = None
         then contract_error ''before position yd_volume is invalid'' else Inr ()) aggregates) (\<lambda>_.
     Inr (map before_projection_row aggregates))"

definition canonical_before_position_projection :: "json \<Rightarrow> json \<Rightarrow> json \<Rightarrow> json res" where
  "canonical_before_position_projection positions account_scope environment =
     (if \<not> is_obj positions then contract_error ''before positions must be an object''
      else rbind (projection_account_scope account_scope) (\<lambda>scope.
        rbind (projection_text environment ''environment'') (\<lambda>env.
        rbind (before_aggregates [] (items positions)) (\<lambda>aggregates.
        rbind (before_rows (sort_key fst aggregates)) (\<lambda>rows.
        Inr (projection_document scope env rows))))))"

definition before_position_projection_hash :: "json \<Rightarrow> json \<Rightarrow> json \<Rightarrow> string res" where
  "before_position_projection_hash positions account_scope environment =
     rbind (canonical_before_position_projection positions account_scope environment) contract_sha256_json"

end
