(* ===== verification/Position_Facts.thy ===== *)
theory Position_Facts
  imports Position_Projection
begin

text \<open>
  What the position projections depend on: the aggregated exposure of the rows and nothing else.
\<close>

section \<open>Aggregation by key\<close>

text \<open>Adding up entries with a common key, in a commutative and associative way.\<close>

definition key_add :: "('v \<Rightarrow> 'v \<Rightarrow> 'v) \<Rightarrow> ('k \<times> 'v) list \<Rightarrow> 'k \<times> 'v \<Rightarrow> ('k \<times> 'v) list" where
  "key_add f acc kv =
     AList.update (fst kv) (case map_of acc (fst kv) of None \<Rightarrow> snd kv | Some u \<Rightarrow> f u (snd kv)) acc"

definition map_add_at :: "('v \<Rightarrow> 'v \<Rightarrow> 'v) \<Rightarrow> 'k \<times> 'v \<Rightarrow> ('k \<rightharpoonup> 'v) \<Rightarrow> ('k \<rightharpoonup> 'v)" where
  "map_add_at f kv m =
     m(fst kv \<mapsto> (case m (fst kv) of None \<Rightarrow> snd kv | Some u \<Rightarrow> f u (snd kv)))"

lemma map_of_key_add: "map_of (foldl (key_add f) acc kvs) = fold (map_add_at f) kvs (map_of acc)"
  by (induction kvs arbitrary: acc) (simp_all add: key_add_def map_add_at_def AList.update_conv')

lemma distinct_key_add: "distinct (map fst acc) \<Longrightarrow> distinct (map fst (foldl (key_add f) acc kvs))"
  by (induction kvs arbitrary: acc) (simp_all add: key_add_def distinct_update)

lemma sort_key_unique:
  fixes xs ys :: "('k :: linorder \<times> 'v) list"
  assumes "distinct (map fst xs)" and "distinct (map fst ys)" and "map_of xs = map_of ys"
  shows "sort_key fst xs = sort_key fst ys"
proof -
  have m: "mset xs = mset ys"
    using assms map_of_eqI by (metis distinct_map map_of_inject_set mset_set_set set_map_of_compr)
  have "sort_key fst ys = sort_key fst xs"
  proof (rule properties_for_sort_key)
    show "mset (sort_key fst xs) = mset ys" by (simp add: m)
    show "filter (\<lambda>x. fst k = fst x) (sort_key fst xs) = filter (\<lambda>x. fst k = fst x) ys"
      if "k \<in> set (sort_key fst xs)" for k
    proof -
      have one: "filter (\<lambda>x. fst k = fst x) zs = [k]" if "distinct (map fst zs)" "k \<in> set zs" for zs
        using that by (induction zs) (auto simp: filter_empty_conv image_iff)
      have "k \<in> set ys" using that mset_eq_setD [OF m] by simp
      moreover have "distinct (map fst (sort_key fst xs))"
        using assms(1) by (metis distinct_map distinct_sort set_sort)
      ultimately show ?thesis using one that assms(2) by metis
    qed
    show "sorted (map fst (sort_key fst xs))" by simp
  qed
  then show ?thesis by simp
qed

lemma key_add_permuted:
  fixes kvs kvs' :: "('k :: linorder \<times> 'v) list"
  assumes "mset kvs = mset kvs'"
    and comm: "\<And>u v. f u v = f v u" and assoc: "\<And>u v w. f (f u v) w = f u (f v w)"
  shows "sort_key fst (foldl (key_add f) [] kvs) = sort_key fst (foldl (key_add f) [] kvs')"
proof (rule sort_key_unique)
  have swap: "f a (f b w) = f b (f a w)" for w a b
    using comm assoc by metis
  have "map_add_at f x \<circ> map_add_at f y = map_add_at f y \<circ> map_add_at f x" for x y
    by (rule ext, cases x, cases y) (auto simp: map_add_at_def fun_eq_iff comm swap split: option.splits)
  then have "fold (map_add_at f) kvs = fold (map_add_at f) kvs'"
    using assms(1) by (intro fold_multiset_equiv) auto
  then show "map_of (foldl (key_add f) [] kvs) = map_of (foldl (key_add f) [] kvs')"
    by (simp add: map_of_key_add)
qed (simp_all add: distinct_key_add)

section \<open>The two aggregations are such sums\<close>

lemma target_add_is: "target_add = key_add (+)"
  by (rule ext, rule ext) (auto simp: target_add_def key_add_def split: option.splits)

text \<open>What one row contributes, when it is accepted.\<close>

definition entries_of :: "('r \<Rightarrow> 'a list res) \<Rightarrow> 'r \<Rightarrow> 'a list" where
  "entries_of f raw = (case f raw of Inl _ \<Rightarrow> [] | Inr kvs \<Rightarrow> kvs)"

lemma target_aggregates_sum:
  "target_aggregates acc rows = Inr a \<longleftrightarrow>
    (\<forall>r \<in> set rows. is_ok (target_row (snd r)))
      \<and> a = foldl (key_add (+)) acc (concat (map (\<lambda>r. entries_of target_row (snd r)) rows))"
  by (induction acc rows rule: target_aggregates.induct)
     (auto simp: rbind_Inr_iff target_add_is entries_of_def is_ok_iff)

definition pair_add :: "int \<times> int option \<Rightarrow> int \<times> int option \<Rightarrow> int \<times> int option" where
  "pair_add u v = (fst u + fst v,
     case (snd u, snd v) of (Some a, Some b) \<Rightarrow> Some (a + b) | _ \<Rightarrow> None)"

lemma pair_add_laws:
  "pair_add u v = pair_add v u" "pair_add (pair_add u v) w = pair_add u (pair_add v w)"
  by (auto simp: pair_add_def split: option.splits)

definition yd_consistent :: "before_entry \<Rightarrow> bool" where
  "yd_consistent e \<longleftrightarrow> (snd (snd e) \<noteq> None \<longleftrightarrow> key_exchange (fst e) \<in> set YD_AWARE_EXCHANGES)"

lemma before_row_shape:
  assumes "before_row raw = Inr kvs"
  shows "list_all yd_consistent kvs \<and> length kvs \<le> 1"
  using assms by (auto simp: before_row_def rbind_Inr_iff yd_consistent_def Let_def contract_error_def split: if_splits)

lemma before_add_is:
  assumes "yd_consistent e" and "\<And>v. map_of acc (fst e) = Some v \<Longrightarrow> yd_consistent (fst e, v)"
  shows "before_add acc e = Inr (key_add pair_add acc e)"
  using assms by (cases e; cases "map_of acc (fst e)")
    (auto simp: before_add_def key_add_def pair_add_def yd_consistent_def Let_def split: option.splits)

lemma key_add_consistent:
  assumes "list_all yd_consistent acc" and "yd_consistent e"
  shows "list_all yd_consistent (key_add pair_add acc e)"
proof -
  have "yd_consistent (fst e, v)" if "map_of acc (fst e) = Some v" for v
    using that assms(1) by (auto simp: list_all_iff dest: map_of_SomeD)
  then have "yd_consistent (fst e, case map_of acc (fst e) of None \<Rightarrow> snd e | Some u \<Rightarrow> pair_add u (snd e))"
    using assms(2) by (auto simp: yd_consistent_def pair_add_def split: option.splits)
  then show ?thesis
    using assms(1) set_update_subset [of "fst e" _ acc] by (fastforce simp: list_all_iff key_add_def)
qed

lemma before_aggregates_sum:
  assumes "list_all yd_consistent acc"
  shows "before_aggregates acc rows = Inr a \<longleftrightarrow>
    (\<forall>r \<in> set rows. is_ok (before_row (snd r)))
      \<and> a = foldl (key_add pair_add) acc (concat (map (\<lambda>r. entries_of before_row (snd r)) rows))"
  using assms
proof (induction acc rows rule: before_aggregates.induct)
  case (2 acc row_key raw rows)
  show ?case
  proof (cases "before_row raw")
    case (Inr kvs)
    note shape = before_row_shape [OF Inr]
    show ?thesis
    proof (cases kvs)
      case Nil
      with 2 Inr show ?thesis by (simp add: entries_of_def)
    next
      case (Cons e rest)
      with shape have e: "yd_consistent e" "rest = []" by auto
      have known: "yd_consistent (fst e, v)" if "map_of acc (fst e) = Some v" for v
        using that "2.prems" by (auto simp: list_all_iff dest: map_of_SomeD)
      with 2 Inr Cons e show ?thesis
        by (simp add: entries_of_def before_add_is key_add_consistent)
    qed
  qed (simp add: is_ok_iff)
qed auto

lemma before_rows_ok:
  assumes "list_all yd_consistent a"
  shows "before_rows a = Inr (map before_projection_row a)"
  using assms by (auto simp: before_rows_def yd_consistent_def list_all_iff rall_Inr_iff rbind_Inr_iff)

section \<open>Theorems\<close>

lemma permuted_rows:
  assumes "mset (map snd rows) = mset (map snd rows')"
  shows "mset (concat (map (\<lambda>r. f (snd r)) rows)) = mset (concat (map (\<lambda>r. f (snd r)) rows'))"
    and "(\<forall>r \<in> set rows. P (snd r)) = (\<forall>r \<in> set rows'. P (snd r))"
proof -
  have "mset (concat (map f (map snd rs))) = (\<Sum>x \<in># mset (map snd rs). mset (f x))" for rs :: "('z \<times> 'a) list"
    by (induction rs) auto
  from this [of rows] this [of rows'] assms
  show "mset (concat (map (\<lambda>r. f (snd r)) rows)) = mset (concat (map (\<lambda>r. f (snd r)) rows'))"
    by (simp add: comp_def)
  have "snd ` set rows = snd ` set rows'"
    using mset_eq_setD [OF assms] by simp
  then show "(\<forall>r \<in> set rows. P (snd r)) = (\<forall>r \<in> set rows'. P (snd r))" by (metis imageE imageI)
qed

lemma target_permuted:
  assumes "mset (map snd rows) = mset (map snd rows')"
    and "canonical_target_position_projection (JObj rows) scope env = Inr p"
  shows "canonical_target_position_projection (JObj rows') scope env = Inr p"
  using assms(2) key_add_permuted [OF permuted_rows(1) [OF assms(1)], of "(+) :: int \<Rightarrow> int \<Rightarrow> int" "entries_of target_row"]
    permuted_rows(2) [OF assms(1), of "\<lambda>r. is_ok (target_row r)"]
  by (auto simp: canonical_target_position_projection_def rbind_Inr_iff target_aggregates_sum)

lemma before_consistent:
  assumes "before_aggregates [] rows = Inr a"
  shows "list_all yd_consistent a"
proof -
  have "list_all yd_consistent acc \<Longrightarrow> before_aggregates acc rows = Inr a \<Longrightarrow> list_all yd_consistent a" for acc
  proof (induction acc rows rule: before_aggregates.induct)
    case (2 acc row_key raw rows)
    from "2.prems"(2) obtain kvs acc' where k: "before_row raw = Inr kvs"
      and a: "(case kvs of [] \<Rightarrow> Inr acc | kv # _ \<Rightarrow> before_add acc kv) = Inr acc'"
      and r: "before_aggregates acc' rows = Inr a"
      by (auto simp: rbind_Inr_iff)
    have "list_all yd_consistent acc'"
    proof (cases kvs)
      case (Cons e rest)
      with before_row_shape [OF k] have e: "yd_consistent e" by simp
      have "yd_consistent (fst e, v)" if "map_of acc (fst e) = Some v" for v
        using that "2.prems"(1) by (auto simp: list_all_iff dest: map_of_SomeD)
      with a Cons before_add_is [OF e] key_add_consistent [OF "2.prems"(1) e] show ?thesis by simp
    qed (use a "2.prems"(1) in simp)
    with "2.IH" k a r show ?case by blast
  qed simp
  from this [OF _ assms] show ?thesis by simp
qed

lemma before_permuted:
  assumes m: "mset (map snd rows) = mset (map snd rows')"
    and "canonical_before_position_projection (JObj rows) scope env = Inr p"
  shows "canonical_before_position_projection (JObj rows') scope env = Inr p"
proof -
  from assms(2) obtain s e a rs where p: "projection_account_scope scope = Inr s"
      "projection_text env ''environment'' = Inr e" "before_aggregates [] rows = Inr a"
      "before_rows (sort_key fst a) = Inr rs" "p = projection_document s e rs"
    by (auto simp: canonical_before_position_projection_def rbind_Inr_iff)
  let ?a = "foldl (key_add pair_add) [] (concat (map (\<lambda>r. entries_of before_row (snd r)) rows'))"
  have a': "before_aggregates [] rows' = Inr ?a"
    using p(3) permuted_rows(2) [OF m, of "\<lambda>r. is_ok (before_row r)"] by (simp add: before_aggregates_sum)
  have "sort_key fst ?a = sort_key fst a"
    using p(3) key_add_permuted [OF permuted_rows(1) [OF m, of "entries_of before_row"] pair_add_laws]
    by (simp add: before_aggregates_sum)
  with p a' show ?thesis by (simp add: canonical_before_position_projection_def)
qed

lemma hashes_permuted:
  assumes "mset (map snd rows) = mset (map snd rows')"
  shows "target_position_projection_hash (JObj rows) scope env = Inr h
      \<Longrightarrow> target_position_projection_hash (JObj rows') scope env = Inr h"
    and "before_position_projection_hash (JObj rows) scope env = Inr h
      \<Longrightarrow> before_position_projection_hash (JObj rows') scope env = Inr h"
  by (auto simp: target_position_projection_hash_def before_position_projection_hash_def rbind_Inr_iff
      dest!: target_permuted [OF assms] before_permuted [OF assms])

text \<open>
  C40: The target hash and the before hash of a set of broker rows are the same for any reordering
  and renaming of the rows, whenever they are defined.
\<close>

theorem position_hashes_ignore_row_order:
  assumes "mset (map snd rows) = mset (map snd rows')"
  shows "(target_position_projection_hash (JObj rows) scope env = Inr h
        \<longleftrightarrow> target_position_projection_hash (JObj rows') scope env = Inr h)
      \<and> (before_position_projection_hash (JObj rows) scope env = Inr h
        \<longleftrightarrow> before_position_projection_hash (JObj rows') scope env = Inr h)"
  using hashes_permuted [OF assms] hashes_permuted [OF assms [symmetric]] by blast

definition ex_row :: "string \<Rightarrow> int \<Rightarrow> json" where
  "ex_row symbol volume = JObj [(''gateway_name'', JStr ''CTP''), (''symbol'', JStr symbol),
     (''exchange'', JStr ''DCE''), (''direction'', JStr ''LONG''), (''volume'', JInt volume)]"

definition ex_positions :: "(string \<times> json) list" where
  "ex_positions = [(''p1'', ex_row ''m2609'' 2), (''p2'', ex_row ''a2609'' 1), (''p3'', ex_row ''m2609'' 3)]"

definition ex_positions' :: "(string \<times> json) list" where
  "ex_positions' = [(''q1'', ex_row ''m2609'' 3), (''q2'', ex_row ''m2609'' 2), (''q3'', ex_row ''a2609'' 1)]"

definition ex_projection :: json where
  "ex_projection = projection_document ''account:one'' ''SIMNOW''
     [JObj (position_columns (''CTP'', ''A2609'', ''DCE'', ''LONG'') 1),
      JObj (position_columns (''CTP'', ''M2609'', ''DCE'', ''LONG'') 5)]"

lemma ex_projection_computed:
  "canonical_target_position_projection (JObj ex_positions) (JStr ''account:one'') (JStr ''simnow'') = Inr ex_projection"
  "finite_json ex_projection"
  by code_simp+

lemma position_hashes_ignore_row_order_witness:
  "mset (map snd ex_positions) = mset (map snd ex_positions')
    \<and> target_position_projection_hash (JObj ex_positions') (JStr ''account:one'') (JStr ''simnow'')
      = Inr (json_hash ex_projection)"
proof -
  have m: "mset (map snd ex_positions) = mset (map snd ex_positions')"
    by (simp add: ex_positions_def ex_positions'_def)
  have "target_position_projection_hash (JObj ex_positions) (JStr ''account:one'') (JStr ''simnow'')
      = Inr (json_hash ex_projection)"
    by (simp add: target_position_projection_hash_def ex_projection_computed contract_sha256_json_def)
  with position_hashes_ignore_row_order [OF m] m show ?thesis by blast
qed

end
