(* ===== verification/Exec_Gateway.thy ===== *)
theory Exec_Gateway
  imports Exec_Envelope Exec_Fencing
begin

text \<open>
  The boundary to the broker, \<open>gateway.py\<close> and \<open>gateway_contracts.py\<close> of
  \<open>backend/app/execution\<close>: the context every mutation carries, the facts a snapshot reports, the
  interface the orchestrator calls, and the two gateways the package provides itself.
\<close>

section \<open>What crosses the boundary\<close>

record mutation_context =
  mc_account_scope :: string
  mc_leader_epoch :: int
  mc_fencing_token :: int
  mc_plan_id :: string
  mc_plan_hash :: string
  mc_intent_id :: string
  mc_idempotency_key :: string
  mc_action :: string
  mc_environment :: string
  mc_receipt_id :: string
  mc_receipt_hash :: string
  mc_request_hash :: string

definition mutation_context_as_dict :: "mutation_context \<Rightarrow> json" where
  "mutation_context_as_dict c = JObj
     [(''account_scope'', JStr (mc_account_scope c)), (''leader_epoch'', JInt (mc_leader_epoch c)),
      (''fencing_token'', JInt (mc_fencing_token c)), (''plan_id'', JStr (mc_plan_id c)),
      (''plan_hash'', JStr (mc_plan_hash c)), (''intent_id'', JStr (mc_intent_id c)),
      (''idempotency_key'', JStr (mc_idempotency_key c)), (''action'', JStr (mc_action c)),
      (''environment'', JStr (mc_environment c)), (''receipt_id'', JStr (mc_receipt_id c)),
      (''receipt_hash'', JStr (mc_receipt_hash c)), (''request_hash'', JStr (mc_request_hash c))]"

text \<open>
  A gateway may put any value into a snapshot's fields (the class does not check them, the
  orchestrator does), so the fields are JSON values.
\<close>

record gateway_snapshot =
  gs_snapshot_id :: json
  gs_generation :: json
  gs_connected :: json
  gs_active_order_count :: json
  gs_position_snapshot_hash :: json
  gs_observed_at :: json
  gs_orders :: json
  gs_positions :: json
  gs_account_scope :: json
  gs_environment :: json
  gs_fresh :: json
  gs_fence_epoch :: json
  gs_fence_token :: json
  gs_trading_day :: json
  gs_time_condition :: json

text \<open>The defaults of the class, \<open>now\<close> being the time the snapshot is built.\<close>

definition snapshot_defaults :: "int \<Rightarrow> json \<Rightarrow> json \<Rightarrow> json \<Rightarrow> gateway_snapshot" where
  "snapshot_defaults now snapshot_id generation is_connected =
     \<lparr>gs_snapshot_id = snapshot_id, gs_generation = generation, gs_connected = is_connected,
      gs_active_order_count = JInt 0, gs_position_snapshot_hash = JStr ZERO_HASH,
      gs_observed_at = JStr (format_utc now), gs_orders = JObj [], gs_positions = JObj [],
      gs_account_scope = JStr [], gs_environment = JStr [], gs_fresh = JBool True,
      gs_fence_epoch = JNull, gs_fence_token = JNull, gs_trading_day = JNull,
      gs_time_condition = JNull\<rparr>"

definition gateway_snapshot_as_dict :: "gateway_snapshot \<Rightarrow> json" where
  "gateway_snapshot_as_dict s = JObj
     ([(''snapshot_id'', gs_snapshot_id s), (''generation'', gs_generation s),
       (''connected'', gs_connected s), (''active_order_count'', gs_active_order_count s),
       (''position_snapshot_hash'', gs_position_snapshot_hash s), (''observed_at'', gs_observed_at s),
       (''orders'', gs_orders s), (''positions'', gs_positions s),
       (''account_scope'', gs_account_scope s), (''environment'', gs_environment s),
       (''fresh'', gs_fresh s)] @
      (if gs_fence_epoch s \<noteq> JNull \<or> gs_fence_token s \<noteq> JNull
       then [(''fence_high_water_epoch'', gs_fence_epoch s),
             (''fence_high_water_fencing_token'', gs_fence_token s)] else []))"

text \<open>What a snapshot call gives: the class, or some other value.\<close>

datatype snapshot_value = TypedSnapshot gateway_snapshot | OtherSnapshot json

section \<open>The interface\<close>

text \<open>
  \<open>ExecutionGateway\<close>: each call sees the time it is made at and the gateway's own state, and returns
  or raises. The mutations return an object or nothing.
\<close>

record 'g gateway =
  gw_send :: "json \<Rightarrow> mutation_context \<Rightarrow> int \<Rightarrow> 'g \<Rightarrow> json res \<times> 'g"
  gw_cancel :: "json \<Rightarrow> mutation_context \<Rightarrow> int \<Rightarrow> 'g \<Rightarrow> json res \<times> 'g"
  gw_query :: "send_intent \<Rightarrow> mutation_context \<Rightarrow> int \<Rightarrow> 'g \<Rightarrow> json res \<times> 'g"
  gw_readiness :: "int \<Rightarrow> 'g \<Rightarrow> snapshot_value res \<times> 'g"
  gw_durable_generation :: bool

section \<open>NullGateway\<close>

definition not_configured :: "'a res" where
  "not_configured = raise GatewayUnavailable ''no Windows gateway is configured''"

definition null_gateway :: "unit gateway" where
  "null_gateway =
     \<lparr>gw_send = (\<lambda>_ _ _ g. (not_configured, g)), gw_cancel = (\<lambda>_ _ _ g. (not_configured, g)),
      gw_query = (\<lambda>_ _ _ g. (not_configured, g)), gw_readiness = (\<lambda>_ g. (not_configured, g)),
      gw_durable_generation = True\<rparr>"

section \<open>InMemoryGateway\<close>

record memory_gateway =
  im_send_calls :: "(json \<times> mutation_context) list"
  im_cancel_calls :: "(json \<times> mutation_context) list"
  im_query_calls :: "string list"
  im_snapshots :: "gateway_snapshot list"
  im_fail_send :: "exn option"
  im_fail_cancel :: "exn option"
  im_fail_query :: "exn option"
  im_next_order_id :: int
  im_intent_outcomes :: "(string \<times> json) list"
  im_account_scope :: string
  im_environment :: string
  im_snapshot_generation :: int

definition new_memory_gateway :: "string \<Rightarrow> string \<Rightarrow> memory_gateway" where
  "new_memory_gateway scope environment =
     \<lparr>im_send_calls = [], im_cancel_calls = [], im_query_calls = [], im_snapshots = [],
      im_fail_send = None, im_fail_cancel = None, im_fail_query = None, im_next_order_id = 1,
      im_intent_outcomes = [], im_account_scope = scope, im_environment = environment,
      im_snapshot_generation = 0\<rparr>"

definition record_outcome :: "string \<Rightarrow> json \<Rightarrow> memory_gateway \<Rightarrow> memory_gateway" where
  "record_outcome intent_id result g =
     g\<lparr>im_intent_outcomes := AList.update intent_id
        (dupdate (JObj [(''state'', JStr ''ACKNOWLEDGED'')]) (items result)) (im_intent_outcomes g)\<rparr>"

definition memory_send ::
  "json \<Rightarrow> mutation_context \<Rightarrow> int \<Rightarrow> memory_gateway \<Rightarrow> json res \<times> memory_gateway" where
  "memory_send request context now g =
     (let g1 = g\<lparr>im_send_calls := im_send_calls g @ [(request, context)]\<rparr> in
      case im_fail_send g of Some x \<Rightarrow> (Inl x, g1)
      | None \<Rightarrow>
          let wanted = fld request ''broker_order_id'';
              order_id = (if truthy wanted then py_str wanted
                          else ''order-'' @ int_str (im_next_order_id g));
              result = JObj [(''accepted'', JBool True), (''state'', JStr ''ACKNOWLEDGED''),
                (''broker_order_id'', JStr order_id), (''intent_id'', JStr (mc_intent_id context))]
          in (Inr result, record_outcome (mc_intent_id context) result
                (g1\<lparr>im_next_order_id := im_next_order_id g + 1\<rparr>)))"

definition memory_cancel ::
  "json \<Rightarrow> mutation_context \<Rightarrow> int \<Rightarrow> memory_gateway \<Rightarrow> json res \<times> memory_gateway" where
  "memory_cancel request context now g =
     (let g1 = g\<lparr>im_cancel_calls := im_cancel_calls g @ [(request, context)]\<rparr> in
      case im_fail_cancel g of Some x \<Rightarrow> (Inl x, g1)
      | None \<Rightarrow>
          let result = JObj [(''accepted'', JBool True), (''cancelled'', JBool True),
                (''state'', JStr ''CANCELLED''), (''intent_id'', JStr (mc_intent_id context))]
          in (Inr result, record_outcome (mc_intent_id context) result g1))"

definition memory_query ::
  "send_intent \<Rightarrow> mutation_context \<Rightarrow> int \<Rightarrow> memory_gateway \<Rightarrow> json res \<times> memory_gateway" where
  "memory_query intent context now g =
     (let g1 = g\<lparr>im_query_calls := im_query_calls g @ [si_intent_id intent]\<rparr> in
      case im_fail_query g of Some x \<Rightarrow> (Inl x, g1)
      | None \<Rightarrow>
          (Inr (case map_of (im_intent_outcomes g) (si_intent_id intent) of
              None \<Rightarrow> JObj [(''state'', JStr ''UNKNOWN'')] | Some v \<Rightarrow> v), g1))"

definition memory_snapshot :: "int \<Rightarrow> memory_gateway \<Rightarrow> gateway_snapshot \<times> memory_gateway" where
  "memory_snapshot now g =
     (if im_snapshots g \<noteq> [] then (last (im_snapshots g), g)
      else ((snapshot_defaults now (JStr ''snapshot-default'') (JInt (im_snapshot_generation g))
               (JBool True))
             \<lparr>gs_position_snapshot_hash := JStr (json_hash (JObj [])),
              gs_account_scope := JStr (im_account_scope g),
              gs_environment := JStr (im_environment g)\<rparr>,
            g\<lparr>im_snapshot_generation := im_snapshot_generation g + 1\<rparr>))"

definition in_memory_gateway :: "memory_gateway gateway" where
  "in_memory_gateway =
     \<lparr>gw_send = memory_send, gw_cancel = memory_cancel, gw_query = memory_query,
      gw_readiness = (\<lambda>now g. let (s, g') = memory_snapshot now g in (Inr (TypedSnapshot s), g')),
      gw_durable_generation = True\<rparr>"

section \<open>The contract of a gateway\<close>

text \<open>
  What the orchestrator's safety rests on: some count of broker mutations that queries and
  snapshots never change and one send or cancel raises by one at most.
\<close>

locale broker_boundary =
  fixes gw :: "'g gateway"
    and mutations :: "'g \<Rightarrow> nat"
  assumes send_counts: "gw_send gw r c t g = (x, g') \<Longrightarrow> mutations g' \<le> Suc (mutations g)"
    and cancel_counts: "gw_cancel gw r c t g = (x, g') \<Longrightarrow> mutations g' \<le> Suc (mutations g)"
    and query_reads: "gw_query gw i c t g = (x, g') \<Longrightarrow> mutations g' = mutations g"
    and readiness_reads: "gw_readiness gw t g = (y, g') \<Longrightarrow> mutations g' = mutations g"

definition broker_calls :: "memory_gateway \<Rightarrow> nat" where
  "broker_calls g = length (im_send_calls g) + length (im_cancel_calls g)"

lemma broker_calls_simps [simp]:
  "broker_calls (record_outcome i r g) = broker_calls g"
  "broker_calls (g\<lparr>im_next_order_id := n\<rparr>) = broker_calls g"
  "broker_calls (g\<lparr>im_query_calls := q\<rparr>) = broker_calls g"
  "broker_calls (g\<lparr>im_snapshot_generation := n\<rparr>) = broker_calls g"
  "broker_calls (g\<lparr>im_send_calls := im_send_calls g @ [a]\<rparr>) = Suc (broker_calls g)"
  "broker_calls (g\<lparr>im_cancel_calls := im_cancel_calls g @ [a]\<rparr>) = Suc (broker_calls g)"
  by (simp_all add: broker_calls_def record_outcome_def)

interpretation memory: broker_boundary in_memory_gateway broker_calls
  by unfold_locales
     (auto simp: in_memory_gateway_def memory_send_def memory_cancel_def memory_query_def
       memory_snapshot_def Let_def split: option.splits if_splits)

interpretation null: broker_boundary null_gateway "\<lambda>_. 0"
  by unfold_locales (simp_all add: null_gateway_def)

end
