(* ===== verification/Orch_World.thy ===== *)
theory Orch_World
  imports Exec_Gateway Position_Projection
begin

text \<open>
  The state of \<open>ExecutionOrchestrator\<close> (\<open>backend/app/execution/orchestrator.py\<close>) and the pure
  functions it reads the durable document with: the status projection, the restart predicate, the
  authority check and the view of one intent. The document is always one the repository has
  validated, so \<open>int\<close> of a field it has checked does not raise.
\<close>

section \<open>State and configuration\<close>

record 'g oenv = fenv +
  oe_environment :: string
  oe_test_mode :: bool
  oe_service_version :: string
  oe_gateway :: "'g gateway"

text \<open>\<open>_last_observed_at\<close> is written and never read; it is not kept.\<close>

record 'g world = fencer +
  w_local_halted :: bool
  w_gateway :: 'g

type_synonym ('g, 'a) wop = "('g world, exn, 'a) act"

abbreviation repo_env :: "'g oenv \<Rightarrow> env" where
  "repo_env e \<equiv> env.truncate e"

definition ACTIVE_INTENT_STATES :: "string list" where
  "ACTIVE_INTENT_STATES = [''PERSISTED'', ''SUBMITTED'', ''ACKNOWLEDGED'', ''CANCEL_REQUESTED'']"

text \<open>A call of the gateway sees the time it is made at.\<close>

definition call_gateway :: "'g oenv \<Rightarrow> (int \<Rightarrow> 'g \<Rightarrow> 'b res \<times> 'g) \<Rightarrow> ('g, 'b) wop" where
  "call_gateway e f =
     abind (utc_now e) (\<lambda>t s. let (r, g) = f t (w_gateway s) in (r, s\<lparr>w_gateway := g\<rparr>))"

definition halt_locally :: "('g, unit) wop" where
  "halt_locally = amod (\<lambda>s. s\<lparr>w_local_halted := True\<rparr>)"

text \<open>A repository write whose result is not used.\<close>

definition update_doc :: "'g oenv \<Rightarrow> (json \<Rightarrow> ('g, json) wop) \<Rightarrow> int option \<Rightarrow> ('g, unit) wop" where
  "update_doc e f expected =
     abind (mutate (repo_env e) (\<lambda>d. abind (f d) (\<lambda>d'. aret ((), d'))) expected) (\<lambda>_. aret ())"

definition read_state :: "'g oenv \<Rightarrow> ('g, json) wop" where
  "read_state e = snapshot (repo_env e)"

section \<open>Helpers\<close>

definition nonnegative_int :: "json \<Rightarrow> int" where
  "nonnegative_int v =
     (case v of JBool _ \<Rightarrow> 0 | _ \<Rightarrow> (case py_int v of None \<Rightarrow> 0 | Some n \<Rightarrow> max 0 n))"

definition int_of :: "json \<Rightarrow> int" where
  "int_of v = (case py_int v of None \<Rightarrow> 0 | Some n \<Rightarrow> n)"

definition str_or :: "json \<Rightarrow> string \<Rightarrow> string \<Rightarrow> string" where
  "str_or d k dflt = py_str (get_or d k (JStr dflt))"

definition is_identifier :: "string \<Rightarrow> bool" where
  "is_identifier s = is_ok (validate_identifier (JStr s) ''identifier'')"

text \<open>\<open>_detached_json\<close>: any failure becomes a rejected mutation.\<close>

definition detached_json :: "json \<Rightarrow> json res" where
  "detached_json value =
     (if is_obj value \<and> finite_json value then Inr (canon value)
      else raise MutationRejected ''order request must be canonical JSON'')"

definition state_upper :: "json \<Rightarrow> string \<Rightarrow> string" where
  "state_upper outcome dflt = str_upper (str_or outcome ''state'' dflt)"

definition UNKNOWN_STATES :: "string list" where
  "UNKNOWN_STATES = ['''', ''UNKNOWN'', ''UNKNOWN_OUTCOME'', ''PENDING'', ''NOT_FOUND'']"

definition outcome_is_unknown :: "json \<Rightarrow> bool" where
  "outcome_is_unknown outcome \<longleftrightarrow>
     state_upper outcome ''UNKNOWN'' \<in> set UNKNOWN_STATES
       \<and> \<not> truthy (get_or outcome ''resolved'' (JBool False))"

definition intents_of :: "json \<Rightarrow> json" where
  "intents_of state = get_or state ''send_intents'' (JObj [])"

definition unknowns_of :: "json \<Rightarrow> json" where
  "unknowns_of state = get_or state ''unknown_outcomes'' (JObj [])"

definition key_alias :: "string \<Rightarrow> bool" where
  "key_alias intent_id = starts_with ''key:'' intent_id"

section \<open>Projections\<close>

definition authority_projection :: "json \<Rightarrow> json" where
  "authority_projection raw = JObj
     [(''state'', JStr (str_or raw ''state'' ''UNKNOWN'')),
      (''artifact_id'', JStr (str_or raw ''artifact_id'' UNKNOWN_ID)),
      (''artifact_hash'', JStr (str_or raw ''artifact_hash'' ZERO_HASH)),
      (''expires_at'', JStr (str_or raw ''expires_at'' EPOCH_TIMESTAMP))]"

definition plan_projection :: "json \<Rightarrow> json" where
  "plan_projection raw = JObj
     [(''state'', JStr (str_or raw ''state'' ''UNKNOWN'')),
      (''plan_id'', JStr (str_or raw ''plan_id'' UNKNOWN_ID)),
      (''plan_hash'', JStr (str_or raw ''plan_hash'' ZERO_HASH)),
      (''version'', JInt (nonnegative_int (get_or raw ''version'' (JInt 0))))]"

definition reconciliation_projection :: "json \<Rightarrow> json" where
  "reconciliation_projection raw = JObj
     [(''state'', JStr (str_or raw ''state'' ''UNKNOWN'')),
      (''run_id'', JStr (str_or raw ''run_id'' UNKNOWN_ID)),
      (''last_completed_at'', JStr (str_or raw ''last_completed_at'' EPOCH_TIMESTAMP)),
      (''unknown_outcomes'', JInt (nonnegative_int (get_or raw ''unknown_outcomes'' (JInt 0)))),
      (''fresh_snapshot_id'', JStr (str_or raw ''fresh_snapshot_id'' UNKNOWN_ID))]"

definition broker_projection :: "json \<Rightarrow> json" where
  "broker_projection raw = JObj
     [(''connected'', JBool (truthy (get_or raw ''connected'' (JBool False)))),
      (''generation'', JInt (nonnegative_int (get_or raw ''generation'' (JInt 0)))),
      (''active_order_count'', JInt (nonnegative_int (get_or raw ''active_order_count'' (JInt 0)))),
      (''position_snapshot_hash'', JStr (str_or raw ''position_snapshot_hash'' ZERO_HASH)),
      (''last_snapshot_at'', JStr (str_or raw ''last_snapshot_at'' EPOCH_TIMESTAMP))]"

definition intent_projection :: "json \<Rightarrow> json" where
  "intent_projection raw = JObj
     ([(''intent_id'', JStr (str_or raw ''intent_id'' UNKNOWN_ID)),
       (''idempotency_key'', JStr (str_or raw ''idempotency_key'' ''unknown-idempotency'')),
       (''state'', JStr (str_or raw ''state'' ''PERSISTED'')),
       (''plan_id'', JStr (str_or raw ''plan_id'' UNKNOWN_ID)),
       (''plan_hash'', JStr (str_or raw ''plan_hash'' ZERO_HASH)),
       (''leader_epoch'', JInt (nonnegative_int (get_or raw ''leader_epoch'' (JInt 0)))),
       (''fencing_token'', JInt (nonnegative_int (get_or raw ''fencing_token'' (JInt 0)))),
       (''created_at'', JStr (str_or raw ''created_at'' EPOCH_TIMESTAMP))] @
      (if fld raw ''broker_order_id'' = JNull then []
       else [(''broker_order_id'', JStr (py_str (fld raw ''broker_order_id'')))]))"

definition intent_projections :: "json \<Rightarrow> json list" where
  "intent_projections state =
     sort_key (\<lambda>i. (the_str (fld i ''created_at''), the_str (fld i ''intent_id'')))
       (map (\<lambda>(_, raw). intent_projection raw)
         (filter (\<lambda>(k, raw). \<not> key_alias k \<and> is_obj raw) (items (intents_of state))))"

definition leader_projection :: "'g oenv \<Rightarrow> json \<Rightarrow> int \<Rightarrow> json" where
  "leader_projection e lease observed_at =
     (let owner = (if truthy (fld lease ''owner_id'') then py_str (fld lease ''owner_id'') else UNKNOWN_ID);
          (held, expiry) =
            (case timestamp_of (get_or lease ''lease_expires_at'' (JStr EPOCH_TIMESTAMP)) ''lease_expires_at'' of
               Inl _ \<Rightarrow> (False, EPOCH_TIMESTAMP)
             | Inr t \<Rightarrow> (truthy (fld lease ''owner_id'') \<and> observed_at < t,
                 str_or lease ''lease_expires_at'' EPOCH_TIMESTAMP))
      in JObj
        [(''scope'', JStr (str_or lease ''scope'' (fe_scope e))),
         (''owner_id'', JStr (if is_identifier owner then owner else UNKNOWN_ID)),
         (''held'', JBool held),
         (''epoch'', JInt (nonnegative_int (get_or lease ''epoch'' (JInt 0)))),
         (''fencing_token'', JInt (nonnegative_int (get_or lease ''fencing_token'' (JInt 0)))),
         (''lease_expires_at'', JStr expiry)])"

definition safe_to_restart_state :: "bool \<Rightarrow> json \<Rightarrow> bool" where
  "safe_to_restart_state local_halted state \<longleftrightarrow>
     \<not> local_halted
     \<and> str_sat (\<lambda>l. l \<in> {''READY'', ''DEGRADED'', ''DRAINING''}) (fld state ''lifecycle'')
     \<and> fld (fld state ''reconciliation'') ''state'' = JStr ''RECONCILED''
     \<and> int_of (get_or (fld state ''reconciliation'') ''unknown_outcomes'' (JInt 0)) = 0
     \<and> \<not> truthy (fld state ''unknown_outcomes'')
     \<and> str_sat (\<lambda>p. p \<in> {''IDLE'', ''TERMINAL''}) (fld (fld state ''plan'') ''state'')
     \<and> int_of (get_or (fld state ''broker'') ''active_order_count'' (JInt 0)) = 0"

definition projection :: "'g oenv \<Rightarrow> bool \<Rightarrow> json \<Rightarrow> int \<Rightarrow> json" where
  "projection e local_halted state observed_at = JObj
     [(''schema_version'', JStr STATUS_SCHEMA_VERSION),
      (''service'', JStr SERVICE),
      (''service_version'', JStr (oe_service_version e)),
      (''observed_at'', JStr (format_utc observed_at)),
      (''lifecycle'', JStr (str_or state ''lifecycle'' ''HALTED_RECONCILE_REQUIRED'')),
      (''state_version'', JInt (nonnegative_int (get_or state ''state_version'' (JInt 0)))),
      (''leader'', leader_projection e (fld state ''lease'') observed_at),
      (''authority'', authority_projection (get_or state ''authority'' (JObj []))),
      (''plan'', plan_projection (get_or state ''plan'' (JObj []))),
      (''send_intents'', JArr (intent_projections state)),
      (''reconciliation'', reconciliation_projection (get_or state ''reconciliation'' (JObj []))),
      (''safe_to_restart'', JBool (safe_to_restart_state local_halted state)),
      (''broker'', broker_projection (get_or state ''broker'' (JObj [])))]"

section \<open>One intent\<close>

definition intent_from_dict :: "json \<Rightarrow> send_intent" where
  "intent_from_dict raw =
     \<lparr>si_intent_id = py_str (fld raw ''intent_id''),
      si_idempotency_key = py_str (fld raw ''idempotency_key''),
      si_state = py_str (fld raw ''state''), si_plan_id = py_str (fld raw ''plan_id''),
      si_plan_hash = py_str (fld raw ''plan_hash''),
      si_leader_epoch = int_of (fld raw ''leader_epoch''),
      si_fencing_token = int_of (fld raw ''fencing_token''),
      si_created_at = py_str (fld raw ''created_at''), si_action = str_or raw ''action'' ''send'',
      si_broker_order_id = fld raw ''broker_order_id'',
      si_request_hash = str_or raw ''request_hash'' ZERO_HASH,
      si_target_intent_id = fld raw ''target_intent_id'',
      si_unknown_reason = fld raw ''unknown_reason'',
      si_receipt_id = fld raw ''receipt_id'', si_receipt_hash = fld raw ''receipt_hash''\<rparr>"

definition context_from_intent :: "'g oenv \<Rightarrow> send_intent \<Rightarrow> mutation_context" where
  "context_from_intent e i =
     \<lparr>mc_account_scope = fe_scope e, mc_leader_epoch = si_leader_epoch i,
      mc_fencing_token = si_fencing_token i, mc_plan_id = si_plan_id i,
      mc_plan_hash = si_plan_hash i, mc_intent_id = si_intent_id i,
      mc_idempotency_key = si_idempotency_key i, mc_action = si_action i,
      mc_environment = oe_environment e,
      mc_receipt_id = (if truthy (si_receipt_id i) then py_str (si_receipt_id i) else []),
      mc_receipt_hash = (if truthy (si_receipt_hash i) then py_str (si_receipt_hash i) else []),
      mc_request_hash = si_request_hash i\<rparr>"

section \<open>Authority\<close>

text \<open>The clock is read only for an enabled authority with a readable expiry.\<close>

definition authority_expiry :: "json \<Rightarrow> int res" where
  "authority_expiry state =
     (let authority = get_or state ''authority'' (JObj []) in
      if fld authority ''state'' \<noteq> JStr ''ENABLED''
      then raise AuthorityRejected ''effective authority is not enabled''
      else rcatch (timestamp_of (JStr (str_or authority ''expires_at'' EPOCH_TIMESTAMP)) ''timestamp'')
        (\<lambda>x. if is_a x PyValueError
          then raise AuthorityRejected ''effective authority expiry is invalid'' else Inl x))"

definition require_authority :: "'g oenv \<Rightarrow> json \<Rightarrow> int option \<Rightarrow> ('g, unit) wop" where
  "require_authority e state now =
     abind (alift (authority_expiry state)) (\<lambda>expiry.
     abind (clock_reading e now) (\<lambda>current.
     aguard (\<not> expiry \<le> current) (Exn AuthorityRejected ''effective authority is expired'')))"

end
