(* ===== verification/Orch_Snapshot.thy ===== *)
theory Orch_Snapshot
  imports Orch_World
begin

text \<open>
  What the orchestrator does with a broker snapshot: bringing it into one form, the checks that let
  it count as a reconciliation, and writing its facts and its fence high-water mark into the
  durable document.
\<close>

section \<open>Coercion\<close>

definition optional_count :: "json \<Rightarrow> bool" where
  "optional_count v \<longleftrightarrow> v = JNull \<or> int_at_least 0 v"

definition snapshot_from_mapping :: "int \<Rightarrow> json \<Rightarrow> gateway_snapshot res" where
  "snapshot_from_mapping now v =
     (let observed_at = get_or v ''observed_at'' (JStr (format_utc now));
          active_order_count = get_or v ''active_order_count'' (JInt 0);
          position_hash = get_or v ''position_snapshot_hash'' (JStr ZERO_HASH);
          account_scope = get_or v ''account_scope'' (JStr []);
          environment = get_or v ''environment'' (JStr []);
          orders = get_or v ''orders'' (JObj []);
          positions = get_or v ''positions'' (JObj []);
          fresh = get_or v ''fresh'' (JBool True)
      in if str_sat IDENTIFIER_RE (fld v ''snapshot_id'') \<and> is_jint (fld v ''generation'')
           \<and> is_jint active_order_count \<and> is_jbool (fld v ''connected'')
           \<and> str_sat SHA256_RE position_hash \<and> is_ok (parse_utc observed_at ''snapshot.observed_at'')
           \<and> is_jstr account_scope \<and> is_jstr environment \<and> is_obj orders \<and> is_obj positions
           \<and> is_jbool fresh \<and> optional_count (fld v ''fence_high_water_epoch'')
           \<and> optional_count (fld v ''fence_high_water_fencing_token'')
         then Inr \<lparr>gs_snapshot_id = fld v ''snapshot_id'', gs_generation = fld v ''generation'',
           gs_connected = fld v ''connected'', gs_active_order_count = active_order_count,
           gs_position_snapshot_hash = position_hash, gs_observed_at = observed_at,
           gs_orders = orders, gs_positions = positions, gs_account_scope = account_scope,
           gs_environment = environment, gs_fresh = fresh,
           gs_fence_epoch = fld v ''fence_high_water_epoch'',
           gs_fence_token = fld v ''fence_high_water_fencing_token'', gs_trading_day = JNull,
           gs_time_condition = JNull\<rparr>
         else raise GatewayUnavailable ''gateway returned an invalid snapshot'')"

definition coerce_snapshot :: "'g oenv \<Rightarrow> snapshot_value \<Rightarrow> ('g, gateway_snapshot) wop" where
  "coerce_snapshot e value =
     (case value of
        TypedSnapshot s \<Rightarrow> aret s
      | OtherSnapshot v \<Rightarrow>
          if \<not> is_obj v then athrow (Exn GatewayUnavailable ''gateway returned an invalid snapshot'')
          else abind (utc_now e) (\<lambda>now. alift (snapshot_from_mapping now v)))"

section \<open>Validation\<close>

definition snap :: "bool \<Rightarrow> string \<Rightarrow> unit res" where
  "snap ok msg = rguard ok (Exn SnapshotRejected msg)"

definition snapshot_fields :: "gateway_snapshot \<Rightarrow> unit res" where
  "snapshot_fields s = checks
     [snap (str_sat IDENTIFIER_RE (gs_snapshot_id s)) ''broker snapshot id is invalid'',
      snap (int_at_least 0 (gs_generation s)) ''broker snapshot generation is invalid'',
      snap (is_jbool (gs_connected s) \<and> is_jbool (gs_fresh s))
        ''broker snapshot connection/freshness flags are invalid'',
      snap (is_ok (validate_sha256 (gs_position_snapshot_hash s) ''snapshot.position_snapshot_hash'')
          \<and> is_ok (timestamp_of (gs_observed_at s) ''timestamp''))
        ''broker snapshot timestamp/hash is invalid'',
      snap (gs_connected s = JBool True) ''broker snapshot is disconnected'',
      snap (gs_fresh s = JBool True) ''broker snapshot is not fresh'']"

definition snapshot_time :: "gateway_snapshot \<Rightarrow> int" where
  "snapshot_time s = (case timestamp_of (gs_observed_at s) ''timestamp'' of Inl _ \<Rightarrow> 0 | Inr t \<Rightarrow> t)"

text \<open>More than \<open>FUTURE_SKEW_SECONDS\<close> ahead or \<open>SNAPSHOT_STALE_SECONDS\<close> behind.\<close>

definition out_of_window :: "int \<Rightarrow> int \<Rightarrow> bool" where
  "out_of_window observed now \<longleftrightarrow>
     observed - now > FUTURE_SKEW_SECONDS * 1000000 \<or> now - observed > SNAPSHOT_STALE_SECONDS * 1000000"

definition snapshot_bound :: "'g oenv \<Rightarrow> gateway_snapshot \<Rightarrow> bool" where
  "snapshot_bound e s \<longleftrightarrow> gs_account_scope s = JStr (fe_scope e) \<and> gs_environment s = JStr (oe_environment e)"

definition snapshot_scope :: "'g oenv \<Rightarrow> gateway_snapshot \<Rightarrow> unit res" where
  "snapshot_scope e s = checks
     [snap (\<not> (truthy (gs_account_scope s) \<and> gs_account_scope s \<noteq> JStr (fe_scope e)))
        ''broker snapshot account scope mismatch'',
      snap (\<not> (truthy (gs_environment s) \<and> gs_environment s \<noteq> JStr (oe_environment e)))
        ''broker snapshot environment mismatch'',
      snap (\<not> ((fe_scope e \<noteq> ''account:default'' \<and> gs_account_scope s \<noteq> JStr (fe_scope e))
          \<or> (oe_environment e \<noteq> ''test'' \<and> gs_environment s \<noteq> JStr (oe_environment e))))
        ''broker snapshot must bind account and environment'',
      snap (\<not> (\<not> oe_test_mode e \<and> \<not> snapshot_bound e s))
        ''production snapshot must bind account and environment'']"

definition snapshot_generation :: "json \<Rightarrow> gateway_snapshot \<Rightarrow> bool \<Rightarrow> unit res" where
  "snapshot_generation state s require_advance =
     (let broker = get_or state ''broker'' (JObj []);
          previous = int_of (get_or broker ''generation'' (JInt 0));
          previous_at = str_or broker ''last_snapshot_at'' EPOCH_TIMESTAMP;
          initial = (previous_at = EPOCH_TIMESTAMP \<and> \<not> truthy (fld broker ''connected''));
          generation = the_int (gs_generation s)
      in rbind (snap (previous \<le> generation) ''broker snapshot generation regressed'') (\<lambda>_.
        rbind (snap (initial \<or> \<not> (require_advance \<and> generation = previous))
          ''broker snapshot generation is stale'') (\<lambda>_.
        rbind (timestamp_of (JStr previous_at) ''timestamp'') (\<lambda>before.
        snap (before \<le> snapshot_time s) ''broker snapshot timestamp rolled back''))))"

definition snapshot_facts :: "gateway_snapshot \<Rightarrow> unit res" where
  "snapshot_facts s = checks
     [snap (is_obj (gs_orders s) \<and> is_obj (gs_positions s))
        ''broker orders/positions facts must be objects'',
      snap (is_ok (detached_json (gs_orders s)) \<and> is_ok (detached_json (gs_positions s)))
        ''broker orders/positions facts are not canonical JSON'',
      snap (int_at_least 0 (gs_active_order_count s)
          \<and> the_int (gs_active_order_count s) = dlen (gs_orders s))
        ''active order count does not close against broker facts'']"

definition present_strings :: "json \<Rightarrow> string list \<Rightarrow> string list" where
  "present_strings raw names =
     map (\<lambda>f. py_str (fld raw f)) (filter (\<lambda>f. truthy (fld raw f)) names)"

definition CLOSED_INTENT_STATES :: "string list" where
  "CLOSED_INTENT_STATES = [''TERMINAL'', ''RECONCILED'', ''CANCELLED'']"

definition open_send :: "json \<Rightarrow> bool" where
  "open_send raw \<longleftrightarrow> get_or raw ''action'' (JStr ''send'') = JStr ''send''
     \<and> \<not> str_sat (\<lambda>st. st \<in> set CLOSED_INTENT_STATES) (fld raw ''state'')"

definition known_order_names :: "json \<Rightarrow> string list" where
  "known_order_names state = concat
     (map (\<lambda>(_, raw). present_strings raw [''intent_id'', ''idempotency_key'', ''broker_order_id''])
       (filter (\<lambda>(k, raw). \<not> key_alias k \<and> is_obj raw \<and> open_send raw) (items (intents_of state))))"

definition order_names :: "string \<times> json \<Rightarrow> string list" where
  "order_names entry = fst entry # present_strings (snd entry)
     [''intent_id'', ''send_intent_id'', ''idempotency_key'', ''broker_order_id'']"

definition snapshot_orders_known :: "json \<Rightarrow> gateway_snapshot \<Rightarrow> unit res" where
  "snapshot_orders_known state s =
     rall (\<lambda>entry. rbind (snap (is_obj (snd entry)) ''broker order fact is not an object'') (\<lambda>_.
         snap (list_ex (\<lambda>n. n \<in> set (known_order_names state)) (order_names entry))
           ''broker active order has no durable send intent''))
       (items (gs_orders s))"

definition snapshot_admitted :: "'g oenv \<Rightarrow> json \<Rightarrow> gateway_snapshot \<Rightarrow> bool \<Rightarrow> int \<Rightarrow> unit res" where
  "snapshot_admitted e state s require_advance now = checks
     [snap (\<not> out_of_window (snapshot_time s) now) ''broker snapshot timestamp is not fresh'',
      snapshot_scope e s,
      snapshot_generation state s require_advance,
      snapshot_facts s,
      snapshot_orders_known state s,
      snap (JStr (json_hash (gs_positions s)) = gs_position_snapshot_hash s)
        ''broker position facts do not match their canonical hash'']"

definition validate_reconcile_snapshot ::
  "'g oenv \<Rightarrow> json \<Rightarrow> gateway_snapshot \<Rightarrow> bool \<Rightarrow> ('g, unit) wop" where
  "validate_reconcile_snapshot e state s require_advance =
     abind (alift (snapshot_fields s)) (\<lambda>_.
     abind (utc_now e) (\<lambda>now. alift (snapshot_admitted e state s require_advance now)))"

section \<open>Application\<close>

definition apply_snapshot :: "gateway_snapshot \<Rightarrow> string \<Rightarrow> json \<Rightarrow> json res" where
  "apply_snapshot s run_id state =
     rbind (detached_json (gs_orders s)) (\<lambda>orders.
     rbind (detached_json (gs_positions s)) (\<lambda>positions.
     let with_broker = dset state ''broker'' (JObj
           [(''connected'', gs_connected s), (''generation'', gs_generation s),
            (''active_order_count'', gs_active_order_count s),
            (''position_snapshot_hash'', gs_position_snapshot_hash s),
            (''last_snapshot_at'', gs_observed_at s), (''orders'', orders), (''positions'', positions)])
     in Inr (dset with_broker ''reconciliation'' (dupdate (fld with_broker ''reconciliation'')
          [(''run_id'', JStr run_id), (''fresh_snapshot_id'', gs_snapshot_id s)]))))"

text \<open>
  The new lease of the high-water floor, with the expiry of the present one: \<open>None\<close> when the snapshot
  carries no mark or none above the local one.
\<close>

definition remote_fence_floor :: "json \<Rightarrow> gateway_snapshot \<Rightarrow> (int \<times> json) option res" where
  "remote_fence_floor state s =
     (let epoch = gs_fence_epoch s; token = gs_fence_token s; lease = fld state ''lease'' in
      if epoch = JNull \<and> token = JNull then Inr None
      else if \<not> (int_at_least 0 epoch \<and> int_at_least 0 token)
      then raise SnapshotRejected ''remote fence high-water is invalid''
      else if \<not> is_obj lease then raise SnapshotRejected ''durable lease is invalid''
      else case (py_int (get_or lease ''epoch'' (JInt 0)), py_int (get_or lease ''fencing_token'' (JInt 0)),
          timestamp_of (JStr (str_or lease ''lease_expires_at'' EPOCH_TIMESTAMP)) ''timestamp'') of
        (Some local_epoch, Some local_token, Inr expires_at) \<Rightarrow>
          if local_epoch < 0 \<or> local_token < 0 then raise SnapshotRejected ''durable lease is invalid''
          else if the_int epoch \<le> local_epoch \<and> the_int token \<le> local_token then Inr None
          else Inr (Some (expires_at, dset (dset lease ''epoch'' (JInt (max local_epoch (the_int epoch))))
                 ''fencing_token'' (JInt (max local_token (the_int token)))))
      | _ \<Rightarrow> raise SnapshotRejected ''durable lease is invalid'')"

definition apply_remote_fence_high_water_floor ::
  "'g oenv \<Rightarrow> gateway_snapshot \<Rightarrow> json \<Rightarrow> ('g, json) wop" where
  "apply_remote_fence_high_water_floor e s state =
     abind (alift (remote_fence_floor state s)) (\<lambda>floor.
     case floor of None \<Rightarrow> aret state
     | Some (expires_at, lease) \<Rightarrow>
         abind (if truthy (fld (fld state ''lease'') ''owner_id'')
           then abind (utc_now e) (\<lambda>now. aguard (\<not> now < expires_at) (Exn SnapshotRejected
             ''remote fence high-water conflicts with a live local leader''))
           else aret ()) (\<lambda>_.
         aret (dset state ''lease'' lease)))"

section \<open>Halting\<close>

definition stamp :: "'g oenv \<Rightarrow> ('g, json) wop" where
  "stamp e = abind (utc_now e) (\<lambda>t. aret (JStr (format_utc t)))"

definition or_halt_locally :: "('g, unit) wop \<Rightarrow> ('g, unit) wop" where
  "or_halt_locally m =
     acatch m (\<lambda>x. if is_a x RepositoryUnavailableError then halt_locally else athrow x)"

definition reconcile_required_doc :: "json \<Rightarrow> json" where
  "reconcile_required_doc d =
     (let d1 = dset d ''lifecycle'' (JStr ''HALTED_RECONCILE_REQUIRED'')
      in dset d1 ''reconciliation'' (dupdate (fld d1 ''reconciliation'')
        [(''state'', JStr ''REQUIRED''), (''unknown_outcomes'', JInt (dlen (fld d1 ''unknown_outcomes'')))]))"

definition mark_reconcile_halted :: "'g oenv \<Rightarrow> string \<Rightarrow> ('g, unit) wop" where
  "mark_reconcile_halted e reason =
     or_halt_locally (update_doc e (\<lambda>d. abind (stamp e) (\<lambda>t.
       aret (append_to (reconcile_required_doc d) ''audit'' (JObj
         [(''kind'', JStr ''reconcile_rejected''), (''reason'', JStr reason), (''observed_at'', t)])))) None)"

definition mark_cancel_failure :: "'g oenv \<Rightarrow> string \<Rightarrow> string \<Rightarrow> ('g, unit) wop" where
  "mark_cancel_failure e target_id reason =
     or_halt_locally (update_doc e (\<lambda>d. abind (stamp e) (\<lambda>t.
       aret (append_to (reconcile_required_doc d) ''audit'' (JObj
         [(''kind'', JStr ''cancel_rejected''), (''target_intent_id'', JStr target_id),
          (''reason'', JStr reason), (''observed_at'', t)])))) None)"

end
