(* ===== verification/Orch_Intents.thy ===== *)
theory Orch_Intents
  imports Orch_Snapshot
begin

text \<open>
  The life of one durable intent after it has been written: what a gateway result, an unknown
  outcome, a query or a cancelled target do to the document.
\<close>

section \<open>Transitions inside a write\<close>

definition intent_archive_entry :: "string \<Rightarrow> json \<Rightarrow> json \<Rightarrow> json" where
  "intent_archive_entry intent_id raw t = JObj
     [(''kind'', JStr ''intent_terminal''), (''intent_id'', JStr intent_id),
      (''idempotency_key'', fld raw ''idempotency_key''),
      (''broker_order_id'', fld raw ''broker_order_id''), (''archived_at'', t)]"

definition put_raw_intent :: "json \<Rightarrow> string \<Rightarrow> json \<Rightarrow> json" where
  "put_raw_intent state intent_id raw = dset state ''send_intents'' (dset (fld state ''send_intents'') intent_id raw)"

definition put_unknown :: "json \<Rightarrow> string \<Rightarrow> json \<Rightarrow> json" where
  "put_unknown state intent_id reason =
     set_in state ''unknown_outcomes'' intent_id (JObj [(''reason'', reason)])"

definition drop_unknown :: "json \<Rightarrow> string \<Rightarrow> json" where
  "drop_unknown state intent_id =
     dset state ''unknown_outcomes'' (dpop (fld state ''unknown_outcomes'') intent_id)"

definition ends_intent :: "string \<Rightarrow> json \<Rightarrow> bool" where
  "ends_intent state_name prior \<longleftrightarrow> state_name \<in> {''TERMINAL'', ''CANCELLED''}
     \<and> \<not> str_sat (\<lambda>p. p \<in> {''TERMINAL'', ''CANCELLED''}) prior"

definition apply_intent_result_transition ::
  "'g oenv \<Rightarrow> string \<Rightarrow> string \<Rightarrow> json \<Rightarrow> json \<Rightarrow> ('g, json) wop" where
  "apply_intent_result_transition e intent_id state_name broker_order_id state =
     (let raw = fld (fld state ''send_intents'') intent_id in
      if \<not> is_obj raw
      then athrow (Exn RepositoryUnavailableError ''intent disappeared after gateway call'')
      else
        let named = dset raw ''state'' (JStr state_name);
            done = (if broker_order_id = JNull then named
                    else dset named ''broker_order_id'' (JStr (py_str broker_order_id)));
            moved = put_raw_intent state intent_id done
        in abind (if ends_intent state_name (fld raw ''state'')
             then abind (stamp e) (\<lambda>t.
               aret (append_to moved ''terminal_archive'' (intent_archive_entry intent_id done t)))
             else aret moved) (\<lambda>archived.
           aret (if state_name = ''UNKNOWN_OUTCOME''
                 then put_unknown archived intent_id (JStr ''gateway returned unknown'') else archived)))"

section \<open>Unknown outcomes\<close>

definition mark_unknown_intent_doc :: "string \<Rightarrow> string \<Rightarrow> json \<Rightarrow> json res" where
  "mark_unknown_intent_doc intent_id reason state =
     (let raw = fld (fld state ''send_intents'') intent_id in
      if \<not> is_obj raw
      then raise RepositoryUnavailableError ''intent disappeared while marking unknown''
      else
        let d1 = put_raw_intent state intent_id
              (dset (dset raw ''state'' (JStr ''UNKNOWN_OUTCOME'')) ''unknown_reason'' (JStr reason));
            d2 = put_unknown d1 intent_id (JStr reason);
            d3 = dset d2 ''reconciliation'' (dupdate (fld d2 ''reconciliation'')
              [(''state'', JStr ''UNKNOWN''), (''unknown_outcomes'', JInt (dlen (fld d2 ''unknown_outcomes'')))])
        in Inr (dset d3 ''lifecycle'' (JStr ''HALTED_UNKNOWN_OUTCOME'')))"

text \<open>Not being able to record the unknown outcome halts this process.\<close>

definition mark_unknown :: "'g oenv \<Rightarrow> string \<Rightarrow> string \<Rightarrow> ('g, unit) wop" where
  "mark_unknown e intent_id reason =
     acatch (update_doc e (\<lambda>d. alift (mark_unknown_intent_doc intent_id reason d)) None)
       (\<lambda>_. halt_locally)"

definition close_unknown_doc :: "string \<Rightarrow> json \<Rightarrow> json" where
  "close_unknown_doc intent_id state =
     (let d1 = drop_unknown state intent_id;
          d2 = (if is_obj (fld (fld d1 ''send_intents'') intent_id)
                then set_intent_field d1 intent_id ''state'' (JStr ''RECONCILED'') else d1);
          count = dlen (fld d2 ''unknown_outcomes'');
          d3 = set_in d2 ''reconciliation'' ''unknown_outcomes'' (JInt count)
      in if count \<noteq> 0 then d3
         else let d4 = set_in d3 ''reconciliation'' ''state'' (JStr ''RECONCILED'')
              in if fld d4 ''lifecycle'' = JStr ''HALTED_UNKNOWN_OUTCOME''
                 then dset d4 ''lifecycle'' (JStr ''READY'') else d4)"

definition close_unknown_if_resolved :: "'g oenv \<Rightarrow> string \<Rightarrow> ('g, unit) wop" where
  "close_unknown_if_resolved e intent_id =
     update_doc e (\<lambda>d. aret (close_unknown_doc intent_id d)) None"

section \<open>Recording a gateway result\<close>

definition RESULT_STATES :: "string list" where
  "RESULT_STATES = [''SUBMITTED'', ''ACKNOWLEDGED'', ''TERMINAL'', ''RECONCILED'', ''CANCEL_REQUESTED'',
     ''CANCELLED'']"

text \<open>The state a gateway result stands for, or why it stands for none.\<close>

definition result_state :: "json \<Rightarrow> string + string" where
  "result_state result =
     (let raw = fld result ''state'' in
      if \<not> str_sat (\<lambda>s. str_upper s \<notin> {'''', ''UNKNOWN'', ''UNKNOWN_OUTCOME'', ''PENDING''}) raw
      then Inl ''gateway returned an unknown outcome state''
      else let name = (if str_upper (the_str raw) = ''REJECTED'' then ''TERMINAL''
                       else str_upper (the_str raw))
           in if name \<in> set RESULT_STATES then Inr name
              else Inl ''gateway returned an unsupported execution state'')"

definition mark_intent_result :: "'g oenv \<Rightarrow> string \<Rightarrow> json \<Rightarrow> ('g, unit) wop" where
  "mark_intent_result e intent_id result =
     (case result_state result of
        Inl reason \<Rightarrow>
          abind (mark_unknown e intent_id reason) (\<lambda>_. athrow (Exn GatewayTimeout reason))
      | Inr name \<Rightarrow>
          acatch (update_doc e (apply_intent_result_transition e intent_id name
              (fld result ''broker_order_id'')) None)
            (\<lambda>_. abind halt_locally (\<lambda>_.
              athrow (Exn RepositoryUnavailableError ''cannot durably record gateway result''))))"

definition cancelled_target_doc :: "string \<Rightarrow> json \<Rightarrow> json \<Rightarrow> json" where
  "cancelled_target_doc target_id t state =
     (let target = fld (fld state ''send_intents'') target_id in
      put_raw_intent (append_to state ''terminal_archive'' (intent_archive_entry target_id target t))
        target_id (dset target ''state'' (JStr ''TERMINAL'')))"

definition mark_cancelled_target :: "'g oenv \<Rightarrow> string \<Rightarrow> ('g, unit) wop" where
  "mark_cancelled_target e target_id =
     update_doc e (\<lambda>d.
       let target = fld (fld d ''send_intents'') target_id in
       if is_obj target \<and> fld target ''state'' \<noteq> JStr ''TERMINAL''
       then abind (stamp e) (\<lambda>t. aret (cancelled_target_doc target_id t d))
       else aret d) None"

definition cancel_result_is_terminal :: "json \<Rightarrow> bool" where
  "cancel_result_is_terminal result \<longleftrightarrow> is_obj result
     \<and> fld result ''accepted'' \<noteq> JBool False \<and> fld result ''cancelled'' \<noteq> JBool False
     \<and> state_upper result '''' \<in> {''CANCELLED'', ''TERMINAL'', ''RECONCILED''}"

text \<open>\<open>dict(result or {})\<close> for the object or \<open>None\<close> a gateway returns; other values do not convert.\<close>

definition result_dict :: "json \<Rightarrow> json res" where
  "result_dict result =
     (if \<not> truthy result then Inr (JObj [])
      else if is_obj result then Inr result else raise PyTypeError ''dict()'')"

section \<open>Querying\<close>

text \<open>A cancel without a broker id of its own is asked about under its target's id.\<close>

definition query_target :: "json \<Rightarrow> send_intent \<Rightarrow> send_intent" where
  "query_target state i =
     (if si_action i = ''cancel'' \<and> si_broker_order_id i = JNull \<and> si_target_intent_id i \<noteq> JNull
      then let b = fld (fld (intents_of state) (py_str (si_target_intent_id i))) ''broker_order_id''
           in if str_sat (\<lambda>x. x \<noteq> []) b then i\<lparr>si_broker_order_id := b\<rparr> else i
      else i)"

definition query_intent :: "'g oenv \<Rightarrow> string \<Rightarrow> ('g, json) wop" where
  "query_intent e intent_id =
     abind (alift (validate_identifier (JStr intent_id) ''intent_id'')) (\<lambda>intent_id.
     abind (read_state e) (\<lambda>state.
     let raw = fld (intents_of state) intent_id in
     if \<not> is_obj raw then athrow (Exn MutationRejected ''intent does not exist'')
     else
       let intent = query_target state (intent_from_dict raw);
           context = context_from_intent e intent
       in abind (acatch (abind (call_gateway e (gw_query (oe_gateway e) intent context)) (\<lambda>r.
              abind (alift (result_dict r)) (\<lambda>d. aret (Inr d))))
            (\<lambda>x. aret (Inl (exn_text x)))) (\<lambda>answer.
          case answer of
            Inl error \<Rightarrow> aret (JObj [(''intent_id'', JStr intent_id),
              (''state'', JStr ''UNKNOWN_OUTCOME''), (''error'', JStr error)])
          | Inr result \<Rightarrow>
              abind (aif (\<not> outcome_is_unknown result)
                (abind (mark_intent_result e intent_id result) (\<lambda>_.
                  close_unknown_if_resolved e intent_id))) (\<lambda>_.
              aret (dupdate (JObj [(''intent_id'', JStr intent_id)]) (items result))))))"

end
