(* ===== verification/Orch_Evidence.thy ===== *)
theory Orch_Evidence
  imports Orch_World Quote_Proof
begin

text \<open>
  The four kinds of internal evidence that \<open>process_command\<close> validates before it takes the command
  lock. Evidence never comes through the command schema; each kind belongs to one command.
\<close>

definition rejected :: "string \<Rightarrow> 'a res" where
  "rejected msg = raise MutationRejected msg"

definition must :: "bool \<Rightarrow> string \<Rightarrow> unit res" where
  "must ok msg = rguard ok (Exn MutationRejected msg)"

section \<open>Preview\<close>

definition PREVIEW_EVIDENCE_FIELDS :: "string list" where
  "PREVIEW_EVIDENCE_FIELDS =
     [''plan_hash'', ''receipt_id'', ''receipt_sha256'', ''artifact_id'', ''artifact_sha256'']"

definition wants_simnow :: "envelope \<Rightarrow> bool" where
  "wants_simnow c \<longleftrightarrow> env_command c = ''preview''
     \<and> fld (env_payload c) ''mode'' = JStr ''simnow_preview''"

definition unit_res :: "'a res \<Rightarrow> unit res" where
  "unit_res m = rbind m (\<lambda>_. Inr ())"

definition check_preview_evidence :: "envelope \<Rightarrow> json \<Rightarrow> unit res" where
  "check_preview_evidence c raw = checks
     [must (wants_simnow c) ''internal preview evidence is limited to SIMNOW preview'',
      must (is_obj raw) ''internal preview evidence is invalid'',
      must (keys_are raw PREVIEW_EVIDENCE_FIELDS) ''internal preview evidence fields are not exact'',
      unit_res (validate_sha256 (fld raw ''plan_hash'') ''preview_evidence.plan_hash''),
      unit_res (validate_identifier (fld raw ''receipt_id'') ''preview_evidence.receipt_id''),
      unit_res (validate_sha256 (fld raw ''receipt_sha256'') ''preview_evidence.receipt_sha256''),
      unit_res (validate_identifier (fld raw ''artifact_id'') ''preview_evidence.artifact_id''),
      unit_res (validate_sha256 (fld raw ''artifact_sha256'') ''preview_evidence.artifact_sha256''),
      must (jeq (fld raw ''plan_hash'') (fld (env_payload c) ''plan_hash'')
          \<and> jeq (fld raw ''receipt_id'') (fld (env_payload c) ''receipt_id'')
          \<and> jeq (fld raw ''artifact_sha256'') (fld (env_payload c) ''artifact_hash''))
        ''internal preview evidence does not bind command'']"

definition validated_preview_evidence :: "envelope \<Rightarrow> json option \<Rightarrow> json option res" where
  "validated_preview_evidence c evidence =
     (case evidence of
        None \<Rightarrow> rbind (must (\<not> wants_simnow c) ''SIMNOW preview requires verified internal evidence'')
          (\<lambda>_. Inr None)
      | Some raw \<Rightarrow> rbind (check_preview_evidence c raw) (\<lambda>_. Inr (Some raw)))"

section \<open>Start\<close>

definition validated_start_evidence :: "envelope \<Rightarrow> json option \<Rightarrow> json option res" where
  "validated_start_evidence c evidence =
     (case evidence of
        None \<Rightarrow> Inr None
      | Some proof \<Rightarrow>
          rbind (must (env_command c = ''start'') ''internal start quote evidence is limited to start'') (\<lambda>_.
          rbind (rcatch (validate_execution_start_quote_proof proof) (\<lambda>x.
              if is_a x PyValueError then rejected ''internal start quote evidence is invalid'' else Inl x))
            (\<lambda>raw.
          rbind (must (jeq (fld raw ''plan_id'') (fld (env_payload c) ''plan_id'')
              \<and> jeq (fld raw ''plan_hash'') (fld (env_payload c) ''plan_hash''))
            ''internal start quote evidence does not bind command'') (\<lambda>_. Inr (Some raw)))))"

section \<open>Rollover\<close>

definition ROLLOVER_FIELDS :: "string list" where
  "ROLLOVER_FIELDS = [''schema_version'', ''plan_id'', ''plan_hash'', ''intent_trading_day'',
     ''time_condition'', ''intent_ids'']"

definition day_text :: "json \<Rightarrow> bool" where
  "day_text v = str_sat (\<lambda>s. length s = 8 \<and> list_all is_digit_char s) v"

text \<open>
  \<open>sorted(set(ids))\<close> is the list itself exactly when it is strictly increasing. An entry that is no
  text is refused either way: Python raises a \<open>TypeError\<close> or the identifier error of the next check,
  the model this rejection.
\<close>

definition strictly_sorted_strings :: "json list \<Rightarrow> bool" where
  "strictly_sorted_strings xs \<longleftrightarrow>
     list_all is_jstr xs \<and> sorted_wrt (<) (map the_str xs)"

definition check_rollover_evidence :: "envelope \<Rightarrow> json \<Rightarrow> unit res" where
  "check_rollover_evidence c raw = checks
     [must (env_command c = ''reconcile'' \<and> is_obj raw)
        ''internal trading-day rollover evidence is limited to reconcile'',
      must (keys_are raw ROLLOVER_FIELDS
          \<and> fld raw ''schema_version'' = JStr ''execution_gfd_rollover_evidence_v1'')
        ''internal trading-day rollover evidence is invalid'',
      unit_res (validate_identifier (fld raw ''plan_id'') ''rollover_evidence.plan_id''),
      unit_res (validate_sha256 (fld raw ''plan_hash'') ''rollover_evidence.plan_hash''),
      must (fld raw ''time_condition'' = JStr ''GFD'' \<and> day_text (fld raw ''intent_trading_day'')
          \<and> is_jarr (fld raw ''intent_ids'') \<and> strictly_sorted_strings (jarr (fld raw ''intent_ids'')))
        ''internal trading-day rollover evidence is invalid'',
      rall (\<lambda>i. unit_res (validate_identifier i ''rollover_evidence.intent_id''))
        (jarr (fld raw ''intent_ids''))]"

definition validated_rollover_evidence :: "envelope \<Rightarrow> json option \<Rightarrow> json option res" where
  "validated_rollover_evidence c evidence =
     (case evidence of None \<Rightarrow> Inr None
      | Some raw \<Rightarrow> rbind (check_rollover_evidence c raw) (\<lambda>_. Inr (Some raw)))"

section \<open>Finalization\<close>

definition FINALIZATION_IDENTIFIERS :: "string list" where
  "FINALIZATION_IDENTIFIERS = [''plan_id'', ''authority_artifact_id'', ''authority_receipt_id'',
     ''preview_receipt_id'', ''preview_artifact_id'']"

definition FINALIZATION_HASHES :: "string list" where
  "FINALIZATION_HASHES = [''plan_hash'', ''expected_after_position_hash'',
     ''authority_artifact_sha256'', ''authority_receipt_sha256'', ''preview_receipt_sha256'',
     ''preview_artifact_sha256'']"

definition FINALIZATION_FIELDS :: "string list" where
  "FINALIZATION_FIELDS = FINALIZATION_IDENTIFIERS @ FINALIZATION_HASHES @ [''expected_send_intent_bindings'']"

definition V3_PROOF_HASHES :: "string list" where
  "V3_PROOF_HASHES = [''creation_quote_proof_sha256'', ''start_quote_proof_sha256'']"

definition V3_PROOF_FIELDS :: "string list" where
  "V3_PROOF_FIELDS = ''execution_run_id'' # V3_PROOF_HASHES"

definition INTENT_BINDING_FIELDS :: "string list" where
  "INTENT_BINDING_FIELDS = [''intent_id'', ''idempotency_key'', ''request_hash'', ''receipt_id'',
     ''receipt_hash'', ''action'', ''target_intent_id'', ''plan_id'', ''plan_hash'']"

definition evidence_field :: "string \<Rightarrow> string" where
  "evidence_field f = ''finalization_evidence.'' @ f"

definition check_intent_binding :: "json \<Rightarrow> json \<Rightarrow> unit res" where
  "check_intent_binding raw binding = checks
     [rall (\<lambda>f. unit_res (validate_identifier (fld binding f) (evidence_field f)))
        [''intent_id'', ''receipt_id''],
      unit_res (validate_idempotency_key (fld binding ''idempotency_key'')),
      rall (\<lambda>f. unit_res (validate_sha256 (fld binding f) (evidence_field f)))
        [''request_hash'', ''receipt_hash'', ''plan_hash''],
      must (fld binding ''action'' = JStr ''send'' \<and> fld binding ''target_intent_id'' = JNull
          \<and> jeq (fld binding ''plan_id'') (fld raw ''plan_id'')
          \<and> jeq (fld binding ''plan_hash'') (fld raw ''plan_hash''))
        ''internal finalization expected intent binding mismatches plan'',
      unit_res (validate_identifier (fld binding ''plan_id'') ''finalization_evidence.binding.plan_id'')]"

definition binding_texts :: "json \<Rightarrow> string \<Rightarrow> string list" where
  "binding_texts raw f = map (\<lambda>b. py_str (fld b f)) (jarr (fld raw ''expected_send_intent_bindings''))"

definition check_finalization_evidence :: "envelope \<Rightarrow> json \<Rightarrow> unit res" where
  "check_finalization_evidence c raw =
     (let bindings = jarr (fld raw ''expected_send_intent_bindings'') in checks
       [must (env_command c = ''reconcile'') ''internal finalization evidence is limited to reconciliation'',
        must (is_obj raw) ''internal finalization evidence is invalid'',
        must (keys_are raw FINALIZATION_FIELDS \<or> keys_are raw (FINALIZATION_FIELDS @ V3_PROOF_FIELDS))
          ''internal finalization evidence fields are not exact'',
        rall (\<lambda>f. unit_res (validate_identifier (fld raw f) (evidence_field f))) FINALIZATION_IDENTIFIERS,
        (if has_key raw ''execution_run_id''
         then unit_res (validate_identifier (fld raw ''execution_run_id'') (evidence_field ''execution_run_id''))
         else Inr ()),
        rall (\<lambda>f. unit_res (validate_sha256 (fld raw f) (evidence_field f)))
          (FINALIZATION_HASHES @ filter (has_key raw) V3_PROOF_HASHES),
        must (is_jarr (fld raw ''expected_send_intent_bindings'') \<and> bindings \<noteq> []
            \<and> list_all (\<lambda>b. is_obj b \<and> keys_are b INTENT_BINDING_FIELDS) bindings)
          ''internal finalization expected intent bindings are invalid'',
        rall (check_intent_binding raw) bindings,
        must (distinct (binding_texts raw ''intent_id'') \<and> distinct (binding_texts raw ''idempotency_key''))
          ''internal finalization expected intent bindings are not unique''])"

definition validated_finalization_evidence :: "envelope \<Rightarrow> json option \<Rightarrow> json option res" where
  "validated_finalization_evidence c evidence =
     (case evidence of None \<Rightarrow> Inr None
      | Some raw \<Rightarrow> rbind (check_finalization_evidence c raw) (\<lambda>_. Inr (Some raw)))"

end
