(* ===== verification/Orch_Finalize.thy ===== *)
theory Orch_Finalize
  imports Orch_Intents Orch_Evidence
begin

text \<open>
  The two pieces of internal evidence that act inside a reconciliation: closing yesterday's
  good-for-day intents after a trading-day rollover, and completing the final plan.
\<close>

section \<open>Trading-day rollover\<close>

definition SHANGHAI_OFFSET :: int where
  "SHANGHAI_OFFSET = 8 * 3600 * 1000000"

definition local_day :: "int \<Rightarrow> string" where
  "local_day t =
     (let (y, m, d) = civil_of_day ((t + SHANGHAI_OFFSET) div day_micros + epoch_day)
      in pad4 (nat y) @ pad2 (nat m) @ pad2 (nat d))"

definition local_minute :: "int \<Rightarrow> int" where
  "local_minute t = (t + SHANGHAI_OFFSET) mod day_micros div 60000000"

definition in_day_session :: "string \<Rightarrow> json \<Rightarrow> bool" where
  "in_day_session day created_at =
     (case timestamp_of created_at ''intent.created_at'' of
        Inl _ \<Rightarrow> False
      | Inr t \<Rightarrow> local_day t = day \<and> 8 * 60 + 30 \<le> local_minute t \<and> local_minute t < 15 * 60)"

definition rollover_applies :: "json \<Rightarrow> gateway_snapshot \<Rightarrow> json \<Rightarrow> bool" where
  "rollover_applies state s evidence \<longleftrightarrow>
     (let active = get_or state ''plan'' (JObj []) in
      fld active ''state'' = JStr ''ACTIVE''
      \<and> jeq (fld active ''plan_id'') (fld evidence ''plan_id'')
      \<and> jeq (fld active ''plan_hash'') (fld evidence ''plan_hash'')
      \<and> day_text (gs_trading_day s)
      \<and> the_str (fld evidence ''intent_trading_day'') < the_str (gs_trading_day s)
      \<and> gs_time_condition s = JStr ''GFD''
      \<and> jeq (gs_active_order_count s) (JInt 0) \<and> \<not> truthy (gs_orders s))"

definition rollover_eligible :: "json \<Rightarrow> json \<Rightarrow> string \<times> json \<Rightarrow> bool" where
  "rollover_eligible state evidence entry \<longleftrightarrow>
     (let (intent_id, outcome) = entry; raw = fld (intents_of state) intent_id in
      JStr intent_id \<in> set (jarr (fld evidence ''intent_ids'')) \<and> is_obj raw
      \<and> fld raw ''action'' = JStr ''send''
      \<and> jeq (fld raw ''plan_id'') (fld evidence ''plan_id'')
      \<and> jeq (fld raw ''plan_hash'') (fld evidence ''plan_hash'')
      \<and> outcome_is_unknown outcome
      \<and> in_day_session (the_str (fld evidence ''intent_trading_day'')) (fld raw ''created_at''))"

definition trading_day_rollover_terminal_ids ::
  "json \<Rightarrow> gateway_snapshot \<Rightarrow> (string \<times> json) list \<Rightarrow> json option \<Rightarrow> string list" where
  "trading_day_rollover_terminal_ids state s outcomes evidence =
     (case evidence of None \<Rightarrow> []
      | Some ev \<Rightarrow> if rollover_applies state s ev
          then map fst (filter (rollover_eligible state ev) outcomes) else [])"

section \<open>Completing the final plan\<close>

definition PROOF_FIELDS_OF_PLAN :: "string list" where
  "PROOF_FIELDS_OF_PLAN = [''preview_receipt_id'', ''preview_receipt_sha256'',
     ''preview_artifact_id'', ''preview_artifact_sha256'']"

definition finalization_binds :: "json \<Rightarrow> json \<Rightarrow> bool" where
  "finalization_binds state ev \<longleftrightarrow>
     (let plan = fld state ''plan''; authority = fld state ''authority'' in
      fld plan ''state'' = JStr ''ACTIVE''
      \<and> jeq (fld plan ''plan_id'') (fld ev ''plan_id'')
      \<and> jeq (fld plan ''plan_hash'') (fld ev ''plan_hash'')
      \<and> fld plan ''preview_mode'' = JStr ''simnow_preview''
      \<and> list_all (\<lambda>f. jeq (fld plan f) (fld ev f)) PROOF_FIELDS_OF_PLAN
      \<and> fld authority ''state'' = JStr ''ENABLED''
      \<and> jeq (fld authority ''artifact_id'') (fld ev ''authority_artifact_id'')
      \<and> jeq (fld authority ''artifact_hash'') (fld ev ''authority_artifact_sha256''))"

definition plan_send_intents :: "json \<Rightarrow> json \<Rightarrow> (string \<times> json) list" where
  "plan_send_intents state ev =
     filter (\<lambda>(_, raw). is_obj raw \<and> fld raw ''action'' = JStr ''send''
         \<and> jeq (fld raw ''plan_id'') (fld ev ''plan_id'')
         \<and> jeq (fld raw ''plan_hash'') (fld ev ''plan_hash'')) (items (fld state ''send_intents''))"

definition expected_bindings :: "json \<Rightarrow> (string \<times> json) list" where
  "expected_bindings ev =
     map (\<lambda>b. (py_str (fld b ''intent_id''), b)) (jarr (fld ev ''expected_send_intent_bindings''))"

definition binding_met :: "(string \<times> json) list \<Rightarrow> string \<times> json \<Rightarrow> bool" where
  "binding_met sends entry \<longleftrightarrow>
     (case map_of sends (fst entry) of None \<Rightarrow> False
      | Some raw \<Rightarrow> list_all (\<lambda>(f, v). jeq (fld raw f) v) (items (snd entry))
          \<and> str_sat (\<lambda>st. st \<in> {''TERMINAL'', ''RECONCILED'', ''CANCELLED''}) (fld raw ''state''))"

text \<open>Every expected intent is there, as expected, and closed, and nothing is active.\<close>

definition finalization_ready :: "json \<Rightarrow> json \<Rightarrow> bool" where
  "finalization_ready state ev \<longleftrightarrow>
     list_all (\<lambda>(k, _). k \<in> fst ` set (plan_send_intents state ev)) (expected_bindings ev)
     \<and> list_all (binding_met (plan_send_intents state ev)) (expected_bindings ev)
     \<and> int_of (get_or (fld state ''broker'') ''active_order_count'' (JInt 0)) = 0"

definition target_hash_or_null :: "'g oenv \<Rightarrow> json \<Rightarrow> json" where
  "target_hash_or_null e positions =
     (case target_position_projection_hash positions (JStr (fe_scope e)) (JStr (oe_environment e)) of
        Inl _ \<Rightarrow> JNull | Inr h \<Rightarrow> JStr h)"

definition mismatch_doc :: "json \<Rightarrow> json \<Rightarrow> json" where
  "mismatch_doc t state =
     append_to (set_in (dset state ''lifecycle'' (JStr ''HALTED_RECONCILE_REQUIRED''))
         ''reconciliation'' ''state'' (JStr ''REQUIRED''))
       ''audit'' (JObj [(''kind'', JStr ''fail_closed_halt''),
         (''reason'', JStr ''SIMNOW final target position does not match immutable target plan''),
         (''observed_at'', t)])"

definition completion_archive :: "json \<Rightarrow> json \<Rightarrow> json \<Rightarrow> json \<Rightarrow> json" where
  "completion_archive state ev target_hash t =
     JObj ([(''kind'', JStr ''final_plan_completed''), (''plan_id'', fld ev ''plan_id''),
       (''plan_hash'', fld ev ''plan_hash''),
       (''plan_version'', JInt (int_of (get_or (fld state ''plan'') ''version'' (JInt 0)))),
       (''receipt_id'', fld ev ''authority_receipt_id''),
       (''final_position_hash'', fld (fld state ''broker'') ''position_snapshot_hash''),
       (''target_position_hash'', target_hash), (''positions'', fld (fld state ''broker'') ''positions''),
       (''archived_at'', t)] @
      (if has_key ev ''execution_run_id''
       then map (\<lambda>f. (f, fld ev f))
         [''execution_run_id'', ''creation_quote_proof_sha256'', ''start_quote_proof_sha256'']
       else []))"

definition completed_plan :: "json \<Rightarrow> json \<Rightarrow> json" where
  "completed_plan state ev = JObj
     ([(''state'', JStr ''TERMINAL''), (''plan_id'', fld ev ''plan_id''), (''plan_hash'', fld ev ''plan_hash''),
       (''version'', JInt (int_of (get_or (fld state ''plan'') ''version'' (JInt 0)) + 1)),
       (''preview_mode'', JStr ''simnow_preview'')] @ map (\<lambda>f. (f, fld ev f)) PROOF_FIELDS_OF_PLAN)"

definition completed_doc :: "json \<Rightarrow> json \<Rightarrow> json \<Rightarrow> json \<Rightarrow> json" where
  "completed_doc state ev target_hash t =
     (let authority = fld state ''authority'';
          s1 = append_to state ''terminal_archive'' (completion_archive state ev target_hash t);
          s2 = dset s1 ''plan'' (completed_plan state ev);
          s3 = dset s2 ''authority'' (JObj
            [(''state'', JStr ''REVOKED''), (''artifact_id'', JStr (str_or authority ''artifact_id'' UNKNOWN_ID)),
             (''artifact_hash'', JStr (str_or authority ''artifact_hash'' ZERO_HASH)),
             (''expires_at'', JStr (str_or authority ''expires_at'' EPOCH_TIMESTAMP))])
      in dset s3 ''lifecycle'' (JStr ''READY''))"

text \<open>The finalization's report and the document it leaves.\<close>

definition apply_finalization_evidence :: "'g oenv \<Rightarrow> json \<Rightarrow> json \<Rightarrow> ('g, json \<times> json) wop" where
  "apply_finalization_evidence e ev state =
     (let final_hash = fld (fld state ''broker'') ''position_snapshot_hash'';
          target_hash = target_hash_or_null e (fld (fld state ''broker'') ''positions'')
      in if \<not> finalization_binds state ev
         then athrow (Exn PlanRejected ''internal finalization evidence does not bind active plan'')
         else if \<not> list_all (\<lambda>(k, _). k \<in> fst ` set (expected_bindings ev)) (plan_send_intents state ev)
         then athrow (Exn PlanRejected ''active plan contains a non-deterministic send intent'')
         else if \<not> finalization_ready state ev then aret (JObj [(''state'', JStr ''PENDING'')], state)
         else abind (stamp e) (\<lambda>t.
           if \<not> jeq target_hash (fld ev ''expected_after_position_hash'')
           then aret (JObj [(''state'', JStr ''POSITION_MISMATCH''), (''final_position_hash'', final_hash),
             (''target_position_hash'', target_hash)], mismatch_doc t state)
           else aret (JObj [(''state'', JStr ''COMPLETED''), (''final_position_hash'', final_hash),
             (''target_position_hash'', target_hash), (''plan'', completed_plan state ev)],
             completed_doc state ev target_hash t)))"

end
