(* ===== verification/Orch_Commands.thy ===== *)
theory Orch_Commands
  imports Orch_Snapshot
begin

text \<open>
  What a control command does to the durable document (\<open>_apply_command\<close>) and the receipt that is
  written with it. A rejected transition is recorded too: the document keeps its state and gains the
  receipt of the rejection.
\<close>

section \<open>What the command expects of the document\<close>

definition check_expected_projection :: "json \<Rightarrow> envelope \<Rightarrow> unit res" where
  "check_expected_projection state c =
     (let expected = env_expected c;
          conflict = version_conflict (Some (ev_state_version expected)) (version_of state);
          lease = fld state ''lease''
      in checks
     [(case ev_plan_hash expected of None \<Rightarrow> Inr ()
       | Some h \<Rightarrow> rguard (fld (fld state ''plan'') ''plan_hash'' = JStr h) conflict),
      (case ev_authority_hash expected of None \<Rightarrow> Inr ()
       | Some h \<Rightarrow> rguard (fld (fld state ''authority'') ''artifact_hash'' = JStr h) conflict),
      (case ev_leader_epoch expected of None \<Rightarrow> Inr ()
       | Some n \<Rightarrow> rguard (jeq (fld lease ''epoch'') (JInt n))
           (Exn FencingError ''expected leader epoch does not match durable state'')),
      (case ev_fencing_token expected of None \<Rightarrow> Inr ()
       | Some n \<Rightarrow> rguard (jeq (fld lease ''fencing_token'') (JInt n))
           (Exn FencingError ''expected fencing token does not match durable state''))])"

section \<open>Preview, enable, revoke\<close>

definition accepted_with :: "string \<Rightarrow> json \<Rightarrow> json" where
  "accepted_with section_name v = JObj [(''accepted'', JBool True), (section_name, v)]"

definition default_preview_proof :: "json \<Rightarrow> json" where
  "default_preview_proof payload = JObj
     [(''receipt_id'', get_or payload ''receipt_id'' (JStr UNKNOWN_ID)),
      (''receipt_sha256'', JStr ZERO_HASH), (''artifact_id'', JStr UNKNOWN_ID),
      (''artifact_sha256'', JStr ZERO_HASH)]"

definition previewed_plan :: "json \<Rightarrow> json \<Rightarrow> json \<Rightarrow> plan_state" where
  "previewed_plan state payload proof =
     \<lparr>ps_state = ''PREVIEWED'', ps_plan_id = ''preview-'' @ take 16 (the_str (fld payload ''plan_hash'')),
      ps_plan_hash = the_str (fld payload ''plan_hash''),
      ps_version = int_of (get_or (fld state ''plan'') ''version'' (JInt 0)) + 1,
      ps_preview_mode = the_str (fld payload ''mode''),
      ps_preview_receipt_id = the_str (fld proof ''receipt_id''),
      ps_preview_receipt_sha256 = the_str (fld proof ''receipt_sha256''),
      ps_preview_artifact_id = the_str (fld proof ''artifact_id''),
      ps_preview_artifact_sha256 = the_str (fld proof ''artifact_sha256'')\<rparr>"

definition apply_preview :: "json \<Rightarrow> json option \<Rightarrow> json \<Rightarrow> json \<times> json" where
  "apply_preview payload evidence state =
     (let proof = (case evidence of Some p \<Rightarrow> p | None \<Rightarrow> default_preview_proof payload);
          plan = plan_as_dict (previewed_plan state payload proof)
      in (accepted_with ''plan'' plan, dset state ''plan'' plan))"

definition apply_enable :: "'g oenv \<Rightarrow> json \<Rightarrow> json \<Rightarrow> ('g, json \<times> json) wop" where
  "apply_enable e payload state =
     abind (alift (timestamp_of (fld payload ''expires_at'') ''timestamp'')) (\<lambda>expiry.
     abind (utc_now e) (\<lambda>now.
     abind (aguard (\<not> expiry \<le> now)
       (Exn AuthorityRejected ''authority expiry is not in the future'')) (\<lambda>_.
     let authority = authority_as_dict \<lparr>as_state = ''ENABLED'',
           as_artifact_id = the_str (fld payload ''authority_artifact_id''),
           as_artifact_hash = the_str (fld payload ''authority_hash''),
           as_expires_at = the_str (fld payload ''expires_at'')\<rparr>;
         s1 = dset state ''authority'' authority;
         s2 = (if fld s1 ''lifecycle'' = JStr ''STARTING''
               then dset s1 ''lifecycle'' (JStr ''HALTED_RECONCILE_REQUIRED'') else s1)
     in aret (accepted_with ''authority'' authority, s2))))"

definition apply_revoke :: "json \<Rightarrow> json \<times> json" where
  "apply_revoke state =
     (let current = fld state ''authority'';
          authority = JObj [(''state'', JStr ''REVOKED''),
            (''artifact_id'', get_or current ''artifact_id'' (JStr UNKNOWN_ID)),
            (''artifact_hash'', get_or current ''artifact_hash'' (JStr ZERO_HASH)),
            (''expires_at'', get_or current ''expires_at'' (JStr EPOCH_TIMESTAMP))]
      in (accepted_with ''authority'' authority, dset state ''authority'' authority))"

section \<open>Start, stop, drain\<close>

definition START_BLOCKED :: "string list" where
  "START_BLOCKED = [''HALTED_RECONCILE_REQUIRED'', ''HALTED_UNKNOWN_OUTCOME'', ''DRAINING'', ''STOPPING'']"

text \<open>The next version of the plan, its preview provenance carried over.\<close>

definition next_plan :: "string \<Rightarrow> json \<Rightarrow> json \<Rightarrow> json \<Rightarrow> json" where
  "next_plan state_name plan_id plan_hash plan = JObj
     [(''state'', JStr state_name), (''plan_id'', plan_id), (''plan_hash'', plan_hash),
      (''version'', JInt (int_of (get_or plan ''version'' (JInt 0)) + 1)),
      (''preview_mode'', JStr (str_or plan ''preview_mode'' [])),
      (''preview_receipt_id'', JStr (str_or plan ''preview_receipt_id'' UNKNOWN_ID)),
      (''preview_receipt_sha256'', JStr (str_or plan ''preview_receipt_sha256'' ZERO_HASH)),
      (''preview_artifact_id'', JStr (str_or plan ''preview_artifact_id'' UNKNOWN_ID)),
      (''preview_artifact_sha256'', JStr (str_or plan ''preview_artifact_sha256'' ZERO_HASH))]"

definition start_allowed :: "json \<Rightarrow> unit res" where
  "start_allowed state = checks
     [rguard (\<not> str_sat (\<lambda>l. l \<in> set START_BLOCKED) (fld state ''lifecycle''))
        (Exn RestartReconciliationRequired ''fresh broker reconciliation is required before start''),
      rguard (fld (fld state ''reconciliation'') ''state'' = JStr ''RECONCILED'')
        (Exn RestartReconciliationRequired ''reconciliation is not complete'')]"

definition apply_start ::
  "'g oenv \<Rightarrow> json \<Rightarrow> json option \<Rightarrow> json \<Rightarrow> ('g, json \<times> json) wop" where
  "apply_start e payload evidence state =
     abind (require_authority e state None) (\<lambda>_.
     abind (alift (start_allowed state)) (\<lambda>_.
     let plan = next_plan ''ACTIVE'' (fld payload ''plan_id'') (fld payload ''plan_hash'') (fld state ''plan'');
         result = accepted_with ''plan'' plan
     in aret (case evidence of None \<Rightarrow> result
          | Some proof \<Rightarrow> dset result ''execution_start_quote_proof'' proof,
        dset (dset state ''plan'' plan) ''lifecycle'' (JStr ''READY''))))"

definition plan_archive_entry :: "json \<Rightarrow> json \<Rightarrow> json" where
  "plan_archive_entry plan t = JObj
     [(''kind'', JStr ''plan_terminal''), (''plan_id'', get_or plan ''plan_id'' (JStr UNKNOWN_ID)),
      (''plan_hash'', get_or plan ''plan_hash'' (JStr ZERO_HASH)),
      (''plan_version'', JInt (int_of (get_or plan ''version'' (JInt 0)))), (''archived_at'', t)]"

definition stopped_plan :: "json \<Rightarrow> json" where
  "stopped_plan plan =
     next_plan ''TERMINAL'' (get_or plan ''plan_id'' (JStr UNKNOWN_ID))
       (get_or plan ''plan_hash'' (JStr ZERO_HASH)) plan"

definition apply_stop :: "'g oenv \<Rightarrow> json \<Rightarrow> ('g, json \<times> json) wop" where
  "apply_stop e state =
     (let plan = fld state ''plan''; s1 = dset state ''plan'' (stopped_plan plan) in
      abind (if str_or plan ''state'' ''IDLE'' \<noteq> ''TERMINAL''
        then abind (stamp e) (\<lambda>t. aret (append_to s1 ''terminal_archive'' (plan_archive_entry plan t)))
        else aret s1) (\<lambda>s2.
      let s3 = (if \<not> str_sat (\<lambda>l. l \<in> {''HALTED_UNKNOWN_OUTCOME'', ''HALTED_RECONCILE_REQUIRED''})
                  (fld s2 ''lifecycle'')
                then dset s2 ''lifecycle'' (JStr ''READY'') else s2)
      in aret (accepted_with ''plan'' (stopped_plan plan), s3)))"

definition apply_drain :: "json \<Rightarrow> json \<Rightarrow> json \<times> json" where
  "apply_drain payload state =
     (JObj [(''accepted'', JBool True), (''drain_id'', fld payload ''drain_id''),
        (''lifecycle'', JStr ''DRAINING'')],
      dset state ''lifecycle'' (JStr ''DRAINING''))"

section \<open>Dispatch\<close>

text \<open>\<open>_apply_command\<close>: the command's result and the document it leaves.\<close>

definition apply_command ::
  "'g oenv \<Rightarrow> envelope \<Rightarrow> json option \<Rightarrow> json option \<Rightarrow> json \<Rightarrow> ('g, json \<times> json) wop" where
  "apply_command e c preview_evidence start_evidence state =
     (let command = env_command c; payload = env_payload c in
      abind (alift (check_expected_projection state c)) (\<lambda>_.
      if command = ''status'' \<or> command = ''overview'' then
        abind (utc_now e) (\<lambda>now. abind (aget w_local_halted) (\<lambda>halted.
          aret (JObj [(''status'', projection e halted state now)], state)))
      else if command = ''safe_to_restart'' then
        abind (aget w_local_halted) (\<lambda>halted.
          aret (JObj [(''safe_to_restart'', JBool (safe_to_restart_state halted state)),
            (''lifecycle'', fld state ''lifecycle'')], state))
      else if command = ''preview'' then aret (apply_preview payload preview_evidence state)
      else if command = ''enable'' then apply_enable e payload state
      else if command = ''revoke'' then aret (apply_revoke state)
      else if command = ''start'' then apply_start e payload start_evidence state
      else if command = ''stop'' then apply_stop e state
      else if command = ''drain'' then aret (apply_drain payload state)
      else athrow (Exn CommandValidationError (''unsupported command '' @ command))))"

section \<open>Receipts\<close>

definition receipt_for_candidate ::
  "'g oenv \<Rightarrow> json \<Rightarrow> envelope \<Rightarrow> string \<Rightarrow> json \<Rightarrow> string \<Rightarrow> ('g, json) wop" where
  "receipt_for_candidate e candidate c hash result status =
     abind (utc_now e) (\<lambda>now. aret (receipt_as_dict
       \<lparr>cr_service = act_service (env_actor c), cr_idempotency_key = env_idempotency_key c,
        cr_command_hash = hash, cr_command_id = env_command_id c,
        cr_correlation_id = env_correlation_id c, cr_actor = actor_as_dict (env_actor c),
        cr_status = status, cr_state_version = version_of candidate + 1, cr_result = result,
        cr_observed_at = format_utc now\<rparr>))"

definition command_key :: "envelope \<Rightarrow> string" where
  "command_key c = act_service (env_actor c) @ '':'' @ env_idempotency_key c"

definition with_receipt :: "envelope \<Rightarrow> json \<Rightarrow> json \<Rightarrow> json" where
  "with_receipt c receipt state =
     append_to (set_in state ''receipts'' (command_key c) receipt) ''audit''
       (dupdate (JObj [(''kind'', JStr ''command_receipt'')]) (items receipt))"

text \<open>
  A rejected transition leaves the candidate as it was when it raised: every \<open>MutationRejected\<close> of
  \<open>_apply_command\<close> is raised before the document is changed.
\<close>

definition rejection_result :: "exn \<Rightarrow> json" where
  "rejection_result x = JObj [(''accepted'', JBool False), (''error'', JStr (class_name (exn_class x))),
     (''detail'', JStr (exn_text x))]"

definition command_writer ::
  "'g oenv \<Rightarrow> envelope \<Rightarrow> json option \<Rightarrow> json option \<Rightarrow> string \<Rightarrow> json \<Rightarrow> ('g, json \<times> json) wop" where
  "command_writer e c preview_evidence start_evidence hash candidate =
     abind (acatch
         (abind (apply_command e c preview_evidence start_evidence candidate)
           (\<lambda>(result, state). aret (''COMPLETED'', result, state)))
         (\<lambda>x. if is_a x MutationRejected then aret (''REJECTED'', rejection_result x, candidate)
           else athrow x)) (\<lambda>(status, result, state).
     abind (receipt_for_candidate e state c hash result status) (\<lambda>receipt.
     aret (result, with_receipt c receipt state)))"

text \<open>The answer of a command: its receipt, its result, and whether both come from an earlier run.\<close>

definition command_response :: "json \<Rightarrow> json \<Rightarrow> bool \<Rightarrow> json" where
  "command_response receipt result reused = JObj
     [(''receipt'', receipt), (''result'', result), (''reused'', JBool reused)]"

end
