(* ===== verification/Orch_Reconcile.thy ===== *)
theory Orch_Reconcile
  imports Orch_Finalize Orch_Commands
begin

text \<open>
  The reconcile command (\<open>_reconcile_command\<close>): read-only questions to the gateway first, then one
  durable write that takes the snapshot's facts, settles every intent it could settle, decides
  whether the orchestrator is ready again, and carries the receipt.
\<close>

section \<open>The snapshot\<close>

definition reconcile_snapshot :: "'g oenv \<Rightarrow> ('g, gateway_snapshot) wop" where
  "reconcile_snapshot e =
     acatch (abind (call_gateway e (gw_readiness (oe_gateway e))) (coerce_snapshot e))
       (\<lambda>x. if list_ex (is_a x) [GatewayUnavailable, GatewayTimeout, PyTimeoutError, PyConnectionError]
         then athrow x
         else athrow (Exn GatewayUnavailable (''gateway snapshot failed: '' @ exn_text x)))"

definition is_peek :: "json \<Rightarrow> bool" where
  "is_peek v = str_sat (starts_with ''snapshot-peek-'') v"

text \<open>
  Another snapshot than the one named is accepted only when both are peeks and every fact the caller
  has bound agrees. (A snapshot id that is no text fails here; Python raises on it.)
\<close>

definition peek_facts_agree :: "gateway_snapshot \<Rightarrow> json \<Rightarrow> bool" where
  "peek_facts_agree s binding \<longleftrightarrow>
     jeq (fld binding ''generation'') (gs_generation s)
     \<and> fld binding ''position_snapshot_hash'' =
         (case before_position_projection_hash (gs_positions s) (gs_account_scope s) (gs_environment s) of
            Inl _ \<Rightarrow> JNull | Inr h \<Rightarrow> JStr h)
     \<and> jeq (fld binding ''active_order_count'') (gs_active_order_count s)"

definition peek_equivalent :: "json \<Rightarrow> gateway_snapshot \<Rightarrow> envelope \<Rightarrow> bool res" where
  "peek_equivalent state s c =
     (let binding = fld (env_payload c) ''snapshot_fact_binding'' in
      if \<not> (is_peek (fld (env_payload c) ''snapshot_id'') \<and> is_peek (gs_snapshot_id s)
          \<and> is_obj binding \<and> peek_facts_agree s binding)
      then Inr False
      else rbind (sha256_json (gs_orders s)) (\<lambda>orders_hash. Inr
        (fld binding ''active_orders_sha256'' = JStr orders_hash
         \<and> jeq (fld binding ''state_version'') (JInt (ev_state_version (env_expected c)))
         \<and> jeq (fld binding ''state_version'') (fld state ''state_version'')
         \<and> jeq (fld binding ''durable_broker_generation'') (fld (fld state ''broker'') ''generation''))))"

definition snapshot_named :: "'g oenv \<Rightarrow> json \<Rightarrow> gateway_snapshot \<Rightarrow> envelope \<Rightarrow> ('g, unit) wop" where
  "snapshot_named e state s c =
     (if gs_snapshot_id s = fld (env_payload c) ''snapshot_id'' then aret ()
      else abind (alift (peek_equivalent state s c)) (\<lambda>same.
        if same then aret ()
        else abind (mark_reconcile_halted e ''snapshot id does not match reconcile command'') (\<lambda>_.
          athrow (Exn SnapshotRejected ''broker snapshot id does not match reconcile command''))))"

text \<open>A rejected snapshot halts the orchestrator durably before the rejection is raised.\<close>

definition halting_on_rejection :: "'g oenv \<Rightarrow> (exn \<Rightarrow> string) \<Rightarrow> ('g, 'a) wop \<Rightarrow> ('g, 'a) wop" where
  "halting_on_rejection e reason m =
     acatch m (\<lambda>x. if is_a x SnapshotRejected
       then abind (mark_reconcile_halted e (reason x)) (\<lambda>_. athrow x) else athrow x)"

section \<open>Asking about unsettled intents\<close>

definition submitted_ids :: "json \<Rightarrow> string list" where
  "submitted_ids state =
     map fst (filter (\<lambda>(i, raw). \<not> has_key (unknowns_of state) i \<and> is_obj raw
       \<and> fld raw ''state'' = JStr ''SUBMITTED'') (items (intents_of state)))"

text \<open>\<open>True\<close>: the outcome was unknown; \<open>False\<close>: the intent was submitted.\<close>

definition recovery_modes :: "json \<Rightarrow> (string \<times> bool) list" where
  "recovery_modes state =
     map (\<lambda>i. (i, True)) (keys (unknowns_of state)) @ map (\<lambda>i. (i, False)) (submitted_ids state)"

definition query_outcome :: "'g oenv \<Rightarrow> json \<Rightarrow> ('g, json) wop" where
  "query_outcome e raw =
     (let intent = intent_from_dict raw in
      acatch (abind (call_gateway e (gw_query (oe_gateway e) intent (context_from_intent e intent))) (\<lambda>r.
          if is_obj r then aret r
          else athrow (Exn GatewayUnavailable ''gateway returned an invalid intent outcome'')))
        (\<lambda>x. aret (JObj [(''state'', JStr ''UNKNOWN''), (''error'', JStr (exn_text x))])))"

definition query_outcomes :: "'g oenv \<Rightarrow> json \<Rightarrow> ('g, (string \<times> json) list) wop" where
  "query_outcomes e state =
     amap (\<lambda>(i, _). abind (query_outcome e (fld (intents_of state) i)) (\<lambda>r. aret (i, r)))
       (filter (\<lambda>(i, _). is_obj (fld (intents_of state) i)) (recovery_modes state))"

section \<open>Settling one intent\<close>

definition mark_still_unknown :: "string \<Rightarrow> json \<Rightarrow> json \<Rightarrow> json" where
  "mark_still_unknown intent_id reason state =
     put_unknown (set_intent_field state intent_id ''state'' (JStr ''UNKNOWN_OUTCOME'')) intent_id reason"

definition settle_rollover :: "'g oenv \<Rightarrow> string \<Rightarrow> json \<Rightarrow> ('g, json) wop" where
  "settle_rollover e intent_id state =
     abind (apply_intent_result_transition e intent_id ''RECONCILED''
       (fld (fld (fld state ''send_intents'') intent_id) ''broker_order_id'') state) (\<lambda>s.
     aret (drop_unknown (set_intent_field s intent_id ''unknown_reason''
       (JStr ''RECONCILED_BY_TRADING_DAY_ROLLOVER'')) intent_id))"

definition settle_submitted :: "'g oenv \<Rightarrow> string \<Rightarrow> json \<Rightarrow> json \<Rightarrow> ('g, json) wop" where
  "settle_submitted e intent_id outcome state =
     (let reported = state_upper outcome '''';
          name = (if reported = ''REJECTED'' then ''TERMINAL'' else reported)
      in if name \<in> {''TERMINAL'', ''RECONCILED'', ''CANCELLED''}
         then apply_intent_result_transition e intent_id name (fld outcome ''broker_order_id'') state
         else if name \<in> {''SUBMITTED'', ''ACKNOWLEDGED'', ''CANCEL_REQUESTED''} then aret state
         else aret (mark_still_unknown intent_id
           (JStr ''gateway returned an unsupported execution state'') state))"

definition settle_intent ::
  "'g oenv \<Rightarrow> string list \<Rightarrow> (string \<times> bool) list \<Rightarrow> string \<times> json \<Rightarrow> json \<Rightarrow> ('g, json) wop" where
  "settle_intent e rollover_ids modes entry state =
     (let (intent_id, outcome) = entry in
      if \<not> is_obj (fld (fld state ''send_intents'') intent_id) then aret state
      else if outcome_is_unknown outcome then
        (if intent_id \<in> set rollover_ids then settle_rollover e intent_id state
         else aret (mark_still_unknown intent_id
           (get_or outcome ''error'' (JStr ''outcome remains unknown'')) state))
      else if map_of modes intent_id = Some True
      then aret (drop_unknown (set_intent_field state intent_id ''state'' (JStr ''RECONCILED'')) intent_id)
      else settle_submitted e intent_id outcome state)"

fun settle_intents ::
  "'g oenv \<Rightarrow> string list \<Rightarrow> (string \<times> bool) list \<Rightarrow> (string \<times> json) list \<Rightarrow> json \<Rightarrow> ('g, json) wop" where
  "settle_intents e rollover_ids modes [] state = aret state"
| "settle_intents e rollover_ids modes (entry # rest) state =
     abind (settle_intent e rollover_ids modes entry state) (settle_intents e rollover_ids modes rest)"

section \<open>The durable write\<close>

definition reconciled_doc :: "'g oenv \<Rightarrow> envelope \<Rightarrow> json \<Rightarrow> ('g, json) wop" where
  "reconciled_doc e c state =
     (let count = dlen (fld state ''unknown_outcomes'');
          rec_section = fld state ''reconciliation''
      in abind (if count = 0 then stamp e
           else aret (get_or rec_section ''last_completed_at'' (JStr EPOCH_TIMESTAMP))) (\<lambda>completed_at.
         aret (dset (dset state ''reconciliation'' (dupdate rec_section
             [(''state'', JStr (if count = 0 then ''RECONCILED'' else ''UNKNOWN'')),
              (''run_id'', fld (env_payload c) ''reconciliation_run_id''),
              (''last_completed_at'', completed_at), (''unknown_outcomes'', JInt count),
              (''fresh_snapshot_id'', fld (env_payload c) ''snapshot_id'')]))
           ''lifecycle'' (JStr (if count = 0 then ''READY'' else ''HALTED_UNKNOWN_OUTCOME'')))))"

definition reconcile_result :: "envelope \<Rightarrow> string list \<Rightarrow> json \<Rightarrow> json" where
  "reconcile_result c rollover_ids state =
     (let count = dlen (fld state ''unknown_outcomes'') in
      JObj ([(''accepted'', JBool (count = 0)), (''snapshot_id'', fld (env_payload c) ''snapshot_id''),
        (''unknown_outcomes'', JInt count), (''lifecycle'', fld state ''lifecycle'')] @
        (if rollover_ids = [] then []
         else [(''trading_day_rollover_reconciled_intent_count'',
           JInt (int (length (remdups rollover_ids))))])))"

text \<open>Result, receipt status and document after the optional finalization.\<close>

definition reconcile_finish ::
  "'g oenv \<Rightarrow> json option \<Rightarrow> json \<Rightarrow> json \<Rightarrow> ('g, json \<times> string \<times> json) wop" where
  "reconcile_finish e finalization result state =
     (let clean = (dlen (fld state ''unknown_outcomes'') = 0);
          status = (if clean then ''COMPLETED'' else ''REJECTED'')
      in case finalization of
           Some ev \<Rightarrow>
             if \<not> clean then aret (result, status, state)
             else abind (apply_finalization_evidence e ev state) (\<lambda>(report, s).
               let r = dset (dset result ''finalization'' report) ''lifecycle'' (fld s ''lifecycle'')
               in if fld report ''state'' = JStr ''POSITION_MISMATCH''
                  then aret (dset r ''accepted'' (JBool False), ''REJECTED'', s)
                  else aret (r, status, s))
         | None \<Rightarrow> aret (result, status, state))"

definition reconcile_writer ::
  "'g oenv \<Rightarrow> envelope \<Rightarrow> json option \<Rightarrow> gateway_snapshot \<Rightarrow> string list \<Rightarrow> (string \<times> bool) list
    \<Rightarrow> (string \<times> json) list \<Rightarrow> json \<Rightarrow> ('g, json \<times> json) wop" where
  "reconcile_writer e c finalization s rollover_ids modes outcomes candidate =
     (let expected = ev_state_version (env_expected c) in
      abind (aguard (version_of candidate = expected) (version_conflict (Some expected) (version_of candidate))) (\<lambda>_.
      abind (apply_remote_fence_high_water_floor e s candidate) (\<lambda>floored.
      abind (alift (apply_snapshot s (the_str (fld (env_payload c) ''reconciliation_run_id'')) floored)) (\<lambda>applied.
      abind (settle_intents e rollover_ids modes outcomes applied) (\<lambda>settled.
      abind (reconciled_doc e c settled) (\<lambda>done.
      abind (reconcile_finish e finalization (reconcile_result c rollover_ids done) done) (\<lambda>(result, status, final).
      abind (alift (command_hash c)) (\<lambda>hash.
      abind (receipt_for_candidate e final c hash result status) (\<lambda>receipt.
      aret (result, with_receipt c receipt final))))))))))"

definition reconcile_command ::
  "'g oenv \<Rightarrow> envelope \<Rightarrow> json option \<Rightarrow> json option \<Rightarrow> ('g, json) wop" where
  "reconcile_command e c finalization rollover =
     abind (reconcile_snapshot e) (\<lambda>s.
     abind (read_state e) (\<lambda>state.
     abind (snapshot_named e state s c) (\<lambda>_.
     abind (halting_on_rejection e
         (\<lambda>_. ''snapshot failed connected/scope/freshness/closure validation'')
         (validate_reconcile_snapshot e state s (gw_durable_generation (oe_gateway e)))) (\<lambda>_.
     abind (query_outcomes e state) (\<lambda>outcomes.
     let rollover_ids = trading_day_rollover_terminal_ids state s outcomes rollover in
     abind (halting_on_rejection e exn_text
         (mutate (repo_env e)
           (reconcile_writer e c finalization s rollover_ids (recovery_modes state) outcomes)
           (Some (ev_state_version (env_expected c))))) (\<lambda>(result, final).
     aret (command_response (fld (fld final ''receipts'') (command_key c)) result False)))))))"

end
