(* ===== verification/Orch_Orders.thy ===== *)
theory Orch_Orders
  imports Orch_Intents Quote_Proof
begin

text \<open>
  Order mutations: the preconditions, the durable intent written before the broker is called, the
  call, and the recording of its result (\<open>_mutation_preflight\<close>, \<open>_mutate_order\<close> and the public
  entries that lead to it). Threads of this process and other processes interleave with these steps
  through the repository: every read of the document may find another one.
\<close>

section \<open>Arguments\<close>

record order_args =
  oa_plan_id :: "string option"
  oa_plan_hash :: "string option"
  oa_leader_epoch :: "int option"
  oa_fencing_token :: "int option"
  oa_token :: token_arg
  oa_intent_id :: "string option"
  oa_target :: "string option"
  oa_now :: "int option"
  oa_emergency :: bool
  oa_planned :: bool
  oa_proof :: "json option"

definition opt_json :: "string option \<Rightarrow> json" where
  "opt_json x = (case x of None \<Rightarrow> JNull | Some s \<Rightarrow> JStr s)"

text \<open>\<open>x or other\<close> on an optional text.\<close>

definition text_or :: "string option \<Rightarrow> string \<Rightarrow> string" where
  "text_or x other = (case x of None \<Rightarrow> other | Some s \<Rightarrow> if s = [] then other else s)"

section \<open>Preflight\<close>

definition halt :: "string \<Rightarrow> exn" where
  "halt msg = Exn RestartReconciliationRequired msg"

definition preflight_lifecycle :: "bool \<Rightarrow> json \<Rightarrow> string \<Rightarrow> bool \<Rightarrow> unit res" where
  "preflight_lifecycle local_halted state action emergency_cancel = checks
     [rguard (\<not> local_halted) (halt ''orchestrator is halted fail closed''),
      rguard (\<not> (truthy (fld state ''unknown_outcomes'') \<and> \<not> emergency_cancel))
        (Exn UnknownOutcomeError ''unknown broker outcome requires query/reconcile''),
      rguard (\<not> (str_sat (\<lambda>l. l \<in> {''HALTED_RECONCILE_REQUIRED'', ''HALTED_UNKNOWN_OUTCOME''})
            (fld state ''lifecycle'') \<and> \<not> emergency_cancel))
        (halt ''orchestrator lifecycle does not admit mutation''),
      rguard (\<not> (action \<noteq> ''cancel''
            \<and> str_sat (\<lambda>l. l \<in> {''DRAINING'', ''STOPPING''}) (fld state ''lifecycle'')))
        (halt ''orchestrator lifecycle does not admit mutation''),
      rguard (\<not> (fld (get_or state ''reconciliation'' (JObj [])) ''state'' \<noteq> JStr ''RECONCILED''
            \<and> \<not> emergency_cancel))
        (halt ''fresh broker reconciliation required'')]"

definition preflight_target :: "json \<Rightarrow> string \<Rightarrow> string option \<Rightarrow> bool \<Rightarrow> unit res" where
  "preflight_target state action target_id emergency_cancel =
     (let wanted = text_or target_id []; target = fld (intents_of state) wanted in
      if action \<noteq> ''cancel'' \<or> wanted = [] then Inr ()
      else checks
        [rguard (is_obj target) (Exn MutationRejected ''target send intent does not exist''),
         rguard (\<not> (fld target ''state'' = JStr ''UNKNOWN_OUTCOME'' \<or> has_key (unknowns_of state) wanted))
           (Exn UnknownOutcomeError ''cannot cancel an unresolved intent''),
         rguard (\<not> (emergency_cancel \<and> fld target ''state'' \<noteq> JStr ''ACKNOWLEDGED''))
           (Exn MutationRejected ''emergency cancellation is limited to acknowledged intents'')])"

definition preflight_plan :: "json \<Rightarrow> string option \<Rightarrow> string option \<Rightarrow> unit res" where
  "preflight_plan state plan_id plan_hash =
     (let plan = get_or state ''plan'' (JObj []) in checks
        [rguard (fld plan ''state'' = JStr ''ACTIVE'')
           (Exn PlanRejected ''no active plan admits broker mutation''),
         rguard (plan_id = None \<or> fld plan ''plan_id'' = opt_json plan_id)
           (Exn PlanRejected ''plan id does not match active plan''),
         rguard (plan_hash = None \<or> fld plan ''plan_hash'' = opt_json plan_hash)
           (Exn PlanRejected ''plan hash does not match active plan'')])"

text \<open>The fence check against the durable lease, and against a transaction's own candidate.\<close>

definition order_fence :: "'g oenv \<Rightarrow> order_args \<Rightarrow> int \<Rightarrow> ('g, leader_token) wop" where
  "order_fence e a now =
     (if oa_planned a
      then planned_dispatch_admission e (oa_leader_epoch a) (oa_fencing_token a) (oa_token a) None
      else admission e (oa_leader_epoch a) (oa_fencing_token a) (oa_token a) (Some now))"

definition candidate_fence :: "'g oenv \<Rightarrow> order_args \<Rightarrow> int \<Rightarrow> json \<Rightarrow> ('g, leader_token) wop" where
  "candidate_fence e a now state =
     (if oa_planned a
      then validate_planned_dispatch_against_state e state (oa_leader_epoch a) (oa_fencing_token a)
             (oa_token a) None
      else validate_against_state e state (oa_leader_epoch a) (oa_fencing_token a) (oa_token a) (Some now))"

definition mutation_preflight ::
  "'g oenv \<Rightarrow> string \<Rightarrow> order_args \<Rightarrow> bool \<Rightarrow> int \<Rightarrow> json \<Rightarrow> ('g, unit) wop" where
  "mutation_preflight e action a transaction_candidate now state =
     (let emergency_cancel = (action = ''cancel'' \<and> oa_emergency a) in
      abind (aget w_local_halted) (\<lambda>local_halted.
      abind (alift (preflight_lifecycle local_halted state action emergency_cancel)) (\<lambda>_.
      abind (alift (preflight_target state action (oa_target a) emergency_cancel)) (\<lambda>_.
      abind (if transaction_candidate then candidate_fence e a now state else order_fence e a now) (\<lambda>_.
      abind (require_authority e state (Some now)) (\<lambda>_.
      alift (preflight_plan state (oa_plan_id a) (oa_plan_hash a))))))))"

section \<open>The request and its idempotency key\<close>

definition proof_binds_order :: "string \<Rightarrow> order_args \<Rightarrow> json \<Rightarrow> json \<Rightarrow> unit res" where
  "proof_binds_order action a request proof =
     (if action \<noteq> ''send'' \<or> fld proof ''plan_id'' \<noteq> opt_json (oa_plan_id a)
         \<or> fld proof ''plan_hash'' \<noteq> opt_json (oa_plan_hash a)
      then raise MutationRejected ''execution start quote proof does not bind planned order''
      else rbind (rcatch (require_quote_proof_order_request proof request) (\<lambda>x.
          if is_a x PyValueError
          then raise MutationRejected ''execution start quote proof does not bind order request''
          else Inl x)) (\<lambda>_. Inr ()))"

text \<open>Key, detached request, its hash and the validated proof.\<close>

definition order_request ::
  "string \<Rightarrow> string \<Rightarrow> json \<Rightarrow> order_args \<Rightarrow> (string \<times> json \<times> string \<times> json option) res" where
  "order_request action idempotency_key request a =
     rbind (validate_idempotency_key (JStr idempotency_key)) (\<lambda>key.
     if \<not> is_obj request then raise MutationRejected ''order request must be an object''
     else rbind (detached_json request) (\<lambda>detached.
       rbind (sha256_json detached) (\<lambda>request_hash.
       case oa_proof a of
         None \<Rightarrow> Inr (key, detached, request_hash, None)
       | Some p \<Rightarrow>
           rbind (validate_execution_start_quote_proof p) (\<lambda>proof.
           rbind (proof_binds_order action a detached proof) (\<lambda>_.
           Inr (key, detached, request_hash, Some proof))))))"

text \<open>An older document may still hold the intent itself under its key.\<close>

definition existing_intent :: "json \<Rightarrow> string \<Rightarrow> json" where
  "existing_intent state key =
     (let ref = fld (get_or state ''intent_keys'' (JObj [])) key;
          found = (if is_jstr ref then fld (intents_of state) (the_str ref) else ref)
      in if found = JNull then fld (intents_of state) (''key:'' @ key) else found)"

definition reuse_intent :: "json \<Rightarrow> string \<Rightarrow> string \<Rightarrow> json option \<Rightarrow> json res" where
  "reuse_intent existing action request_hash proof =
     (if fld existing ''request_hash'' \<noteq> JStr request_hash \<or> fld existing ''action'' \<noteq> JStr action
         \<or> (case proof of None \<Rightarrow> False | Some p \<Rightarrow> \<not> jeq (fld existing ''execution_start_quote_proof'') p)
      then raise IdempotencyConflictError ''order idempotency key was reused with different payload''
      else Inr (JObj
        [(''accepted'', JBool (fld existing ''state'' \<noteq> JStr ''UNKNOWN_OUTCOME'')),
         (''reused'', JBool True), (''intent_id'', fld existing ''intent_id''),
         (''state'', fld existing ''state''), (''broker_order_id'', fld existing ''broker_order_id'')]))"

section \<open>The durable intent\<close>

text \<open>Everything that is settled before the intent is written.\<close>

record prepared =
  pr_key :: string
  pr_request :: json
  pr_proof :: "json option"
  pr_context :: mutation_context
  pr_intent :: send_intent
  pr_now :: int
  pr_expected :: int

definition receipt_preimage ::
  "'g oenv \<Rightarrow> string \<Rightarrow> string \<Rightarrow> string \<Rightarrow> string \<Rightarrow> string \<Rightarrow> string \<Rightarrow> json" where
  "receipt_preimage e intent_id key plan_id plan_hash request_hash action = JObj
     [(''account_scope'', JStr (fe_scope e)), (''environment'', JStr (oe_environment e)),
      (''intent_id'', JStr intent_id), (''idempotency_key'', JStr key),
      (''plan_id'', JStr plan_id), (''plan_hash'', JStr plan_hash),
      (''request_hash'', JStr request_hash), (''action'', JStr action)]"

definition intent_name :: "'g oenv \<Rightarrow> string option \<Rightarrow> ('g, string) wop" where
  "intent_name e wanted =
     abind (if text_or wanted [] \<noteq> [] then aret (text_or wanted [])
       else abind next_tick (\<lambda>n. aret (''intent-'' @ take 24 (e_uuid e n)))) (\<lambda>name.
     alift (validate_identifier (JStr name) ''intent_id''))"

definition initial_intent_state :: "string \<Rightarrow> string" where
  "initial_intent_state action = (if action = ''send'' then ''PERSISTED'' else ''CANCEL_REQUESTED'')"

definition prepare_intent ::
  "'g oenv \<Rightarrow> string \<Rightarrow> order_args \<Rightarrow> string \<times> json \<times> string \<times> json option \<Rightarrow> int \<Rightarrow> json
    \<Rightarrow> ('g, prepared) wop" where
  "prepare_intent e action a rq now state =
     (let (key, request, request_hash, proof) = rq;
          plan_id = text_or (oa_plan_id a) (py_str (fld (fld state ''plan'') ''plan_id''));
          plan_hash = text_or (oa_plan_hash a) (py_str (fld (fld state ''plan'') ''plan_hash''))
      in abind (intent_name e (oa_intent_id a)) (\<lambda>intent_id.
         abind (alift (validate_identifier (JStr (''receipt-'' @ intent_id)) ''receipt_id'')) (\<lambda>receipt_id.
         abind (alift (sha256_json (receipt_preimage e intent_id key plan_id plan_hash request_hash action)))
           (\<lambda>receipt_hash.
         abind (order_fence e a now) (\<lambda>fence.
         aret \<lparr>pr_key = key, pr_request = request, pr_proof = proof,
           pr_context = \<lparr>mc_account_scope = fe_scope e, mc_leader_epoch = lt_epoch fence,
             mc_fencing_token = lt_fencing_token fence, mc_plan_id = plan_id, mc_plan_hash = plan_hash,
             mc_intent_id = intent_id, mc_idempotency_key = key, mc_action = action,
             mc_environment = oe_environment e, mc_receipt_id = receipt_id,
             mc_receipt_hash = receipt_hash, mc_request_hash = request_hash\<rparr>,
           pr_intent = \<lparr>si_intent_id = intent_id, si_idempotency_key = key,
             si_state = initial_intent_state action, si_plan_id = plan_id, si_plan_hash = plan_hash,
             si_leader_epoch = lt_epoch fence, si_fencing_token = lt_fencing_token fence,
             si_created_at = format_utc now, si_action = action, si_broker_order_id = JNull,
             si_request_hash = request_hash, si_target_intent_id = opt_json (oa_target a),
             si_unknown_reason = JNull, si_receipt_id = JStr receipt_id,
             si_receipt_hash = JStr receipt_hash\<rparr>,
           pr_now = now, pr_expected = version_of state\<rparr>)))))"

definition stored_intent :: "prepared \<Rightarrow> json" where
  "stored_intent p =
     (let i = pr_intent p;
          base = dupdate (send_intent_as_dict i)
            [(''action'', JStr (si_action i)), (''request_hash'', JStr (si_request_hash i)),
             (''target_intent_id'', si_target_intent_id i), (''receipt_id'', si_receipt_id i),
             (''receipt_hash'', si_receipt_hash i)]
      in case pr_proof p of None \<Rightarrow> base
         | Some proof \<Rightarrow> dupdate base
             [(''execution_start_quote_proof'', proof),
              (''execution_start_quote_proof_sha256'', fld proof ''proof_sha256'')])"

definition persist_intent_doc :: "prepared \<Rightarrow> json \<Rightarrow> json" where
  "persist_intent_doc p d =
     set_in (put_raw_intent d (si_intent_id (pr_intent p)) (stored_intent p))
       ''intent_keys'' (pr_key p) (JStr (si_intent_id (pr_intent p)))"

text \<open>
  The compare-and-swap repeats every check on the document that takes the intent. \<open>False\<close>: another
  writer came first and the attempt may start over.
\<close>

definition persist_intent ::
  "'g oenv \<Rightarrow> string \<Rightarrow> order_args \<Rightarrow> bool \<Rightarrow> prepared \<Rightarrow> ('g, bool) wop" where
  "persist_intent e action a may_retry p =
     acatch
       (abind (update_doc e (\<lambda>d. abind (mutation_preflight e action a True (pr_now p) d)
            (\<lambda>_. aret (persist_intent_doc p d))) (Some (pr_expected p))) (\<lambda>_. aret True))
       (\<lambda>x. if is_a x ExpectedVersionConflict \<and> oa_planned a \<and> may_retry then aret False else athrow x)"

section \<open>The broker call\<close>

definition order_gateway :: "'g oenv \<Rightarrow> string \<Rightarrow> json \<Rightarrow> mutation_context \<Rightarrow> int \<Rightarrow> 'g \<Rightarrow> json res \<times> 'g" where
  "order_gateway e action =
     (if action = ''send'' then gw_send (oe_gateway e) else gw_cancel (oe_gateway e))"

definition call_broker :: "'g oenv \<Rightarrow> string \<Rightarrow> prepared \<Rightarrow> ('g, json) wop" where
  "call_broker e action p =
     acatch (abind (call_gateway e (order_gateway e action (pr_request p) (pr_context p))) (\<lambda>r.
         alift (result_dict r)))
       (\<lambda>x. abind (mark_unknown e (si_intent_id (pr_intent p))
           (''gateway '' @ action @ '' outcome unknown: '' @ exn_text x)) (\<lambda>_.
         athrow (Exn GatewayTimeout (''gateway '' @ action @ '' outcome unknown''))))"

definition recheck_fence :: "'g oenv \<Rightarrow> string \<Rightarrow> order_args \<Rightarrow> prepared \<Rightarrow> ('g, unit) wop" where
  "recheck_fence e action a p =
     acatch (abind (if oa_planned a then order_fence e a 0
         else abind (utc_now e) (\<lambda>now. order_fence e a now)) (\<lambda>_. aret ()))
       (\<lambda>x. abind (mark_unknown e (si_intent_id (pr_intent p))
           (''local fence changed after gateway '' @ action @ '': '' @ exn_text x)) (\<lambda>_.
         athrow (Exn GatewayTimeout (''local fence changed after gateway '' @ action))))"

definition order_response :: "string \<Rightarrow> json \<Rightarrow> json \<Rightarrow> json" where
  "order_response intent_id latest result = JObj
     [(''accepted'', JBool (truthy (get_or result ''accepted''
         (JBool (state_upper result '''' \<notin> {''REJECTED'', ''TERMINAL''}))))),
      (''reused'', JBool False), (''intent_id'', JStr intent_id),
      (''state'', get_or latest ''state'' (JStr ''ACKNOWLEDGED'')),
      (''broker_order_id'', fld latest ''broker_order_id''), (''gateway'', result)]"

definition dispatch_order :: "'g oenv \<Rightarrow> string \<Rightarrow> order_args \<Rightarrow> prepared \<Rightarrow> ('g, json) wop" where
  "dispatch_order e action a p =
     (let intent_id = si_intent_id (pr_intent p) in
      abind (read_state e) (\<lambda>latest.
      abind (utc_now e) (\<lambda>now.
      abind (mutation_preflight e action a False now latest) (\<lambda>_.
      abind (call_broker e action p) (\<lambda>result.
      abind (recheck_fence e action a p) (\<lambda>_.
      abind (mark_intent_result e intent_id result) (\<lambda>_.
      abind (aif (action = ''cancel'' \<and> text_or (oa_target a) [] \<noteq> [] \<and> cancel_result_is_terminal result)
        (mark_cancelled_target e (text_or (oa_target a) []))) (\<lambda>_.
      abind (read_state e) (\<lambda>final.
      aret (order_response intent_id (get_or (fld final ''send_intents'') intent_id (JObj [])) result))))))))))"

section \<open>The whole operation\<close>

text \<open>The answer for a reused key, or the prepared intent.\<close>

definition prepare_order ::
  "'g oenv \<Rightarrow> string \<Rightarrow> json \<Rightarrow> string \<Rightarrow> order_args \<Rightarrow> ('g, json + prepared) wop" where
  "prepare_order e action request idempotency_key a =
     abind (clock_reading e (oa_now a)) (\<lambda>now.
     abind (alift (order_request action idempotency_key request a)) (\<lambda>rq.
     abind (read_state e) (\<lambda>state.
     let (key, _, request_hash, proof) = rq; existing = existing_intent state key in
     if is_obj existing
     then abind (alift (reuse_intent existing action request_hash proof)) (\<lambda>r. aret (Inl r))
     else abind (mutation_preflight e action a False now state) (\<lambda>_.
       abind (prepare_intent e action a rq now state) (\<lambda>p. aret (Inr p))))))"

text \<open>
  A planned order may start over twice when a background renewal of the lease takes the version it
  expected.
\<close>

fun mutate_order_within ::
  "nat \<Rightarrow> 'g oenv \<Rightarrow> string \<Rightarrow> json \<Rightarrow> string \<Rightarrow> order_args \<Rightarrow> ('g, json) wop" where
  "mutate_order_within 0 e action request key a =
     abind (prepare_order e action request key a) (\<lambda>r. case r of
       Inl answer \<Rightarrow> aret answer
     | Inr p \<Rightarrow> abind (persist_intent e action a False p) (\<lambda>_. dispatch_order e action a p))"
| "mutate_order_within (Suc n) e action request key a =
     abind (prepare_order e action request key a) (\<lambda>r. case r of
       Inl answer \<Rightarrow> aret answer
     | Inr p \<Rightarrow> abind (persist_intent e action a True p) (\<lambda>done.
         if done then dispatch_order e action a p
         else mutate_order_within n e action request key (a\<lparr>oa_proof := pr_proof p\<rparr>)))"

definition mutate_order ::
  "'g oenv \<Rightarrow> string \<Rightarrow> json \<Rightarrow> string \<Rightarrow> order_args \<Rightarrow> ('g, json) wop" where
  "mutate_order = mutate_order_within 2"

section \<open>The public entries\<close>

definition send_order :: "'g oenv \<Rightarrow> json \<Rightarrow> string \<Rightarrow> order_args \<Rightarrow> ('g, json) wop" where
  "send_order e request key a =
     mutate_order e ''send'' request key
       (a\<lparr>oa_target := None, oa_emergency := False, oa_planned := False, oa_proof := None\<rparr>)"

definition submit_planned_order :: "'g oenv \<Rightarrow> json \<Rightarrow> string \<Rightarrow> order_args \<Rightarrow> ('g, json) wop" where
  "submit_planned_order e request key a =
     mutate_order e ''send'' request key
       (a\<lparr>oa_target := None, oa_now := None, oa_emergency := False, oa_planned := True\<rparr>)"

definition cancel_request :: "json \<Rightarrow> string \<Rightarrow> json \<Rightarrow> json" where
  "cancel_request request target_id target =
     (let r = set_default request ''target_intent_id'' (JStr target_id) in
      if fld target ''broker_order_id'' = JNull then r
      else set_default r ''broker_order_id'' (fld target ''broker_order_id''))"

definition cancel_order :: "'g oenv \<Rightarrow> string \<Rightarrow> json \<Rightarrow> string \<Rightarrow> order_args \<Rightarrow> ('g, json) wop" where
  "cancel_order e target_id request key a =
     abind (alift (validate_identifier (JStr target_id) ''target_intent_id'')) (\<lambda>target_id.
     abind (read_state e) (\<lambda>state.
     let target = fld (intents_of state) target_id in
     if \<not> is_obj target then athrow (Exn MutationRejected ''target send intent does not exist'')
     else mutate_order e ''cancel'' (cancel_request request target_id target) key
       (a\<lparr>oa_plan_id := Some (text_or (oa_plan_id a) (py_str (fld target ''plan_id''))),
          oa_plan_hash := Some (text_or (oa_plan_hash a) (py_str (fld target ''plan_hash''))),
          oa_target := Some target_id, oa_planned := False, oa_proof := None\<rparr>)))"

definition cancel_planned_intent :: "'g oenv \<Rightarrow> string \<Rightarrow> string \<Rightarrow> order_args \<Rightarrow> ('g, json) wop" where
  "cancel_planned_intent e target_id key a =
     cancel_order e target_id (JObj []) key (a\<lparr>oa_now := None, oa_emergency := False\<rparr>)"

end
