(* ===== verification/Orch_Control.thy ===== *)
theory Orch_Control
  imports Orch_Reconcile Orch_Orders
begin

text \<open>
  The rest of the orchestrator: the restart fence, the leader operations it exposes, the status, the
  cancellation sweep before a control transition, the emergency stop, and \<open>process_command\<close>, which
  everything above meets in.
\<close>

section \<open>Restart\<close>

definition restart_reason :: string where
  "restart_reason = ''process restart requires same-intent reconciliation''"

definition restart_intent :: "string \<times> json \<Rightarrow> json \<Rightarrow> json" where
  "restart_intent entry state =
     (let (intent_id, raw) = entry in
      if \<not> is_obj raw \<or> key_alias intent_id
        \<or> \<not> str_sat (\<lambda>st. st \<in> set ACTIVE_INTENT_STATES) (fld raw ''state'')
      then state
      else put_unknown (put_raw_intent state intent_id
          (dset (dset raw ''state'' (JStr ''UNKNOWN_OUTCOME'')) ''unknown_reason'' (JStr restart_reason)))
        intent_id (JStr restart_reason))"

definition bootstrap_doc :: "json \<Rightarrow> json" where
  "bootstrap_doc state =
     (let s1 = fold restart_intent (items (fld state ''send_intents'')) state;
          clean = \<not> truthy (fld s1 ''unknown_outcomes'');
          s2 = dset s1 ''lifecycle'' (JStr (if clean then ''HALTED_RECONCILE_REQUIRED'' else ''HALTED_UNKNOWN_OUTCOME''))
      in dset s2 ''reconciliation'' (dupdate (fld s2 ''reconciliation'')
        [(''state'', JStr (if clean then ''REQUIRED'' else ''UNKNOWN'')),
         (''unknown_outcomes'', JInt (dlen (fld s2 ''unknown_outcomes'')))]))"

definition bootstrap_halted :: "'g oenv \<Rightarrow> ('g, unit) wop" where
  "bootstrap_halted e = update_doc e (\<lambda>d. aret (bootstrap_doc d)) None"

text \<open>
  \<open>__init__\<close>: a repository that has been opened, the configuration checks, a fencer without a
  token, and the restart fence. \<open>offline\<close> says that the gateway is one of the two of the package.
\<close>

definition config_ok :: "'g oenv \<Rightarrow> bool \<Rightarrow> unit res" where
  "config_ok e offline = checks
     [rguard (e_scope e = fe_scope e) (Exn PyValueError ''repository scope and orchestrator scope differ''),
      rguard (\<not> (\<not> oe_test_mode e \<and> fe_scope e = ''account:default''))
        (Exn PyValueError ''non-test Execution requires an explicit account scope''),
      rguard (\<not> (\<not> oe_test_mode e \<and> offline))
        (Exn PyValueError ''Null/InMemory gateway is only allowed in explicit test mode'')]"

definition new_world :: "repo \<Rightarrow> 'g \<Rightarrow> 'g world" where
  "new_world r g = \<lparr>r_mem = r_mem r, r_available = r_available r, r_initialized = r_initialized r,
     r_disk = r_disk r, r_tick = r_tick r, f_last_now = None, f_rollback = False, f_token = None,
     w_local_halted = False, w_gateway = g\<rparr>"

definition start_orchestrator :: "'g oenv \<Rightarrow> bool \<Rightarrow> repo \<Rightarrow> 'g \<Rightarrow> (exn + unit) \<times> 'g world" where
  "start_orchestrator e offline r g =
     (abind (alift (config_ok e offline)) (\<lambda>_. bootstrap_halted e)) (new_world r g)"

section \<open>Leader operations\<close>

definition token_dict :: "leader_token \<Rightarrow> json" where
  "token_dict t = leader_token_as_dict t True"

definition leader_acquire :: "'g oenv \<Rightarrow> string \<Rightarrow> int option \<Rightarrow> ('g, json) wop" where
  "leader_acquire e owner_id now = abind (acquire e owner_id now) (\<lambda>t. aret (token_dict t))"

definition EXACT_TOKEN_FIELDS :: "string list" where
  "EXACT_TOKEN_FIELDS =
     [''scope'', ''owner_id'', ''epoch'', ''fencing_token'', ''lease_expires_at'', ''instance_id'']"

definition explicit_token :: "string \<Rightarrow> token_arg \<Rightarrow> unit res" where
  "explicit_token what token =
     (case token of
        NoToken \<Rightarrow> raise FencingError (''explicit '' @ what @ '' fencing token is required'')
      | TokenObj _ \<Rightarrow> Inr ()
      | TokenMap m \<Rightarrow> rguard (\<not> is_obj m \<or> keys_are m EXACT_TOKEN_FIELDS)
          (Exn FencingError (what @ '' fencing token fields are not exact'')))"

definition leader_renew :: "'g oenv \<Rightarrow> token_arg \<Rightarrow> int option \<Rightarrow> ('g, json) wop" where
  "leader_renew e token now =
     abind (alift (explicit_token ''renew'' token)) (\<lambda>_.
     abind (renew e token now) (\<lambda>t. aret (token_dict t)))"

definition released_dict :: "leader_token \<Rightarrow> json" where
  "released_dict t = JObj
     [(''scope'', JStr (lt_scope t)), (''owner_id'', JStr []), (''held'', JBool False),
      (''epoch'', JInt (lt_epoch t)), (''fencing_token'', JInt (lt_fencing_token t)),
      (''lease_expires_at'', JStr EPOCH_TIMESTAMP), (''instance_id'', JStr []),
      (''state'', JStr ''RELEASED'')]"

definition leader_release :: "'g oenv \<Rightarrow> token_arg \<Rightarrow> int option \<Rightarrow> ('g, json) wop" where
  "leader_release e token now =
     abind (alift (explicit_token ''release'' token)) (\<lambda>_.
     abind (release e token now) (\<lambda>t. aret (released_dict t)))"

definition leader_status :: "'g oenv \<Rightarrow> ('g, json) wop" where
  "leader_status e = current_lease e"

section \<open>Status and halt\<close>

definition get_command_receipt :: "'g oenv \<Rightarrow> string \<Rightarrow> string \<Rightarrow> ('g, json option) wop" where
  "get_command_receipt e key service =
     abind (alift (validate_idempotency_key (JStr key))) (\<lambda>_. get_receipt (repo_env e) service key)"

definition status :: "'g oenv \<Rightarrow> int option \<Rightarrow> ('g, json) wop" where
  "status e observed_at =
     abind (read_state e) (\<lambda>state.
     abind (clock_reading e observed_at) (\<lambda>observed.
     abind (aget w_local_halted) (\<lambda>halted.
     aret (projection e halted state observed))))"

definition halted_by_operator_doc :: "string \<Rightarrow> json \<Rightarrow> json \<Rightarrow> json" where
  "halted_by_operator_doc reason t d =
     append_to (set_in (dset d ''lifecycle'' (JStr ''HALTED_RECONCILE_REQUIRED''))
         ''reconciliation'' ''state'' (JStr ''REQUIRED''))
       ''audit'' (JObj [(''kind'', JStr ''fail_closed_halt''), (''reason'', JStr reason), (''observed_at'', t)])"

definition fail_closed_halt :: "'g oenv \<Rightarrow> string \<Rightarrow> ('g, json) wop" where
  "fail_closed_halt e reason =
     abind (aguard (reason \<noteq> [] \<and> length reason \<le> 500)
       (Exn MutationRejected ''fail-closed halt reason is invalid'')) (\<lambda>_.
     abind (update_doc e (\<lambda>d. abind (stamp e) (\<lambda>t. aret (halted_by_operator_doc reason t d))) None) (\<lambda>_.
     status e None))"

section \<open>The cancellation sweep\<close>

definition cancel_targets :: "bool \<Rightarrow> json \<Rightarrow> string list" where
  "cancel_targets emergency_stop_only state =
     map fst (filter (\<lambda>(i, raw). \<not> key_alias i \<and> is_obj raw
         \<and> get_or raw ''action'' (JStr ''send'') = JStr ''send''
         \<and> (if emergency_stop_only then fld raw ''state'' = JStr ''ACKNOWLEDGED''
            else str_sat (\<lambda>st. st \<in> set ACTIVE_INTENT_STATES) (fld raw ''state'')))
       (items (intents_of state)))"

definition sweep_args :: "leader_token \<Rightarrow> bool \<Rightarrow> order_args" where
  "sweep_args token emergency_stop_only =
     \<lparr>oa_plan_id = None, oa_plan_hash = None, oa_leader_epoch = Some (lt_epoch token),
      oa_fencing_token = Some (lt_fencing_token token), oa_token = TokenObj token,
      oa_intent_id = None, oa_target = None, oa_now = None, oa_emergency = emergency_stop_only,
      oa_planned = False, oa_proof = None\<rparr>"

definition cancel_one :: "'g oenv \<Rightarrow> bool \<Rightarrow> leader_token \<Rightarrow> string \<Rightarrow> ('g, unit) wop" where
  "cancel_one e emergency_stop_only token target_id =
     abind (cancel_order e target_id (JObj [])
         (''cancel-'' @ target_id @ ''-'' @ int_str (lt_fencing_token token))
         (sweep_args token emergency_stop_only)) (\<lambda>result.
     if cancel_result_is_terminal result then aret ()
     else abind (mark_cancel_failure e target_id
         ''gateway cancellation was not explicitly terminal/cancelled'') (\<lambda>_.
       athrow (Exn MutationRejected ''gateway cancellation did not reach a terminal state'')))"

definition cancel_active :: "'g oenv \<Rightarrow> bool \<Rightarrow> ('g, unit) wop" where
  "cancel_active e emergency_stop_only =
     abind (read_state e) (\<lambda>state.
     let targets = cancel_targets emergency_stop_only state in
     if targets = [] then aret ()
     else abind (aget f_token) (\<lambda>own.
       case own of
         None \<Rightarrow> athrow (Exn FencingError ''active-order cancellation requires the current leader token'')
       | Some token \<Rightarrow> aforall (cancel_one e emergency_stop_only token) targets))"

definition reconcile_after_cancel :: "'g oenv \<Rightarrow> ('g, unit) wop" where
  "reconcile_after_cancel e =
     abind (call_gateway e (gw_readiness (oe_gateway e))) (\<lambda>v.
     abind (coerce_snapshot e v) (\<lambda>s.
     abind (read_state e) (\<lambda>state.
     abind (validate_reconcile_snapshot e state s (gw_durable_generation (oe_gateway e))) (\<lambda>_.
     abind (aguard (jeq (gs_active_order_count s) (JInt 0))
       (Exn SnapshotRejected ''broker still reports active orders after cancellation'')) (\<lambda>_.
     update_doc e (\<lambda>d. alift (apply_snapshot s (str_or (fld state ''reconciliation'') ''run_id'' UNKNOWN_ID) d))
       None)))))"

definition prepare_control_cancellation :: "'g oenv \<Rightarrow> bool \<Rightarrow> ('g, unit) wop" where
  "prepare_control_cancellation e emergency_stop_only =
     abind (cancel_active e emergency_stop_only) (\<lambda>_.
     acatch (reconcile_after_cancel e)
       (\<lambda>x. abind (mark_cancel_failure e ''all'' (''post-cancel reconciliation failed: '' @ exn_text x)) (\<lambda>_.
         athrow x)))"

definition force_revoked_doc :: "json \<Rightarrow> json" where
  "force_revoked_doc d =
     (let d1 = set_in d ''authority'' ''state'' (JStr ''REVOKED'')
      in if fld d1 ''lifecycle'' \<noteq> JStr ''HALTED_RECONCILE_REQUIRED''
         then dset d1 ''lifecycle'' (JStr ''HALTED_UNKNOWN_OUTCOME'') else d1)"

definition force_revoke_after_cancel_failure :: "'g oenv \<Rightarrow> ('g, unit) wop" where
  "force_revoke_after_cancel_failure e =
     or_halt_locally (update_doc e (\<lambda>d. aret (force_revoked_doc d)) None)"

section \<open>Emergency stop\<close>

definition emergency_plan_doc :: "json \<Rightarrow> json \<Rightarrow> json" where
  "emergency_plan_doc t d =
     (let plan = fld d ''plan'' in
      dset (append_to d ''terminal_archive'' (plan_archive_entry plan t)) ''plan''
        (dset (dset plan ''state'' (JStr ''TERMINAL''))
          ''version'' (JInt (int_of (get_or plan ''version'' (JInt 0)) + 1))))"

definition emergency_lifecycle_doc :: "json \<Rightarrow> json" where
  "emergency_lifecycle_doc d = dset d ''lifecycle''
     (JStr (if truthy (fld d ''unknown_outcomes'') then ''HALTED_UNKNOWN_OUTCOME'' else ''READY''))"

definition emergency_writer :: "'g oenv \<Rightarrow> string \<Rightarrow> json \<Rightarrow> ('g, json) wop" where
  "emergency_writer e reason d =
     (let d1 = set_in d ''authority'' ''state'' (JStr ''REVOKED'') in
      abind (if fld (fld d1 ''plan'') ''state'' = JStr ''TERMINAL'' then aret d1
        else abind (stamp e) (\<lambda>t. aret (emergency_plan_doc t d1))) (\<lambda>d2.
      abind (stamp e) (\<lambda>t.
      aret (append_to (emergency_lifecycle_doc d2) ''audit'' (JObj
        [(''kind'', JStr ''emergency_stop''), (''reason'', JStr reason), (''observed_at'', t)])))))"

definition emergency_stop :: "'g oenv \<Rightarrow> string \<Rightarrow> ('g, json) wop" where
  "emergency_stop e reason =
     abind (acatch (prepare_control_cancellation e True)
       (\<lambda>x. abind (force_revoke_after_cancel_failure e) (\<lambda>_. athrow x))) (\<lambda>_.
     abind (update_doc e (emergency_writer e reason) None) (\<lambda>_.
     status e None))"

section \<open>Commands\<close>

definition swept_command :: "'g oenv \<Rightarrow> string \<Rightarrow> ('g, unit) wop" where
  "swept_command e command =
     acatch (prepare_control_cancellation e False)
       (\<lambda>x. abind (aif (command = ''revoke'') (force_revoke_after_cancel_failure e)) (\<lambda>_. athrow x))"

definition write_command ::
  "'g oenv \<Rightarrow> envelope \<Rightarrow> json option \<Rightarrow> json option \<Rightarrow> string \<Rightarrow> int \<Rightarrow> ('g, json) wop" where
  "write_command e c preview start hash expected =
     abind (mutate (repo_env e) (command_writer e c preview start hash) (Some expected)) (\<lambda>(result, final).
     aret (command_response (fld (fld final ''receipts'') (command_key c)) result False))"

definition process_envelope ::
  "'g oenv \<Rightarrow> envelope \<Rightarrow> json option \<Rightarrow> json option \<Rightarrow> json option \<Rightarrow> json option \<Rightarrow> ('g, json) wop" where
  "process_envelope e c preview start finalization rollover =
     abind (alift (command_hash c)) (\<lambda>hash.
     abind (read_state e) (\<lambda>state.
     let existing = fld (get_or state ''receipts'' (JObj [])) (command_key c);
         expected = ev_state_version (env_expected c)
     in if existing \<noteq> JNull then
          (if fld existing ''command_hash'' \<noteq> JStr hash
           then athrow (Exn IdempotencyConflictError ''idempotency key was reused with a different command'')
           else aret (command_response existing (get_or existing ''result'' (JObj [])) True))
        else if expected \<noteq> version_of state
        then athrow (version_conflict (Some expected) (version_of state))
        else if env_command c = ''reconcile'' then reconcile_command e c finalization rollover
        else if env_command c \<in> {''stop'', ''revoke'', ''drain''}
        then abind (swept_command e (env_command c)) (\<lambda>_.
          abind (state_version (repo_env e)) (\<lambda>version.
          write_command e c preview start hash version))
        else write_command e c preview start hash expected))"

record evidence =
  evid_preview :: "json option"
  evid_start :: "json option"
  evid_finalization :: "json option"
  evid_rollover :: "json option"

datatype command_arg = Envelope envelope | Mapping json

definition process_command :: "'g oenv \<Rightarrow> command_arg \<Rightarrow> evidence \<Rightarrow> ('g, json) wop" where
  "process_command e command ev =
     abind (alift (case command of Envelope c \<Rightarrow> Inr c | Mapping m \<Rightarrow> envelope_from_mapping m)) (\<lambda>c.
     abind (alift (validated_preview_evidence c (evid_preview ev))) (\<lambda>preview.
     abind (alift (validated_start_evidence c (evid_start ev))) (\<lambda>start.
     abind (alift (validated_finalization_evidence c (evid_finalization ev))) (\<lambda>finalization.
     abind (alift (validated_rollover_evidence c (evid_rollover ev))) (\<lambda>rollover.
     process_envelope e c preview start finalization rollover)))))"

end
