(* ===== verification/Orch_Facts.thy ===== *)
theory Orch_Facts
  imports Orch_Control
begin

text \<open>
  The read-only projections of broker facts: the account facts bound to a reconciled status (with
  the planner binding of version 2), and the diagnostic snapshot a caller may see before a
  reconciliation. Neither writes the document.
\<close>

section \<open>Shared checks\<close>

definition fact_rows_ok :: "json \<Rightarrow> bool" where
  "fact_rows_ok facts = list_all (\<lambda>(_, row). is_obj row) (items facts)"

definition facts_fresh :: "'g oenv \<Rightarrow> gateway_snapshot \<Rightarrow> bool" where
  "facts_fresh e s \<longleftrightarrow> gs_connected s = JBool True \<and> gs_fresh s = JBool True \<and> snapshot_bound e s"

definition facts_counted :: "gateway_snapshot \<Rightarrow> json \<Rightarrow> bool" where
  "facts_counted s orders \<longleftrightarrow> int_at_least 0 (gs_generation s) \<and> int_at_least 0 (gs_active_order_count s)
     \<and> the_int (gs_active_order_count s) = dlen orders"

text \<open>
  The snapshot's own closure, with the words each projection uses for it; \<open>peek\<close> asks for a hash
  behind the \<open>snapshot-peek-\<close> prefix.
\<close>

definition peek_hash_ok :: "json \<Rightarrow> bool" where
  "peek_hash_ok v \<longleftrightarrow>
     \<not> is_peek v \<or> is_ok (validate_sha256 (JStr (drop (length ''snapshot-peek-'') (the_str v))) ''snapshot peek facts hash'')"

definition snapshot_closes ::
  "'g oenv \<Rightarrow> gateway_snapshot \<Rightarrow> int \<Rightarrow> bool \<Rightarrow> (string \<times> string \<times> string \<times> string \<times> string \<times> string) \<Rightarrow> unit res" where
  "snapshot_closes e s observed peek words =
     (let (invalid, rows, unbound, stale, open_count, open_hash) = words in checks
       [snap (str_sat IDENTIFIER_RE (gs_snapshot_id s) \<and> is_ok (timestamp_of (gs_observed_at s) ''timestamp'')
           \<and> is_ok (detached_json (gs_positions s)) \<and> is_ok (detached_json (gs_orders s))
           \<and> (peek \<longrightarrow> peek_hash_ok (gs_snapshot_id s))) invalid,
        snap (fact_rows_ok (gs_positions s) \<and> fact_rows_ok (gs_orders s)) rows,
        snap (facts_fresh e s) unbound,
        snap (\<not> out_of_window (snapshot_time s) observed) stale,
        snap (facts_counted s (gs_orders s)) open_count,
        snap (gs_position_snapshot_hash s = JStr (json_hash (gs_positions s))) open_hash])"

section \<open>Account facts\<close>

definition ACCOUNT_WORDS :: "string \<times> string \<times> string \<times> string \<times> string \<times> string" where
  "ACCOUNT_WORDS =
     (''full-account facts are invalid'', ''full-account fact rows are invalid'',
      ''full-account facts failed connection/scope/freshness binding'',
      ''full-account facts timestamp is stale'',
      ''full-account facts generation/order closure failed'',
      ''full-account position hash does not close'')"

definition durable_rows_ok :: "json \<Rightarrow> unit res" where
  "durable_rows_ok state = checks
     [snap (is_ok (detached_json (fld (fld state ''broker'') ''orders''))
         \<and> is_ok (detached_json (fld (fld state ''broker'') ''positions'')))
        ''durable full-account broker facts are invalid'',
      snap (fact_rows_ok (fld (fld state ''broker'') ''orders'') \<and> fact_rows_ok (fld (fld state ''broker'') ''positions''))
        ''durable full-account broker rows are invalid'']"

definition position_identity :: "'g oenv \<Rightarrow> json \<Rightarrow> string res" where
  "position_identity e positions =
     rcatch (before_position_projection_hash positions (JStr (fe_scope e)) (JStr (oe_environment e)))
       (\<lambda>x. if is_a x CommodityExecutionContractError
         then raise SnapshotRejected ''full-account position identity is invalid'' else Inl x)"

definition status_binding :: "json \<Rightarrow> json \<Rightarrow> string \<Rightarrow> json" where
  "status_binding state report identity = JObj
     [(''status_schema_version'', fld report ''schema_version''),
      (''state_version'', fld report ''state_version''),
      (''status_observed_at'', fld report ''observed_at''),
      (''lifecycle'', fld report ''lifecycle''),
      (''reconciliation'', fld report ''reconciliation''),
      (''broker'', fld report ''broker''),
      (''durable_active_orders_sha256'', JStr (json_hash (fld (fld state ''broker'') ''orders''))),
      (''durable_positions_sha256'', JStr (json_hash (fld (fld state ''broker'') ''positions''))),
      (''durable_position_identity_sha256'', JStr identity),
      (''snapshot_identity_mode'', JStr ''GENERATION_FACT_HASH_EQUIVALENT'')]"

definition facts_bound :: "json \<Rightarrow> json \<Rightarrow> gateway_snapshot \<Rightarrow> string \<Rightarrow> string \<Rightarrow> int \<Rightarrow> bool" where
  "facts_bound state report s durable_identity current_identity durable_observed \<longleftrightarrow>
     (let broker = fld report ''broker''; reconciliation = fld report ''reconciliation'';
          orders = fld (fld state ''broker'') ''orders''; positions = fld (fld state ''broker'') ''positions''
      in fld reconciliation ''state'' = JStr ''RECONCILED''
       \<and> fld reconciliation ''unknown_outcomes'' = JInt 0
       \<and> fld broker ''connected'' = JBool True
       \<and> jeq (fld broker ''generation'') (gs_generation s)
       \<and> fld broker ''position_snapshot_hash'' = JStr (json_hash positions)
       \<and> durable_identity = current_identity
       \<and> jeq (fld broker ''active_order_count'') (gs_active_order_count s)
       \<and> fld broker ''active_order_count'' = JInt (dlen orders)
       \<and> json_hash orders = json_hash (gs_orders s)
       \<and> \<not> snapshot_time s < durable_observed)"

definition snapshot_columns :: "'g oenv \<Rightarrow> gateway_snapshot \<Rightarrow> (string \<times> json) list" where
  "snapshot_columns e s =
     [(''service'', JStr SERVICE), (''service_version'', JStr (oe_service_version e)),
      (''account_scope'', JStr (fe_scope e)), (''environment'', JStr (oe_environment e)),
      (''snapshot_id'', gs_snapshot_id s), (''generation'', gs_generation s),
      (''observed_at'', gs_observed_at s), (''connected'', JBool True), (''fresh'', JBool True),
      (''position_snapshot_hash'', JStr (json_hash (gs_positions s))), (''positions'', canon (gs_positions s)),
      (''active_order_count'', gs_active_order_count s),
      (''active_orders_sha256'', JStr (json_hash (gs_orders s))), (''active_orders'', canon (gs_orders s))]"

definition planner_ready :: "json \<Rightarrow> gateway_snapshot \<Rightarrow> json \<Rightarrow> bool" where
  "planner_ready report s intents \<longleftrightarrow>
     fld report ''lifecycle'' = JStr ''READY''
     \<and> str_sat (\<lambda>p. p \<in> {''IDLE'', ''TERMINAL''}) (fld (fld report ''plan'') ''state'')
     \<and> jeq (gs_active_order_count s) (JInt 0) \<and> \<not> truthy (gs_orders s)
     \<and> list_all (\<lambda>(_, raw). is_obj raw
         \<and> str_sat (\<lambda>st. st \<in> {''RECONCILED'', ''CANCELLED'', ''TERMINAL''}) (fld raw ''state'')) (items intents)"

definition execution_binding :: "json \<Rightarrow> json \<Rightarrow> json" where
  "execution_binding report intents = JObj
     [(''state_version'', fld report ''state_version''), (''plan_state'', fld (fld report ''plan'') ''state''),
      (''send_intents'', canon intents), (''send_intents_sha256'', JStr (json_hash intents)),
      (''nonterminal_send_intent_count'', JInt 0)]"

definition account_facts_document :: "'g oenv \<Rightarrow> int \<Rightarrow> gateway_snapshot \<Rightarrow> json \<Rightarrow> json \<Rightarrow> string \<Rightarrow> json res" where
  "account_facts_document e version s state report identity =
     (let base = (''schema_version'', JStr (''web_bridge_execution_account_facts_v'' @ int_str version)) #
            snapshot_columns e s @ [(''status_binding'', status_binding state report identity)];
          intents = fld state ''send_intents''
      in rbind (if version = 2
          then rbind (detached_json intents) (\<lambda>_.
            rbind (snap (planner_ready report s intents) ''full-account facts are not execution-planner ready'') (\<lambda>_.
            Inr (base @ [(''execution_binding'', execution_binding report intents)])))
          else Inr base) (\<lambda>preimage.
        rbind (sha256_json (JObj preimage)) (\<lambda>h.
        Inr (JObj (preimage @ [(''account_facts_sha256'', JStr h)])))))"

definition account_facts_of ::
  "'g oenv \<Rightarrow> bool \<Rightarrow> int \<Rightarrow> gateway_snapshot \<Rightarrow> json \<Rightarrow> int \<Rightarrow> json res" where
  "account_facts_of e halted version s state observed =
     rbind (durable_rows_ok state) (\<lambda>_.
     rbind (position_identity e (fld (fld state ''broker'') ''positions'')) (\<lambda>durable_identity.
     rbind (position_identity e (gs_positions s)) (\<lambda>current_identity.
     let report = projection e halted state observed in
     rbind (rcatch (timestamp_of (fld (fld report ''broker'') ''last_snapshot_at'') ''timestamp'')
         (\<lambda>_. raise SnapshotRejected ''durable broker snapshot time is invalid'')) (\<lambda>durable_observed.
     rbind (snap (facts_bound state report s durable_identity current_identity durable_observed)
         ''full-account facts are not bound to the reconciled Execution status'') (\<lambda>_.
     rbind (snap (version \<in> {1, 2}) ''full-account facts projection version is invalid'') (\<lambda>_.
     account_facts_document e version s state report durable_identity))))))"

definition account_facts_projection ::
  "'g oenv \<Rightarrow> snapshot_value \<Rightarrow> int option \<Rightarrow> int \<Rightarrow> ('g, json) wop" where
  "account_facts_projection e given observed_at version =
     abind (coerce_snapshot e given) (\<lambda>s.
     abind (clock_reading e observed_at) (\<lambda>observed.
     abind (alift (snapshot_closes e s observed True ACCOUNT_WORDS)) (\<lambda>_.
     abind (read_state e) (\<lambda>state.
     abind (aget w_local_halted) (\<lambda>halted.
     alift (account_facts_of e halted version s state observed))))))"

definition account_facts_projection_v1 :: "'g oenv \<Rightarrow> snapshot_value \<Rightarrow> int option \<Rightarrow> ('g, json) wop" where
  "account_facts_projection_v1 e given observed_at = account_facts_projection e given observed_at 1"

section \<open>Reconciliation snapshot\<close>

definition RECONCILIATION_WORDS :: "string \<times> string \<times> string \<times> string \<times> string \<times> string" where
  "RECONCILIATION_WORDS =
     (''reconciliation snapshot facts are invalid'', ''reconciliation snapshot rows are invalid'',
      ''reconciliation snapshot failed connection/scope/freshness binding'',
      ''reconciliation snapshot timestamp is stale'',
      ''reconciliation snapshot generation/order closure failed'',
      ''reconciliation snapshot position hash does not close'')"

definition reconciliation_snapshot_of ::
  "'g oenv \<Rightarrow> json \<Rightarrow> gateway_snapshot \<Rightarrow> int \<Rightarrow> int \<Rightarrow> json res" where
  "reconciliation_snapshot_of e report s expected_version expected_generation =
     (let generation = fld (fld report ''broker'') ''generation'' in
      rbind (snap (fld report ''state_version'' = JInt expected_version \<and> generation = JInt expected_generation)
        ''reconciliation snapshot durable state changed during read'') (\<lambda>_.
      rbind (snap (\<not> the_int (gs_generation s) < the_int generation)
        ''reconciliation snapshot generation regressed'') (\<lambda>_.
      let preimage = (''schema_version'', JStr ''web_bridge_execution_reconciliation_snapshot_v1'') #
            snapshot_columns e s @
            [(''state_binding'', JObj
               [(''state_version'', fld report ''state_version''), (''durable_broker_generation'', generation),
                (''lifecycle'', fld report ''lifecycle''), (''reconciliation'', fld report ''reconciliation'')]),
             (''production_allowed'', JBool False), (''live_trading_authorized'', JBool False),
             (''countable_forward'', JBool False), (''official_forward_claimed'', JBool False)]
      in rbind (sha256_json (JObj preimage)) (\<lambda>h.
         Inr (JObj (preimage @ [(''reconciliation_snapshot_sha256'', JStr h)]))))))"

definition reconciliation_snapshot_projection ::
  "'g oenv \<Rightarrow> snapshot_value \<Rightarrow> int \<Rightarrow> int \<Rightarrow> int option \<Rightarrow> ('g, json) wop" where
  "reconciliation_snapshot_projection e given expected_version expected_generation observed_at =
     abind (coerce_snapshot e given) (\<lambda>s.
     abind (clock_reading e observed_at) (\<lambda>observed.
     abind (alift (snapshot_closes e s observed False RECONCILIATION_WORDS)) (\<lambda>_.
     abind (alift (snap (0 \<le> expected_version \<and> 0 \<le> expected_generation)
       ''reconciliation snapshot durable binding is invalid'')) (\<lambda>_.
     abind (read_state e) (\<lambda>state.
     abind (aget w_local_halted) (\<lambda>halted.
     alift (reconciliation_snapshot_of e (projection e halted state observed) s
       expected_version expected_generation)))))))"

text \<open>The probe is some read of the gateway; the document must be at the same version around it.\<close>

definition stable_reconciliation_snapshot_projection ::
  "'g oenv \<Rightarrow> ('g, snapshot_value) wop \<Rightarrow> int option \<Rightarrow> ('g, json) wop" where
  "stable_reconciliation_snapshot_projection e probe observed_at =
     abind (read_state e) (\<lambda>before.
     abind probe (\<lambda>given.
     abind (read_state e) (\<lambda>after.
     abind (aguard (jeq (fld before ''state_version'') (fld after ''state_version''))
       (Exn SnapshotRejected ''reconciliation snapshot durable state changed during probe'')) (\<lambda>_.
     reconciliation_snapshot_projection e given (version_of after)
       (the_int (fld (fld after ''broker'') ''generation'')) observed_at))))"

end
