(* ===== verification/Frame.thy ===== *)
theory Frame
  imports Orch_Facts Fencing_Laws
begin

text \<open>
  What an operation does not touch. \<open>leaves p m\<close> says that \<open>m\<close> preserves the observation \<open>p\<close> of the
  state, whether it returns or raises; the rules below follow the structure of the operations.
\<close>

named_theorems leaves_rules \<open>operations preserve observations of the state\<close>

definition leaves :: "('s \<Rightarrow> 'x) \<Rightarrow> ('s, 'e, 'a) act \<Rightarrow> bool" where
  "leaves p m \<longleftrightarrow> (\<forall>s. p (snd (m s)) = p s)"

lemma leavesD: "leaves p m \<Longrightarrow> m s = (r, t) \<Longrightarrow> p t = p s"
  by (metis leaves_def snd_conv)

lemma leavesI: "(\<And>s r t. m s = (r, t) \<Longrightarrow> p t = p s) \<Longrightarrow> leaves p m"
  by (metis leaves_def prod.collapse)

lemma leaves_simple [leaves_rules]:
  "leaves p (aret x)" "leaves p (athrow y)" "leaves p (alift r)" "leaves p (aget g)" "leaves p (aguard b y)"
  by (simp_all add: leaves_def aguard_def)

lemma leaves_bind [leaves_rules]: "leaves p m \<Longrightarrow> (\<And>x. leaves p (f x)) \<Longrightarrow> leaves p (abind m f)"
  by (rule leavesI) (erule abind_cases; metis leavesD)

lemma leaves_catch [leaves_rules]: "leaves p m \<Longrightarrow> (\<And>x. leaves p (h x)) \<Longrightarrow> leaves p (acatch m h)"
  by (rule leavesI) (auto simp: acatch_def split: prod.splits sum.splits; metis leavesD)

lemma leaves_mod: "(\<And>s. p (g s) = p s) \<Longrightarrow> leaves p (amod g)"
  by (simp add: leaves_def)

lemma leaves_if [leaves_rules]: "leaves p m \<Longrightarrow> leaves p n \<Longrightarrow> leaves p (if b then m else n)"
  by simp

lemma leaves_aif [leaves_rules]: "leaves p m \<Longrightarrow> leaves p (aif b m)"
  by (simp add: aif_def leaves_rules)

lemma leaves_option [leaves_rules]:
  "leaves p m \<Longrightarrow> (\<And>y. leaves p (f y)) \<Longrightarrow> leaves p (case x of None \<Rightarrow> m | Some y \<Rightarrow> f y)"
  by (cases x) auto

lemma leaves_sum [leaves_rules]:
  "(\<And>y. leaves p (f y)) \<Longrightarrow> (\<And>y. leaves p (g y)) \<Longrightarrow> leaves p (case x of Inl y \<Rightarrow> f y | Inr y \<Rightarrow> g y)"
  by (cases x) auto

lemma leaves_prod [leaves_rules]: "(\<And>a b. leaves p (f a b)) \<Longrightarrow> leaves p (case x of (a, b) \<Rightarrow> f a b)"
  by (cases x) auto

lemma leaves_snapshot_value [leaves_rules]:
  "(\<And>y. leaves p (f y)) \<Longrightarrow> (\<And>y. leaves p (g y))
    \<Longrightarrow> leaves p (case x of TypedSnapshot y \<Rightarrow> f y | OtherSnapshot y \<Rightarrow> g y)"
  by (cases x) auto

lemma leaves_let [leaves_rules]: "(\<And>y. leaves p (f y)) \<Longrightarrow> leaves p (let y = x in f y)"
  by simp

lemma leaves_aforall [leaves_rules]: "(\<And>x. leaves p (f x)) \<Longrightarrow> leaves p (aforall f xs)"
  by (induction xs) (auto intro: leaves_rules)

lemma leaves_amap [leaves_rules]: "(\<And>x. leaves p (f x)) \<Longrightarrow> leaves p (amap f xs)"
  by (induction xs) (auto intro!: leaves_rules)

section \<open>Observations outside the repository\<close>

definition repo_blind :: "('z repo_scheme \<Rightarrow> 'x) \<Rightarrow> bool" where
  "repo_blind p \<longleftrightarrow> (\<forall>s d b i k n. p (s\<lparr>r_mem := d\<rparr>) = p s \<and> p (s\<lparr>r_available := b\<rparr>) = p s
     \<and> p (s\<lparr>r_initialized := i\<rparr>) = p s \<and> p (s\<lparr>r_disk := k\<rparr>) = p s \<and> p (s\<lparr>r_tick := n\<rparr>) = p s)"

lemma repo_blindD:
  assumes "repo_blind p"
  shows "p (s\<lparr>r_mem := d\<rparr>) = p s" "p (s\<lparr>r_available := b\<rparr>) = p s" "p (s\<lparr>r_initialized := i\<rparr>) = p s"
    "p (s\<lparr>r_disk := k\<rparr>) = p s" "p (s\<lparr>r_tick := n\<rparr>) = p s"
  using assms by (simp_all add: repo_blind_def)

definition tick_blind :: "('z repo_scheme \<Rightarrow> 'x) \<Rightarrow> bool" where
  "tick_blind p \<longleftrightarrow> (\<forall>s n. p (s\<lparr>r_tick := n\<rparr>) = p s)"

lemma repo_blind_tick: "repo_blind p \<Longrightarrow> tick_blind p"
  by (simp add: repo_blind_def tick_blind_def)

lemma tick_blind_repo_part [leaves_rules, simp]: "tick_blind repo_part"
  by (simp add: tick_blind_def repo_part_def)

lemma leaves_clock [leaves_rules]:
  assumes "tick_blind p"
  shows "leaves p next_tick" "leaves p (utc_now e)" "leaves p (clock_reading e t)"
  using assms
  by (auto simp: leaves_def next_tick_def utc_now_def clock_reading_def abind_def tick_blind_def
      split: option.splits)

lemma leaves_stamp [leaves_rules]: "tick_blind p \<Longrightarrow> leaves p (stamp e)"
  unfolding stamp_def by (intro leaves_rules)

lemma leaves_file_guard:
  assumes b: "repo_blind p" and m: "leaves p m"
  shows "leaves p (file_guard e m)"
  unfolding file_guard_def
  by (intro leaves_rules leaves_mod m) (use b in \<open>auto simp: repo_blindD dest: repo_blind_tick\<close>)

lemma leaves_refresh: "repo_blind p \<Longrightarrow> leaves p (refresh_from_disk e)"
  by (auto simp: leaves_def refresh_from_disk_def repo_blindD split: sum.splits)

lemma leaves_require_available: "leaves p require_available"
  by (simp add: leaves_def require_available_def aguard_def)

lemma leaves_snapshot [leaves_rules]: "repo_blind p \<Longrightarrow> leaves p (snapshot e)"
  unfolding snapshot_def
  by (intro leaves_rules leaves_require_available leaves_file_guard leaves_refresh)

lemma leaves_state_version [leaves_rules]: "repo_blind p \<Longrightarrow> leaves p (state_version e)"
  unfolding state_version_def
  by (intro leaves_rules leaves_require_available leaves_file_guard leaves_refresh)

lemma leaves_persist: "repo_blind p \<Longrightarrow> leaves p (persist e st)"
  by (rule leavesI, cases "e_path e")
    (auto simp: persist_def next_tick_def repo_blindD elim!: abind_cases split: write_outcome.splits)

lemma leaves_mutate [leaves_rules]:
  assumes "repo_blind p" and "\<And>d. leaves p (f d)"
  shows "leaves p (mutate e f ex)"
  unfolding mutate_def mutate_locked_def
  by (intro leaves_rules leaves_require_available leaves_file_guard leaves_refresh leaves_persist assms)

lemma leaves_update_doc [leaves_rules]:
  assumes "repo_blind p" and "\<And>d. leaves p (f d)"
  shows "leaves p (update_doc e f ex)"
  unfolding update_doc_def by (intro leaves_rules assms)

lemma leaves_read_state [leaves_rules]: "repo_blind p \<Longrightarrow> leaves p (read_state e)"
  unfolding read_state_def by (intro leaves_rules)

section \<open>Observations outside the fencer\<close>

definition fence_blind :: "('z fencer_scheme \<Rightarrow> 'x) \<Rightarrow> bool" where
  "fence_blind p \<longleftrightarrow> tick_blind p \<and> (\<forall>s l b. p (s\<lparr>f_last_now := l\<rparr>) = p s \<and> p (s\<lparr>f_rollback := b\<rparr>) = p s)"

lemma fence_blind_repo_part [leaves_rules, simp]: "fence_blind repo_part"
  by (simp add: fence_blind_def repo_part_def tick_blind_def)

lemma fence_blindD:
  assumes "fence_blind p"
  shows "p (s\<lparr>f_last_now := l\<rparr>) = p s" "p (s\<lparr>f_rollback := b\<rparr>) = p s" "tick_blind p"
  using assms by (simp_all add: fence_blind_def)

lemma leaves_lease_clock [leaves_rules]:
  assumes p: "fence_blind p"
  shows "leaves p (lease_clock e t)"
  unfolding lease_clock_def
proof (rule leaves_bind)
  show "leaves p (clock_reading e t)" by (rule leaves_clock(3) [OF fence_blindD(3) [OF p]])
  show "leaves p (\<lambda>s. case f_last_now s of
      None \<Rightarrow> if f_rollback s
        then (Inl (Exn ClockRollbackError ''fencing halted after clock rollback''), s\<lparr>f_last_now := Some current\<rparr>)
        else (Inr current, s\<lparr>f_last_now := Some current\<rparr>)
    | Some l \<Rightarrow> if current < l
        then (Inl (Exn ClockRollbackError ''clock rollback detected; fencing is halted''), s\<lparr>f_rollback := True\<rparr>)
        else if f_rollback s
        then (Inl (Exn ClockRollbackError ''fencing halted after clock rollback''), s\<lparr>f_last_now := Some current\<rparr>)
        else (Inr current, s\<lparr>f_last_now := Some current\<rparr>))" for current
    by (rule leavesI) (auto simp: fence_blindD [OF p] split: option.splits if_splits)
qed

lemma leaves_candidate [leaves_rules]: "fence_blind p \<Longrightarrow> leaves p (candidate_fence e a now st)"
  unfolding candidate_fence_def validate_planned_dispatch_against_state_def validate_against_state_def
    validate_candidate_def
  by (auto intro!: leaves_rules dest: fence_blindD(3) split: option.splits)

lemma leaves_order_fence [leaves_rules]:
  "fence_blind p \<Longrightarrow> repo_blind p \<Longrightarrow> leaves p (order_fence e a now)"
  unfolding order_fence_def admission_def planned_dispatch_admission_def validate_token_def own_token_def
  by (auto intro!: leaves_rules split: option.splits)

lemma leaves_require_authority [leaves_rules]: "tick_blind p \<Longrightarrow> leaves p (require_authority e st now)"
  unfolding require_authority_def by (intro leaves_rules)

lemma leaves_preflight [leaves_rules]:
  "fence_blind p \<Longrightarrow> repo_blind p \<Longrightarrow> leaves p (mutation_preflight e action a tx now st)"
  unfolding mutation_preflight_def by (auto intro!: leaves_rules dest: fence_blindD(3))

lemma leaves_candidate_preflight [leaves_rules]:
  "fence_blind p \<Longrightarrow> leaves p (mutation_preflight e action a True now st)"
  unfolding mutation_preflight_def by (auto intro!: leaves_rules simp: fence_blind_def)

section \<open>The orchestrator's own fields\<close>

lemma world_blind [leaves_rules, simp]:
  "repo_blind w_gateway" "fence_blind w_gateway" "repo_blind w_local_halted" "fence_blind w_local_halted"
  "repo_blind f_token" "fence_blind f_token"
  by (simp_all add: repo_blind_def fence_blind_def tick_blind_def)

lemma leaves_halt_locally [leaves_rules]: "leaves w_gateway halt_locally" "leaves repo_part halt_locally"
  by (simp_all add: leaves_def halt_locally_def repo_part_def)

lemma leaves_call_gateway [leaves_rules]:
  "leaves w_local_halted (call_gateway e f)" "leaves repo_part (call_gateway e f)" "leaves f_token (call_gateway e f)"
  by (auto simp: leaves_def call_gateway_def utc_now_def next_tick_def abind_def repo_part_def split: prod.splits)

lemma neutral_leaves: "neutral m = leaves repo_part m"
  by (simp add: neutral_def leaves_def)

end
