(* ===== verification/Order_Facts.thy ===== *)
theory Order_Facts
  imports Frame
begin

text \<open>
  Facts about order mutations: when the preconditions admit one, what the intent's transaction
  leaves in the durable document, and that the broker is called after it, once.
\<close>

section \<open>When a mutation is admitted\<close>

definition unsettled :: "json \<Rightarrow> bool" where
  "unsettled d \<longleftrightarrow> truthy (fld d ''unknown_outcomes'')
     \<or> fld d ''lifecycle'' \<in> {JStr ''HALTED_RECONCILE_REQUIRED'', JStr ''HALTED_UNKNOWN_OUTCOME''}
     \<or> fld (get_or d ''reconciliation'' (JObj [])) ''state'' \<noteq> JStr ''RECONCILED''"

definition target_open :: "json \<Rightarrow> string \<Rightarrow> bool \<Rightarrow> bool" where
  "target_open d target_id emergency \<longleftrightarrow>
     (let target = fld (intents_of d) target_id in
      is_obj target \<and> fld target ''state'' \<noteq> JStr ''UNKNOWN_OUTCOME''
      \<and> \<not> has_key (unknowns_of d) target_id
      \<and> (emergency \<longrightarrow> fld target ''state'' = JStr ''ACKNOWLEDGED''))"

definition authority_live :: "json \<Rightarrow> int \<Rightarrow> bool" where
  "authority_live d now \<longleftrightarrow> (\<exists>expiry. authority_expiry d = Inr expiry \<and> now < expiry)"

definition plan_matches :: "json \<Rightarrow> order_args \<Rightarrow> bool" where
  "plan_matches d a \<longleftrightarrow>
     (let plan = get_or d ''plan'' (JObj []) in
      fld plan ''state'' = JStr ''ACTIVE''
      \<and> (oa_plan_id a = None \<or> fld plan ''plan_id'' = opt_json (oa_plan_id a))
      \<and> (oa_plan_hash a = None \<or> fld plan ''plan_hash'' = opt_json (oa_plan_hash a)))"

text \<open>The lease of the document accepts the caller's token, with the epoch and fence it names.\<close>

definition fence_accepts :: "'g oenv \<Rightarrow> json \<Rightarrow> order_args \<Rightarrow> int \<Rightarrow> bool" where
  "fence_accepts e d a now \<longleftrightarrow>
     (\<exists>tok. oa_token a \<noteq> NoToken \<and> coerce_token (fe_scope e) (oa_token a) = Inr tok
        \<and> oa_leader_epoch a = Some (lt_epoch tok) \<and> oa_fencing_token a = Some (lt_fencing_token tok)
        \<and> assert_state_token (fe_scope e) d tok now False (oa_planned a) = Inr ())"

definition state_admits :: "string \<Rightarrow> order_args \<Rightarrow> int \<Rightarrow> json \<Rightarrow> bool" where
  "state_admits action a now d \<longleftrightarrow>
     (action = ''cancel'' \<and> oa_emergency a \<or> \<not> unsettled d)
     \<and> (action = ''cancel'' \<or> fld d ''lifecycle'' \<notin> {JStr ''DRAINING'', JStr ''STOPPING''})
     \<and> (action = ''cancel'' \<and> text_or (oa_target a) [] \<noteq> []
          \<longrightarrow> target_open d (text_or (oa_target a) []) (oa_emergency a))
     \<and> authority_live d now \<and> plan_matches d a"

lemma str_sat_in: "str_sat (\<lambda>l. l \<in> set ls) v \<longleftrightarrow> v \<in> JStr ` set ls"
  by (cases v) (auto simp: str_sat_def)

lemma str_sat_pair: "str_sat (\<lambda>l. l \<in> {a, b}) v \<longleftrightarrow> v \<in> {JStr a, JStr b}"
  using str_sat_in [of "[a, b]" v] by simp

lemma preflight_lifecycle_Inr:
  "preflight_lifecycle h d action em = Inr u \<longleftrightarrow>
    \<not> h \<and> (em \<or> \<not> unsettled d) \<and> (action = ''cancel'' \<or> fld d ''lifecycle'' \<notin> {JStr ''DRAINING'', JStr ''STOPPING''})"
  unfolding preflight_lifecycle_def unsettled_def str_sat_pair checks_Inr_iff
  by (cases h; cases em; cases "action = ''cancel''"; simp add: conj_ac)

lemma preflight_target_Inr:
  "preflight_target d action target em = Inr u \<longleftrightarrow>
    (action = ''cancel'' \<and> text_or target [] \<noteq> [] \<longrightarrow> target_open d (text_or target []) em)"
  unfolding preflight_target_def target_open_def Let_def
  by (cases "action = ''cancel''"; cases "text_or target [] = []"; cases em; simp; blast)

lemma preflight_plan_Inr: "preflight_plan d (oa_plan_id a) (oa_plan_hash a) = Inr u \<longleftrightarrow> plan_matches d a"
  by (simp add: preflight_plan_def plan_matches_def Let_def)

lemma require_authority_Inr:
  "require_authority e d (Some now) s = (Inr u, t) \<longleftrightarrow> authority_live d now \<and> t = s"
  by (cases "authority_expiry d")
    (auto simp: require_authority_def abind_def clock_reading_def aguard_def authority_live_def)

lemma state_admits_iff:
  "state_admits action a now d \<longleftrightarrow>
    preflight_lifecycle False d action (action = ''cancel'' \<and> oa_emergency a) = Inr ()
    \<and> preflight_target d action (oa_target a) (action = ''cancel'' \<and> oa_emergency a) = Inr ()
    \<and> authority_live d now \<and> preflight_plan d (oa_plan_id a) (oa_plan_hash a) = Inr ()"
  unfolding preflight_lifecycle_Inr preflight_target_Inr preflight_plan_Inr state_admits_def
  by (cases "action = ''cancel''") (simp_all add: conj_ac)

lemma lifecycle_halted: "preflight_lifecycle h d action em = Inr u \<longleftrightarrow> \<not> h \<and> preflight_lifecycle False d action em = Inr ()"
  unfolding preflight_lifecycle_Inr by simp

lemma mutation_preflight_Inr:
  "mutation_preflight e action a tx now d s = (Inr u, t) \<longleftrightarrow>
    \<not> w_local_halted s \<and> state_admits action a now d
    \<and> (\<exists>tok. (if tx then candidate_fence e a now d else order_fence e a now) s = (Inr tok, t))"
  by (auto simp: mutation_preflight_def Let_def abind_Inr_iff state_admits_iff require_authority_Inr
      lifecycle_halted [of "w_local_halted s"])

text \<open>The fence check on a transaction's own document, and against the repository.\<close>

lemma candidate_fence_Inr:
  assumes "candidate_fence e a now d s = (Inr tok, t)"
  shows "\<exists>cur. fence_accepts e d a cur" "repo_part t = repo_part s" "w_gateway t = w_gateway s"
proof -
  obtain cur where c: "lease_clock e (if oa_planned a then None else Some now) s = (Inr cur, t)"
    and f: "fence_accepts e d a cur"
    using assms
    by (cases "oa_planned a"; cases "oa_leader_epoch a"; cases "oa_fencing_token a")
      (auto simp: candidate_fence_def validate_planned_dispatch_against_state_def validate_against_state_def
        validate_candidate_def fence_accepts_def abind_Inr_iff fence_match_def split: if_splits)
  show "\<exists>cur. fence_accepts e d a cur" using f by blast
  show "repo_part t = repo_part s" by (rule leavesD [OF leaves_lease_clock c]) simp
  show "w_gateway t = w_gateway s" by (rule leavesD [OF leaves_lease_clock c]) simp
qed

lemma coerced_is_own:
  assumes "coerce_token scope token = Inr x"
  shows "or_own token own = token" "token \<noteq> NoToken"
proof -
  have "truthy m" if "is_obj m" "has_key m k" for m k
    using that by (cases m) (auto simp: has_key_def)
  then show "or_own token own = token" "token \<noteq> NoToken"
    using assms by (cases token; auto simp: or_own_def coerce_token_def Let_def raise_def split: if_splits)+
qed

lemma order_fence_Inr:
  assumes "order_fence e a now s = (Inr tok, t)" and "coerce_token (fe_scope e) (oa_token a) = Inr x"
  shows "\<exists>cur. fence_accepts e (r_mem t) a cur"
  using assms(1) coerced_is_own [OF assms(2)] assms(2)
  by (cases "oa_planned a"; cases "oa_leader_epoch a"; cases "oa_fencing_token a")
    (auto simp: order_fence_def planned_dispatch_admission_def admission_def validate_token_def own_token_def
      fence_accepts_def abind_Inr_iff fence_match_def dest!: snapshot_ok)

section \<open>The intent's transaction\<close>

lemma update_doc_ok:
  assumes "update_doc e f ex s = (Inr u, s')" and "\<And>d. leaves repo_part (f d)"
  obtains mem cand t t' where "current_doc (repo_env e) s = Inr mem" "r_mem t = mem" "f mem t = (Inr cand, t')"
    "assert_append_only mem cand = Inr ()"
    "sealed (e_scope e) mem (dset cand ''state_version'' (JInt (version_of mem + 1))) = Inr (r_mem s')"
    "e_path e \<Longrightarrow> r_disk s' = Stored (canon (r_mem s'))" "ex = None \<or> ex = Some (version_of mem)"
proof -
  obtain r d where m: "mutate (repo_env e) (\<lambda>d. abind (f d) (\<lambda>d'. aret ((), d'))) ex s = (Inr (r, d), s')"
    using assms(1) by (auto simp: update_doc_def abind_Inr_iff)
  have n: "neutral (abind (f d) (\<lambda>d'. aret ((), d')))" for d
    unfolding neutral_leaves by (intro leaves_rules assms(2))
  from m n show thesis
  proof (rule mutate_ok)
    fix mem cand t t'
    assume "r_available s" and "current_doc (repo_env e) s = Inr mem" "ex = None \<or> ex = Some (version_of mem)" "r_mem t = mem"
      "abind (f mem) (\<lambda>d'. aret ((), d')) t = (Inr (r, cand), t')" "assert_append_only mem cand = Inr ()"
      "d = dset cand ''state_version'' (JInt (version_of mem + 1))"
      "sealed (e_scope (repo_env e)) mem d = Inr (r_mem s')"
      "e_path (repo_env e) \<Longrightarrow> r_disk s' = Stored (canon (r_mem s'))"
    with that show thesis by (auto simp: abind_Inr_iff)
  qed
qed

text \<open>The document holds the intent under its name and under its idempotency key.\<close>

definition recorded :: "prepared \<Rightarrow> json \<Rightarrow> bool" where
  "recorded p d \<longleftrightarrow>
     fld (fld d ''send_intents'') (si_intent_id (pr_intent p)) = stored_intent p
     \<and> fld (fld d ''intent_keys'') (pr_key p) = JStr (si_intent_id (pr_intent p))"

text \<open>
  From \<open>s\<close> to \<open>s'\<close> the intent was written, into the document of the version it was prepared for,
  which admitted the mutation and accepted the caller's token.
\<close>

definition intent_written ::
  "'g oenv \<Rightarrow> string \<Rightarrow> order_args \<Rightarrow> prepared \<Rightarrow> 'g world \<Rightarrow> 'g world \<Rightarrow> bool" where
  "intent_written e action a p s s' \<longleftrightarrow>
     (\<exists>mem. current_doc (repo_env e) s = Inr mem \<and> version_of mem = pr_expected p
        \<and> state_admits action a (pr_now p) mem \<and> (\<exists>cur. fence_accepts e mem a cur)
        \<and> recorded p (r_mem s') \<and> version_of (r_mem s') = pr_expected p + 1
        \<and> (e_path e \<longrightarrow> r_disk s' = Stored (canon (r_mem s'))))"

lemma recorded_after:
  assumes "\<And>k. k \<in> {''send_intents'', ''intent_keys''} \<Longrightarrow> fld d k = fld (persist_intent_doc p mem) k"
  shows "recorded p d"
  using assms by (simp add: recorded_def persist_intent_doc_def set_in_def put_raw_intent_def doc_simps)

lemma persist_intent_ok:
  assumes "persist_intent e action a retry p s = (Inr True, s')"
  shows "intent_written e action a p s s'"
proof -
  let ?f = "\<lambda>d. abind (mutation_preflight e action a True (pr_now p) d) (\<lambda>_. aret (persist_intent_doc p d))"
  have u: "update_doc e ?f (Some (pr_expected p)) s = (Inr (), s')"
    using assms by (auto simp: persist_intent_def acatch_def abind_Inr_iff split: prod.splits sum.splits if_splits)
  have l: "leaves repo_part (?f d)" for d
    by (rule leaves_bind, rule leaves_candidate_preflight) (simp_all add: leaves_rules)
  from u l show ?thesis
  proof (rule update_doc_ok)
    fix mem cand t t'
    assume c: "current_doc (repo_env e) s = Inr mem" "Some (pr_expected p) = None \<or> Some (pr_expected p) = Some (version_of mem)"
      and f: "?f mem t = (Inr cand, t')"
      and sl: "sealed (e_scope e) mem (dset cand ''state_version'' (JInt (version_of mem + 1))) = Inr (r_mem s')"
      and disk: "e_path e \<Longrightarrow> r_disk s' = Stored (canon (r_mem s'))"
    obtain tok where adm: "state_admits action a (pr_now p) mem" and cand: "cand = persist_intent_doc p mem"
      and fence: "candidate_fence e a (pr_now p) mem t = (Inr tok, t')"
      using f by (auto simp: abind_Inr_iff mutation_preflight_Inr)
    have "recorded p (r_mem s')"
      by (rule recorded_after [of _ _ mem]) (auto simp: sealed_Inr(3) [OF sl] cand doc_simps)
    moreover have "version_of (r_mem s') = version_of mem + 1"
      using sealed_Inr(3) [OF sl, of "''state_version''"] by (simp add: version_of_def doc_simps)
    ultimately show ?thesis
      using c adm candidate_fence_Inr(1) [OF fence] disk by (auto simp: intent_written_def)
  qed
qed

section \<open>Before and after the broker call\<close>

lemma leaves_prepare_intent [leaves_rules]:
  "fence_blind p \<Longrightarrow> repo_blind p \<Longrightarrow> leaves p (prepare_intent e action a rq now d)"
  unfolding prepare_intent_def intent_name_def
  by (intro leaves_rules leaves_clock(1) repo_blind_tick)

lemma leaves_prepare_order [leaves_rules]:
  "fence_blind p \<Longrightarrow> repo_blind p \<Longrightarrow> leaves p (prepare_order e action request key a)"
  unfolding prepare_order_def Let_def
  by (auto intro!: leaves_rules dest: repo_blind_tick)

lemma leaves_persist_intent [leaves_rules]:
  "fence_blind p \<Longrightarrow> repo_blind p \<Longrightarrow> leaves p (persist_intent e action a retry q)"
  unfolding persist_intent_def by (auto intro!: leaves_rules)

lemma call_gateway_effect:
  assumes "call_gateway e f s = (r, t)"
  shows "r = fst (f (e_clock e (r_tick s)) (w_gateway s))"
    "w_gateway t = snd (f (e_clock e (r_tick s)) (w_gateway s))" "repo_part t = repo_part s"
  using assms
  by (auto simp: call_gateway_def utc_now_def next_tick_def abind_def repo_part_def split: prod.splits)

text \<open>Recording what happened to an intent never calls the broker.\<close>

lemma leaves_mark [leaves_rules]:
  assumes "repo_blind p" and "leaves p halt_locally"
  shows "leaves p (mark_unknown e i why)"
    and "leaves p (apply_intent_result_transition e i name b d)"
    and "leaves p (mark_intent_result e i result)"
    and "leaves p (mark_cancelled_target e target)"
proof -
  have stamped: "leaves p (stamp e)" by (intro leaves_rules repo_blind_tick assms)
  show u: "leaves p (mark_unknown e i why)" for why
    unfolding mark_unknown_def by (intro leaves_rules assms)
  show t: "leaves p (apply_intent_result_transition e i name b d)" for name b d
    unfolding apply_intent_result_transition_def Let_def by (intro leaves_rules stamped)
  show "leaves p (mark_intent_result e i result)"
    unfolding mark_intent_result_def by (intro leaves_rules u t assms)
  show "leaves p (mark_cancelled_target e target)"
    unfolding mark_cancelled_target_def Let_def by (intro leaves_rules stamped assms)
qed

lemma leaves_recheck [leaves_rules]:
  assumes "repo_blind p" "fence_blind p" "leaves p halt_locally"
  shows "leaves p (recheck_fence e action a q)"
  unfolding recheck_fence_def by (intro leaves_rules repo_blind_tick assms)

text \<open>A change comes from what runs after a computation that leaves it alone.\<close>

lemma changed_after:
  assumes "abind m f s = (r, s')" "leaves p m" "p s' \<noteq> p s"
  obtains x t where "m s = (Inr x, t)" "f x t = (r, s')" "p t = p s" "p s' \<noteq> p t"
  using assms(1)
proof (cases rule: abind_cases)
  case (raised y)
  then show thesis using leavesD [OF assms(2)] assms(3) by blast
next
  case (went x t)
  then show thesis using leavesD [OF assms(2), of s "Inr x" t] assms(3) that by simp
qed

text \<open>What was checked last before the broker is called.\<close>

definition dispatch_admitted :: "'g oenv \<Rightarrow> string \<Rightarrow> order_args \<Rightarrow> json \<Rightarrow> 'g world \<Rightarrow> bool" where
  "dispatch_admitted e action a latest t \<longleftrightarrow>
     \<not> w_local_halted t \<and> (\<exists>now. state_admits action a now latest)
     \<and> (\<exists>cur. fence_accepts e (r_mem t) a cur)"

definition broker_call :: "'g oenv \<Rightarrow> string \<Rightarrow> prepared \<Rightarrow> 'g world \<Rightarrow> 'g \<Rightarrow> 'g" where
  "broker_call e action p t = (\<lambda>g.
     snd (order_gateway e action (pr_request p) (pr_context p) (e_clock e (r_tick t)) g))"

lemma call_broker_effect:
  assumes "call_broker e action p s = (r, t)"
  shows "w_gateway t = broker_call e action p s (w_gateway s)"
proof -
  have m: "leaves w_gateway (mark_unknown e i why)" for i why by (intro leaves_rules)
  show ?thesis
    using assms unfolding call_broker_def acatch_def broker_call_def
    by (auto elim!: abind_cases split: prod.splits sum.splits dest!: call_gateway_effect(2) leavesD [OF m])
qed

lemma dispatch_order_call:
  assumes "dispatch_order e action a p s = (r, s')" and "w_gateway s' \<noteq> w_gateway s"
    and "coerce_token (fe_scope e) (oa_token a) = Inr x"
  shows "\<exists>latest t. dispatch_admitted e action a latest t \<and> w_gateway s' = broker_call e action p t (w_gateway s)"
proof -
  have tail: "leaves w_gateway (abind (recheck_fence e action a p) (\<lambda>_.
      abind (mark_intent_result e i result) (\<lambda>_.
      abind (aif b (mark_cancelled_target e target)) (\<lambda>_.
      abind (read_state e) (\<lambda>final. aret (g final))))))" for i result b target and g :: "json \<Rightarrow> json"
    by (intro leaves_rules)
  have pre: "leaves w_gateway (read_state e)" "leaves w_gateway (utc_now e)"
    "leaves w_gateway (mutation_preflight e action a False now latest)" for now latest
    by (intro leaves_rules repo_blind_tick; simp)+
  define after where "after result =
      abind (recheck_fence e action a p) (\<lambda>_.
      abind (mark_intent_result e (si_intent_id (pr_intent p)) result) (\<lambda>_.
      abind (aif (action = ''cancel'' \<and> text_or (oa_target a) [] \<noteq> [] \<and> cancel_result_is_terminal result)
        (mark_cancelled_target e (text_or (oa_target a) []))) (\<lambda>_.
      abind (read_state e) (\<lambda>final.
      aret (order_response (si_intent_id (pr_intent p))
        (get_or (fld final ''send_intents'') (si_intent_id (pr_intent p)) (JObj [])) result)))))" for result
  have d: "abind (read_state e) (\<lambda>latest. abind (utc_now e) (\<lambda>now.
      abind (mutation_preflight e action a False now latest) (\<lambda>_. abind (call_broker e action p) after))) s = (r, s')"
    using assms(1) by (simp add: dispatch_order_def Let_def after_def [abs_def])
  obtain latest s1 where 1: "abind (utc_now e) (\<lambda>now. abind (mutation_preflight e action a False now latest)
      (\<lambda>_. abind (call_broker e action p) after)) s1 = (r, s')" "w_gateway s1 = w_gateway s" "w_gateway s' \<noteq> w_gateway s1"
    using changed_after [OF d pre(1) assms(2)] by metis
  obtain now s2 where 2: "abind (mutation_preflight e action a False now latest)
      (\<lambda>_. abind (call_broker e action p) after) s2 = (r, s')" "w_gateway s2 = w_gateway s1" "w_gateway s' \<noteq> w_gateway s2"
    using changed_after [OF 1(1) pre(2) 1(3)] by metis
  obtain s3 where p: "mutation_preflight e action a False now latest s2 = (Inr (), s3)"
    and 3: "abind (call_broker e action p) after s3 = (r, s')" "w_gateway s3 = w_gateway s2"
    using changed_after [OF 2(1) pre(3) 2(3)] by (metis unit.exhaust)
  have w: "w_gateway s3 = w_gateway s" using 1 2 3 by simp
  have c: "w_gateway s' = broker_call e action p s3 (w_gateway s3)"
    using 3(1)
  proof (cases rule: abind_cases)
    case (raised y)
    then show ?thesis using call_broker_effect by blast
  next
    case (went x t)
    then show ?thesis
      using call_broker_effect [OF went(1)] leavesD [OF tail went(2) [unfolded after_def]] by simp
  qed
  obtain tok where "\<not> w_local_halted s2" "state_admits action a now latest" "order_fence e a now s2 = (Inr tok, s3)"
    using p by (auto simp: mutation_preflight_Inr)
  moreover from this have "w_local_halted s3 = w_local_halted s2"
    using leavesD [OF leaves_order_fence [of w_local_halted]] world_blind(3,4) by blast
  ultimately show ?thesis
    using c w order_fence_Inr assms(3) unfolding dispatch_admitted_def by metis
qed

end
