(* ===== verification/Order_Laws.thy ===== *)
theory Order_Laws
  imports Order_Facts
begin

text \<open>
  The properties of order mutations: the broker is called only after the intent is durable, at most
  once, and never for a key that has been used.
\<close>

section \<open>The prepared intent\<close>

text \<open>What reaches the broker is the caller's request, under the caller's key and fence.\<close>

definition carries :: "prepared \<Rightarrow> string \<Rightarrow> json \<Rightarrow> string \<Rightarrow> order_args \<Rightarrow> bool" where
  "carries p action request key a \<longleftrightarrow>
     pr_request p = canon request \<and> pr_key p = key
     \<and> mc_action (pr_context p) = action \<and> mc_idempotency_key (pr_context p) = key
     \<and> mc_request_hash (pr_context p) = json_hash (canon request)
     \<and> mc_intent_id (pr_context p) = si_intent_id (pr_intent p)
     \<and> oa_leader_epoch a = Some (mc_leader_epoch (pr_context p))
     \<and> oa_fencing_token a = Some (mc_fencing_token (pr_context p))"

lemma order_fence_match:
  assumes "order_fence e a now s = (Inr tok, t)"
  shows "oa_leader_epoch a = Some (lt_epoch tok)" "oa_fencing_token a = Some (lt_fencing_token tok)"
  using assms
  by (cases "oa_planned a"; cases "oa_leader_epoch a"; cases "oa_fencing_token a";
      auto simp: order_fence_def planned_dispatch_admission_def admission_def abind_Inr_iff fence_match_def
        split: if_splits)+

lemma order_request_Inr:
  assumes "order_request action key request a = Inr (key', detached, h, quote_proof)"
  shows "key' = key" "detached = canon request" "h = json_hash (canon request)" "is_obj request" "finite_json request"
    "IDEMPOTENCY_RE key"
  using assms
  by (auto simp: order_request_def rbind_Inr_iff validate_idempotency_key_Inr_iff detached_json_def
      sha256_json_Inr_iff raise_def split: if_splits option.splits)

lemma prepare_order_Inr:
  assumes "prepare_order e action request key a s = (Inr (Inr p), t)"
  shows "carries p action request key a"
proof -
  obtain now d rq u v where rq: "order_request action key request a = Inr rq"
    and i: "prepare_intent e action a rq now d u = (Inr p, v)"
    using assms by (auto simp: prepare_order_def abind_Inr_iff Let_def split: if_splits prod.splits)
  obtain key' detached h quote_proof where rq_eq: "rq = (key', detached, h, quote_proof)" by (cases rq)
  note r = order_request_Inr [OF rq [unfolded rq_eq]]
  show ?thesis
    using i unfolding prepare_intent_def rq_eq r carries_def
    by (auto simp: abind_Inr_iff Let_def dest: order_fence_match)
qed

section \<open>The durable intent comes first\<close>

lemma admitted_with_proof [simp]:
  "state_admits action (a\<lparr>oa_proof := x\<rparr>) now d = state_admits action a now d"
  "fence_accepts e d (a\<lparr>oa_proof := x\<rparr>) now = fence_accepts e d a now"
  "intent_written e action (a\<lparr>oa_proof := x\<rparr>) p s t = intent_written e action a p s t"
  "dispatch_admitted e action (a\<lparr>oa_proof := x\<rparr>) d t = dispatch_admitted e action a d t"
  "carries p action request key (a\<lparr>oa_proof := x\<rparr>) = carries p action request key a"
  by (simp_all add: state_admits_def fence_accepts_def intent_written_def dispatch_admitted_def carries_def
      plan_matches_def)

text \<open>
  The last attempt of an operation that reached the broker: prepared, written, dispatched. Earlier
  attempts lost the race for the document and changed nothing else.
\<close>

definition attempt ::
  "'g oenv \<Rightarrow> string \<Rightarrow> json \<Rightarrow> string \<Rightarrow> order_args \<Rightarrow> prepared \<Rightarrow> 'g world \<Rightarrow> 'g world \<Rightarrow> exn + json \<Rightarrow> 'g world
    \<Rightarrow> bool" where
  "attempt e action request key a p before written r s' \<longleftrightarrow>
     (\<exists>x retry s0. prepare_order e action request key (a\<lparr>oa_proof := x\<rparr>) s0 = (Inr (Inr p), before)
        \<and> persist_intent e action (a\<lparr>oa_proof := x\<rparr>) retry p before = (Inr True, written)
        \<and> dispatch_order e action (a\<lparr>oa_proof := x\<rparr>) p written = (r, s'))"

lemma attempt_proof: "attempt e action request key (a\<lparr>oa_proof := x\<rparr>) p b w r s' \<Longrightarrow> attempt e action request key a p b w r s'"
  by (auto simp: attempt_def)

lemma attemptI:
  assumes "prepare_order e action request key a s0 = (Inr (Inr p), before)"
    and "persist_intent e action a retry p before = (Inr True, written)"
    and "dispatch_order e action a p written = (r, s')"
  shows "attempt e action request key a p before written r s'"
proof -
  have "a\<lparr>oa_proof := oa_proof a\<rparr> = a" by simp
  with assms show ?thesis unfolding attempt_def by metis
qed

lemma mutate_order_path:
  assumes "mutate_order_within n e action request key a s = (r, s')" "w_gateway s' \<noteq> w_gateway s"
  shows "\<exists>p before written. attempt e action request key a p before written r s' \<and> w_gateway written = w_gateway s"
  using assms
proof (induction n arbitrary: a s)
  case 0
  from 0(1) [simplified] leaves_prepare_order [of w_gateway] 0(2) obtain q s1
    where q: "prepare_order e action request key a s = (Inr q, s1)"
      "(case q of Inl answer \<Rightarrow> aret answer
        | Inr p \<Rightarrow> abind (persist_intent e action a False p) (\<lambda>_. dispatch_order e action a p)) s1 = (r, s')"
      "w_gateway s1 = w_gateway s" "w_gateway s' \<noteq> w_gateway s1"
    by (rule changed_after) simp_all
  then obtain p where p: "q = Inr p" by (cases q) simp_all
  from q(2) [unfolded p] leaves_persist_intent [of w_gateway] q(4) obtain b s2
    where b: "persist_intent e action a False p s1 = (Inr b, s2)" "dispatch_order e action a p s2 = (r, s')"
      "w_gateway s2 = w_gateway s1"
    by (auto elim!: changed_after)
  then have "b"
    by (auto simp: persist_intent_def acatch_def abind_Inr_iff split: prod.splits sum.splits if_splits)
  then show ?case using attemptI [OF q(1) [unfolded p]] b q(3) by fastforce
next
  case (Suc n)
  from Suc.prems(1) [simplified] leaves_prepare_order [of w_gateway] Suc.prems(2) obtain q s1
    where q: "prepare_order e action request key a s = (Inr q, s1)"
      "(case q of Inl answer \<Rightarrow> aret answer
        | Inr p \<Rightarrow> abind (persist_intent e action a True p) (\<lambda>done. if done then dispatch_order e action a p
            else mutate_order_within n e action request key (a\<lparr>oa_proof := pr_proof p\<rparr>))) s1 = (r, s')"
      "w_gateway s1 = w_gateway s" "w_gateway s' \<noteq> w_gateway s1"
    by (rule changed_after) simp_all
  then obtain p where p: "q = Inr p" by (cases q) simp_all
  from q(2) [unfolded p] leaves_persist_intent [of w_gateway] q(4) obtain b s2
    where b: "persist_intent e action a True p s1 = (Inr b, s2)" "w_gateway s2 = w_gateway s1"
      "(if b then dispatch_order e action a p
        else mutate_order_within n e action request key (a\<lparr>oa_proof := pr_proof p\<rparr>)) s2 = (r, s')"
    by (auto elim!: changed_after)
  show ?case
  proof (cases b)
    case True
    then show ?thesis using attemptI [OF q(1) [unfolded p]] b q(3) by fastforce
  next
    case False
    then show ?thesis
      using Suc.IH [of "a\<lparr>oa_proof := pr_proof p\<rparr>" s2] b q(3) Suc.prems(2) attempt_proof by (metis (full_types))
  qed
qed

lemma attempt_facts:
  assumes "attempt e action request key a p before written r s'"
  shows "carries p action request key a" "intent_written e action a p before written"
    "w_gateway s' \<noteq> w_gateway written \<Longrightarrow> \<exists>latest t. dispatch_admitted e action a latest t \<and>
      w_gateway s' = broker_call e action p t (w_gateway written)"
proof -
  obtain x retry s0 where o: "prepare_order e action request key (a\<lparr>oa_proof := x\<rparr>) s0 = (Inr (Inr p), before)"
    "persist_intent e action (a\<lparr>oa_proof := x\<rparr>) retry p before = (Inr True, written)"
    "dispatch_order e action (a\<lparr>oa_proof := x\<rparr>) p written = (r, s')"
    using assms by (auto simp: attempt_def)
  show "carries p action request key a" using prepare_order_Inr [OF o(1)] by simp
  show w: "intent_written e action a p before written" using persist_intent_ok [OF o(2)] by simp
  show "\<exists>latest t. dispatch_admitted e action a latest t \<and>
      w_gateway s' = broker_call e action p t (w_gateway written)" if "w_gateway s' \<noteq> w_gateway written"
    using w dispatch_order_call [OF o(3) that] by (auto simp: intent_written_def fence_accepts_def)
qed

section \<open>After the call\<close>

text \<open>The outcome of an intent is open, and nothing but an emergency cancel is admitted.\<close>

definition outcome_open :: "string \<Rightarrow> json \<Rightarrow> bool" where
  "outcome_open i d \<longleftrightarrow> fld (fld (fld d ''send_intents'') i) ''state'' = JStr ''UNKNOWN_OUTCOME''
     \<and> has_key (fld d ''unknown_outcomes'') i \<and> fld d ''lifecycle'' = JStr ''HALTED_UNKNOWN_OUTCOME''
     \<and> fld (fld d ''reconciliation'') ''state'' = JStr ''UNKNOWN''"

definition outcome_known :: "string \<Rightarrow> json \<Rightarrow> bool" where
  "outcome_known i d \<longleftrightarrow> str_sat (\<lambda>st. st \<in> set RESULT_STATES) (fld (fld (fld d ''send_intents'') i) ''state'')"

lemma dupdate_fld [doc_simps]:
  "fld (dupdate d [(a, x), (b, y)]) k = (if k = b then y else if k = a then x else fld d k)"
  by (simp add: doc_simps)

lemma unknown_doc_fields:
  assumes "mark_unknown_intent_doc i why d = Inr c"
  shows "outcome_open i c"
  using assms
  by (auto simp: mark_unknown_intent_doc_def Let_def raise_def outcome_open_def put_raw_intent_def put_unknown_def
      set_in_def doc_simps split: if_splits)

lemma sealed_sections:
  assumes "sealed scope mem (dset c ''state_version'' n) = Inr d"
    and "k \<notin> {''state_version'', ''state_hash'', ''previous_state_hash''}"
  shows "fld d k = fld c k"
  using sealed_Inr(3) [OF assms(1), of k] assms(2) by (auto simp: doc_simps)

lemma mark_unknown_halts:
  assumes "mark_unknown e i why s = (r, t)"
  shows "r = Inr () \<and> (w_local_halted t \<or> outcome_open i (r_mem t))"
proof (cases "update_doc e (\<lambda>d. alift (mark_unknown_intent_doc i why d)) None s")
  case (Pair q u)
  show ?thesis
  proof (cases q)
    case (Inl x)
    then show ?thesis using assms Pair by (auto simp: mark_unknown_def acatch_def halt_locally_def)
  next
    case (Inr v)
    then have "r = Inr () \<and> t = u" using assms Pair by (simp add: mark_unknown_def acatch_def)
    moreover from Pair [unfolded Inr] leaves_simple(3) have "outcome_open i (r_mem u)"
    proof (rule update_doc_ok)
      fix mem cand t t'
      assume f: "alift (mark_unknown_intent_doc i why mem) t = (Inr cand, t')"
        and sl: "sealed (e_scope e) mem (dset cand ''state_version'' (JInt (version_of mem + 1))) = Inr (r_mem u)"
      show ?thesis
        using unknown_doc_fields [of i why mem cand] f sealed_sections [OF sl] by (simp add: outcome_open_def)
    qed
    ultimately show ?thesis by simp
  qed
qed

lemma transition_state:
  assumes "apply_intent_result_transition e i name b d s = (Inr c, t)"
  shows "fld (fld (fld c ''send_intents'') i) ''state'' = JStr name"
  using assms
  by (auto simp: apply_intent_result_transition_def Let_def abind_Inr_iff put_raw_intent_def append_to_def put_unknown_def
      set_in_def doc_simps split: if_splits)

lemma mark_intent_result_known:
  assumes "mark_intent_result e i result s = (r, t)"
  shows "r = Inr () \<and> outcome_known i (r_mem t) \<or> (\<exists>x. r = Inl x \<and> (w_local_halted t \<or> outcome_open i (r_mem t)))"
proof (cases "result_state result")
  case (Inl why)
  then show ?thesis
    using assms by (auto simp: mark_intent_result_def elim!: abind_cases dest!: mark_unknown_halts)
next
  case (Inr name)
  then have name: "name \<in> set RESULT_STATES"
    by (auto simp: result_state_def Let_def split: if_splits)
  let ?f = "apply_intent_result_transition e i name (fld result ''broker_order_id'')"
  obtain q u where q: "update_doc e ?f None s = (q, u)" by (cases "update_doc e ?f None s")
  show ?thesis
  proof (cases q)
    case (Inl x)
    then show ?thesis
      using assms Inr q by (auto simp: mark_intent_result_def acatch_def halt_locally_def abind_def)
  next
    case (Inr v)
    have l: "leaves repo_part (?f d)" for d
      unfolding apply_intent_result_transition_def Let_def by (intro leaves_rules)
    from q [unfolded Inr] l have "outcome_known i (r_mem u)"
    proof (rule update_doc_ok)
      fix mem cand t t'
      assume "?f mem t = (Inr cand, t')"
        and sl: "sealed (e_scope e) mem (dset cand ''state_version'' (JInt (version_of mem + 1))) = Inr (r_mem u)"
      then show ?thesis
        using transition_state [of e i name _ mem t cand t'] sealed_sections [OF sl, of "''send_intents''"] name
        by (simp add: outcome_known_def)
    qed
    then show ?thesis
      using assms \<open>result_state result = Inr name\<close> q Inr by (simp add: mark_intent_result_def acatch_def)
  qed
qed

lemma call_broker_halts:
  assumes "call_broker e action p s = (Inl x, t)"
  shows "exn_class x = GatewayTimeout" "w_local_halted t \<or> outcome_open (si_intent_id (pr_intent p)) (r_mem t)"
  using assms
  by (auto simp: call_broker_def acatch_def elim!: abind_cases dest!: mark_unknown_halts split: prod.splits sum.splits)

lemma recheck_fence_halts:
  assumes "recheck_fence e action a p s = (Inl x, t)"
  shows "exn_class x = GatewayTimeout" "w_local_halted t \<or> outcome_open (si_intent_id (pr_intent p)) (r_mem t)"
  using assms
  by (auto simp: recheck_fence_def acatch_def elim!: abind_cases dest!: mark_unknown_halts split: prod.splits sum.splits)

text \<open>A send that raises after the broker was called leaves a trace that cannot be overlooked.\<close>

lemma dispatch_failure:
  assumes "dispatch_order e ''send'' a p s = (Inl x, s')" and "w_gateway s' \<noteq> w_gateway s"
  shows "w_local_halted s' \<or> outcome_open (si_intent_id (pr_intent p)) (r_mem s')
    \<or> outcome_known (si_intent_id (pr_intent p)) (r_mem s')"
proof -
  let ?i = "si_intent_id (pr_intent p)"
  have pre: "leaves w_gateway (read_state e)" "leaves w_gateway (utc_now e)"
    "leaves w_gateway (mutation_preflight e ''send'' a False now latest)" for now latest
    by (intro leaves_rules repo_blind_tick; simp)+
  obtain s3 where "abind (call_broker e ''send'' p) (\<lambda>result. abind (recheck_fence e ''send'' a p) (\<lambda>_.
      abind (mark_intent_result e ?i result) (\<lambda>_. abind (read_state e) (\<lambda>final.
      aret (order_response ?i (get_or (fld final ''send_intents'') ?i (JObj [])) result))))) s3 = (Inl x, s')"
    using assms unfolding dispatch_order_def Let_def
    by (auto simp: aif_def elim!: changed_after [OF _ pre(1)] changed_after [OF _ pre(2)] changed_after [OF _ pre(3)])
  then show ?thesis
  proof (cases rule: abind_cases)
    case (raised y)
    then show ?thesis using call_broker_halts(2) by blast
  next
    case (went result s4)
    from went(2) show ?thesis
    proof (cases rule: abind_cases)
      case (raised y)
      then show ?thesis using recheck_fence_halts(2) by blast
    next
      case (went u s5)
      from went(2) show ?thesis
      proof (cases rule: abind_cases)
        case (raised y)
        then show ?thesis using mark_intent_result_known by blast
      next
        case (went v s6)
        then have "outcome_known ?i (r_mem s6)" using mark_intent_result_known by blast
        moreover have "r_mem s' = r_mem s6"
          using went(2) snapshot_failed by (auto simp: read_state_def elim!: abind_cases)
        ultimately show ?thesis by simp
      qed
    qed
  qed
qed

end
