(* ===== verification/Sample_World.thy ===== *)
theory Sample_World
  imports Frame
begin

text \<open>
  Small valid documents and a process without a file, for the concrete uses of the properties of
  the orchestrator.
\<close>

section \<open>Documents from their sections\<close>

record sample =
  sm_lifecycle :: string
  sm_authority :: authority_state
  sm_plan :: plan_state
  sm_reconciliation :: reconciliation_state
  sm_broker :: broker_state
  sm_lease :: json
  sm_intents :: "(string \<times> json) list"
  sm_keys :: "(string \<times> json) list"
  sm_unknowns :: "(string \<times> json) list"

definition sample_body :: "sample \<Rightarrow> json" where
  "sample_body m = JObj
     [(''schema_version'', JStr ''execution_durable_state_v1''), (''state_version'', JInt 0),
      (''lifecycle'', JStr (sm_lifecycle m)), (''authority'', authority_as_dict (sm_authority m)),
      (''plan'', plan_as_dict (sm_plan m)), (''send_intents'', JObj (sm_intents m)),
      (''intent_keys'', JObj (sm_keys m)), (''unknown_outcomes'', JObj (sm_unknowns m)),
      (''reconciliation'', reconciliation_as_dict (sm_reconciliation m)),
      (''broker'', broker_as_dict (sm_broker m)), (''lease'', sm_lease m), (''receipts'', JObj []),
      (''audit'', JArr []), (''terminal_archive'', JArr []), (''previous_state_hash'', JStr [])]"

definition sample_doc :: "sample \<Rightarrow> json" where
  "sample_doc m = dset (sample_body m) ''state_hash'' (JStr (json_hash (sample_body m)))"

lemma sample_sections [simp]:
  "fld (sample_doc m) ''schema_version'' = JStr ''execution_durable_state_v1''"
  "fld (sample_doc m) ''state_version'' = JInt 0"
  "fld (sample_doc m) ''lifecycle'' = JStr (sm_lifecycle m)"
  "fld (sample_doc m) ''authority'' = authority_as_dict (sm_authority m)"
  "fld (sample_doc m) ''plan'' = plan_as_dict (sm_plan m)"
  "fld (sample_doc m) ''send_intents'' = JObj (sm_intents m)"
  "fld (sample_doc m) ''intent_keys'' = JObj (sm_keys m)"
  "fld (sample_doc m) ''unknown_outcomes'' = JObj (sm_unknowns m)"
  "fld (sample_doc m) ''reconciliation'' = reconciliation_as_dict (sm_reconciliation m)"
  "fld (sample_doc m) ''broker'' = broker_as_dict (sm_broker m)"
  "fld (sample_doc m) ''lease'' = sm_lease m"
  "fld (sample_doc m) ''receipts'' = JObj []"
  "fld (sample_doc m) ''audit'' = JArr []"
  "fld (sample_doc m) ''terminal_archive'' = JArr []"
  "fld (sample_doc m) ''previous_state_hash'' = JStr []"
  "fld (sample_doc m) ''state_hash'' = JStr (json_hash (sample_body m))"
  by (simp_all add: sample_doc_def doc_simps) (simp_all add: sample_body_def read_JObj)

lemma sample_get_or [simp]:
  "k \<in> {''lifecycle'', ''authority'', ''plan'', ''send_intents'', ''intent_keys'', ''unknown_outcomes'',
     ''reconciliation'', ''broker'', ''lease'', ''receipts'', ''state_version''}
    \<Longrightarrow> get_or (sample_doc m) k v = fld (sample_doc m) k"
  by (auto simp: sample_doc_def doc_simps sample_body_def read_JObj get_or_def fld_def)

lemma sample_doc_obj: "is_obj (sample_doc m)"
  by (simp add: sample_doc_def)

text \<open>What makes the sections a valid document.\<close>

definition sample_ok :: "string \<Rightarrow> sample \<Rightarrow> bool" where
  "sample_ok scope m \<longleftrightarrow> sm_lifecycle m \<in> set LIFECYCLES
     \<and> as_state (sm_authority m) \<in> set AUTHORITY_STATES \<and> check_authority (authority_as_dict (sm_authority m)) = Inr ()
     \<and> ps_state (sm_plan m) \<in> set PLAN_STATES \<and> check_plan (plan_as_dict (sm_plan m)) = Inr ()
     \<and> rs_state (sm_reconciliation m) \<in> set RECONCILIATION_STATES
     \<and> rs_unknown_outcomes (sm_reconciliation m) = int (length (sm_unknowns m))
     \<and> check_broker (broker_as_dict (sm_broker m)) = Inr ()
     \<and> is_obj (sm_lease m) \<and> fld (sm_lease m) ''scope'' = JStr scope \<and> check_lease (sm_lease m) = Inr ()
     \<and> list_all (\<lambda>x. check_intent x = Inr ()) (sm_intents m)
     \<and> list_all (\<lambda>(k, v). IDEMPOTENCY_RE k \<and> is_jstr v \<and> the_str v \<in> fst ` set (sm_intents m)
         \<and> fld (fld (JObj (sm_intents m)) (the_str v)) ''idempotency_key'' = JStr k) (sm_keys m)
     \<and> list_all (\<lambda>(k, v). k \<in> fst ` set (sm_intents m)) (sm_unknowns m)
     \<and> list_all (\<lambda>(k, v). fld v ''state'' = JStr ''UNKNOWN_OUTCOME'' \<longrightarrow> k \<in> fst ` set (sm_unknowns m)) (sm_intents m)
     \<and> wf_json (sample_body m) \<and> finite_json (sample_body m)"

lemma sample_valid:
  assumes "sample_ok scope m"
  shows "valid_doc scope (sample_doc m)"
proof -
  have keys: "keys_are (sample_doc m) (''schema_version'' # required_sections)"
    by (auto simp: keys_are_iff sample_doc_def sample_body_def required_sections_def)
  have shape: "check_shape (sample_doc m) scope = Inr ()"
    using assms by (simp add: shape_iff keys sample_doc_obj sample_ok_def authority_as_dict_def plan_as_dict_def
        reconciliation_as_dict_def broker_as_dict_def)
  have states: "check_states (sample_doc m) = Inr ()"
    using assms
    by (simp add: check_states_def sample_ok_def authority_as_dict_def plan_as_dict_def reconciliation_as_dict_def
        read_JObj)
  have indexes: "check_indexes (sample_doc m) = Inr ()"
    using assms
    by (auto simp: check_indexes_def sample_ok_def rall_Inr_iff list_all_iff check_intent_key_def check_unknown_def
        check_unknown_intent_def has_key_def reconciliation_as_dict_def read_JObj dlen_def)
  have pop: "dpop (sample_doc m) ''state_hash'' = sample_body m"
    by (simp add: sample_doc_def sample_body_def dpop_def dset_def)
  show ?thesis
    using assms
    by (simp add: valid_doc_iff check_document_def shape states indexes check_hashes_def pop sample_ok_def)
qed

lemma sample_wf: "sample_ok scope m \<Longrightarrow> wf_json (sample_doc m)"
  by (simp add: sample_doc_def sample_ok_def)

lemma sample_finite: "sample_ok scope m \<Longrightarrow> finite_json (sample_doc m)"
  by (simp add: sample_doc_def sample_ok_def)

section \<open>A process\<close>

definition leader_one :: leader_token where
  "leader_one = \<lparr>lt_scope = ''account:test'', lt_owner_id = ''leader-0001'', lt_epoch = 1, lt_fencing_token = 1,
     lt_lease_expires_at = format_utc 15000000, lt_instance_id = ''instance-0001''\<rparr>"

definition lease_one :: json where
  "lease_one = ex_lease ''leader-0001'' ''instance-0001''"

definition plan_one :: plan_state where
  "plan_one = default_plan\<lparr>ps_state := ''ACTIVE'', ps_plan_id := ''plan-0001'', ps_version := 1\<rparr>"

definition ready_sample :: sample where
  "ready_sample = \<lparr>sm_lifecycle = ''READY'',
     sm_authority = \<lparr>as_state = ''ENABLED'', as_artifact_id = ''artifact-0001'', as_artifact_hash = ZERO_HASH,
       as_expires_at = format_utc 15000000\<rparr>,
     sm_plan = plan_one, sm_reconciliation = default_reconciliation\<lparr>rs_state := ''RECONCILED''\<rparr>,
     sm_broker = default_broker, sm_lease = lease_one, sm_intents = [], sm_keys = [], sm_unknowns = []\<rparr>"

text \<open>An identifier is recognised by evaluation.\<close>

lemmas id_shapes = IDENTIFIER_RE_def IDEMPOTENCY_RE_def id_shape_def id_rest_char_def is_alnum_char_def
  is_digit_char_def is_upper_char_def is_lower_char_def char_between_def char_le_of_char

lemma sample_ids [simp]:
  "IDENTIFIER_RE ''instance-0001''" "IDENTIFIER_RE ''plan-0001''" "IDENTIFIER_RE ''artifact-0001''"
  "IDENTIFIER_RE ''account:test''" "IDENTIFIER_RE ''run-00001''" "IDENTIFIER_RE ''snapshot-0001''"
  by (simp_all add: id_shapes)

lemma UTC_RE_15s [simp]: "UTC_RE (format_utc 15000000)"
  using utc_text_parses(1) [OF in_calendar_15s] by (simp add: UTC_RE_def format_utc_def)

lemma expiry_15s: "timestamp_of (JStr (format_utc 15000000)) f = Inr 15000000"
  by (rule timestamp_of_format [OF in_calendar_15s])

lemmas section_defs = authority_as_dict_def plan_as_dict_def reconciliation_as_dict_def broker_as_dict_def
  default_authority_def default_plan_def default_reconciliation_def default_broker_def

lemmas section_checks = check_authority_def check_plan_def check_lease_def check_broker_def preview_defaults_def
  Let_def keys_are_def read_JObj AUTHORITY_FIELDS_def PLAN_FIELDS_def LEASE_FIELDS_def BROKER_FIELDS_def
  LIFECYCLES_def AUTHORITY_STATES_def PLAN_STATES_def RECONCILIATION_STATES_def

lemma lease_one_ok: "is_obj lease_one" "fld lease_one ''scope'' = JStr ''account:test''" "check_lease lease_one = Inr ()"
  "wf_json lease_one" "finite_json lease_one"
  by (simp_all add: lease_one_def ex_lease_def section_checks)

lemma ready_ok: "sample_ok ''account:test'' ready_sample"
  using lease_one_ok
  by (simp add: sample_ok_def ready_sample_def plan_one_def section_defs section_checks sample_body_def)

definition sample_key :: string where
  "sample_key = ''order-key-00000001''"

text \<open>A document with one settled intent.\<close>

definition intent_one :: json where
  "intent_one = JObj [(''intent_id'', JStr ''intent-0001''), (''idempotency_key'', JStr sample_key),
     (''state'', JStr ''ACKNOWLEDGED''), (''plan_id'', JStr ''plan-0001''), (''plan_hash'', JStr ZERO_HASH),
     (''leader_epoch'', JInt 1), (''fencing_token'', JInt 1), (''created_at'', JStr EPOCH_TIMESTAMP),
     (''action'', JStr ''send''), (''request_hash'', JStr ZERO_HASH)]"

definition traded_sample :: sample where
  "traded_sample = ready_sample\<lparr>sm_intents := [(''intent-0001'', intent_one)],
     sm_keys := [(sample_key, JStr ''intent-0001'')]\<rparr>"

lemma intent_one_ok: "check_intent (''intent-0001'', intent_one) = Inr ()"
  by (simp add: check_intent_def check_intent_quote_def intent_one_def Let_def read_JObj INTENT_STATES_def sample_key_def
      id_shapes starts_with_def need_def rguard_def)

lemma intent_one_fields [simp]:
  "fld intent_one ''idempotency_key'' = JStr sample_key" "fld intent_one ''state'' = JStr ''ACKNOWLEDGED''"
  "wf_json intent_one" "finite_json intent_one" "IDEMPOTENCY_RE sample_key"
  by (simp_all add: intent_one_def read_JObj sample_key_def id_shapes)

lemma traded_ok: "sample_ok ''account:test'' traded_sample"
  using lease_one_ok intent_one_ok
  by (simp add: sample_ok_def traded_sample_def ready_sample_def plan_one_def section_defs section_checks sample_body_def)

definition sample_env :: "memory_gateway oenv" where
  "sample_env = \<lparr>e_scope = ''account:test'', e_path = False, e_clock = (\<lambda>_. 0),
     e_uuid = (\<lambda>_. ''0123456789abcdef01234567''), e_others = (\<lambda>_ d. d), e_lock = (\<lambda>_. True),
     e_write = (\<lambda>_. WriteOk), fe_scope = ''account:test'', fe_lease_us = 15000000,
     oe_environment = ''test'', oe_test_mode = True, oe_service_version = ''1'', oe_gateway = in_memory_gateway\<rparr>"

definition sample_world :: "sample \<Rightarrow> memory_gateway world" where
  "sample_world m = \<lparr>r_mem = sample_doc m, r_available = True, r_initialized = False, r_disk = NoFile, r_tick = 0,
     f_last_now = None, f_rollback = False, f_token = Some leader_one, w_local_halted = False,
     w_gateway = new_memory_gateway ''account:test'' ''test''\<rparr>"

lemma sample_env_simps [simp]:
  "e_scope sample_env = ''account:test''" "\<not> e_path sample_env" "e_clock sample_env n = 0"
  "e_uuid sample_env n = ''0123456789abcdef01234567''" "fe_scope sample_env = ''account:test''"
  "oe_environment sample_env = ''test''" "oe_gateway sample_env = in_memory_gateway" "oe_test_mode sample_env"
  "fe_lease_us sample_env = 15000000"
  by (simp_all add: sample_env_def)

lemma sample_world_simps [simp]:
  "r_mem (sample_world m) = sample_doc m" "r_available (sample_world m)" "f_last_now (sample_world m) = None"
  "\<not> f_rollback (sample_world m)" "f_token (sample_world m) = Some leader_one" "\<not> w_local_halted (sample_world m)"
  "w_gateway (sample_world m) = new_memory_gateway ''account:test'' ''test''" "r_tick (sample_world m) = 0"
  by (simp_all add: sample_world_def)

definition sample_command :: "string \<Rightarrow> json \<Rightarrow> envelope" where
  "sample_command name payload = \<lparr>env_command_id = ''command-0001'', env_idempotency_key = ''command-key-0000001'',
     env_correlation_id = ''correlation-0001'', env_issued_at = EPOCH_TIMESTAMP,
     env_actor = \<lparr>act_service = CONTROL_SERVICE, act_principal = ''principal'', act_operator = ''operator'', act_role = ''admin''\<rparr>,
     env_command = name,
     env_expected = \<lparr>ev_state_version = 0, ev_plan_hash = None, ev_authority_hash = None, ev_leader_epoch = None,
       ev_fencing_token = None\<rparr>,
     env_payload = payload\<rparr>"

definition sample_args :: order_args where
  "sample_args = \<lparr>oa_plan_id = None, oa_plan_hash = None, oa_leader_epoch = Some 1, oa_fencing_token = Some 1,
     oa_token = TokenObj leader_one, oa_intent_id = Some ''intent-0001'', oa_target = None, oa_now = None,
     oa_emergency = False, oa_planned = False, oa_proof = None\<rparr>"

definition sample_request :: json where
  "sample_request = JObj [(''symbol'', JStr ''rb2610''), (''volume'', JInt 1)]"

section \<open>Operations without a file\<close>

lemma snapshot_in_memory:
  assumes "\<not> e_path e" "r_available s"
  shows "snapshot e s = (Inr (r_mem s), s)" "current_doc e s = Inr (r_mem s)"
  using assms
  by (simp_all add: snapshot_def file_guard_def require_available_def aguard_def refresh_from_disk_def
      refreshed_def current_doc_def abind_def)

lemma read_state_in_memory: "\<not> e_path e \<Longrightarrow> r_available s \<Longrightarrow> read_state e s = (Inr (r_mem s), s)"
  by (simp add: read_state_def snapshot_in_memory)

text \<open>A write whose new document is right goes through; the rest of the state is the writer's.\<close>

lemma mutate_in_memory:
  assumes e: "\<not> e_path e" "r_available s" "ex = None \<or> ex = Some (version_of (r_mem s))"
    and v: "valid_doc (e_scope e) (r_mem s)"
    and f: "f (r_mem s) s = (Inr (r, c), t)" "r_mem t = r_mem s"
    and c: "assert_append_only (r_mem s) c = Inr ()" "check_document c (e_scope e) = Inr ()" "finite_json c"
  obtains h where "mutate e f ex s = (Inr (r, dset c ''state_version'' (JInt (version_of (r_mem s) + 1))),
      t\<lparr>r_mem := reseal c (version_of (r_mem s) + 1) (the_str (fld (r_mem s) ''state_hash'')) h\<rparr>)"
    "SHA256_RE h"
    "valid_doc (e_scope e) (reseal c (version_of (r_mem s) + 1) (the_str (fld (r_mem s) ''state_hash'')) h)"
proof -
  let ?n = "version_of (r_mem s) + 1"
  have n: "0 \<le> ?n"
    using valid_doc_shape(3) [OF v] by (auto simp: version_of_def dest!: int_at_leastE)
  obtain h where h: "sealed (e_scope e) (r_mem s) (dset c ''state_version'' (JInt ?n))
      = Inr (reseal c ?n (the_str (fld (r_mem s) ''state_hash'')) h)" "SHA256_RE h"
    using sealed_reseal [OF v c(2,3) n] by blast
  have "mutate e f ex s = (Inr (r, dset c ''state_version'' (JInt ?n)),
      t\<lparr>r_mem := reseal c ?n (the_str (fld (r_mem s) ''state_hash'')) h\<rparr>)"
    using e f c(1) h(1)
    by (auto simp: mutate_def mutate_locked_def file_guard_def require_available_def aguard_def refresh_from_disk_def
        refreshed_def persist_def abind_def Let_def)
  then show thesis using that h(2) sealed_Inr(1) [OF h(1)] by blast
qed

end
