(* ===== verification/Document_Facts.thy ===== *)
theory Document_Facts
  imports Sample_World
begin

text \<open>
  Changes of a document that keep it valid and append-only, stated on what they leave and on what
  they put into the sections about intents, outcomes, reconciliation and lifecycle.
\<close>

section \<open>Validity\<close>

lemma valid_get_or:
  "valid_doc scope d \<Longrightarrow> k \<in> set required_sections \<Longrightarrow> get_or d k v = fld d k"
  using valid_doc_shape(2) [of scope d] keys_are_has_key [of d "''schema_version'' # required_sections" k]
  by (auto simp: fld_def get_or_def dest!: has_keyE split: option.splits)

lemma finite_json_fld [simp]: "finite_json d \<Longrightarrow> finite_json (fld d k)"
  by (cases d) (auto simp: fld_def get_or_def dget_def list_all_iff split: option.splits dest: map_of_SomeD)

definition intent_sections :: "string list" where
  "intent_sections = [''lifecycle'', ''send_intents'', ''unknown_outcomes'', ''reconciliation'']"

lemma valid_resectioned:
  assumes d: "valid_doc scope d"
    and c: "is_obj c" "keys_are c (''schema_version'' # required_sections)"
    and same: "\<And>k. k \<notin> set intent_sections \<Longrightarrow> fld c k = fld d k"
    and l: "fld c ''lifecycle'' \<in> JStr ` set LIFECYCLES"
    and r: "is_obj (fld c ''reconciliation'')" "fld (fld c ''reconciliation'') ''state'' \<in> JStr ` set RECONCILIATION_STATES"
    and i: "is_obj (fld c ''send_intents'')" "is_obj (fld c ''unknown_outcomes'')" "check_indexes c = Inr ()"
  shows "check_document c scope = Inr ()"
proof -
  have doc: "check_document d scope = Inr ()" using d by (simp add: valid_doc_iff)
  have shape: "check_shape c scope = Inr ()"
    using doc c r(1) i(1,2) by (simp add: check_document_def shape_iff same intent_sections_def)
  have states: "check_states c = Inr ()"
    using doc l r(2) by (auto simp: check_document_def check_states_def same intent_sections_def)
  have hashes: "check_hashes c = Inr ()"
    using doc by (simp add: check_document_def check_hashes_def same intent_sections_def)
  show ?thesis
    using doc shape states hashes i(3) by (simp add: check_document_def same intent_sections_def)
qed

lemma wf_keys: "wf_json d \<Longrightarrow> (k, v) \<in> set (items d) \<longleftrightarrow> dget d k = Some v"
  using wf_item dget_mem by blast

text \<open>The indexes, from what became of the intents and of the open outcomes.\<close>

lemma indexes_intro:
  assumes d: "valid_doc scope d" and w: "wf_json c"
    and same: "fld c ''intent_keys'' = fld d ''intent_keys''" "fld c ''receipts'' = fld d ''receipts''"
    and ok: "\<And>i raw. dget (fld c ''send_intents'') i = Some raw \<Longrightarrow> check_intent (i, raw) = Inr ()"
    and kept: "\<And>i raw. dget (fld d ''send_intents'') i = Some raw \<Longrightarrow>
      \<exists>raw'. dget (fld c ''send_intents'') i = Some raw' \<and> fld raw' ''idempotency_key'' = fld raw ''idempotency_key''"
    and unknown: "\<And>i. has_key (fld c ''unknown_outcomes'') i \<Longrightarrow> has_key (fld c ''send_intents'') i"
    and flagged: "\<And>i raw. dget (fld c ''send_intents'') i = Some raw \<Longrightarrow> fld raw ''state'' = JStr ''UNKNOWN_OUTCOME''
      \<Longrightarrow> has_key (fld c ''unknown_outcomes'') i"
    and count: "jeq (fld (fld c ''reconciliation'') ''unknown_outcomes'') (JInt (dlen (fld c ''unknown_outcomes'')))"
  shows "check_indexes c = Inr ()"
proof -
  have w': "wf_json (fld c k)" for k using w by simp
  have intents: "rall check_intent (items (fld c ''send_intents'')) = Inr ()"
    "rall (check_unknown_intent c) (items (fld c ''send_intents'')) = Inr ()"
    using ok flagged by (auto simp: rall_Inr_iff wf_keys [OF w'] check_unknown_intent_def)
  have old: "rall (check_intent_key d) (items (fld d ''intent_keys'')) = Inr ()" "rall check_receipt (items (fld d ''receipts'')) = Inr ()"
    using valid_doc_checks(8) [OF d] by (simp_all add: check_indexes_def)
  have "check_intent_key c (k, v) = Inr ()" if "check_intent_key d (k, v) = Inr ()" for k v
  proof -
    have k: "IDEMPOTENCY_RE k" "is_jstr v" "has_key (fld d ''send_intents'') (the_str v)"
      "fld (fld (fld d ''send_intents'') (the_str v)) ''idempotency_key'' = JStr k"
      using that by (simp_all add: check_intent_key_def)
    from kept [OF has_keyE [OF k(3)]] obtain raw' where "dget (fld c ''send_intents'') (the_str v) = Some raw'"
      "fld raw' ''idempotency_key'' = JStr k" using k(4) by auto
    then show ?thesis using k(1,2) by (simp add: check_intent_key_def has_key_iff dget_Some_fld)
  qed
  then have keys: "rall (check_intent_key c) (items (fld c ''intent_keys'')) = Inr ()"
    using old(1) unfolding same(1) rall_Inr_iff by (metis surj_pair)
  have "rall (check_unknown c) (keys (fld c ''unknown_outcomes'')) = Inr ()"
    using unknown by (simp add: rall_Inr_iff check_unknown_def has_key_def)
  then show ?thesis using intents keys old(2) count by (simp add: check_indexes_def same(2))
qed

section \<open>Append-only changes\<close>

lemma append_only_resectioned:
  assumes d: "valid_doc scope d" "wf_json d"
    and same: "\<And>k. k \<notin> set intent_sections \<union> {''audit'', ''terminal_archive''} \<Longrightarrow> fld c k = fld d k"
    and logs: "\<And>s. s \<in> {''audit'', ''terminal_archive''} \<Longrightarrow> \<exists>xs. jarr (fld c s) = jarr (fld d s) @ xs"
    and kept: "\<And>i raw. dget (fld d ''send_intents'') i = Some raw \<Longrightarrow>
      \<exists>raw'. dget (fld c ''send_intents'') i = Some raw' \<and> creation_facts raw' = creation_facts raw
        \<and> fld raw' ''intent_id'' = fld raw ''intent_id''"
  shows "assert_append_only d c = Inr ()"
proof (rule append_only_intro [OF d logs])
  show "\<exists>v'. dget (fld c ''send_intents'') k = Some v' \<and> creation_facts v' = creation_facts v
      \<and> fld v' ''intent_id'' = fld v ''intent_id''" if "dget (fld d ''send_intents'') k = Some v" for k v
    by (rule kept [OF that])
  show "fld (fld c t) k = v" if "t \<in> {''intent_keys'', ''receipts''}" "dget (fld d t) k = Some v" for t k v
    using that same [of t] by (auto simp: intent_sections_def dget_Some_fld)
  show "\<exists>n. fld (fld c (fst sf)) (snd sf) = JInt n \<and> high_water d sf \<le> n" if "sf \<in> set HIGH_WATERS" for sf
    using valid_doc_high_water(1) [OF d(1) that] that same [of "fst sf"] by (auto simp: HIGH_WATERS_def intent_sections_def)
qed auto

lemma creation_facts_dset:
  assumes "f \<in> set MUTABLE_INTENT_FIELDS" "is_obj raw"
  shows "creation_facts (dset raw f v) = creation_facts raw"
proof -
  have "filter (\<lambda>p. fst p \<notin> set MUTABLE_INTENT_FIELDS) (AList.update f v kvs)
      = filter (\<lambda>p. fst p \<notin> set MUTABLE_INTENT_FIELDS) kvs" for kvs
    using assms(1) by (induction kvs) auto
  then show ?thesis by (simp add: creation_facts_def items_dset)
qed

text \<open>A change of an intent's state, of what the broker calls it or of why its outcome is open.\<close>

lemma check_intent_dset:
  assumes "check_intent (i, raw) = Inr ()" and "f \<in> {''broker_order_id'', ''unknown_reason''} \<or>
    f = ''state'' \<and> v \<in> JStr ` set INTENT_STATES"
  shows "check_intent (i, dset raw f v) = Inr ()"
proof -
  have other: "fld (dset raw f v) k = fld raw k" "get_or (dset raw f v) k x = get_or raw k x"
    if "k \<notin> {''broker_order_id'', ''unknown_reason'', ''state''}" for k x
    using that assms(2) by (auto simp: doc_simps)
  have quote: "check_intent_quote (dset raw f v) = check_intent_quote raw"
    by (simp only: check_intent_quote_def other [of "''execution_start_quote_proof''"]
        other [of "''execution_start_quote_proof_sha256''"] other [of "''plan_id''"] other [of "''plan_hash''"]
        other [of "''action''"] insert_iff empty_iff list.inject char.inject simp_thms list.simps)
  have "\<exists>s \<in> set INTENT_STATES. fld raw ''state'' = JStr s" using assms(1) by (simp add: check_intent_def)
  then have state: "\<exists>s \<in> set INTENT_STATES. fld (dset raw f v) ''state'' = JStr s"
    using assms(2) by (auto simp: doc_simps)
  show ?thesis
    using assms(1) state by (simp add: check_intent_def Let_def quote other)
qed

end
