(* ===== verification/Quiet_Runs.thy ===== *)
theory Quiet_Runs
  imports Document_Facts
begin

text \<open>
  Runs that nothing disturbs: the file, when there is one, can be locked and written and no other
  process changes it. Then a read gives the document the process is holding, and a write whose new
  document is right goes through.
\<close>

definition quiet :: "env \<Rightarrow> bool" where
  "quiet e \<longleftrightarrow> (e_path e \<longrightarrow>
     (\<forall>n d. e_others e n d = d) \<and> (\<forall>n. e_lock e n) \<and> (\<forall>n. e_write e n = WriteOk))"

definition holding :: "env \<Rightarrow> 'z repo_scheme \<Rightarrow> json \<Rightarrow> bool" where
  "holding e s d \<longleftrightarrow> r_available s \<and> valid_doc (e_scope e) d \<and> wf_json d
     \<and> refreshed (e_scope e) (e_path e) (r_initialized s) (r_mem s) (r_disk s) = Inr d"

lemma quiet_seen: "quiet e \<Longrightarrow> seen_disk e s = r_disk s"
  by (simp add: quiet_def seen_disk_def)

lemma holding_current: "quiet e \<Longrightarrow> holding e s d \<Longrightarrow> current_doc e s = Inr d"
  by (simp add: holding_def current_doc_def quiet_seen)

lemma holding_cong: "repo_part s = repo_part t \<Longrightarrow> holding e s d \<longleftrightarrow> holding e t d"
  by (simp add: holding_def repo_part_def)

lemma refresh_checks_refl [simp]: "refresh_checks d d = Inr ()"
  by (simp add: refresh_checks_def)

text \<open>Having read the document, the process still holds it.\<close>

lemma holding_read: "holding e s d \<Longrightarrow> holding e (s\<lparr>r_mem := d\<rparr>) d"
  by (cases "r_disk s") (auto simp: holding_def refreshed_def rbind_Inr_iff validate_state_Inr_iff split: if_splits)

lemma holding_tick [simp]: "holding e (s\<lparr>r_tick := k\<rparr>) d = holding e s d"
  by (simp add: holding_def)

lemma snapshot_runs:
  assumes "quiet e" "holding e s d"
  obtains k where "snapshot e s = (Inr d, s\<lparr>r_mem := d, r_tick := k\<rparr>)" "holding e (s\<lparr>r_mem := d, r_tick := k\<rparr>) d"
proof -
  have r: "refreshed (e_scope e) (e_path e) (r_initialized s) (r_mem s) (r_disk s) = Inr d" "r_available s"
    using assms(2) by (simp_all add: holding_def)
  show thesis
  proof (cases "e_path e")
    case True
    have "s\<lparr>r_mem := d, r_tick := k\<rparr> = s\<lparr>r_tick := k, r_disk := r_disk s, r_mem := d\<rparr>" for k by simp
    then show thesis
      using that [of "Suc (r_tick s)"] True assms(1) r holding_read [OF assms(2)]
      by (simp add: snapshot_def file_guard_def require_available_def aguard_def abind_def next_tick_def acatch_def
          refresh_from_disk_def quiet_def)
  next
    case False
    then show thesis
      using that [of "r_tick s"] r holding_read [OF assms(2)]
      by (simp add: snapshot_def file_guard_def require_available_def aguard_def abind_def refresh_from_disk_def)
  qed
qed

text \<open>A write: the repository takes the new document, everything else is the writer's.\<close>

lemma mutate_proceeds:
  fixes p :: "'z repo_scheme \<Rightarrow> 'x"
  assumes p: "repo_blind p" and e: "quiet e" "holding e s d" "ex = None \<or> ex = Some (version_of d)"
    and f: "\<And>k. f d (s\<lparr>r_mem := d, r_tick := k\<rparr>) = (Inr (r, c), t k)"
      "\<And>k. repo_part (t k) = repo_part (s\<lparr>r_mem := d\<rparr>)"
    and c: "assert_append_only d c = Inr ()" "check_document c (e_scope e) = Inr ()" "finite_json c" "wf_json c"
  obtains s' k h d' where
    "mutate e f ex s = (Inr (r, dset c ''state_version'' (JInt (version_of d + 1))), s')"
    "holding e s' d'" "d' = reseal c (version_of d + 1) (the_str (fld d ''state_hash'')) h \<or>
      d' = canon (reseal c (version_of d + 1) (the_str (fld d ''state_hash'')) h)"
    "p s' = p (t k)"
proof -
  let ?n = "version_of d + 1"
  have v: "valid_doc (e_scope e) d" and r: "refreshed (e_scope e) (e_path e) (r_initialized s) (r_mem s) (r_disk s) = Inr d"
    and av: "r_available s"
    using e(2) by (simp_all add: holding_def)
  have n: "0 \<le> ?n"
    using valid_doc_shape(3) [OF v] by (auto simp: version_of_def dest!: int_at_leastE)
  obtain h where h: "sealed (e_scope e) d (dset c ''state_version'' (JInt ?n))
      = Inr (reseal c ?n (the_str (fld d ''state_hash'')) h)" "SHA256_RE h"
    using sealed_reseal [OF v c(2,3) n] by blast
  let ?w = "reseal c ?n (the_str (fld d ''state_hash'')) h"
  have w: "valid_doc (e_scope e) ?w" "wf_json ?w"
    using sealed_Inr(1) [OF h(1)] c(4) by (simp_all add: reseal_def)
  have wc: "valid_doc (e_scope e) (canon ?w)" using valid_doc_canon [OF w] .
  show thesis
  proof (cases "e_path e")
    case False
    have "mutate e f ex s = (Inr (r, dset c ''state_version'' (JInt ?n)), (t (r_tick s))\<lparr>r_mem := ?w\<rparr>)"
      using e(3) f(1) [of "r_tick s"] f(2) [of "r_tick s"] c(1) h(1) False r av
      by (auto simp: mutate_def mutate_locked_def file_guard_def require_available_def aguard_def refresh_from_disk_def
          persist_def abind_def Let_def repo_part_def)
    moreover have "holding e ((t (r_tick s))\<lparr>r_mem := ?w\<rparr>) ?w"
      using w f(2) [of "r_tick s"] False av by (simp add: holding_def refreshed_def repo_part_def)
    ultimately show thesis using that repo_blindD(1) [OF p] by blast
  next
    case True
    let ?k = "Suc (r_tick s)"
    let ?s' = "(t ?k)\<lparr>r_tick := Suc (r_tick (t ?k)), r_disk := Stored (canon ?w), r_mem := ?w, r_initialized := True\<rparr>"
    have eq: "s\<lparr>r_tick := ?k, r_mem := d\<rparr> = s\<lparr>r_mem := d, r_tick := ?k\<rparr>" by simp
    have "mutate e f ex s = (Inr (r, dset c ''state_version'' (JInt ?n)), ?s')"
      using e(1,3) f(1) [of ?k] f(2) [of ?k] c(1) h(1) True r av
      by (auto simp: mutate_def mutate_locked_def file_guard_def require_available_def aguard_def refresh_from_disk_def
          persist_def abind_def acatch_def Let_def repo_part_def next_tick_def quiet_def eq)
    moreover have "holding e ?s' (canon ?w)"
      using w wc f(2) [of ?k] True av
      by (simp add: holding_def refreshed_def repo_part_def rbind_Inr_iff valid_doc_def refresh_checks_def
          fld_canon [OF w(2)])
    moreover have "p ?s' = p (t ?k)" using p by (simp add: repo_blind_def)
    ultimately show thesis using that by blast
  qed
qed

text \<open>A writer that raises: nothing is written, what the writer did to the rest of the state stays.\<close>

lemma mutate_raises:
  assumes e: "quiet e" "holding e s d" "ex = None \<or> ex = Some (version_of d)"
    and f: "\<And>k. f d (s\<lparr>r_mem := d, r_tick := k\<rparr>) = (Inl x, t k)" and x: "\<not> is_a x PyOSError"
  obtains k where "mutate e f ex s = (Inl x, t k)"
proof -
  have r: "refreshed (e_scope e) (e_path e) (r_initialized s) (r_mem s) (r_disk s) = Inr d" "r_available s"
    using e(2) by (simp_all add: holding_def)
  have eq: "s\<lparr>r_tick := k, r_mem := d\<rparr> = s\<lparr>r_mem := d, r_tick := k\<rparr>" for k by simp
  show thesis
  proof (cases "e_path e")
    case True
    have "mutate e f ex s = (Inl x, t (Suc (r_tick s)))"
      using e(1,3) f [of "Suc (r_tick s)"] x True r
      by (auto simp: mutate_def mutate_locked_def file_guard_def require_available_def aguard_def refresh_from_disk_def
          abind_def acatch_def Let_def next_tick_def quiet_def eq)
    then show thesis by (rule that)
  next
    case False
    have "mutate e f ex s = (Inl x, t (r_tick s))"
      using e(3) f [of "r_tick s"] False r
      by (auto simp: mutate_def mutate_locked_def file_guard_def require_available_def aguard_def refresh_from_disk_def
          abind_def Let_def)
    then show thesis by (rule that)
  qed
qed

end
