(* ===== verification/Order_Progress.thy ===== *)
theory Order_Progress
  imports Order_Laws Quiet_Runs
begin

text \<open>
  An admitted order reaches the broker: the document that takes the intent is valid and
  append-only, so an undisturbed run writes it and calls the gateway.
\<close>

section \<open>The document with a new intent\<close>

lemma set_dset_cases:
  assumes "x \<in> set (items (dset d k v))"
  shows "x = (k, v) \<or> x \<in> set (items d)"
  using assms set_update_subset [of k v "items d"] by (auto simp: items_dset)

lemma fld_persist_intent_doc [doc_simps]:
  "fld (persist_intent_doc p d) k =
    (if k = ''intent_keys'' then dset (fld d ''intent_keys'') (pr_key p) (JStr (si_intent_id (pr_intent p)))
     else if k = ''send_intents'' then dset (fld d ''send_intents'') (si_intent_id (pr_intent p)) (stored_intent p)
     else fld d k)"
  by (simp add: persist_intent_doc_def set_in_def put_raw_intent_def doc_simps)

text \<open>An intent that passes its own check, under a name and a key that are new.\<close>

definition new_intent :: "prepared \<Rightarrow> json \<Rightarrow> bool" where
  "new_intent p d \<longleftrightarrow> check_intent (si_intent_id (pr_intent p), stored_intent p) = Inr ()
     \<and> \<not> has_key (fld d ''send_intents'') (si_intent_id (pr_intent p))
     \<and> \<not> has_key (fld d ''intent_keys'') (pr_key p)
     \<and> fld (stored_intent p) ''state'' \<noteq> JStr ''UNKNOWN_OUTCOME''
     \<and> fld (stored_intent p) ''idempotency_key'' = JStr (pr_key p) \<and> IDEMPOTENCY_RE (pr_key p)
     \<and> finite_json (stored_intent p) \<and> wf_json (stored_intent p)"

lemma persist_intent_document:
  assumes d: "valid_doc scope d" and p: "new_intent p d"
  shows "check_document (persist_intent_doc p d) scope = Inr ()"
proof -
  let ?i = "si_intent_id (pr_intent p)" and ?c = "persist_intent_doc p d"
  have doc: "check_document d scope = Inr ()" using d by (simp add: valid_doc_iff)
  have idx: "check_indexes d = Inr ()" using doc by (simp add: check_document_def)
  have keys: "keys_are ?c (''schema_version'' # required_sections)"
    unfolding persist_intent_doc_def set_in_def put_raw_intent_def
    using valid_doc_shape(2) [OF d] by (intro keys_are_dset) (simp_all add: required_sections_def)
  have obj: "is_obj ?c" by (simp add: persist_intent_doc_def set_in_def)
  have shape: "check_shape ?c scope = Inr ()"
    using doc by (simp add: check_document_def shape_iff keys obj doc_simps)
  have old_key: "check_intent_key ?c (k, v) = Inr ()" if "check_intent_key d (k, v) = Inr ()" for k v
    using that p by (auto simp: check_intent_key_def doc_simps new_intent_def)
  have "check_indexes ?c = Inr ()"
  proof -
    have "rall check_intent (items (fld ?c ''send_intents'')) = Inr ()"
      using idx p by (auto simp: check_indexes_def rall_Inr_iff doc_simps new_intent_def dest!: set_dset_cases)
    moreover have "rall (check_intent_key ?c) (items (fld ?c ''intent_keys'')) = Inr ()"
    proof (unfold rall_Inr_iff, rule ballI)
      fix x assume "x \<in> set (items (fld ?c ''intent_keys''))"
      then consider "x = (pr_key p, JStr ?i)" | "x \<in> set (items (fld d ''intent_keys''))"
        using set_dset_cases by (fastforce simp: doc_simps)
      then show "check_intent_key ?c x = Inr ()"
      proof cases
        case 1
        then show ?thesis using p by (simp add: check_intent_key_def doc_simps new_intent_def)
      next
        case 2
        then have "check_intent_key d x = Inr ()" using idx by (simp add: check_indexes_def rall_Inr_iff)
        then show ?thesis using old_key [of "fst x" "snd x"] by simp
      qed
    qed
    moreover have "rall (check_unknown ?c) (keys (fld ?c ''unknown_outcomes'')) = Inr ()"
      using idx by (auto simp: check_indexes_def rall_Inr_iff doc_simps check_unknown_def)
    moreover have "rall (check_unknown_intent ?c) (items (fld ?c ''send_intents'')) = Inr ()"
    proof (unfold rall_Inr_iff, rule ballI)
      fix x assume "x \<in> set (items (fld ?c ''send_intents''))"
      then have "x = (?i, stored_intent p) \<or> x \<in> set (items (fld d ''send_intents''))"
        using set_dset_cases by (fastforce simp: doc_simps)
      then show "check_unknown_intent ?c x = Inr ()"
        using idx p by (auto simp: check_indexes_def rall_Inr_iff check_unknown_intent_def doc_simps new_intent_def)
    qed
    ultimately show ?thesis using idx by (simp add: check_indexes_def doc_simps)
  qed
  then show ?thesis
    using doc by (simp add: check_document_def shape check_states_def check_hashes_def doc_simps)
qed

lemma persist_intent_append_only:
  assumes d: "valid_doc scope d" "wf_json d" and p: "new_intent p d"
  shows "assert_append_only d (persist_intent_doc p d) = Inr ()"
proof (rule append_only_intro [OF d])
  have same: "fld (persist_intent_doc p d) k = fld d k" if "k \<notin> {''send_intents'', ''intent_keys''}" for k
    using that by (auto simp: doc_simps)
  have new: "\<not> has_key (fld d ''send_intents'') (si_intent_id (pr_intent p))"
    "\<not> has_key (fld d ''intent_keys'') (pr_key p)"
    using p by (simp_all add: new_intent_def)
  show "\<exists>xs. jarr (fld (persist_intent_doc p d) t) = jarr (fld d t) @ xs" if "t \<in> {''audit'', ''terminal_archive''}" for t
    using that same [of t] by auto
  show "\<exists>v'. dget (fld (persist_intent_doc p d) ''send_intents'') k = Some v' \<and> creation_facts v' = creation_facts v \<and>
      fld v' ''intent_id'' = fld v ''intent_id''" if "dget (fld d ''send_intents'') k = Some v" for k v
  proof -
    have "k \<noteq> si_intent_id (pr_intent p)" using that new(1) by (auto simp: has_key_iff)
    then show ?thesis using that by (simp add: doc_simps)
  qed
  show "fld (fld (persist_intent_doc p d) t) k = v"
    if "t \<in> {''intent_keys'', ''receipts''}" "dget (fld d t) k = Some v" for t k v
  proof (cases "t = ''intent_keys''")
    case True
    then have "k \<noteq> pr_key p" using that(2) new(2) by (auto simp: has_key_iff)
    then show ?thesis using that(2) True by (simp add: doc_simps dget_Some_fld)
  next
    case False
    then show ?thesis using that same [of t] by (auto simp: dget_Some_fld)
  qed
  show "\<exists>n. fld (fld (persist_intent_doc p d) (fst sf)) (snd sf) = JInt n \<and> high_water d sf \<le> n"
    if "sf \<in> set HIGH_WATERS" for sf
    using valid_doc_high_water(1) [OF d(1) that] that same [of "fst sf"] by (auto simp: HIGH_WATERS_def)
qed

section \<open>Documents that agree\<close>

text \<open>What a send is admitted by is the same in a document and in what is read back from a file.\<close>

definition agree :: "json \<Rightarrow> json \<Rightarrow> bool" where
  "agree d d' \<longleftrightarrow> (\<forall>k \<in> {''lifecycle'', ''authority'', ''plan'', ''reconciliation'', ''unknown_outcomes'', ''lease''}.
     canon (fld d k) = canon (fld d' k))"

lemma agree_sub:
  assumes "canon x = canon y" "wf_json x" "wf_json y"
  shows "canon (fld x f) = canon (fld y f)"
  using assms fld_canon by metis

lemma agree_eq:
  assumes "canon x = canon y"
  shows "x = JStr a \<longleftrightarrow> y = JStr a" "truthy x = truthy y" "is_obj x = is_obj y" "jeq x v = jeq y v"
proof -
  show "x = JStr a \<longleftrightarrow> y = JStr a" using assms canon_eq_scalar(1) by metis
  show "truthy x = truthy y" using assms truthy_canon by metis
  show "is_obj x = is_obj y" using assms canon_views(3) by metis
  show "jeq x v = jeq y v" using assms jeq_canon(1) by metis
qed

lemma agree_text:
  assumes "canon (fld x f) = canon (fld y f)" "str_sat P (fld x f)"
  shows "get_or x f (JStr u) = fld x f" "get_or y f (JStr u) = fld x f" "fld y f = fld x f"
proof -
  obtain a where a: "fld x f = JStr a" using assms(2) str_satE by blast
  then have b: "fld y f = JStr a" using assms(1) agree_eq(1) by metis
  show "fld y f = fld x f" using a b by simp
  show "get_or x f (JStr u) = fld x f" using a by (auto simp: fld_def get_or_def split: option.splits)
  show "get_or y f (JStr u) = fld x f" using a b by (auto simp: fld_def get_or_def split: option.splits)
qed

lemma admits_agree:
  assumes d: "valid_doc scope d" "wf_json d" "valid_doc scope d'" "wf_json d'" and a: "agree d d'"
    and ok: "state_admits ''send'' a now d"
  shows "state_admits ''send'' a now d'"
proof -
  have c: "canon (fld d k) = canon (fld d' k)"
    if "k \<in> {''lifecycle'', ''authority'', ''plan'', ''reconciliation'', ''unknown_outcomes'', ''lease''}" for k
    using a that by (auto simp: agree_def)
  have sub: "canon (fld (fld d k) f) = canon (fld (fld d' k) f)"
    if "k \<in> {''authority'', ''plan'', ''reconciliation''}" for k f
    by (rule agree_sub) (use c that d in auto)
  note g = valid_get_or [OF d(1)] valid_get_or [OF d(3)]
  have "\<not> unsettled d'"
    using ok agree_eq(1) [OF c [of "''lifecycle''"]] agree_eq(2) [OF c [of "''unknown_outcomes''"]]
      agree_eq(1) [OF sub [of "''reconciliation''" "''state''"]]
    by (simp add: state_admits_def unsettled_def g required_sections_def)
  moreover have "fld d' ''lifecycle'' \<notin> {JStr ''DRAINING'', JStr ''STOPPING''}"
    using ok agree_eq(1) [OF c [of "''lifecycle''"]] by (simp add: state_admits_def)
  moreover have "authority_live d' now"
  proof -
    have e: "str_sat UTC_RE (fld (fld d ''authority'') ''expires_at'')"
      using valid_doc_checks(3) [OF d(1)] by (simp add: check_authority_def)
    have "authority_expiry d' = authority_expiry d"
      by (cases "fld (fld d ''authority'') ''state'' = JStr ''ENABLED''")
        (simp_all add: authority_expiry_def g required_sections_def str_or_def Let_def agree_text [OF sub e]
          agree_eq(1) [OF sub [of "''authority''" "''state''"], symmetric])
    then show ?thesis using ok by (simp add: state_admits_def authority_live_def)
  qed
  moreover have "plan_matches d' a"
    using ok agree_eq(1) [OF sub [of "''plan''" "''state''"]] agree_eq(1) [OF sub [of "''plan''" "''plan_id''"]]
      agree_eq(1) [OF sub [of "''plan''" "''plan_hash''"]]
    by (auto simp: state_admits_def plan_matches_def g required_sections_def Let_def opt_json_def split: option.splits)
  ultimately show ?thesis by (simp add: state_admits_def)
qed

lemma fence_agree:
  assumes d: "valid_doc scope d" "wf_json d" "wf_json d'" and a: "agree d d'" and ok: "fence_accepts e d a now"
  shows "fence_accepts e d' a now"
proof -
  have c: "canon (fld d ''lease'') = canon (fld d' ''lease'')" using a by (simp add: agree_def)
  have sub: "canon (fld (fld d ''lease'') f) = canon (fld (fld d' ''lease'') f)" for f
    by (rule agree_sub [OF c]) (use d in simp_all)
  have e: "str_sat UTC_RE (fld (fld d ''lease'') ''lease_expires_at'')" using valid_doc_lease(3) [OF d(1)] .
  have "assert_state_token (fe_scope e) d' tok now x y = assert_state_token (fe_scope e) d tok now x y" for tok x y
    by (cases y) (simp_all add: assert_state_token_def Let_def lease_expiry_def agree_text [OF sub e]
        agree_eq(3) [OF c, symmetric] agree_eq(1,4) [OF sub, symmetric])
  then show ?thesis using ok by (auto simp: fence_accepts_def)
qed

section \<open>An undisturbed order\<close>

text \<open>The process holds \<open>d\<close>, its fencer has seen no later time than \<open>now\<close>, nothing has halted it.\<close>

definition still :: "'g oenv \<Rightarrow> int \<Rightarrow> json \<Rightarrow> 'g \<Rightarrow> 'g world \<Rightarrow> bool" where
  "still e now d g s \<longleftrightarrow> holding (repo_env e) s d \<and> \<not> f_rollback s
     \<and> (\<forall>l. f_last_now s = Some l \<longrightarrow> l \<le> now) \<and> \<not> w_local_halted s \<and> w_gateway s = g"

abbreviation succeeds :: "('s \<Rightarrow> bool) \<Rightarrow> ('s, 'e, 'a) act \<Rightarrow> ('a \<Rightarrow> 's \<Rightarrow> bool) \<Rightarrow> bool" where
  "succeeds P m Q \<equiv> triple P m Q (\<lambda>_ _. False)"

text \<open>A computation whose result is known.\<close>

abbreviation gives :: "('s \<Rightarrow> bool) \<Rightarrow> ('s, 'e, 'a) act \<Rightarrow> 'a \<Rightarrow> ('s \<Rightarrow> bool) \<Rightarrow> bool" where
  "gives P m v R \<equiv> succeeds P m (\<lambda>x s. x = v \<and> R s)"

lemma succeedsI:
  assumes "\<And>s. P s \<Longrightarrow> \<exists>x t. m s = (Inr x, t) \<and> Q x t"
  shows "succeeds P m Q"
  using assms by (fastforce simp: triple_def)

lemma succeeds_run: "succeeds P m Q \<Longrightarrow> P s \<Longrightarrow> \<exists>x t. m s = (Inr x, t) \<and> Q x t"
  by (cases "m s"; cases "fst (m s)") (auto simp: triple_def)

lemma gives_run: "gives P m v R \<Longrightarrow> P s \<Longrightarrow> \<exists>t. m s = (Inr v, t) \<and> R t"
  using succeeds_run [of P m] by blast

lemma gives_bind: "gives P m v R \<Longrightarrow> triple R (f v) Q E \<Longrightarrow> triple P (abind m f) Q E"
  by (fastforce simp: triple_def abind_def split: prod.splits sum.splits)

lemma gives_lift: "r = Inr v \<Longrightarrow> gives P (alift r) v P"
  by (simp add: triple_def)

lemma gives_ret: "gives P (aret v) v P"
  by (simp add: triple_def)

lemma gives_guard: "b \<Longrightarrow> gives P (aguard b x) () P"
  by (simp add: triple_def aguard_def)

lemma gives_check: "r = Inr () \<Longrightarrow> gives P (alift r) () P"
  by (simp add: triple_def)

lemma still_utc_now:
  assumes "\<And>n. e_clock e n = now"
  shows "gives (still e now d g) (utc_now e) now (still e now d g)"
  using assms by (auto simp: triple_def utc_now_def next_tick_def abind_def still_def)

lemma still_clock:
  assumes "\<And>n. e_clock e n = now" "t = None \<or> t = Some now"
  shows "gives (still e now d g) (clock_reading e t) now (still e now d g)"
  using assms still_utc_now [OF assms(1)] by (auto simp: clock_reading_def gives_ret)

lemma still_lease_clock:
  assumes "\<And>n. e_clock e n = now" "t = None \<or> t = Some now"
  shows "gives (still e now d g) (lease_clock e t) now (still e now d g)"
  unfolding lease_clock_def
proof (rule gives_bind [OF still_clock [OF assms]], rule succeedsI)
  fix s assume s: "still e now d g s"
  have "holding (repo_env e) (s\<lparr>f_last_now := x\<rparr>) d = holding (repo_env e) s d" for x
    by (rule holding_cong) (simp add: repo_part_def)
  with s show "\<exists>x t'. (case f_last_now s of
      None \<Rightarrow> if f_rollback s
        then (Inl (Exn ClockRollbackError ''fencing halted after clock rollback''), s\<lparr>f_last_now := Some now\<rparr>)
        else (Inr now, s\<lparr>f_last_now := Some now\<rparr>)
    | Some l \<Rightarrow> if now < l
        then (Inl (Exn ClockRollbackError ''clock rollback detected; fencing is halted''), s\<lparr>f_rollback := True\<rparr>)
        else if f_rollback s
        then (Inl (Exn ClockRollbackError ''fencing halted after clock rollback''), s\<lparr>f_last_now := Some now\<rparr>)
        else (Inr now, s\<lparr>f_last_now := Some now\<rparr>)) = (Inr x, t') \<and> x = now \<and> still e now d g t'"
    by (auto simp: still_def split: option.splits)
qed

lemma still_read:
  assumes "quiet (repo_env e)"
  shows "gives (still e now d g) (snapshot (repo_env e)) d (still e now d g)"
proof (rule succeedsI)
  fix s assume s: "still e now d g s"
  then obtain k where "snapshot (repo_env e) s = (Inr d, s\<lparr>r_mem := d, r_tick := k\<rparr>)"
      "holding (repo_env e) (s\<lparr>r_mem := d, r_tick := k\<rparr>) d"
    using snapshot_runs [OF assms, of s d] by (auto simp: still_def)
  then show "\<exists>x t. snapshot (repo_env e) s = (Inr x, t) \<and> x = d \<and> still e now d g t"
    using s by (simp add: still_def)
qed

lemma still_order_fence:
  assumes "quiet (repo_env e)" "\<And>n. e_clock e n = now" "coerce_token (fe_scope e) (oa_token a) = Inr tok"
    and f: "fence_accepts e d a now"
  shows "gives (still e now d g) (order_fence e a now) tok (still e now d g)"
proof -
  have t: "oa_token a \<noteq> NoToken" "oa_leader_epoch a = Some (lt_epoch tok)" "oa_fencing_token a = Some (lt_fencing_token tok)"
    "assert_state_token (fe_scope e) d tok now False (oa_planned a) = Inr ()"
    using assms(3) f by (auto simp: fence_accepts_def)
  have own: "gives (still e now d g) (own_token e (oa_token a)) tok (still e now d g)"
    using assms(3) coerced_is_own [OF assms(3)] by (auto simp: triple_def own_token_def abind_def)
  have match: "fence_match tok (lt_epoch tok) (lt_fencing_token tok) = Inr ()" by (simp add: fence_match_def)
  note steps = gives_bind [OF still_read [OF assms(1)]] gives_bind [OF own] gives_bind [OF gives_check]
    gives_bind [OF still_lease_clock [OF assms(2)]] gives_bind [OF gives_lift [OF assms(3)]] gives_ret
  show ?thesis
  proof (cases "oa_planned a")
    case True
    with t match show ?thesis
      unfolding order_fence_def planned_dispatch_admission_def
      by (simp add: if_P) (intro steps; simp)
  next
    case False
    have v: "gives (still e now d g) (validate_token e (oa_token a) (Some now)) tok (still e now d g)"
      unfolding validate_token_def using t(4) False by (intro steps; simp)
    from False t match show ?thesis
      unfolding order_fence_def admission_def
      by (simp add: if_P) (intro gives_bind [OF v] steps; simp)
  qed
qed

lemma still_candidate_fence:
  assumes "\<And>n. e_clock e n = now" "coerce_token (fe_scope e) (oa_token a) = Inr tok"
    and f: "fence_accepts e d' a now"
  shows "gives (still e now d g) (candidate_fence e a now d') tok (still e now d g)"
proof -
  have t: "oa_token a \<noteq> NoToken" "oa_leader_epoch a = Some (lt_epoch tok)" "oa_fencing_token a = Some (lt_fencing_token tok)"
    "assert_state_token (fe_scope e) d' tok now False (oa_planned a) = Inr ()"
    using assms(2) f by (auto simp: fence_accepts_def)
  have match: "fence_match tok (lt_epoch tok) (lt_fencing_token tok) = Inr ()" by (simp add: fence_match_def)
  note steps = gives_bind [OF gives_check] gives_bind [OF still_lease_clock [OF assms(1)]]
    gives_bind [OF gives_lift [OF assms(2)]] gives_ret
  show ?thesis
    using t match
    by (cases "oa_planned a"; simp add: candidate_fence_def validate_planned_dispatch_against_state_def
        validate_against_state_def validate_candidate_def; intro steps; simp)
qed

lemma still_authority:
  assumes "authority_live d' now"
  shows "gives (still e now d g) (require_authority e d' (Some now)) () (still e now d g)"
  using assms by (auto simp: triple_def require_authority_def abind_def clock_reading_def aguard_def authority_live_def)

lemma still_preflight:
  assumes "quiet (repo_env e)" "\<And>n. e_clock e n = now" "state_admits action a now d'" "fence_accepts e d' a now"
    and "\<not> tx \<Longrightarrow> d' = d"
  shows "gives (still e now d g) (mutation_preflight e action a tx now d') () (still e now d g)"
proof -
  obtain tok where tok: "coerce_token (fe_scope e) (oa_token a) = Inr tok" using assms(4) by (auto simp: fence_accepts_def)
  have f: "gives (still e now d g) (if tx then candidate_fence e a now d' else order_fence e a now) tok (still e now d g)"
    using still_order_fence [OF assms(1,2) tok] still_candidate_fence [OF assms(2) tok assms(4)] assms(4,5)
    by (cases tx) simp_all
  have h: "gives (still e now d g) (aget w_local_halted) False (still e now d g)"
    by (auto simp: triple_def still_def)
  have ok: "preflight_lifecycle False d' action (action = ''cancel'' \<and> oa_emergency a) = Inr ()"
    "preflight_target d' action (oa_target a) (action = ''cancel'' \<and> oa_emergency a) = Inr ()"
    "authority_live d' now" "preflight_plan d' (oa_plan_id a) (oa_plan_hash a) = Inr ()"
    using assms(3) by (simp_all add: state_admits_iff)
  show ?thesis
    unfolding mutation_preflight_def Let_def
    by (intro gives_bind [OF h] gives_bind [OF gives_check] gives_bind [OF f] gives_bind [OF still_authority]
        gives_check ok)
qed

text \<open>What a caller has to get right about the order itself.\<close>

definition well_formed_order :: "order_args \<Rightarrow> json \<Rightarrow> string \<Rightarrow> json \<Rightarrow> bool" where
  "well_formed_order a request key d \<longleftrightarrow>
     is_obj request \<and> finite_json request \<and> IDEMPOTENCY_RE key \<and> \<not> has_key (fld d ''intent_keys'') key
     \<and> oa_proof a = None \<and> oa_target a = None
     \<and> (\<exists>i. oa_intent_id a = Some i \<and> IDENTIFIER_RE i \<and> IDENTIFIER_RE (''receipt-'' @ i)
          \<and> \<not> starts_with ''key:'' i \<and> \<not> has_key (fld d ''send_intents'') i)
     \<and> (\<forall>n. oa_leader_epoch a = Some n \<longrightarrow> 1 \<le> n) \<and> (\<forall>n. oa_fencing_token a = Some n \<longrightarrow> 1 \<le> n)"

lemma order_request_runs:
  assumes "well_formed_order a request key d"
  shows "order_request ''send'' key request a = Inr (key, canon request, json_hash (canon request), None)"
  using assms
  by (simp add: order_request_def well_formed_order_def validate_idempotency_key_def detached_json_def sha256_json_Inr)

lemma no_existing:
  assumes v: "valid_doc scope d" and w: "well_formed_order a request key d"
  shows "\<not> is_obj (existing_intent d key)"
proof -
  have "\<not> has_key (fld d ''send_intents'') (''key:'' @ key)"
  proof
    assume "has_key (fld d ''send_intents'') (''key:'' @ key)"
    from has_keyE [OF this] valid_doc_intents(1) [OF v]
    have "check_intent (''key:'' @ key, fld (fld d ''send_intents'') (''key:'' @ key)) = Inr ()" by blast
    then show False by (simp add: check_intent_def Let_def starts_with_def)
  qed
  then have "fld (fld d ''send_intents'') (''key:'' @ key) = JNull"
    by (auto simp: fld_def get_or_def has_key_iff split: option.splits)
  moreover have "fld (fld d ''intent_keys'') key = JNull"
    using w by (auto simp: well_formed_order_def fld_def get_or_def has_key_iff split: option.splits)
  moreover have "get_or d ''intent_keys'' (JObj []) = fld d ''intent_keys''" "intents_of d = fld d ''send_intents''"
    using valid_get_or [OF v] by (simp_all add: required_sections_def intents_of_def)
  ultimately show ?thesis by (simp add: existing_intent_def Let_def)
qed

text \<open>The intent such an order is prepared as.\<close>

definition plan_text :: "json \<Rightarrow> string \<Rightarrow> string" where
  "plan_text d f = the_str (fld (fld d ''plan'') f)"

definition send_prepared ::
  "'g oenv \<Rightarrow> order_args \<Rightarrow> json \<Rightarrow> string \<Rightarrow> leader_token \<Rightarrow> string \<Rightarrow> int \<Rightarrow> json \<Rightarrow> prepared" where
  "send_prepared e a request key tok i now d =
     (let plan_id = plan_text d ''plan_id''; plan_hash = plan_text d ''plan_hash'';
          h = json_hash (canon request); receipt_id = ''receipt-'' @ i;
          receipt_hash = json_hash (receipt_preimage e i key plan_id plan_hash h ''send'')
      in \<lparr>pr_key = key, pr_request = canon request, pr_proof = None,
           pr_context = \<lparr>mc_account_scope = fe_scope e, mc_leader_epoch = lt_epoch tok,
             mc_fencing_token = lt_fencing_token tok, mc_plan_id = plan_id, mc_plan_hash = plan_hash,
             mc_intent_id = i, mc_idempotency_key = key, mc_action = ''send'',
             mc_environment = oe_environment e, mc_receipt_id = receipt_id,
             mc_receipt_hash = receipt_hash, mc_request_hash = h\<rparr>,
           pr_intent = \<lparr>si_intent_id = i, si_idempotency_key = key,
             si_state = ''PERSISTED'', si_plan_id = plan_id, si_plan_hash = plan_hash,
             si_leader_epoch = lt_epoch tok, si_fencing_token = lt_fencing_token tok,
             si_created_at = format_utc now, si_action = ''send'', si_broker_order_id = JNull,
             si_request_hash = h, si_target_intent_id = JNull,
             si_unknown_reason = JNull, si_receipt_id = JStr receipt_id,
             si_receipt_hash = JStr receipt_hash\<rparr>,
           pr_now = now, pr_expected = version_of d\<rparr>)"

lemma plan_names:
  assumes v: "valid_doc scope d" and p: "plan_matches d a"
  shows "text_or (oa_plan_id a) (py_str (fld (fld d ''plan'') ''plan_id'')) = plan_text d ''plan_id''"
    "text_or (oa_plan_hash a) (py_str (fld (fld d ''plan'') ''plan_hash'')) = plan_text d ''plan_hash''"
    "IDENTIFIER_RE (plan_text d ''plan_id'')" "SHA256_RE (plan_text d ''plan_hash'')"
proof -
  have i: "str_sat IDENTIFIER_RE (fld (fld d ''plan'') ''plan_id'')" "str_sat SHA256_RE (fld (fld d ''plan'') ''plan_hash'')"
    using valid_doc_checks(4) [OF v] by (simp_all add: check_plan_def)
  obtain x y where xy: "fld (fld d ''plan'') ''plan_id'' = JStr x" "IDENTIFIER_RE x"
    "fld (fld d ''plan'') ''plan_hash'' = JStr y" "SHA256_RE y"
    using i str_satE by metis
  have g: "get_or d ''plan'' (JObj []) = fld d ''plan''"
    using valid_get_or [OF v] by (simp add: required_sections_def)
  show "text_or (oa_plan_id a) (py_str (fld (fld d ''plan'') ''plan_id'')) = plan_text d ''plan_id''"
    "text_or (oa_plan_hash a) (py_str (fld (fld d ''plan'') ''plan_hash'')) = plan_text d ''plan_hash''"
    using p xy by (auto simp: plan_matches_def Let_def g text_or_def plan_text_def opt_json_def split: option.splits)
  show "IDENTIFIER_RE (plan_text d ''plan_id'')" "SHA256_RE (plan_text d ''plan_hash'')"
    using xy by (simp_all add: plan_text_def)
qed

lemma still_prepare:
  assumes e: "quiet (repo_env e)" "\<And>n. e_clock e n = now" and v: "valid_doc scope d"
    and ok: "state_admits ''send'' a now d" "fence_accepts e d a now"
    and w: "well_formed_order a request key d" and i: "oa_intent_id a = Some i"
    and tok: "coerce_token (fe_scope e) (oa_token a) = Inr tok" and t: "oa_now a = None \<or> oa_now a = Some now"
  shows "gives (still e now d g) (prepare_order e ''send'' request key a)
    (Inr (send_prepared e a request key tok i now d)) (still e now d g)"
proof -
  have plan: "plan_matches d a" using ok(1) by (simp add: state_admits_def)
  have ids: "IDENTIFIER_RE i" "IDENTIFIER_RE (''receipt-'' @ i)" "i \<noteq> []" "oa_target a = None"
    using w i by (auto simp: well_formed_order_def)
  have name: "gives (still e now d g) (intent_name e (oa_intent_id a)) i (still e now d g)"
    using ids i by (simp add: intent_name_def text_or_def triple_def validate_identifier_def)
  have rid: "validate_identifier (JStr (''receipt-'' @ i)) ''receipt_id'' = Inr (''receipt-'' @ i)"
    using ids by (simp add: validate_identifier_def)
  have fin: "finite_json (receipt_preimage e i key x y h ''send'')" for x y h by (simp add: receipt_preimage_def)
  have p: "gives (still e now d g)
      (prepare_intent e ''send'' a (key, canon request, json_hash (canon request), None) now d)
      (send_prepared e a request key tok i now d) (still e now d g)"
    unfolding prepare_intent_def send_prepared_def plan_names [OF v plan] prod.case Let_def
      initial_intent_state_def opt_json_def ids(4) option.case simp_thms if_True
    by (intro gives_bind [OF name] gives_bind [OF gives_lift [OF rid]] gives_bind [OF gives_lift [OF sha256_json_Inr [OF fin]]]
        gives_bind [OF still_order_fence [OF e tok ok(2)]] gives_ret)
  show ?thesis
    unfolding prepare_order_def Let_def
    by (rule gives_bind [OF still_clock [OF e(2) t]], rule gives_bind [OF gives_lift [OF order_request_runs [OF w]]],
        rule gives_bind [OF still_read [OF e(1), folded read_state_def]],
        simp only: prod.case no_existing [OF v w] if_False,
        rule gives_bind [OF still_preflight [OF e ok refl]], rule gives_bind [OF p], rule gives_ret)
qed

lemma send_prepared_new:
  assumes v: "valid_doc scope d" and ok: "plan_matches d a" "fence_accepts e d a now"
    and w: "well_formed_order a request key d" and i: "oa_intent_id a = Some i"
    and tok: "coerce_token (fe_scope e) (oa_token a) = Inr tok" and c: "in_calendar now"
  shows "new_intent (send_prepared e a request key tok i now d) d"
proof -
  have ids: "IDENTIFIER_RE i" "IDENTIFIER_RE (''receipt-'' @ i)" "\<not> starts_with ''key:'' i"
    "\<not> has_key (fld d ''send_intents'') i" "IDEMPOTENCY_RE key" "\<not> has_key (fld d ''intent_keys'') key"
    using w i by (auto simp: well_formed_order_def)
  have pos: "1 \<le> lt_epoch tok" "1 \<le> lt_fencing_token tok"
    using w ok(2) tok by (auto simp: well_formed_order_def fence_accepts_def)
  have u: "UTC_RE (format_utc now)" using utc_text_parses(1) [OF c] by (simp add: UTC_RE_def format_utc_def)
  show ?thesis
    using ids pos u plan_names(3,4) [OF v ok(1)]
    by (simp add: new_intent_def send_prepared_def Let_def stored_intent_def check_intent_def send_intent_as_dict_def
        unless_none_def doc_simps read_JObj INTENT_STATES_def check_intent_quote_def need_def rguard_def)
qed

definition own_fields :: "'g world \<Rightarrow> bool \<times> int option \<times> bool \<times> 'g" where
  "own_fields s = (f_rollback s, f_last_now s, w_local_halted s, w_gateway s)"

lemma own_fields_blind: "repo_blind own_fields"
  by (simp add: repo_blind_def own_fields_def)

definition calm :: "int \<Rightarrow> 'g \<Rightarrow> bool \<times> int option \<times> bool \<times> 'g \<Rightarrow> bool" where
  "calm now g x \<longleftrightarrow> (case x of (r, l, h, g') \<Rightarrow> \<not> r \<and> (\<forall>y. l = Some y \<longrightarrow> y \<le> now) \<and> \<not> h \<and> g' = g)"

lemma still_own: "still e now d g s \<longleftrightarrow> holding (repo_env e) s d \<and> calm now g (own_fields s)"
  by (simp add: still_def own_fields_def calm_def)

text \<open>A write by a writer that itself only reads.\<close>

lemma still_update:
  assumes e: "quiet (repo_env e)" and v: "valid_doc (e_scope e) d" and ex: "ex = None \<or> ex = Some (version_of d)"
    and f: "gives (still e now d g) (f d) c (still e now d g)" "leaves repo_part (f d)"
    and c: "assert_append_only d c = Inr ()" "check_document c (e_scope e) = Inr ()" "finite_json c" "wf_json c"
  shows "succeeds (still e now d g) (update_doc e f ex) (\<lambda>_ s. \<exists>d' n h h'. (d' = reseal c n h h' \<or> d' = canon (reseal c n h h'))
     \<and> valid_doc (e_scope e) d' \<and> still e now d' g s)"
proof (rule succeedsI)
  fix s assume s: "still e now d g s"
  let ?w = "\<lambda>d. abind (f d) (\<lambda>d'. aret ((), d'))"
  have s1: "still e now d g (s\<lparr>r_mem := d, r_tick := k\<rparr>)" for k
    using s holding_read [of "repo_env e" s d] by (simp add: still_def)
  have "\<exists>t. f d (s\<lparr>r_mem := d, r_tick := k\<rparr>) = (Inr c, t) \<and> still e now d g t" for k
    using gives_run [OF f(1) s1] .
  then obtain t where t: "\<And>k. f d (s\<lparr>r_mem := d, r_tick := k\<rparr>) = (Inr c, t k)" "\<And>k. still e now d g (t k)"
    by metis
  have w: "?w d (s\<lparr>r_mem := d, r_tick := k\<rparr>) = (Inr ((), c), t k)" for k using t(1) by (simp add: abind_def)
  have part: "repo_part (t k) = repo_part (s\<lparr>r_mem := d\<rparr>)" for k
    using leavesD [OF f(2) t(1)] by (simp add: repo_part_def)
  have h: "holding (repo_env e) s d" using s by (simp add: still_def)
  have c2: "check_document c (e_scope (repo_env e)) = Inr ()" using c(2) by simp
  from own_fields_blind e h ex w part c(1) c2 c(3,4) obtain s' k h' d' where
    m: "mutate (repo_env e) ?w ex s = (Inr ((), dset c ''state_version'' (JInt (version_of d + 1))), s')"
    and d': "holding (repo_env e) s' d'" "d' = reseal c (version_of d + 1) (the_str (fld d ''state_hash'')) h' \<or>
      d' = canon (reseal c (version_of d + 1) (the_str (fld d ''state_hash'')) h')"
    and own: "own_fields s' = own_fields (t k)"
    by (rule mutate_proceeds)
  have "still e now d' g s'" using t(2) [of k] d'(1) own by (simp add: still_own)
  moreover have "valid_doc (e_scope e) d'" using d'(1) by (simp add: holding_def)
  moreover have "update_doc e f ex s = (Inr (), s')" using m by (simp add: update_doc_def abind_def)
  ultimately show "\<exists>x t. update_doc e f ex s = (Inr x, t) \<and> (\<exists>d' n h h'. (d' = reseal c n h h' \<or> d' = canon (reseal c n h h'))
     \<and> valid_doc (e_scope e) d' \<and> still e now d' g t)"
    using d'(2) by blast
qed

lemma agree_persisted:
  assumes "d' = reseal (persist_intent_doc p d) n h h' \<or> d' = canon (reseal (persist_intent_doc p d) n h h')"
    and "wf_json (persist_intent_doc p d)"
  shows "agree d d'" "wf_json d'"
proof -
  have w: "wf_json (reseal (persist_intent_doc p d) n h h')" using assms(2) by (simp add: reseal_def)
  show "agree d d'"
    using assms(1) by (auto simp: agree_def fld_canon [OF w] doc_simps)
  show "wf_json d'" using assms(1) w by auto
qed

lemma persist_intent_wf:
  "wf_json d \<Longrightarrow> new_intent p d \<Longrightarrow> wf_json (persist_intent_doc p d)"
  by (simp add: persist_intent_doc_def set_in_def put_raw_intent_def new_intent_def doc_simps)

lemma persist_intent_finite:
  "finite_json d \<Longrightarrow> new_intent p d \<Longrightarrow> finite_json (persist_intent_doc p d)"
  by (simp add: persist_intent_doc_def set_in_def put_raw_intent_def new_intent_def doc_simps)

lemma still_persist:
  assumes e: "quiet (repo_env e)" "\<And>n. e_clock e n = now" and v: "valid_doc (e_scope e) d" "wf_json d" "finite_json d"
    and ok: "state_admits ''send'' a now d" "fence_accepts e d a now"
    and p: "new_intent p d" "pr_now p = now" "pr_expected p = version_of d"
  shows "succeeds (still e now d g) (persist_intent e ''send'' a retry p)
    (\<lambda>b s. b \<and> (\<exists>d'. agree d d' \<and> valid_doc (e_scope e) d' \<and> wf_json d' \<and> still e now d' g s))"
proof -
  let ?f = "\<lambda>d. abind (mutation_preflight e ''send'' a True (pr_now p) d) (\<lambda>_. aret (persist_intent_doc p d))"
  have f: "gives (still e now d g) (?f d) (persist_intent_doc p d) (still e now d g)"
    unfolding p(2) by (intro gives_bind [OF still_preflight [OF e ok]] gives_ret) simp
  have l: "leaves repo_part (?f d)"
    by (rule leaves_bind, rule leaves_candidate_preflight) (simp_all add: leaves_rules)
  have fin: "finite_json (persist_intent_doc p d)"
    using v(3) p(1) by (rule persist_intent_finite)
  have u: "succeeds (still e now d g) (update_doc e ?f (Some (pr_expected p)))
      (\<lambda>_ s. \<exists>d' n h h'. (d' = reseal (persist_intent_doc p d) n h h' \<or> d' = canon (reseal (persist_intent_doc p d) n h h'))
        \<and> valid_doc (e_scope e) d' \<and> still e now d' g s)"
    by (rule still_update [where f = ?f, OF e(1) v(1) _ f l persist_intent_append_only [OF v(1,2) p(1)]
          persist_intent_document [OF v(1) p(1)] fin persist_intent_wf [OF v(2) p(1)]])
      (simp add: p(3))
  show ?thesis
  proof (rule succeedsI)
    fix s assume "still e now d g s"
    from succeeds_run [OF u this] obtain u t d' n h h'
      where t: "update_doc e ?f (Some (pr_expected p)) s = (Inr u, t)"
      and d': "d' = reseal (persist_intent_doc p d) n h h' \<or> d' = canon (reseal (persist_intent_doc p d) n h h')"
        "valid_doc (e_scope e) d'" "still e now d' g t"
      by blast
    have "persist_intent e ''send'' a retry p s = (Inr True, t)"
      using t by (simp add: persist_intent_def acatch_def abind_def)
    then show "\<exists>b t. persist_intent e ''send'' a retry p s = (Inr b, t) \<and> b \<and>
        (\<exists>d'. agree d d' \<and> valid_doc (e_scope e) d' \<and> wf_json d' \<and> still e now d' g t)"
      using d' agree_persisted [OF d'(1) persist_intent_wf [OF v(2) p(1)]] by blast
  qed
qed

lemma dispatch_calls:
  assumes e: "quiet (repo_env e)" "\<And>n. e_clock e n = now"
    and ok: "state_admits ''send'' a now d" "fence_accepts e d a now" and s: "still e now d g s"
    and r: "dispatch_order e ''send'' a p s = (r, s')"
  shows "w_gateway s' = snd (order_gateway e ''send'' (pr_request p) (pr_context p) now g)"
    and "fst (order_gateway e ''send'' (pr_request p) (pr_context p) now g) = Inl y \<Longrightarrow> \<exists>x. r = Inl x"
proof -
  define after where "after result =
      abind (recheck_fence e ''send'' a p) (\<lambda>_.
      abind (mark_intent_result e (si_intent_id (pr_intent p)) result) (\<lambda>_.
      abind (aif (''send'' = ''cancel'' \<and> text_or (oa_target a) [] \<noteq> [] \<and> cancel_result_is_terminal result)
        (mark_cancelled_target e (text_or (oa_target a) []))) (\<lambda>_.
      abind (read_state e) (\<lambda>final.
      aret (order_response (si_intent_id (pr_intent p))
        (get_or (fld final ''send_intents'') (si_intent_id (pr_intent p)) (JObj [])) result)))))" for result
  have l: "leaves w_gateway (after result)" for result
    unfolding after_def by (intro leaves_rules)
  obtain s1 where 1: "read_state e s = (Inr d, s1)" "still e now d g s1"
    using gives_run [OF still_read [OF e(1)] s] by (auto simp: read_state_def)
  obtain s2 where 2: "utc_now e s1 = (Inr now, s2)" "still e now d g s2"
    using gives_run [OF still_utc_now [OF e(2)] 1(2)] by blast
  obtain s3 where 3: "mutation_preflight e ''send'' a False now d s2 = (Inr (), s3)" "still e now d g s3"
    using gives_run [OF still_preflight [OF e ok refl] 2(2)] by blast
  have "abind (call_broker e ''send'' p) after s3 = (r, s')"
    using r 1(1) 2(1) 3(1) by (simp add: dispatch_order_def Let_def after_def [abs_def] abind_def)
  note call = this
  have "\<exists>x t. call_broker e ''send'' p s3 = (Inl x, t)"
    if "fst (order_gateway e ''send'' (pr_request p) (pr_context p) now g) = Inl y"
  proof -
    obtain q u where u: "call_gateway e (order_gateway e ''send'' (pr_request p) (pr_context p)) s3 = (q, u)"
      by (cases "call_gateway e (order_gateway e ''send'' (pr_request p) (pr_context p)) s3")
    have "q = Inl y" using call_gateway_effect(1) [OF u] that 3(2) e(2) by (simp add: still_def)
    moreover obtain v where "mark_unknown e (si_intent_id (pr_intent p))
        (''gateway '' @ ''send'' @ '' outcome unknown: '' @ exn_text y) u = (Inr (), v)"
      using mark_unknown_halts by (metis surj_pair)
    ultimately show ?thesis using u by (simp add: call_broker_def acatch_def abind_def)
  qed
  then show "\<exists>x. r = Inl x" if "fst (order_gateway e ''send'' (pr_request p) (pr_context p) now g) = Inl y"
    using that call by (auto simp: abind_def)
  from call show "w_gateway s' = snd (order_gateway e ''send'' (pr_request p) (pr_context p) now g)"
  proof (cases rule: abind_cases)
    case (raised x)
    then show ?thesis using call_broker_effect [OF raised(1)] 3(2) e(2) by (simp add: broker_call_def still_def)
  next
    case (went x t)
    then show ?thesis
      using call_broker_effect [OF went(1)] leavesD [OF l went(2)] 3(2) e(2) by (simp add: broker_call_def still_def)
  qed
qed

text \<open>The whole operation.\<close>

lemma admitted_order_called:
  assumes e: "quiet (repo_env e)" "\<And>n. e_clock e n = now" "in_calendar now"
    and v: "valid_doc (e_scope e) d" "wf_json d" "finite_json d"
    and ok: "state_admits ''send'' a now d" "fence_accepts e d a now" and w: "well_formed_order a request key d"
    and t: "oa_now a = None \<or> oa_now a = Some now" and s: "still e now d g s"
    and r: "mutate_order e ''send'' request key a s = (r, s')"
  obtains p where "carries p ''send'' request key a"
    "w_gateway s' = snd (gw_send (oe_gateway e) (canon request) (pr_context p) now g)"
    "(\<exists>y. fst (gw_send (oe_gateway e) (canon request) (pr_context p) now g) = Inl y) \<longrightarrow> (\<exists>x. r = Inl x)"
proof -
  obtain i where i: "oa_intent_id a = Some i" using w by (auto simp: well_formed_order_def)
  obtain tok where tok: "coerce_token (fe_scope e) (oa_token a) = Inr tok" using ok(2) by (auto simp: fence_accepts_def)
  let ?p = "send_prepared e a request key tok i now d"
  obtain s1 where 1: "prepare_order e ''send'' request key a s = (Inr (Inr ?p), s1)" "still e now d g s1"
    using gives_run [OF still_prepare [OF e(1,2) v(1) ok w i tok t] s] by blast
  have "plan_matches d a" using ok(1) by (simp add: state_admits_def)
  from send_prepared_new [OF v(1) this ok(2) w i tok e(3)] have new: "new_intent ?p d" .
  have "succeeds (still e now d g) (persist_intent e ''send'' a True ?p)
      (\<lambda>b s. b \<and> (\<exists>d'. agree d d' \<and> valid_doc (e_scope e) d' \<and> wf_json d' \<and> still e now d' g s))"
    by (rule still_persist [OF e(1,2) v ok new]) (simp_all add: send_prepared_def Let_def)
  from succeeds_run [OF this 1(2)] obtain s2 d' where 2: "persist_intent e ''send'' a True ?p s1 = (Inr True, s2)"
    "agree d d'" "valid_doc (e_scope e) d'" "wf_json d'" "still e now d' g s2"
    by auto
  have "dispatch_order e ''send'' a ?p s2 = (r, s')"
    using r 1(1) 2(1) by (simp add: mutate_order_def numeral_2_eq_2 abind_def)
  note called = dispatch_calls [OF e(1,2) admits_agree [OF v(1,2) 2(3,4,2) ok(1)] fence_agree [OF v(1,2) 2(4,2) ok(2)] 2(5) this]
  moreover have "pr_request ?p = canon request" by (simp add: send_prepared_def Let_def)
  moreover have "carries ?p ''send'' request key a" using prepare_order_Inr [OF 1(1)] .
  ultimately show thesis using that [of ?p] called by (auto simp: order_gateway_def)
qed

end
