(* ===== verification/Control_Frame.thy ===== *)
theory Control_Frame
  imports Order_Facts
begin

text \<open>
  What the control operations leave alone. A writer of the document only reads clocks and settings;
  queries, snapshots and reconciliation reach the gateway through read-only calls.
\<close>

section \<open>Writers\<close>

lemma leaves_result_transition [leaves_rules]:
  "tick_blind p \<Longrightarrow> leaves p (apply_intent_result_transition e i name b d)"
  unfolding apply_intent_result_transition_def Let_def by (intro leaves_rules)

lemma leaves_settle [leaves_rules]:
  assumes "tick_blind p"
  shows "leaves p (settle_intent e ids modes entry d)" "leaves p (settle_intents e ids modes outcomes d)"
proof -
  show s: "leaves p (settle_intent e ids modes entry d)" for entry d
    unfolding settle_intent_def settle_rollover_def settle_submitted_def Let_def by (intro leaves_rules assms)
  show "leaves p (settle_intents e ids modes outcomes d)"
    by (induction outcomes arbitrary: d) (auto intro!: leaves_rules s)
qed

lemma leaves_snapshot_steps [leaves_rules]:
  assumes "tick_blind p"
  shows "leaves p (coerce_snapshot e v)" "leaves p (validate_reconcile_snapshot e d s b)"
    "leaves p (apply_remote_fence_high_water_floor e s d)"
  unfolding coerce_snapshot_def validate_reconcile_snapshot_def apply_remote_fence_high_water_floor_def
  by (intro leaves_rules assms)+

lemma leaves_receipt [leaves_rules]: "tick_blind p \<Longrightarrow> leaves p (receipt_for_candidate e d c h r st)"
  unfolding receipt_for_candidate_def by (intro leaves_rules)

lemma leaves_reconciled_doc [leaves_rules]: "tick_blind p \<Longrightarrow> leaves p (reconciled_doc e c d)"
  unfolding reconciled_doc_def Let_def by (intro leaves_rules)

lemma leaves_finish [leaves_rules]: "tick_blind p \<Longrightarrow> leaves p (reconcile_finish e f r d)"
  unfolding reconcile_finish_def apply_finalization_evidence_def Let_def by (intro leaves_rules)

lemma leaves_reconcile_writer [leaves_rules]:
  "tick_blind p \<Longrightarrow> leaves p (reconcile_writer e c f s ids modes outcomes d)"
  unfolding reconcile_writer_def Let_def by (intro leaves_rules)

lemma leaves_apply_command [leaves_rules]: "tick_blind p \<Longrightarrow> leaves p (apply_command e c pe se d)"
  unfolding apply_command_def apply_enable_def apply_start_def apply_stop_def Let_def by (intro leaves_rules)

lemma leaves_command_writer [leaves_rules]: "tick_blind p \<Longrightarrow> leaves p (command_writer e c pe se h d)"
  unfolding command_writer_def Let_def by (intro leaves_rules)

lemma leaves_emergency_writer [leaves_rules]: "tick_blind p \<Longrightarrow> leaves p (emergency_writer e why d)"
  unfolding emergency_writer_def Let_def by (intro leaves_rules)

section \<open>Operations\<close>

lemma leaves_or_halt [leaves_rules]: "leaves p m \<Longrightarrow> leaves p halt_locally \<Longrightarrow> leaves p (or_halt_locally m)"
  unfolding or_halt_locally_def by (intro leaves_rules)

lemma leaves_halting [leaves_rules]:
  assumes "repo_blind p" "leaves p halt_locally"
  shows "leaves p (mark_reconcile_halted e why)" "leaves p (mark_cancel_failure e i why)"
    "leaves p (force_revoke_after_cancel_failure e)"
  unfolding mark_reconcile_halted_def mark_cancel_failure_def force_revoke_after_cancel_failure_def
  by (intro leaves_rules repo_blind_tick assms)+

text \<open>An observation of the gateway that its queries and snapshots keep.\<close>

definition reads_only :: "'g oenv \<Rightarrow> ('g world \<Rightarrow> 'x) \<Rightarrow> bool" where
  "reads_only e p \<longleftrightarrow> repo_blind p \<and> leaves p halt_locally
     \<and> (\<forall>i c. leaves p (call_gateway e (gw_query (oe_gateway e) i c)))
     \<and> leaves p (call_gateway e (gw_readiness (oe_gateway e)))"

lemma reads_onlyD:
  assumes "reads_only e p"
  shows "repo_blind p" "tick_blind p" "leaves p halt_locally"
    "leaves p (call_gateway e (gw_query (oe_gateway e) i c))" "leaves p (call_gateway e (gw_readiness (oe_gateway e)))"
  using assms by (auto simp: reads_only_def intro: repo_blind_tick)

lemma leaves_query_intent: "reads_only e p \<Longrightarrow> leaves p (query_intent e i)"
  unfolding query_intent_def close_unknown_if_resolved_def Let_def by (intro leaves_rules reads_onlyD)

lemma leaves_reconcile_steps:
  assumes "reads_only e p"
  shows "leaves p (reconcile_snapshot e)" "leaves p (snapshot_named e d s c)" "leaves p (query_outcomes e d)"
    "leaves p (reconcile_after_cancel e)"
    "leaves p m \<Longrightarrow> leaves p (halting_on_rejection e why m)"
  unfolding reconcile_snapshot_def snapshot_named_def query_outcomes_def query_outcome_def reconcile_after_cancel_def
    halting_on_rejection_def Let_def
  by (intro leaves_rules reads_onlyD [OF assms]; assumption)+

lemma leaves_reconcile_command: "reads_only e p \<Longrightarrow> leaves p (reconcile_command e c f ro)"
  unfolding reconcile_command_def Let_def by (intro leaves_rules leaves_reconcile_steps reads_onlyD)

section \<open>Counting what reaches the broker\<close>

context broker_boundary
begin

lemma reads_only_mutations:
  assumes "oe_gateway e = gw"
  shows "reads_only e (\<lambda>s. mutations (w_gateway s))"
proof -
  have q: "mutations (snd (gw_query gw i c t g)) = mutations g" for i c t g
    using query_reads by (metis prod.collapse)
  have r: "mutations (snd (gw_readiness gw t g)) = mutations g" for t g
    using readiness_reads by (metis prod.collapse)
  have "leaves (\<lambda>s. mutations (w_gateway s)) (call_gateway e (gw_query (oe_gateway e) i c))" for i c
    by (rule leavesI) (use q assms in \<open>auto dest!: call_gateway_effect(2)\<close>)
  moreover have "leaves (\<lambda>s. mutations (w_gateway s)) (call_gateway e (gw_readiness (oe_gateway e)))"
    by (rule leavesI) (use r assms in \<open>auto dest!: call_gateway_effect(2)\<close>)
  ultimately show ?thesis
    by (simp add: reads_only_def repo_blind_def leaves_def halt_locally_def)
qed

lemma queries_mutate_nothing:
  assumes "oe_gateway e = gw"
  shows "query_intent e i s = (r, s') \<Longrightarrow> mutations (w_gateway s') = mutations (w_gateway s)"
    and "reconcile_command e c f ro s = (r', s') \<Longrightarrow> mutations (w_gateway s') = mutations (w_gateway s)"
  by (erule leavesD [OF leaves_query_intent [OF reads_only_mutations [OF assms]]])
    (erule leavesD [OF leaves_reconcile_command [OF reads_only_mutations [OF assms]]])

lemma broker_call_counts:
  "oe_gateway e = gw \<Longrightarrow> mutations (broker_call e action p t g) \<le> Suc (mutations g)"
  using send_counts cancel_counts unfolding broker_call_def order_gateway_def
  by (cases "action = ''send''") (simp, metis prod.collapse, simp, metis prod.collapse)

end

end
