(* ===== verification/Order_Properties.thy ===== *)
theory Order_Properties
  imports Order_Progress Control_Frame
begin

text \<open>
  The properties of order mutations, each with a concrete use: a process without a file whose
  document is ready, its leader's token, and one order sent to the in-memory gateway.
\<close>

section \<open>The concrete order\<close>

lemma sample_quiet: "quiet (repo_env sample_env)"
  by (simp add: quiet_def)

definition failing_gateway :: memory_gateway where
  "failing_gateway = (new_memory_gateway ''account:test'' ''test'')\<lparr>im_fail_send := Some (Exn PyTimeoutError ''no answer'')\<rparr>"

lemma sample_still:
  "sample_ok ''account:test'' m \<Longrightarrow> still sample_env 0 (sample_doc m) g ((sample_world m)\<lparr>w_gateway := g\<rparr>)"
  using sample_valid sample_wf by (simp add: still_def holding_def refreshed_def)

lemma ready_fence: "fence_accepts sample_env (sample_doc ready_sample) sample_args 0"
proof -
  have "assert_state_token ''account:test'' (sample_doc ready_sample) leader_one 0 False False = Inr ()"
    by (subst accepted_until_expiry [OF sample_valid [OF ready_ok], where x = 15000000])
      (simp_all add: ready_sample_def lease_one_def ex_lease_def read_JObj leader_one_def in_calendar_15s)
  then show ?thesis
    by (auto simp: fence_accepts_def sample_args_def coerce_token_def leader_one_def)
qed

lemma ready_admits: "state_admits ''send'' sample_args 0 (sample_doc ready_sample)"
  by (simp add: state_admits_def unsettled_def authority_live_def authority_expiry_def plan_matches_def sample_args_def
      ready_sample_def plan_one_def section_defs read_JObj str_or_def Let_def py_str_def expiry_15s)

lemma ready_order: "well_formed_order sample_args sample_request sample_key (sample_doc ready_sample)"
  by (simp add: well_formed_order_def sample_args_def sample_request_def sample_key_def ready_sample_def id_shapes
      has_key_def starts_with_def)

lemma memory_send_counts: "broker_calls (snd (memory_send r c t g)) = Suc (broker_calls g)"
  by (simp add: memory_send_def Let_def split: option.splits)

abbreviation sent_by :: "memory_gateway \<Rightarrow> (exn + json) \<times> memory_gateway world" where
  "sent_by g \<equiv> mutate_order sample_env ''send'' sample_request sample_key sample_args
     ((sample_world ready_sample)\<lparr>w_gateway := g\<rparr>)"

lemma sample_send_runs:
  obtains r s' where "sent_by g = (r, s')" "w_gateway s' \<noteq> g" "im_fail_send g \<noteq> None \<Longrightarrow> \<exists>x. r = Inl x"
proof -
  obtain r s' where r: "sent_by g = (r, s')" by (cases "sent_by g")
  have v: "valid_doc (e_scope sample_env) (sample_doc ready_sample)" using sample_valid [OF ready_ok] by simp
  have t: "oa_now sample_args = None \<or> oa_now sample_args = Some 0" by (simp add: sample_args_def)
  have c: "e_clock sample_env n = 0" for n by simp
  obtain p where "carries p ''send'' sample_request sample_key sample_args"
    and g: "w_gateway s' = snd (gw_send (oe_gateway sample_env) (canon sample_request) (pr_context p) 0 g)"
      "(\<exists>y. fst (gw_send (oe_gateway sample_env) (canon sample_request) (pr_context p) 0 g) = Inl y) \<longrightarrow> (\<exists>x. r = Inl x)"
    by (rule admitted_order_called [OF sample_quiet c epoch_in_calendar v sample_wf [OF ready_ok] sample_finite [OF ready_ok]
        ready_admits ready_fence ready_order t sample_still [OF ready_ok] r])
  then have "broker_calls (w_gateway s') = Suc (broker_calls g)"
    by (simp add: in_memory_gateway_def memory_send_counts)
  then have "w_gateway s' \<noteq> g" by auto
  moreover have "\<exists>x. r = Inl x" if "im_fail_send g \<noteq> None"
    using g(2) that by (auto simp: in_memory_gateway_def memory_send_def Let_def)
  ultimately show thesis using that r by blast
qed

section \<open>Intents before calls\<close>



text \<open>
  C19: an order that its document and the lease admit, under a new key and a new intent name, is
  sent: in a run that no other process disturbs and with a clock that stands still, the gateway's
  send is called with the caller's request. The guards block nothing they do not have to.
\<close>

theorem admitted_order_reaches_broker:
  assumes "quiet (repo_env e)" "\<And>n. e_clock e n = now" "in_calendar now"
    and "valid_doc (e_scope e) d" "wf_json d" "finite_json d" "still e now d g s"
    and "state_admits ''send'' a now d" "fence_accepts e d a now" "well_formed_order a request key d"
    and "oa_now a = None \<or> oa_now a = Some now"
  shows "\<exists>p. carries p ''send'' request key a
    \<and> w_gateway (snd (mutate_order e ''send'' request key a s))
        = snd (gw_send (oe_gateway e) (canon request) (pr_context p) now g)"
proof -
  obtain r s' where r: "mutate_order e ''send'' request key a s = (r, s')" by fastforce
  from admitted_order_called [OF assms(1-6,8-11,7) r] show ?thesis using r by (metis snd_conv)
qed

lemma admitted_order_reaches_broker_witness:
  "\<exists>p. carries p ''send'' sample_request sample_key sample_args
    \<and> w_gateway (snd (sent_by failing_gateway))
        = snd (gw_send (oe_gateway sample_env) (canon sample_request) (pr_context p) 0 failing_gateway)"
  by (rule admitted_order_reaches_broker [where d = "sample_doc ready_sample"])
    (use sample_quiet epoch_in_calendar sample_valid [OF ready_ok] sample_wf [OF ready_ok] sample_finite [OF ready_ok]
       sample_still [OF ready_ok] ready_admits ready_fence ready_order in \<open>simp_all add: sample_args_def\<close>)

section \<open>Errors\<close>



section \<open>At most once\<close>

text \<open>
  C22: whatever a gateway counts as its mutations, one order operation adds at most one, with
  every retry it makes for itself included.
\<close>

theorem order_mutates_broker_at_most_once:
  assumes "broker_boundary (oe_gateway e) mutations" and "mutate_order e action request key a s = (r, s')"
  shows "mutations (w_gateway s') \<le> Suc (mutations (w_gateway s))"
proof (cases "w_gateway s' = w_gateway s")
  case False
  then obtain p before written where at: "attempt e action request key a p before written r s'"
    and w: "w_gateway written = w_gateway s"
    using mutate_order_path [OF assms(2) [unfolded mutate_order_def]] by blast
  from attempt_facts(3) [OF at] w False obtain t where "w_gateway s' = broker_call e action p t (w_gateway s)"
    by auto
  then show ?thesis using broker_boundary.broker_call_counts [OF assms(1) refl] by simp
qed simp

lemma order_mutates_broker_at_most_once_witness:
  "broker_calls (w_gateway (snd (sent_by failing_gateway))) \<le> Suc (broker_calls failing_gateway)"
proof -
  have "broker_boundary (oe_gateway sample_env) broker_calls" using memory.broker_boundary_axioms by simp
  then show ?thesis
    using order_mutates_broker_at_most_once [OF _ surjective_pairing [of "sent_by failing_gateway"]] by simp
qed

text \<open>
  C24: asking about an intent and reconciling, whatever they find and however they end, never add
  to what the gateway counts as its mutations.
\<close>

theorem queries_and_reconciliation_never_trade:
  assumes "broker_boundary (oe_gateway e) mutations"
  shows "mutations (w_gateway (snd (query_intent e i s))) = mutations (w_gateway s) \<and>
    mutations (w_gateway (snd (reconcile_command e c finalization rollover s))) = mutations (w_gateway s)"
  using broker_boundary.queries_mutate_nothing [OF assms refl surjective_pairing] by blast

lemma queries_and_reconciliation_never_trade_witness:
  "broker_calls (w_gateway (snd (query_intent sample_env ''intent-0001'' (sample_world ready_sample)))) = 0 \<and>
    broker_calls (w_gateway (snd (reconcile_command sample_env (sample_command ''reconcile'' (JObj [])) None None
      (sample_world ready_sample)))) = 0"
proof -
  have "broker_boundary (oe_gateway sample_env) broker_calls" using memory.broker_boundary_axioms by simp
  from queries_and_reconciliation_never_trade [OF this] show ?thesis
    by (simp add: broker_calls_def new_memory_gateway_def)
qed

text \<open>
  C20: once the document a later operation reads has grown from one that indexes an idempotency
  key, no order under that key reaches the broker or changes the document: the answer is read off
  the recorded intent, and a different request under the key is refused.
\<close>

theorem used_key_never_trades_again:
  assumes d: "fld (fld d ''intent_keys'') key = JStr i" "grows d d'" and v: "valid_doc (e_scope e) (r_mem s)"
    and q: "order_request action key request a = Inr (key, detached, h, quote_proof)"
    and r: "clock_reading e (oa_now a) s = (Inr now, s0)" "read_state e s0 = (Inr d', s1)"
  shows "mutate_order e action request key a s = (reuse_intent (fld (fld d' ''send_intents'') i) action h quote_proof, s1)
    \<and> w_gateway s1 = w_gateway s \<and> r_mem s1 = d'
    \<and> (fld (fld (fld d' ''send_intents'') i) ''request_hash'' \<noteq> JStr h \<longrightarrow>
        reuse_intent (fld (fld d' ''send_intents'') i) action h quote_proof
          = raise IdempotencyConflictError ''order idempotency key was reused with different payload'')"
proof -
  have c: "current_doc (repo_env e) s0 = Inr d'" "r_mem s1 = d'"
    using r(2) by (auto simp: read_state_def dest!: snapshot_ok)
  have m: "r_mem s0 = r_mem s"
    using r(1) by (auto simp: clock_reading_def utc_now_def next_tick_def abind_def split: option.splits)
  have v': "valid_doc (e_scope e) d'" using current_valid [OF c(1)] v m by simp
  have "dget (fld d ''intent_keys'') key = Some (JStr i)" using d(1) fld_not_null [of "fld d ''intent_keys''" key] by simp
  moreover have "retains (\<lambda>v v'. jeq v' v) (fld d ''intent_keys'') (fld d' ''intent_keys'')"
    using d(2) by (simp add: grows_def)
  ultimately obtain x where x: "dget (fld d' ''intent_keys'') key = Some x" "jeq x (JStr i)"
    unfolding retains_def by blast
  then have k: "dget (fld d' ''intent_keys'') key = Some (JStr i)" by simp
  have i: "has_key (fld d' ''send_intents'') i" "fld (fld d' ''intent_keys'') key = JStr i"
    using valid_doc_intents(2) [OF v' k] k by (auto simp: check_intent_key_def dget_Some_fld)
  have obj: "is_obj (fld (fld d' ''send_intents'') i)"
    using valid_doc_intents(1) [OF v' has_keyE [OF i(1)]] by (simp add: check_intent_def Let_def)
  have e: "existing_intent d' key = fld (fld d' ''send_intents'') i"
    using obj i by (auto simp: existing_intent_def Let_def intents_of_def valid_get_or [OF v'] required_sections_def)
  have "prepare_order e action request key a s
      = (case reuse_intent (fld (fld d' ''send_intents'') i) action h quote_proof of Inl x \<Rightarrow> Inl x | Inr y \<Rightarrow> Inr (Inl y), s1)"
    using q r e obj by (simp add: prepare_order_def abind_def split: sum.splits)
  then have "mutate_order e action request key a s = (reuse_intent (fld (fld d' ''send_intents'') i) action h quote_proof, s1)"
    by (simp add: mutate_order_def numeral_2_eq_2 abind_def split: sum.splits)
  moreover have "w_gateway s1 = w_gateway s"
    using leavesD [OF leaves_clock(3) r(1), of w_gateway] leavesD [OF leaves_read_state r(2), of w_gateway]
    by (simp add: repo_blind_tick)
  ultimately show ?thesis using c(2) by (simp add: reuse_intent_def)
qed

lemma used_key_never_trades_again_witness:
  "\<exists>h s1. mutate_order sample_env ''send'' sample_request sample_key sample_args (sample_world traded_sample)
    = (reuse_intent intent_one ''send'' h None, s1) \<and> w_gateway s1 = w_gateway (sample_world traded_sample)"
proof -
  let ?d = "sample_doc traded_sample"
  have q: "order_request ''send'' sample_key sample_request sample_args
      = Inr (sample_key, canon sample_request, json_hash (canon sample_request), None)"
    by (rule order_request_runs [OF ready_order])
  have k: "fld (fld ?d ''intent_keys'') sample_key = JStr ''intent-0001''"
    by (simp add: traded_sample_def read_JObj)
  have c: "clock_reading sample_env (oa_now sample_args) (sample_world traded_sample)
      = (Inr 0, (sample_world traded_sample)\<lparr>r_tick := 1\<rparr>)"
    by (simp add: clock_reading_def sample_args_def utc_now_def next_tick_def abind_def)
  have r: "read_state sample_env ((sample_world traded_sample)\<lparr>r_tick := 1\<rparr>)
      = (Inr ?d, (sample_world traded_sample)\<lparr>r_tick := 1\<rparr>)"
    by (simp add: read_state_in_memory)
  have v: "valid_doc (e_scope sample_env) (r_mem (sample_world traded_sample))" using sample_valid [OF traded_ok] by simp
  from used_key_never_trades_again [OF k grows_refl v q c r] show ?thesis
    by (auto simp: traded_sample_def read_JObj)
qed

section \<open>Admission\<close>

text \<open>The lease clock accepts a time exactly when it has not been overtaken.\<close>

lemma candidate_fence_iff:
  assumes "\<not> oa_planned a"
  shows "(\<exists>tok t. candidate_fence e a now d s = (Inr tok, t)) \<longleftrightarrow>
    fence_accepts e d a now \<and> \<not> f_rollback s \<and> (\<forall>l. f_last_now s = Some l \<longrightarrow> l \<le> now)"
proof -
  have clock: "(\<exists>c t. lease_clock e (Some now) s = (Inr c, t)) \<longleftrightarrow>
      \<not> f_rollback s \<and> (\<forall>l. f_last_now s = Some l \<longrightarrow> l \<le> now)"
    by (cases "f_last_now s") (auto simp: lease_clock_def clock_reading_def)
  have now: "lease_clock e (Some now) s = (Inr c, t) \<Longrightarrow> c = now" for c t
    by (rule lease_clock_Inr(7))  simp_all
  show ?thesis
  proof (intro iffI; elim exE conjE)
    fix tok t assume "candidate_fence e a now d s = (Inr tok, t)"
    then obtain c where c: "lease_clock e (Some now) s = (Inr c, t)" and f: "fence_accepts e d a c"
      using assms
      by (cases "oa_leader_epoch a"; cases "oa_fencing_token a")
        (auto simp: candidate_fence_def validate_against_state_def validate_candidate_def fence_accepts_def
          abind_Inr_iff fence_match_def split: if_splits)
    from c f clock now show "fence_accepts e d a now \<and> \<not> f_rollback s \<and> (\<forall>l. f_last_now s = Some l \<longrightarrow> l \<le> now)"
      by blast
  next
    assume f: "fence_accepts e d a now" and ok: "\<not> f_rollback s" "\<forall>l. f_last_now s = Some l \<longrightarrow> l \<le> now"
    then obtain c t where c: "lease_clock e (Some now) s = (Inr c, t)" using clock by blast
    with now have "c = now" by blast
    with f c assms show "\<exists>tok t. candidate_fence e a now d s = (Inr tok, t)"
      by (auto simp: candidate_fence_def validate_against_state_def validate_candidate_def fence_accepts_def
          abind_Inr_iff fence_match_def)
  qed
qed



text \<open>
  C25: a process that has halted itself sends nothing more: an order operation either answers from a
  recorded intent or raises, the gateway is not called and the halt stays.
\<close>

theorem halted_process_sends_nothing:
  assumes "w_local_halted s" and "mutate_order e action request key a s = (r, s')"
  shows "w_gateway s' = w_gateway s \<and> w_local_halted s' \<and> (\<forall>answer. r = Inr answer \<longrightarrow> fld answer ''reused'' = JBool True)"
proof -
  obtain q t where p: "prepare_order e action request key a s = (q, t)" by fastforce
  have t: "w_gateway t = w_gateway s" "w_local_halted t = w_local_halted s"
    by (rule leavesD [OF leaves_prepare_order p]; simp)+
  have reuse: "fld y ''reused'' = JBool True" if "reuse_intent x action h z = Inr y" for x h y z
    using that by (auto simp: reuse_intent_def raise_def read_JObj split: if_splits)
  have "\<not> (\<exists>x. q = Inr (Inr x)) \<and> (\<forall>y. q = Inr (Inl y) \<longrightarrow> fld y ''reused'' = JBool True)"
  proof (intro conjI allI impI notI)
    assume "\<exists>x. q = Inr (Inr x)"
    then obtain x where "prepare_order e action request key a s = (Inr (Inr x), t)" using p by blast
    then obtain now now' d u v v' where c: "clock_reading e (oa_now a) s = (Inr now', u)" "read_state e u = (Inr d, v)"
      and f: "mutation_preflight e action a False now d v = (Inr (), v')"
      by (auto simp: prepare_order_def abind_Inr_iff Let_def split: if_splits prod.splits)
    have "w_local_halted v = w_local_halted s"
      using leavesD [OF leaves_clock(3) c(1), of w_local_halted] leavesD [OF leaves_read_state c(2), of w_local_halted]
      by (simp add: repo_blind_tick)
    with f assms(1) show False by (simp add: mutation_preflight_Inr)
  next
    fix y assume "q = Inr (Inl y)"
    with p show "fld y ''reused'' = JBool True"
      by (auto simp: prepare_order_def abind_Inr_iff Let_def split: if_splits prod.splits intro: reuse)
  qed
  then have "r = (case q of Inl x \<Rightarrow> Inl x | Inr (Inl y) \<Rightarrow> Inr y) \<and> s' = t"
    using assms(2) p by (cases q; cases "projr q") (auto simp: mutate_order_def numeral_2_eq_2 abind_def)
  with t assms(1) \<open>\<not> (\<exists>x. q = Inr (Inr x)) \<and> _\<close> show ?thesis
    by (cases q) (auto split: sum.splits)
qed

lemma halted_process_sends_nothing_witness:
  "w_gateway (snd (mutate_order sample_env ''send'' sample_request sample_key sample_args
    ((sample_world ready_sample)\<lparr>w_local_halted := True\<rparr>))) = w_gateway (sample_world ready_sample)"
  using halted_process_sends_nothing [OF _ surjective_pairing, of "(sample_world ready_sample)\<lparr>w_local_halted := True\<rparr>"]
  by simp

section \<open>A time that has been overtaken\<close>

lemma stale_lease_clock:
  assumes "f_last_now s = Some l" "now < l"
  shows "lease_clock e (Some now) s
    = (Inl (Exn ClockRollbackError ''clock rollback detected; fencing is halted''), s\<lparr>f_rollback := True\<rparr>)"
  using assms by (simp add: lease_clock_def clock_reading_def abind_def)

text \<open>
  C26: an unplanned order keeps the time it read when it started. If a renewal of the lease in this
  process has read the clock since, then writing the intent, on a document that would admit it, takes
  that for a clock running backwards and latches the fencer: this order and everything after it that
  needs the lease is refused, although no clock ever went back.
\<close>

theorem overtaken_order_latches_the_fencer:
  assumes "\<not> oa_planned a" "f_last_now s = Some l" "pr_now p < l" "\<not> w_local_halted s"
    and "quiet (repo_env e)" "holding (repo_env e) s d" "pr_expected p = version_of d"
    and "state_admits action a (pr_now p) d" "fence_accepts e d a (pr_now p)"
  shows "\<exists>s'. persist_intent e action a retry p s
      = (Inl (Exn ClockRollbackError ''clock rollback detected; fencing is halted''), s') \<and> f_rollback s'"
proof -
  let ?x = "Exn ClockRollbackError ''clock rollback detected; fencing is halted''"
  let ?f = "\<lambda>d. abind (abind (mutation_preflight e action a True (pr_now p) d) (\<lambda>_. aret (persist_intent_doc p d)))
    (\<lambda>d'. aret ((), d'))"
  have pre: "preflight_lifecycle False d action (action = ''cancel'' \<and> oa_emergency a) = Inr ()"
    "preflight_target d action (oa_target a) (action = ''cancel'' \<and> oa_emergency a) = Inr ()"
    using assms(8) by (simp_all add: state_admits_iff)
  have fence: "candidate_fence e a (pr_now p) d t = (Inl ?x, t\<lparr>f_rollback := True\<rparr>)" if "f_last_now t = Some l" for t
    using assms(1,9) stale_lease_clock [OF that assms(3), of e]
    by (auto simp: candidate_fence_def validate_against_state_def validate_candidate_def fence_accepts_def abind_def)
  have f: "?f d t = (Inl ?x, t\<lparr>f_rollback := True\<rparr>)" if "f_last_now t = Some l" "\<not> w_local_halted t" for t
    using that pre fence [OF that(1)] by (simp add: mutation_preflight_def Let_def abind_def)
  have fk: "?f d (s\<lparr>r_mem := d, r_tick := k\<rparr>) = (Inl ?x, s\<lparr>r_mem := d, r_tick := k, f_rollback := True\<rparr>)" for k
    using assms(2,4) f [of "s\<lparr>r_mem := d, r_tick := k\<rparr>"] by simp
  have ex: "Some (pr_expected p) = None \<or> Some (pr_expected p) = Some (version_of d)" using assms(7) by simp
  have "\<not> is_a ?x PyOSError" by code_simp
  with assms(5,6) ex fk obtain k where
    "mutate (repo_env e) ?f (Some (pr_expected p)) s = (Inl ?x, s\<lparr>r_mem := d, r_tick := k, f_rollback := True\<rparr>)"
    by (rule mutate_raises)
  moreover have "\<not> is_a ?x ExpectedVersionConflict" by code_simp
  ultimately show ?thesis
    by (simp add: persist_intent_def update_doc_def acatch_def abind_def [of "mutate a b c" for a b c]
        abind_def [of "\<lambda>s. case mutate a b c s of (Inl e, s') \<Rightarrow> (Inl e, s') | (Inr x, s') \<Rightarrow> aret () s'" for a b c])
qed

lemma overtaken_order_latches_the_fencer_witness:
  "\<exists>s'. persist_intent sample_env ''send'' sample_args True
      (send_prepared sample_env sample_args sample_request sample_key leader_one ''intent-0001'' 0 (sample_doc ready_sample))
      ((sample_world ready_sample)\<lparr>f_last_now := Some 1\<rparr>)
    = (Inl (Exn ClockRollbackError ''clock rollback detected; fencing is halted''), s') \<and> f_rollback s'"
proof (rule overtaken_order_latches_the_fencer [where l = 1 and d = "sample_doc ready_sample"])
  show "holding (repo_env sample_env) ((sample_world ready_sample)\<lparr>f_last_now := Some 1\<rparr>) (sample_doc ready_sample)"
    using sample_valid [OF ready_ok] sample_wf [OF ready_ok] by (simp add: holding_def refreshed_def)
qed (use ready_admits ready_fence sample_quiet in \<open>simp_all add: send_prepared_def Let_def sample_args_def\<close>)

end
