(* ===== verification/Restart_Properties.thy ===== *)
theory Restart_Properties
  imports Control_Frame Quiet_Runs
begin

text \<open>
  What a restart and a failed cancellation leave in the document: no intent that could still be
  live is taken for settled, and nothing is admitted until a reconciliation.
\<close>

section \<open>Marking the active intents\<close>

definition restartable :: "string \<Rightarrow> json \<Rightarrow> bool" where
  "restartable i raw \<longleftrightarrow> is_obj raw \<and> \<not> key_alias i
     \<and> str_sat (\<lambda>st. st \<in> set ACTIVE_INTENT_STATES) (fld raw ''state'')"

definition restarted :: "json \<Rightarrow> json" where
  "restarted raw = dset (dset raw ''state'' (JStr ''UNKNOWN_OUTCOME'')) ''unknown_reason'' (JStr restart_reason)"

lemma restart_intent_fields:
  "fld (fld (restart_intent (i, raw) d) ''send_intents'') k
    = (if restartable i raw \<and> k = i then restarted raw else fld (fld d ''send_intents'') k)"
  "has_key (fld (restart_intent (i, raw) d) ''unknown_outcomes'') k
    = (restartable i raw \<and> k = i \<or> has_key (fld d ''unknown_outcomes'') k)"
  "has_key (fld (restart_intent (i, raw) d) ''send_intents'') k
    = (restartable i raw \<and> k = i \<or> has_key (fld d ''send_intents'') k)"
  "s \<notin> {''send_intents'', ''unknown_outcomes''} \<Longrightarrow> fld (restart_intent (i, raw) d) s = fld d s"
  by (auto simp: restart_intent_def restartable_def restarted_def put_unknown_def put_raw_intent_def set_in_def doc_simps)

lemma restart_intents:
  assumes "distinct (map fst xs)"
  shows "fld (fld (fold restart_intent xs d) ''send_intents'') k
      = (case map_of xs k of Some raw \<Rightarrow> if restartable k raw then restarted raw else fld (fld d ''send_intents'') k
         | None \<Rightarrow> fld (fld d ''send_intents'') k)"
  using assms
proof (induction xs arbitrary: d)
  case (Cons x xs)
  obtain i raw where x: "x = (i, raw)" by (cases x)
  have n: "map_of xs i = None" using Cons.prems x by (simp add: map_of_eq_None_iff image_iff)
  then show ?case
    using Cons.IH [of "restart_intent x d"] Cons.prems by (auto simp: x restart_intent_fields split: option.splits)
qed simp

lemma restart_unknowns:
  assumes "distinct (map fst xs)"
  shows "has_key (fld (fold restart_intent xs d) ''unknown_outcomes'') k
      \<longleftrightarrow> (\<exists>raw. map_of xs k = Some raw \<and> restartable k raw) \<or> has_key (fld d ''unknown_outcomes'') k"
  using assms
proof (induction xs arbitrary: d)
  case (Cons x xs)
  obtain i raw where x: "x = (i, raw)" by (cases x)
  have n: "map_of xs i = None" using Cons.prems x by (simp add: map_of_eq_None_iff image_iff)
  then show ?case
    using Cons.IH [of "restart_intent x d"] Cons.prems by (auto simp: x restart_intent_fields)
qed simp

lemma restart_names:
  assumes "distinct (map fst xs)"
  shows "has_key (fld (fold restart_intent xs d) ''send_intents'') k
      \<longleftrightarrow> (\<exists>raw. map_of xs k = Some raw \<and> restartable k raw) \<or> has_key (fld d ''send_intents'') k"
  using assms
proof (induction xs arbitrary: d)
  case (Cons x xs)
  obtain i raw where x: "x = (i, raw)" by (cases x)
  have n: "map_of xs i = None" using Cons.prems x by (simp add: map_of_eq_None_iff image_iff)
  then show ?case
    using Cons.IH [of "restart_intent x d"] Cons.prems by (auto simp: x restart_intent_fields)
qed simp

text \<open>What the document of a restarted process promises.\<close>

definition fenced_off :: "json \<Rightarrow> json \<Rightarrow> bool" where
  "fenced_off before after \<longleftrightarrow> unsettled after
     \<and> (\<forall>i raw. dget (fld before ''send_intents'') i = Some raw \<longrightarrow> restartable i raw \<longrightarrow>
          fld (fld after ''send_intents'') i = restarted raw \<and> has_key (fld after ''unknown_outcomes'') i)
     \<and> (\<forall>i raw. dget (fld before ''send_intents'') i = Some raw \<longrightarrow> \<not> restartable i raw \<longrightarrow>
          fld (fld after ''send_intents'') i = raw)
     \<and> (\<forall>i. has_key (fld before ''unknown_outcomes'') i \<longrightarrow> has_key (fld after ''unknown_outcomes'') i)"

lemma bootstrap_fences_off:
  assumes "wf_json d"
  shows "fenced_off d (bootstrap_doc d)"
proof -
  let ?s1 = "fold restart_intent (items (fld d ''send_intents'')) d"
  have dist: "distinct (map fst (items (fld d ''send_intents'')))"
    using distinct_keys [of "fld d ''send_intents''"] assms by (simp add: keys_def)
  note all = restart_intents [OF dist] restart_unknowns [OF dist]
  have f: "fld (bootstrap_doc d) ''send_intents'' = fld ?s1 ''send_intents''"
    "fld (bootstrap_doc d) ''unknown_outcomes'' = fld ?s1 ''unknown_outcomes''"
    "fld (bootstrap_doc d) ''lifecycle'' \<in> {JStr ''HALTED_RECONCILE_REQUIRED'', JStr ''HALTED_UNKNOWN_OUTCOME''}"
    by (simp_all add: bootstrap_doc_def Let_def doc_simps)
  show ?thesis
    using f(3) by (auto simp: fenced_off_def unsettled_def f(1,2) all(1,2) dget_def [symmetric] dget_Some_fld split: option.splits)
qed

section \<open>The restart fence goes through\<close>

lemma restarted_intent:
  assumes "check_intent (i, raw) = Inr ()"
  shows "check_intent (i, restarted raw) = Inr ()" "creation_facts (restarted raw) = creation_facts raw"
    "fld (restarted raw) ''intent_id'' = fld raw ''intent_id''"
    "fld (restarted raw) ''idempotency_key'' = fld raw ''idempotency_key''"
    "fld (restarted raw) ''state'' = JStr ''UNKNOWN_OUTCOME''"
proof -
  have obj: "is_obj raw" using assms by (simp add: check_intent_def)
  show "check_intent (i, restarted raw) = Inr ()"
    unfolding restarted_def
    by (intro check_intent_dset assms) (auto simp: INTENT_STATES_def)
  show "creation_facts (restarted raw) = creation_facts raw"
    unfolding restarted_def using obj by (simp add: creation_facts_dset MUTABLE_INTENT_FIELDS_def)
qed (simp_all add: restarted_def doc_simps)

lemma fold_keeps: "(\<And>x y. P y \<Longrightarrow> P (f x y)) \<Longrightarrow> P y \<Longrightarrow> P (fold f xs y)"
  by (induction xs arbitrary: y) auto

lemma bootstrap_keys:
  assumes "keys_are d (''schema_version'' # required_sections)" "is_obj d"
  shows "keys_are (bootstrap_doc d) (''schema_version'' # required_sections)" "is_obj (bootstrap_doc d)"
proof -
  have step: "keys_are (restart_intent x d) (''schema_version'' # required_sections)"
    if "keys_are d (''schema_version'' # required_sections)" for x d
    using that unfolding restart_intent_def put_unknown_def put_raw_intent_def set_in_def
    by (auto split: prod.splits intro!: keys_are_dset simp: required_sections_def)
  then have "keys_are (fold restart_intent (items (fld d ''send_intents'')) d) (''schema_version'' # required_sections)"
    using fold_keeps [where P = "\<lambda>d. keys_are d (''schema_version'' # required_sections)" and f = restart_intent] assms(1) by blast
  then show "keys_are (bootstrap_doc d) (''schema_version'' # required_sections)"
    by (auto simp: bootstrap_doc_def Let_def required_sections_def intro!: keys_are_dset)
  show "is_obj (bootstrap_doc d)" by (simp add: bootstrap_doc_def Let_def)
qed

lemma restart_intent_wf:
  assumes "wf_json d" "wf_json (snd x)"
  shows "wf_json (restart_intent x d)" "finite_json d \<Longrightarrow> finite_json (snd x) \<Longrightarrow> finite_json (restart_intent x d)"
  using assms
  by (cases x; simp add: restart_intent_def put_unknown_def put_raw_intent_def set_in_def restart_reason_def)+

lemma bootstrap_doc_ok:
  assumes d: "valid_doc scope d" "wf_json d" "finite_json d"
  shows "check_document (bootstrap_doc d) scope = Inr ()" "assert_append_only d (bootstrap_doc d) = Inr ()"
    "wf_json (bootstrap_doc d)" "finite_json (bootstrap_doc d)"
proof -
  let ?xs = "items (fld d ''send_intents'')" and ?c = "bootstrap_doc d"
  let ?s1 = "fold restart_intent ?xs d"
  have dist: "distinct (map fst ?xs)"
    using distinct_keys [of "fld d ''send_intents''"] d(2) by (simp add: keys_def)
  have item: "wf_json (snd x)" "finite_json (snd x)" if "x \<in> set ?xs" for x
  proof -
    have "dget (fld d ''send_intents'') (fst x) = Some (snd x)" using that wf_item [of "fld d ''send_intents''"] d(2) by simp
    then show "wf_json (snd x)" "finite_json (snd x)"
      using wf_json_fld [of "fld d ''send_intents''" "fst x"] finite_json_fld [of "fld d ''send_intents''" "fst x"] d(2,3)
      by (simp_all add: dget_Some_fld)
  qed
  have s1: "wf_json ?s1 \<and> finite_json ?s1"
  proof -
    have "\<forall>x \<in> set xs. wf_json (snd x) \<and> finite_json (snd x) \<Longrightarrow> wf_json d \<and> finite_json d \<Longrightarrow>
        wf_json (fold restart_intent xs d) \<and> finite_json (fold restart_intent xs d)" for xs d
      by (induction xs arbitrary: d) (simp_all add: restart_intent_wf)
    then show ?thesis using item d(2,3) by blast
  qed
  show wf: "wf_json ?c" and "finite_json ?c"
    using s1 by (simp_all add: bootstrap_doc_def Let_def dupdate_def)
  have len: "\<And>u. JInt (dlen u) = JInt (dlen u)" by simp
  have same: "fld ?c k = fld d k" if "k \<notin> set intent_sections" for k
  proof -
    have "fld (fold restart_intent xs d) k = fld d k" for xs d
      using that by (induction xs arbitrary: d) (auto simp: restart_intent_fields(4) intent_sections_def)
    then show ?thesis using that by (auto simp: bootstrap_doc_def Let_def intent_sections_def doc_simps)
  qed
  have f: "fld ?c ''send_intents'' = fld ?s1 ''send_intents''" "fld ?c ''unknown_outcomes'' = fld ?s1 ''unknown_outcomes''"
    by (simp_all add: bootstrap_doc_def Let_def doc_simps)
  have intents: "dget (fld ?c ''send_intents'') i = (case dget (fld d ''send_intents'') i of None \<Rightarrow> None
      | Some raw \<Rightarrow> Some (if restartable i raw then restarted raw else raw))" for i
  proof -
    have "has_key (fld ?c ''send_intents'') i = has_key (fld d ''send_intents'') i"
      unfolding f restart_names [OF dist] by (auto simp: has_key_iff dget_def)
    moreover have "fld (fld ?c ''send_intents'') i = (case dget (fld d ''send_intents'') i of None \<Rightarrow> JNull
        | Some raw \<Rightarrow> if restartable i raw then restarted raw else raw)"
      unfolding f restart_intents [OF dist]
      by (auto simp: dget_def [symmetric] fld_def get_or_def split: option.splits)
    ultimately show ?thesis
      using has_keyE [of "fld ?c ''send_intents''" i] by (auto simp: has_key_iff split: option.splits)
  qed
  have intent_names: "has_key (fld ?c ''send_intents'') i = has_key (fld d ''send_intents'') i" for i
    unfolding f restart_names [OF dist] by (auto simp: has_key_iff dget_def)
  have unknowns: "has_key (fld ?c ''unknown_outcomes'') i \<longleftrightarrow>
      (\<exists>raw. dget (fld d ''send_intents'') i = Some raw \<and> restartable i raw) \<or> has_key (fld d ''unknown_outcomes'') i" for i
    unfolding f restart_unknowns [OF dist] by (simp add: dget_def)
  have old: "check_intent (i, raw) = Inr ()" if "dget (fld d ''send_intents'') i = Some raw" for i raw
    using valid_doc_intents(1) [OF d(1) that] .
  have rc: "is_obj (fld ?c ''reconciliation'')" "fld (fld ?c ''reconciliation'') ''state'' \<in> JStr ` set RECONCILIATION_STATES"
    "fld (fld ?c ''reconciliation'') ''unknown_outcomes'' = JInt (dlen (fld ?c ''unknown_outcomes''))"
    by (simp_all add: bootstrap_doc_def Let_def doc_simps RECONCILIATION_STATES_def)
  have idx: "check_indexes ?c = Inr ()"
  proof (rule indexes_intro [OF d(1) wf same same])
    show "check_intent (i, raw) = Inr ()" if "dget (fld ?c ''send_intents'') i = Some raw" for i raw
      using that old restarted_intent(1) by (auto simp: intents split: option.splits if_splits)
    show "\<exists>raw'. dget (fld ?c ''send_intents'') i = Some raw' \<and> fld raw' ''idempotency_key'' = fld raw ''idempotency_key''"
      if "dget (fld d ''send_intents'') i = Some raw" for i raw
      using that restarted_intent(4) [OF old [OF that]] by (simp add: intents)
    show "has_key (fld ?c ''send_intents'') i" if "has_key (fld ?c ''unknown_outcomes'') i" for i
      using that valid_doc_intents(3) [OF d(1), of i] unfolding unknowns intent_names by (auto simp: has_key_iff)
    show "has_key (fld ?c ''unknown_outcomes'') i" if "dget (fld ?c ''send_intents'') i = Some raw"
      "fld raw ''state'' = JStr ''UNKNOWN_OUTCOME''" for i raw
      using that valid_doc_intents(5) [OF d(1), of i] unfolding unknowns intents by (auto split: option.splits if_splits)
    show "jeq (fld (fld ?c ''reconciliation'') ''unknown_outcomes'') (JInt (dlen (fld ?c ''unknown_outcomes'')))"
      by (simp add: rc(3))
  qed (simp_all add: intent_sections_def)
  have objs: "is_obj (fld ?c ''send_intents'')" "is_obj (fld ?c ''unknown_outcomes'')"
  proof -
    have "is_obj (fld (fold restart_intent xs d) k)" if "is_obj (fld d k)" "k \<in> {''send_intents'', ''unknown_outcomes''}" for xs d k
      using that by (induction xs arbitrary: d)
        (auto simp: restart_intent_def put_unknown_def put_raw_intent_def set_in_def doc_simps split: prod.splits)
    then show "is_obj (fld ?c ''send_intents'')" "is_obj (fld ?c ''unknown_outcomes'')"
      using valid_doc_shape(5) [OF d(1)] by (simp_all add: f)
  qed
  have l: "fld ?c ''lifecycle'' \<in> JStr ` set LIFECYCLES"
    by (auto simp: bootstrap_doc_def Let_def doc_simps LIFECYCLES_def)
  show "check_document ?c scope = Inr ()"
    by (rule valid_resectioned [OF d(1) bootstrap_keys(2,1) same l rc(1,2) objs idx])
      (use valid_doc_shape [OF d(1)] in auto)
  show "assert_append_only d ?c = Inr ()"
  proof (rule append_only_resectioned [OF d(1,2)])
    show "\<exists>raw'. dget (fld ?c ''send_intents'') i = Some raw' \<and> creation_facts raw' = creation_facts raw
        \<and> fld raw' ''intent_id'' = fld raw ''intent_id''" if "dget (fld d ''send_intents'') i = Some raw" for i raw
      using that restarted_intent(2,3) [OF old [OF that]] by (simp add: intents)
  qed (auto simp: same intent_sections_def)
qed


section \<open>The restart fence\<close>

lemma bootstrap_lifecycle:
  "fld (bootstrap_doc d) ''lifecycle'' \<in> {JStr ''HALTED_RECONCILE_REQUIRED'', JStr ''HALTED_UNKNOWN_OUTCOME''}"
  by (simp add: bootstrap_doc_def Let_def doc_simps)

lemma unsettled_lifecycle:
  "fld d ''lifecycle'' \<in> {JStr ''HALTED_RECONCILE_REQUIRED'', JStr ''HALTED_UNKNOWN_OUTCOME''} \<Longrightarrow> unsettled d"
  by (simp add: unsettled_def)

lemma fenced_off_cong:
  assumes "fenced_off d c" "\<And>k. k \<in> {''send_intents'', ''unknown_outcomes'', ''lifecycle''} \<Longrightarrow> fld c' k = fld c k"
    and "fld c ''lifecycle'' \<in> {JStr ''HALTED_RECONCILE_REQUIRED'', JStr ''HALTED_UNKNOWN_OUTCOME''}"
  shows "fenced_off d c'"
  using assms by (simp add: fenced_off_def unsettled_lifecycle)


definition traded_repo :: repo where
  "traded_repo = \<lparr>r_mem = sample_doc traded_sample, r_available = True, r_initialized = False, r_disk = NoFile, r_tick = 0\<rparr>"


end
