(* ===== verification/Control_Machine.thy ===== *)
theory Control_Machine
  imports Control_Frame
begin

text \<open>
  The control state of an execution service - lifecycle, authority, plan, reconciliation - as an
  abstract state machine, and what every write of the orchestrator does to it.
\<close>

section \<open>The abstract machine\<close>

record control =
  ct_lifecycle :: string
  ct_authority :: string
  ct_plan :: string
  ct_reconciliation :: string

datatype event = Previewed | Enabled | Revoked | Started | Stopped | Drained
  | Reconciled | LeftUnknown | Completed | Halted | OutcomeUnknown | OutcomeClosed
  | ForceRevoked | EmergencyStopped | Restarted

inductive control_step :: "event \<Rightarrow> control \<Rightarrow> control \<Rightarrow> bool" where
  previewed: "control_step Previewed c (c\<lparr>ct_plan := ''PREVIEWED''\<rparr>)"
| enabled: "l = (if ct_lifecycle c = ''STARTING'' then ''HALTED_RECONCILE_REQUIRED'' else ct_lifecycle c) \<Longrightarrow>
    control_step Enabled c (c\<lparr>ct_authority := ''ENABLED'', ct_lifecycle := l\<rparr>)"
| revoked: "control_step Revoked c (c\<lparr>ct_authority := ''REVOKED''\<rparr>)"
| started: "ct_authority c = ''ENABLED'' \<Longrightarrow> ct_lifecycle c \<notin> set START_BLOCKED \<Longrightarrow> ct_reconciliation c = ''RECONCILED'' \<Longrightarrow>
    control_step Started c (c\<lparr>ct_plan := ''ACTIVE'', ct_lifecycle := ''READY''\<rparr>)"
| stopped: "l = (if ct_lifecycle c \<in> {''HALTED_UNKNOWN_OUTCOME'', ''HALTED_RECONCILE_REQUIRED''} then ct_lifecycle c else ''READY'') \<Longrightarrow>
    control_step Stopped c (c\<lparr>ct_plan := ''TERMINAL'', ct_lifecycle := l\<rparr>)"
| drained: "control_step Drained c (c\<lparr>ct_lifecycle := ''DRAINING''\<rparr>)"
| reconciled: "control_step Reconciled c (c\<lparr>ct_reconciliation := ''RECONCILED'', ct_lifecycle := ''READY''\<rparr>)"
| left_unknown: "control_step LeftUnknown c (c\<lparr>ct_reconciliation := ''UNKNOWN'', ct_lifecycle := ''HALTED_UNKNOWN_OUTCOME''\<rparr>)"
| completed: "ct_plan c = ''ACTIVE'' \<Longrightarrow> ct_authority c = ''ENABLED'' \<Longrightarrow>
    ct_reconciliation c = ''RECONCILED'' \<Longrightarrow> ct_lifecycle c = ''READY'' \<Longrightarrow>
    control_step Completed c (c\<lparr>ct_plan := ''TERMINAL'', ct_authority := ''REVOKED''\<rparr>)"
| halted: "control_step Halted c (c\<lparr>ct_reconciliation := ''REQUIRED'', ct_lifecycle := ''HALTED_RECONCILE_REQUIRED''\<rparr>)"
| outcome_unknown: "control_step OutcomeUnknown c (c\<lparr>ct_reconciliation := ''UNKNOWN'', ct_lifecycle := ''HALTED_UNKNOWN_OUTCOME''\<rparr>)"
| outcome_closed: "l = (if ct_lifecycle c = ''HALTED_UNKNOWN_OUTCOME'' then ''READY'' else ct_lifecycle c) \<Longrightarrow>
    control_step OutcomeClosed c (c\<lparr>ct_reconciliation := ''RECONCILED'', ct_lifecycle := l\<rparr>)"
| force_revoked: "l \<in> {''HALTED_RECONCILE_REQUIRED'', ''HALTED_UNKNOWN_OUTCOME''} \<Longrightarrow>
    control_step ForceRevoked c (c\<lparr>ct_authority := ''REVOKED'', ct_lifecycle := l\<rparr>)"
| emergency_stopped: "l \<in> {''READY'', ''HALTED_UNKNOWN_OUTCOME''} \<Longrightarrow>
    control_step EmergencyStopped c (c\<lparr>ct_authority := ''REVOKED'', ct_plan := ''TERMINAL'', ct_lifecycle := l\<rparr>)"
| restarted: "(l, r) \<in> {(''HALTED_RECONCILE_REQUIRED'', ''REQUIRED''), (''HALTED_UNKNOWN_OUTCOME'', ''UNKNOWN'')} \<Longrightarrow>
    control_step Restarted c (c\<lparr>ct_lifecycle := l, ct_reconciliation := r\<rparr>)"

inductive_cases control_stepE: "control_step ev c c'"

definition steps_of :: "event set \<Rightarrow> control \<Rightarrow> control \<Rightarrow> bool" where
  "steps_of E = (\<lambda>c c'. \<exists>ev \<in> E. control_step ev c c')\<^sup>*\<^sup>*"

lemma steps_refl [simp]: "steps_of E c c"
  by (simp add: steps_of_def)

lemma steps_trans [trans]: "steps_of E a b \<Longrightarrow> steps_of E b c \<Longrightarrow> steps_of E a c"
  by (simp add: steps_of_def)

lemma one_step: "ev \<in> E \<Longrightarrow> control_step ev c c' \<Longrightarrow> steps_of E c c'"
  by (auto simp: steps_of_def)

lemma steps_mono: "steps_of E a b \<Longrightarrow> E \<subseteq> F \<Longrightarrow> steps_of F a b"
  unfolding steps_of_def by (rule rtranclp_mono [THEN predicate2D, rotated]) auto

text \<open>What no event of a set can do, no sequence of them can.\<close>

lemma steps_keep:
  assumes "steps_of E c c'" "P c" "\<And>ev c c'. ev \<in> E \<Longrightarrow> control_step ev c c' \<Longrightarrow> P c \<Longrightarrow> P c'"
  shows "P c'"
  using assms unfolding steps_of_def by (induction rule: rtranclp_induct) blast+

section \<open>The control state of a document\<close>

definition control_of :: "json \<Rightarrow> control" where
  "control_of d = \<lparr>ct_lifecycle = the_str (fld d ''lifecycle''),
     ct_authority = the_str (fld (fld d ''authority'') ''state''),
     ct_plan = the_str (fld (fld d ''plan'') ''state''),
     ct_reconciliation = the_str (fld (fld d ''reconciliation'') ''state'')\<rparr>"

definition control_sections :: "string list" where
  "control_sections = [''lifecycle'', ''authority'', ''plan'', ''reconciliation'']"

lemma control_cong:
  "(\<And>k. k \<in> set control_sections \<Longrightarrow> fld c k = fld d k) \<Longrightarrow> control_of c = control_of d"
  by (simp add: control_of_def control_sections_def)

lemma control_dset:
  "k \<notin> set control_sections \<Longrightarrow> control_of (dset d k v) = control_of d"
  "control_of (dset d ''lifecycle'' v) = (control_of d)\<lparr>ct_lifecycle := the_str v\<rparr>"
  "control_of (dset d ''authority'' v) = (control_of d)\<lparr>ct_authority := the_str (fld v ''state'')\<rparr>"
  "control_of (dset d ''plan'' v) = (control_of d)\<lparr>ct_plan := the_str (fld v ''state'')\<rparr>"
  "control_of (dset d ''reconciliation'' v) = (control_of d)\<lparr>ct_reconciliation := the_str (fld v ''state'')\<rparr>"
  by (auto simp: control_of_def control_sections_def doc_simps)

text \<open>Sorting the keys changes no reading: of two entries with one key the first stays first.\<close>

lemma map_of_stable: "map_of (sort_items kvs) k = map_of kvs k"
proof -
  have "map_of xs k = map_of (filter (\<lambda>x. fst x = k) xs) k" for xs :: "(string \<times> json) list"
    by (induction xs) auto
  then show ?thesis
    using sort_key_stable [of fst k kvs] by (metis sort_items_def)
qed

lemma fld_canon_any: "fld (canon d) k = canon (fld d k)"
proof (cases d)
  case (JObj kvs)
  have "map_of (map (\<lambda>(k, v). (k, canon v)) kvs) k = map_option canon (map_of kvs k)"
    by (induction kvs) auto
  then show ?thesis
    by (simp add: JObj fld_def get_or_def map_of_stable split: option.splits)
qed (simp_all add: fld_def get_or_def dget_def)

lemma the_str_canon: "the_str (canon j) = the_str j"
  by (cases j) (simp_all add: the_str_def)

lemma control_canon [simp]: "control_of (canon d) = control_of d"
  by (simp add: control_of_def fld_canon_any the_str_canon)

lemma control_sealed:
  assumes "sealed scope mem (dset c ''state_version'' v) = Inr d"
  shows "control_of d = control_of c"
  by (rule control_cong) (auto simp: sealed_Inr(3) [OF assms] control_sections_def doc_simps)

section \<open>The latest document\<close>

text \<open>
  The document that the next operation works on, if it can read it: the file's, when there is a
  file. Another process may change the file before the operation has the lock.
\<close>

definition disk_doc :: "json \<Rightarrow> disk \<Rightarrow> json" where
  "disk_doc m d = (case d of Stored x \<Rightarrow> x | _ \<Rightarrow> m)"

definition latest :: "'g oenv \<Rightarrow> 'g world \<Rightarrow> control" where
  "latest e s = control_of (if e_path e then disk_doc (r_mem s) (r_disk s) else r_mem s)"

definition others_follow :: "'g oenv \<Rightarrow> event set \<Rightarrow> bool" where
  "others_follow e E \<longleftrightarrow> (e_path e \<longrightarrow>
     (\<forall>n m d. steps_of E (control_of (disk_doc m d)) (control_of (disk_doc m (e_others e n d)))))"

text \<open>A computation moves the latest control state by events of a set only, whatever it returns.\<close>

definition follows :: "'g oenv \<Rightarrow> event set \<Rightarrow> ('g, 'a) wop \<Rightarrow> bool" where
  "follows e E m \<longleftrightarrow> (\<forall>s r t. others_follow e E \<longrightarrow> m s = (r, t) \<longrightarrow> steps_of E (latest e s) (latest e t))"

named_theorems follows_rules

lemma followsD: "follows e E m \<Longrightarrow> others_follow e E \<Longrightarrow> m s = (r, t) \<Longrightarrow> steps_of E (latest e s) (latest e t)"
  by (auto simp: follows_def)

lemma followsI:
  "(\<And>s r t. others_follow e E \<Longrightarrow> m s = (r, t) \<Longrightarrow> steps_of E (latest e s) (latest e t)) \<Longrightarrow> follows e E m"
  by (simp add: follows_def)

lemma latest_repo_part: "repo_part t = repo_part s \<Longrightarrow> latest e t = latest e s"
  by (simp add: latest_def repo_part_def)

lemma follows_leaves: "leaves repo_part m \<Longrightarrow> follows e E m"
  by (rule followsI) (use latest_repo_part in \<open>fastforce dest: leavesD\<close>)

lemma follows_bind [follows_rules]:
  assumes "follows e E m" "\<And>x. follows e E (f x)"
  shows "follows e E (abind m f)"
  by (rule followsI, erule abind_cases)
    (use assms in \<open>auto intro: steps_trans dest: followsD\<close>)

lemma follows_catch [follows_rules]:
  assumes "follows e E m" "\<And>x. follows e E (h x)"
  shows "follows e E (acatch m h)"
  by (rule followsI)
    (use assms in \<open>auto simp: acatch_def intro: steps_trans dest: followsD split: prod.splits sum.splits\<close>)

lemma follows_simple [follows_rules]:
  "follows e E (aret x)" "follows e E (athrow y)" "follows e E (alift z)" "follows e E (aget g)"
  "follows e E (aguard b y)"
  by (rule follows_leaves, intro leaves_rules)+

lemma follows_if [follows_rules]:
  "(b \<Longrightarrow> follows e E m) \<Longrightarrow> (\<not> b \<Longrightarrow> follows e E n) \<Longrightarrow> follows e E (if b then m else n)"
  by simp

lemma follows_aif [follows_rules]: "follows e E m \<Longrightarrow> follows e E (aif b m)"
  by (simp add: aif_def follows_simple)

lemma follows_option [follows_rules]:
  "(x = None \<Longrightarrow> follows e E m) \<Longrightarrow> (\<And>y. x = Some y \<Longrightarrow> follows e E (f y)) \<Longrightarrow>
    follows e E (case x of None \<Rightarrow> m | Some y \<Rightarrow> f y)"
  by (cases x) auto

lemma follows_sum [follows_rules]:
  "(\<And>y. follows e E (f y)) \<Longrightarrow> (\<And>y. follows e E (g y)) \<Longrightarrow> follows e E (case x of Inl y \<Rightarrow> f y | Inr y \<Rightarrow> g y)"
  by (cases x) auto

lemma follows_prod [follows_rules]: "(\<And>a b. follows e E (f a b)) \<Longrightarrow> follows e E (case x of (a, b) \<Rightarrow> f a b)"
  by (cases x) auto

lemma follows_let [follows_rules]: "(\<And>y. follows e E (f y)) \<Longrightarrow> follows e E (let y = x in f y)"
  by simp

lemma follows_aforall [follows_rules]: "(\<And>x. follows e E (f x)) \<Longrightarrow> follows e E (aforall f xs)"
  by (induction xs) (auto intro: follows_rules)

lemma follows_amap [follows_rules]: "(\<And>x. follows e E (f x)) \<Longrightarrow> follows e E (amap f xs)"
  by (induction xs) (auto intro!: follows_rules)

section \<open>Reads and writes of the repository\<close>

lemma follows_file_guard:
  assumes "follows e E m"
  shows "follows e E (file_guard (repo_env e) m)"
proof (cases "e_path e")
  case True
  have "follows e E (amod (\<lambda>s. s\<lparr>r_disk := e_others e n (r_disk s)\<rparr>))" for n
    by (rule followsI) (auto simp: others_follow_def latest_def True)
  moreover have "follows e E next_tick" by (rule follows_leaves, intro leaves_rules)
  ultimately show ?thesis
    using True assms by (auto simp: file_guard_def intro!: follows_rules)
qed (use assms in \<open>simp add: file_guard_def\<close>)

lemma refreshed_latest:
  assumes "refreshed scope (e_path e) b (r_mem s) (r_disk s) = Inr d"
  shows "control_of d = latest e s" "latest e (s\<lparr>r_mem := d\<rparr>) = latest e s"
  using assms
  by (auto simp: refreshed_def latest_def disk_doc_def rbind_Inr_iff validate_state_Inr_iff split: if_splits disk.splits)

lemma follows_refresh: "follows e E (refresh_from_disk (repo_env e))"
  by (rule followsI) (auto simp: refresh_from_disk_def refreshed_latest split: sum.splits)

lemma follows_available: "follows e E require_available"
  by (rule follows_leaves, rule leaves_require_available)

lemma follows_snapshot [follows_rules]:
  "follows e E (snapshot (repo_env e))" "follows e E (state_version (repo_env e))" "follows e E (read_state e)"
  unfolding read_state_def snapshot_def state_version_def
  by (intro follows_rules follows_file_guard follows_refresh follows_available)+

lemma persist_latest:
  assumes "persist (repo_env e) (dset c ''state_version'' v) s = (r, t)"
  shows "latest e t = latest e s \<or> latest e t = control_of c"
proof (cases "sealed (e_scope e) (r_mem s) (dset c ''state_version'' v)")
  case (Inl x)
  then show ?thesis using assms by (simp add: persist_def abind_def)
next
  case (Inr d)
  have d: "control_of d = control_of c" by (rule control_sealed [OF Inr])
  show ?thesis
  proof (cases "e_path e")
    case True
    then show ?thesis
      using assms Inr d
      by (cases "e_write e (r_tick s)"; cases "r_disk s")
        (simp_all add: persist_def next_tick_def abind_def latest_def disk_doc_def, auto)
  next
    case False
    then have "t = s\<lparr>r_mem := d\<rparr>" using assms Inr by (simp add: persist_def abind_def)
    then show ?thesis using False d by (simp add: latest_def)
  qed
qed

text \<open>The writer runs on the latest document; what it makes is written, or nothing is.\<close>

lemma write_steps:
  assumes f: "\<And>s r c t. f mem s = (Inr (r, c), t) \<Longrightarrow> steps_of E (control_of mem) (control_of c)"
    and l: "leaves repo_part (f mem)" and mem: "control_of mem = latest e s"
    and m: "abind (f mem) (\<lambda>(result, candidate).
        abind (alift (assert_append_only mem candidate)) (\<lambda>_.
        abind (persist (repo_env e) (dset candidate ''state_version'' v)) (\<lambda>_.
        aret (result, dset candidate ''state_version'' v)))) s = (r, t)"
  shows "steps_of E (latest e s) (latest e t)"
  using m
proof (cases rule: abind_cases)
  case (raised x)
  then show ?thesis using latest_repo_part [OF leavesD [OF l raised(1)]] by simp
next
  case (went y u)
  obtain res c where y: "y = (res, c)" by (cases y)
  have u: "latest e u = latest e s" by (rule latest_repo_part [OF leavesD [OF l went(1)]])
  have "latest e t = latest e u \<or> latest e t = control_of c"
    using went(2) y by (auto elim!: abind_cases dest!: persist_latest)
  then show ?thesis using u f [OF went(1) [unfolded y]] mem by auto
qed

lemma follows_mutate_locked:
  fixes f :: "json \<Rightarrow> ('g, 'b \<times> json) wop"
  assumes f: "\<And>d s r c t. f d s = (Inr (r, c), t) \<Longrightarrow> steps_of E (control_of d) (control_of c)"
    and l: "\<And>d. leaves repo_part (f d)"
  shows "follows e E (mutate_locked (repo_env e) f ex)"
proof (rule followsI)
  fix s r t
  assume m: "mutate_locked (repo_env e) f ex s = (r, t)"
  show "steps_of E (latest e s) (latest e t)"
  proof (cases "refreshed (e_scope e) (e_path e) (r_initialized s) (r_mem s) (r_disk s)")
    case (Inl x)
    then have "t = s" using m by (simp add: mutate_locked_def abind_def refresh_from_disk_def)
    then show ?thesis by simp
  next
    case (Inr d)
    have run: "abind (refresh_from_disk (repo_env e)) h s = h () (s\<lparr>r_mem := d\<rparr>)"
      "abind (aget r_mem) g (s\<lparr>r_mem := d\<rparr>) = g d (s\<lparr>r_mem := d\<rparr>)"
      for h :: "unit \<Rightarrow> ('g, 'b \<times> json) wop" and g :: "json \<Rightarrow> ('g, 'b \<times> json) wop"
      using Inr by (simp_all add: abind_def refresh_from_disk_def)
    let ?s = "s\<lparr>r_mem := d\<rparr>" and ?v = "JInt (version_of d + 1)"
    show ?thesis
    proof (cases "ex = None \<or> ex = Some (version_of d)")
      case True
      have w: "abind (f d) (\<lambda>(result, candidate).
        abind (alift (assert_append_only d candidate)) (\<lambda>_.
        abind (persist (repo_env e) (dset candidate ''state_version'' ?v)) (\<lambda>_.
        aret (result, dset candidate ''state_version'' ?v)))) ?s = (r, t)"
        using m run True by (simp add: mutate_locked_def aguard_def Let_def)
      have "steps_of E (latest e ?s) (latest e t)"
        by (rule write_steps [where f = f and mem = d, OF _ l _ w], erule f) (simp add: refreshed_latest [OF Inr])
      then show ?thesis using refreshed_latest(2) [OF Inr] by simp
    next
      case False
      then have "t = ?s" using m run by (auto simp: mutate_locked_def aguard_def Let_def)
      then show ?thesis using refreshed_latest(2) [OF Inr] by simp
    qed
  qed
qed

lemma follows_mutate:
  assumes "\<And>d s r c t. f d s = (Inr (r, c), t) \<Longrightarrow> steps_of E (control_of d) (control_of c)"
    and "\<And>d. leaves repo_part (f d)"
  shows "follows e E (mutate (repo_env e) f ex)"
  unfolding mutate_def
  by (intro follows_rules follows_file_guard follows_available follows_mutate_locked assms)

lemma follows_update:
  assumes "\<And>d s c t. f d s = (Inr c, t) \<Longrightarrow> steps_of E (control_of d) (control_of c)"
    and "\<And>d. leaves repo_part (f d)"
  shows "follows e E (update_doc e f ex)"
  unfolding update_doc_def
  by (intro follows_rules follows_mutate leaves_rules assms(2)) (auto simp: abind_Inr_iff dest: assms(1))

end
