(* ===== verification/Control_Refinement.thy ===== *)
theory Control_Refinement
  imports Control_Machine
begin

text \<open>
  Every write of the orchestrator is a step of the abstract machine, and every public operation,
  whatever it returns and wherever it fails, moves the control state only by the events of its kind.
\<close>

section \<open>The writers\<close>

lemma control_puts [simp]:
  "control_of (put_raw_intent d i raw) = control_of d" "control_of (put_unknown d i why) = control_of d"
  "control_of (drop_unknown d i) = control_of d" "control_of (set_intent_field d i f v) = control_of d"
  "control_of (append_to d ''audit'' x) = control_of d" "control_of (append_to d ''terminal_archive'' x) = control_of d"
  "control_of (persist_intent_doc p d) = control_of d" "control_of (with_receipt c r d) = control_of d"
  by (simp_all add: put_raw_intent_def put_unknown_def drop_unknown_def set_intent_field_def append_to_def
      persist_intent_doc_def with_receipt_def set_in_def Let_def control_dset control_sections_def)

lemma control_transition:
  assumes "apply_intent_result_transition e i name b d s = (Inr c, t)"
  shows "control_of c = control_of d"
  using assms
  by (auto simp: apply_intent_result_transition_def Let_def abind_Inr_iff split: if_splits)

lemma control_cancelled_target [simp]: "control_of (cancelled_target_doc i t d) = control_of d"
  by (simp add: cancelled_target_doc_def Let_def)

lemma control_fields:
  "ct_lifecycle (control_of d) = the_str (fld d ''lifecycle'')"
  "ct_authority (control_of d) = the_str (fld (fld d ''authority'') ''state'')"
  "ct_plan (control_of d) = the_str (fld (fld d ''plan'') ''state'')"
  "ct_reconciliation (control_of d) = the_str (fld (fld d ''reconciliation'') ''state'')"
  by (simp_all add: control_of_def)

lemma the_str_JStr [simp]: "the_str (JStr s) = s"
  by (simp add: the_str_def)

lemma str_sat_the_str: "(\<forall>s \<in> A. s \<noteq> []) \<Longrightarrow> str_sat (\<lambda>l. l \<in> A) v \<longleftrightarrow> the_str v \<in> A"
  by (cases v) (auto simp: str_sat_def the_str_def)

lemma control_eqI:
  "ct_lifecycle c = ct_lifecycle d \<Longrightarrow> ct_authority c = ct_authority d \<Longrightarrow> ct_plan c = ct_plan d \<Longrightarrow>
    ct_reconciliation c = ct_reconciliation d \<Longrightarrow> c = (d :: control)"
  by simp

lemma step_unknown:
  assumes "mark_unknown_intent_doc i why d = Inr c"
  shows "control_step OutcomeUnknown (control_of d) (control_of c)"
proof -
  have "control_of c = (control_of d)\<lparr>ct_reconciliation := ''UNKNOWN'', ct_lifecycle := ''HALTED_UNKNOWN_OUTCOME''\<rparr>"
    using assms by (auto simp: mark_unknown_intent_doc_def Let_def control_dset doc_simps split: if_splits)
  then show ?thesis by (simp add: outcome_unknown)
qed

lemma control_set_in:
  "control_of (set_in d ''reconciliation'' f v)
    = (if f = ''state'' then (control_of d)\<lparr>ct_reconciliation := the_str v\<rparr> else control_of d)"
  "control_of (set_in d ''authority'' f v)
    = (if f = ''state'' then (control_of d)\<lparr>ct_authority := the_str v\<rparr> else control_of d)"
  by (simp_all add: set_in_def control_of_def doc_simps)

lemma the_str_eq: "s \<noteq> [] \<Longrightarrow> v = JStr s \<longleftrightarrow> the_str v = s"
  by (cases v) (auto simp: the_str_def)

lemma lifecycle_read: "s \<noteq> [] \<Longrightarrow> fld d ''lifecycle'' = JStr s \<longleftrightarrow> ct_lifecycle (control_of d) = s"
  by (simp add: the_str_eq control_fields)

lemma step_closed: "steps_of {OutcomeClosed} (control_of d) (control_of (close_unknown_doc i d))"
proof -
  define d2 where "d2 = (if is_obj (fld (fld (drop_unknown d i) ''send_intents'') i)
    then set_intent_field (drop_unknown d i) i ''state'' (JStr ''RECONCILED'') else drop_unknown d i)"
  have d2: "control_of d2 = control_of d" by (simp add: d2_def)
  show ?thesis
    unfolding close_unknown_doc_def Let_def d2_def [symmetric]
    by (auto simp: lifecycle_read control_set_in control_dset d2
        intro!: one_step [where ev = OutcomeClosed] control_step.outcome_closed [THEN back_subst [where P = "control_step OutcomeClosed (control_of d)"]])
qed

lemma step_halted:
  "control_of (reconcile_required_doc d)
    = (control_of d)\<lparr>ct_reconciliation := ''REQUIRED'', ct_lifecycle := ''HALTED_RECONCILE_REQUIRED''\<rparr>"
  "control_of (halted_by_operator_doc why t d)
    = (control_of d)\<lparr>ct_reconciliation := ''REQUIRED'', ct_lifecycle := ''HALTED_RECONCILE_REQUIRED''\<rparr>"
  "control_of (mismatch_doc t d)
    = (control_of d)\<lparr>ct_reconciliation := ''REQUIRED'', ct_lifecycle := ''HALTED_RECONCILE_REQUIRED''\<rparr>"
  by (simp_all add: reconcile_required_doc_def halted_by_operator_doc_def mismatch_doc_def Let_def control_dset
      control_set_in doc_simps)

lemma step_force_revoked: "control_step ForceRevoked (control_of d) (control_of (force_revoked_doc d))"
proof -
  let ?l = "if fld d ''lifecycle'' \<noteq> JStr ''HALTED_RECONCILE_REQUIRED'' then ''HALTED_UNKNOWN_OUTCOME'' else ''HALTED_RECONCILE_REQUIRED''"
  have "control_of (force_revoked_doc d) = (control_of d)\<lparr>ct_authority := ''REVOKED'', ct_lifecycle := ?l\<rparr>"
    by (auto simp: force_revoked_doc_def Let_def control_dset control_set_in set_in_def doc_simps control_fields
        intro!: control_eqI)
  then show ?thesis by (auto intro: force_revoked)
qed

lemma step_emergency:
  assumes "emergency_writer e why d s = (Inr c, t)"
  shows "control_step EmergencyStopped (control_of d) (control_of c)"
proof -
  let ?l = "the_str (fld c ''lifecycle'')"
  have "control_of c = (control_of d)\<lparr>ct_authority := ''REVOKED'', ct_plan := ''TERMINAL'', ct_lifecycle := ?l\<rparr>
      \<and> ?l \<in> {''READY'', ''HALTED_UNKNOWN_OUTCOME''}"
    using assms
    by (auto simp: emergency_writer_def emergency_plan_doc_def emergency_lifecycle_doc_def Let_def abind_Inr_iff
        control_dset control_set_in control_fields set_in_def append_to_def doc_simps control_sections_def
        intro!: control_eqI split: if_splits)
  then show ?thesis using emergency_stopped [of ?l "control_of d"] by simp
qed

lemma step_bootstrap: "control_step Restarted (control_of d) (control_of (bootstrap_doc d))"
proof -
  have "control_of (restart_intent x d) = control_of d" for x d
    by (auto simp: restart_intent_def split: prod.splits)
  then have f: "control_of (fold restart_intent xs d) = control_of d" for xs d
    by (induction xs arbitrary: d) simp_all
  show ?thesis
    using restarted [of "''HALTED_RECONCILE_REQUIRED''" "''REQUIRED''" "control_of d"]
      restarted [of "''HALTED_UNKNOWN_OUTCOME''" "''UNKNOWN''" "control_of d"]
    by (simp add: bootstrap_doc_def Let_def control_dset doc_simps f)
qed

section \<open>Commands\<close>

definition command_event :: "string \<Rightarrow> event set" where
  "command_event name =
     (if name = ''preview'' then {Previewed} else if name = ''enable'' then {Enabled}
      else if name = ''revoke'' then {Revoked} else if name = ''start'' then {Started}
      else if name = ''stop'' then {Stopped} else if name = ''drain'' then {Drained} else {})"

lemma start_guards:
  assumes "require_authority e d None s = (Inr u, t)" "start_allowed d = Inr v"
  shows "ct_authority (control_of d) = ''ENABLED''" "ct_lifecycle (control_of d) \<notin> set START_BLOCKED"
    "ct_reconciliation (control_of d) = ''RECONCILED''"
proof -
  have "fld (get_or d ''authority'' (JObj [])) ''state'' = JStr ''ENABLED''"
    using assms(1) by (auto simp: require_authority_def authority_expiry_def Let_def abind_Inr_iff raise_def split: if_splits)
  then show "ct_authority (control_of d) = ''ENABLED''"
    by (auto simp: control_fields fld_def get_or_def dget_def split: option.splits)
  show "ct_lifecycle (control_of d) \<notin> set START_BLOCKED" "ct_reconciliation (control_of d) = ''RECONCILED''"
    using assms(2) str_sat_the_str [of "set START_BLOCKED" "fld d ''lifecycle''"]
    by (simp_all add: start_allowed_def control_fields START_BLOCKED_def)
qed

lemma step_start:
  assumes "apply_start e payload ev d s = (Inr (r, c), t)"
  shows "control_step Started (control_of d) (control_of c)"
proof -
  obtain u v where g: "require_authority e d None s = (Inr u, v)" "start_allowed d = Inr ()"
    and c: "control_of c = (control_of d)\<lparr>ct_plan := ''ACTIVE'', ct_lifecycle := ''READY''\<rparr>"
    using assms by (auto simp: apply_start_def Let_def abind_Inr_iff control_dset next_plan_def read_JObj)
  show ?thesis unfolding c by (rule started [OF start_guards [OF g]])
qed

lemma abindE:
  assumes "abind m f s = (Inr y, t)" "\<And>x u. m s = (Inr x, u) \<Longrightarrow> f x u = (Inr y, t) \<Longrightarrow> P"
  shows P
  using assms by (auto simp: abind_Inr_iff)

lemma step_stop:
  assumes "apply_stop e d s = (Inr (r, c), t)"
  shows "control_step Stopped (control_of d) (control_of c)"
proof -
  define d1 where "d1 = dset d ''plan'' (stopped_plan (fld d ''plan''))"
  have d1: "control_of d1 = (control_of d)\<lparr>ct_plan := ''TERMINAL''\<rparr>"
    by (simp add: d1_def control_dset stopped_plan_def next_plan_def read_JObj)
  let ?halts = "{''HALTED_UNKNOWN_OUTCOME'', ''HALTED_RECONCILE_REQUIRED''}"
  from assms show ?thesis
    unfolding apply_stop_def Let_def d1_def [symmetric]
  proof (rule abindE)
    fix d2 s2
    assume m: "(if str_or (fld d ''plan'') ''state'' ''IDLE'' \<noteq> ''TERMINAL''
        then abind (stamp e) (\<lambda>t. aret (append_to d1 ''terminal_archive'' (plan_archive_entry (fld d ''plan'') t)))
        else aret d1) s = (Inr d2, s2)"
      and rest: "aret (accepted_with ''plan'' (stopped_plan (fld d ''plan'')),
        if \<not> str_sat (\<lambda>l. l \<in> ?halts) (fld d2 ''lifecycle'') then dset d2 ''lifecycle'' (JStr ''READY'') else d2) s2
        = (Inr (r, c), t)"
    have d2: "control_of d2 = control_of d1" using m by (auto simp: abind_Inr_iff split: if_splits)
    have c: "c = (if \<not> str_sat (\<lambda>l. l \<in> ?halts) (fld d2 ''lifecycle'') then dset d2 ''lifecycle'' (JStr ''READY'') else d2)"
      using rest by simp
    have "str_sat (\<lambda>l. l \<in> ?halts) (fld d2 ''lifecycle'') \<longleftrightarrow> ct_lifecycle (control_of d) \<in> ?halts"
      using d2 d1 by (subst str_sat_the_str) (simp_all add: control_fields [symmetric])
    then have "control_of c = (control_of d)\<lparr>ct_plan := ''TERMINAL'', ct_lifecycle :=
        (if ct_lifecycle (control_of d) \<in> ?halts then ct_lifecycle (control_of d) else ''READY'')\<rparr>"
      using d2 d1 unfolding c by (cases "ct_lifecycle (control_of d) \<in> ?halts") (simp_all add: control_dset)
    then show ?thesis by (simp only: stopped)
  qed
qed

lemma step_enable:
  assumes "apply_enable e payload d s = (Inr (r, c), t)"
  shows "control_step Enabled (control_of d) (control_of c)"
proof -
  define v where "v = authority_as_dict \<lparr>as_state = ''ENABLED'',
    as_artifact_id = the_str (fld payload ''authority_artifact_id''),
    as_artifact_hash = the_str (fld payload ''authority_hash''), as_expires_at = the_str (fld payload ''expires_at'')\<rparr>"
  have v: "fld v ''state'' = JStr ''ENABLED''" by (simp add: v_def authority_as_dict_def read_JObj)
  have c: "c = (if fld (dset d ''authority'' v) ''lifecycle'' = JStr ''STARTING''
      then dset (dset d ''authority'' v) ''lifecycle'' (JStr ''HALTED_RECONCILE_REQUIRED'') else dset d ''authority'' v)"
    using assms unfolding apply_enable_def Let_def v_def [symmetric] by (elim abindE) simp
  let ?l = "if ct_lifecycle (control_of d) = ''STARTING'' then ''HALTED_RECONCILE_REQUIRED'' else ct_lifecycle (control_of d)"
  have "control_of c = (control_of d)\<lparr>ct_authority := ''ENABLED'', ct_lifecycle := ?l\<rparr>"
    by (cases "ct_lifecycle (control_of d) = ''STARTING''")
      (simp_all add: c Let_def control_dset lifecycle_read v)
  then show ?thesis by (simp only: enabled)
qed

lemma step_command:
  assumes "apply_command e c pe se d s = (Inr (r, d'), t)"
  shows "steps_of (command_event (env_command c)) (control_of d) (control_of d')"
proof -
  have p: "control_step Previewed (control_of d) (control_of x)" if "apply_preview payload ev d = (y, x)" for payload ev x y
    using that by (auto simp: apply_preview_def Let_def control_dset plan_as_dict_def previewed_plan_def read_JObj
        intro: previewed)
  have v: "control_step Revoked (control_of d) (control_of x)" if "apply_revoke d = (y, x)" for x y
    using that by (auto simp: apply_revoke_def Let_def control_dset read_JObj intro: revoked)
  have w: "control_step Drained (control_of d) (control_of x)" if "apply_drain payload d = (y, x)" for payload x y
    using that by (auto simp: apply_drain_def control_dset intro: drained)
  show ?thesis
    using assms unfolding apply_command_def Let_def
    by (auto simp: abind_Inr_iff command_event_def split: if_splits
        dest!: p v w step_enable step_start step_stop intro: one_step)
qed

lemma step_command_writer:
  assumes "command_writer e c pe se h d s = (Inr (r, d'), t)"
  shows "steps_of (command_event (env_command c)) (control_of d) (control_of d')"
proof -
  let ?m = "acatch (abind (apply_command e c pe se d) (\<lambda>(result, state). aret (''COMPLETED'', result, state)))
      (\<lambda>x. if is_a x MutationRejected then aret (''REJECTED'', rejection_result x, d) else athrow x)"
  obtain st result x u receipt where m: "?m s = (Inr (st, result, x), u)" and d': "d' = with_receipt c receipt x"
    using assms by (auto simp: command_writer_def abind_Inr_iff)
  have "x = d \<or> (\<exists>r t. apply_command e c pe se d s = (Inr (r, x), t))"
    using m by (auto simp: acatch_def abind_def split: prod.splits sum.splits if_splits)
  then show ?thesis using step_command unfolding d' by fastforce
qed

section \<open>Reconciliation\<close>

lemma control_settle:
  "settle_intent e ids modes x d s = (Inr c, t) \<Longrightarrow> control_of c = control_of d"
  "settle_intents e ids modes xs d s = (Inr c, t) \<Longrightarrow> control_of c = control_of d"
proof -
  have one: "control_of c = control_of d" if "settle_intent e ids modes x d s = (Inr c, t)" for x c d s t
    using that
    by (auto simp: settle_intent_def settle_rollover_def settle_submitted_def mark_still_unknown_def Let_def abind_Inr_iff
        split: prod.splits if_splits dest: control_transition)
  show "settle_intent e ids modes x d s = (Inr c, t) \<Longrightarrow> control_of c = control_of d" by (rule one)
  show "settle_intents e ids modes xs d s = (Inr c, t) \<Longrightarrow> control_of c = control_of d"
    by (induction xs arbitrary: d s) (auto simp: abind_Inr_iff dest: one)
qed

lemma control_snapshot:
  "apply_remote_fence_high_water_floor e sn d s = (Inr c, t) \<Longrightarrow> control_of c = control_of d"
  "apply_snapshot sn run d = Inr c \<Longrightarrow> control_of c = control_of d"
proof -
  show "apply_remote_fence_high_water_floor e sn d s = (Inr c, t) \<Longrightarrow> control_of c = control_of d"
    by (auto simp: apply_remote_fence_high_water_floor_def abind_Inr_iff control_dset control_sections_def
        split: option.splits)
  show "apply_snapshot sn run d = Inr c \<Longrightarrow> control_of c = control_of d"
    by (auto simp: apply_snapshot_def rbind_Inr_iff Let_def control_dset control_sections_def control_fields doc_simps
        intro!: control_eqI)
qed

definition reconcile_events :: "event set" where
  "reconcile_events = {Reconciled, LeftUnknown, Completed, Halted}"

lemma reconcile_event [simp]:
  "Reconciled \<in> reconcile_events" "LeftUnknown \<in> reconcile_events" "Completed \<in> reconcile_events" "Halted \<in> reconcile_events"
  by (simp_all add: reconcile_events_def)

lemma step_reconciled:
  assumes "reconciled_doc e c d s = (Inr d', t)"
  shows "dlen (fld d ''unknown_outcomes'') = 0 \<Longrightarrow> control_of d'
      = (control_of d)\<lparr>ct_reconciliation := ''RECONCILED'', ct_lifecycle := ''READY''\<rparr>"
    "dlen (fld d ''unknown_outcomes'') \<noteq> 0 \<Longrightarrow> control_of d'
      = (control_of d)\<lparr>ct_reconciliation := ''UNKNOWN'', ct_lifecycle := ''HALTED_UNKNOWN_OUTCOME''\<rparr>"
    "fld d' ''unknown_outcomes'' = fld d ''unknown_outcomes''"
  using assms
  by (auto simp: reconciled_doc_def Let_def abind_Inr_iff control_dset doc_simps split: if_splits)

lemma step_finalization:
  assumes "apply_finalization_evidence e ev d s = (Inr (r, d'), t)"
    and "ct_reconciliation (control_of d) = ''RECONCILED''" "ct_lifecycle (control_of d) = ''READY''"
  shows "steps_of reconcile_events (control_of d) (control_of d')"
proof -
  have b: "finalization_binds d ev"
    using assms(1) by (auto simp: apply_finalization_evidence_def Let_def split: if_splits)
  then have guards: "ct_plan (control_of d) = ''ACTIVE''" "ct_authority (control_of d) = ''ENABLED''"
    by (simp_all add: finalization_binds_def Let_def control_fields)
  have "control_of (completed_doc d ev h y) = (control_of d)\<lparr>ct_plan := ''TERMINAL'', ct_authority := ''REVOKED''\<rparr>" for h y
    using assms(3) by (simp add: completed_doc_def Let_def control_dset completed_plan_def read_JObj)
  then have "steps_of reconcile_events (control_of d) (control_of (completed_doc d ev h y))" for h y
    using one_step [OF _ completed [OF guards assms(2,3)], of reconcile_events] by simp
  moreover have "steps_of reconcile_events (control_of d) (control_of (mismatch_doc y d))" for y
    using one_step [OF _ halted, of reconcile_events] by (simp add: step_halted)
  moreover have "d' = d \<or> (\<exists>y. d' = mismatch_doc y d) \<or> (\<exists>h y. d' = completed_doc d ev h y)"
    using assms(1) by (auto simp: apply_finalization_evidence_def Let_def abind_Inr_iff split: if_splits)
  ultimately show ?thesis by auto
qed

lemma step_reconcile_writer:
  assumes "reconcile_writer e c fin sn ids modes outcomes d s = (Inr (r, d'), t)"
  shows "steps_of reconcile_events (control_of d) (control_of d')"
proof -
  from assms obtain d1 d2 d3 d4 d5 s1 s2 s3 s4 s5 s6 res st receipt
    where 1: "apply_remote_fence_high_water_floor e sn d s1 = (Inr d1, s2)"
      and 2: "apply_snapshot sn (the_str (fld (env_payload c) ''reconciliation_run_id'')) d1 = Inr d2"
      and 3: "settle_intents e ids modes outcomes d2 s2 = (Inr d3, s3)"
      and 4: "reconciled_doc e c d3 s3 = (Inr d4, s4)"
      and 5: "reconcile_finish e fin (reconcile_result c ids d4) d4 s4 = (Inr (res, st, d5), s5)"
      and 6: "d' = with_receipt c receipt d5"
    unfolding reconcile_writer_def Let_def by (auto simp: abind_Inr_iff)
  have d3: "control_of d3 = control_of d"
    using control_snapshot(1) [OF 1] control_snapshot(2) [OF 2] control_settle(2) [OF 3] by simp
  note r = step_reconciled [OF 4]
  show ?thesis
  proof (cases "dlen (fld d3 ''unknown_outcomes'') = 0")
    case True
    have s: "steps_of reconcile_events (control_of d) (control_of d4)"
      using one_step [OF _ reconciled, of reconcile_events] r(1) [OF True] d3 by simp
    have "d5 = d4 \<or> (\<exists>ev y w. apply_finalization_evidence e ev d4 s4 = (Inr (y, d5), w))"
      using 5 by (auto simp: reconcile_finish_def Let_def abind_Inr_iff split: option.splits if_splits)
    then have "steps_of reconcile_events (control_of d4) (control_of d5)"
      using r(1) [OF True] by (auto dest!: step_finalization)
    with s show ?thesis unfolding 6 by (simp add: steps_trans)
  next
    case False
    have "d5 = d4" using 5 False r(3) by (auto simp: reconcile_finish_def Let_def split: option.splits)
    then show ?thesis
      using one_step [OF _ left_unknown, of reconcile_events] r(2) [OF False] d3 unfolding 6 by simp
  qed
qed

section \<open>Operations\<close>

definition order_events :: "event set" where
  "order_events = {OutcomeUnknown}"

lemma follows_halt [follows_rules]: "follows e E halt_locally"
  by (rule follows_leaves, rule leaves_halt_locally)

lemma follows_clock [follows_rules]:
  "follows e E (utc_now e)" "follows e E (clock_reading e now)" "follows e E (stamp e)"
  by (rule follows_leaves, intro leaves_rules tick_blind_repo_part)+

lemma follows_gateway [follows_rules]: "follows e E (call_gateway e f)"
  by (rule follows_leaves, intro leaves_rules)

lemma follows_tick: "follows e E next_tick"
  by (rule follows_leaves, intro leaves_rules tick_blind_repo_part)

lemma follows_unknown: "OutcomeUnknown \<in> E \<Longrightarrow> follows e E (mark_unknown e i why)"
  unfolding mark_unknown_def
  by (intro follows_rules follows_update leaves_rules) (auto dest: step_unknown intro: one_step)

lemma follows_result: "OutcomeUnknown \<in> E \<Longrightarrow> follows e E (mark_intent_result e i result)"
  unfolding mark_intent_result_def
  by (intro follows_rules follows_update follows_unknown leaves_rules tick_blind_repo_part) (simp_all add: control_transition)

lemma follows_cancelled: "follows e E (mark_cancelled_target e i)"
  unfolding mark_cancelled_target_def
  by (rule follows_update) (auto simp: Let_def abind_Inr_iff intro!: leaves_rules split: if_splits)

lemma follows_lease_clock [follows_rules]: "follows e E (lease_clock e now)"
  by (rule follows_leaves, intro leaves_rules fence_blind_repo_part)

lemma follows_fence [follows_rules]:
  "follows e E (order_fence e a now)" "follows e E (candidate_fence e a now d)"
  "follows e E (require_authority e d k)" "follows e E (mutation_preflight e action a b now d)"
proof -
  show o: "follows e E (order_fence e a now)"
    unfolding order_fence_def admission_def planned_dispatch_admission_def validate_token_def own_token_def
    by (auto intro!: follows_rules split: option.splits)
  show c: "follows e E (candidate_fence e a now d)"
    by (rule follows_leaves, intro leaves_rules fence_blind_repo_part)
  show r: "follows e E (require_authority e d k)" for k
    by (rule follows_leaves, intro leaves_rules tick_blind_repo_part)
  show "follows e E (mutation_preflight e action a b now d)"
    unfolding mutation_preflight_def Let_def by (intro follows_rules o c r)
qed

lemma follows_order_steps:
  "follows e E (prepare_order e action request key a)" "follows e E (persist_intent e action a b p)"
  "OutcomeUnknown \<in> E \<Longrightarrow> follows e E (dispatch_order e action a p)"
proof -
  have i: "follows e E (prepare_intent e action a rq now d)" for rq now d
    unfolding prepare_intent_def intent_name_def Let_def by (intro follows_rules follows_tick)
  show "follows e E (prepare_order e action request key a)"
    unfolding prepare_order_def Let_def by (intro follows_rules i)
  show "follows e E (persist_intent e action a b p)"
    unfolding persist_intent_def
    by (intro follows_rules follows_update leaves_rules fence_blind_repo_part) (auto simp: abind_Inr_iff)
  show "OutcomeUnknown \<in> E \<Longrightarrow> follows e E (dispatch_order e action a p)"
    unfolding dispatch_order_def call_broker_def recheck_fence_def Let_def
    by (intro follows_rules follows_unknown follows_result follows_cancelled)
qed

lemma follows_order:
  assumes "OutcomeUnknown \<in> E"
  shows "follows e E (mutate_order e action request key a)"
proof -
  have "follows e E (mutate_order_within n e action request key a)" for n
    by (induction n arbitrary: a) (auto intro!: follows_rules follows_order_steps assms)
  then show ?thesis by (simp add: mutate_order_def)
qed

lemma follows_orders:
  assumes "OutcomeUnknown \<in> E"
  shows "follows e E (send_order e request key a)" "follows e E (submit_planned_order e request key a)"
    "follows e E (cancel_order e i request key a)" "follows e E (cancel_planned_intent e i key a)"
proof -
  show "follows e E (send_order e request key a)" "follows e E (submit_planned_order e request key a)"
    unfolding send_order_def submit_planned_order_def by (intro follows_order assms)+
  show c: "follows e E (cancel_order e i request key a)" for request a
    unfolding cancel_order_def Let_def by (intro follows_rules follows_order assms)
  show "follows e E (cancel_planned_intent e i key a)"
    unfolding cancel_planned_intent_def by (rule c)
qed

lemma follows_query:
  assumes "{OutcomeUnknown, OutcomeClosed} \<subseteq> E"
  shows "follows e E (query_intent e i)"
proof -
  have u: "OutcomeUnknown \<in> E" using assms by simp
  have "steps_of E (control_of d) (control_of (close_unknown_doc i d))" for i d
    by (rule steps_mono [OF step_closed]) (use assms in auto)
  then have "follows e E (close_unknown_if_resolved e i)" for i
    unfolding close_unknown_if_resolved_def by (intro follows_update leaves_rules) auto
  then show ?thesis
    unfolding query_intent_def Let_def by (intro follows_rules follows_result u)
qed

lemma follows_halting:
  assumes "Halted \<in> E"
  shows "follows e E (mark_reconcile_halted e why)" "follows e E (mark_cancel_failure e i why)"
    "follows e E (fail_closed_halt e why)"
    "follows e E m \<Longrightarrow> follows e E (halting_on_rejection e (\<lambda>x. f x) m)"
proof -
  have h: "steps_of E c (c\<lparr>ct_reconciliation := ''REQUIRED'', ct_lifecycle := ''HALTED_RECONCILE_REQUIRED''\<rparr>)" for c
    by (rule one_step [OF assms halted])
  show m: "follows e E (mark_reconcile_halted e why)" for why
    unfolding mark_reconcile_halted_def or_halt_locally_def
    by (intro follows_rules follows_update leaves_rules tick_blind_repo_part) (auto simp: abind_Inr_iff step_halted h)
  show "follows e E (mark_cancel_failure e i why)"
    unfolding mark_cancel_failure_def or_halt_locally_def
    by (intro follows_rules follows_update leaves_rules tick_blind_repo_part) (auto simp: abind_Inr_iff step_halted h)
  show "follows e E (fail_closed_halt e why)"
    unfolding fail_closed_halt_def status_def
    by (intro follows_rules follows_update leaves_rules tick_blind_repo_part) (auto simp: abind_Inr_iff step_halted h)
  show "follows e E m \<Longrightarrow> follows e E (halting_on_rejection e (\<lambda>x. f x) m)"
    unfolding halting_on_rejection_def by (intro follows_rules m)
qed

lemma follows_force_revoke: "ForceRevoked \<in> E \<Longrightarrow> follows e E (force_revoke_after_cancel_failure e)"
  unfolding force_revoke_after_cancel_failure_def or_halt_locally_def
  by (intro follows_rules follows_update leaves_rules) (auto intro: one_step [OF _ step_force_revoked])

lemma follows_snapshot_steps [follows_rules]:
  "follows e E (coerce_snapshot e v)" "follows e E (validate_reconcile_snapshot e d sn b)"
  by (rule follows_leaves, intro leaves_rules tick_blind_repo_part)+

lemma follows_after_cancel: "follows e E (reconcile_after_cancel e)"
  unfolding reconcile_after_cancel_def Let_def
  by (intro follows_rules follows_update leaves_rules) (auto dest: control_snapshot(2))

lemma follows_sweep:
  assumes "OutcomeUnknown \<in> E" "Halted \<in> E"
  shows "follows e E (prepare_control_cancellation e b)"
  unfolding prepare_control_cancellation_def cancel_active_def cancel_one_def Let_def
  by (intro follows_rules follows_orders follows_halting follows_after_cancel assms)

lemma follows_emergency:
  assumes "{OutcomeUnknown, Halted, ForceRevoked, EmergencyStopped} \<subseteq> E"
  shows "follows e E (emergency_stop e why)"
proof -
  have "follows e E (update_doc e (emergency_writer e why) None)"
    by (intro follows_update leaves_rules tick_blind_repo_part) (use assms in \<open>auto dest: step_emergency intro: one_step\<close>)
  then show ?thesis
    unfolding emergency_stop_def status_def by (intro follows_rules follows_sweep follows_force_revoke) (use assms in auto)
qed

lemma follows_reconcile:
  assumes "reconcile_events \<subseteq> E"
  shows "follows e E (reconcile_command e c fin ro)"
proof -
  have h: "Halted \<in> E" using assms by (auto simp: reconcile_events_def)
  have s: "follows e E (reconcile_snapshot e)" "follows e E (query_outcomes e d)" for d
    unfolding reconcile_snapshot_def query_outcomes_def query_outcome_def Let_def by (intro follows_rules)+
  have n: "follows e E (snapshot_named e d sn c)" for d sn
    unfolding snapshot_named_def by (intro follows_rules follows_halting h)
  have w: "follows e E (mutate (repo_env e) (reconcile_writer e c fin sn ids modes outcomes) ex)" for sn ids modes outcomes ex
    by (intro follows_mutate leaves_rules tick_blind_repo_part) (rule steps_mono [OF step_reconcile_writer assms])
  show ?thesis
    unfolding reconcile_command_def Let_def by (intro follows_rules follows_halting h s n w)
qed

definition command_events :: "string \<Rightarrow> event set" where
  "command_events name =
     (if name = ''reconcile'' then reconcile_events else command_event name)
     \<union> (if name \<in> {''stop'', ''revoke'', ''drain''} then {OutcomeUnknown, Halted} else {})
     \<union> (if name = ''revoke'' then {ForceRevoked} else {})"

lemma follows_envelope:
  assumes "command_events (env_command c) \<subseteq> E"
  shows "follows e E (process_envelope e c pe se fin ro)"
proof -
  have w: "follows e E (write_command e c pe se h v)" if "command_event (env_command c) \<subseteq> E" for h v
    unfolding write_command_def
    by (intro follows_rules follows_mutate leaves_rules tick_blind_repo_part)
      (rule steps_mono [OF step_command_writer that])
  have r: "follows e E (reconcile_command e c fin ro)" if "env_command c = ''reconcile''"
    by (rule follows_reconcile) (use that assms in \<open>simp add: command_events_def\<close>)
  have c: "command_event (env_command c) \<subseteq> E" if "env_command c \<noteq> ''reconcile''"
    using that assms by (simp add: command_events_def)
  have f: "follows e E (aif (env_command c = ''revoke'') (force_revoke_after_cancel_failure e))"
    using assms by (cases "env_command c = ''revoke''")
      (simp_all add: aif_def follows_force_revoke follows_simple command_events_def)
  have s: "follows e E (swept_command e (env_command c))" if "env_command c \<in> {''stop'', ''revoke'', ''drain''}"
    unfolding swept_command_def using that assms
    by (intro follows_catch follows_bind follows_simple follows_sweep f) (simp_all add: command_events_def)
  show ?thesis
    unfolding process_envelope_def Let_def by (intro follows_rules r s w c)
qed

text \<open>One call of the orchestrator, and what it may do to the control state.\<close>

datatype call = Process command_arg evidence
  | Send json string order_args | SubmitPlanned json string order_args
  | Cancel string json string order_args | CancelPlanned string string order_args
  | Query string | EmergencyStop string | FailClosedHalt string
  | Acquire string "int option" | Renew token_arg "int option" | Release token_arg "int option"
  | LeaderStatus | Status "int option" | GetReceipt string string

primrec run_call :: "'g oenv \<Rightarrow> call \<Rightarrow> ('g, json) wop" where
  "run_call e (Process c ev) = process_command e c ev"
| "run_call e (Send request key a) = send_order e request key a"
| "run_call e (SubmitPlanned request key a) = submit_planned_order e request key a"
| "run_call e (Cancel i request key a) = cancel_order e i request key a"
| "run_call e (CancelPlanned i key a) = cancel_planned_intent e i key a"
| "run_call e (Query i) = query_intent e i"
| "run_call e (EmergencyStop why) = emergency_stop e why"
| "run_call e (FailClosedHalt why) = fail_closed_halt e why"
| "run_call e (Acquire owner now) = leader_acquire e owner now"
| "run_call e (Renew token now) = leader_renew e token now"
| "run_call e (Release token now) = leader_release e token now"
| "run_call e LeaderStatus = leader_status e"
| "run_call e (Status now) = status e now"
| "run_call e (GetReceipt key service) =
     abind (get_command_receipt e key service) (\<lambda>r. aret (case r of None \<Rightarrow> JNull | Some x \<Rightarrow> x))"

definition command_of :: "command_arg \<Rightarrow> string" where
  "command_of arg = (case (case arg of Envelope c \<Rightarrow> Inr c | Mapping m \<Rightarrow> envelope_from_mapping m) of
     Inl _ \<Rightarrow> [] | Inr c \<Rightarrow> env_command c)"

primrec call_events :: "call \<Rightarrow> event set" where
  "call_events (Process c ev) = command_events (command_of c)"
| "call_events (Send request key a) = {OutcomeUnknown}"
| "call_events (SubmitPlanned request key a) = {OutcomeUnknown}"
| "call_events (Cancel i request key a) = {OutcomeUnknown}"
| "call_events (CancelPlanned i key a) = {OutcomeUnknown}"
| "call_events (Query i) = {OutcomeUnknown, OutcomeClosed}"
| "call_events (EmergencyStop why) = {OutcomeUnknown, Halted, ForceRevoked, EmergencyStopped}"
| "call_events (FailClosedHalt why) = {Halted}"
| "call_events (Acquire owner now) = {}"
| "call_events (Renew token now) = {}"
| "call_events (Release token now) = {}"
| "call_events LeaderStatus = {}"
| "call_events (Status now) = {}"
| "call_events (GetReceipt key service) = {}"

lemma follows_lease:
  "follows e E (leader_acquire e owner now)" "follows e E (leader_renew e token now)"
  "follows e E (leader_release e token now)" "follows e E (leader_status e)"
proof -
  have own: "follows e E (own_token e token)" for token
    unfolding own_token_def by (intro follows_rules)
  have tok: "follows e E (amod (\<lambda>s. s\<lparr>f_token := x\<rparr>))"
    "follows e E (amod (\<lambda>s. if f_token s = y then s\<lparr>f_token := x\<rparr> else s))" for x y
    by (rule followsI; auto simp: latest_def)+
  have a: "acquire_writer scope owner now tx i d = Inr (r, c) \<Longrightarrow> control_of c = control_of d" for scope owner now tx i d r c
    by (auto simp: acquire_writer_def Let_def rbind_Inr_iff raise_def control_dset control_sections_def split: if_splits)
  have r: "renew_writer scope x now tx d = Inr (r, c) \<Longrightarrow> control_of c = control_of d" for scope x now tx d r c
    by (auto simp: renew_writer_def rbind_Inr_iff set_in_def control_dset control_sections_def)
  have l: "release_writer scope x now d = Inr (r, c) \<Longrightarrow> control_of c = control_of d" for scope x now d r c
    by (auto simp: release_writer_def rbind_Inr_iff set_in_def control_dset control_sections_def)
  show "follows e E (leader_acquire e owner now)"
    unfolding leader_acquire_def acquire_def Let_def
    by (intro follows_rules follows_tick follows_mutate leaves_rules tok) (auto dest: a)
  show "follows e E (leader_renew e token now)"
    unfolding leader_renew_def renew_def Let_def
    by (intro follows_rules follows_mutate leaves_rules tok own) (auto dest: r)
  show "follows e E (leader_release e token now)"
    unfolding leader_release_def release_def Let_def
    by (intro follows_rules follows_mutate leaves_rules tok own) (auto dest: l)
  show "follows e E (leader_status e)"
    unfolding leader_status_def current_lease_def by (intro follows_rules)
qed

lemma follows_receipt: "follows e E (get_command_receipt e key service)"
  unfolding get_command_receipt_def get_receipt_def get_section_def Let_def by (intro follows_rules)

lemma follows_call:
  assumes "call_events c \<subseteq> E"
  shows "follows e E (run_call e c)"
  using assms
proof (cases c)
  case (Process arg ev)
  have "follows e E (process_command e arg ev)"
  proof (cases "case arg of Envelope c \<Rightarrow> Inr c | Mapping m \<Rightarrow> envelope_from_mapping m")
    case (Inl x)
    then show ?thesis unfolding process_command_def by (simp add: abind_def follows_def)
  next
    case (Inr env)
    then have "abind (alift (case arg of Envelope c \<Rightarrow> Inr c | Mapping m \<Rightarrow> envelope_from_mapping m)) f = f env"
      for f :: "envelope \<Rightarrow> ('a, json) wop" by (simp add: abind_def)
    moreover have "command_events (env_command env) \<subseteq> E" using assms Process Inr by (simp add: command_of_def)
    ultimately show ?thesis
      unfolding process_command_def by simp (intro follows_rules follows_envelope)
  qed
  then show ?thesis using Process by simp
qed (auto simp: status_def intro!: follows_orders follows_query follows_emergency follows_halting follows_lease
    follows_receipt follows_rules)

end
