(* ===== verification/Control_Properties.thy ===== *)
theory Control_Properties
  imports Control_Refinement Sample_World
begin

text \<open>
  What a whole session of calls can do: it follows the abstract machine, it activates no plan
  without a start command, and without one no order reaches the broker.
\<close>

section \<open>Sessions\<close>

text \<open>A client makes one call after another; an exception ends a call and not the session.\<close>

fun run_calls :: "'g oenv \<Rightarrow> call list \<Rightarrow> 'g world \<Rightarrow> 'g world" where
  "run_calls e [] s = s"
| "run_calls e (c # cs) s = run_calls e cs (snd (run_call e c s))"

text \<open>
  C4: every session of public calls of the orchestrator, whatever the calls return and wherever they
  fail, moves the control state of the durable document by steps of the abstract machine, and only by
  the events its calls are allowed; other processes on the file may make such steps in between.
\<close>

theorem session_refines_control_machine:
  assumes "others_follow e E" and "\<Union> (call_events ` set calls) \<subseteq> E"
  shows "steps_of E (latest e s) (latest e (run_calls e calls s))"
  using assms(2)
proof (induction calls arbitrary: s)
  case (Cons c cs)
  have "steps_of E (latest e s) (latest e (snd (run_call e c s)))"
    by (rule followsD [OF follows_call assms(1) surjective_pairing]) (use Cons.prems in auto)
  with Cons show ?case by (auto intro: steps_trans)
qed simp

lemma session_refines_control_machine_witness:
  "steps_of {Started} (latest sample_env (sample_world ready_sample))
    (latest sample_env (run_calls sample_env [Process (Envelope (sample_command ''start'' (JObj [])))
        \<lparr>evid_preview = None, evid_start = None, evid_finalization = None, evid_rollover = None\<rparr>, Status None]
      (sample_world ready_sample)))"
  by (rule session_refines_control_machine)
    (simp_all add: others_follow_def command_of_def sample_command_def command_events_def command_event_def)

section \<open>No plan is active without a start\<close>

lemma only_start_activates: "control_step ev c c' \<Longrightarrow> ev \<noteq> Started \<Longrightarrow> ct_plan c \<noteq> ''ACTIVE'' \<Longrightarrow> ct_plan c' \<noteq> ''ACTIVE''"
  by (erule control_stepE) simp_all

lemma idle_steps:
  assumes "steps_of (UNIV - {Started}) c c'" "ct_plan c \<noteq> ''ACTIVE''"
  shows "ct_plan c' \<noteq> ''ACTIVE''"
  using assms by (rule steps_keep) (auto dest: only_start_activates)

text \<open>A service that no one starts: the broker's count stays where it is.\<close>

definition unstarted :: "'g oenv \<Rightarrow> ('g \<Rightarrow> nat) \<Rightarrow> bool" where
  "unstarted e mutations \<longleftrightarrow> broker_boundary (oe_gateway e) mutations \<and> others_follow e (UNIV - {Started})"

definition idle :: "'g oenv \<Rightarrow> ('g \<Rightarrow> nat) \<Rightarrow> nat \<Rightarrow> 'g world \<Rightarrow> bool" where
  "idle e mutations n s \<longleftrightarrow> ct_plan (latest e s) \<noteq> ''ACTIVE'' \<and> mutations (w_gateway s) = n"

lemma keeps_idle:
  assumes "unstarted e mut" "follows e (UNIV - {Started}) m" "leaves (\<lambda>s. mut (w_gateway s)) m"
  shows "keeps (idle e mut n) m"
proof (rule tripleI)
  have k: "idle e mut n t" if "idle e mut n s" "m s = (r, t)" for s r t
    using that assms idle_steps [of "latest e s" "latest e t"] followsD [OF assms(2) _ that(2)] leavesD [OF assms(3) that(2)]
    by (simp add: idle_def unstarted_def)
  show "idle e mut n t" if "idle e mut n s" "m s = (Inr x, t)" for s x t by (rule k [OF that])
  show "idle e mut n t" if "idle e mut n s" "m s = (Inl x, t)" for s x t by (rule k [OF that])
qed

lemma current_latest:
  assumes "others_follow e E" "current_doc (repo_env e) s = Inr d"
  shows "steps_of E (latest e s) (control_of d)"
  using assms
  by (auto simp: current_doc_def refreshed_def latest_def seen_disk_def others_follow_def disk_doc_def rbind_Inr_iff
      validate_state_Inr_iff split: if_splits disk.splits)

text \<open>Without an active plan no intent is written, and so the broker is not called.\<close>

lemma idle_persist:
  assumes "others_follow e (UNIV - {Started})" "ct_plan (latest e s) \<noteq> ''ACTIVE''"
  shows "persist_intent e action a retry p s \<noteq> (Inr True, t)"
proof
  assume "persist_intent e action a retry p s = (Inr True, t)"
  from persist_intent_ok [OF this] obtain d where d: "current_doc (repo_env e) s = Inr d" "state_admits action a (pr_now p) d"
    by (auto simp: intent_written_def)
  have "ct_plan (control_of d) \<noteq> ''ACTIVE''" by (rule idle_steps [OF current_latest [OF assms(1) d(1)] assms(2)])
  moreover have "fld (get_or d ''plan'' (JObj [])) ''state'' = JStr ''ACTIVE''"
    using d(2) by (simp add: state_admits_def plan_matches_def Let_def)
  then have "ct_plan (control_of d) = ''ACTIVE''"
    by (auto simp: control_fields fld_def get_or_def dget_def split: option.splits)
  ultimately show False by simp
qed

lemma persist_once: "persist_intent e action a False p s \<noteq> (Inr False, t)"
  by (auto simp: persist_intent_def acatch_def abind_def split: prod.splits sum.splits)

lemma idle_first_steps:
  assumes o: "others_follow e (UNIV - {Started})" and i: "ct_plan (latest e s) \<noteq> ''ACTIVE''"
  shows "prepare_order e action request key a s = (q, t) \<Longrightarrow> w_gateway t = w_gateway s \<and> ct_plan (latest e t) \<noteq> ''ACTIVE''"
    and "persist_intent e action a retry p s = (b, t) \<Longrightarrow>
      w_gateway t = w_gateway s \<and> ct_plan (latest e t) \<noteq> ''ACTIVE'' \<and> b \<noteq> Inr True"
  using idle_steps [OF followsD [OF follows_order_steps(1) o] i] idle_steps [OF followsD [OF follows_order_steps(2) o] i]
    idle_persist [OF o i] leavesD [OF leaves_prepare_order, of w_gateway] leavesD [OF leaves_persist_intent, of w_gateway]
  by auto

lemma idle_order_gateway:
  assumes o: "others_follow e (UNIV - {Started})"
    and i: "ct_plan (latest e s) \<noteq> ''ACTIVE''" and m: "mutate_order_within n e action request key a s = (r, t)"
  shows "w_gateway t = w_gateway s"
  using i m
proof (induction n arbitrary: a s)
  case 0
  obtain q s1 where q: "prepare_order e action request key a s = (q, s1)" by fastforce
  note f = idle_first_steps(1) [OF o 0(1) q]
  show ?case
  proof (cases "\<exists>p. q = Inr (Inr p)")
    case True
    then obtain p where p: "q = Inr (Inr p)" by blast
    obtain b s2 where b: "persist_intent e action a False p s1 = (b, s2)" by fastforce
    note g = idle_first_steps(2) [OF o conjunct2 [OF f] b]
    have "b \<noteq> Inr False" using persist_once b by metis
    then obtain x where "b = Inl x" using g by (metis (full_types) sumE)
    then show ?thesis using 0(2) q p b f g by (simp add: abind_def)
  next
    case False
    then show ?thesis using 0(2) q f by (cases q; cases "projr q") (auto simp: abind_def)
  qed
next
  case (Suc n)
  obtain q s1 where q: "prepare_order e action request key a s = (q, s1)" by fastforce
  note f = idle_first_steps(1) [OF o Suc.prems(1) q]
  show ?case
  proof (cases "\<exists>p. q = Inr (Inr p)")
    case True
    then obtain p where p: "q = Inr (Inr p)" by blast
    obtain b s2 where b: "persist_intent e action a True p s1 = (b, s2)" by fastforce
    note g = idle_first_steps(2) [OF o conjunct2 [OF f] b]
    show ?thesis
    proof (cases b)
      case (Inl x)
      then show ?thesis using Suc.prems(2) q p b f g by (simp add: abind_def)
    next
      case (Inr v)
      then have "mutate_order_within n e action request key (a\<lparr>oa_proof := pr_proof p\<rparr>) s2 = (r, t)"
        using Suc.prems(2) q p b g by (simp add: abind_def)
      with Suc.IH f g show ?thesis by metis
    qed
  next
    case False
    then show ?thesis using Suc.prems(2) q f by (cases q; cases "projr q") (auto simp: abind_def)
  qed
qed

lemma idle_order:
  assumes o: "unstarted e mut"
  shows "keeps (idle e mut n) (mutate_order e action request key a)"
proof -
  have E: "others_follow e (UNIV - {Started})" using o by (simp add: unstarted_def)
  have k: "idle e mut n t" if "idle e mut n s" "mutate_order e action request key a s = (r, t)" for s r t
    using that idle_order_gateway [OF E _ that(2) [unfolded mutate_order_def]]
      idle_steps [OF followsD [OF follows_order E that(2)]]
    by (simp add: idle_def)
  show ?thesis by (rule tripleI) (erule (1) k)+
qed

lemma keeps_bind: "keeps P m \<Longrightarrow> (\<And>x. keeps P (f x)) \<Longrightarrow> keeps P (abind m f)"
  by (rule triple_bind)

lemma keeps_catch: "keeps P m \<Longrightarrow> (\<And>x. keeps P (h x)) \<Longrightarrow> keeps P (acatch m h)"
  by (rule triple_catch)

lemma keeps_simple: "keeps P (aret x)" "keeps P (athrow y)" "keeps P (alift z)" "keeps P (aget g)" "keeps P (aguard b y)"
  by (intro triple_rules; assumption)+

lemma keeps_cases:
  "(\<And>y. keeps P (f y)) \<Longrightarrow> keeps P (let y = x in f y)"
  "(b \<Longrightarrow> keeps P m) \<Longrightarrow> (\<not> b \<Longrightarrow> keeps P k) \<Longrightarrow> keeps P (if b then m else k)"
  "(o' = None \<Longrightarrow> keeps P m) \<Longrightarrow> (\<And>y. keeps P (g y)) \<Longrightarrow> keeps P (case o' of None \<Rightarrow> m | Some y \<Rightarrow> g y)"
  "(\<And>a b. keeps P (h a b)) \<Longrightarrow> keeps P (case q of (a, b) \<Rightarrow> h a b)"
  "(b \<Longrightarrow> keeps P u) \<Longrightarrow> keeps P (aif b u)"
  by (auto simp: aif_def keeps_simple split: option.splits prod.splits)

lemmas keeps_rules = keeps_bind keeps_catch keeps_simple keeps_cases keeps_aforall

text \<open>Operations that reach the gateway by queries and snapshots only.\<close>

lemma idle_calls:
  assumes o: "unstarted e mut"
  shows "keeps (idle e mut n) (cancel_order e i request key a)"
    "keeps (idle e mut n) (prepare_control_cancellation e b)"
    "keeps (idle e mut n) (emergency_stop e why)"
    "env_command c \<noteq> ''start'' \<Longrightarrow> keeps (idle e mut n) (process_envelope e c pe se fin ro)"
proof -
  let ?p = "\<lambda>s. mut (w_gateway s)" and ?E = "UNIV - {Started}"
  have r: "reads_only e ?p" using o by (auto simp: unstarted_def intro: broker_boundary.reads_only_mutations)
  note p = reads_onlyD [OF r]
  have E: "OutcomeUnknown \<in> ?E" "Halted \<in> ?E" "ForceRevoked \<in> ?E" by simp_all
  note k = keeps_idle [OF o]
  have read: "keeps (idle e mut n) (read_state e)" "keeps (idle e mut n) (state_version (repo_env e))"
    by (rule k, intro follows_rules, intro leaves_rules p)+
  show cancel: "keeps (idle e mut n) (cancel_order e i request key a)" for i request key a
    unfolding cancel_order_def Let_def by (intro keeps_rules read idle_order o)
  have mark: "keeps (idle e mut n) (mark_cancel_failure e i why)" "keeps (idle e mut n) (force_revoke_after_cancel_failure e)" for i why
    by (rule k, intro follows_halting follows_force_revoke E, intro leaves_halting p)+
  have after_cancel: "keeps (idle e mut n) (reconcile_after_cancel e)"
    by (rule k, intro follows_after_cancel, intro leaves_reconcile_steps r)
  show sweep: "keeps (idle e mut n) (prepare_control_cancellation e b)" for b
    unfolding prepare_control_cancellation_def cancel_active_def cancel_one_def Let_def
    by (intro keeps_rules read cancel mark after_cancel)
  have status: "keeps (idle e mut n) (status e now)" for now
    unfolding status_def by (rule k, intro follows_rules, intro leaves_rules p)
  have stop: "keeps (idle e mut n) (update_doc e (emergency_writer e why) None)"
  proof (rule k)
    show "follows e ?E (update_doc e (emergency_writer e why) None)"
      by (intro follows_update leaves_rules tick_blind_repo_part) (auto dest: step_emergency intro: one_step)
  qed (intro leaves_rules p)
  show "keeps (idle e mut n) (emergency_stop e why)"
    unfolding emergency_stop_def by (intro keeps_rules sweep mark status stop)
  assume c: "env_command c \<noteq> ''start''"
  have ev: "command_event (env_command c) \<subseteq> ?E" using c by (auto simp: command_event_def)
  have w: "keeps (idle e mut n) (write_command e c pe se h v)" for h v
  proof (rule k)
    show "follows e ?E (write_command e c pe se h v)"
      unfolding write_command_def
      by (intro follows_rules follows_mutate leaves_rules tick_blind_repo_part)
        (rule steps_mono [OF step_command_writer ev])
  qed (unfold write_command_def, intro leaves_rules p)
  have rc: "keeps (idle e mut n) (reconcile_command e c fin ro)"
    by (rule k, rule follows_reconcile) (auto simp: reconcile_events_def leaves_reconcile_command [OF r])
  show "keeps (idle e mut n) (process_envelope e c pe se fin ro)"
    unfolding process_envelope_def swept_command_def Let_def
    by (intro keeps_rules read sweep mark w rc)
qed

definition starts :: "call \<Rightarrow> bool" where
  "starts c = (case c of Process arg ev \<Rightarrow> command_of arg = ''start'' | _ \<Rightarrow> False)"

lemma leaves_lease_ops:
  assumes "repo_blind p" "fence_blind p" "\<And>s t. p (s\<lparr>f_token := t\<rparr>) = p s"
  shows "leaves p (leader_acquire e owner now)" "leaves p (leader_renew e token now)"
    "leaves p (leader_release e token now)" "leaves p (leader_status e)" "leaves p (get_command_receipt e key service)"
proof -
  note b = repo_blind_tick [OF assms(1)]
  have t: "leaves p (amod (\<lambda>s. s\<lparr>f_token := x\<rparr>))" "leaves p (amod (\<lambda>s. if f_token s = y then s\<lparr>f_token := x\<rparr> else s))" for x y
    by (rule leaves_mod, simp add: assms(3))+
  show "leaves p (leader_acquire e owner now)" "leaves p (leader_renew e token now)"
    "leaves p (leader_release e token now)" "leaves p (leader_status e)"
    unfolding leader_acquire_def acquire_def leader_renew_def renew_def leader_release_def release_def own_token_def
      leader_status_def current_lease_def Let_def
    by (intro leaves_rules assms b t)+
  show "leaves p (get_command_receipt e key service)"
    unfolding get_command_receipt_def get_receipt_def get_section_def Let_def by (intro leaves_rules assms)
qed

lemma idle_call:
  assumes o: "unstarted e mut" and c: "\<not> starts c"
  shows "keeps (idle e mut n) (run_call e c)"
proof -
  let ?p = "\<lambda>s. mut (w_gateway s)" and ?E = "UNIV - {Started}"
  have r: "reads_only e ?p" using o by (auto simp: unstarted_def intro: broker_boundary.reads_only_mutations)
  note p = reads_onlyD [OF r]
  have f: "fence_blind ?p" by (simp add: fence_blind_def tick_blind_def)
  have quiet: "keeps (idle e mut n) (run_call e c)" if "leaves ?p (run_call e c)" "call_events c \<subseteq> ?E"
    using keeps_idle [OF o follows_call that(1)] that(2) by blast
  show ?thesis
  proof (cases c)
    case (Process arg ev)
    let ?parsed = "case arg of Envelope c \<Rightarrow> Inr c | Mapping m \<Rightarrow> envelope_from_mapping m"
    have "keeps (idle e mut n) (process_command e arg ev)"
    proof (cases ?parsed)
      case (Inl x)
      then show ?thesis unfolding process_command_def by (simp add: abind_def triple_def)
    next
      case (Inr env)
      then have "abind (alift ?parsed) g = g env" for g :: "envelope \<Rightarrow> ('a, json) wop" by (simp add: abind_def)
      moreover have "env_command env \<noteq> ''start''" using c Process Inr by (simp add: starts_def command_of_def)
      ultimately show ?thesis
        unfolding process_command_def by simp (intro keeps_rules idle_calls o)
    qed
    then show ?thesis using Process by simp
  next
    case (EmergencyStop why)
    then show ?thesis using idle_calls(3) [OF o] by simp
  next
    case (Query i)
    then show ?thesis using quiet leaves_query_intent [OF r] by simp
  next
    case (FailClosedHalt why)
    have "leaves ?p (fail_closed_halt e why)"
      unfolding fail_closed_halt_def status_def by (intro leaves_rules p)
    then show ?thesis using quiet FailClosedHalt by simp
  next
    case (Status now)
    have "leaves ?p (status e now)" unfolding status_def by (intro leaves_rules p)
    then show ?thesis using quiet Status by simp
  next
    case (GetReceipt key service)
    have "leaves ?p (run_call e c)" unfolding GetReceipt run_call.simps by (intro leaves_rules leaves_lease_ops p f) simp
    then show ?thesis using quiet GetReceipt by simp
  next
    case (Cancel i request key a)
    then show ?thesis using idle_calls(1) [OF o] by simp
  next
    case (CancelPlanned i key a)
    then show ?thesis using idle_calls(1) [OF o] by (simp add: cancel_planned_intent_def)
  qed (use idle_order [OF o] quiet leaves_lease_ops [OF p(1) f]
      in \<open>simp_all add: send_order_def submit_planned_order_def\<close>)
qed


definition unstarted_session :: "call list" where
  "unstarted_session = [Query ''intent-0001'', Send sample_request sample_key sample_args,
     Process (Envelope (sample_command ''stop'' (JObj [])))
       \<lparr>evid_preview = None, evid_start = None, evid_finalization = None, evid_rollover = None\<rparr>, EmergencyStop ''drill'']"


end
