(* ===== verification/Command_Properties.thy ===== *)
theory Command_Properties
  imports Control_Refinement Document_Facts
begin

text \<open>
  Typed commands and their receipts: what a command writes, what its receipt says, and that a used
  idempotency key replays its receipt.
\<close>

section \<open>Comparing dictionaries\<close>

lemma map_of_pairs: "map_of (map (\<lambda>(k, v). (k, h v)) kvs) k = map_option h (map_of kvs k)"
  by (induction kvs) auto

lemma py_norm_obj: "is_obj a \<Longrightarrow> \<exists>kvs. py_norm a = JObj kvs \<and> (\<forall>k. map_of kvs k = map_option py_norm (dget a k))"
  by (cases a) (auto simp: map_of_stable map_of_pairs)

lemma jeq_dget:
  assumes "jeq a b" "is_obj a" "is_obj b"
  shows "map_option py_norm (dget a k) = map_option py_norm (dget b k)"
  using assms py_norm_obj [of a] py_norm_obj [of b] by (auto simp: jeq_def)

lemma jeq_obj: "jeq a b \<Longrightarrow> is_obj a \<Longrightarrow> is_obj b"
  by (cases a; cases b) (auto simp: jeq_def)

text \<open>Equal dictionaries give equal readings.\<close>

lemma jeq_fld:
  assumes "jeq a b" "is_obj a"
  shows "jeq (fld a k) (fld b k)" "jeq (get_or a k v) (get_or b k v)"
  using jeq_dget [OF assms jeq_obj [OF assms], of k]
  by (auto simp: jeq_def fld_def get_or_def split: option.splits)

section \<open>The receipt of a command\<close>

definition receipt_tells :: "json \<Rightarrow> string \<Rightarrow> json \<Rightarrow> json \<Rightarrow> bool" where
  "receipt_tells receipt h result d \<longleftrightarrow> is_obj receipt \<and> fld receipt ''command_hash'' = JStr h
     \<and> fld receipt ''result'' = result \<and> fld receipt ''status'' \<in> {JStr ''COMPLETED'', JStr ''REJECTED''}
     \<and> fld receipt ''state_version'' = JInt (version_of d)"

text \<open>The sections that a command can change before its receipt is added.\<close>

definition command_sections :: "string list" where
  "command_sections = [''plan'', ''authority'', ''lifecycle'', ''terminal_archive'']"

lemma apply_command_sections:
  assumes "apply_command e c pe se d s = (Inr (r, d'), t)" "k \<notin> set command_sections"
  shows "fld d' k = fld d k"
proof -
  have k: "k \<noteq> ''plan''" "k \<noteq> ''authority''" "k \<noteq> ''lifecycle''" "k \<noteq> ''terminal_archive''"
    using assms(2) by (simp_all add: command_sections_def)
  have "apply_enable e p d s = (Inr (r, d'), t) \<Longrightarrow> fld d' k = fld d k" for p s
    using k unfolding apply_enable_def Let_def by (elim abindE) (auto simp: doc_simps split: if_splits)
  moreover have "apply_start e p ev d s = (Inr (r, d'), t) \<Longrightarrow> fld d' k = fld d k" for p ev s
    using k unfolding apply_start_def Let_def by (elim abindE) (auto simp: doc_simps)
  moreover have "fld d' k = fld d k" if "apply_stop e d s = (Inr (r, d'), t)" for s
    using that k unfolding apply_stop_def Let_def
    by (elim abindE) (auto simp: doc_simps append_to_def abind_Inr_iff split: if_splits)
  ultimately show ?thesis
    using assms(1) k unfolding apply_command_def Let_def
    by (elim abindE) (auto simp: abind_Inr_iff apply_preview_def apply_revoke_def apply_drain_def Let_def doc_simps
        split: if_splits)
qed

lemma receipt_fields:
  assumes "receipt_for_candidate e x c h r st s = (Inr receipt, t)"
  shows "is_obj receipt" "fld receipt ''command_hash'' = JStr h" "fld receipt ''result'' = r"
    "fld receipt ''status'' = JStr st" "fld receipt ''state_version'' = JInt (version_of x + 1)"
  using assms by (auto simp: receipt_for_candidate_def abind_Inr_iff receipt_as_dict_def read_JObj)

lemma with_receipt_fields:
  "fld (fld (with_receipt c receipt x) ''receipts'') (command_key c) = receipt"
  "k \<noteq> ''receipts'' \<Longrightarrow> k \<noteq> ''audit'' \<Longrightarrow> fld (with_receipt c receipt x) k = fld x k"
  by (simp_all add: with_receipt_def append_to_def set_in_def doc_simps)

lemma command_writer_Inr:
  assumes "command_writer e c pe se h d s = (Inr (r, d'), t)"
  obtains x receipt st where "d' = with_receipt c receipt x" "is_obj receipt" "fld receipt ''command_hash'' = JStr h"
    "fld receipt ''result'' = r" "fld receipt ''status'' = JStr st" "fld receipt ''state_version'' = JInt (version_of d + 1)"
    "st = ''COMPLETED'' \<and> (\<exists>t. apply_command e c pe se d s = (Inr (r, x), t))
      \<or> st = ''REJECTED'' \<and> x = d \<and> (\<exists>y t. apply_command e c pe se d s = (Inl y, t) \<and> is_a y MutationRejected \<and> r = rejection_result y)"
proof -
  let ?m = "acatch (abind (apply_command e c pe se d) (\<lambda>(result, state). aret (''COMPLETED'', result, state)))
      (\<lambda>x. if is_a x MutationRejected then aret (''REJECTED'', rejection_result x, d) else athrow x)"
  obtain st x u receipt v where m: "?m s = (Inr (st, r, x), u)" and d': "d' = with_receipt c receipt x"
    and rc: "receipt_for_candidate e x c h r st u = (Inr receipt, v)"
    using assms by (auto simp: command_writer_def abind_Inr_iff)
  have out: "st = ''COMPLETED'' \<and> (\<exists>t. apply_command e c pe se d s = (Inr (r, x), t))
      \<or> st = ''REJECTED'' \<and> x = d \<and> (\<exists>y t. apply_command e c pe se d s = (Inl y, t) \<and> is_a y MutationRejected \<and> r = rejection_result y)"
    using m by (auto simp: acatch_def abind_def split: prod.splits sum.splits if_splits)
  then have "fld x ''state_version'' = fld d ''state_version''"
    using apply_command_sections [of e c pe se d s r x _ "''state_version''"] by (auto simp: command_sections_def)
  then have "version_of x = version_of d" by (simp add: version_of_def)
  with that [OF d' receipt_fields(1-4) [OF rc]] receipt_fields(5) [OF rc] out show thesis by simp
qed

text \<open>A command's durable write, from the document it found to the one it left.\<close>

definition command_written ::
  "'g oenv \<Rightarrow> envelope \<Rightarrow> string \<Rightarrow> json \<Rightarrow> 'g world \<Rightarrow> json \<Rightarrow> 'g world \<Rightarrow> bool" where
  "command_written e c h receipt s before s' \<longleftrightarrow>
     current_doc (repo_env e) s = Inr before
     \<and> fld (fld (r_mem s') ''receipts'') (command_key c) = receipt
     \<and> is_obj receipt \<and> fld receipt ''command_hash'' = JStr h
     \<and> fld receipt ''state_version'' = JInt (version_of (r_mem s'))
     \<and> version_of (r_mem s') = version_of before + 1
     \<and> (e_path e \<longrightarrow> r_disk s' = Stored (canon (r_mem s')))"

definition unchanged_but :: "string list \<Rightarrow> json \<Rightarrow> json \<Rightarrow> bool" where
  "unchanged_but sections d d' \<longleftrightarrow> (\<forall>k. k \<notin> set sections \<longrightarrow> fld d' k = fld d k)"

definition receipt_sections :: "string list" where
  "receipt_sections = [''receipts'', ''audit'', ''state_version'', ''state_hash'', ''previous_state_hash'']"


section \<open>Replays\<close>

definition receipt_kept :: "envelope \<Rightarrow> string \<Rightarrow> json \<Rightarrow> json \<Rightarrow> bool" where
  "receipt_kept c h answer d \<longleftrightarrow> fld (fld d ''receipts'') (command_key c) = fld answer ''receipt''
     \<and> is_obj (fld answer ''receipt'') \<and> fld (fld answer ''receipt'') ''command_hash'' = JStr h
     \<and> get_or (fld answer ''receipt'') ''result'' (JObj []) = fld answer ''result''"

lemma response_fields [simp]:
  "fld (command_response receipt result b) ''receipt'' = receipt" "fld (command_response receipt result b) ''result'' = result"
  "fld (command_response receipt result b) ''reused'' = JBool b"
  by (simp_all add: command_response_def read_JObj)

lemma receipt_candidate_shape:
  assumes "receipt_for_candidate e x c h r st s = (Inr receipt, t)"
  shows "is_obj receipt \<and> fld receipt ''command_hash'' = JStr h \<and> get_or receipt ''result'' (JObj []) = r"
  using assms by (auto simp: receipt_for_candidate_def abind_Inr_iff receipt_as_dict_def read_JObj)

lemma receipt_mutation:
  assumes "mutate (repo_env e) W ex s = (Inr (r, final), s')" "\<And>d. leaves repo_part (W d)"
    and W: "\<And>d s r d' t. W d s = (Inr (r, d'), t) \<Longrightarrow> \<exists>receipt x. d' = with_receipt c receipt x
      \<and> is_obj receipt \<and> fld receipt ''command_hash'' = JStr h \<and> get_or receipt ''result'' (JObj []) = r"
  shows "receipt_kept c h (command_response (fld (fld final ''receipts'') (command_key c)) r False) (r_mem s')"
proof -
  have n: "neutral (W d)" for d unfolding neutral_leaves by (rule assms(2))
  from assms(1) n show ?thesis
  proof (rule mutate_ok)
    fix mem cand t t'
    assume f: "W mem t = (Inr (r, cand), t')" and final: "final = dset cand ''state_version'' (JInt (version_of mem + 1))"
      and sl: "sealed (e_scope (repo_env e)) mem final = Inr (r_mem s')"
    obtain receipt x where cand: "cand = with_receipt c receipt x" and rc: "is_obj receipt"
      "fld receipt ''command_hash'' = JStr h" "get_or receipt ''result'' (JObj []) = r"
      using W [OF f] by blast
    have "fld (r_mem s') ''receipts'' = fld cand ''receipts''"
      using sealed_Inr(3) [OF sl, of "''receipts''"] by (simp add: final doc_simps)
    then show ?thesis
      using rc by (simp add: receipt_kept_def final cand doc_simps with_receipt_fields)
  qed
qed

lemma write_command_kept:
  assumes "write_command e c pe se h v s = (Inr answer, s')"
  shows "receipt_kept c h answer (r_mem s')"
proof -
  obtain r final where m: "mutate (repo_env e) (command_writer e c pe se h) (Some v) s = (Inr (r, final), s')"
    and a: "answer = command_response (fld (fld final ''receipts'') (command_key c)) r False"
    using assms by (auto simp: write_command_def abind_Inr_iff)
  show ?thesis
    unfolding a
  proof (rule receipt_mutation [OF m])
    show "leaves repo_part (command_writer e c pe se h d)" for d by (intro leaves_rules tick_blind_repo_part)
  next
    fix d s r d' t
    assume "command_writer e c pe se h d s = (Inr (r, d'), t)"
    then show "\<exists>receipt x. d' = with_receipt c receipt x \<and> is_obj receipt
      \<and> fld receipt ''command_hash'' = JStr h \<and> get_or receipt ''result'' (JObj []) = r"
      unfolding command_writer_def by (auto simp: abind_Inr_iff split: prod.splits dest!: receipt_candidate_shape)
  qed
qed

lemma reconcile_command_kept:
  assumes "reconcile_command e c fin ro s = (Inr answer, s')" "command_hash c = Inr h"
  shows "receipt_kept c h answer (r_mem s')"
proof -
  obtain sn ids modes outcomes r final t where
    m: "mutate (repo_env e) (reconcile_writer e c fin sn ids modes outcomes) (Some (ev_state_version (env_expected c))) t
        = (Inr (r, final), s')"
    and a: "answer = command_response (fld (fld final ''receipts'') (command_key c)) r False"
    using assms(1) unfolding reconcile_command_def Let_def
    by (elim abindE) (auto simp: halting_on_rejection_def acatch_def abind_def split: prod.splits sum.splits if_splits)
  show ?thesis
    unfolding a
  proof (rule receipt_mutation [OF m])
    show "leaves repo_part (reconcile_writer e c fin sn ids modes outcomes d)" for d
      by (intro leaves_rules tick_blind_repo_part)
  next
    fix d s r d' t
    assume "reconcile_writer e c fin sn ids modes outcomes d s = (Inr (r, d'), t)"
    then show "\<exists>receipt x. d' = with_receipt c receipt x \<and> is_obj receipt
      \<and> fld receipt ''command_hash'' = JStr h \<and> get_or receipt ''result'' (JObj []) = r"
      unfolding reconcile_writer_def Let_def
      by (auto simp: abind_Inr_iff assms(2) split: prod.splits dest!: receipt_candidate_shape)
  qed
qed

lemma answered_command_kept:
  assumes "process_envelope e c pe se fin ro s = (Inr answer, s')"
  shows "\<exists>h. command_hash c = Inr h \<and> receipt_kept c h answer (r_mem s')"
proof -
  obtain h where h: "command_hash c = Inr h" using assms by (auto simp: process_envelope_def abind_Inr_iff)
  obtain d s1 where d: "read_state e s = (Inr d, s1)" using assms by (auto simp: process_envelope_def abind_Inr_iff)
  have mem: "r_mem s1 = d" using d by (auto simp: read_state_def dest: snapshot_ok)
  let ?x = "fld (get_or d ''receipts'' (JObj [])) (command_key c)"
  show ?thesis
  proof (cases "?x = JNull")
    case True
    then have "(\<exists>t v. write_command e c pe se h v t = (Inr answer, s')) \<or> (\<exists>t. reconcile_command e c fin ro t = (Inr answer, s'))"
      using assms h d unfolding process_envelope_def Let_def
      by (auto simp: abind_Inr_iff split: if_splits)
    then show ?thesis using write_command_kept reconcile_command_kept [OF _ h] h by blast
  next
    case False
    then have x: "fld ?x ''command_hash'' = JStr h" "answer = command_response ?x (get_or ?x ''result'' (JObj [])) True" "s' = s1"
      using assms h d unfolding process_envelope_def Let_def by (auto simp: abind_Inr_iff split: if_splits)
    have "is_obj ?x" using x(1) by (cases ?x) (simp_all add: fld_def get_or_def dget_def)
    moreover have "fld (fld d ''receipts'') (command_key c) = ?x"
      using False by (auto simp: fld_def get_or_def dget_def split: option.splits)
    ultimately show ?thesis using h x mem by (simp add: receipt_kept_def)
  qed
qed

text \<open>
  C7: once a command has been answered, every later command under its key, in any process and on any
  document that has grown from the one it left, changes nothing and never runs: it gets the stored
  receipt and result back if it is the same command, and is refused if it is another one.
\<close>

theorem used_command_key_replays:
  assumes "process_envelope e c pe se fin ro s = (Inr answer, s1)" "command_hash c = Inr h"
    and "grows (r_mem s1) d" "read_state e' t = (Inr d, t1)"
    and "command_key c' = command_key c" "command_hash c' = Inr h'"
    and "process_envelope e' c' pe' se' fin' ro' t = (r, t')"
  shows "t' = t1 \<and> (if h' = h
      then \<exists>again. r = Inr again \<and> fld again ''reused'' = JBool True
        \<and> jeq (fld again ''receipt'') (fld answer ''receipt'') \<and> jeq (fld again ''result'') (fld answer ''result'')
      else r = Inl (Exn IdempotencyConflictError ''idempotency key was reused with a different command''))"
proof -
  have k: "receipt_kept c h answer (r_mem s1)" using answered_command_kept [OF assms(1)] assms(2) by auto
  let ?a = "fld answer ''receipt''" and ?b = "fld (get_or d ''receipts'' (JObj [])) (command_key c)"
  have a: "is_obj ?a" "fld ?a ''command_hash'' = JStr h" "get_or ?a ''result'' (JObj []) = fld answer ''result''"
    "fld (fld (r_mem s1) ''receipts'') (command_key c) = ?a"
    using k by (simp_all add: receipt_kept_def)
  have "?a \<noteq> JNull" using a(1) by auto
  with a(4) have "dget (fld (r_mem s1) ''receipts'') (command_key c) = Some ?a"
    using fld_not_null [of "fld (r_mem s1) ''receipts''" "command_key c"] by auto
  then obtain b where b: "dget (fld d ''receipts'') (command_key c) = Some b" "jeq b ?a"
    using assms(3) unfolding grows_def retains_def by blast
  have eq: "?b = b"
    using b(1) by (auto simp: fld_def get_or_def dget_def split: option.splits)
  have o: "is_obj b" using jeq_obj [OF jeq_sym [OF b(2)] a(1)] .
  have hb: "fld b ''command_hash'' = JStr h" using jeq_fld(1) [OF b(2) o, of "''command_hash''"] a(2) by simp
  have rb: "jeq (get_or b ''result'' (JObj [])) (fld answer ''result'')"
    using jeq_fld(2) [OF b(2) o, of "''result''" "JObj []"] a(3) by simp
  have "b \<noteq> JNull" using o by auto
  then show ?thesis
    using assms(4-7) hb rb b(2) by (auto simp: process_envelope_def Let_def abind_def eq)
qed

section \<open>Adding a receipt\<close>

definition receipt_ok :: "command_receipt \<Rightarrow> bool" where
  "receipt_ok r \<longleftrightarrow> validate_receipt_entry (receipt_as_dict r) = Inr () \<and> wf_json (cr_actor r) \<and> wf_json (cr_result r)
     \<and> finite_json (cr_actor r) \<and> finite_json (cr_result r) \<and> CHR '':'' \<notin> set (cr_service r)"

lemma receipt_dict_ok:
  assumes "receipt_ok r"
  shows "wf_json (receipt_as_dict r)" "finite_json (receipt_as_dict r)"
    "validate_audit_entry (dupdate (JObj [(''kind'', JStr ''command_receipt'')]) (items (receipt_as_dict r))) = Inr ()"
    "wf_json (dupdate (JObj [(''kind'', JStr ''command_receipt'')]) (items (receipt_as_dict r)))"
    "finite_json (dupdate (JObj [(''kind'', JStr ''command_receipt'')]) (items (receipt_as_dict r)))"
    "check_receipt (cr_service r @ '':'' @ cr_idempotency_key r, receipt_as_dict r) = Inr ()"
proof -
  let ?k = "JObj [(''kind'', JStr ''command_receipt'')]"
  have pop: "dpop (dupdate ?k (items (receipt_as_dict r))) ''kind'' = receipt_as_dict r"
    "fld (dupdate ?k (items (receipt_as_dict r))) ''kind'' = JStr ''command_receipt''"
    "is_obj (dupdate ?k (items (receipt_as_dict r)))"
    by (simp_all add: receipt_as_dict_def dset_def dpop_def read_JObj)
  show "validate_audit_entry (dupdate ?k (items (receipt_as_dict r))) = Inr ()"
    using assms pop by (simp add: validate_audit_entry_def receipt_ok_def)
  show "wf_json (receipt_as_dict r)" "finite_json (receipt_as_dict r)"
    "wf_json (dupdate ?k (items (receipt_as_dict r)))" "finite_json (dupdate ?k (items (receipt_as_dict r)))"
    using assms by (simp_all add: receipt_ok_def receipt_as_dict_def dset_def)
  show "check_receipt (cr_service r @ '':'' @ cr_idempotency_key r, receipt_as_dict r) = Inr ()"
    using assms by (simp add: check_receipt_def receipt_ok_def) (simp add: receipt_as_dict_def read_JObj the_str_def)
qed

lemma jappend_facts:
  "is_jarr (jappend j x)" "wf_json j \<Longrightarrow> wf_json x \<Longrightarrow> wf_json (jappend j x)"
  "finite_json j \<Longrightarrow> finite_json x \<Longrightarrow> finite_json (jappend j x)"
proof -
  show "is_jarr (jappend j x)" by (simp add: jappend_def)
  show "wf_json (jappend j x)" if "wf_json j" "wf_json x"
    using that by (cases j) (simp_all add: jappend_def jarr_def)
  show "finite_json (jappend j x)" if "finite_json j" "finite_json x"
    using that by (cases j) (simp_all add: jappend_def jarr_def)
qed

lemma with_receipt_ok:
  assumes d: "check_document d scope = Inr ()" "wf_json d" "finite_json d"
    and r: "receipt_ok r" "command_key c = cr_service r @ '':'' @ cr_idempotency_key r"
    and new: "\<not> has_key (fld d ''receipts'') (command_key c)"
  shows "check_document (with_receipt c (receipt_as_dict r) d) scope = Inr ()"
    "wf_json (with_receipt c (receipt_as_dict r) d)" "finite_json (with_receipt c (receipt_as_dict r) d)"
proof -
  let ?c = "with_receipt c (receipt_as_dict r) d"
  let ?entry = "dupdate (JObj [(''kind'', JStr ''command_receipt'')]) (items (receipt_as_dict r))"
  note ok = receipt_dict_ok [OF r(1)]
  have f: "fld ?c k = (if k = ''audit'' then jappend (fld d ''audit'') ?entry
      else if k = ''receipts'' then dset (fld d ''receipts'') (command_key c) (receipt_as_dict r) else fld d k)" for k
    by (simp add: with_receipt_def append_to_def set_in_def doc_simps)
  show "wf_json ?c" "finite_json ?c"
    using d(2,3) ok by (simp_all add: with_receipt_def append_to_def set_in_def jappend_facts doc_simps)
  have "check_receipt x = Inr ()" if "x \<in> set (AList.update (command_key c) (receipt_as_dict r) (items (fld d ''receipts'')))" for x
  proof -
    have "x = (command_key c, receipt_as_dict r) \<or> x \<in> set (items (fld d ''receipts''))"
      using that set_update_subset by fastforce
    then show ?thesis
      using ok(6) r(2) d(1) by (auto simp: check_document_def check_indexes_def rall_Inr_iff)
  qed
  then have idx: "check_indexes ?c = Inr ()"
    using d(1)
    by (simp add: check_document_def check_indexes_def rall_Inr_iff f items_dset check_intent_key_def [abs_def]
        check_unknown_def [abs_def] check_unknown_intent_def [abs_def])
  have keys: "keys_are ?c (''schema_version'' # required_sections)"
    unfolding with_receipt_def append_to_def set_in_def
    using d(1) by (intro keys_are_dset) (simp_all add: check_document_def shape_iff required_sections_def)
  have "is_obj ?c" by (simp add: with_receipt_def append_to_def)
  with keys idx show "check_document ?c scope = Inr ()"
    using d(1) ok(3)
    by (simp add: check_document_def shape_iff check_states_def check_hashes_def rall_Inr_iff f jappend_facts)
qed

lemma with_receipt_append_only:
  assumes d: "valid_doc scope d" "wf_json d" and x: "assert_append_only d x = Inr ()"
    and new: "\<not> has_key (fld d ''receipts'') (command_key c)" "fld x ''receipts'' = fld d ''receipts''"
  shows "assert_append_only d (with_receipt c receipt x) = Inr ()"
proof -
  have f: "fld (with_receipt c receipt x) k = fld x k" if "k \<noteq> ''receipts''" "k \<noteq> ''audit''" for k
    using that by (rule with_receipt_fields(2))
  have audit: "jarr (fld (with_receipt c receipt x) ''audit'')
      = jarr (fld x ''audit'') @ [dupdate (JObj [(''kind'', JStr ''command_receipt'')]) (items receipt)]"
    by (simp add: with_receipt_def append_to_def set_in_def doc_simps)
  have log: "log_appended d (with_receipt c receipt x) ''audit'' = Inr ()"
    using x by (auto simp: assert_append_only_def log_appended_def Let_def audit)
  have kept: "jeq (fld (fld (with_receipt c receipt x) ''receipts'') k) v" if "(k, v) \<in> set (items (fld d ''receipts''))" for k v
  proof -
    have "dget (fld d ''receipts'') k = Some v" using that wf_keys [of "fld d ''receipts''"] d(2) by simp
    moreover from this have "k \<noteq> command_key c" using new(1) by (auto simp: has_key_iff)
    ultimately show ?thesis
      by (simp add: with_receipt_def append_to_def set_in_def doc_simps new(2) dget_Some_fld)
  qed
  have same: "log_appended d (with_receipt c receipt x) ''terminal_archive'' = log_appended d x ''terminal_archive''"
    by (simp add: log_appended_def f)
  show ?thesis
    using x log kept unfolding assert_append_only_def checks_Inr_iff
    by (auto simp: same f rall_Inr_iff)
qed

section \<open>A command in the sample process\<close>

definition asked :: envelope where
  "asked = sample_command ''safe_to_restart'' (JObj [])"

definition asked_hash :: string where
  "asked_hash = json_hash (canonical_command asked)"

definition asked_result :: json where
  "asked_result = JObj [(''safe_to_restart'', JBool (safe_to_restart_state False (sample_doc ready_sample))),
     (''lifecycle'', JStr ''READY'')]"

definition asked_receipt :: command_receipt where
  "asked_receipt = \<lparr>cr_service = CONTROL_SERVICE, cr_idempotency_key = ''command-key-0000001'', cr_command_hash = asked_hash,
     cr_command_id = ''command-0001'', cr_correlation_id = ''correlation-0001'', cr_actor = actor_as_dict (env_actor asked),
     cr_status = ''COMPLETED'', cr_state_version = 1, cr_result = asked_result, cr_observed_at = format_utc 0\<rparr>"

lemma asked_hash: "command_hash asked = Inr asked_hash"
  by (simp add: command_hash_def asked_hash_def sha256_json_Inr_iff canonical_command_def asked_def sample_command_def
      actor_as_dict_def expected_as_dict_def present_def)

lemma asked_receipt_ok: "receipt_ok asked_receipt"
proof -
  have "UTC_RE (format_utc 0)"
    using utc_text_parses(1) [OF epoch_in_calendar] by (simp add: UTC_RE_def format_utc_def)
  then show ?thesis
    by (simp add: receipt_ok_def validate_receipt_entry_def receipt_as_dict_def asked_receipt_def read_JObj keys_are_def
        RECEIPT_FIELDS_def actor_fields_def actor_as_dict_def asked_def sample_command_def asked_result_def asked_hash_def
        CONTROL_SERVICE_def id_shapes require_member_def member_of_def require_log_timestamp_def int_at_least_def)
qed

lemma asked_runs:
  obtains answer s' where
    "write_command sample_env asked None None asked_hash 0 (sample_world ready_sample) = (Inr answer, s')"
    "r_available s'" "valid_doc ''account:test'' (r_mem s')"
proof -
  let ?s = "sample_world ready_sample" and ?d = "sample_doc ready_sample"
  let ?x = "receipt_as_dict asked_receipt"
  have d: "valid_doc ''account:test'' ?d" "wf_json ?d" "finite_json ?d"
    by (rule sample_valid [OF ready_ok], rule sample_wf [OF ready_ok], rule sample_finite [OF ready_ok])
  have doc: "check_document ?d ''account:test'' = Inr ()" using d(1) by (simp add: valid_doc_iff)
  have k: "command_key asked = cr_service asked_receipt @ '':'' @ cr_idempotency_key asked_receipt"
    by (simp add: command_key_def asked_def sample_command_def asked_receipt_def)
  have new: "\<not> has_key (fld ?d ''receipts'') (command_key asked)" by (simp add: has_key_iff)
  have w: "command_writer sample_env asked None None asked_hash ?d ?s
      = (Inr (asked_result, with_receipt asked ?x ?d), ?s\<lparr>r_tick := 1\<rparr>)"
  proof -
    have "apply_command sample_env asked None None ?d ?s = (Inr (asked_result, ?d), ?s)"
    proof -
      have c: "check_expected_projection ?d asked = Inr ()"
        by (simp add: check_expected_projection_def asked_def sample_command_def Let_def)
      have l: "fld ?d ''lifecycle'' = JStr ''READY''" by (simp add: ready_sample_def)
      show ?thesis
        unfolding apply_command_def Let_def by (simp add: c abind_def asked_result_def l) (simp add: asked_def sample_command_def ready_sample_def)
    qed
    moreover have "version_of ?d = 0" by (simp add: version_of_def)
    ultimately show ?thesis
      by (simp add: command_writer_def acatch_def abind_def receipt_for_candidate_def utc_now_def next_tick_def
          asked_receipt_def asked_def sample_command_def)
  qed
  note ok = with_receipt_ok [OF doc d(2,3) asked_receipt_ok k new]
  have app: "assert_append_only ?d (with_receipt asked ?x ?d) = Inr ()"
    by (rule with_receipt_append_only [OF d(1,2) _ new refl], rule append_only_resectioned [OF d(1,2)]) auto
  obtain h where m: "mutate (repo_env sample_env) (command_writer sample_env asked None None asked_hash) (Some 0) ?s
      = (Inr (asked_result, dset (with_receipt asked ?x ?d) ''state_version'' (JInt (version_of ?d + 1))),
        ?s\<lparr>r_tick := 1, r_mem := reseal (with_receipt asked ?x ?d) (version_of ?d + 1) (the_str (fld ?d ''state_hash'')) h\<rparr>)"
    "valid_doc ''account:test'' (reseal (with_receipt asked ?x ?d) (version_of ?d + 1) (the_str (fld ?d ''state_hash'')) h)"
    by (rule mutate_in_memory [of "repo_env sample_env" ?s "Some 0" "command_writer sample_env asked None None asked_hash"
          asked_result "with_receipt asked ?x ?d" "?s\<lparr>r_tick := 1\<rparr>"])
      (use d(1) w app ok in \<open>simp_all add: version_of_def\<close>)
  have "write_command sample_env asked None None asked_hash 0 ?s
      = (Inr (command_response (fld (fld (dset (with_receipt asked ?x ?d) ''state_version'' (JInt (version_of ?d + 1))) ''receipts'')
          (command_key asked)) asked_result False), 
        ?s\<lparr>r_tick := 1, r_mem := reseal (with_receipt asked ?x ?d) (version_of ?d + 1) (the_str (fld ?d ''state_hash'')) h\<rparr>)"
    by (simp add: write_command_def abind_def m(1))
  then show thesis using m(2) by (rule_tac that) (assumption, simp, simp)
qed


lemma used_command_key_replays_witness:
  "\<exists>s1 again. fst (process_envelope sample_env asked None None None None s1) = Inr again \<and> fld again ''reused'' = JBool True"
proof -
  obtain answer s1 where w: "write_command sample_env asked None None asked_hash 0 (sample_world ready_sample) = (Inr answer, s1)"
    "r_available s1" by (rule asked_runs)
  have r: "read_state sample_env (sample_world ready_sample) = (Inr (sample_doc ready_sample), sample_world ready_sample)"
    by (simp add: read_state_in_memory)
  have run: "process_envelope sample_env asked None None None None (sample_world ready_sample) = (Inr answer, s1)"
    unfolding process_envelope_def Let_def
    using w by (simp add: abind_def r asked_hash read_JObj) (simp add: asked_def sample_command_def version_of_def)
  have t: "read_state sample_env s1 = (Inr (r_mem s1), s1)" using w(2) by (simp add: read_state_in_memory)
  obtain x t' where "process_envelope sample_env asked None None None None s1 = (x, t')" by fastforce
  from used_command_key_replays [OF run asked_hash grows_refl t refl asked_hash this] this obtain again
    where "fst (process_envelope sample_env asked None None None None s1) = Inr again \<and> fld again ''reused'' = JBool True"
    by auto
  then show ?thesis by (intro exI)
qed

end
