(* ===== verification/Reconcile_Properties.thy ===== *)
theory Reconcile_Properties
  imports Command_Properties Quiet_Runs
begin

text \<open>
  What a reconciliation leaves: ready or halted by the outcomes that are still unknown, a lease that
  no token below the broker's mark passes, and a durable halt for a snapshot that is refused.
\<close>

section \<open>What each step of the write changes\<close>

definition settled_sections :: "string list" where
  "settled_sections = [''send_intents'', ''unknown_outcomes'', ''terminal_archive'']"

lemma transition_sections:
  assumes "apply_intent_result_transition e i name b d s = (Inr c, t)" "k \<notin> set settled_sections"
  shows "fld c k = fld d k"
  using assms
  by (auto simp: apply_intent_result_transition_def Let_def abind_Inr_iff settled_sections_def put_raw_intent_def
      put_unknown_def append_to_def set_in_def doc_simps split: if_splits)

lemma settle_sections:
  assumes "settle_intents e ids modes xs d s = (Inr c, t)" and k: "k \<notin> set settled_sections"
  shows "fld c k = fld d k"
proof -
  have puts: "fld (drop_unknown x i) k = fld x k" "fld (set_intent_field x i f v) k = fld x k" "fld (put_unknown x i w) k = fld x k"
    for x i f v w
    using k by (auto simp: settled_sections_def drop_unknown_def set_intent_field_def put_unknown_def set_in_def doc_simps)
  have one: "fld c k = fld d k" if "settle_intent e ids modes x d s = (Inr c, t)" for x c d s t
    using that k
    by (auto simp: settle_intent_def settle_rollover_def settle_submitted_def mark_still_unknown_def Let_def abind_Inr_iff
        puts split: prod.splits if_splits dest: transition_sections)
  show ?thesis
    using assms(1) by (induction xs arbitrary: d s) (auto simp: abind_Inr_iff dest: one)
qed

text \<open>
  The floor under the lease: the broker's marks, when it reports any, are not above the lease's epoch
  and token afterwards, and nothing else of the document or the lease has changed.
\<close>

definition floored :: "gateway_snapshot \<Rightarrow> json \<Rightarrow> json \<Rightarrow> bool" where
  "floored sn d c \<longleftrightarrow>
     (\<forall>f. f \<notin> {''epoch'', ''fencing_token''} \<longrightarrow> fld (fld c ''lease'') f = fld (fld d ''lease'') f)
     \<and> (gs_fence_epoch sn = JNull \<and> gs_fence_token sn = JNull
        \<or> (\<exists>m n. gs_fence_epoch sn = JInt m \<and> gs_fence_token sn = JInt n \<and> m \<le> lease_epoch c \<and> n \<le> lease_fence c))"

lemma fld_reads:
  assumes "int_at_least 0 (fld d k)"
  shows "py_int (get_or d k (JInt 0)) = Some (the_int (fld d k))"
proof -
  obtain n where n: "fld d k = JInt n" using int_at_leastE [OF assms] by blast
  then have "get_or d k (JInt 0) = JInt n" by (auto simp: fld_def get_or_def split: option.splits)
  with n show ?thesis by (simp add: py_int_def the_int_def)
qed

lemma aguard_Inr: "aguard b x s = (Inr u, t) \<longleftrightarrow> b \<and> t = s"
  by (auto simp: aguard_def)

lemma floor_floors:
  assumes "apply_remote_fence_high_water_floor e sn d s = (Inr c, t)"
    and "int_at_least 0 (fld (fld c ''lease'') ''epoch'')" "int_at_least 0 (fld (fld c ''lease'') ''fencing_token'')"
  shows "floored sn d c" "k \<noteq> ''lease'' \<Longrightarrow> fld c k = fld d k"
proof -
  obtain fl where fl: "remote_fence_floor d sn = Inr fl"
    and c: "c = (case fl of None \<Rightarrow> d | Some (x, lease) \<Rightarrow> dset d ''lease'' lease)"
    using assms(1) by (auto simp: apply_remote_fence_high_water_floor_def abind_Inr_iff split: option.splits)
  show "k \<noteq> ''lease'' \<Longrightarrow> fld c k = fld d k" using c by (auto simp: doc_simps split: option.splits)
  let ?m = "gs_fence_epoch sn" and ?n = "gs_fence_token sn"
  show "floored sn d c"
  proof (cases "?m = JNull \<and> ?n = JNull")
    case True
    then show ?thesis using fl c by (simp add: remote_fence_floor_def Let_def floored_def)
  next
    case False
    then obtain m n where mn: "?m = JInt m" "?n = JInt n"
      using fl by (auto simp: remote_fence_floor_def Let_def raise_def split: if_splits dest!: int_at_leastE)
    from fl False obtain le lt x where l: "py_int (get_or (fld d ''lease'') ''epoch'' (JInt 0)) = Some le"
      "py_int (get_or (fld d ''lease'') ''fencing_token'' (JInt 0)) = Some lt"
      and out: "fl = (if m \<le> le \<and> n \<le> lt then None
        else Some (x, dset (dset (fld d ''lease'') ''epoch'' (JInt (max le m))) ''fencing_token'' (JInt (max lt n))))"
      unfolding remote_fence_floor_def Let_def mn
      by (auto simp: raise_def the_int_def split: if_splits option.splits sum.splits)
    show ?thesis
    proof (cases "m \<le> le \<and> n \<le> lt")
      case True
      then have "c = d" using c out by simp
      then have "lease_epoch c = le" "lease_fence c = lt"
        using l fld_reads [OF assms(2)] fld_reads [OF assms(3)]
        by (simp_all add: lease_epoch_def lease_fence_def high_water_def)
      then show ?thesis using True mn \<open>c = d\<close> by (simp add: floored_def)
    next
      case False
      then show ?thesis
        using c out mn by (auto simp: floored_def doc_simps lease_epoch_def lease_fence_def high_water_def the_int_def)
    qed
  qed
qed

section \<open>The reconciled document\<close>

definition took_snapshot :: "gateway_snapshot \<Rightarrow> json \<Rightarrow> bool" where
  "took_snapshot sn d \<longleftrightarrow>
     fld (fld d ''broker'') ''connected'' = gs_connected sn
     \<and> fld (fld d ''broker'') ''generation'' = gs_generation sn
     \<and> fld (fld d ''broker'') ''active_order_count'' = gs_active_order_count sn
     \<and> fld (fld d ''broker'') ''position_snapshot_hash'' = gs_position_snapshot_hash sn
     \<and> fld (fld d ''broker'') ''last_snapshot_at'' = gs_observed_at sn
     \<and> fld (fld d ''broker'') ''positions'' = canon (gs_positions sn)"

text \<open>Ready exactly when no outcome is unknown, and the receipt says so.\<close>

definition decided :: "json \<Rightarrow> json \<Rightarrow> bool" where
  "decided d receipt \<longleftrightarrow>
     (if dlen (fld d ''unknown_outcomes'') = 0
      then fld d ''lifecycle'' = JStr ''READY'' \<and> fld (fld d ''reconciliation'') ''state'' = JStr ''RECONCILED''
        \<and> fld receipt ''status'' = JStr ''COMPLETED''
      else fld d ''lifecycle'' = JStr ''HALTED_UNKNOWN_OUTCOME'' \<and> fld (fld d ''reconciliation'') ''state'' = JStr ''UNKNOWN''
        \<and> fld receipt ''status'' = JStr ''REJECTED'')"

lemma reconciled_doc_fields:
  assumes "reconciled_doc e c d s = (Inr d', t)"
  shows "fld d' ''unknown_outcomes'' = fld d ''unknown_outcomes''"
    "fld d' ''lifecycle'' = JStr (if dlen (fld d ''unknown_outcomes'') = 0 then ''READY'' else ''HALTED_UNKNOWN_OUTCOME'')"
    "fld (fld d' ''reconciliation'') ''state'' = JStr (if dlen (fld d ''unknown_outcomes'') = 0 then ''RECONCILED'' else ''UNKNOWN'')"
proof -
  let ?n = "dlen (fld d ''unknown_outcomes'')"
  obtain v where d': "d' = dset (dset d ''reconciliation'' (dupdate (fld d ''reconciliation'')
      [(''state'', JStr (if ?n = 0 then ''RECONCILED'' else ''UNKNOWN'')),
       (''run_id'', fld (env_payload c) ''reconciliation_run_id''),
       (''last_completed_at'', v), (''unknown_outcomes'', JInt ?n),
       (''fresh_snapshot_id'', fld (env_payload c) ''snapshot_id'')]))
     ''lifecycle'' (JStr (if ?n = 0 then ''READY'' else ''HALTED_UNKNOWN_OUTCOME''))"
    using assms unfolding reconciled_doc_def Let_def by (rule abindE) (simp only: act_apply prod.inject sum.inject, blast)
  show "fld d' ''unknown_outcomes'' = fld d ''unknown_outcomes''" by (simp add: d' doc_simps)
  show "fld d' ''lifecycle'' = JStr (if ?n = 0 then ''READY'' else ''HALTED_UNKNOWN_OUTCOME'')" by (simp add: d' doc_simps)
  show "fld (fld d' ''reconciliation'') ''state'' = JStr (if ?n = 0 then ''RECONCILED'' else ''UNKNOWN'')"
    by (simp add: d' doc_simps)
qed

lemma reconcile_writer_facts:
  assumes "reconcile_writer e c None sn ids modes outcomes d s = (Inr (r, d'), t)"
    and ints: "int_at_least 0 (fld (fld d' ''lease'') ''epoch'')" "int_at_least 0 (fld (fld d' ''lease'') ''fencing_token'')"
  obtains receipt where "fld (fld d' ''receipts'') (command_key c) = receipt" "decided d' receipt" "took_snapshot sn d'"
    "floored sn d d'" "version_of d = ev_state_version (env_expected c)"
    "\<And>k. k \<in> {''authority'', ''plan'', ''intent_keys''} \<Longrightarrow> fld d' k = fld d k"
proof -
  from assms(1) obtain d1 d2 d3 d4 s1 s2 s3 s4 s5 h st receipt
    where v: "version_of d = ev_state_version (env_expected c)"
      and 1: "apply_remote_fence_high_water_floor e sn d s1 = (Inr d1, s2)"
      and 2: "apply_snapshot sn (the_str (fld (env_payload c) ''reconciliation_run_id'')) d1 = Inr d2"
      and 3: "settle_intents e ids modes outcomes d2 s2 = (Inr d3, s3)"
      and 4: "reconciled_doc e c d3 s3 = (Inr d4, s4)"
      and 5: "receipt_for_candidate e d4 c h r st s4 = (Inr receipt, s5)"
      and st: "st = (if dlen (fld d4 ''unknown_outcomes'') = 0 then ''COMPLETED'' else ''REJECTED'')"
      and 6: "d' = with_receipt c receipt d4"
    unfolding reconcile_writer_def reconcile_finish_def Let_def
    by (auto simp: abind_Inr_iff aguard_Inr)
  note r = with_receipt_fields
  have f4: "fld d4 k = fld d3 k" if "k \<noteq> ''reconciliation''" "k \<noteq> ''lifecycle''" for k
    using 4 that by (auto simp: reconciled_doc_def Let_def abind_Inr_iff doc_simps)
  have f3: "fld d3 k = fld d2 k" if "k \<notin> set settled_sections" for k by (rule settle_sections [OF 3 that])
  have f2: "fld d2 k = fld d1 k" if "k \<noteq> ''broker''" "k \<noteq> ''reconciliation''" for k
    using 2 that by (auto simp: apply_snapshot_def rbind_Inr_iff Let_def doc_simps)
  have lease: "fld d' ''lease'' = fld d1 ''lease''"
    using f4 f3 f2 by (simp add: 6 r settled_sections_def)
  have i1: "int_at_least 0 (fld (fld d1 ''lease'') ''epoch'')" "int_at_least 0 (fld (fld d1 ''lease'') ''fencing_token'')"
    using ints lease by simp_all
  note fl = floor_floors [OF 1 i1]
  have "floored sn d d'" using fl(1) lease by (simp add: floored_def lease_epoch_def lease_fence_def high_water_def)
  moreover have "took_snapshot sn d'"
  proof -
    have "fld d2 ''broker'' = JObj [(''connected'', gs_connected sn), (''generation'', gs_generation sn),
        (''active_order_count'', gs_active_order_count sn), (''position_snapshot_hash'', gs_position_snapshot_hash sn),
        (''last_snapshot_at'', gs_observed_at sn), (''orders'', canon (gs_orders sn)), (''positions'', canon (gs_positions sn))]"
      using 2 by (simp add: apply_snapshot_def detached_json_def raise_def rbind_Inr_iff Let_def doc_simps split: if_splits)
        (auto simp: doc_simps)
    moreover have "fld d' ''broker'' = fld d2 ''broker''" using f4 f3 by (simp add: 6 r settled_sections_def)
    ultimately show ?thesis by (simp add: took_snapshot_def read_JObj)
  qed
  moreover have "decided d' receipt"
  proof -
    have same: "fld d' ''unknown_outcomes'' = fld d3 ''unknown_outcomes''" "fld d' ''lifecycle'' = fld d4 ''lifecycle''"
      "fld d' ''reconciliation'' = fld d4 ''reconciliation''"
      using f4 [of "''unknown_outcomes''"] by (simp_all add: 6 r(2))
    have rs: "fld receipt ''status'' = JStr st" by (rule receipt_fields(4) [OF 5])
    show ?thesis
      using same rs st reconciled_doc_fields [OF 4] by (simp add: decided_def)
  qed
  moreover have "fld d' k = fld d k" if "k \<in> {''authority'', ''plan'', ''intent_keys''}" for k
  proof -
    have k: "k \<notin> {''reconciliation'', ''lifecycle'', ''broker'', ''lease'', ''receipts'', ''audit''}" "k \<notin> set settled_sections"
      using that by (auto simp: settled_sections_def)
    have "fld d' k = fld d4 k" using k by (simp add: 6 r(2))
    also have "\<dots> = fld d1 k" using k f4 f3 f2 by simp
    also have "\<dots> = fld d k" using k fl(2) by simp
    finally show ?thesis .
  qed
  ultimately show thesis using that v by (simp add: 6 r)
qed

section \<open>What an answered reconciliation leaves\<close>

text \<open>
  A snapshot that may count: its fields are right, it is connected and fresh, it is near the clock and
  of the right account, its orders close against their count and its positions against their hash.
\<close>

definition sound_snapshot :: "'g oenv \<Rightarrow> gateway_snapshot \<Rightarrow> int \<Rightarrow> bool" where
  "sound_snapshot e sn now \<longleftrightarrow> gs_connected sn = JBool True \<and> gs_fresh sn = JBool True
     \<and> \<not> out_of_window (snapshot_time sn) now \<and> snapshot_scope e sn = Inr ()
     \<and> gs_active_order_count sn = JInt (dlen (gs_orders sn))
     \<and> gs_position_snapshot_hash sn = JStr (json_hash (gs_positions sn))"

lemma snap_Inr: "snap b msg = Inr u \<longleftrightarrow> b"
  by (auto simp: snap_def)

lemma validated_is_sound:
  assumes "validate_reconcile_snapshot e d sn b s = (Inr u, s')"
  obtains now where "sound_snapshot e sn now"
proof -
  from assms obtain now where f: "snapshot_fields sn = Inr ()" and a: "snapshot_admitted e d sn b now = Inr ()"
    by (auto simp: validate_reconcile_snapshot_def abind_Inr_iff)
  have "snapshot_facts sn = Inr ()" using a by (auto simp: snapshot_admitted_def checks_Inr_iff)
  then have "int_at_least 0 (gs_active_order_count sn)" "the_int (gs_active_order_count sn) = dlen (gs_orders sn)"
    by (simp_all add: snapshot_facts_def checks_Inr_iff snap_Inr)
  then have "gs_active_order_count sn = JInt (dlen (gs_orders sn))" by (auto simp: the_int_def dest!: int_at_leastE)
  then have "sound_snapshot e sn now"
    using f a by (auto simp: sound_snapshot_def snapshot_admitted_def snapshot_fields_def checks_Inr_iff snap_Inr)
  then show thesis by (rule that)
qed

lemma acatch_Inr: "acatch m h s = (Inr x, t) \<longleftrightarrow> m s = (Inr x, t) \<or> (\<exists>y u. m s = (Inl y, u) \<and> h y u = (Inr x, t))"
  by (auto simp: acatch_def split: prod.splits sum.splits)

lemma halting_on_rejection_Inr: "halting_on_rejection e why m s = (Inr x, t) \<longleftrightarrow> m s = (Inr x, t)"
  by (auto simp: halting_on_rejection_def acatch_Inr abind_Inr_iff split: if_splits)


section \<open>A reconciliation in the sample process\<close>

lemma document_cong:
  assumes "check_document d scope = Inr ()" "is_obj c" "keys_are c (''schema_version'' # required_sections)"
    and h: "str_sat SHA256_RE (fld c ''state_hash'')" and same: "\<And>k. k \<noteq> ''state_hash'' \<Longrightarrow> fld c k = fld d k"
  shows "check_document c scope = Inr ()"
  using assms
  by (simp add: check_document_def shape_iff check_states_def check_hashes_def check_indexes_def
      check_intent_key_def [abs_def] check_unknown_def [abs_def] check_unknown_intent_def [abs_def])

definition asked_reconcile :: envelope where
  "asked_reconcile = sample_command ''reconcile''
     (JObj [(''snapshot_id'', JStr ''snapshot-default''), (''reconciliation_run_id'', JStr ''run-00001'')])"

definition first_snapshot :: gateway_snapshot where
  "first_snapshot = fst (memory_snapshot 0 (new_memory_gateway ''account:test'' ''test''))"

lemma first_snapshot_fields [simp]:
  "gs_snapshot_id first_snapshot = JStr ''snapshot-default''" "gs_generation first_snapshot = JInt 0"
  "gs_connected first_snapshot = JBool True" "gs_fresh first_snapshot = JBool True"
  "gs_position_snapshot_hash first_snapshot = JStr (json_hash (JObj []))" "gs_observed_at first_snapshot = JStr (format_utc 0)"
  "gs_orders first_snapshot = JObj []" "gs_positions first_snapshot = JObj []" "gs_active_order_count first_snapshot = JInt 0"
  "gs_account_scope first_snapshot = JStr ''account:test''" "gs_environment first_snapshot = JStr ''test''"
  "gs_fence_epoch first_snapshot = JNull" "gs_fence_token first_snapshot = JNull"
  by (simp_all add: first_snapshot_def memory_snapshot_def new_memory_gateway_def snapshot_defaults_def)

lemma first_snapshot_valid: "validate_reconcile_snapshot sample_env (sample_doc ready_sample) first_snapshot b s
    = (Inr (), s\<lparr>r_tick := Suc (r_tick s)\<rparr>)"
proof -
  have t: "timestamp_of (JStr (format_utc 0)) f = Inr 0" for f by (rule timestamp_of_format [OF epoch_in_calendar])
  have id: "IDENTIFIER_RE ''snapshot-default''" by (simp add: id_shapes)
  have f: "snapshot_fields first_snapshot = Inr ()"
    by (simp add: snapshot_fields_def checks_Inr_iff snap_Inr t id validate_sha256_def)
  let ?b = "broker_as_dict (sm_broker ready_sample)"
  have br: "get_or ?b ''generation'' v = JInt 0" "fld ?b ''connected'' = JBool False"
    "str_or ?b ''last_snapshot_at'' w = EPOCH_TIMESTAMP" for v w
    by (simp_all add: ready_sample_def broker_as_dict_def default_broker_def read_JObj str_or_def)
  have "snapshot_admitted sample_env (sample_doc ready_sample) first_snapshot b 0 = Inr ()"
    by (simp add: br rbind_Inr_iff int_of_def py_int_def timestamp_of_epoch FUTURE_SKEW_SECONDS_def SNAPSHOT_STALE_SECONDS_def Let_def detached_json_def dlen_def snapshot_admitted_def checks_Inr_iff snap_Inr snapshot_time_def t out_of_window_def
        snapshot_scope_def snapshot_generation_def snapshot_facts_def snapshot_orders_known_def)
  then show ?thesis
    using f by (simp add: validate_reconcile_snapshot_def abind_def utc_now_def next_tick_def)
qed

definition reconciled_sample :: sample where
  "reconciled_sample = ready_sample\<lparr>
     sm_reconciliation := default_reconciliation\<lparr>rs_state := ''RECONCILED'', rs_run_id := ''run-00001'',
       rs_last_completed_at := format_utc 0, rs_fresh_snapshot_id := ''snapshot-default''\<rparr>,
     sm_broker := default_broker\<lparr>bs_connected := True, bs_position_snapshot_hash := json_hash (JObj []),
       bs_last_snapshot_at := format_utc 0\<rparr>\<rparr>"

lemma reconciled_sample_ok: "sample_ok ''account:test'' reconciled_sample"
proof -
  have "UTC_RE (format_utc 0)"
    using utc_text_parses(1) [OF epoch_in_calendar] by (simp add: UTC_RE_def format_utc_def)
  then show ?thesis
    using lease_one_ok
    by (simp add: sample_ok_def reconciled_sample_def ready_sample_def plan_one_def section_defs section_checks sample_body_def)
qed

definition snapshot_taken :: json where
  "snapshot_taken = dset (dset (sample_doc ready_sample) ''broker'' (fld (sample_doc reconciled_sample) ''broker''))
     ''reconciliation'' (dupdate (fld (sample_doc ready_sample) ''reconciliation'')
       [(''run_id'', JStr ''run-00001''), (''fresh_snapshot_id'', JStr ''snapshot-default'')])"

definition reconciled_candidate :: json where
  "reconciled_candidate = dset (dset snapshot_taken ''reconciliation'' (fld (sample_doc reconciled_sample) ''reconciliation''))
     ''lifecycle'' (JStr ''READY'')"

definition reconciled_result :: json where
  "reconciled_result = JObj [(''accepted'', JBool True), (''snapshot_id'', JStr ''snapshot-default''),
     (''unknown_outcomes'', JInt 0), (''lifecycle'', JStr ''READY'')]"

definition reconcile_hash :: string where
  "reconcile_hash = json_hash (canonical_command asked_reconcile)"

definition reconcile_receipt :: command_receipt where
  "reconcile_receipt = asked_receipt\<lparr>cr_command_hash := reconcile_hash, cr_result := reconciled_result\<rparr>"

lemma reconcile_hash: "command_hash asked_reconcile = Inr reconcile_hash"
  by (simp add: command_hash_def reconcile_hash_def sha256_json_Inr_iff canonical_command_def asked_reconcile_def
      sample_command_def actor_as_dict_def expected_as_dict_def present_def)

lemma reconcile_receipt_ok: "receipt_ok reconcile_receipt"
proof -
  have "UTC_RE (format_utc 0)"
    using utc_text_parses(1) [OF epoch_in_calendar] by (simp add: UTC_RE_def format_utc_def)
  then show ?thesis
    by (simp add: reconcile_receipt_def receipt_ok_def validate_receipt_entry_def receipt_as_dict_def asked_receipt_def
        read_JObj keys_are_def RECEIPT_FIELDS_def actor_fields_def actor_as_dict_def asked_def sample_command_def
        reconciled_result_def reconcile_hash_def CONTROL_SERVICE_def id_shapes require_member_def member_of_def
        require_log_timestamp_def int_at_least_def)
qed

lemma reconciled_elsewhere:
  assumes "k \<notin> {''state_hash'', ''broker'', ''reconciliation''}"
  shows "fld (sample_doc ready_sample) k = fld (sample_doc reconciled_sample) k"
proof -
  have b: "fld (sample_doc m) k = fld (sample_body m) k" for m using assms by (auto simp: sample_doc_def doc_simps)
  show ?thesis using assms unfolding b by (simp add: sample_body_def reconciled_sample_def read_JObj)
qed

lemma candidate_fields:
  assumes "k \<noteq> ''state_hash''"
  shows "fld reconciled_candidate k = fld (sample_doc reconciled_sample) k"
proof -
  consider "k = ''lifecycle''" | "k = ''reconciliation''" | "k = ''broker''" | "k \<notin> {''lifecycle'', ''reconciliation'', ''broker''}"
    by blast
  then show ?thesis
  proof cases
    case 1
    then show ?thesis unfolding reconciled_candidate_def by (simp add: fld_dset) (simp add: reconciled_sample_def ready_sample_def)
  next
    case 2
    then show ?thesis unfolding reconciled_candidate_def by (simp only: fld_dset) simp
  next
    case 3
    then show ?thesis unfolding reconciled_candidate_def snapshot_taken_def by (simp only: fld_dset) simp
  next
    case 4
    then have n: "''lifecycle'' \<noteq> k" "''reconciliation'' \<noteq> k" "''broker'' \<noteq> k" by blast+
    have "fld reconciled_candidate k = fld (sample_doc ready_sample) k"
      unfolding reconciled_candidate_def snapshot_taken_def fld_dset if_not_P [OF n(1)] if_not_P [OF n(2)] if_not_P [OF n(3)] ..
    then show ?thesis using reconciled_elsewhere [of k] 4 assms by simp
  qed
qed

lemma candidate_ok:
  "check_document reconciled_candidate ''account:test'' = Inr ()" "wf_json reconciled_candidate" "finite_json reconciled_candidate"
proof -
  let ?d = "sample_doc ready_sample" and ?r = "sample_doc reconciled_sample"
  have d: "valid_doc ''account:test'' ?d" "wf_json ?d" "finite_json ?d"
    by (rule sample_valid [OF ready_ok], rule sample_wf [OF ready_ok], rule sample_finite [OF ready_ok])
  have r: "valid_doc ''account:test'' ?r" "wf_json ?r" "finite_json ?r"
    by (rule sample_valid [OF reconciled_sample_ok], rule sample_wf [OF reconciled_sample_ok],
        rule sample_finite [OF reconciled_sample_ok])
  have hash: "fld reconciled_candidate ''state_hash'' = fld ?d ''state_hash''" "str_sat SHA256_RE (fld ?d ''state_hash'')"
    using valid_doc_hash [OF d(1)] by (auto simp: reconciled_candidate_def snapshot_taken_def doc_simps)
  have keys: "keys_are reconciled_candidate (''schema_version'' # required_sections)"
    unfolding reconciled_candidate_def snapshot_taken_def
    using valid_doc_shape(2) [OF d(1)] by (intro keys_are_dset) (simp_all add: required_sections_def)
  show "check_document reconciled_candidate ''account:test'' = Inr ()"
    by (rule document_cong [OF _ _ keys _ candidate_fields])
      (use r(1) hash in \<open>simp_all add: valid_doc_iff reconciled_candidate_def\<close>)
  show "wf_json reconciled_candidate" "finite_json reconciled_candidate"
    using d(2,3) r(2,3)
    by (simp_all add: reconciled_candidate_def snapshot_taken_def doc_simps reconciliation_as_dict_def broker_as_dict_def
        reconciled_sample_def default_broker_def)
qed

lemma reconcile_writer_runs:
  "reconcile_writer sample_env asked_reconcile None first_snapshot [] [] [] (sample_doc ready_sample) s
    = (Inr (reconciled_result, with_receipt asked_reconcile (receipt_as_dict reconcile_receipt) reconciled_candidate),
       s\<lparr>r_tick := Suc (Suc (r_tick s))\<rparr>)"
proof -
  let ?d = "sample_doc ready_sample" and ?c = asked_reconcile
  have p: "fld (env_payload ?c) ''snapshot_id'' = JStr ''snapshot-default''" "fld (env_payload ?c) ''reconciliation_run_id'' = JStr ''run-00001''"
    "ev_state_version (env_expected ?c) = 0"
    by (simp_all add: asked_reconcile_def sample_command_def read_JObj)
  have 1: "apply_remote_fence_high_water_floor sample_env first_snapshot ?d t = (Inr ?d, t)" for t
    by (simp add: apply_remote_fence_high_water_floor_def remote_fence_floor_def Let_def abind_def)
  have broker: "fld (sample_doc reconciled_sample) ''broker'' = JObj [(''connected'', JBool True), (''generation'', JInt 0),
      (''active_order_count'', JInt 0), (''position_snapshot_hash'', JStr (json_hash (JObj []))),
      (''last_snapshot_at'', JStr (format_utc 0)), (''orders'', JObj []), (''positions'', JObj [])]"
    by (simp add: reconciled_sample_def broker_as_dict_def default_broker_def)
  have 2: "apply_snapshot first_snapshot ''run-00001'' ?d = Inr snapshot_taken"
    unfolding apply_snapshot_def Let_def snapshot_taken_def broker
    by (simp add: detached_json_def fld_dset the_str_def sort_items_def)
  have unknowns: "dlen (fld snapshot_taken ''unknown_outcomes'') = 0"
    by (simp add: snapshot_taken_def fld_dset ready_sample_def dlen_def)
  have rec0: "fld snapshot_taken ''reconciliation'' = JObj [(''state'', JStr ''RECONCILED''), (''run_id'', JStr ''run-00001''),
      (''last_completed_at'', JStr EPOCH_TIMESTAMP), (''unknown_outcomes'', JInt 0), (''fresh_snapshot_id'', JStr ''snapshot-default'')]"
    unfolding snapshot_taken_def
    by (simp add: fld_dset) (simp add: ready_sample_def reconciliation_as_dict_def default_reconciliation_def dset_def)
  have 4: "reconciled_doc sample_env ?c snapshot_taken t = (Inr reconciled_candidate, t\<lparr>r_tick := Suc (r_tick t)\<rparr>)" for t
    unfolding reconciled_doc_def Let_def unknowns rec0 p
    by (simp add: stamp_def abind_def utc_now_def next_tick_def reconciled_candidate_def dset_def reconciled_sample_def
        reconciliation_as_dict_def default_reconciliation_def)
  have f: "fld reconciled_candidate ''lifecycle'' = JStr ''READY''" "dlen (fld reconciled_candidate ''unknown_outcomes'') = 0"
    "version_of reconciled_candidate = 0"
    using candidate_fields [of "''unknown_outcomes''"] candidate_fields [of "''state_version''"]
    by (simp_all add: reconciled_candidate_def fld_dset version_of_def reconciled_sample_def ready_sample_def dlen_def)
  have r: "reconcile_result ?c [] reconciled_candidate = reconciled_result"
    by (simp add: reconcile_result_def Let_def f p reconciled_result_def)
  have rc: "receipt_for_candidate sample_env reconciled_candidate ?c reconcile_hash reconciled_result ''COMPLETED'' t
      = (Inr (receipt_as_dict reconcile_receipt), t\<lparr>r_tick := Suc (r_tick t)\<rparr>)" for t
    by (simp add: receipt_for_candidate_def abind_def utc_now_def next_tick_def f reconcile_receipt_def asked_receipt_def
        asked_reconcile_def asked_def sample_command_def)
  have v: "version_of ?d = 0" by (simp add: version_of_def)
  show ?thesis
    unfolding reconcile_writer_def Let_def p
    by (simp add: abind_def aguard_def v 1 2 4 reconcile_finish_def f r reconcile_hash rc)
qed

lemma reconciled_candidate_grows: "assert_append_only (sample_doc ready_sample) reconciled_candidate = Inr ()"
proof (rule append_only_intro)
  show "valid_doc ''account:test'' (sample_doc ready_sample)" "wf_json (sample_doc ready_sample)"
    by (rule sample_valid [OF ready_ok], rule sample_wf [OF ready_ok])
  note f = candidate_fields sample_sections
  show "\<exists>xs. jarr (fld reconciled_candidate k) = jarr (fld (sample_doc ready_sample) k) @ xs"
    if "k \<in> {''audit'', ''terminal_archive''}" for k
    using that by (auto simp: candidate_fields)
  show "\<exists>n. fld (fld reconciled_candidate (fst sf)) (snd sf) = JInt n \<and> high_water (sample_doc ready_sample) sf \<le> n"
    if "sf \<in> set HIGH_WATERS" for sf
  proof -
    have g: "fld (broker_as_dict (sm_broker ready_sample)) ''generation'' = JInt 0"
      "fld (broker_as_dict (sm_broker reconciled_sample)) ''generation'' = JInt 0"
      by (simp_all add: reconciled_sample_def ready_sample_def broker_as_dict_def default_broker_def read_JObj)
    have l: "sm_lease reconciled_sample = sm_lease ready_sample" "sm_plan reconciled_sample = sm_plan ready_sample"
      by (simp_all add: reconciled_sample_def)
    have "fld (fld (sample_doc reconciled_sample) (fst sf)) (snd sf) = fld (fld (sample_doc ready_sample) (fst sf)) (snd sf)"
      using that by (auto simp only: HIGH_WATERS_def list.set fst_conv snd_conv insert_iff empty_iff sample_sections l g)
    moreover have "fst sf \<noteq> ''state_hash''" using that by (auto simp only: HIGH_WATERS_def list.set fst_conv)
    ultimately have "fld (fld reconciled_candidate (fst sf)) (snd sf) = JInt (high_water (sample_doc ready_sample) sf)"
      using valid_doc_high_water(1) [OF sample_valid [OF ready_ok] that] candidate_fields [of "fst sf"] by metis
    then show ?thesis by blast
  qed
  have none: "sm_intents ready_sample = []" "sm_keys ready_sample = []" by (simp_all add: ready_sample_def)
  show "\<exists>v'. dget (fld reconciled_candidate ''send_intents'') k = Some v' \<and> creation_facts v' = creation_facts v
      \<and> fld v' ''intent_id'' = fld v ''intent_id''" if "dget (fld (sample_doc ready_sample) ''send_intents'') k = Some v" for k v
    using that by (simp add: none dget_def)
  show "fld (fld reconciled_candidate u) k = v" if "u \<in> {''intent_keys'', ''receipts''}"
    "dget (fld (sample_doc ready_sample) u) k = Some v" for u k v
    using that by (auto simp: none dget_def)
qed

text \<open>The whole command.\<close>

lemma asked_reconcile_runs:
  obtains answer s' where "reconcile_command sample_env asked_reconcile None None (sample_world ready_sample) = (Inr answer, s')"
proof -
  let ?s = "sample_world ready_sample" and ?d = "sample_doc ready_sample" and ?c = asked_reconcile
  let ?W = "reconcile_writer sample_env ?c None first_snapshot [] [] []"
  let ?x = "with_receipt ?c (receipt_as_dict reconcile_receipt) reconciled_candidate"
  define g where "g = snd (memory_snapshot 0 (new_memory_gateway ''account:test'' ''test''))"
  define t where "t = ?s\<lparr>w_gateway := g, r_tick := Suc (Suc 0)\<rparr>"
  have sn: "reconcile_snapshot sample_env ?s = (Inr first_snapshot, ?s\<lparr>w_gateway := g, r_tick := Suc 0\<rparr>)"
    by (simp add: reconcile_snapshot_def acatch_def abind_def call_gateway_def utc_now_def next_tick_def in_memory_gateway_def
        coerce_snapshot_def first_snapshot_def g_def split: prod.splits)
  have rd: "read_state sample_env (?s\<lparr>w_gateway := g, r_tick := Suc 0\<rparr>) = (Inr ?d, ?s\<lparr>w_gateway := g, r_tick := Suc 0\<rparr>)"
    by (simp add: read_state_in_memory)
  have nm: "snapshot_named sample_env ?d first_snapshot ?c u = (Inr (), u)" for u
    by (simp add: snapshot_named_def asked_reconcile_def sample_command_def read_JObj)
  have v: "halting_on_rejection sample_env why (validate_reconcile_snapshot sample_env ?d first_snapshot b)
      (?s\<lparr>w_gateway := g, r_tick := Suc 0\<rparr>) = (Inr (), t)" for why b
    by (simp add: halting_on_rejection_def acatch_def first_snapshot_valid t_def)
  have q: "recovery_modes ?d = []" "query_outcomes sample_env ?d u = (Inr [], u)"
    "trading_day_rollover_terminal_ids ?d first_snapshot [] None = []" for u
    by (simp_all add: recovery_modes_def query_outcomes_def submitted_ids_def ready_sample_def unknowns_of_def intents_of_def
        trading_day_rollover_terminal_ids_def)
  note d = sample_valid [OF ready_ok] sample_wf [OF ready_ok]
  have k: "command_key ?c = cr_service reconcile_receipt @ '':'' @ cr_idempotency_key reconcile_receipt"
    by (simp add: command_key_def asked_reconcile_def sample_command_def reconcile_receipt_def asked_receipt_def)
  have same: "fld reconciled_candidate ''receipts'' = fld ?d ''receipts''" by (simp add: candidate_fields)
  then have new: "\<not> has_key (fld ?d ''receipts'') (command_key ?c)" "\<not> has_key (fld reconciled_candidate ''receipts'') (command_key ?c)"
    by (simp_all add: has_key_iff)
  have app: "assert_append_only ?d ?x = Inr ()"
    by (rule with_receipt_append_only [OF d reconciled_candidate_grows new(1) same])
  have t: "r_mem t = ?d" "r_available t" by (simp_all add: t_def)
  have ver: "version_of ?d = 0" "ev_state_version (env_expected ?c) = 0"
    by (simp_all add: version_of_def asked_reconcile_def sample_command_def)
  obtain s' where m: "mutate (repo_env sample_env) ?W (Some 0) t
      = (Inr (reconciled_result, dset ?x ''state_version'' (JInt (version_of ?d + 1))), s')"
    by (rule mutate_in_memory [of "repo_env sample_env" t "Some 0" ?W reconciled_result ?x "t\<lparr>r_tick := Suc (Suc (r_tick t))\<rparr>"])
      (use d(1) t ver app reconcile_writer_runs [of t] with_receipt_ok [OF candidate_ok reconcile_receipt_ok k new(2)]
        in simp_all)
  have "reconcile_command sample_env ?c None None ?s
      = (Inr (command_response (fld (fld (dset ?x ''state_version'' (JInt (version_of ?d + 1))) ''receipts'') (command_key ?c))
          reconciled_result False), s')"
    unfolding reconcile_command_def Let_def
    by (simp add: abind_def sn rd nm v q ver(2)) (simp add: halting_on_rejection_def acatch_def m)
  then show thesis by (rule that)
qed


end
