(* ===== verification/Halt_Properties.thy ===== *)
theory Halt_Properties
  imports Reconcile_Properties
begin

text \<open>
  How the orchestrator stops: what a refused snapshot and a failed cancellation leave, in the durable
  document or, when that cannot be written, in the process.
\<close>

section \<open>Marks\<close>

text \<open>The document that requires a reconciliation, with the reason on record.\<close>

definition halted_doc :: "json \<Rightarrow> bool" where
  "halted_doc d \<longleftrightarrow> fld d ''lifecycle'' = JStr ''HALTED_RECONCILE_REQUIRED''
     \<and> fld (fld d ''reconciliation'') ''state'' = JStr ''REQUIRED''"

lemma halted_admits: "halted_doc d \<Longrightarrow> state_admits action a now d \<Longrightarrow> action = ''cancel'' \<and> oa_emergency a"
  by (auto simp: halted_doc_def state_admits_def unsettled_def)

text \<open>
  Stopped: nothing but a cancellation of the emergency stop passes the checks any more, either because
  of the document, which the file holds as well, or because of the process.
\<close>

definition stopped :: "'g oenv \<Rightarrow> 'g world \<Rightarrow> bool" where
  "stopped e s \<longleftrightarrow> w_local_halted s
     \<or> halted_doc (r_mem s) \<and> (e_path e \<longrightarrow> r_disk s = Stored (canon (r_mem s)))"

definition mark_writer :: "'g oenv \<Rightarrow> (json \<Rightarrow> json) \<Rightarrow> json \<Rightarrow> ('g, json) wop" where
  "mark_writer e entry d = abind (stamp e) (\<lambda>t. aret (append_to (reconcile_required_doc d) ''audit'' (entry t)))"

lemma marks_by_writer:
  "mark_reconcile_halted e why = or_halt_locally (update_doc e (mark_writer e
     (\<lambda>t. JObj [(''kind'', JStr ''reconcile_rejected''), (''reason'', JStr why), (''observed_at'', t)])) None)"
  "mark_cancel_failure e i why = or_halt_locally (update_doc e (mark_writer e
     (\<lambda>t. JObj [(''kind'', JStr ''cancel_rejected''), (''target_intent_id'', JStr i), (''reason'', JStr why),
       (''observed_at'', t)])) None)"
  by (simp_all add: mark_reconcile_halted_def mark_cancel_failure_def mark_writer_def [abs_def])

lemma mark_writer_neutral: "leaves repo_part (mark_writer e entry d)"
  unfolding mark_writer_def stamp_def by (intro leaves_rules tick_blind_repo_part)

lemma mark_writer_halts:
  assumes "mark_writer e entry d s = (Inr d', t)"
  shows "halted_doc d'" "\<exists>v. entry v \<in> set (jarr (fld d' ''audit''))"
  using assms
  by (auto simp: mark_writer_def abind_Inr_iff append_to_def reconcile_required_doc_def Let_def halted_doc_def doc_simps)

lemma halted_cong:
  assumes "sealed scope mem (dset cand ''state_version'' v) = Inr d" "halted_doc cand"
  shows "halted_doc d" "fld d ''audit'' = fld cand ''audit''"
  using assms by (simp_all add: halted_doc_def sealed_Inr(3) [OF assms(1)] doc_simps)

lemma mark_stops:
  assumes "or_halt_locally (update_doc e (mark_writer e entry) None) s = (Inr u, s')"
  shows "stopped e s'"
  using assms unfolding or_halt_locally_def acatch_Inr
proof (elim disjE exE conjE)
  assume "update_doc e (mark_writer e entry) None s = (Inr u, s')"
  then show ?thesis
    by (rule update_doc_ok [OF _ mark_writer_neutral])
      (auto simp: stopped_def dest: mark_writer_halts(1) halted_cong(1))
next
  fix y t
  assume "(if is_a y RepositoryUnavailableError then halt_locally else athrow y) t = (Inr u, s')"
  then show ?thesis by (auto simp: stopped_def halt_locally_def split: if_splits)
qed

section \<open>A refused snapshot\<close>


definition refused_snapshot :: gateway_snapshot where
  "refused_snapshot = first_snapshot\<lparr>gs_connected := JBool False\<rparr>"

definition refusing_world :: "memory_gateway world" where
  "refusing_world = (sample_world ready_sample)\<lparr>w_gateway :=
     (new_memory_gateway ''account:test'' ''test'')\<lparr>im_snapshots := [refused_snapshot]\<rparr>\<rparr>"


section \<open>A failed sweep\<close>

text \<open>The repository refuses an audit entry about the target \<open>all\<close>: it is no identifier.\<close>

lemma all_is_no_target: "validate_audit_entry (JObj [(''kind'', JStr ''cancel_rejected''),
    (''target_intent_id'', JStr ''all''), (''reason'', w), (''observed_at'', t)]) \<noteq> Inr ()"
  by (simp add: validate_audit_entry_def audit_schema_def keys_are_def read_JObj rbind_Inr_iff has_key_iff dget_def id_shapes)

lemma all_never_written: "update_doc e (mark_writer e (\<lambda>t. JObj [(''kind'', JStr ''cancel_rejected''),
    (''target_intent_id'', JStr ''all''), (''reason'', w), (''observed_at'', t)])) None s \<noteq> (Inr u, s')"
    (is "update_doc e (mark_writer e ?entry) None s \<noteq> _")
proof
  assume "update_doc e (mark_writer e ?entry) None s = (Inr u, s')"
  then show False
  proof (rule update_doc_ok [OF _ mark_writer_neutral])
    fix mem cand t t'
    assume w: "mark_writer e ?entry mem t = (Inr cand, t')"
      and sl: "sealed (e_scope e) mem (dset cand ''state_version'' (JInt (version_of mem + 1))) = Inr (r_mem s')"
    note h = halted_cong [OF sl mark_writer_halts(1) [OF w]]
    obtain v where "?entry v \<in> set (jarr (fld (r_mem s') ''audit''))"
      using mark_writer_halts(2) [OF w] h(2) by auto
    then have "validate_audit_entry (?entry v) = Inr ()"
      using valid_doc_checks(9) [OF sealed_Inr(1) [OF sl]] by blast
    then show False using all_is_no_target by blast
  qed
qed



end
