(* ===== verification/Query_Properties.thy ===== *)
theory Query_Properties
  imports Halt_Properties
begin

text \<open>
  What a query of one intent does to the document: an intent the broker gives any known state for is
  closed, whatever that state is.
\<close>

section \<open>A change of one intent\<close>

lemma one_intent_ok:
  assumes d: "valid_doc scope d" "wf_json d" "\<not> truthy (fld d ''unknown_outcomes'')"
    and i: "dget (fld d ''send_intents'') i = Some raw"
    and raw': "check_intent (i, raw') = Inr ()" "creation_facts raw' = creation_facts raw"
      "fld raw' ''intent_id'' = fld raw ''intent_id''" "fld raw' ''idempotency_key'' = fld raw ''idempotency_key''"
      "fld raw' ''state'' \<noteq> JStr ''UNKNOWN_OUTCOME''"
    and c: "is_obj c" "keys_are c (''schema_version'' # required_sections)" "wf_json c"
    and f: "fld c ''send_intents'' = dset (fld d ''send_intents'') i raw'"
      "fld c ''lifecycle'' = fld d ''lifecycle''"
      "is_obj (fld c ''reconciliation'')" "fld (fld c ''reconciliation'') ''state'' \<in> JStr ` set RECONCILIATION_STATES"
      "fld (fld c ''reconciliation'') ''unknown_outcomes'' = JInt 0"
      "\<And>k. k \<notin> {''send_intents'', ''reconciliation''} \<Longrightarrow> fld c k = fld d k"
  shows "check_document c scope = Inr ()" "assert_append_only d c = Inr ()"
proof -
  note v = valid_doc_checks [OF d(1)]
  have objs: "is_obj (fld d ''send_intents'')" "is_obj (fld d ''unknown_outcomes'')"
    using v(1) by (simp_all add: shape_iff)
  have none: "items (fld d ''unknown_outcomes'') = []"
    using d(3) objs(2) by (cases "fld d ''unknown_outcomes''") auto
  have at: "dget (fld c ''send_intents'') k = (if k = i then Some raw' else dget (fld d ''send_intents'') k)" for k
    by (simp add: f(1) dget_dset)
  have u: "fld c ''unknown_outcomes'' = fld d ''unknown_outcomes''" using f(6) by simp
  have kept: "\<exists>v'. dget (fld c ''send_intents'') k = Some v' \<and> creation_facts v' = creation_facts v
      \<and> fld v' ''intent_id'' = fld v ''intent_id'' \<and> fld v' ''idempotency_key'' = fld v ''idempotency_key''"
    if "dget (fld d ''send_intents'') k = Some v" for k v
    using that i raw' by (cases "k = i") (auto simp: at)
  have old: "check_intent (k, v) = Inr ()" if "dget (fld d ''send_intents'') k = Some v" for k v
    using that v(8) dget_mem by (fastforce simp: check_indexes_def rall_Inr_iff)
  have flagged: "\<not> (dget (fld d ''send_intents'') k = Some v \<and> fld v ''state'' = JStr ''UNKNOWN_OUTCOME'')" for k v
    using v(8) none dget_mem [of "fld d ''send_intents''" k v]
    by (fastforce simp: check_indexes_def rall_Inr_iff check_unknown_intent_def has_key_def keys_def)
  show "check_document c scope = Inr ()"
  proof (rule valid_resectioned [OF d(1) c(1,2)])
    show "fld c k = fld d k" if "k \<notin> set intent_sections" for k
      using that by (intro f(6)) (auto simp: intent_sections_def)
    show "fld c ''lifecycle'' \<in> JStr ` set LIFECYCLES"
      using v(2) by (auto simp: f(2) check_states_def checks_Inr_iff need_def str_sat_in)
    show "check_indexes c = Inr ()"
    proof (rule indexes_intro [OF d(1) c(3)])
      show "check_intent (k, v) = Inr ()" if "dget (fld c ''send_intents'') k = Some v" for k v
        using that old raw'(1) by (auto simp: at split: if_splits)
      show "\<exists>v'. dget (fld c ''send_intents'') k = Some v' \<and> fld v' ''idempotency_key'' = fld v ''idempotency_key''"
        if "dget (fld d ''send_intents'') k = Some v" for k v
        using kept [OF that] by blast
      show "has_key (fld c ''unknown_outcomes'') k"
        if "dget (fld c ''send_intents'') k = Some v" "fld v ''state'' = JStr ''UNKNOWN_OUTCOME''" for k v
        using that flagged raw'(5) by (auto simp: at split: if_splits)
    qed (use f none in \<open>simp_all add: u has_key_def keys_def dlen_def\<close>)
  qed (use f objs in \<open>simp_all add: u\<close>)
  show "assert_append_only d c = Inr ()"
  proof (rule append_only_resectioned [OF d(1,2)])
    show "\<exists>v'. dget (fld c ''send_intents'') k = Some v' \<and> creation_facts v' = creation_facts v
        \<and> fld v' ''intent_id'' = fld v ''intent_id''" if "dget (fld d ''send_intents'') k = Some v" for k v
      using kept [OF that] by blast
    show "fld c k = fld d k" if "k \<notin> set intent_sections \<union> {''audit'', ''terminal_archive''}" for k
      using that by (intro f(6)) (auto simp: intent_sections_def)
    show "\<exists>xs. jarr (fld c k) = jarr (fld d k) @ xs" if "k \<in> {''audit'', ''terminal_archive''}" for k
      using f(6) [of k] that by auto
  qed
qed

lemma close_unknown_valid:
  assumes d: "valid_doc scope d" "wf_json d" "finite_json d" "fld d ''unknown_outcomes'' = JObj []"
    and l: "fld d ''lifecycle'' \<noteq> JStr ''HALTED_UNKNOWN_OUTCOME''"
    and i: "dget (fld d ''send_intents'') i = Some raw"
  shows "check_document (close_unknown_doc i d) scope = Inr ()" "assert_append_only d (close_unknown_doc i d) = Inr ()"
    "wf_json (close_unknown_doc i d)" "finite_json (close_unknown_doc i d)"
proof -
  let ?c = "close_unknown_doc i d" and ?r = "dset raw ''state'' (JStr ''RECONCILED'')"
  note v = valid_doc_checks [OF d(1)]
  have ci: "check_intent (i, raw) = Inr ()"
    using i v(8) dget_mem by (fastforce simp: check_indexes_def rall_Inr_iff)
  then have o: "is_obj raw" by (simp add: check_intent_def)
  have raw: "fld (fld d ''send_intents'') i = raw" using i by (rule dget_Some_fld)
  have e: "dpop (JObj []) i = JObj []" "dlen (JObj []) = 0" by (simp_all add: dpop_def dlen_def)
  have f: "fld ?c ''send_intents'' = dset (fld d ''send_intents'') i ?r" "fld ?c ''lifecycle'' = fld d ''lifecycle''"
    "fld ?c ''reconciliation'' = dset (dset (fld d ''reconciliation'') ''unknown_outcomes'' (JInt 0)) ''state'' (JStr ''RECONCILED'')"
    "fld ?c ''unknown_outcomes'' = JObj []" "is_obj ?c"
    using d(4) o l by (simp_all add: close_unknown_doc_def Let_def drop_unknown_def set_intent_field_def set_in_def doc_simps raw e)
  have same: "fld ?c k = fld d k" if "k \<notin> {''send_intents'', ''reconciliation''}" for k
  proof (cases "k \<in> {''unknown_outcomes'', ''lifecycle''}")
    case True
    then show ?thesis using f(2,4) d(4) by auto
  next
    case False
    then have "''send_intents'' \<noteq> k" "''reconciliation'' \<noteq> k" "''unknown_outcomes'' \<noteq> k" "''lifecycle'' \<noteq> k"
      using that by auto
    then show ?thesis
      using d(4) o l by (simp add: close_unknown_doc_def Let_def drop_unknown_def set_intent_field_def set_in_def fld_dset raw e)
  qed
  have keys: "keys_are ?c (''schema_version'' # required_sections)"
    using valid_doc_shape(2) [OF d(1)] unfolding close_unknown_doc_def Let_def drop_unknown_def set_intent_field_def set_in_def
    by (auto intro!: keys_are_dset simp: required_sections_def)
  have rw: "wf_json raw" "finite_json raw"
    using wf_json_fld [of "fld d ''send_intents''" i] finite_json_fld [of "fld d ''send_intents''" i] d(2,3) raw by auto
  show wf: "wf_json ?c" and "finite_json ?c"
    using d(2,3) rw by (simp_all add: close_unknown_doc_def Let_def drop_unknown_def set_intent_field_def set_in_def doc_simps raw)
  have r: "check_intent (i, ?r) = Inr ()" "creation_facts ?r = creation_facts raw"
    "fld ?r ''intent_id'' = fld raw ''intent_id''" "fld ?r ''idempotency_key'' = fld raw ''idempotency_key''"
    "fld ?r ''state'' \<noteq> JStr ''UNKNOWN_OUTCOME''"
    using check_intent_dset [OF ci, of "''state''" "JStr ''RECONCILED''"] o
    by (simp_all add: INTENT_STATES_def creation_facts_dset MUTABLE_INTENT_FIELDS_def doc_simps)
  have u: "\<not> truthy (fld d ''unknown_outcomes'')" by (simp add: d(4))
  show "check_document ?c scope = Inr ()" "assert_append_only d ?c = Inr ()"
    by (rule one_intent_ok [OF d(1,2) u i r f(5) keys wf f(1,2)];
        use f(3) same in \<open>simp add: doc_simps RECONCILIATION_STATES_def\<close>)+
qed

section \<open>A query\<close>

text \<open>The gateway answers a query with a dictionary: one value for a key.\<close>

definition answers_dicts :: "'g oenv \<Rightarrow> 'g world \<Rightarrow> bool" where
  "answers_dicts e s \<longleftrightarrow> (\<forall>i c t r. fst (gw_query (oe_gateway e) i c t (w_gateway s)) = Inr r \<longrightarrow> wf_json r)"

lemma fld_updated:
  assumes "wf_json r" "k \<noteq> k'"
  shows "fld (dupdate (JObj [(k', v)]) (items r)) k = fld r k" "get_or (dupdate (JObj [(k', v)]) (items r)) k x = get_or r k x"
proof -
  have "dget (dupdate d kvs) k = (case map_of kvs k of Some y \<Rightarrow> Some y | None \<Rightarrow> dget d k)"
    if "distinct (map fst kvs)" for d kvs
    using that
  proof (induction kvs arbitrary: d)
    case (Cons z zs)
    then show ?case
      by (cases z) (auto simp: dupdate_def dget_dset map_of_eq_None_iff image_iff split: option.splits)
  qed (simp add: dupdate_def)
  moreover have "distinct (map fst (items r))" using distinct_keys [OF assms(1)] by (simp add: keys_def)
  ultimately have "dget (dupdate (JObj [(k', v)]) (items r)) k = dget r k"
    using assms(2) by (auto simp: dget_def split: option.splits)
  then show "fld (dupdate (JObj [(k', v)]) (items r)) k = fld r k" "get_or (dupdate (JObj [(k', v)]) (items r)) k x = get_or r k x"
    by (simp_all add: fld_def get_or_def)
qed

lemma unknown_updated:
  assumes "wf_json r"
  shows "outcome_is_unknown (dupdate (JObj [(''intent_id'', v)]) (items r)) = outcome_is_unknown r"
  using assms by (simp add: outcome_is_unknown_def state_upper_def str_or_def fld_updated)

lemma query_closes:
  assumes "query_intent e i s = (Inr answer, s')" "\<not> outcome_is_unknown answer" "answers_dicts e s"
  obtains t where "close_unknown_if_resolved e i t = (Inr (), s')"
proof -
  let ?ask = "\<lambda>x. acatch (abind (call_gateway e (gw_query (oe_gateway e) x (context_from_intent e x)))
    (\<lambda>r. abind (alift (result_dict r)) (\<lambda>d. aret (Inr d)))) (\<lambda>x. aret (Inl (exn_text x)))"
  obtain d s1 x q s2 where d: "read_state e s = (Inr d, s1)" and q: "?ask x s1 = (Inr q, s2)"
    and rest: "(case q of Inl error \<Rightarrow> aret (JObj [(''intent_id'', JStr i), (''state'', JStr ''UNKNOWN_OUTCOME''), (''error'', JStr error)])
          | Inr result \<Rightarrow> abind (aif (\<not> outcome_is_unknown result)
                (abind (mark_intent_result e i result) (\<lambda>_. close_unknown_if_resolved e i)))
              (\<lambda>_. aret (dupdate (JObj [(''intent_id'', JStr i)]) (items result)))) s2 = (Inr answer, s')"
    using assms(1) unfolding query_intent_def Let_def
    by (elim abindE) (auto simp: validate_identifier_def raise_def split: if_splits elim!: abindE)
  have g: "w_gateway s1 = w_gateway s"
    using leavesD [OF leaves_read_state d, of w_gateway] by simp
  show thesis
  proof (cases q)
    case (Inl error)
    then have "outcome_is_unknown answer"
      using rest by (auto simp: outcome_is_unknown_def state_upper_def str_or_def UNKNOWN_STATES_def read_JObj str_upper_def to_upper_char_def is_lower_char_def char_between_def char_le_of_char)
    with assms(2) show thesis ..
  next
    case (Inr result)
    then obtain t r g' where r: "gw_query (oe_gateway e) x (context_from_intent e x) t (w_gateway s) = (Inr r, g')"
      and res: "result_dict r = Inr result"
      using q g by (auto simp: acatch_Inr abind_Inr_iff call_gateway_def utc_now_def next_tick_def split: prod.splits)
    have "wf_json r" using assms(3) r unfolding answers_dicts_def by (metis fst_conv)
    then have "wf_json result" using res by (auto simp: result_dict_def raise_def split: if_splits)
    then have u: "outcome_is_unknown result = outcome_is_unknown answer"
      using rest Inr unknown_updated by (auto simp: abind_Inr_iff)
    with assms(2) rest Inr show thesis
      by (auto simp: aif_def abind_Inr_iff intro: that)
  qed
qed

text \<open>What closing leaves: no open outcome and, if the intent is there, a closed one.\<close>

definition closed_intent :: "string \<Rightarrow> json \<Rightarrow> bool" where
  "closed_intent i d \<longleftrightarrow> \<not> has_key (fld d ''unknown_outcomes'') i
     \<and> (is_obj (fld (fld d ''send_intents'') i) \<longrightarrow> fld (fld (fld d ''send_intents'') i) ''state'' = JStr ''RECONCILED'')"

lemma close_unknown_closes: "closed_intent i (close_unknown_doc i d)"
proof -
  let ?c = "close_unknown_doc i d" and ?raw = "fld (fld d ''send_intents'') i"
  have u: "fld ?c ''unknown_outcomes'' = dpop (fld d ''unknown_outcomes'') i"
    by (simp add: close_unknown_doc_def Let_def drop_unknown_def set_intent_field_def set_in_def doc_simps)
  have i: "fld (fld ?c ''send_intents'') i = (if is_obj ?raw then dset ?raw ''state'' (JStr ''RECONCILED'') else ?raw)"
    by (simp add: close_unknown_doc_def Let_def drop_unknown_def set_intent_field_def set_in_def doc_simps)
  have k: "\<not> has_key (dpop (fld d ''unknown_outcomes'') i) i"
    by (simp add: has_key_iff dget_dpop)
  show ?thesis
    unfolding closed_intent_def u i using k by (simp add: doc_simps)
qed

lemma close_unknown_ok:
  assumes "close_unknown_if_resolved e i s = (Inr u, s')"
  shows "closed_intent i (r_mem s') \<and> (e_path e \<longrightarrow> r_disk s' = Stored (canon (r_mem s'))) \<and> valid_doc (e_scope e) (r_mem s')"
proof -
  have n: "leaves repo_part (aret (close_unknown_doc i d))" for d by (intro leaves_rules)
  show ?thesis
    using assms unfolding close_unknown_if_resolved_def
  proof (rule update_doc_ok [OF _ n])
    fix mem cand t t'
    assume c: "aret (close_unknown_doc i mem) t = (Inr cand, t')"
      and sl: "sealed (e_scope e) mem (dset cand ''state_version'' (JInt (version_of mem + 1))) = Inr (r_mem s')"
      and disk: "e_path e \<Longrightarrow> r_disk s' = Stored (canon (r_mem s'))"
    have "fld (r_mem s') k = fld cand k" if "k \<in> {''send_intents'', ''unknown_outcomes''}" for k
      using that by (auto simp: sealed_Inr(3) [OF sl] doc_simps)
    then show ?thesis
      using close_unknown_closes [of i mem] c disk sealed_Inr(1) [OF sl] by (simp add: closed_intent_def)
  qed
qed

text \<open>
  C29: a query that the broker answers with any state it knows of closes the intent, in the durable
  document, as RECONCILED. From then on no cancellation sweep, of a stop or of an emergency, cancels
  its order, also when the answer was that the order is still working.
\<close>

theorem answered_query_closes_the_intent:
  assumes "query_intent e i s = (Inr answer, s')" "\<not> outcome_is_unknown answer" "answers_dicts e s"
  shows "closed_intent i (r_mem s') \<and> (e_path e \<longrightarrow> r_disk s' = Stored (canon (r_mem s')))
    \<and> (\<forall>emergency. wf_json (r_mem s') \<longrightarrow> i \<notin> set (cancel_targets emergency (r_mem s')))"
proof -
  obtain t where "close_unknown_if_resolved e i t = (Inr (), s')" by (rule query_closes [OF assms])
  note c = close_unknown_ok [OF this]
  have "i \<notin> set (cancel_targets b (r_mem s'))" if "wf_json (r_mem s')" for b
  proof
    assume "i \<in> set (cancel_targets b (r_mem s'))"
    then obtain raw where raw: "(i, raw) \<in> set (items (fld (r_mem s') ''send_intents''))" "is_obj raw"
      "fld raw ''state'' = JStr ''ACKNOWLEDGED'' \<or> str_sat (\<lambda>st. st \<in> set ACTIVE_INTENT_STATES) (fld raw ''state'')"
      using valid_get_or [of "e_scope e" "r_mem s'" "''send_intents''" "JObj []"] c
      by (auto simp: cancel_targets_def intents_of_def required_sections_def split: if_splits)
    have "fld (fld (r_mem s') ''send_intents'') i = raw"
      using raw(1) that wf_keys [of "fld (r_mem s') ''send_intents''" i raw] by (simp add: dget_Some_fld)
    then have "fld raw ''state'' = JStr ''RECONCILED''" using c raw(2) by (simp add: closed_intent_def)
    then show False using raw(3) by (auto simp: ACTIVE_INTENT_STATES_def)
  qed
  with c show ?thesis by blast
qed

section \<open>A working order that is lost to the sweeps\<close>

definition working_answer :: json where
  "working_answer = JObj [(''state'', JStr ''ACKNOWLEDGED''), (''broker_order_id'', JStr ''order-1'')]"

definition working_world :: "memory_gateway world" where
  "working_world = (sample_world traded_sample)\<lparr>w_gateway :=
     (new_memory_gateway ''account:test'' ''test'')\<lparr>im_intent_outcomes := [(''intent-0001'', working_answer)]\<rparr>\<rparr>"

definition named_intent :: json where
  "named_intent = dset (dset intent_one ''state'' (JStr ''ACKNOWLEDGED'')) ''broker_order_id'' (JStr ''order-1'')"

lemma named_intent_ok:
  "check_intent (''intent-0001'', named_intent) = Inr ()" "creation_facts named_intent = creation_facts intent_one"
  "fld named_intent ''intent_id'' = fld intent_one ''intent_id''" "fld named_intent ''idempotency_key'' = fld intent_one ''idempotency_key''"
  "fld named_intent ''state'' = JStr ''ACKNOWLEDGED''" "is_obj named_intent" "wf_json named_intent" "finite_json named_intent"
proof -
  have o: "is_obj intent_one" by (simp add: intent_one_def)
  show "check_intent (''intent-0001'', named_intent) = Inr ()"
    unfolding named_intent_def by (intro check_intent_dset intent_one_ok) (auto simp: INTENT_STATES_def)
  show "creation_facts named_intent = creation_facts intent_one"
    unfolding named_intent_def using o by (simp add: creation_facts_dset MUTABLE_INTENT_FIELDS_def)
qed (simp_all add: named_intent_def doc_simps)

definition named_doc :: json where
  "named_doc = put_raw_intent (sample_doc traded_sample) ''intent-0001'' named_intent"

lemma traded_sections:
  "fld (sample_doc traded_sample) ''send_intents'' = JObj [(''intent-0001'', intent_one)]"
  "fld (sample_doc traded_sample) ''unknown_outcomes'' = JObj []" "fld (sample_doc traded_sample) ''lifecycle'' = JStr ''READY''"
  "fld (sample_doc traded_sample) ''reconciliation'' = reconciliation_as_dict (default_reconciliation\<lparr>rs_state := ''RECONCILED''\<rparr>)"
  by (simp_all add: traded_sample_def ready_sample_def)

lemma named_doc_ok:
  "check_document named_doc ''account:test'' = Inr ()" "assert_append_only (sample_doc traded_sample) named_doc = Inr ()"
  "wf_json named_doc" "finite_json named_doc"
proof -
  let ?d = "sample_doc traded_sample"
  have d: "valid_doc ''account:test'' ?d" "wf_json ?d" "finite_json ?d"
    by (rule sample_valid [OF traded_ok], rule sample_wf [OF traded_ok], rule sample_finite [OF traded_ok])
  have i: "dget (fld ?d ''send_intents'') ''intent-0001'' = Some intent_one" unfolding traded_sections by (simp add: dget_def)
  show wf: "wf_json named_doc" "finite_json named_doc"
    using d(2,3) named_intent_ok(7,8) finite_json_fld [OF d(3), of "''send_intents''"] wf_json_fld [OF d(2), of "''send_intents''"]
    unfolding named_doc_def put_raw_intent_def by (simp_all del: sample_sections)
  have k: "keys_are named_doc (''schema_version'' # required_sections)"
    unfolding named_doc_def put_raw_intent_def
    using valid_doc_shape(2) [OF d(1)] by (intro keys_are_dset) (simp_all add: required_sections_def)
  have e: "\<not> truthy (fld ?d ''unknown_outcomes'')" unfolding traded_sections by simp
  have s: "fld named_intent ''state'' \<noteq> JStr ''UNKNOWN_OUTCOME''" by (simp add: named_intent_ok)
  have f: "fld named_doc ''send_intents'' = dset (fld ?d ''send_intents'') ''intent-0001'' named_intent"
    "k \<noteq> ''send_intents'' \<Longrightarrow> fld named_doc k = fld ?d k" "is_obj named_doc" for k
    by (simp_all only: named_doc_def put_raw_intent_def fld_dset if_True refl keys_simps) auto
  have rec: "fld named_doc ''reconciliation'' = reconciliation_as_dict (default_reconciliation\<lparr>rs_state := ''RECONCILED''\<rparr>)"
    by (rule trans [OF f(2) traded_sections(4)]) simp
  have r: "fld (fld named_doc ''reconciliation'') ''state'' \<in> JStr ` set RECONCILIATION_STATES"
    "fld (fld named_doc ''reconciliation'') ''unknown_outcomes'' = JInt 0" "is_obj (fld named_doc ''reconciliation'')"
    unfolding rec by (simp_all add: reconciliation_as_dict_def default_reconciliation_def read_JObj RECONCILIATION_STATES_def)
  show "check_document named_doc ''account:test'' = Inr ()" "assert_append_only ?d named_doc = Inr ()"
    by (rule one_intent_ok [OF d(1,2) e i named_intent_ok(1-4) s f(3) k wf(1) f(1) f(2) r(3,1,2)]; use f(2) in blast)+
qed


lemma named_doc_fields: "k \<noteq> ''send_intents'' \<Longrightarrow> fld named_doc k = fld (sample_doc traded_sample) k"
  "fld named_doc ''send_intents'' = dset (JObj [(''intent-0001'', intent_one)]) ''intent-0001'' named_intent"
  by (simp_all only: named_doc_def put_raw_intent_def fld_dset if_True refl traded_sections) auto

lemma working_transition:
  "apply_intent_result_transition sample_env ''intent-0001'' ''ACKNOWLEDGED'' (JStr ''order-1'') (sample_doc traded_sample) s
    = (Inr named_doc, s)"
proof -
  have raw: "fld (fld (sample_doc traded_sample) ''send_intents'') ''intent-0001'' = intent_one"
    unfolding traded_sections by (simp add: read_JObj)
  have o: "is_obj intent_one" "\<not> ends_intent ''ACKNOWLEDGED'' v" for v by (simp_all add: intent_one_def ends_intent_def)
  show ?thesis
    unfolding apply_intent_result_transition_def Let_def raw
    by (simp add: o abind_def named_doc_def named_intent_def py_str_def del: sample_sections)
qed

lemma abind_run: "m u = (Inr y, u') \<Longrightarrow> abind m f u = f y u'"
  by (simp add: abind_def)

lemma update_doc_runs:
  "mutate (repo_env e) (\<lambda>d. abind (f d) (\<lambda>d'. aret ((), d'))) ex s = (Inr (r, d), s') \<Longrightarrow> update_doc e f ex s = (Inr (), s')"
  by (simp add: update_doc_def abind_def [of "mutate _ _ _"])

lemma working_query_runs:
  obtains s' where "query_intent sample_env ''intent-0001'' working_world
    = (Inr (dupdate (JObj [(''intent_id'', JStr ''intent-0001'')]) (items working_answer)), s')"
proof -
  let ?d = "sample_doc traded_sample" and ?i = "''intent-0001''"
  have id: "IDENTIFIER_RE ?i" by (simp add: id_shapes)
  have w: "r_mem working_world = ?d" "r_available working_world" by (simp_all add: working_world_def)
  have rd: "read_state sample_env working_world = (Inr ?d, working_world)" using w by (simp add: read_state_in_memory)
  have raw: "fld (intents_of ?d) ?i = intent_one"
    by (simp add: intents_of_def del: sample_sections) (simp only: traded_sections, simp add: read_JObj)
  define x where "x = query_target ?d (intent_from_dict intent_one)"
  have x: "si_intent_id x = ?i"
    by (simp add: x_def query_target_def intent_from_dict_def intent_one_def read_JObj Let_def)
  obtain t where ask: "acatch (abind (call_gateway sample_env (gw_query (oe_gateway sample_env) x (context_from_intent sample_env x)))
      (\<lambda>r. abind (alift (result_dict r)) (\<lambda>d. aret (Inr d)))) (\<lambda>x. aret (Inl (exn_text x))) working_world
      = (Inr (Inr working_answer), t)" and t: "r_mem t = ?d" "r_available t"
  proof -
    have "result_dict working_answer = Inr working_answer" by (simp add: result_dict_def working_answer_def)
    then show thesis
      by (intro that) (auto simp: acatch_def abind_def call_gateway_def utc_now_def next_tick_def in_memory_gateway_def
        memory_query_def working_world_def new_memory_gateway_def x Let_def w)
  qed
  note d = sample_valid [OF traded_ok]
  let ?W = "\<lambda>d. abind (apply_intent_result_transition sample_env ?i ''ACKNOWLEDGED'' (JStr ''order-1'') d) (\<lambda>d'. aret ((), d'))"
  let ?m = "\<lambda>h. reseal named_doc (version_of ?d + 1) (the_str (fld ?d ''state_hash'')) h"
  obtain h where m1: "mutate (repo_env sample_env) ?W None t
      = (Inr ((), dset named_doc ''state_version'' (JInt (version_of ?d + 1))), t\<lparr>r_mem := ?m h\<rparr>)"
    "valid_doc ''account:test'' (?m h)"
    by (rule mutate_in_memory [of "repo_env sample_env" t None ?W "()" named_doc t])
      (use d t named_doc_ok working_transition [of t] in \<open>simp_all add: abind_def\<close>)
  have f: "fld (?m h) k = fld named_doc k" if "k \<notin> {''state_version'', ''previous_state_hash'', ''state_hash''}" for k
    using that by (auto simp: reseal_def doc_simps)
  have u: "fld (?m h) ''unknown_outcomes'' = JObj []" "fld (?m h) ''lifecycle'' = JStr ''READY''"
    by (rule trans [OF f trans [OF named_doc_fields(1) traded_sections(2)]]; simp)
      (rule trans [OF f trans [OF named_doc_fields(1) traded_sections(3)]]; simp)
  have i: "dget (fld (?m h) ''send_intents'') ?i = Some named_intent"
    by (subst trans [OF f named_doc_fields(2)]) (simp_all add: dget_dset)
  have wf: "wf_json (?m h)" "finite_json (?m h)" using named_doc_ok(3,4) by (simp_all add: reseal_def)
  have l: "fld (?m h) ''lifecycle'' \<noteq> JStr ''HALTED_UNKNOWN_OUTCOME''" unfolding u by simp
  note c = close_unknown_valid [OF m1(2) wf u(1) l i]
  let ?C = "\<lambda>d. abind (aret (close_unknown_doc ?i d)) (\<lambda>d'. aret ((), d'))" and ?t = "t\<lparr>r_mem := ?m h\<rparr>"
  obtain s' d' where m2: "mutate (repo_env sample_env) ?C None ?t = (Inr ((), d'), s')"
    by (rule mutate_in_memory [of "repo_env sample_env" ?t None ?C "()" "close_unknown_doc ?i (?m h)" ?t])
      (use m1(2) t c in \<open>simp_all add: abind_def\<close>)
  have ack: "result_state working_answer = Inr ''ACKNOWLEDGED''" "fld working_answer ''broker_order_id'' = JStr ''order-1''"
    "\<not> outcome_is_unknown working_answer"
    by (simp_all add: result_state_def working_answer_def read_JObj outcome_is_unknown_def state_upper_def str_or_def UNKNOWN_STATES_def
        RESULT_STATES_def Let_def str_upper_def to_upper_char_def is_lower_char_def char_between_def char_le_of_char)
  have "mark_intent_result sample_env ?i working_answer t = (Inr (), ?t)"
    using update_doc_runs [OF m1(1)] by (simp only: mark_intent_result_def ack sum.case acatch_def prod.case)
  moreover have "close_unknown_if_resolved sample_env ?i ?t = (Inr (), s')"
    unfolding close_unknown_if_resolved_def by (rule update_doc_runs [OF m2])
  moreover have "is_obj intent_one" by (simp add: intent_one_def)
  ultimately have "query_intent sample_env ?i working_world
      = (Inr (dupdate (JObj [(''intent_id'', JStr ?i)]) (items working_answer)), s')"
    unfolding query_intent_def Let_def
    by (simp add: abind_run [of "read_state _", OF rd] abind_run [of "acatch _ _", OF ask] abind_run validate_identifier_def id raw x_def [symmetric] ack(3) aif_def
        del: sample_env_simps)
  then show thesis by (rule that)
qed

lemma answered_query_closes_the_intent_witness:
  "\<exists>answer s'. query_intent sample_env ''intent-0001'' working_world = (Inr answer, s')
    \<and> fld answer ''state'' = JStr ''ACKNOWLEDGED'' \<and> closed_intent ''intent-0001'' (r_mem s')"
proof -
  obtain s' where q: "query_intent sample_env ''intent-0001'' working_world
      = (Inr (dupdate (JObj [(''intent_id'', JStr ''intent-0001'')]) (items working_answer)), s')"
    by (rule working_query_runs)
  have n: "\<not> outcome_is_unknown (dupdate (JObj [(''intent_id'', JStr ''intent-0001'')]) (items working_answer))"
    by (subst unknown_updated)
      (simp_all add: working_answer_def read_JObj outcome_is_unknown_def state_upper_def str_or_def UNKNOWN_STATES_def
        str_upper_def to_upper_char_def is_lower_char_def char_between_def char_le_of_char)
  have w: "answers_dicts sample_env working_world"
    by (auto simp: answers_dicts_def in_memory_gateway_def memory_query_def working_world_def new_memory_gateway_def
        working_answer_def Let_def)
  from answered_query_closes_the_intent [OF q n w] q show ?thesis
    by (auto simp: working_answer_def dset_def read_JObj)
qed

end
