(* ===== verification/Plan_Contract.thy ===== *)
theory Plan_Contract
  imports Exec_Validate Position_Projection Quote_Proof
begin

text \<open>
  The parts of a target plan in \<open>shared/commodity_execution/v1.py\<close>: the validators of its fields, its
  orders, the custody receipts it is pinned to, and the quotes that its order prices are derived
  from, with the frozen price contracts of the experimental lane.
\<close>

section \<open>Floats\<close>

text \<open>
  \<open>repr\<close> of a float: the first number of digits, from 1 to 17, whose nearest decimal reads back as
  the float.
\<close>

definition digits_at :: "nat \<Rightarrow> rat \<Rightarrow> int \<times> int" where
  "digits_at k x = (let e = magnitude 10 \<bar>x\<bar> - (int k - 1) in (round_half_even (x / rpow 10 e), e))"

fun shortest_decimal :: "nat \<Rightarrow> nat \<Rightarrow> rat \<Rightarrow> json" where
  "shortest_decimal 0 k x = (let (m, e) = digits_at k x in dec_norm m e)"
| "shortest_decimal (Suc n) k x =
     (let (m, e) = digits_at k x
      in if to_float (of_int m * rpow 10 e) = Some x then dec_norm m e else shortest_decimal n (Suc k) x)"

definition float_json :: "rat \<Rightarrow> json" where
  "float_json x = (if x = 0 then JDec 0 0 else shortest_decimal 16 1 x)"

text \<open>\<open>float(v)\<close> of a number; an integer that is too large raises.\<close>

definition py_float :: "json \<Rightarrow> json res" where
  "py_float v =
     (case v of
        JInt n \<Rightarrow> (case to_float (of_int n) of
            None \<Rightarrow> raise PyOverflowError ''int too large to convert to float'' | Some x \<Rightarrow> Inr (float_json x))
      | _ \<Rightarrow> Inr v)"

section \<open>Fields\<close>

definition contract_id :: "json \<Rightarrow> string \<Rightarrow> string res" where
  "contract_id value field =
     (if str_sat CONTRACT_ID_RE value then Inr (the_str value) else contract_error (field @ '' is invalid''))"

definition contract_sha :: "json \<Rightarrow> string \<Rightarrow> string res" where
  "contract_sha value field =
     (if str_sat SHA256_RE value then Inr (the_str value)
      else contract_error (field @ '' must be a lowercase SHA-256 hash''))"

definition contract_utc :: "json \<Rightarrow> string \<Rightarrow> string res" where
  "contract_utc value field =
     (if \<not> str_sat UTC_RE value then contract_error (field @ '' must be a UTC timestamp'')
      else if utc_micros (the_str value) = None then contract_error (field @ '' is invalid'')
      else Inr (the_str value))"

text \<open>\<open>datetime.fromisoformat(s[:-1] + "+00:00")\<close> of a checked timestamp.\<close>

definition utc_time :: "string \<Rightarrow> int" where
  "utc_time s = (case utc_micros s of None \<Rightarrow> 0 | Some t \<Rightarrow> t)"

definition KEY_VERSION_RE :: "string \<Rightarrow> bool" where
  "KEY_VERSION_RE s \<longleftrightarrow> (case s of [] \<Rightarrow> False | c # cs \<Rightarrow> c = CHR ''v'' \<and> cs \<noteq> [] \<and> list_all is_digit_char cs)"

definition EXECUTION_RUN_ID_RE :: "string \<Rightarrow> bool" where
  "EXECUTION_RUN_ID_RE s \<longleftrightarrow> id_shape 7 s \<and> CHR '':'' \<notin> set s"

definition short_string :: "json \<Rightarrow> string \<Rightarrow> (string \<Rightarrow> bool) \<Rightarrow> string res" where
  "short_string value field pattern =
     (if str_sat (\<lambda>s. s \<noteq> [] \<and> length (utf8 s) \<le> 128 \<and> pattern s) value then Inr (the_str value)
      else contract_error (field @ '' is invalid''))"

definition detached_mapping :: "json \<Rightarrow> string \<Rightarrow> json res" where
  "detached_mapping value field =
     (if \<not> is_obj value then contract_error (field @ '' must be an object'')
      else if \<not> finite_json value then contract_error ''value is not canonical JSON''
      else Inr (canon value))"

text \<open>Checks whose value is not used.\<close>

definition just :: "'a res \<Rightarrow> unit res" where
  "just r = rbind r (\<lambda>_. Inr ())"

definition each_field :: "(json \<Rightarrow> string \<Rightarrow> string res) \<Rightarrow> json \<Rightarrow> string \<Rightarrow> string list \<Rightarrow> unit res" where
  "each_field check raw what names = rall (\<lambda>f. just (check (fld raw f) (what @ f))) names"

definition AUTHORITY_FLAGS :: "string list" where
  "AUTHORITY_FLAGS = [''production_allowed'', ''live_trading_authorized'', ''countable_forward'']"

definition flags_false :: "json \<Rightarrow> bool" where
  "flags_false raw \<longleftrightarrow> list_all (\<lambda>f. fld raw f = JBool False) AUTHORITY_FLAGS"

lemma just_Inr [simp]: "just r = Inr u \<longleftrightarrow> is_ok r"
  by (cases r) (simp_all add: just_def)

lemma rguard_simps [simp]: "rguard True e = Inr ()" "rguard False e = Inl e"
  by (simp_all add: rguard_def)

lemma require_member_JStr [simp]: "require_member (JStr s) names e = rguard (s \<in> set names) e"
  by (simp add: require_member_def member_of_def)

lemma just_simps [simp]: "just (Inr x) = Inr ()" "just (Inl e) = Inl e"
  by (simp_all add: just_def)

lemma contract_error_not [simp]: "contract_error m \<noteq> Inr x" "Inr x \<noteq> contract_error m" "\<not> is_ok (contract_error m)"
  by (simp_all add: contract_error_def)

section \<open>Orders\<close>

record target_plan_order =
  to_symbol :: string
  to_exchange :: string
  to_direction :: string
  to_type :: string
  to_volume :: int
  to_price :: json
  to_offset :: string
  to_reference :: string
  to_gateway_name :: string

definition ORDER_FIELDS :: "string list" where
  "ORDER_FIELDS = [''symbol'', ''exchange'', ''direction'', ''type'', ''volume'', ''price'', ''offset'',
     ''reference'', ''gateway_name'']"

definition CLOSE_ORDER_OFFSETS :: "string list" where
  "CLOSE_ORDER_OFFSETS = [''CLOSE'', ''CLOSETODAY'', ''CLOSEYESTERDAY'']"

text \<open>Finite and positive; \<open>math.isfinite\<close> raises on an integer that no float can hold.\<close>

definition price_positive :: "json \<Rightarrow> bool res" where
  "price_positive v =
     (case v of
        JInt n \<Rightarrow> if to_float (of_int n) = None then raise PyOverflowError ''int too large to convert to float''
                  else Inr (0 < n)
      | JDec m e \<Rightarrow> Inr (0 < m)
      | _ \<Rightarrow> Inr False)"

definition check_order :: "int \<Rightarrow> json \<Rightarrow> unit res" where
  "check_order max_order_volume raw =
     (let bad = Exn CommodityExecutionContractError ''target plan order is not a strict SIMNOW limit order'' in checks
     [rguard (str_sat SYMBOL_RE (fld raw ''symbol'')) bad,
      require_member (fld raw ''exchange'') EXCHANGES bad,
      require_member (fld raw ''direction'') [''LONG'', ''SHORT''] bad,
      rguard (fld raw ''type'' = JStr ''LIMIT'') bad,
      rguard (int_at_least 1 (fld raw ''volume'') \<and> the_int (fld raw ''volume'') \<le> max_order_volume) bad,
      rbind (price_positive (fld raw ''price'')) (\<lambda>ok. rguard ok bad),
      require_member (fld raw ''offset'') (CLOSE_ORDER_OFFSETS @ [''OPEN'']) bad,
      rguard (\<not> (the_str (fld raw ''offset'') \<in> {''CLOSETODAY'', ''CLOSEYESTERDAY''}
          \<and> the_str (fld raw ''exchange'') \<notin> set YD_AWARE_EXCHANGES)) bad,
      rguard (str_sat GATEWAY_NAME_RE (fld raw ''gateway_name'')) bad])"

definition order_from_mapping :: "int \<Rightarrow> json \<Rightarrow> target_plan_order res" where
  "order_from_mapping max_order_volume raw =
     (if \<not> (is_obj raw \<and> keys_are raw ORDER_FIELDS)
      then contract_error ''target plan order fields are invalid''
      else if max_order_volume < 1 then contract_error ''local max order volume is invalid''
      else rbind (check_order max_order_volume raw) (\<lambda>_.
        rbind (py_float (fld raw ''price'')) (\<lambda>price.
        rbind (contract_id (fld raw ''reference'') ''target plan reference'') (\<lambda>reference. Inr
          \<lparr>to_symbol = the_str (fld raw ''symbol''), to_exchange = the_str (fld raw ''exchange''),
           to_direction = the_str (fld raw ''direction''), to_type = the_str (fld raw ''type''),
           to_volume = the_int (fld raw ''volume''), to_price = price, to_offset = the_str (fld raw ''offset''),
           to_reference = reference, to_gateway_name = the_str (fld raw ''gateway_name'')\<rparr>))))"

definition order_as_dict :: "target_plan_order \<Rightarrow> json" where
  "order_as_dict o' = JObj
     [(''symbol'', JStr (to_symbol o')), (''exchange'', JStr (to_exchange o')),
      (''direction'', JStr (to_direction o')), (''type'', JStr (to_type o')),
      (''volume'', JInt (to_volume o')), (''price'', to_price o'), (''offset'', JStr (to_offset o')),
      (''reference'', JStr (to_reference o')), (''gateway_name'', JStr (to_gateway_name o'))]"

definition order_contract :: "target_plan_order \<Rightarrow> string" where
  "order_contract o' = to_exchange o' @ ''.'' @ to_symbol o'"

definition order_side :: "target_plan_order \<Rightarrow> string" where
  "order_side o' = (if to_direction o' = ''LONG'' then ''ask'' else ''bid'')"

text \<open>\<open>Decimal(str(order.price))\<close>.\<close>

definition order_price :: "target_plan_order \<Rightarrow> rat" where
  "order_price o' = (case dec_value (to_price o') of None \<Rightarrow> 0 | Some p \<Rightarrow> p)"

section \<open>Custody receipts\<close>

definition TARGET_PLAN_SCHEMA_VERSION :: string where
  "TARGET_PLAN_SCHEMA_VERSION = ''web-bridge-simnow-target-plan-v1''"

definition KEYLESS_V1 :: string where
  "KEYLESS_V1 = ''web-bridge-simnow-keyless-target-plan-v1''"

definition KEYLESS_V2 :: string where
  "KEYLESS_V2 = ''web-bridge-simnow-keyless-target-plan-v2''"

definition KEYLESS_V3 :: string where
  "KEYLESS_V3 = ''web-bridge-simnow-keyless-target-plan-v3''"

definition KEYLESS_SCHEMAS :: "string list" where
  "KEYLESS_SCHEMAS = [KEYLESS_V1, KEYLESS_V2, KEYLESS_V3]"

definition TRUSTED_KEYLESS_SIMNOW_SCOPE :: json where
  "TRUSTED_KEYLESS_SIMNOW_SCOPE = JObj [(''account_scope'', JStr ''account:windows''),
     (''environment'', JStr ''SIMNOW''), (''gateway_name'', JStr ''CTP'')]"

record custody_receipt =
  cu_keyless :: bool
  cu_raw :: json
  cu_sha256 :: string

definition CUSTODY_KEYLESS_FIELDS :: "string list" where
  "CUSTODY_KEYLESS_FIELDS = [''receipt_id'', ''receipt_type'', ''artifact_id'', ''artifact_type'', ''trust_domain'',
     ''schema_ref'', ''artifact_sha256'', ''scope'', ''expires_at'', ''custody_version'', ''idempotency_key'',
     ''verified'', ''installed'', ''custody_writer''] @ AUTHORITY_FLAGS"

definition CUSTODY_FIELDS :: "string list" where
  "CUSTODY_FIELDS = CUSTODY_KEYLESS_FIELDS @
     [''signer_key_id'', ''signer_key_version'', ''keyring_raw_sha256'', ''signed_artifact_sha256'']"

definition accepted_artifact :: "json \<Rightarrow> bool" where
  "accepted_artifact raw \<longleftrightarrow>
     (fld raw ''artifact_type'', fld raw ''trust_domain'', fld raw ''schema_ref'') \<in>
       {(JStr ''runtime-authorization'', JStr ''runtime_authorization'', JStr ''phase-c-runtime-authorization-v1''),
        (JStr ''simnow-target-plan'', JStr ''runtime_authorization'', JStr TARGET_PLAN_SCHEMA_VERSION)}"

text \<open>A tuple in a set of tuples is hashed: a list or a dictionary in it raises.\<close>

definition hashable_fields :: "json \<Rightarrow> string list \<Rightarrow> unit res" where
  "hashable_fields raw names = rall (\<lambda>f. just (member_of (fld raw f) [])) names"

definition installed_flags :: "json \<Rightarrow> bool" where
  "installed_flags raw \<longleftrightarrow> fld raw ''verified'' = JBool True \<and> fld raw ''installed'' = JBool True
     \<and> flags_false raw \<and> int_at_least 1 (fld raw ''custody_version'')"

definition verified_receipt_from_mapping :: "json \<Rightarrow> custody_receipt res" where
  "verified_receipt_from_mapping value =
     rbind (detached_mapping value ''custody receipt'') (\<lambda>raw.
     let bad = Exn CommodityExecutionContractError ''custody receipt is not a verified offline install'' in
     rbind (checks
       [rguard (keys_are raw CUSTODY_FIELDS)
          (Exn CommodityExecutionContractError ''custody receipt fields are not exact''),
        each_field contract_id raw ''custody receipt ''
          [''receipt_id'', ''artifact_id'', ''idempotency_key'', ''custody_writer''],
        just (short_string (fld raw ''signer_key_id'') ''custody receipt signer_key_id'' (\<lambda>_. True)),
        just (short_string (fld raw ''signer_key_version'') ''custody receipt signer_key_version'' KEY_VERSION_RE),
        each_field contract_sha raw ''custody receipt ''
          [''artifact_sha256'', ''keyring_raw_sha256'', ''signed_artifact_sha256''],
        just (contract_utc (fld raw ''expires_at'') ''custody receipt expires_at''),
        rguard (fld raw ''receipt_type'' = JStr ''install'') bad,
        hashable_fields raw [''artifact_type'', ''trust_domain'', ''schema_ref''],
        rguard (accepted_artifact raw \<and> installed_flags raw) bad,
        just (detached_mapping (fld raw ''scope'') ''custody receipt scope'')]) (\<lambda>_.
     Inr \<lparr>cu_keyless = False, cu_raw = raw, cu_sha256 = json_hash raw\<rparr>))"

definition keyless_receipt_from_mapping :: "json \<Rightarrow> custody_receipt res" where
  "keyless_receipt_from_mapping value =
     rbind (detached_mapping value ''keyless custody receipt'') (\<lambda>raw.
     let bad = Exn CommodityExecutionContractError ''keyless custody receipt is not fixed SIMNOW evidence'' in
     rbind (checks
       [rguard (keys_are raw CUSTODY_KEYLESS_FIELDS)
          (Exn CommodityExecutionContractError ''keyless custody receipt fields are not exact''),
        each_field contract_id raw ''keyless custody receipt ''
          [''receipt_id'', ''artifact_id'', ''idempotency_key'', ''custody_writer''],
        just (contract_sha (fld raw ''artifact_sha256'') ''keyless custody receipt artifact_sha256''),
        just (contract_utc (fld raw ''expires_at'') ''keyless custody receipt expires_at''),
        just (detached_mapping (fld raw ''scope'') ''keyless custody receipt scope''),
        rguard (fld raw ''receipt_type'' = JStr ''install'' \<and> fld raw ''artifact_type'' = JStr ''simnow-target-plan''
          \<and> fld raw ''trust_domain'' = JStr ''runtime_authorization'') bad,
        require_member (fld raw ''schema_ref'') KEYLESS_SCHEMAS bad,
        rguard (jeq (fld raw ''scope'') TRUSTED_KEYLESS_SIMNOW_SCOPE \<and> installed_flags raw) bad]) (\<lambda>_.
     Inr \<lparr>cu_keyless = True, cu_raw = raw, cu_sha256 = json_hash raw\<rparr>))"

definition cu_expires_at :: "custody_receipt \<Rightarrow> int" where
  "cu_expires_at r = utc_time (py_str (fld (cu_raw r) ''expires_at''))"

section \<open>The experimental lane\<close>

definition is_experimental_run :: "string \<Rightarrow> bool" where
  "is_experimental_run s \<longleftrightarrow> starts_with ''simnow-experimental-'' s \<and> length s = 68
     \<and> list_all is_hex_char (drop 20 s)"

definition ADVERSE_CUSHION_TICKS :: "(string \<times> int) list" where
  "ADVERSE_CUSHION_TICKS = [(''ag'', 10), (''al'', 1), (''au'', 15), (''bu'', 2), (''cu'', 1), (''rb'', 1),
     (''ru'', 1), (''sc'', 3), (''sp'', 1), (''zn'', 1)]"

definition PRODUCT_SPECS :: "(string \<times> rat \<times> int) list" where
  "PRODUCT_SPECS = [(''ag'', 1, 15), (''al'', 5, 5), (''au'', 2 / 100, 1000), (''bu'', 1, 10), (''cu'', 10, 5),
     (''rb'', 1, 10), (''ru'', 5, 10), (''sc'', 1 / 10, 1000), (''sp'', 2, 10), (''zn'', 5, 5)]"

definition MAX_ADVERSE_LIMIT_BUDGET_CNY :: rat where
  "MAX_ADVERSE_LIMIT_BUDGET_CNY = 30000"

text \<open>\<open>([A-Za-z]+)[0-9]{4}\<close>: the product in lower case.\<close>

definition product_of :: "string \<Rightarrow> string option" where
  "product_of s =
     (let letters = take (length s - 4) s; digits = drop (length s - 4) s
      in if letters \<noteq> [] \<and> length digits = 4 \<and> list_all (\<lambda>c. is_upper_char c \<or> is_lower_char c) letters
           \<and> list_all is_digit_char digits
         then Some (str_lower letters) else None)"

definition product_or_raise :: "string \<Rightarrow> string res" where
  "product_or_raise symbol =
     (case product_of symbol of
        None \<Rightarrow> contract_error ''SIMNOW_EXPERIMENTAL target plan symbol is invalid''
      | Some p \<Rightarrow> Inr p)"

definition product_entry :: "(string \<times> 'a) list \<Rightarrow> string \<Rightarrow> 'a res" where
  "product_entry table product =
     (case map_of table product of
        None \<Rightarrow> contract_error ''SIMNOW_EXPERIMENTAL target plan product is outside the frozen universe''
      | Some x \<Rightarrow> Inr x)"

definition adverse_cushion_ticks :: "string \<Rightarrow> string \<Rightarrow> int res" where
  "adverse_cushion_ticks run_id symbol =
     (if \<not> is_experimental_run run_id then Inr 0
      else rbind (product_or_raise symbol) (product_entry ADVERSE_CUSHION_TICKS))"

section \<open>Price contracts\<close>

definition contract_decimal :: "json \<Rightarrow> string \<Rightarrow> rat res" where
  "contract_decimal value field =
     (case dec_value value of None \<Rightarrow> contract_error (field @ '' is invalid'') | Some d \<Rightarrow> Inr d)"

definition contract_on_value_error :: "'a res \<Rightarrow> string \<Rightarrow> 'a res" where
  "contract_on_value_error r msg =
     rcatch r (\<lambda>e. if is_a e PyValueError then contract_error msg else Inl e)"

text \<open>The reference price and the tick that an order's contract is bound to.\<close>

definition quote_binding :: "json \<Rightarrow> string \<Rightarrow> (json \<times> rat \<times> rat) res" where
  "quote_binding bindings c =
     (let binding = fld bindings c; bad = contract_error ''SIMNOW_EXPERIMENTAL target plan quote binding is invalid'' in
      if \<not> (has_key bindings c \<and> is_obj binding \<and> has_key binding ''reference_price'') then bad
      else rbind (contract_decimal (fld binding ''reference_price'')
          (''target plan creation quote reference_price: '' @ c)) (\<lambda>reference.
        if \<not> has_key binding ''price_tick'' then bad
        else rbind (contract_decimal (fld binding ''price_tick'')
          (''target plan creation quote price_tick: '' @ c)) (\<lambda>tick. Inr (binding, reference, tick))))"

definition unbound_price :: exn where
  "unbound_price = Exn CommodityExecutionContractError ''target plan creation quote does not bind order price''"

text \<open>The price one tick, or one tick and the cushion, on the adverse side of the reference.\<close>

definition adverse_price :: "string \<Rightarrow> rat \<Rightarrow> rat \<Rightarrow> rat" where
  "adverse_price side reference step =
     (if side = ''ask'' then dec28 (reference + step) else dec28 (reference - step))"

definition bounded_contract :: "string \<Rightarrow> target_plan_order \<Rightarrow> rat \<Rightarrow> rat \<Rightarrow> rat \<Rightarrow> string res" where
  "bounded_contract run_id o' reference tick price =
     rbind (product_or_raise (to_symbol o')) (\<lambda>product.
     rbind (product_entry PRODUCT_SPECS product) (\<lambda>(frozen_tick, multiplier).
     rbind (rguard (tick = frozen_tick) (Exn CommodityExecutionContractError
       ''SIMNOW_EXPERIMENTAL target plan price tick mismatches frozen product spec'')) (\<lambda>_.
     rbind (adverse_cushion_ticks run_id (to_symbol o')) (\<lambda>cushion.
     if price = adverse_price (order_side o') reference (dec28 (tick * of_int (1 + cushion)))
     then Inr ''BOUNDED'' else Inl unbound_price))))"

definition order_price_contract :: "string \<Rightarrow> json \<Rightarrow> target_plan_order \<Rightarrow> string res" where
  "order_price_contract run_id bindings o' =
     rbind (quote_binding bindings (order_contract o')) (\<lambda>(binding, reference0, tick).
     rbind (contract_on_value_error
         (rbind (normalize_near_grid_price reference0 tick) (\<lambda>r.
          rbind (normalize_near_grid_price (order_price o') tick) (\<lambda>p. Inr (r, p))))
         ''target plan creation quote does not bind order price'') (\<lambda>(reference, price).
     rbind (rguard (fld binding ''price_side'' = JStr (order_side o')) (Exn CommodityExecutionContractError
       ''SIMNOW_EXPERIMENTAL target plan quote side is invalid'')) (\<lambda>_.
     if price = adverse_price (order_side o') reference tick
     then Inr (if is_experimental_run run_id then ''LEGACY_EXACT'' else ''EXACT'')
     else if \<not> is_experimental_run run_id then Inl unbound_price
     else bounded_contract run_id o' reference tick price)))"

fun rmap :: "('a \<Rightarrow> 'b res) \<Rightarrow> 'a list \<Rightarrow> 'b list res" where
  "rmap f [] = Inr []"
| "rmap f (x # xs) = rbind (f x) (\<lambda>y. rbind (rmap f xs) (\<lambda>ys. Inr (y # ys)))"

text \<open>One contract for the whole plan.\<close>

definition price_contract :: "string \<Rightarrow> target_plan_order list \<Rightarrow> json \<Rightarrow> string res" where
  "price_contract run_id orders bindings =
     rbind (rmap (order_price_contract run_id bindings) orders) (\<lambda>contracts.
     if contracts \<noteq> [] \<and> list_all (\<lambda>c. c = hd contracts) contracts then Inr (hd contracts)
     else contract_error ''SIMNOW_EXPERIMENTAL target plan mixes price contracts'')"

definition order_budget :: "string \<Rightarrow> target_plan_order \<Rightarrow> rat res" where
  "order_budget run_id o' =
     rbind (product_or_raise (to_symbol o')) (\<lambda>product.
     rbind (product_entry PRODUCT_SPECS product) (\<lambda>(frozen_tick, multiplier).
     rbind (adverse_cushion_ticks run_id (to_symbol o')) (\<lambda>cushion.
     Inr (dec28 (dec28 (dec28 (of_int (to_volume o') * of_int cushion) * frozen_tick) * of_int multiplier)))))"

definition adverse_limit_budget_cny :: "string \<Rightarrow> target_plan_order list \<Rightarrow> json \<Rightarrow> rat res" where
  "adverse_limit_budget_cny run_id orders bindings =
     rbind (price_contract run_id orders bindings) (\<lambda>contract.
     if contract \<noteq> ''BOUNDED'' then Inr 0
     else rbind (rmap (order_budget run_id) orders) (\<lambda>costs. Inr (foldl (\<lambda>total c. dec28 (total + c)) 0 costs)))"

end
