(* ===== verification/Target_Plan.thy ===== *)
theory Target_Plan
  imports Plan_Contract
begin

text \<open>
  \<open>TargetPlan\<close> of \<open>shared/commodity_execution/v1.py\<close>: an immutable list of orders, locked by the hash
  of the whole payload, with the proof of the quotes it was created from, and the builders that
  derive the hashes.
\<close>

section \<open>The quotes a plan was created from\<close>

definition FORMAL_QUOTE_PROOF_SCHEMA_VERSION :: string where
  "FORMAL_QUOTE_PROOF_SCHEMA_VERSION = ''web-bridge-formal-quote-proof-v1''"

definition FORMAL_QUOTE_PROOF_FIELDS :: "string list" where
  "FORMAL_QUOTE_PROOF_FIELDS = [''schema_version'', ''validated_at_utc'', ''max_age_seconds'', ''future_skew_seconds'',
     ''journal_authenticated'', ''start_authorized'', ''bindings'']"

definition FORMAL_QUOTE_BINDING_FIELDS :: "string list" where
  "FORMAL_QUOTE_BINDING_FIELDS = [''source'', ''vt_symbol'', ''price_side'', ''stream_generation'', ''ingest_id'',
     ''ingest_seq'', ''event_hash'', ''received_at_utc'', ''reference_price'', ''price_tick'']"

definition FORMAL_QUOTE_FUTURE_SKEW_SECONDS :: int where
  "FORMAL_QUOTE_FUTURE_SKEW_SECONDS = 2"

abbreviation plan_error :: "string \<Rightarrow> exn" where
  "plan_error msg \<equiv> Exn CommodityExecutionContractError msg"

text \<open>One side and one price for each contract, in the order of the plan.\<close>

fun required_quotes ::
  "(string \<times> string \<times> rat) list \<Rightarrow> target_plan_order list \<Rightarrow> (string \<times> string \<times> rat) list res" where
  "required_quotes acc [] = Inr acc"
| "required_quotes acc (o' # os) =
     (let entry = (order_side o', order_price o') in
      if product_of (to_symbol o') = None then contract_error ''target plan creation quote order contract is not exact''
      else case map_of acc (order_contract o') of
        None \<Rightarrow> required_quotes (acc @ [(order_contract o', entry)]) os
      | Some prior \<Rightarrow> if prior \<noteq> entry then contract_error ''target plan creation quote proof order set is ambiguous''
          else required_quotes acc os)"

definition swap_contract :: "string \<Rightarrow> string" where
  "swap_contract c = (let exchange = takeWhile (\<lambda>x. x \<noteq> CHR ''.'') c
     in drop (Suc (length exchange)) c @ ''.'' @ exchange)"

definition check_creation_prices :: "string \<Rightarrow> string \<Rightarrow> json \<Rightarrow> unit res" where
  "check_creation_prices c side raw =
     (let bad = ''target plan creation quote price is invalid: '' @ c in
      rbind (contract_decimal (fld raw ''reference_price'')
        (''target plan creation quote reference_price: '' @ c)) (\<lambda>reference0.
      rbind (contract_decimal (fld raw ''price_tick'') (''target plan creation quote price_tick: '' @ c)) (\<lambda>tick.
      rbind (contract_on_value_error (normalize_near_grid_price reference0 tick) bad) (\<lambda>reference.
      rguard (0 < reference \<and> 0 < adverse_price side reference tick) (plan_error bad)))))"

definition check_creation_binding :: "json \<Rightarrow> int \<Rightarrow> string \<times> string \<times> rat \<Rightarrow> unit res" where
  "check_creation_binding bindings validated_at entry =
     (let (c, side, price) = entry; raw = fld bindings c in checks
     [rguard (is_obj raw \<and> keys_are raw FORMAL_QUOTE_BINDING_FIELDS)
        (plan_error (''target plan creation quote binding is invalid: '' @ c)),
      rguard (fld raw ''source'' = JStr ''windows-tick-wire-v1'' \<and> fld raw ''vt_symbol'' = JStr (swap_contract c)
          \<and> fld raw ''price_side'' = JStr side)
        (plan_error (''target plan creation quote identity is invalid: '' @ c)),
      rall (\<lambda>f. rguard (str_sat (\<lambda>s. s \<noteq> []) (fld raw f))
          (plan_error (''target plan creation quote '' @ f @ '' is invalid: '' @ c)))
        [''stream_generation'', ''ingest_id''],
      rguard (int_at_least 1 (fld raw ''ingest_seq''))
        (plan_error (''target plan creation quote sequence is invalid: '' @ c)),
      just (contract_sha (fld raw ''event_hash'') (''target plan creation quote event_hash: '' @ c)),
      rbind (contract_utc (fld raw ''received_at_utc'') (''target plan creation quote received_at_utc: '' @ c))
        (\<lambda>received_at.
          let age = validated_at - utc_time received_at in
          rguard (age \<le> V3_FORMAL_QUOTE_MAX_AGE_SECONDS * 1000000
              \<and> - (FORMAL_QUOTE_FUTURE_SKEW_SECONDS * 1000000) \<le> age)
            (plan_error (''target plan creation quote is stale or from the future: '' @ c))),
      check_creation_prices c side raw])"

definition creation_policy_ok :: "json \<Rightarrow> bool" where
  "creation_policy_ok proof' \<longleftrightarrow>
     fld proof' ''schema_version'' = JStr FORMAL_QUOTE_PROOF_SCHEMA_VERSION
     \<and> is_float (fld proof' ''max_age_seconds'')
     \<and> jeq (fld proof' ''max_age_seconds'') (JInt V3_FORMAL_QUOTE_MAX_AGE_SECONDS)
     \<and> fld proof' ''future_skew_seconds'' = JInt FORMAL_QUOTE_FUTURE_SKEW_SECONDS
     \<and> fld proof' ''journal_authenticated'' = JBool False \<and> fld proof' ''start_authorized'' = JBool False"

definition creation_quote_proof :: "json \<Rightarrow> string \<Rightarrow> target_plan_order list \<Rightarrow> json res" where
  "creation_quote_proof value run_id orders =
     rbind (detached_mapping value ''target plan creation_quote_proof'') (\<lambda>proof'.
     rbind (rguard (keys_are proof' FORMAL_QUOTE_PROOF_FIELDS)
       (plan_error ''target plan creation quote proof fields are not exact'')) (\<lambda>_.
     rbind (rguard (creation_policy_ok proof') (plan_error ''target plan creation quote proof policy is invalid'')) (\<lambda>_.
     rbind (contract_utc (fld proof' ''validated_at_utc'')
       ''target plan creation quote proof validated_at_utc'') (\<lambda>validated_at.
     rbind (detached_mapping (fld proof' ''bindings'') ''target plan creation quote proof bindings'') (\<lambda>bindings.
     rbind (required_quotes [] orders) (\<lambda>required.
     rbind (rguard (keys_are bindings (map fst required))
       (plan_error ''target plan creation quote proof contract set is not exact'')) (\<lambda>_.
     rbind (rall (check_creation_binding bindings (utc_time validated_at)) required) (\<lambda>_.
     rbind (price_contract run_id orders bindings) (\<lambda>_.
     rbind (adverse_limit_budget_cny run_id orders bindings) (\<lambda>budget.
     rbind (rguard (budget \<le> MAX_ADVERSE_LIMIT_BUDGET_CNY)
       (plan_error ''SIMNOW_EXPERIMENTAL target plan adverse limit budget exceeds CNY 30000'')) (\<lambda>_.
     Inr (dset proof' ''bindings'' bindings))))))))))))"

section \<open>The plan\<close>

definition KEYLESS_PLAN_FIELDS :: "string list" where
  "KEYLESS_PLAN_FIELDS = [''schema_version'', ''plan_id'', ''plan_hash'', ''custody_mode'', ''account_scope'',
     ''environment'', ''gateway_name'', ''lineage'', ''scope'', ''generated_at'', ''expires_at'', ''orders'', ''phase'',
     ''expected_before_position_hash'', ''expected_after_position_hash'', ''order_set_sha256''] @ AUTHORITY_FLAGS"

definition KEYLESS_PLAN_V3_FIELDS :: "string list" where
  "KEYLESS_PLAN_V3_FIELDS = KEYLESS_PLAN_FIELDS @ [''execution_run_id'', ''creation_quote_proof'']"

definition KEYLESS_PLAN_V3_IDENTITY_FIELDS :: "string list" where
  "KEYLESS_PLAN_V3_IDENTITY_FIELDS = filter (\<lambda>f. f \<notin> {''plan_id'', ''plan_hash''}) KEYLESS_PLAN_V3_FIELDS"

definition PLAN_FIELDS_V1 :: "string list" where
  "PLAN_FIELDS_V1 = [''schema_version'', ''plan_id'', ''plan_hash'', ''account_scope'', ''environment'',
     ''authority_artifact_id'', ''authority_artifact_sha256'', ''authority_receipt_id'', ''authority_receipt_sha256'',
     ''signer_key_id'', ''signer_key_version'', ''keyring_raw_sha256'', ''scope'', ''expires_at'', ''orders'', ''phase'',
     ''expected_before_position_hash'', ''expected_after_position_hash'', ''order_set_sha256''] @ AUTHORITY_FLAGS"

record target_plan =
  tp_raw :: json
  tp_orders :: "target_plan_order list"

definition v3_plan_id :: "json \<Rightarrow> string res" where
  "v3_plan_id value =
     rbind (detached_mapping value ''keyless target plan v3 identity'') (\<lambda>raw0.
     let raw = (if keys_are raw0 KEYLESS_PLAN_V3_FIELDS then dpop (dpop raw0 ''plan_id'') ''plan_hash'' else raw0);
         bad = plan_error ''keyless target plan v3 identity is invalid''
     in rbind (rguard (keys_are raw KEYLESS_PLAN_V3_IDENTITY_FIELDS)
          (plan_error ''keyless target plan v3 identity fields are not exact'')) (\<lambda>_.
        rbind (rguard (fld raw ''schema_version'' = JStr KEYLESS_V3) bad) (\<lambda>_.
        rbind (require_member (fld raw ''phase'') [''CLOSE'', ''OPEN''] bad) (\<lambda>_.
        rbind (short_string (fld raw ''execution_run_id'') ''keyless target plan v3 execution_run_id'' EXECUTION_RUN_ID_RE) (\<lambda>_.
        Inr (''static-core-full-'' @ str_lower (the_str (fld raw ''phase'')) @ ''-v3-'' @ json_hash raw))))))"

definition is_v3 :: "json \<Rightarrow> bool" where
  "is_v3 raw \<longleftrightarrow> fld raw ''schema_version'' = JStr KEYLESS_V3"

definition plan_fields :: "bool \<Rightarrow> json \<Rightarrow> string list" where
  "plan_fields keyless raw =
     (if is_v3 raw then KEYLESS_PLAN_V3_FIELDS else if keyless then KEYLESS_PLAN_FIELDS else PLAN_FIELDS_V1)"

definition check_lineage :: "json \<Rightarrow> unit res" where
  "check_lineage raw =
     rbind (detached_mapping (fld raw ''lineage'') ''keyless target plan lineage'') (\<lambda>lineage.
     let bad = plan_error ''keyless target plan lineage is invalid'' in
     if fld raw ''schema_version'' = JStr KEYLESS_V1
     then checks [rguard (keys_are lineage [''map_sha256'', ''c_fast_sha256'']) bad,
       just (contract_sha (fld lineage ''map_sha256'') ''keyless target plan MAP lineage''),
       just (contract_sha (fld lineage ''c_fast_sha256'') ''keyless target plan C_FAST lineage'')]
     else let names = [''final_target_sha256'', ''position_manager_sha256'', ''static_core_equal_sha256''] in
       checks [rguard (keys_are lineage names) bad,
         rall (\<lambda>f. just (contract_sha (fld lineage f) (''keyless target plan '' @ f @ '' lineage''))) names])"

text \<open>What only a plan without a signer has to satisfy.\<close>

definition check_keyless_scope :: "json \<Rightarrow> unit res" where
  "check_keyless_scope raw = checks
     [just (contract_utc (fld raw ''generated_at'') ''keyless target plan generated_at''),
      rguard (fld raw ''custody_mode'' = JStr ''trusted-keyless-simnow'' \<and> fld raw ''gateway_name'' = JStr ''CTP''
          \<and> fld raw ''account_scope'' = JStr ''account:windows'' \<and> jeq (fld raw ''scope'') TRUSTED_KEYLESS_SIMNOW_SCOPE)
        (plan_error ''keyless target plan scope is invalid''),
      check_lineage raw,
      if is_v3 raw
      then just (short_string (fld raw ''execution_run_id'') ''keyless target plan v3 execution_run_id'' EXECUTION_RUN_ID_RE)
      else Inr ()]"

definition check_plan_header :: "bool \<Rightarrow> json \<Rightarrow> unit res" where
  "check_plan_header keyless raw = checks
     [rguard (keys_are raw (plan_fields keyless raw)) (plan_error ''target plan fields are not exact''),
      require_member (fld raw ''schema_version'') (TARGET_PLAN_SCHEMA_VERSION # KEYLESS_SCHEMAS)
        (plan_error ''target plan schema_version is invalid''),
      each_field contract_id raw ''target plan ''
        (if keyless then [''plan_id'', ''account_scope'']
         else [''plan_id'', ''account_scope'', ''authority_artifact_id'', ''authority_receipt_id'']),
      if keyless then Inr () else checks
        [just (short_string (fld raw ''signer_key_id'') ''target plan signer_key_id'' (\<lambda>_. True)),
         just (short_string (fld raw ''signer_key_version'') ''target plan signer_key_version'' KEY_VERSION_RE)],
      each_field contract_sha raw ''target plan ''
        ([''plan_hash''] @
         (if keyless then [] else [''authority_artifact_sha256'', ''authority_receipt_sha256'', ''keyring_raw_sha256'']) @
         [''expected_before_position_hash'', ''expected_after_position_hash'', ''order_set_sha256'']),
      rguard (fld raw ''environment'' = JStr ''SIMNOW'') (plan_error ''target plan environment must be SIMNOW''),
      just (contract_utc (fld raw ''expires_at'') ''target plan expires_at''),
      just (detached_mapping (fld raw ''scope'') ''target plan scope''),
      if keyless then check_keyless_scope raw else Inr (),
      rguard (flags_false raw) (plan_error ''target plan authority flags must remain false''),
      rguard (is_jarr (fld raw ''orders'') \<and> jarr (fld raw ''orders'') \<noteq> [])
        (plan_error ''target plan orders must be a non-empty array'')]"

definition phase_offsets :: "string \<Rightarrow> string list" where
  "phase_offsets phase = (if phase = ''OPEN'' then [''OPEN''] else CLOSE_ORDER_OFFSETS)"

definition check_plan_orders :: "bool \<Rightarrow> json \<Rightarrow> target_plan_order list \<Rightarrow> unit res" where
  "check_plan_orders keyless raw orders =
     (let phase_bad = plan_error ''target plan orders must be one phase'' in checks
     [rguard (\<not> (keyless \<and> list_ex (\<lambda>o'. JStr (to_gateway_name o') \<noteq> fld raw ''gateway_name'') orders))
        (plan_error ''keyless target plan order gateway is not scope-bound''),
      rguard (distinct (map to_reference orders)) (plan_error ''target plan order references must be unique''),
      require_member (fld raw ''phase'') [''CLOSE'', ''OPEN''] phase_bad,
      rguard (list_all (\<lambda>o'. to_offset o' \<in> set (phase_offsets (the_str (fld raw ''phase'')))) orders) phase_bad,
      rguard (fld raw ''order_set_sha256'' = JStr (json_hash (JArr (map order_as_dict orders))))
        (plan_error ''target plan order set hash mismatch''),
      rguard (\<not> (keyless \<and> fld raw ''expected_before_position_hash'' = fld raw ''expected_after_position_hash''))
        (plan_error ''keyless target plan order has no position transition'')])"

text \<open>The creation quotes of a version 3 plan, and its derived id.\<close>

definition with_quote_proof :: "json \<Rightarrow> target_plan_order list \<Rightarrow> json res" where
  "with_quote_proof raw0 orders =
     (if \<not> is_v3 raw0 then Inr raw0
      else rbind (creation_quote_proof (fld raw0 ''creation_quote_proof'') (the_str (fld raw0 ''execution_run_id'')) orders)
        (\<lambda>proof'.
        let raw = dset raw0 ''creation_quote_proof'' proof' in
        rbind (rguard (utc_time (the_str (fld proof' ''validated_at_utc'')) < utc_time (the_str (fld raw ''expires_at'')))
          (plan_error ''keyless target plan v3 quote proof is not before expiry'')) (\<lambda>_.
        rbind (v3_plan_id raw) (\<lambda>expected.
        rbind (rguard (fld raw ''plan_id'' = JStr expected) (plan_error ''keyless target plan v3 plan_id mismatch'')) (\<lambda>_.
        Inr raw)))))"

definition target_plan_from_mapping :: "int \<Rightarrow> json \<Rightarrow> target_plan res" where
  "target_plan_from_mapping max_order_volume value =
     rbind (detached_mapping value ''target plan'') (\<lambda>raw0.
     rbind (member_of (fld raw0 ''schema_version'') KEYLESS_SCHEMAS) (\<lambda>keyless.
     rbind (check_plan_header keyless raw0) (\<lambda>_.
     rbind (rmap (order_from_mapping max_order_volume) (jarr (fld raw0 ''orders''))) (\<lambda>orders.
     rbind (check_plan_orders keyless raw0 orders) (\<lambda>_.
     rbind (with_quote_proof raw0 orders) (\<lambda>raw.
     rbind (rguard (fld raw ''plan_hash'' = JStr (json_hash (dpop raw ''plan_hash'')))
       (plan_error ''target plan hash mismatch'')) (\<lambda>_.
     rbind (detached_mapping (fld raw0 ''scope'') ''target plan scope'') (\<lambda>scope.
     Inr \<lparr>tp_raw = dset raw ''scope'' scope, tp_orders = orders\<rparr>))))))))"

definition tp_plan_id :: "target_plan \<Rightarrow> string" where
  "tp_plan_id p = py_str (fld (tp_raw p) ''plan_id'')"

definition tp_plan_hash :: "target_plan \<Rightarrow> string" where
  "tp_plan_hash p = py_str (fld (tp_raw p) ''plan_hash'')"

definition tp_keyless :: "target_plan \<Rightarrow> bool" where
  "tp_keyless p \<longleftrightarrow> str_sat (\<lambda>s. s \<in> set KEYLESS_SCHEMAS) (fld (tp_raw p) ''schema_version'')"

definition tp_authority_id :: "target_plan \<Rightarrow> string" where
  "tp_authority_id p = (if tp_keyless p then tp_plan_id p else py_str (fld (tp_raw p) ''authority_artifact_id''))"

definition tp_authority_hash :: "target_plan \<Rightarrow> string" where
  "tp_authority_hash p = (if tp_keyless p then tp_plan_hash p else py_str (fld (tp_raw p) ''authority_artifact_sha256''))"

definition tp_order :: "target_plan \<Rightarrow> json \<Rightarrow> target_plan_order res" where
  "tp_order p order_ref =
     rbind (contract_id order_ref ''order_ref'') (\<lambda>wanted.
     case filter (\<lambda>o'. to_reference o' = wanted) (tp_orders p) of
       [] \<Rightarrow> contract_error ''target plan order_ref is not present'' | o' # _ \<Rightarrow> Inr o')"

definition tp_as_dict :: "target_plan \<Rightarrow> json res" where
  "tp_as_dict p = detached_mapping (tp_raw p) ''target plan''"

section \<open>Builders\<close>

definition with_default :: "json \<Rightarrow> string \<Rightarrow> json \<Rightarrow> json" where
  "with_default d k v = (if has_key d k then d else dset d k v)"

definition default_flags :: "json \<Rightarrow> json" where
  "default_flags raw = foldl (\<lambda>d f. with_default d f (JBool False)) raw AUTHORITY_FLAGS"

text \<open>The order set hash, then the plan hash of everything else.\<close>

definition default_order_set :: "json \<Rightarrow> json res" where
  "default_order_set raw =
     rbind (contract_sha256_json (get_or raw ''orders'' (JArr []))) (\<lambda>h.
     Inr (dpop (with_default raw ''order_set_sha256'' (JStr h)) ''plan_hash''))"

definition seal_plan :: "json \<Rightarrow> json res" where
  "seal_plan raw =
     rbind (contract_sha256_json raw) (\<lambda>h.
     rbind (target_plan_from_mapping 1 (dset raw ''plan_hash'' (JStr h))) tp_as_dict)"

definition build_target_plan :: "json \<Rightarrow> json res" where
  "build_target_plan given =
     rbind (default_order_set (default_flags (with_default given ''schema_version'' (JStr TARGET_PLAN_SCHEMA_VERSION)))) seal_plan"

definition keyless_defaults :: "string \<Rightarrow> string \<Rightarrow> json \<Rightarrow> json res" where
  "keyless_defaults schema msg given =
     (if get_or given ''schema_version'' (JStr schema) \<noteq> JStr schema then contract_error msg
      else default_order_set (default_flags
        (with_default (with_default (with_default given ''schema_version'' (JStr schema))
          ''custody_mode'' (JStr ''trusted-keyless-simnow'')) ''scope'' TRUSTED_KEYLESS_SIMNOW_SCOPE)))"

definition build_trusted_keyless_target_plan :: "json \<Rightarrow> json res" where
  "build_trusted_keyless_target_plan given =
     rbind (keyless_defaults KEYLESS_V1 ''keyless target plan v1 builder requires the v1 schema'' given) seal_plan"

definition build_trusted_keyless_target_plan_v2 :: "json \<Rightarrow> json res" where
  "build_trusted_keyless_target_plan_v2 given =
     rbind (keyless_defaults KEYLESS_V2 ''keyless target plan v2 builder requires the v2 schema'' given) seal_plan"

definition build_trusted_keyless_target_plan_v3 :: "json \<Rightarrow> json res" where
  "build_trusted_keyless_target_plan_v3 given =
     rbind (keyless_defaults KEYLESS_V3 ''keyless target plan v3 builder requires the v3 schema'' given) (\<lambda>raw0.
     let supplied = fld raw0 ''plan_id''; raw = dpop raw0 ''plan_id'' in
     rbind (v3_plan_id raw) (\<lambda>plan_id.
     if supplied \<noteq> JNull \<and> supplied \<noteq> JStr plan_id
     then contract_error ''keyless target plan v3 supplied plan_id mismatch''
     else seal_plan (dset raw ''plan_id'' (JStr plan_id))))"

end
