(* ===== verification/Decimal_Facts.thy ===== *)
theory Decimal_Facts
  imports Py_Decimal
begin

text \<open>
  The leading digit of a rational, and why rounding a positive number to some digits or to a float
  keeps it positive.
\<close>

lemma ilog_le: "2 \<le> b \<Longrightarrow> 0 < n \<Longrightarrow> b ^ ilog b n \<le> n"
proof (induction b n rule: ilog.induct)
  case (1 b n)
  show ?case
  proof (cases "n < b")
    case True
    then show ?thesis using 1(3) by (subst ilog.simps) simp
  next
    case False
    then have "0 < n div b" using 1(2) by (simp add: div_greater_zero_iff)
    then have "b ^ ilog b (n div b) \<le> n div b" using 1 False by simp
    then have "b * b ^ ilog b (n div b) \<le> b * (n div b)" by simp
    also have "\<dots> \<le> n" by simp
    finally show ?thesis using False 1(2) by (subst ilog.simps) simp
  qed
qed

lemma ilog_less: "2 \<le> b \<Longrightarrow> n < b ^ Suc (ilog b n)"
proof (induction b n rule: ilog.induct)
  case (1 b n)
  show ?case
  proof (cases "n < b")
    case True
    then show ?thesis by (subst ilog.simps) simp
  next
    case False
    then have "n div b < b ^ Suc (ilog b (n div b))" using 1 by simp
    then have "n < b * b ^ Suc (ilog b (n div b))"
      using 1(2) by (simp add: div_less_iff_less_mult mult.commute)
    then show ?thesis using False 1(2) by (subst ilog.simps) simp
  qed
qed

lemma rpow_diff: "0 < b \<Longrightarrow> rpow b (int i - int j) = of_nat b ^ i / of_nat b ^ j"
proof (cases "j \<le> i")
  case True
  assume "0 < b"
  have "nat (int i - int j) = i - j" using True by simp
  then show ?thesis using True \<open>0 < b\<close> by (simp add: rpow_def power_diff)
next
  case False
  assume "0 < b"
  have "nat (int j - int i) = j - i" using False by simp
  then show ?thesis using False \<open>0 < b\<close> by (simp add: rpow_def power_diff field_simps)
qed

lemma rpow_add: "0 < b \<Longrightarrow> rpow b (i + j) = rpow b i * rpow b j"
proof -
  assume b: "0 < b"
  obtain i1 i2 where i: "i = int i1 - int i2" by (metis int_diff_cases)
  obtain j1 j2 where j: "j = int j1 - int j2" by (metis int_diff_cases)
  have "i + j = int (i1 + j1) - int (i2 + j2)" using i j by simp
  then show ?thesis
    using b unfolding i j by (simp only: rpow_diff power_add times_divide_times_eq)
qed

lemma magnitude_le: "2 \<le> b \<Longrightarrow> 0 < x \<Longrightarrow> rpow b (magnitude b x) \<le> x"
proof -
  assume b: "2 \<le> b" and x: "0 < x"
  obtain p q where pq: "quotient_of x = (p, q)" by fastforce
  have q: "0 < q" using quotient_of_denom_pos [OF pq] .
  have eq: "x = of_int p / of_int q" using quotient_of_div [OF pq] .
  have p: "0 < p" using x q by (simp add: eq zero_less_divide_iff)
  let ?i = "ilog b (nat p)" and ?j = "ilog b (nat q)"
  have "b ^ ?i \<le> nat p" using b p by (intro ilog_le) auto
  then have lo: "of_nat b ^ ?i \<le> (of_int p :: rat)"
    by (metis (mono_tags) of_nat_le_iff of_nat_power of_nat_nat p of_int_of_nat_eq order_less_imp_le)
  have "nat q < b ^ Suc ?j" using b by (intro ilog_less)
  then have hi: "(of_int q :: rat) \<le> of_nat b ^ Suc ?j"
    by (metis (mono_tags) of_nat_le_iff of_nat_power of_nat_nat q of_int_of_nat_eq order_less_imp_le)
  have "rpow b (int ?i - int ?j - 1) = of_nat b ^ ?i / of_nat b ^ Suc ?j"
    using rpow_diff [of b ?i "Suc ?j"] b by (simp add: algebra_simps)
  also have "\<dots> \<le> of_int p / of_int q"
    using lo hi p q b by (intro frac_le) auto
  finally show ?thesis
    using eq pq by (auto simp: magnitude_def Let_def)
qed

lemma round_half_even_pos:
  assumes "1 \<le> x"
  shows "1 \<le> round_half_even x"
proof -
  have "1 \<le> \<lfloor>x\<rfloor>" using assms by simp
  then show ?thesis by (simp add: round_half_even_def Let_def)
qed

lemma rounded_pos:
  assumes "2 \<le> b" "0 < x" "e \<le> magnitude b x"
  shows "1 \<le> round_half_even (x / rpow b e)"
proof -
  have "rpow b e * 1 \<le> rpow b e * rpow b (magnitude b x - e)"
    using assms rpow_pos [of b e] by (intro mult_left_mono) (auto simp: rpow_def)
  also have "\<dots> = rpow b (magnitude b x)"
    using assms(1) rpow_add [of b e "magnitude b x - e"] by simp
  also have "\<dots> \<le> x" using assms by (intro magnitude_le)
  finally show ?thesis
    using rpow_pos [of b e] assms(1) by (intro round_half_even_pos) (simp add: field_simps)
qed

lemma magnitude_of_int_nonneg:
  assumes "2 \<le> b" "1 \<le> n"
  shows "0 \<le> magnitude b (of_int n)"
proof -
  let ?k = "ilog b (nat n)"
  have "b ^ ?k \<le> nat n" using assms by (intro ilog_le) auto
  then have "of_nat b ^ ?k \<le> (of_int n :: rat)"
    using assms(2) by (metis (mono_tags) of_nat_le_iff of_nat_power of_nat_nat order_trans zero_le_one
        of_int_of_nat_eq)
  then have "rpow b (int ?k) \<le> of_int n" by (simp add: rpow_def)
  moreover have "ilog b 1 = 0" using assms(1) by (simp add: ilog.simps)
  ultimately show ?thesis by (simp add: magnitude_def)
qed

lemma to_float_int_pos:
  assumes "1 \<le> n" "to_float (of_int n) = Some x"
  shows "0 < x"
proof -
  let ?e = "float_exponent (of_int n)"
  have "0 \<le> magnitude 2 (of_int n :: rat)" using assms(1) by (intro magnitude_of_int_nonneg) simp_all
  then have "?e \<le> magnitude 2 (of_int n :: rat)" using assms(1) by (simp add: float_exponent_def)
  then have "1 \<le> round_half_even (of_int n / rpow 2 ?e)" using assms(1) by (intro rounded_pos) auto
  moreover have "x = of_int (round_half_even (of_int n / rpow 2 ?e)) * rpow 2 ?e"
    using assms(2) by (simp add: to_float_def Let_def split: if_splits)
  ultimately show ?thesis using rpow_pos [of 2 ?e] by simp
qed

lemma dec_norm_pos: "0 < m \<Longrightarrow> \<exists>m' e'. dec_norm m e = JDec m' e' \<and> 0 < m'"
  by (induction m e rule: dec_norm.induct) (subst dec_norm.simps, auto simp: pos_imp_zdiv_pos_iff zmod_eq_0_iff)

lemma round_half_even_numeral [simp]:
  "round_half_even (numeral k) = numeral k" "round_half_even 1 = 1" "round_half_even 0 = 0"
  using round_half_even_of_int [of "numeral k"] round_half_even_of_int [of 1] round_half_even_of_int [of 0]
  by simp_all

end
