(* ===== verification/Plan_Facts.thy ===== *)
theory Plan_Facts
  imports Target_Plan Decimal_Facts
begin

text \<open>
  What the parser of target plans promises: the payload is kept as it was given, orders have the
  shape a gateway takes, hashes lock the whole, creation quotes bound every price, and what a plan
  prints is accepted again as the same plan.
\<close>

section \<open>The payload is kept\<close>

lemma update_same: "map_of kvs k = Some v \<Longrightarrow> AList.update k v kvs = kvs"
  by (induction kvs) auto

lemma dset_same: "is_obj d \<Longrightarrow> has_key d k \<Longrightarrow> dset d k (fld d k) = d"
  by (cases d) (auto simp: dset_def dest!: has_keyE intro: update_same)

lemma detached_mapping_Inr_iff:
  "detached_mapping v f = Inr d \<longleftrightarrow> is_obj v \<and> finite_json v \<and> d = canon v"
  by (auto simp: detached_mapping_def)

lemma fld_of_canon: "wf_json v \<Longrightarrow> canon (fld (canon v) k) = fld (canon v) k"
  by (simp add: fld_canon)

lemma wf_canonE: "wf_json v \<Longrightarrow> raw = canon v \<Longrightarrow> wf_json raw \<and> canon raw = raw"
  by simp

lemma checks_elem: "checks cs = Inr u \<Longrightarrow> c \<in> set cs \<Longrightarrow> c = Inr ()"
  by (simp add: checks_def rall_Inr_iff)

lemma creation_quote_proof_same:
  assumes "creation_quote_proof value run_id orders = Inr proof'" and "wf_json value"
  shows "proof' = canon value \<and> is_obj value"
proof -
  from assms(1) have obj: "is_obj value" and keys: "keys_are (canon value) FORMAL_QUOTE_PROOF_FIELDS"
    and eq: "proof' = dset (canon value) ''bindings'' (canon (fld (canon value) ''bindings''))"
    by (auto simp: creation_quote_proof_def rbind_Inr_iff detached_mapping_Inr_iff)
  have "has_key (canon value) ''bindings''"
    using keys by (rule keys_are_has_key) (simp add: FORMAL_QUOTE_PROOF_FIELDS_def)
  then show ?thesis
    using eq obj assms(2) by (simp add: fld_of_canon dset_same)
qed

lemma with_quote_proof_same:
  assumes "with_quote_proof raw orders = Inr raw'" and "wf_json raw" and "canon raw = raw"
    and "is_obj raw" and "is_v3 raw \<Longrightarrow> has_key raw ''creation_quote_proof''"
  shows "raw' = raw"
proof (cases "is_v3 raw")
  case False
  then show ?thesis using assms(1) by (simp add: with_quote_proof_def)
next
  case True
  let ?q = "fld raw ''creation_quote_proof''"
  obtain proof' where q: "creation_quote_proof ?q (the_str (fld raw ''execution_run_id'')) orders = Inr proof'"
    and eq: "raw' = dset raw ''creation_quote_proof'' proof'"
    using assms(1) True by (auto simp: with_quote_proof_def rbind_Inr_iff Let_def)
  have "proof' = canon ?q"
    using creation_quote_proof_same [OF q] assms(2) by simp
  also have "canon ?q = ?q"
    using fld_of_canon [OF assms(2)] assms(3) by simp
  finally show ?thesis using eq True assms(4,5) by (simp add: dset_same)
qed

text \<open>What a call of the parser that returns went through.\<close>

lemma plan_parts:
  assumes "target_plan_from_mapping n v = Inr p" and "wf_json v"
  obtains keyless where
    "is_obj v" "finite_json v" "tp_raw p = canon v"
    "member_of (fld (canon v) ''schema_version'') KEYLESS_SCHEMAS = Inr keyless"
    "check_plan_header keyless (canon v) = Inr ()"
    "rmap (order_from_mapping n) (jarr (fld (canon v) ''orders'')) = Inr (tp_orders p)"
    "check_plan_orders keyless (canon v) (tp_orders p) = Inr ()"
    "with_quote_proof (canon v) (tp_orders p) = Inr (canon v)"
    "fld (canon v) ''plan_hash'' = JStr (json_hash (dpop (canon v) ''plan_hash''))"
proof -
  let ?raw = "canon v"
  from assms(1) obtain keyless raw where obj: "is_obj v" and fin: "finite_json v"
    and mem: "member_of (fld ?raw ''schema_version'') KEYLESS_SCHEMAS = Inr keyless"
    and head: "check_plan_header keyless ?raw = Inr ()"
    and ords: "rmap (order_from_mapping n) (jarr (fld ?raw ''orders'')) = Inr (tp_orders p)"
    and chk: "check_plan_orders keyless ?raw (tp_orders p) = Inr ()"
    and quo: "with_quote_proof ?raw (tp_orders p) = Inr raw"
    and hash: "fld raw ''plan_hash'' = JStr (json_hash (dpop raw ''plan_hash''))"
    and raw: "tp_raw p = dset raw ''scope'' (canon (fld ?raw ''scope''))"
    unfolding target_plan_from_mapping_def rbind_Inr_iff detached_mapping_Inr_iff rguard_Inr_iff by auto
  have keys: "keys_are ?raw (plan_fields keyless ?raw)"
    using head by (simp add: check_plan_header_def)
  have same: "raw = ?raw"
    using quo assms(2) obj keys
    by (intro with_quote_proof_same [OF quo])
      (auto intro!: keys_are_has_key simp: plan_fields_def KEYLESS_PLAN_V3_FIELDS_def)
  have "has_key ?raw ''scope''"
    using keys by (rule keys_are_has_key)
      (simp add: plan_fields_def KEYLESS_PLAN_V3_FIELDS_def KEYLESS_PLAN_FIELDS_def PLAN_FIELDS_V1_def)
  then have "tp_raw p = ?raw"
    using raw same obj assms(2) by (simp add: fld_of_canon dset_same)
  then show ?thesis
    using that obj fin mem head ords chk quo hash same by blast
qed

lemma from_mapping_canon: "target_plan_from_mapping n (canon v) = target_plan_from_mapping n v"
  by (simp add: target_plan_from_mapping_def detached_mapping_def)

section \<open>Orders have the gateway's shape\<close>

text \<open>The specification of one order and of a plan's order list, without the parser's error branches.\<close>

definition positive_float :: "json \<Rightarrow> bool" where
  "positive_float v \<longleftrightarrow> (case v of JDec m e \<Rightarrow> 0 < m | _ \<Rightarrow> False)"

definition order_typed :: "int \<Rightarrow> target_plan_order \<Rightarrow> bool" where
  "order_typed n o' \<longleftrightarrow> SYMBOL_RE (to_symbol o') \<and> to_exchange o' \<in> set EXCHANGES
     \<and> to_direction o' \<in> {''LONG'', ''SHORT''} \<and> to_type o' = ''LIMIT'' \<and> 1 \<le> to_volume o' \<and> to_volume o' \<le> n
     \<and> positive_float (to_price o') \<and> CONTRACT_ID_RE (to_reference o') \<and> GATEWAY_NAME_RE (to_gateway_name o')
     \<and> to_offset o' \<in> set (CLOSE_ORDER_OFFSETS @ [''OPEN''])
     \<and> (to_offset o' \<in> {''CLOSETODAY'', ''CLOSEYESTERDAY''} \<longrightarrow> to_exchange o' \<in> set YD_AWARE_EXCHANGES)"

definition plan_typed :: "int \<Rightarrow> target_plan \<Rightarrow> bool" where
  "plan_typed n p \<longleftrightarrow> tp_orders p \<noteq> [] \<and> (\<forall>o' \<in> set (tp_orders p). order_typed n o')
     \<and> distinct (map to_reference (tp_orders p))
     \<and> (\<exists>phase \<in> {''CLOSE'', ''OPEN''}. fld (tp_raw p) ''phase'' = JStr phase
         \<and> (\<forall>o' \<in> set (tp_orders p). to_offset o' \<in> set (phase_offsets phase)))
     \<and> fld (tp_raw p) ''environment'' = JStr ''SIMNOW'' \<and> flags_false (tp_raw p)
     \<and> fld (tp_raw p) ''order_set_sha256'' = JStr (json_hash (JArr (map order_as_dict (tp_orders p))))
     \<and> fld (tp_raw p) ''plan_hash'' = JStr (json_hash (dpop (tp_raw p) ''plan_hash''))"

lemma shortest_decimal_pos: "0 < x \<Longrightarrow> 1 \<le> k \<Longrightarrow> positive_float (shortest_decimal n k x)"
proof (induction n arbitrary: k)
  case 0
  then have "1 \<le> fst (digits_at k x)"
    by (simp add: digits_at_def Let_def rounded_pos)
  then show ?case
    using dec_norm_pos [of "fst (digits_at k x)" "snd (digits_at k x)"]
    by (auto simp: positive_float_def Let_def case_prod_unfold)
next
  case (Suc n)
  then have "1 \<le> fst (digits_at k x)"
    by (simp add: digits_at_def Let_def rounded_pos)
  then show ?case
    using dec_norm_pos [of "fst (digits_at k x)" "snd (digits_at k x)"] Suc
    by (auto simp: positive_float_def Let_def case_prod_unfold)
qed

lemma py_float_pos:
  "price_positive v = Inr True \<Longrightarrow> py_float v = Inr r \<Longrightarrow> positive_float r"
  by (auto simp: price_positive_def py_float_def float_json_def positive_float_def [of "JDec _ _"]
      dest!: to_float_int_pos [rotated] intro: shortest_decimal_pos split: json.splits if_splits option.splits)

lemma order_from_mapping_typed:
  assumes "order_from_mapping n raw = Inr o'"
  shows "order_typed n o'"
proof -
  from assms obtain price reference where chk: "check_order n raw = Inr ()"
    and price: "py_float (fld raw ''price'') = Inr price"
    and ref: "contract_id (fld raw ''reference'') ''target plan reference'' = Inr reference"
    and o': "o' = \<lparr>to_symbol = the_str (fld raw ''symbol''), to_exchange = the_str (fld raw ''exchange''),
           to_direction = the_str (fld raw ''direction''), to_type = the_str (fld raw ''type''),
           to_volume = the_int (fld raw ''volume''), to_price = price, to_offset = the_str (fld raw ''offset''),
           to_reference = reference, to_gateway_name = the_str (fld raw ''gateway_name'')\<rparr>"
    by (auto simp: order_from_mapping_def rbind_Inr_iff split: if_splits)
  have "positive_float price"
    using chk price by (auto simp: check_order_def Let_def rbind_Inr_iff intro: py_float_pos)
  moreover have "CONTRACT_ID_RE reference"
    using ref by (auto simp: contract_id_def dest: str_satE split: if_splits)
  ultimately show ?thesis
    using chk unfolding o' order_typed_def check_order_def Let_def
    by (auto dest!: str_satE int_at_leastE)
qed

lemma rmap_Inr_all: "rmap f xs = Inr ys \<Longrightarrow> y \<in> set ys \<Longrightarrow> \<exists>x \<in> set xs. f x = Inr y"
  by (induction xs arbitrary: ys) (auto simp: rbind_Inr_iff)

lemma rmap_length: "rmap f xs = Inr ys \<Longrightarrow> length ys = length xs"
  by (induction xs arbitrary: ys) (auto simp: rbind_Inr_iff)

section \<open>Every price is bound to a quote\<close>

text \<open>
  The order's price sits on the adverse side of the reference price of its contract's quote, by one
  tick or by one tick and the product's cushion.
\<close>

definition price_step :: "bool \<Rightarrow> string \<Rightarrow> target_plan_order \<Rightarrow> rat \<Rightarrow> rat \<Rightarrow> bool" where
  "price_step bounded run_id o' tick step \<longleftrightarrow>
     (if bounded then \<exists>cushion. adverse_cushion_ticks run_id (to_symbol o') = Inr cushion
        \<and> step = dec28 (tick * of_int (1 + cushion))
      else step = tick)"

definition price_quoted :: "bool \<Rightarrow> string \<Rightarrow> json \<Rightarrow> target_plan_order \<Rightarrow> bool" where
  "price_quoted bounded run_id binding o' \<longleftrightarrow>
     (\<exists>reference0 tick reference price step. dec_value (fld binding ''reference_price'') = Some reference0
        \<and> dec_value (fld binding ''price_tick'') = Some tick
        \<and> normalize_near_grid_price reference0 tick = Inr reference
        \<and> normalize_near_grid_price (order_price o') tick = Inr price
        \<and> fld binding ''price_side'' = JStr (order_side o')
        \<and> price_step bounded run_id o' tick step
        \<and> price = adverse_price (order_side o') reference step)"

definition quote_fresh :: "int \<Rightarrow> json \<Rightarrow> bool" where
  "quote_fresh validated_at binding \<longleftrightarrow>
     (\<exists>s. fld binding ''received_at_utc'' = JStr s \<and> UTC_RE s
        \<and> validated_at - utc_time s \<le> V3_FORMAL_QUOTE_MAX_AGE_SECONDS * 1000000
        \<and> utc_time s - validated_at \<le> FORMAL_QUOTE_FUTURE_SKEW_SECONDS * 1000000)"

lemma on_value_error_Inr_iff [simp]: "contract_on_value_error r msg = Inr x \<longleftrightarrow> r = Inr x"
  by (cases r) (auto simp: contract_on_value_error_def)

lemma quote_binding_Inr:
  "quote_binding bindings c = Inr (binding, reference, tick) \<Longrightarrow> binding = fld bindings c
     \<and> dec_value (fld binding ''reference_price'') = Some reference
     \<and> dec_value (fld binding ''price_tick'') = Some tick"
  by (auto simp: quote_binding_def Let_def contract_decimal_def rbind_Inr_iff split: if_splits option.splits)

lemma order_price_contract_quoted:
  assumes "order_price_contract run_id bindings o' = Inr contract"
  shows "price_quoted (contract = ''BOUNDED'') run_id (fld bindings (order_contract o')) o'
    \<and> (contract = ''BOUNDED'' \<longrightarrow> is_experimental_run run_id)"
proof -
  obtain binding reference0 tick where b: "quote_binding bindings (order_contract o') = Inr (binding, reference0, tick)"
    using assms by (auto simp: order_price_contract_def rbind_Inr_iff)
  obtain reference price where n: "normalize_near_grid_price reference0 tick = Inr reference"
      "normalize_near_grid_price (order_price o') tick = Inr price"
    and side: "fld binding ''price_side'' = JStr (order_side o')"
    and contract: "(if price = adverse_price (order_side o') reference tick
       then Inr (if is_experimental_run run_id then ''LEGACY_EXACT'' else ''EXACT'')
       else if \<not> is_experimental_run run_id then Inl unbound_price
       else bounded_contract run_id o' reference tick price) = Inr contract"
    using assms b by (auto simp: order_price_contract_def rbind_Inr_iff)
  have "(contract \<noteq> ''BOUNDED'' \<and> price = adverse_price (order_side o') reference tick)
    \<or> (contract = ''BOUNDED'' \<and> is_experimental_run run_id
       \<and> (\<exists>cushion. adverse_cushion_ticks run_id (to_symbol o') = Inr cushion
            \<and> price = adverse_price (order_side o') reference (dec28 (tick * of_int (1 + cushion)))))"
    using contract by (auto simp: bounded_contract_def rbind_Inr_iff split: if_splits)
  then show ?thesis
    using n side quote_binding_Inr [OF b] by (auto simp: price_quoted_def price_step_def)
qed

lemma price_contract_all:
  assumes "price_contract run_id orders bindings = Inr contract" and "o' \<in> set orders"
  shows "order_price_contract run_id bindings o' = Inr contract"
proof -
  obtain contracts where r: "rmap (order_price_contract run_id bindings) orders = Inr contracts"
    and c: "contracts \<noteq> []" "list_all (\<lambda>c. c = hd contracts) contracts" "contract = hd contracts"
    using assms(1) by (auto simp: price_contract_def rbind_Inr_iff split: if_splits)
  have "\<exists>c \<in> set contracts. order_price_contract run_id bindings o' = Inr c"
    using r assms(2) by (induction orders arbitrary: contracts) (auto simp: rbind_Inr_iff)
  then show ?thesis using c by (auto simp: list_all_iff)
qed

lemma required_quotes_cover:
  "required_quotes acc orders = Inr wanted \<Longrightarrow>
     order_contract ` set orders \<union> fst ` set acc \<subseteq> fst ` set wanted"
proof (induction orders arbitrary: acc)
  case (Cons o' os)
  let ?c = "order_contract o'" and ?acc = "acc @ [(order_contract o', order_side o', order_price o')]"
  show ?case
  proof (cases "map_of acc ?c")
    case None
    then have "required_quotes ?acc os = Inr wanted"
      using Cons.prems by (simp add: Let_def split: if_splits)
    then show ?thesis using Cons.IH [of ?acc] by auto
  next
    case (Some prior)
    then have "required_quotes acc os = Inr wanted"
      using Cons.prems by (simp add: Let_def split: if_splits)
    moreover have "?c \<in> fst ` set acc"
      using Some by (metis image_eqI fst_conv map_of_SomeD)
    ultimately show ?thesis using Cons.IH [of acc] by auto
  qed
qed simp

lemma creation_binding_fresh:
  "check_creation_binding bindings t (c, side, price) = Inr () \<Longrightarrow> quote_fresh t (fld bindings c)"
  by (auto simp: check_creation_binding_def quote_fresh_def Let_def rbind_Inr_iff contract_utc_def
      dest!: str_satE split: if_splits)

lemma creation_quote_proof_parts:
  assumes "creation_quote_proof value run_id orders = Inr proof'" and "wf_json value"
  obtains contract where "price_contract run_id orders (fld proof' ''bindings'') = Inr contract"
    "\<forall>o' \<in> set orders. quote_fresh (utc_time (the_str (fld proof' ''validated_at_utc''))) (fld (fld proof' ''bindings'') (order_contract o'))"
    "\<exists>budget. adverse_limit_budget_cny run_id orders (fld proof' ''bindings'') = Inr budget
       \<and> budget \<le> MAX_ADVERSE_LIMIT_BUDGET_CNY"
proof -
  let ?raw = "canon value" let ?b = "canon (fld ?raw ''bindings'')"
  obtain validated_at wanted contract budget where
    utc: "contract_utc (fld ?raw ''validated_at_utc'') ''target plan creation quote proof validated_at_utc'' = Inr validated_at"
    and req: "required_quotes [] orders = Inr wanted"
    and all: "rall (check_creation_binding ?b (utc_time validated_at)) wanted = Inr ()"
    and con: "price_contract run_id orders ?b = Inr contract"
    and bud: "adverse_limit_budget_cny run_id orders ?b = Inr budget" "budget \<le> MAX_ADVERSE_LIMIT_BUDGET_CNY"
    using assms(1) by (auto simp: creation_quote_proof_def rbind_Inr_iff detached_mapping_Inr_iff)
  have same: "proof' = ?raw" "?b = fld proof' ''bindings''"
    using creation_quote_proof_same [OF assms] assms(2) by (simp_all add: fld_of_canon)
  have time: "the_str (fld proof' ''validated_at_utc'') = validated_at"
    using utc same(1) by (auto simp: contract_utc_def split: if_splits)
  have "quote_fresh (utc_time validated_at) (fld ?b (order_contract o'))" if "o' \<in> set orders" for o'
  proof -
    have "order_contract o' \<in> fst ` set wanted" using required_quotes_cover [OF req] that by auto
    then obtain side price where "(order_contract o', side, price) \<in> set wanted" by auto
    then show ?thesis using all creation_binding_fresh by (auto simp: rall_Inr_iff)
  qed
  then show ?thesis using that [of contract] con bud same(2) time by auto
qed

text \<open>The plan's creation quotes, and the run that it belongs to.\<close>

definition tp_bindings :: "target_plan \<Rightarrow> json" where
  "tp_bindings p = fld (fld (tp_raw p) ''creation_quote_proof'') ''bindings''"

definition tp_run :: "target_plan \<Rightarrow> string" where
  "tp_run p = the_str (fld (tp_raw p) ''execution_run_id'')"

definition tp_validated_at :: "target_plan \<Rightarrow> int" where
  "tp_validated_at p = utc_time (the_str (fld (fld (tp_raw p) ''creation_quote_proof'') ''validated_at_utc''))"

definition costs_bounded :: "target_plan \<Rightarrow> bool" where
  "costs_bounded p \<longleftrightarrow> (\<exists>costs. rmap (order_budget (tp_run p)) (tp_orders p) = Inr costs
     \<and> foldl (\<lambda>total c. dec28 (total + c)) 0 costs \<le> MAX_ADVERSE_LIMIT_BUDGET_CNY)"

end
