(* ===== verification/Sample_Plan.thy ===== *)
theory Sample_Plan
  imports Plan_Facts Repository_Facts
begin

text \<open>
  A version 3 plan of one experimental order with its quote, for the concrete uses of the properties
  of plans.
\<close>

definition quoted_order :: target_plan_order where
  "quoted_order = \<lparr>to_symbol = ''rb2610'', to_exchange = ''SHFE'', to_direction = ''LONG'', to_type = ''LIMIT'',
     to_volume = 1, to_price = JDec 3002 0, to_offset = ''OPEN'', to_reference = ''order-ref-0001'',
     to_gateway_name = ''CTP''\<rparr>"

definition sample_run :: string where
  "sample_run = ''simnow-experimental-'' @ replicate 48 (CHR ''a'')"

definition other_hash :: string where
  "other_hash = replicate 64 (CHR ''a'')"

lemma other_hash_ok: "SHA256_RE other_hash"
  by code_simp

definition sample_binding :: json where
  "sample_binding = JObj
     [(''event_hash'', JStr ZERO_HASH), (''ingest_id'', JStr ''ingest-1''), (''ingest_seq'', JInt 1),
      (''price_side'', JStr ''ask''), (''price_tick'', JDec 1 0), (''received_at_utc'', JStr (format_utc 2000000)),
      (''reference_price'', JDec 3000 0), (''source'', JStr ''windows-tick-wire-v1''),
      (''stream_generation'', JStr ''stream-1''), (''vt_symbol'', JStr ''rb2610.SHFE'')]"

definition sample_bindings :: json where
  "sample_bindings = JObj [(''SHFE.rb2610'', sample_binding)]"

definition sample_quotes :: json where
  "sample_quotes = JObj
     [(''schema_version'', JStr FORMAL_QUOTE_PROOF_SCHEMA_VERSION), (''validated_at_utc'', JStr (format_utc 5000000)),
      (''max_age_seconds'', JDec 5 0), (''future_skew_seconds'', JInt 2), (''journal_authenticated'', JBool False),
      (''start_authorized'', JBool False), (''bindings'', sample_bindings)]"

definition sample_given :: json where
  "sample_given = JObj
     [(''account_scope'', JStr ''account:windows''), (''environment'', JStr ''SIMNOW''), (''gateway_name'', JStr ''CTP''),
      (''lineage'', JObj [(''static_core_equal_sha256'', JStr ZERO_HASH), (''position_manager_sha256'', JStr ZERO_HASH),
         (''final_target_sha256'', JStr ZERO_HASH)]),
      (''generated_at'', JStr (format_utc 5000000)), (''expires_at'', JStr (format_utc 15000000)),
      (''orders'', JArr [order_as_dict quoted_order]), (''phase'', JStr ''OPEN''),
      (''expected_before_position_hash'', JStr ZERO_HASH), (''expected_after_position_hash'', JStr other_hash),
      (''execution_run_id'', JStr sample_run), (''creation_quote_proof'', sample_quotes)]"

text \<open>The same with the defaults, its derived id and the hash of everything.\<close>

definition sample_identity :: json where
  "sample_identity = dupdate sample_given
     [(''schema_version'', JStr KEYLESS_V3), (''custody_mode'', JStr ''trusted-keyless-simnow''),
      (''scope'', TRUSTED_KEYLESS_SIMNOW_SCOPE), (''production_allowed'', JBool False),
      (''live_trading_authorized'', JBool False), (''countable_forward'', JBool False),
      (''order_set_sha256'', JStr (json_hash (JArr [order_as_dict quoted_order])))]"

definition sample_plan_id :: string where
  "sample_plan_id = ''static-core-full-open-v3-'' @ json_hash sample_identity"

definition sample_sealed :: json where
  "sample_sealed = dset sample_identity ''plan_id'' (JStr sample_plan_id)"

definition sample_plan :: json where
  "sample_plan = dset sample_sealed ''plan_hash'' (JStr (json_hash sample_sealed))"

definition parsed_sample :: target_plan where
  "parsed_sample = \<lparr>tp_raw = canon sample_plan, tp_orders = [quoted_order]\<rparr>"

lemma sample_order_keys: "SYMBOL_RE ''rb2610''" "CONTRACT_ID_RE ''order-ref-0001''" "CONTRACT_ID_RE ''account:windows''"
  "GATEWAY_NAME_RE ''CTP''" "EXECUTION_RUN_ID_RE sample_run" "length (utf8 sample_run) \<le> 128" "sample_run \<noteq> []"
  "is_experimental_run sample_run" "str_lower ''OPEN'' = ''open''" "product_of ''rb2610'' = Some ''rb''"
  by code_simp+

lemma sample_magnitudes:
  "magnitude 10 3000 = 3" "magnitude 10 3002 = 3" "magnitude 10 3001 = 3" "magnitude 10 2 = 0" "magnitude 10 1 = 0" "magnitude 10 10 = 1"
  "magnitude 2 1 = 0"
  by (simp_all add: magnitude_def ilog.simps rpow_def)

lemma sample_dec28: "dec28 3000 = 3000" "dec28 3002 = 3002" "dec28 3001 = 3001" "dec28 2 = 2" "dec28 1 = 1" "dec28 10 = 10"
  using round_half_even_of_int [of "3000 * 10 ^ 24"] round_half_even_of_int [of "3002 * 10 ^ 24"]
    round_half_even_of_int [of "3001 * 10 ^ 24"]
    round_half_even_of_int [of "2 * 10 ^ 27"] round_half_even_of_int [of "10 ^ 27"] round_half_even_of_int [of "10 * 10 ^ 26"]
  by (simp_all add: dec28_def sample_magnitudes rpow_def)

lemma sample_grid: "normalize_near_grid_price 3000 1 = Inr 3000" "normalize_near_grid_price 3002 1 = Inr 3002"
  using normalize_on_grid [of 1 3000 3000] normalize_on_grid [of 1 3002 3002] by (simp_all add: sample_dec28 fits28_def)

lemma quoted_order_price [simp]: "order_price quoted_order = 3002" "order_side quoted_order = ''ask''"
  "order_contract quoted_order = ''SHFE.rb2610''"
  by (simp_all add: order_price_def order_side_def order_contract_def quoted_order_def dec_value_def)

lemma sample_cushion: "adverse_cushion_ticks sample_run ''rb2610'' = Inr 1"
  by (simp add: adverse_cushion_ticks_def sample_order_keys product_or_raise_def product_entry_def
      ADVERSE_CUSHION_TICKS_def)

lemma sample_binding_canon: "canon sample_binding = sample_binding" "canon sample_bindings = sample_bindings"
proof -
  have "sorted [''event_hash'', ''ingest_id'', ''ingest_seq'', ''price_side'', ''price_tick'', ''received_at_utc'',
    ''reference_price'', ''source'', ''stream_generation'', ''vt_symbol'']"
    by code_simp
  then show "canon sample_binding = sample_binding"
    by (simp add: sample_binding_def sort_items_def sort_key_id_if_sorted del: sorted_wrt.simps)
  then show "canon sample_bindings = sample_bindings"
    by (simp add: sample_bindings_def sort_items_def)
qed

lemma sample_bindings_simps [simp]:
  "fld sample_bindings ''SHFE.rb2610'' = sample_binding" "has_key sample_bindings ''SHFE.rb2610''"
  "is_obj sample_bindings" "is_obj sample_binding" "finite_json sample_bindings" "wf_json sample_bindings"
  "keys_are sample_bindings [''SHFE.rb2610'']"
  by (simp_all add: sample_bindings_def read_JObj has_key_def sample_binding_def keys_are_iff)

lemma sample_contract: "order_price_contract sample_run sample_bindings quoted_order = Inr ''BOUNDED''"
proof -
  have "quote_binding sample_bindings ''SHFE.rb2610'' = Inr (sample_binding, 3000, 1)"
    by (simp add: quote_binding_def)
      (simp add: sample_binding_def read_JObj dec_value_def has_key_def contract_decimal_def)
  moreover have "bounded_contract sample_run quoted_order 3000 1 3002 = Inr ''BOUNDED''"
    using sample_cushion
    by (simp add: bounded_contract_def product_or_raise_def product_entry_def PRODUCT_SPECS_def quoted_order_def
        sample_order_keys order_side_def adverse_price_def sample_dec28 rguard_def)
  ultimately show ?thesis
    by (simp add: order_price_contract_def sample_grid adverse_price_def sample_dec28 sample_order_keys
        contract_on_value_error_def rguard_def) (simp add: sample_binding_def read_JObj)
qed

lemma sample_budget:
  "price_contract sample_run [quoted_order] sample_bindings = Inr ''BOUNDED''"
  "adverse_limit_budget_cny sample_run [quoted_order] sample_bindings = Inr 10"
proof -
  have "order_budget sample_run quoted_order = Inr 10"
    using sample_cushion by (simp add: order_budget_def quoted_order_def product_or_raise_def product_entry_def
        PRODUCT_SPECS_def sample_order_keys sample_dec28)
  then show "price_contract sample_run [quoted_order] sample_bindings = Inr ''BOUNDED''"
      "adverse_limit_budget_cny sample_run [quoted_order] sample_bindings = Inr 10"
    using sample_contract by (simp_all add: adverse_limit_budget_cny_def price_contract_def sample_dec28)
qed

lemma sample_order_parsed: "order_from_mapping 1 (canon (order_as_dict quoted_order)) = Inr quoted_order"
proof -
  have wf: "wf_json (order_as_dict quoted_order)" by (simp add: order_as_dict_def quoted_order_def)
  have "keys_are (order_as_dict quoted_order) ORDER_FIELDS"
    by (auto simp: keys_are_iff order_as_dict_def ORDER_FIELDS_def)
  moreover have "is_obj (order_as_dict quoted_order)" by (simp add: order_as_dict_def)
  moreover have "check_order 1 (canon (order_as_dict quoted_order)) = Inr ()"
    using wf by (simp add: check_order_def Let_def fld_canon)
      (simp add: order_as_dict_def read_JObj quoted_order_def price_positive_def sample_order_keys
        EXCHANGES_def YD_AWARE_EXCHANGES_def)
  ultimately show ?thesis
    using wf by (simp add: order_from_mapping_def fld_canon)
      (simp add: order_as_dict_def read_JObj py_float_def contract_id_def quoted_order_def sample_order_keys)
qed

lemma utc_of_format: "in_calendar t \<Longrightarrow> utc_time (format_utc t) = t"
  using utc_text_parses [of t] by (simp add: utc_time_def format_utc_def)

lemma contract_utc_format: "in_calendar t \<Longrightarrow> contract_utc (JStr (format_utc t)) f = Inr (format_utc t)"
  using utc_text_parses [of t] by (simp add: contract_utc_def UTC_RE_def format_utc_def)

lemma sample_times: "in_calendar 2000000" "in_calendar 5000000" "in_calendar 15000000"
  by code_simp+

lemmas sample_defs = sample_plan_def sample_sealed_def sample_identity_def sample_given_def

lemma sample_given_ok: "wf_json sample_given" "finite_json sample_given"
  by (simp_all add: sample_given_def sample_quotes_def sample_bindings_def sample_binding_def order_as_dict_def
      quoted_order_def)

lemma sample_scope: "is_obj TRUSTED_KEYLESS_SIMNOW_SCOPE" "finite_json TRUSTED_KEYLESS_SIMNOW_SCOPE"
    "wf_json TRUSTED_KEYLESS_SIMNOW_SCOPE"
  by (simp_all add: TRUSTED_KEYLESS_SIMNOW_SCOPE_def)

lemma sample_identity_ok: "wf_json sample_identity" "finite_json sample_identity"
  using sample_given_ok sample_scope by (simp_all add: sample_identity_def finite_json_dset)

lemma sample_plan_wf: "wf_json sample_plan" "finite_json sample_plan" "finite_json sample_identity" "finite_json sample_sealed"
  using sample_identity_ok by (simp_all add: sample_plan_def sample_sealed_def finite_json_dset)

lemma sample_fields [simp]:
  "fld sample_plan ''schema_version'' = JStr KEYLESS_V3" "fld sample_plan ''plan_id'' = JStr sample_plan_id"
  "fld sample_plan ''plan_hash'' = JStr (json_hash sample_sealed)"
  "fld sample_plan ''custody_mode'' = JStr ''trusted-keyless-simnow''"
  "fld sample_plan ''account_scope'' = JStr ''account:windows''" "fld sample_plan ''environment'' = JStr ''SIMNOW''"
  "fld sample_plan ''gateway_name'' = JStr ''CTP''"
  "fld sample_plan ''lineage'' = JObj [(''static_core_equal_sha256'', JStr ZERO_HASH),
     (''position_manager_sha256'', JStr ZERO_HASH), (''final_target_sha256'', JStr ZERO_HASH)]"
  "fld sample_plan ''scope'' = TRUSTED_KEYLESS_SIMNOW_SCOPE"
  "fld sample_plan ''generated_at'' = JStr (format_utc 5000000)"
  "fld sample_plan ''expires_at'' = JStr (format_utc 15000000)"
  "fld sample_plan ''orders'' = JArr [order_as_dict quoted_order]" "fld sample_plan ''phase'' = JStr ''OPEN''"
  "fld sample_plan ''expected_before_position_hash'' = JStr ZERO_HASH"
  "fld sample_plan ''expected_after_position_hash'' = JStr other_hash"
  "fld sample_plan ''order_set_sha256'' = JStr (json_hash (JArr [order_as_dict quoted_order]))"
  "fld sample_plan ''production_allowed'' = JBool False" "fld sample_plan ''live_trading_authorized'' = JBool False"
  "fld sample_plan ''countable_forward'' = JBool False" "fld sample_plan ''execution_run_id'' = JStr sample_run"
  "fld sample_plan ''creation_quote_proof'' = sample_quotes"
  by (simp_all add: sample_plan_def sample_sealed_def fld_dset) (simp_all add: sample_identity_def fld_dset,
      simp_all add: sample_given_def read_JObj)

lemma sample_quote_fields [simp]:
  "fld sample_quotes ''schema_version'' = JStr FORMAL_QUOTE_PROOF_SCHEMA_VERSION"
  "fld sample_quotes ''validated_at_utc'' = JStr (format_utc 5000000)"
  "fld sample_quotes ''max_age_seconds'' = JDec 5 0" "fld sample_quotes ''future_skew_seconds'' = JInt 2"
  "fld sample_quotes ''journal_authenticated'' = JBool False" "fld sample_quotes ''start_authorized'' = JBool False"
  "fld sample_quotes ''bindings'' = sample_bindings"
  "wf_json sample_quotes" "finite_json sample_quotes" "is_obj sample_quotes"
  "keys_are sample_quotes FORMAL_QUOTE_PROOF_FIELDS"
  by (auto simp: sample_quotes_def read_JObj sample_binding_def sample_bindings_def keys_are_iff FORMAL_QUOTE_PROOF_FIELDS_def)

lemma sample_obj: "is_obj sample_plan"
  by (simp add: sample_plan_def)

lemma sample_keys: "set (keys sample_plan) = set KEYLESS_PLAN_V3_FIELDS"
  by (auto simp: sample_defs KEYLESS_PLAN_V3_FIELDS_def KEYLESS_PLAN_FIELDS_def AUTHORITY_FLAGS_def)

lemma sample_is_v3: "is_v3 (canon sample_plan)" "is_v3 sample_plan"
  using sample_plan_wf by (simp_all add: is_v3_def fld_canon)

lemma id_shape_hashed:
  assumes "id_shape lo s" "length s \<le> 60"
  shows "id_shape lo (s @ json_hash v)"
proof -
  have "list_all id_rest_char (json_hash v)"
    using json_hash_is_hex [of v]
    by (rule list.pred_mono_strong) (auto simp: id_rest_char_def is_alnum_char_def is_hex_char_def is_digit_char_def
      is_lower_char_def char_between_def char_le_of_char)
  then show ?thesis using assms by (cases s) (auto simp: id_shape_def)
qed

lemma sample_plan_id_ok: "CONTRACT_ID_RE sample_plan_id"
proof -
  have "id_shape 7 ''static-core-full-open-v3-''" by code_simp
  then show ?thesis unfolding CONTRACT_ID_RE_def sample_plan_id_def by (rule id_shape_hashed) simp
qed

lemma sample_header: "check_plan_header True (canon sample_plan) = Inr ()"
proof -
  have "check_lineage (canon sample_plan) = Inr ()"
    using sample_plan_wf by (simp add: check_lineage_def detached_mapping_def fld_canon KEYLESS_V3_def KEYLESS_V1_def
        keys_are_iff contract_sha_def Let_def read_JObj del: canon.simps) auto
  moreover have "keys_are (canon sample_plan) (plan_fields True (canon sample_plan))"
    using sample_keys sample_is_v3 by (simp add: plan_fields_def keys_are_iff keys_canon)
  ultimately show ?thesis
    using sample_plan_wf sample_scope sample_is_v3 sample_times sample_plan_id_ok
    by (simp add: check_plan_header_def check_keyless_scope_def each_field_def rall_Inr_iff fld_canon contract_id_def
        contract_sha_def contract_utc_format detached_mapping_def flags_false_def AUTHORITY_FLAGS_def short_string_def
        sample_order_keys KEYLESS_SCHEMAS_def other_hash_ok del: canon.simps) (simp add: jarr_def)
qed

lemma sample_orders_ok: "check_plan_orders True (canon sample_plan) [quoted_order] = Inr ()"
proof -
  have "ZERO_HASH \<noteq> other_hash" by code_simp
  then show ?thesis
    using sample_plan_wf
    by (simp add: check_plan_orders_def Let_def fld_canon phase_offsets_def) (simp add: quoted_order_def)
qed

lemma sample_binding_checked:
  "check_creation_binding sample_bindings 5000000 (''SHFE.rb2610'', ''ask'', 3002) = Inr ()"
proof -
  have "keys_are sample_binding FORMAL_QUOTE_BINDING_FIELDS"
    by (auto simp: keys_are_iff sample_binding_def FORMAL_QUOTE_BINDING_FIELDS_def)
  moreover have "swap_contract ''SHFE.rb2610'' = ''rb2610.SHFE''" by code_simp
  moreover have "check_creation_prices ''SHFE.rb2610'' ''ask'' sample_binding = Inr ()"
    by (simp add: check_creation_prices_def Let_def)
      (simp add: sample_binding_def read_JObj contract_decimal_def dec_value_def sample_grid contract_on_value_error_def
        adverse_price_def sample_dec28)
  moreover have "fld sample_binding ''source'' = JStr ''windows-tick-wire-v1''"
    "fld sample_binding ''vt_symbol'' = JStr ''rb2610.SHFE''" "fld sample_binding ''price_side'' = JStr ''ask''"
    "fld sample_binding ''stream_generation'' = JStr ''stream-1''" "fld sample_binding ''ingest_id'' = JStr ''ingest-1''"
    "fld sample_binding ''ingest_seq'' = JInt 1" "fld sample_binding ''event_hash'' = JStr ZERO_HASH"
    "fld sample_binding ''received_at_utc'' = JStr (format_utc 2000000)"
    by (simp_all add: sample_binding_def read_JObj)
  ultimately show ?thesis
    by (simp add: check_creation_binding_def Let_def contract_sha_def contract_utc_format sample_times utc_of_format
        V3_FORMAL_QUOTE_MAX_AGE_SECONDS_def FORMAL_QUOTE_FUTURE_SKEW_SECONDS_def)
qed

lemma sample_quotes_accepted:
  "creation_quote_proof (canon sample_quotes) sample_run [quoted_order] = Inr (canon sample_quotes)"
proof -
  have "has_key (canon sample_quotes) ''bindings''"
    using keys_are_has_key [of sample_quotes FORMAL_QUOTE_PROOF_FIELDS "''bindings''"]
    by (simp add: FORMAL_QUOTE_PROOF_FIELDS_def [symmetric]) (simp add: FORMAL_QUOTE_PROOF_FIELDS_def)
  then have same: "dset (canon sample_quotes) ''bindings'' sample_bindings = canon sample_quotes"
    using dset_same [of "canon sample_quotes" "''bindings''"] by (simp add: fld_canon sample_binding_canon)
  have req: "required_quotes [] [quoted_order] = Inr [(''SHFE.rb2610'', ''ask'', 3002)]"
    by (simp add: Let_def) (simp add: quoted_order_def sample_order_keys)
  have pol: "creation_policy_ok (canon sample_quotes)"
    by (simp add: creation_policy_ok_def fld_canon is_float_def jeq_def V3_FORMAL_QUOTE_MAX_AGE_SECONDS_def
        FORMAL_QUOTE_FUTURE_SKEW_SECONDS_def)
  show ?thesis
    using req pol same sample_binding_checked
    by (simp add: creation_quote_proof_def detached_mapping_def fld_canon contract_utc_format sample_times utc_of_format
        sample_binding_canon sample_budget MAX_ADVERSE_LIMIT_BUDGET_CNY_def rguard_def del: required_quotes.simps)
qed

lemma sample_popped: "dpop sample_plan ''plan_hash'' = sample_sealed"
  "dpop (dpop sample_plan ''plan_id'') ''plan_hash'' = sample_identity"
  by (simp_all add: sample_defs dpop_def dset_def)

lemma sample_v3_plan_id: "v3_plan_id (canon sample_plan) = Inr sample_plan_id"
    "v3_plan_id sample_identity = Inr sample_plan_id"
proof -
  have "dpop (dpop (canon sample_plan) ''plan_id'') ''plan_hash'' = canon sample_identity"
    by (simp add: sample_popped flip: canon_dpop)
  moreover have "keys_are (canon sample_plan) KEYLESS_PLAN_V3_FIELDS"
    using sample_keys by (simp add: keys_are_iff keys_canon)
  moreover have "keys_are sample_identity KEYLESS_PLAN_V3_IDENTITY_FIELDS"
    by (auto simp: keys_are_iff sample_identity_def sample_given_def KEYLESS_PLAN_V3_IDENTITY_FIELDS_def
        KEYLESS_PLAN_V3_FIELDS_def KEYLESS_PLAN_FIELDS_def AUTHORITY_FLAGS_def)
  moreover have "fld sample_identity ''schema_version'' = JStr KEYLESS_V3" "fld sample_identity ''phase'' = JStr ''OPEN''"
    "fld sample_identity ''execution_run_id'' = JStr sample_run"
    by (simp_all add: sample_identity_def doc_simps) (simp_all add: sample_given_def read_JObj)
  moreover have "wf_json sample_identity"
    using sample_plan_wf wf_json_dpop by (metis sample_popped(2))
  moreover have "is_obj sample_identity" by (simp add: sample_identity_def)
  moreover have "\<not> keys_are sample_identity KEYLESS_PLAN_V3_FIELDS"
  proof
    assume "keys_are sample_identity KEYLESS_PLAN_V3_FIELDS"
    then have "has_key sample_identity ''plan_id''"
      by (rule keys_are_has_key) (simp add: KEYLESS_PLAN_V3_FIELDS_def KEYLESS_PLAN_FIELDS_def)
    then show False by (simp add: sample_identity_def has_key_dset) (simp add: sample_given_def has_key_def)
  qed
  ultimately show "v3_plan_id (canon sample_plan) = Inr sample_plan_id" "v3_plan_id sample_identity = Inr sample_plan_id"
    using sample_plan_wf sample_obj by (simp_all add: v3_plan_id_def detached_mapping_def fld_canon short_string_def
        sample_order_keys sample_plan_id_def)
qed

lemma sample_parses: "target_plan_from_mapping 1 sample_plan = Inr parsed_sample"
proof -
  let ?raw = "canon sample_plan"
  have has: "has_key ?raw k" if "k \<in> set KEYLESS_PLAN_V3_FIELDS" for k
    using that sample_keys by (simp add: has_key_def keys_canon)
  have same: "dset ?raw ''creation_quote_proof'' (canon sample_quotes) = ?raw"
      "dset ?raw ''scope'' (canon TRUSTED_KEYLESS_SIMNOW_SCOPE) = ?raw"
    using dset_same [of ?raw "''creation_quote_proof''"] dset_same [of ?raw "''scope''"]
      has [of "''creation_quote_proof''"] has [of "''scope''"] sample_plan_wf sample_obj
    by (simp_all add: fld_canon KEYLESS_PLAN_V3_FIELDS_def KEYLESS_PLAN_FIELDS_def)
  have quotes: "with_quote_proof ?raw [quoted_order] = Inr ?raw"
    using sample_plan_wf sample_is_v3 sample_quotes_accepted sample_v3_plan_id(1) same
    by (simp add: with_quote_proof_def fld_canon utc_of_format sample_times Let_def)
  have hash: "json_hash (dpop ?raw ''plan_hash'') = json_hash sample_sealed"
    by (simp add: sample_popped flip: canon_dpop)
  have keyless: "member_of (JStr KEYLESS_V3) KEYLESS_SCHEMAS = Inr True"
    by (simp add: member_of_def KEYLESS_SCHEMAS_def)
  show ?thesis
    using sample_plan_wf sample_obj sample_scope sample_header sample_orders_ok quotes hash same keyless
    by (simp add: target_plan_from_mapping_def detached_mapping_def fld_canon jarr_def sample_order_parsed parsed_sample_def)
qed

text \<open>The builder makes it from the fields that were given.\<close>

lemma sample_defaults: "keyless_defaults KEYLESS_V3 msg sample_given = Inr sample_identity"
proof -
  have "finite_json (JArr [order_as_dict quoted_order])"
    by (simp add: order_as_dict_def quoted_order_def)
  then show ?thesis
    by (simp add: keyless_defaults_def sample_given_def get_or_def default_order_set_def contract_sha256_json_def
        default_flags_def AUTHORITY_FLAGS_def with_default_def has_key_def dset_def dget_def dpop_def
        sample_identity_def dupdate_def)
qed

lemma sample_builds: "\<exists>d. build_trusted_keyless_target_plan_v3 sample_given = Inr d"
proof -
  have no_id: "fld sample_identity ''plan_id'' = JNull" "dpop sample_identity ''plan_id'' = sample_identity"
    by (simp_all add: sample_identity_def dupdate_def sample_given_def dset_def fld_def get_or_def dget_def dpop_def)
  have "seal_plan sample_sealed = Inr (canon sample_plan)"
    using sample_parses sample_plan_wf sample_obj
    by (simp add: seal_plan_def contract_sha256_json_def tp_as_dict_def parsed_sample_def detached_mapping_def
        flip: sample_plan_def)
  then show ?thesis
    using sample_v3_plan_id(2) sample_defaults no_id
    by (simp add: build_trusted_keyless_target_plan_v3_def Let_def flip: sample_sealed_def)
qed

end
