(* ===== verification/Plan_Properties.thy ===== *)
theory Plan_Properties
  imports Sample_Plan
begin

text \<open>
  What parsing, printing and building a target plan promise.
\<close>

text \<open>
  C34: Round trip of target plans: what a parsed plan prints with \<open>as_dict\<close> is the canonical form of
  the mapping it was parsed from, and is parsed to the same plan again.
\<close>

theorem parsed_plan_reads_back:
  assumes "target_plan_from_mapping n v = Inr p" and "wf_json v"
  shows "tp_as_dict p = Inr (canon v) \<and> rbind (tp_as_dict p) (target_plan_from_mapping n) = Inr p"
proof -
  obtain keyless where "is_obj v" "finite_json v" "tp_raw p = canon v"
    using plan_parts [OF assms] by metis
  then have "tp_as_dict p = Inr (canon v)"
    by (simp add: tp_as_dict_def detached_mapping_def)
  then show ?thesis using assms(1) by (simp add: from_mapping_canon)
qed

lemma parsed_plan_reads_back_witness:
  "tp_as_dict parsed_sample = Inr (canon sample_plan)
    \<and> rbind (tp_as_dict parsed_sample) (target_plan_from_mapping 1) = Inr parsed_sample"
  by (rule parsed_plan_reads_back [OF sample_parses sample_plan_wf(1)])

text \<open>
  C32: Type soundness of the parser: a parsed plan has at least one order, each of the exact shape of
  a simulated limit order within the local volume limit, with distinct references and one phase, and
  it is locked by the hash of its order set and the hash of the whole payload.
\<close>

theorem parsed_plan_is_typed:
  assumes "target_plan_from_mapping n v = Inr p" and "wf_json v"
  shows "plan_typed n p"
proof -
  obtain keyless where raw: "tp_raw p = canon v" and head: "check_plan_header keyless (canon v) = Inr ()"
    and ords: "rmap (order_from_mapping n) (jarr (fld (canon v) ''orders'')) = Inr (tp_orders p)"
    and chk: "check_plan_orders keyless (canon v) (tp_orders p) = Inr ()"
    and hash: "fld (canon v) ''plan_hash'' = JStr (json_hash (dpop (canon v) ''plan_hash''))"
    using plan_parts [OF assms] by metis
  have "tp_orders p \<noteq> []"
    using head rmap_length [OF ords] by (auto simp: check_plan_header_def)
  moreover have "\<forall>o' \<in> set (tp_orders p). order_typed n o'"
    using rmap_Inr_all [OF ords] order_from_mapping_typed by blast
  moreover have "fld (canon v) ''environment'' = JStr ''SIMNOW''" "flags_false (canon v)"
    using head by (auto simp: check_plan_header_def)
  ultimately show ?thesis
    using chk hash unfolding plan_typed_def raw by (auto simp: check_plan_orders_def Let_def list_all_iff)
qed

lemma parsed_plan_is_typed_witness:
  "target_plan_from_mapping 1 sample_plan = Inr parsed_sample \<and> plan_typed 1 parsed_sample"
  using sample_parses parsed_plan_is_typed [OF sample_parses sample_plan_wf(1)] by simp

text \<open>
  C31: Quote safety of version 3 plans: one price contract covers the whole plan. Every order's price
  is the quoted reference moved to the adverse side by one tick, or, only in an experimental run
  whose summed adverse cost stays within the frozen budget, by one tick and the product's cushion;
  every quote was fresh when it was validated, and that was before the plan expires.
\<close>

theorem parsed_plan_prices_are_quoted:
  assumes "target_plan_from_mapping n v = Inr p" and "wf_json v" and "is_v3 (tp_raw p)"
  shows "\<exists>bounded. (bounded \<longrightarrow> is_experimental_run (tp_run p) \<and> costs_bounded p)
    \<and> (\<forall>o' \<in> set (tp_orders p). price_quoted bounded (tp_run p) (fld (tp_bindings p) (order_contract o')) o'
         \<and> quote_fresh (tp_validated_at p) (fld (tp_bindings p) (order_contract o')))
    \<and> tp_validated_at p < utc_time (the_str (fld (tp_raw p) ''expires_at''))"
proof -
  obtain keyless where raw: "tp_raw p = canon v"
    and quo: "with_quote_proof (canon v) (tp_orders p) = Inr (canon v)"
    using plan_parts [OF assms(1,2)] by metis
  let ?q = "fld (canon v) ''creation_quote_proof''"
  obtain proof' where cqp: "creation_quote_proof ?q (tp_run p) (tp_orders p) = Inr proof'"
    and lt: "utc_time (the_str (fld proof' ''validated_at_utc'')) < utc_time (the_str (fld (tp_raw p) ''expires_at''))"
    using quo assms(3) unfolding raw tp_run_def
    by (auto simp: with_quote_proof_def rbind_Inr_iff Let_def fld_dset)
  have wf: "wf_json ?q" using assms(2) by simp
  have q: "proof' = ?q"
    using creation_quote_proof_same [OF cqp wf] fld_of_canon [OF assms(2)] by simp
  obtain contract where con: "price_contract (tp_run p) (tp_orders p) (tp_bindings p) = Inr contract"
    and fresh: "\<forall>o' \<in> set (tp_orders p). quote_fresh (tp_validated_at p) (fld (tp_bindings p) (order_contract o'))"
    and bud: "\<exists>budget. adverse_limit_budget_cny (tp_run p) (tp_orders p) (tp_bindings p) = Inr budget
       \<and> budget \<le> MAX_ADVERSE_LIMIT_BUDGET_CNY"
    using creation_quote_proof_parts [OF cqp wf] unfolding q tp_bindings_def tp_validated_at_def raw by metis
  have quoted: "price_quoted (contract = ''BOUNDED'') (tp_run p) (fld (tp_bindings p) (order_contract o')) o'
      \<and> (contract = ''BOUNDED'' \<longrightarrow> is_experimental_run (tp_run p))" if "o' \<in> set (tp_orders p)" for o'
    using order_price_contract_quoted price_contract_all [OF con that] by blast
  have "tp_orders p \<noteq> []"
    using con by (auto simp: price_contract_def)
  then have exp: "contract = ''BOUNDED'' \<longrightarrow> is_experimental_run (tp_run p)"
    using quoted by (metis last_in_set)
  have cost: "contract = ''BOUNDED'' \<longrightarrow> costs_bounded p"
    using bud con by (auto simp: adverse_limit_budget_cny_def costs_bounded_def rbind_Inr_iff)
  show ?thesis
    using quoted exp cost fresh lt unfolding q tp_validated_at_def raw
    by (intro exI [of _ "contract = ''BOUNDED''"]) auto
qed

lemma parsed_plan_prices_are_quoted_witness:
  "\<exists>bounded. (bounded \<longrightarrow> is_experimental_run (tp_run parsed_sample) \<and> costs_bounded parsed_sample)
    \<and> price_quoted bounded (tp_run parsed_sample)
         (fld (tp_bindings parsed_sample) (order_contract quoted_order)) quoted_order"
proof -
  have "is_v3 (tp_raw parsed_sample)" "quoted_order \<in> set (tp_orders parsed_sample)"
    by (simp_all add: parsed_sample_def sample_is_v3)
  then show ?thesis using parsed_plan_prices_are_quoted [OF sample_parses sample_plan_wf(1)] by blast
qed

section \<open>Builders\<close>

lemma sealed_plan:
  assumes "seal_plan raw = Inr d" and "wf_json raw"
  shows "\<exists>p. target_plan_from_mapping 1 d = Inr p \<and> tp_raw p = d \<and> wf_json d
    \<and> d = canon (dset raw ''plan_hash'' (JStr (json_hash raw)))"
proof -
  let ?v = "dset raw ''plan_hash'' (JStr (json_hash raw))"
  obtain p where p: "target_plan_from_mapping 1 ?v = Inr p" and d: "tp_as_dict p = Inr d"
    using assms(1) by (auto simp: seal_plan_def rbind_Inr_iff contract_sha256_json_def split: if_splits)
  have wf: "wf_json ?v" using assms(2) by simp
  have "tp_raw p = canon ?v" using plan_parts [OF p wf] by metis
  moreover from this have "d = canon ?v" using d by (simp add: tp_as_dict_def detached_mapping_Inr_iff)
  ultimately show ?thesis using p wf by (auto simp: from_mapping_canon simp del: canon.simps)
qed

lemma wf_with_default: "wf_json d \<Longrightarrow> wf_json v \<Longrightarrow> wf_json (with_default d k v)"
  by (simp add: with_default_def)

lemma wf_default_flags: "wf_json d \<Longrightarrow> wf_json (default_flags d)"
  by (simp add: default_flags_def AUTHORITY_FLAGS_def wf_with_default)

lemma default_order_set_wf: "default_order_set d = Inr raw \<Longrightarrow> wf_json d \<Longrightarrow> wf_json raw"
  by (auto simp: default_order_set_def rbind_Inr_iff wf_with_default)

lemma fld_with_default: "fld (with_default d k v) k' = (if k = k' \<and> \<not> has_key d k then v else fld d k')"
  by (simp add: with_default_def fld_dset)

lemma fld_default_flags: "k \<notin> set AUTHORITY_FLAGS \<Longrightarrow> fld (default_flags d) k = fld d k"
  by (auto simp: default_flags_def AUTHORITY_FLAGS_def fld_with_default)

lemma with_default_reads: "get_or d k v = v \<Longrightarrow> fld (with_default d k v) k = v"
  by (cases "has_key d k") (auto simp: with_default_def fld_dset get_or_def dest: has_keyE)

lemma fld_default_order_set:
  "default_order_set d = Inr raw \<Longrightarrow> k \<notin> {''order_set_sha256'', ''plan_hash''} \<Longrightarrow> fld raw k = fld d k"
  by (auto simp: default_order_set_def rbind_Inr_iff fld_with_default fld_def get_or_def dget_dpop with_default_def dget_dset)

lemma keyless_defaults_parts:
  assumes "keyless_defaults schema msg given = Inr raw" and "wf_json given"
  shows "wf_json raw \<and> fld raw ''schema_version'' = JStr schema"
proof -
  let ?d = "with_default (with_default (with_default given ''schema_version'' (JStr schema))
          ''custody_mode'' (JStr ''trusted-keyless-simnow'')) ''scope'' TRUSTED_KEYLESS_SIMNOW_SCOPE"
  have schema: "get_or given ''schema_version'' (JStr schema) = JStr schema"
    and raw: "default_order_set (default_flags ?d) = Inr raw"
    using assms(1) by (auto simp: keyless_defaults_def split: if_splits)
  have "wf_json ?d" using assms(2) by (simp add: wf_with_default TRUSTED_KEYLESS_SIMNOW_SCOPE_def)
  then have "wf_json raw" using default_order_set_wf [OF raw] by (simp add: wf_default_flags)
  moreover have "fld raw ''schema_version'' = fld ?d ''schema_version''"
    using fld_default_order_set [OF raw, of "''schema_version''"]
    by (simp add: fld_default_flags AUTHORITY_FLAGS_def)
  moreover have "fld ?d ''schema_version'' = JStr schema"
    using with_default_reads [OF schema] by (simp add: fld_with_default [of _ "''custody_mode''"] fld_with_default [of _ "''scope''"])
  ultimately show ?thesis by simp
qed

text \<open>
  C33: The version 3 builder: what it returns is a plan that the parser accepts as it stands, in
  canonical form, under the version 3 schema, and its id is the one derived from all its other
  fields.
\<close>

theorem built_plan_is_accepted:
  assumes "build_trusted_keyless_target_plan_v3 given = Inr d" and "wf_json given"
  shows "\<exists>p. target_plan_from_mapping 1 d = Inr p \<and> tp_raw p = d \<and> is_v3 d \<and> v3_plan_id d = Inr (tp_plan_id p)"
proof -
  obtain raw0 plan_id where raw0: "keyless_defaults KEYLESS_V3 ''keyless target plan v3 builder requires the v3 schema'' given = Inr raw0"
    and seal: "seal_plan (dset (dpop raw0 ''plan_id'') ''plan_id'' (JStr plan_id)) = Inr d"
    using assms(1) by (auto simp: build_trusted_keyless_target_plan_v3_def rbind_Inr_iff Let_def split: if_splits)
  let ?raw = "dset (dpop raw0 ''plan_id'') ''plan_id'' (JStr plan_id)"
  have wf: "wf_json ?raw" and schema: "fld raw0 ''schema_version'' = JStr KEYLESS_V3"
    using keyless_defaults_parts [OF raw0 assms(2)] by simp_all
  obtain p where p: "target_plan_from_mapping 1 d = Inr p" "tp_raw p = d" "wf_json d"
    and d: "d = canon (dset ?raw ''plan_hash'' (JStr (json_hash ?raw)))"
    using sealed_plan [OF seal wf] by blast
  have "fld d ''schema_version'' = canon (fld raw0 ''schema_version'')"
    using wf unfolding d by (simp add: fld_canon fld_dset) (simp add: fld_def get_or_def dget_dpop)
  then have v3: "is_v3 d" using schema by (simp add: is_v3_def)
  have same: "canon d = d" using d by simp
  have "with_quote_proof d (tp_orders p) = Inr d"
    using plan_parts [OF p(1,3)] same by metis
  then obtain expected raw where "v3_plan_id raw = Inr expected" "fld raw ''plan_id'' = JStr expected" "raw = d"
    using v3 by (auto simp: with_quote_proof_def rbind_Inr_iff Let_def)
  then have "v3_plan_id d = Inr (tp_plan_id p)"
    using p(2) by (simp add: tp_plan_id_def py_str_def)
  then show ?thesis using p v3 by blast
qed

lemma built_plan_is_accepted_witness:
  "\<exists>d. build_trusted_keyless_target_plan_v3 sample_given = Inr d
    \<and> (\<exists>p. target_plan_from_mapping 1 d = Inr p \<and> tp_raw p = d \<and> is_v3 d \<and> v3_plan_id d = Inr (tp_plan_id p))"
proof -
  obtain d where d: "build_trusted_keyless_target_plan_v3 sample_given = Inr d" using sample_builds by blast
  have "wf_json sample_given" by (rule sample_given_ok)
  then show ?thesis using built_plan_is_accepted [OF d] d by blast
qed

end
