(* ===== verification/Plan_Quote.thy ===== *)
theory Plan_Quote
  imports Target_Plan
begin

text \<open>
  The start quote proofs of \<open>backend/app/execution/start_quote_proof.py\<close> against a target plan: the
  check of a proof for some of the plan's orders, building one from fresh formal ticks, and the slice
  of a proof that admits one order. The reader of formal ticks and the clock are parameters, as they
  are in the code.
\<close>

section \<open>The plan's side\<close>

definition creation_quotes :: "target_plan \<Rightarrow> json" where
  "creation_quotes p = fld (tp_raw p) ''creation_quote_proof''"

definition creation_bindings :: "target_plan \<Rightarrow> json" where
  "creation_bindings p = fld (creation_quotes p) ''bindings''"

definition plan_price_contract :: "target_plan \<Rightarrow> string res" where
  "plan_price_contract p =
     price_contract (the_str (fld (tp_raw p) ''execution_run_id'')) (tp_orders p) (creation_bindings p)"

definition order_vt_symbol :: "target_plan_order \<Rightarrow> string" where
  "order_vt_symbol o' = to_symbol o' @ ''.'' @ to_exchange o'"

text \<open>A dictionary of the plan's orders: the last one wins.\<close>

definition order_by_ref :: "target_plan \<Rightarrow> string \<Rightarrow> target_plan_order option" where
  "order_by_ref p ref = map_of (rev (map (\<lambda>o'. (to_reference o', o')) (tp_orders p))) ref"

text \<open>No references, or an empty list of them, stands for all orders.\<close>

definition wanted_refs :: "target_plan \<Rightarrow> string list \<Rightarrow> string list" where
  "wanted_refs p refs = (if refs = [] then map to_reference (tp_orders p) else refs)"

definition plan_lineage :: "target_plan \<Rightarrow> string \<Rightarrow> (string \<times> json) list" where
  "plan_lineage p creation_hash =
     [(''execution_run_id'', fld (tp_raw p) ''execution_run_id''), (''phase'', fld (tp_raw p) ''phase''),
      (''plan_id'', JStr (tp_plan_id p)), (''plan_hash'', JStr (tp_plan_hash p)),
      (''creation_quote_proof_sha256'', JStr creation_hash)]"

section \<open>Validation\<close>

definition order_limit_price :: "target_plan_order \<Rightarrow> rat \<Rightarrow> rat res" where
  "order_limit_price o' tick =
     quote_error_on_value_error (normalize_near_grid_price (order_price o') tick) ''immutable order price/tick is invalid''"

definition incompatible_price_message :: "string \<Rightarrow> string" where
  "incompatible_price_message contract =
     (if contract = ''BOUNDED'' then ''fresh protected price is outside immutable order limit''
      else ''fresh protected price differs from immutable order price'')"

definition check_compatible :: "string \<Rightarrow> target_plan_order \<Rightarrow> json \<Rightarrow> rat \<Rightarrow> rat res" where
  "check_compatible contract o' binding tick =
     rbind (protected_price binding) (\<lambda>protected.
     rbind (order_limit_price o' tick) (\<lambda>limit.
     rbind (rguard (protected_price_is_compatible contract (to_direction o') protected limit)
       (Exn ExecutionStartQuotePriceIncompatible (incompatible_price_message contract))) (\<lambda>_. Inr protected)))"

definition check_immutable_price :: "string \<Rightarrow> target_plan_order \<Rightarrow> json \<Rightarrow> unit res" where
  "check_immutable_price contract o' binding =
     (let bad = quote_error ''execution start quote immutable order price does not match plan'' in
      if contract = ''BOUNDED''
      then rbind (rguard (has_key binding ''immutable_order_price'') bad) (\<lambda>_.
           rbind (decimal_of (fld binding ''immutable_order_price'') ''immutable order price'') (\<lambda>d.
           rguard (d = order_price o') bad))
      else rguard (\<not> has_key binding ''immutable_order_price'')
        (quote_error ''execution start quote immutable order price is unexpected''))"

definition check_order_quote :: "string \<Rightarrow> json \<Rightarrow> target_plan_order \<Rightarrow> json \<Rightarrow> unit res" where
  "check_order_quote contract creation o' binding =
     (let bad = quote_error ''execution start quote binding does not match order'' in
      rbind (rguard (fld binding ''exact_contract'' = JStr (order_contract o')
          \<and> fld binding ''vt_symbol'' = JStr (order_vt_symbol o') \<and> fld binding ''price_side'' = JStr (order_side o')
          \<and> fld binding ''offset'' = JStr (to_offset o')) bad) (\<lambda>_.
      rbind (decimal_of (fld binding ''price_tick'') ''quote price_tick'') (\<lambda>tick.
      rbind (decimal_of (fld (fld creation (order_contract o')) ''price_tick'') ''creation quote price_tick'') (\<lambda>creation_tick.
      rbind (rguard (tick = creation_tick) bad) (\<lambda>_.
      rbind (check_compatible contract o' binding tick) (\<lambda>_.
      check_immutable_price contract o' binding))))))"

definition check_wanted_order :: "string \<Rightarrow> target_plan \<Rightarrow> json \<Rightarrow> string \<Rightarrow> unit res" where
  "check_wanted_order contract p bindings ref =
     (case order_by_ref p ref of None \<Rightarrow> Inr ()
      | Some o' \<Rightarrow> check_order_quote contract (creation_bindings p) o' (fld bindings ref))"

definition validate_plan_quote_proof :: "json \<Rightarrow> target_plan \<Rightarrow> string list \<Rightarrow> json res" where
  "validate_plan_quote_proof value p refs =
     rbind (validate_execution_start_quote_proof value) (\<lambda>raw.
     rbind (rguard (is_v3 (tp_raw p)) (quote_error ''execution start quote proof requires TargetPlan v3'')) (\<lambda>_.
     rbind (contract_sha256_json (creation_quotes p)) (\<lambda>creation_hash.
     rbind (rguard (list_all (\<lambda>(k, v). jeq (fld raw k) v) (plan_lineage p creation_hash))
       (quote_error ''execution start quote proof does not bind immutable plan'')) (\<lambda>_.
     let bindings = fld raw ''bindings''; wanted = wanted_refs p refs in
     rbind (rguard (wanted \<noteq> [] \<and> distinct wanted \<and> keys_are bindings wanted)
       (quote_error ''execution start quote proof order set is not exact'')) (\<lambda>_.
     rbind (rguard (list_all (\<lambda>r. order_by_ref p r \<noteq> None) wanted)
       (quote_error ''execution start quote proof names a foreign order'')) (\<lambda>_.
     rbind (plan_price_contract p) (\<lambda>contract.
     rbind (rall (check_wanted_order contract p bindings) wanted) (\<lambda>_. Inr raw))))))))"

section \<open>Building a proof from fresh ticks\<close>

record tick_request =
  tq_vt_symbol :: string
  tq_price_side :: string
  tq_price_tick :: json

record tick_binding =
  tb_source :: string
  tb_vt_symbol :: string
  tb_price_side :: string
  tb_price_tick :: json
  tb_stream_generation :: string
  tb_ingest_id :: string
  tb_ingest_seq :: int
  tb_event_hash :: string
  tb_received_at_utc :: string
  tb_reference_price :: json

definition tick_as_dict :: "tick_binding \<Rightarrow> json" where
  "tick_as_dict t = JObj
     [(''source'', JStr (tb_source t)), (''vt_symbol'', JStr (tb_vt_symbol t)), (''price_side'', JStr (tb_price_side t)),
      (''stream_generation'', JStr (tb_stream_generation t)), (''ingest_id'', JStr (tb_ingest_id t)),
      (''ingest_seq'', JInt (tb_ingest_seq t)), (''event_hash'', JStr (tb_event_hash t)),
      (''received_at_utc'', JStr (tb_received_at_utc t)), (''reference_price'', tb_reference_price t),
      (''price_tick'', tb_price_tick t)]"

text \<open>The checks of a request when it is made, on a contract with a name and one of two sides.\<close>

definition make_request :: "target_plan \<Rightarrow> target_plan_order \<Rightarrow> tick_request res" where
  "make_request p o' =
     rbind (py_float (fld (fld (creation_bindings p) (order_contract o')) ''price_tick'')) (\<lambda>tick.
     case dec_value tick of
       Some x \<Rightarrow> if 0 < x then Inr \<lparr>tq_vt_symbol = order_vt_symbol o', tq_price_side = order_side o', tq_price_tick = tick\<rparr>
         else raise PyValueError ''formal CTP price tick is invalid''
     | None \<Rightarrow> raise PyValueError ''formal CTP price tick is invalid'')"

fun collect_requests ::
  "target_plan \<Rightarrow> (string \<times> tick_request) list \<Rightarrow> string list \<Rightarrow> (string \<times> tick_request) list res" where
  "collect_requests p acc [] = Inr acc"
| "collect_requests p acc (ref # refs) =
     (case order_by_ref p ref of None \<Rightarrow> collect_requests p acc refs
      | Some o' \<Rightarrow> rbind (make_request p o') (\<lambda>q. case map_of acc (tq_vt_symbol q) of
          None \<Rightarrow> collect_requests p (acc @ [(tq_vt_symbol q, q)]) refs
        | Some prior \<Rightarrow> if prior \<noteq> q
            then raise ExecutionStartQuoteProofError ''execution start quote proof contract use is ambiguous''
            else collect_requests p acc refs))"

text \<open>\<open>float(d)\<close> of a decimal.\<close>

definition float_of :: "rat \<Rightarrow> json" where
  "float_of d = (case to_float d of None \<Rightarrow> JNonFinite | Some x \<Rightarrow> float_json x)"

definition fresh_tick :: "tick_binding \<Rightarrow> json res" where
  "fresh_tick t =
     rbind (decimal_of (tb_reference_price t) ''quote reference_price'') (\<lambda>reference.
     rbind (decimal_of (tb_price_tick t) ''quote price_tick'') (\<lambda>tick.
     rbind (normalize_near_grid_price reference tick) (\<lambda>r.
     Inr (dset (tick_as_dict t) ''reference_price'' (float_of r)))))"

definition fresh_binding ::
  "string \<Rightarrow> (string \<times> json) list \<Rightarrow> target_plan_order \<Rightarrow> tick_binding \<Rightarrow> json res" where
  "fresh_binding contract common o' t =
     rbind (fresh_tick t) (\<lambda>raw_tick.
     rbind (decimal_of (fld raw_tick ''price_tick'') ''quote price_tick'') (\<lambda>tick.
     rbind (check_compatible contract o' raw_tick tick) (\<lambda>protected.
     Inr (JObj ([(''order_ref'', JStr (to_reference o')), (''exact_contract'', JStr (order_contract o')),
         (''offset'', JStr (to_offset o'))] @ common @ items raw_tick @ [(''protected_price'', float_of protected)]
       @ (if contract = ''BOUNDED'' then [(''immutable_order_price'', to_price o')] else []))))))"

definition fresh_bindings ::
  "target_plan \<Rightarrow> string \<Rightarrow> (string \<times> json) list \<Rightarrow> (string \<times> tick_binding) list \<Rightarrow> string list
    \<Rightarrow> (string \<times> json) list res" where
  "fresh_bindings p contract common observed wanted =
     rmap (\<lambda>ref. case order_by_ref p ref of
         None \<Rightarrow> raise PyKeyError ref
       | Some o' \<Rightarrow> (case map_of observed (order_vt_symbol o') of
           None \<Rightarrow> raise PyKeyError (order_vt_symbol o')
         | Some t \<Rightarrow> rbind (fresh_binding contract common o' t) (\<lambda>b. Inr (ref, b)))) wanted"

definition start_proof_preimage :: "(string \<times> json) list \<Rightarrow> int \<Rightarrow> (string \<times> json) list \<Rightarrow> json" where
  "start_proof_preimage common now bindings = JObj
     ([(''schema_version'', JStr EXECUTION_START_QUOTE_PROOF_SCHEMA_VERSION)] @ common @
      [(''validated_at_utc'', JStr (format_utc now)), (''max_age_seconds'', JDec V3_FORMAL_QUOTE_MAX_AGE_SECONDS 0),
       (''future_skew_seconds'', JDec FORMAL_TICK_FUTURE_SKEW_SECONDS 0), (''journal_authenticated'', JBool True),
       (''start_authorized'', JBool True), (''bindings'', JObj bindings)])"

definition seal_proof :: "target_plan \<Rightarrow> string list \<Rightarrow> json \<Rightarrow> json res" where
  "seal_proof p refs preimage =
     rbind (contract_sha256_json preimage) (\<lambda>h.
     validate_plan_quote_proof (dset preimage ''proof_sha256'' (JStr h)) p refs)"

definition build_execution_start_quote_proof ::
  "(tick_request list \<Rightarrow> tick_binding list res) \<Rightarrow> int \<Rightarrow> target_plan \<Rightarrow> string list \<Rightarrow> json res" where
  "build_execution_start_quote_proof reader now p refs =
     (let wanted = wanted_refs p refs in
      rbind (rguard (is_v3 (tp_raw p)) (quote_error ''execution start quote proof requires TargetPlan v3'')) (\<lambda>_.
      rbind (rguard (wanted \<noteq> [] \<and> distinct wanted \<and> list_all (\<lambda>r. order_by_ref p r \<noteq> None) wanted)
        (quote_error ''execution start quote proof order set is invalid'')) (\<lambda>_.
      rbind (collect_requests p [] wanted) (\<lambda>requests.
      rbind (reader (map snd requests)) (\<lambda>ticks.
      let observed = map (\<lambda>t. (tb_vt_symbol t, t)) ticks in
      rbind (rguard (length ticks = length requests)
        (quote_error ''formal tick reader returned an invalid binding set'')) (\<lambda>_.
      rbind (rguard (set (map fst observed) = set (map fst requests))
        (quote_error ''formal tick reader returned a foreign binding set'')) (\<lambda>_.
      rbind (contract_sha256_json (creation_quotes p)) (\<lambda>creation_hash.
      rbind (plan_price_contract p) (\<lambda>contract.
      rbind (fresh_bindings p contract (plan_lineage p creation_hash) (rev observed) wanted) (\<lambda>bindings.
      seal_proof p wanted (start_proof_preimage (plan_lineage p creation_hash) now bindings)))))))))))"

section \<open>The slice for one order\<close>

definition one_order_preimage :: "target_plan \<Rightarrow> string \<Rightarrow> json \<Rightarrow> string \<Rightarrow> json" where
  "one_order_preimage p contract raw ref =
     (let binding = fld (fld raw ''bindings'') ref;
          bound = (if contract = ''BOUNDED''
            then dset binding ''immutable_order_price''
              (case filter (\<lambda>o'. to_reference o' = ref) (tp_orders p) of [] \<Rightarrow> JNull | o' # _ \<Rightarrow> to_price o')
            else binding)
      in dset (dpop raw ''proof_sha256'') ''bindings'' (JObj [(ref, bound)]))"

definition quote_proof_for_order :: "json \<Rightarrow> target_plan \<Rightarrow> string \<Rightarrow> json res" where
  "quote_proof_for_order proof' p ref =
     rbind (validate_execution_start_quote_proof proof') (\<lambda>raw0.
     rbind (validate_plan_quote_proof raw0 p (keys (fld raw0 ''bindings''))) (\<lambda>raw.
     rbind (rguard (has_key (fld raw ''bindings'') ref)
       (quote_error ''execution start quote proof does not authorize this order'')) (\<lambda>_.
     rbind (plan_price_contract p) (\<lambda>contract.
     seal_proof p [ref] (one_order_preimage p contract raw ref)))))"

end
