(* ===== verification/Active_Resume.thy ===== *)
theory Active_Resume
  imports Plan_Quote
begin

text \<open>
  \<open>backend/app/execution/active_plan_resume.py\<close>: what the durable state and a reconciliation snapshot
  have to agree on before an ACTIVE plan is resumed. The intents that a plan may have are a function
  of the plan alone; every other intent, order or receipt stops the resume. States and snapshots are
  the validated documents of the repository and of the orchestrator's projections.
\<close>

abbreviation plan_rejected :: "string \<Rightarrow> exn" where
  "plan_rejected msg \<equiv> Exn PlanRejected msg"

definition TERMINAL_INTENT_STATES :: "string list" where
  "TERMINAL_INTENT_STATES = [''TERMINAL'', ''RECONCILED'', ''CANCELLED'']"

definition RESUMABLE_INTENT_STATES :: "string list" where
  "RESUMABLE_INTENT_STATES = [''PERSISTED'', ''SUBMITTED'', ''ACKNOWLEDGED'', ''UNKNOWN_OUTCOME''] @ TERMINAL_INTENT_STATES"

section \<open>The intents of a plan\<close>

record send_binding =
  sb_order_ref :: string
  sb_intent_id :: string
  sb_idempotency_key :: string
  sb_request_hash :: string
  sb_receipt_id :: string
  sb_receipt_hash :: string

definition intent_seed :: "target_plan \<Rightarrow> target_plan_order \<Rightarrow> string" where
  "intent_seed p o' = json_hash (JObj
     [(''plan_id'', JStr (tp_plan_id p)), (''plan_hash'', JStr (tp_plan_hash p)), (''order_ref'', JStr (to_reference o'))])"

definition send_intent_id :: "target_plan \<Rightarrow> target_plan_order \<Rightarrow> string" where
  "send_intent_id p o' = ''intent-'' @ take 24 (intent_seed p o')"

definition send_key :: "target_plan \<Rightarrow> target_plan_order \<Rightarrow> string" where
  "send_key p o' = ''send-'' @ take 32 (intent_seed p o')"

definition send_receipt_preimage :: "target_plan \<Rightarrow> string \<Rightarrow> string \<Rightarrow> target_plan_order \<Rightarrow> string \<Rightarrow> json" where
  "send_receipt_preimage p account_scope environment o' request_hash = JObj
     [(''account_scope'', JStr account_scope), (''environment'', JStr environment),
      (''intent_id'', JStr (send_intent_id p o')), (''idempotency_key'', JStr (send_key p o')),
      (''plan_id'', JStr (tp_plan_id p)), (''plan_hash'', JStr (tp_plan_hash p)),
      (''request_hash'', JStr request_hash), (''action'', JStr ''send'')]"

definition send_binding_of :: "target_plan \<Rightarrow> string \<Rightarrow> string \<Rightarrow> target_plan_order \<Rightarrow> send_binding res" where
  "send_binding_of p account_scope environment o' =
     rbind (contract_sha256_json (order_as_dict o')) (\<lambda>request_hash.
     Inr \<lparr>sb_order_ref = to_reference o', sb_intent_id = send_intent_id p o', sb_idempotency_key = send_key p o',
       sb_request_hash = request_hash, sb_receipt_id = ''receipt-'' @ send_intent_id p o',
       sb_receipt_hash = json_hash (send_receipt_preimage p account_scope environment o' request_hash)\<rparr>)"

definition expected_send_intent_bindings :: "target_plan \<Rightarrow> string \<Rightarrow> string \<Rightarrow> send_binding list res" where
  "expected_send_intent_bindings p account_scope environment =
     rmap (send_binding_of p account_scope environment) (tp_orders p)"

section \<open>The start of the plan\<close>

definition on_value_error :: "'a res \<Rightarrow> exn \<Rightarrow> 'a res" where
  "on_value_error r e = rcatch r (\<lambda>e'. if is_a e' PyValueError then Inl e else Inl e')"

definition exact_start_receipt :: "json \<Rightarrow> target_plan \<Rightarrow> json \<Rightarrow> bool" where
  "exact_start_receipt state p receipt \<longleftrightarrow> is_obj receipt
     \<and> fld receipt ''service'' = JStr ''control-api'' \<and> fld receipt ''status'' = JStr ''COMPLETED''
     \<and> is_obj (fld receipt ''result'') \<and> fld (fld receipt ''result'') ''accepted'' = JBool True
     \<and> jeq (fld (fld receipt ''result'') ''plan'') (fld state ''plan'')
     \<and> fld (fld state ''plan'') ''state'' = JStr ''ACTIVE''
     \<and> fld (fld state ''plan'') ''plan_id'' = JStr (tp_plan_id p)
     \<and> fld (fld state ''plan'') ''plan_hash'' = JStr (tp_plan_hash p)"

definition require_active_start_receipt :: "json \<Rightarrow> target_plan \<Rightarrow> unit res" where
  "require_active_start_receipt state p =
     (let matches = filter (exact_start_receipt state p) (map snd (items (get_or state ''receipts'' (JObj [])))) in
      rbind (rguard (length matches = 1) (plan_rejected ''ACTIVE target plan lacks one exact accepted start receipt'')) (\<lambda>_.
      if is_v3 (tp_raw p)
      then just (on_value_error
        (validate_plan_quote_proof (fld (fld (hd matches) ''result'') ''execution_start_quote_proof'') p [])
        (plan_rejected ''ACTIVE target plan start quote proof is invalid''))
      else Inr ()))"

definition require_active_resume_boundary :: "json \<Rightarrow> target_plan \<Rightarrow> json \<Rightarrow> string \<Rightarrow> string \<Rightarrow> unit res" where
  "require_active_resume_boundary state p snapshot account_scope environment =
     (let active = get_or state ''plan'' (JObj []); binding = fld snapshot ''state_binding'' in checks
     [rguard (fld active ''state'' = JStr ''ACTIVE'' \<and> fld active ''plan_id'' = JStr (tp_plan_id p)
          \<and> fld active ''plan_hash'' = JStr (tp_plan_hash p))
        (plan_rejected ''target plan is not the exact ACTIVE plan''),
      require_active_start_receipt state p,
      rguard (fld snapshot ''account_scope'' = JStr account_scope \<and> fld snapshot ''environment'' = JStr environment
          \<and> the_int (fld binding ''state_version'') \<le> the_int (fld state ''state_version'')
          \<and> jeq (fld binding ''durable_broker_generation'') (fld (fld state ''broker'') ''generation''))
        (plan_rejected ''fresh reconciliation snapshot does not bind current Execution state'')])"

section \<open>The intents that are there\<close>

definition intent_is_expected :: "target_plan \<Rightarrow> send_binding \<Rightarrow> json \<Rightarrow> bool" where
  "intent_is_expected p b raw \<longleftrightarrow>
     fld raw ''intent_id'' = JStr (sb_intent_id b) \<and> fld raw ''idempotency_key'' = JStr (sb_idempotency_key b)
     \<and> fld raw ''plan_id'' = JStr (tp_plan_id p) \<and> fld raw ''plan_hash'' = JStr (tp_plan_hash p)
     \<and> fld raw ''action'' = JStr ''send'' \<and> fld raw ''request_hash'' = JStr (sb_request_hash b)
     \<and> fld raw ''target_intent_id'' = JNull \<and> fld raw ''receipt_id'' = JStr (sb_receipt_id b)
     \<and> fld raw ''receipt_hash'' = JStr (sb_receipt_hash b)"

definition check_existing_intent :: "target_plan \<Rightarrow> send_binding \<Rightarrow> json \<Rightarrow> unit res" where
  "check_existing_intent p b raw = checks
     [rguard (intent_is_expected p b raw) (plan_rejected ''deterministic send-intent binding mismatches''),
      require_member (fld raw ''state'') RESUMABLE_INTENT_STATES
        (plan_rejected ''deterministic send-intent state is invalid''),
      if is_v3 (tp_raw p)
      then rbind (on_value_error
          (validate_plan_quote_proof (fld raw ''execution_start_quote_proof'') p [sb_order_ref b])
          (plan_rejected ''deterministic send-intent start quote proof is invalid'')) (\<lambda>quote_proof.
        rguard (fld raw ''execution_start_quote_proof_sha256'' = fld quote_proof ''proof_sha256'')
          (plan_rejected ''deterministic send-intent start quote proof hash mismatches''))
      else Inr ()]"

definition resume_intent :: "json \<Rightarrow> target_plan \<Rightarrow> send_binding \<Rightarrow> json option res" where
  "resume_intent state p b =
     (let indexed = fld (get_or state ''intent_keys'' (JObj [])) (sb_idempotency_key b);
          raw = fld (get_or state ''send_intents'' (JObj [])) (sb_intent_id b)
      in if raw = JNull \<and> indexed = JNull then Inr None
         else if indexed \<noteq> JStr (sb_intent_id b) \<or> \<not> is_obj raw
         then Inl (plan_rejected ''deterministic send-intent index binding mismatches'')
         else rbind (check_existing_intent p b raw) (\<lambda>_. Inr (Some raw)))"

definition plan_send_ids :: "json \<Rightarrow> target_plan \<Rightarrow> string list" where
  "plan_send_ids state p =
     map fst (filter (\<lambda>(i, raw). is_obj raw \<and> fld raw ''action'' = JStr ''send''
         \<and> fld raw ''plan_id'' = JStr (tp_plan_id p) \<and> fld raw ''plan_hash'' = JStr (tp_plan_hash p))
       (items (get_or state ''send_intents'' (JObj []))))"

type_synonym resumed = "(string \<times> json option) list"

text \<open>A dictionary from the pairs: a later pair replaces an earlier one.\<close>

definition dict_of :: "(string \<times> 'a) list \<Rightarrow> (string \<times> 'a) list" where
  "dict_of kvs = foldl (\<lambda>d (k, v). AList.update k v d) [] kvs"

definition classify_active_plan_intents :: "json \<Rightarrow> target_plan \<Rightarrow> send_binding list \<Rightarrow> resumed res" where
  "classify_active_plan_intents state p bindings =
     (if \<not> list_all (\<lambda>i. i \<in> set (map sb_intent_id bindings)) (plan_send_ids state p)
      then Inl (plan_rejected ''ACTIVE target plan contains a non-deterministic send intent'')
      else rbind (rmap (\<lambda>b. rbind (resume_intent state p b) (\<lambda>r. Inr (sb_intent_id b, r))) bindings) (\<lambda>kvs.
        Inr (dict_of kvs)))"

section \<open>The snapshot\<close>

definition truthy_texts :: "json \<Rightarrow> string list \<Rightarrow> string list" where
  "truthy_texts raw names = map (\<lambda>f. py_str (fld raw f)) (filter (\<lambda>f. truthy (fld raw f)) names)"

definition known_names :: "resumed \<Rightarrow> (string \<times> string list) list" where
  "known_names existing = concat (map (\<lambda>(i, r). case r of None \<Rightarrow> []
     | Some raw \<Rightarrow> [(i, truthy_texts raw [''intent_id'', ''idempotency_key'', ''broker_order_id''])]) existing)"

definition order_owners :: "resumed \<Rightarrow> string \<Rightarrow> json \<Rightarrow> string list" where
  "order_owners existing order_key row =
     (let candidates = order_key #
        truthy_texts row [''intent_id'', ''send_intent_id'', ''idempotency_key'', ''broker_order_id'']
      in map fst (filter (\<lambda>(i, names). list_ex (\<lambda>c. c \<in> set names) candidates) (known_names existing)))"

definition check_order_owner :: "resumed \<Rightarrow> string \<times> json \<Rightarrow> unit res" where
  "check_order_owner existing entry =
     (let owners = order_owners existing (fst entry) (snd entry);
          bad = plan_rejected ''fresh reconciliation snapshot contradicts terminal intent state'' in
      rbind (rguard (length owners = 1)
        (plan_rejected ''fresh reconciliation snapshot contains a foreign active order'')) (\<lambda>_.
      case map_of existing (hd owners) of
        Some (Some raw) \<Rightarrow> rbind (member_of (fld raw ''state'') TERMINAL_INTENT_STATES) (\<lambda>terminal. rguard (\<not> terminal) bad)
      | _ \<Rightarrow> Inl bad))"

definition require_snapshot_order_ownership :: "json \<Rightarrow> resumed \<Rightarrow> unit res" where
  "require_snapshot_order_ownership snapshot existing =
     rall (check_order_owner existing) (items (fld snapshot ''active_orders''))"

text \<open>Control state that the snapshot was taken under and that still holds.\<close>

definition same_control :: "json \<Rightarrow> json \<Rightarrow> bool" where
  "same_control state snapshot \<longleftrightarrow>
     jeq (fld (fld snapshot ''state_binding'') ''lifecycle'') (fld state ''lifecycle'')
     \<and> jeq (fld (fld snapshot ''state_binding'') ''reconciliation'') (fld state ''reconciliation'')"

definition same_version :: "json \<Rightarrow> json \<Rightarrow> bool" where
  "same_version state snapshot \<longleftrightarrow>
     jeq (fld (fld snapshot ''state_binding'') ''state_version'') (fld state ''state_version'')"

definition response_loss_only :: "json \<Rightarrow> string list \<Rightarrow> bool" where
  "response_loss_only state expected_intent_ids \<longleftrightarrow>
     (let unknowns = keys (get_or state ''unknown_outcomes'' (JObj []));
          reconciliation = get_or state ''reconciliation'' (JObj []) in
      unknowns \<noteq> [] \<and> list_all (\<lambda>i. i \<in> set expected_intent_ids) unknowns
      \<and> fld state ''lifecycle'' = JStr ''HALTED_UNKNOWN_OUTCOME''
      \<and> fld reconciliation ''state'' = JStr ''UNKNOWN''
      \<and> jeq (fld reconciliation ''unknown_outcomes'') (JInt (int (length unknowns))))"

definition require_snapshot_state_compatibility :: "json \<Rightarrow> json \<Rightarrow> string list \<Rightarrow> bool \<Rightarrow> unit res" where
  "require_snapshot_state_compatibility state snapshot expected_intent_ids has_missing_intent =
     rguard (same_version state snapshot \<and> same_control state snapshot
         \<or> \<not> has_missing_intent \<and> (response_loss_only state expected_intent_ids \<or> same_control state snapshot))
       (plan_rejected ''reconciliation snapshot is stale for the current resume boundary'')"

definition require_first_send_snapshot_closure :: "json \<Rightarrow> json \<Rightarrow> unit res" where
  "require_first_send_snapshot_closure state snapshot =
     (let broker = fld state ''broker''; reconciliation = fld state ''reconciliation'' in
      rguard (same_version state snapshot \<and> same_control state snapshot
          \<and> fld state ''lifecycle'' = JStr ''READY'' \<and> fld reconciliation ''state'' = JStr ''RECONCILED''
          \<and> jeq (fld reconciliation ''unknown_outcomes'') (JInt 0) \<and> \<not> truthy (fld state ''unknown_outcomes'')
          \<and> jeq (fld snapshot ''generation'') (fld broker ''generation'')
          \<and> jeq (fld snapshot ''position_snapshot_hash'') (fld broker ''position_snapshot_hash'')
          \<and> jeq (fld snapshot ''positions'') (fld broker ''positions'')
          \<and> jeq (fld snapshot ''active_order_count'') (fld broker ''active_order_count'')
          \<and> jeq (fld snapshot ''active_orders'') (fld broker ''orders''))
        (plan_rejected ''missing intent requires exact reconciled broker fact closure''))"

end
