(* ===== verification/Plan_Store.thy ===== *)
theory Plan_Store
  imports Plan_Facts Exec_Repository
begin

text \<open>
  Where installed plans are kept (\<open>backend/app/execution/final_runtime.py\<close>): the dictionary of
  \<open>InMemoryTargetPlanRepository\<close> and the directory of \<open>DurableTargetPlanRepository\<close>, one file per plan,
  which several processes share. Both are create-only; what that means is the locale \<open>plan_store\<close>.
\<close>

section \<open>In memory\<close>

type_synonym plan_memory = "(string \<times> target_plan) list"

definition memory_put :: "target_plan \<Rightarrow> (plan_memory, exn, unit) act" where
  "memory_put p = (\<lambda>plans.
     case map_of plans (tp_plan_id p) of
       None \<Rightarrow> (Inr (), plans @ [(tp_plan_id p, p)])
     | Some prior \<Rightarrow> (rguard (tp_plan_hash prior = tp_plan_hash p)
         (Exn PlanRejected ''target plan id is already bound to another hash''), plans))"

definition memory_get :: "json \<Rightarrow> (plan_memory, exn, target_plan option) act" where
  "memory_get plan_id =
     abind (alift (validate_identifier plan_id ''plan_id'')) (\<lambda>i. aget (\<lambda>plans. map_of plans i))"

definition authority_is :: "string \<Rightarrow> string \<Rightarrow> target_plan \<Rightarrow> bool" where
  "authority_is artifact_id sha p \<longleftrightarrow> tp_authority_id p = artifact_id \<and> tp_authority_hash p = sha"

definition memory_find_authority :: "json \<Rightarrow> string \<Rightarrow> (plan_memory, exn, target_plan option) act" where
  "memory_find_authority artifact_id sha =
     abind (alift (validate_identifier artifact_id ''artifact_id'')) (\<lambda>i.
     aget (\<lambda>plans. find (authority_is i sha) (map snd plans)))"

definition memory_probe :: "(plan_memory, exn, unit) act" where
  "memory_probe = (\<lambda>plans.
     (rall (\<lambda>(i, p). rbind (tp_as_dict p) (\<lambda>d. just (target_plan_from_mapping 1 d))) plans, plans))"

section \<open>On disk\<close>

text \<open>
  What a file of the directory holds: the compact encoding of a JSON value with the members in the
  order of the value, other bytes, or no regular file at all.
\<close>

datatype plan_file = PlanText json | OtherBytes | NotRegular

text \<open>How the operating system answers while a file is read.\<close>

datatype read_outcome = ReadOk | NoMetadata | Swapped | ReadFails

text \<open>The answers of the operating system are numbered by the steps of the store.\<close>

record dir_env =
  de_lock :: "nat \<Rightarrow> bool"
  de_unlock :: "nat \<Rightarrow> bool"
  de_read :: "nat \<Rightarrow> read_outcome"
  de_write :: "nat \<Rightarrow> write_outcome"

record plan_dir =
  pd_files :: "(string \<times> plan_file) list"
  pd_step :: nat

definition dir_step :: "(plan_dir, exn, nat) act" where
  "dir_step = (\<lambda>s. (Inr (pd_step s), s\<lparr>pd_step := Suc (pd_step s)\<rparr>))"

definition plan_path :: "json \<Rightarrow> string res" where
  "plan_path plan_id = validate_identifier plan_id ''plan_id''"

text \<open>The text of a plan: the file holds exactly what \<open>put\<close> writes for the plan it parses to.\<close>

definition plan_file_text :: "target_plan \<Rightarrow> json res" where
  "plan_file_text p = rbind (tp_as_dict p) (\<lambda>d. rbind (contract_sha256_json d) (\<lambda>_. Inr (canon d)))"

definition invalid_plan :: "'a res \<Rightarrow> 'a res" where
  "invalid_plan r = rcatch r (\<lambda>e.
     if is_a e PyValueError then raise PlanRejected ''durable target plan is invalid'' else Inl e)"

definition parse_plan_file :: "plan_file \<Rightarrow> target_plan res" where
  "parse_plan_file f =
     (case f of
        NotRegular \<Rightarrow> raise PlanRejected ''durable target plan file is unsafe''
      | OtherBytes \<Rightarrow> raise PlanRejected ''durable target plan is invalid''
      | PlanText j \<Rightarrow> invalid_plan
          (rbind (target_plan_from_mapping 1 j) (\<lambda>p. rbind (plan_file_text p) (\<lambda>d.
           if d = j then Inr p else raise PyValueError ''target plan is not canonical''))))"

definition read_outcome_error :: "read_outcome \<Rightarrow> unit res" where
  "read_outcome_error o' =
     (case o' of ReadOk \<Rightarrow> Inr ()
      | NoMetadata \<Rightarrow> raise RepositoryUnavailableError ''durable target plan metadata is unavailable''
      | Swapped \<Rightarrow> raise PlanRejected ''durable target plan file changed during read''
      | ReadFails \<Rightarrow> raise RepositoryUnavailableError ''durable target plan read is unavailable'')"

definition read_plan :: "dir_env \<Rightarrow> string \<Rightarrow> (plan_dir, exn, target_plan option) act" where
  "read_plan e name =
     abind dir_step (\<lambda>n. abind (aget (\<lambda>s. map_of (pd_files s) name)) (\<lambda>file. alift
       (case file of
          None \<Rightarrow> if de_read e n = NoMetadata then rbind (read_outcome_error NoMetadata) (\<lambda>_. Inr None) else Inr None
        | Some f \<Rightarrow>
            if de_read e n \<noteq> NoMetadata \<and> f = NotRegular then rbind (parse_plan_file f) (\<lambda>p. Inr (Some p))
            else rbind (read_outcome_error (de_read e n)) (\<lambda>_. rbind (parse_plan_file f) (\<lambda>p. Inr (Some p))))))"

text \<open>The body runs under the file lock; failing to give the lock back is the error that is seen.\<close>

definition locked :: "dir_env \<Rightarrow> (plan_dir, exn, 'a) act \<Rightarrow> (plan_dir, exn, 'a) act" where
  "locked e body =
     abind dir_step (\<lambda>n.
     if \<not> de_lock e n then athrow (Exn RepositoryUnavailableError ''durable target plan lock is unavailable'')
     else (\<lambda>s. let (r, s') = body s; (_, s'') = dir_step s' in
       (if de_unlock e (pd_step s') then r
        else raise RepositoryUnavailableError ''durable target plan lock release failed'', s'')))"

text \<open>\<open>os.link\<close> does not replace a file that is there; it can only be there when a foreign writer ignores the lock.\<close>

definition link_plan :: "dir_env \<Rightarrow> target_plan \<Rightarrow> json \<Rightarrow> bool \<Rightarrow> (plan_dir, exn, unit) act" where
  "link_plan e p text synced =
     (\<lambda>s. if map_of (pd_files s) (tp_plan_id p) \<noteq> None
       then abind (read_plan e (tp_plan_id p)) (\<lambda>prior.
         alift (case prior of
           Some q \<Rightarrow> rguard (tp_plan_hash q = tp_plan_hash p)
             (Exn PlanRejected ''target plan id is already bound to another hash'')
         | None \<Rightarrow> raise PlanRejected ''target plan id is already bound to another hash'')) s
       else (rguard synced (Exn PyOSError ''directory sync failed''),
         s\<lparr>pd_files := pd_files s @ [(tp_plan_id p, PlanText text)]\<rparr>))"

definition write_plan :: "dir_env \<Rightarrow> target_plan \<Rightarrow> json \<Rightarrow> (plan_dir, exn, unit) act" where
  "write_plan e p text =
     abind dir_step (\<lambda>n. case de_write e n of
       FailBeforeReplace \<Rightarrow> athrow (Exn PyOSError ''target plan write failed'')
     | outcome \<Rightarrow> link_plan e p text (outcome = WriteOk))"

definition durable_put :: "dir_env \<Rightarrow> target_plan \<Rightarrow> (plan_dir, exn, unit) act" where
  "durable_put e p =
     abind (alift (plan_path (JStr (tp_plan_id p)))) (\<lambda>name.
     abind (alift (plan_file_text p)) (\<lambda>text.
     locked e (abind (read_plan e name) (\<lambda>prior. case prior of
       Some q \<Rightarrow> alift (rguard (tp_plan_hash q = tp_plan_hash p)
         (Exn PlanRejected ''target plan id is already bound to another hash''))
     | None \<Rightarrow> write_plan e p text))))"

definition durable_get :: "dir_env \<Rightarrow> json \<Rightarrow> (plan_dir, exn, target_plan option) act" where
  "durable_get e plan_id = abind (alift (plan_path plan_id)) (read_plan e)"

definition file_names :: "plan_dir \<Rightarrow> string list" where
  "file_names s = sort_key (\<lambda>name. name @ ''.json'') (map fst (pd_files s))"

fun first_authority ::
  "dir_env \<Rightarrow> string \<Rightarrow> string \<Rightarrow> string list \<Rightarrow> (plan_dir, exn, target_plan option) act" where
  "first_authority e i sha [] = aret None"
| "first_authority e i sha (name # names) =
     abind (read_plan e name) (\<lambda>q. case q of
       Some p \<Rightarrow> if authority_is i sha p then aret (Some p) else first_authority e i sha names
     | None \<Rightarrow> first_authority e i sha names)"

definition durable_find_authority :: "dir_env \<Rightarrow> json \<Rightarrow> string \<Rightarrow> (plan_dir, exn, target_plan option) act" where
  "durable_find_authority e artifact_id sha =
     abind (alift (validate_identifier artifact_id ''artifact_id'')) (\<lambda>i.
     abind (aget file_names) (first_authority e i sha))"

definition durable_probe :: "dir_env \<Rightarrow> (plan_dir, exn, unit) act" where
  "durable_probe e = locked e (abind (aget file_names) (aforall (\<lambda>name.
     abind (read_plan e name) (\<lambda>q. aguard (q \<noteq> None)
       (Exn PlanRejected ''durable target plan disappeared during probe'')))))"

end
