(* ===== verification/Plan_Store_Laws.thy ===== *)
theory Plan_Store_Laws
  imports Plan_Store
begin

text \<open>
  The contract of a plan store: an id that has been bound to a plan stays bound to it, whoever calls
  the store afterwards. The in-memory dictionary and the shared directory both keep it; the directory
  only promises to find again what its own reader accepts.
\<close>

datatype 'e store_call = PutPlan 'e target_plan | GetPlan 'e string

definition is_bound :: "('s \<Rightarrow> string \<Rightarrow> target_plan option) \<Rightarrow> 's \<Rightarrow> target_plan \<Rightarrow> bool" where
  "is_bound held s p \<longleftrightarrow> (\<exists>q. held s (tp_plan_id p) = Some q \<and> tp_plan_hash q = tp_plan_hash p)"

locale plan_store =
  fixes put :: "'e \<Rightarrow> target_plan \<Rightarrow> ('s, exn, unit) act"
    and get :: "'e \<Rightarrow> string \<Rightarrow> ('s, exn, target_plan option) act"
    and held :: "'s \<Rightarrow> string \<Rightarrow> target_plan option"
    and storable :: "target_plan \<Rightarrow> bool"
  assumes put_keeps: "put e p s = (r, t) \<Longrightarrow> held s i = Some q \<Longrightarrow> held t i = Some q"
    and put_binds: "put e p s = (Inr u, t) \<Longrightarrow> storable p \<Longrightarrow> is_bound held t p"
    and get_keeps: "get e i s = (r', t) \<Longrightarrow> held t = held s"
    and get_reads: "get e i s = (Inr (Some q), t) \<Longrightarrow> held s i = Some q"
begin

definition perform :: "'e store_call \<Rightarrow> 's \<Rightarrow> 's" where
  "perform c s = (case c of PutPlan e p \<Rightarrow> snd (put e p s) | GetPlan e i \<Rightarrow> snd (get e i s))"

definition performs :: "'e store_call list \<Rightarrow> 's \<Rightarrow> 's" where
  "performs cs s = foldl (\<lambda>s c. perform c s) s cs"

lemma perform_keeps: "held s i = Some q \<Longrightarrow> held (perform c s) i = Some q"
  using put_keeps [OF prod.collapse [symmetric]] get_keeps [OF prod.collapse [symmetric]]
  by (cases c) (simp_all add: perform_def)

lemma performs_keep: "held s i = Some q \<Longrightarrow> held (performs cs s) i = Some q"
  unfolding performs_def by (induction cs arbitrary: s) (auto intro: perform_keeps)

lemma put_then_get:
  assumes "put e p s = (Inr u, t)" and "storable p" and "get e' (tp_plan_id p) (performs cs t) = (Inr (Some q), t')"
  shows "tp_plan_hash q = tp_plan_hash p"
  using put_binds [OF assms(1,2)] performs_keep get_reads [OF assms(3)] by (fastforce simp: is_bound_def)

lemma get_then_get:
  assumes "get e i s = (Inr (Some p), t)" and "get e' i (performs cs t) = (Inr (Some q), t')"
  shows "q = p"
  using performs_keep get_reads [OF assms(1)] get_reads [OF assms(2)] get_keeps [OF assms(1)] by fastforce

end

section \<open>The dictionary\<close>

lemma memory_get_iff:
  "memory_get i s = (r, t) \<longleftrightarrow> t = s \<and> r = rbind (validate_identifier i ''plan_id'') (\<lambda>i. Inr (map_of s i))"
  by (cases "validate_identifier i ''plan_id''") (auto simp: memory_get_def abind_apply)

lemma memory_store_laws:
  "plan_store (\<lambda>_. memory_put) (\<lambda>_ i. memory_get (JStr i)) map_of (\<lambda>_. True)"
  by unfold_locales
    (auto simp: memory_put_def memory_get_iff is_bound_def validate_identifier_def rbind_Inr_iff map_add_Some_iff
      split: option.splits if_splits)

interpretation dictionary: plan_store "\<lambda>_ :: unit. memory_put" "\<lambda>_ i. memory_get (JStr i)" map_of "\<lambda>_. True"
  by (rule memory_store_laws)

section \<open>The directory\<close>

definition dir_held :: "plan_dir \<Rightarrow> string \<Rightarrow> target_plan option" where
  "dir_held s i = (case map_of (pd_files s) i of None \<Rightarrow> None
     | Some f \<Rightarrow> (case parse_plan_file f of Inr p \<Rightarrow> Some p | Inl _ \<Rightarrow> None))"

text \<open>A plan that the reader of the directory accepts in the text it is written as.\<close>

definition storable :: "target_plan \<Rightarrow> bool" where
  "storable p \<longleftrightarrow> (\<exists>text q. plan_file_text p = Inr text \<and> parse_plan_file (PlanText text) = Inr q
     \<and> tp_plan_hash q = tp_plan_hash p)"

lemma dir_held_append: "dir_held s i = Some q \<Longrightarrow> dir_held (s\<lparr>pd_files := pd_files s @ fs\<rparr>) i = Some q"
  by (auto simp: dir_held_def split: option.splits)

lemma dir_held_step [simp]: "dir_held (s\<lparr>pd_step := n\<rparr>) = dir_held s"
  by (simp add: dir_held_def fun_eq_iff)

lemma dir_step_apply [simp]: "dir_step s = (Inr (pd_step s), s\<lparr>pd_step := Suc (pd_step s)\<rparr>)"
  by (simp add: dir_step_def)

lemma read_plan_state: "snd (read_plan e name s) = s\<lparr>pd_step := Suc (pd_step s)\<rparr>"
  by (simp add: read_plan_def abind_apply)

lemma read_plan_found:
  "read_plan e name s = (Inr (Some q), t) \<Longrightarrow> dir_held s name = Some q"
  by (auto simp: read_plan_def abind_apply dir_held_def rbind_Inr_iff split: option.splits if_splits)

lemma read_plan_absent: "read_plan e name s = (Inr None, t) \<Longrightarrow> map_of (pd_files s) name = None"
  by (auto simp: read_plan_def abind_apply rbind_Inr_iff split: option.splits if_splits)

text \<open>What an operation may do to the files: add some under names that were free.\<close>

definition only_adds :: "(plan_dir, exn, 'a) act \<Rightarrow> bool" where
  "only_adds m \<longleftrightarrow> (\<forall>s. \<exists>fs. pd_files (snd (m s)) = pd_files s @ fs)"

lemma only_adds_intros [intro]:
  "only_adds (alift r)" "only_adds (athrow x)" "only_adds (aret y)" "only_adds dir_step" "only_adds (aget f)"
  "only_adds (read_plan e name)" "only_adds (aguard ok x)"
  by (auto simp: only_adds_def read_plan_state aguard_def)

lemma only_adds_bind [intro]: "only_adds m \<Longrightarrow> (\<And>x. only_adds (f x)) \<Longrightarrow> only_adds (abind m f)"
  unfolding only_adds_def abind_def by (auto split: prod.splits sum.splits) (metis append_assoc snd_conv)+

lemma only_adds_locked [intro]: "only_adds m \<Longrightarrow> only_adds (locked e m)"
  unfolding only_adds_def locked_def by (auto simp: abind_apply split: prod.splits) (metis select_convs(1) snd_conv surjective update_convs(2))

lemma only_adds_link: "only_adds (link_plan e p text synced)"
proof -
  have "only_adds (abind (read_plan e (tp_plan_id p)) (\<lambda>prior. alift (r prior)))" for r :: "_ \<Rightarrow> unit res"
    by (intro only_adds_bind only_adds_intros)
  then show ?thesis by (simp add: only_adds_def link_plan_def)
qed

lemma only_adds_write: "only_adds (write_plan e p text)"
  unfolding write_plan_def
  by (intro only_adds_bind only_adds_intros) (auto intro: only_adds_link split: write_outcome.splits)

lemma only_adds_put: "only_adds (durable_put e p)"
  unfolding durable_put_def
  by (intro only_adds_bind only_adds_locked only_adds_intros) (auto intro: only_adds_write split: option.splits)

lemma only_adds_holds: "only_adds m \<Longrightarrow> m s = (r, t) \<Longrightarrow> dir_held s i = Some q \<Longrightarrow> dir_held t i = Some q"
  unfolding only_adds_def dir_held_def
  by (elim allE [of _ s]) (auto simp: map_add_Some_iff split: option.splits sum.splits)

lemma lockedE:
  assumes "locked e m s = (Inr x, t)"
  obtains s' where "m (s\<lparr>pd_step := Suc (pd_step s)\<rparr>) = (Inr x, s')" "t = s'\<lparr>pd_step := Suc (pd_step s')\<rparr>"
  using assms by (auto simp: locked_def abind_apply raise_def split: prod.splits if_splits)

lemma write_plan_Inr:
  assumes "write_plan e p text s = (Inr u, t)" and "map_of (pd_files s) (tp_plan_id p) = None"
  shows "map_of (pd_files t) (tp_plan_id p) = Some (PlanText text)"
  using assms by (auto simp: write_plan_def abind_apply link_plan_def map_add_Some_iff split: write_outcome.splits)

lemma durable_put_Inr:
  assumes "durable_put e p s = (Inr u, t)"
  obtains (bound) q where "dir_held s (tp_plan_id p) = Some q" "tp_plan_hash q = tp_plan_hash p"
  | (written) bytes where "plan_file_text p = Inr bytes" "map_of (pd_files s) (tp_plan_id p) = None"
      "map_of (pd_files t) (tp_plan_id p) = Some (PlanText bytes)"
proof -
  let ?s = "s\<lparr>pd_step := Suc (pd_step s)\<rparr>"
  obtain name bytes where name: "plan_path (JStr (tp_plan_id p)) = Inr name" and bytes: "plan_file_text p = Inr bytes"
    and body: "locked e (abind (read_plan e name) (\<lambda>prior. case prior of
       Some q \<Rightarrow> alift (rguard (tp_plan_hash q = tp_plan_hash p)
         (Exn PlanRejected ''target plan id is already bound to another hash''))
     | None \<Rightarrow> write_plan e p bytes)) s = (Inr u, t)"
    using assms by (auto simp: durable_put_def abind_Inr_iff)
  have n: "name = tp_plan_id p"
    using name by (simp add: plan_path_def validate_identifier_def split: if_splits)
  obtain prior s1 s2 where read: "read_plan e name ?s = (Inr prior, s1)"
    and rest: "(case prior of Some q \<Rightarrow> alift (rguard (tp_plan_hash q = tp_plan_hash p)
         (Exn PlanRejected ''target plan id is already bound to another hash''))
       | None \<Rightarrow> write_plan e p bytes) s1 = (Inr u, s2)" and t: "pd_files t = pd_files s2"
    by (rule lockedE [OF body]) (auto simp: abind_Inr_iff)
  have s1: "pd_files s1 = pd_files s" using read_plan_state [of e name ?s] read by simp
  show ?thesis
  proof (cases prior)
    case None
    then show ?thesis
      using rest read_plan_absent read write_plan_Inr bytes t s1 n written by fastforce
  next
    case (Some q)
    then show ?thesis using bound read_plan_found [OF read [unfolded Some]] rest n by simp
  qed
qed

lemma durable_put_binds:
  assumes "durable_put e p s = (Inr u, t)" and "storable p"
  shows "is_bound dir_held t p"
proof (cases rule: durable_put_Inr [OF assms(1)])
  case (1 q)
  then show ?thesis using only_adds_holds [OF only_adds_put assms(1)] by (auto simp: is_bound_def)
next
  case (2 bytes)
  then show ?thesis using assms(2) by (auto simp: is_bound_def storable_def dir_held_def)
qed

lemma durable_get_state:
  assumes "durable_get e i s = (r, t)"
  shows "pd_files t = pd_files s"
proof -
  have "t = s \<or> t = s\<lparr>pd_step := Suc (pd_step s)\<rparr>"
    using assms read_plan_state [of e _ s] by (auto simp: durable_get_def abind_apply split: sum.splits) (metis snd_conv)
  then show ?thesis by auto
qed

lemma durable_get_Inr:
  "durable_get e (JStr i) s = (Inr q, t) \<Longrightarrow> read_plan e i s = (Inr q, t)"
  by (auto simp: durable_get_def abind_apply plan_path_def validate_identifier_def split: sum.splits if_splits)

lemma durable_store_laws:
  "plan_store durable_put (\<lambda>e i. durable_get e (JStr i)) dir_held storable"
proof
  show "dir_held t = dir_held s" if "durable_get e (JStr i) s = (r', t)" for e i s t and r' :: "target_plan option res"
    using durable_get_state [OF that] by (simp add: dir_held_def fun_eq_iff)
qed (auto intro: only_adds_holds [OF only_adds_put] durable_put_binds dest!: durable_get_Inr read_plan_found)

interpretation durable: plan_store durable_put "\<lambda>e i. durable_get e (JStr i)" dir_held storable
  by (rule durable_store_laws)

end
