(* ===== verification/Store_Properties.thy ===== *)
theory Store_Properties
  imports Plan_Store_Laws Sample_Plan
begin

text \<open>
  What the durable plan store promises, and the plans it cannot keep its promise for.
\<close>

lemma plan_file_text_of_parsed:
  assumes "target_plan_from_mapping n v = Inr p" and "wf_json v"
  shows "plan_file_text p = Inr (canon v)"
proof -
  obtain keyless where "is_obj v" "finite_json v" "tp_raw p = canon v"
    using plan_parts [OF assms] by metis
  then show ?thesis by (simp add: plan_file_text_def tp_as_dict_def detached_mapping_def contract_sha256_json_def)
qed

lemma parsed_is_storable:
  assumes "target_plan_from_mapping 1 v = Inr p" and "wf_json v"
  shows "storable p"
  using plan_file_text_of_parsed [OF assms] assms(1)
  by (simp add: storable_def parse_plan_file_def invalid_plan_def from_mapping_canon)

lemma read_present:
  "map_of (pd_files s) i = Some f \<Longrightarrow> durable_get e (JStr i) s \<noteq> (Inr None, t)"
  using read_plan_absent [of e i s t] durable_get_Inr [of e i s None t] by auto

lemma durable_files_kept:
  "map_of (pd_files s) i = Some f \<Longrightarrow> map_of (pd_files (durable.perform c s)) i = Some f"
proof (cases c)
  case (PutPlan e p)
  assume "map_of (pd_files s) i = Some f"
  then show ?thesis
    using only_adds_put [of e p] PutPlan
    by (auto simp: durable.perform_def only_adds_def map_add_Some_iff elim!: allE [of _ s])
next
  case (GetPlan e j)
  assume "map_of (pd_files s) i = Some f"
  then show ?thesis
    using durable_get_state [of e "JStr j" s] GetPlan by (metis durable.perform_def prod.collapse store_call.simps(6))
qed

lemma durable_files_stay:
  "map_of (pd_files s) i = Some f \<Longrightarrow> map_of (pd_files (durable.performs cs s)) i = Some f"
  unfolding durable.performs_def by (induction cs arbitrary: s) (auto intro: durable_files_kept)

text \<open>
  C35: A plan within the default volume limit that the durable store has taken stays: after any calls
  of any processes on the directory, a lookup of its id that returns at all returns a plan, and one
  with the same hash.
\<close>

theorem stored_plan_stays:
  assumes "target_plan_from_mapping 1 v = Inr p" and "wf_json v" and "durable_put e p s = (Inr (), t)"
    and "durable_get e' (JStr (tp_plan_id p)) (durable.performs cs t) = (Inr found, t')"
  shows "\<exists>q. found = Some q \<and> tp_plan_hash q = tp_plan_hash p"
proof (cases found)
  case None
  obtain q where "dir_held t (tp_plan_id p) = Some q"
    using durable_put_binds [OF assms(3) parsed_is_storable [OF assms(1,2)]] by (auto simp: is_bound_def)
  then obtain f where "map_of (pd_files t) (tp_plan_id p) = Some f"
    by (auto simp: dir_held_def split: option.splits)
  then have False using read_present durable_files_stay assms(4) unfolding None by blast
  then show ?thesis ..
next
  case (Some q)
  then show ?thesis
    using durable.put_then_get [OF assms(3) parsed_is_storable [OF assms(1,2)]] assms(4) by blast
qed

definition quiet_dir :: dir_env where
  "quiet_dir = \<lparr>de_lock = (\<lambda>_. True), de_unlock = (\<lambda>_. True), de_read = (\<lambda>_. ReadOk), de_write = (\<lambda>_. WriteOk)\<rparr>"

definition empty_dir :: plan_dir where
  "empty_dir = \<lparr>pd_files = [], pd_step = 0\<rparr>"

lemma quiet_put:
  assumes "IDENTIFIER_RE (tp_plan_id p)" and "plan_file_text p = Inr bytes"
  shows "durable_put quiet_dir p empty_dir = (Inr (), \<lparr>pd_files = [(tp_plan_id p, PlanText bytes)], pd_step = 4\<rparr>)"
  using assms by (simp add: durable_put_def plan_path_def validate_identifier_def abind_apply locked_def quiet_dir_def
      empty_dir_def read_plan_def write_plan_def link_plan_def rguard_def)

lemma quiet_get:
  assumes "IDENTIFIER_RE i" and "map_of (pd_files s) i = Some f" and "parse_plan_file f = Inr p"
  shows "durable_get quiet_dir (JStr i) s = (Inr (Some p), s\<lparr>pd_step := Suc (pd_step s)\<rparr>)"
  using assms by (auto simp: durable_get_def plan_path_def validate_identifier_def abind_apply read_plan_def quiet_dir_def
      read_outcome_error_def parse_plan_file_def raise_def split: plan_file.splits)

lemma sample_identifier: "IDENTIFIER_RE sample_plan_id" "tp_plan_id parsed_sample = sample_plan_id"
proof -
  have "id_shape 7 ''static-core-full-open-v3-''" by code_simp
  then show "IDENTIFIER_RE sample_plan_id" unfolding IDENTIFIER_RE_def sample_plan_id_def by (rule id_shape_hashed) simp
  show "tp_plan_id parsed_sample = sample_plan_id"
    using sample_plan_wf by (simp add: tp_plan_id_def parsed_sample_def fld_canon py_str_def)
qed

lemma stored_plan_stays_witness:
  "\<exists>t q. durable_put quiet_dir parsed_sample empty_dir = (Inr (), t)
    \<and> fst (durable_get quiet_dir (JStr sample_plan_id) (durable.performs [GetPlan quiet_dir sample_plan_id] t)) = Inr (Some q)
    \<and> tp_plan_hash q = tp_plan_hash parsed_sample"
proof -
  let ?t = "\<lparr>pd_files = [(sample_plan_id, PlanText (canon sample_plan))], pd_step = 4\<rparr>"
  have put: "durable_put quiet_dir parsed_sample empty_dir = (Inr (), ?t)"
    using quiet_put plan_file_text_of_parsed [OF sample_parses sample_plan_wf(1)] sample_identifier by simp
  have parse: "parse_plan_file (PlanText (canon sample_plan)) = Inr parsed_sample"
    using sample_parses plan_file_text_of_parsed [OF sample_parses sample_plan_wf(1)]
    by (simp add: parse_plan_file_def invalid_plan_def from_mapping_canon del: canon.simps)
  have got: "durable_get quiet_dir (JStr (tp_plan_id parsed_sample)) (durable.performs [GetPlan quiet_dir sample_plan_id] ?t)
      = (Inr (Some parsed_sample), ?t\<lparr>pd_step := 6\<rparr>)"
    using quiet_get [OF sample_identifier(1) _ parse] sample_identifier(2)
    by (simp add: durable.performs_def durable.perform_def del: canon.simps)
  show ?thesis
    using put got stored_plan_stays [OF sample_parses sample_plan_wf(1) put got] sample_identifier by auto
qed

section \<open>Plans above the default volume\<close>

lemma order_limit_irrelevant:
  "order_from_mapping n r = Inr a \<Longrightarrow> order_from_mapping m r = Inr b \<Longrightarrow> a = b"
  by (auto simp: order_from_mapping_def rbind_Inr_iff split: if_splits)

lemma orders_limit_irrelevant:
  "rmap (order_from_mapping n) rs = Inr xs \<Longrightarrow> rmap (order_from_mapping m) rs = Inr ys \<Longrightarrow> xs = ys"
  by (induction rs arbitrary: xs ys) (auto simp: rbind_Inr_iff dest: order_limit_irrelevant)

lemma large_plan_unreadable:
  assumes "target_plan_from_mapping n v = Inr p" and "wf_json v" and "o' \<in> set (tp_orders p)" and "1 < to_volume o'"
  shows "\<exists>x. parse_plan_file (PlanText (canon v)) = Inl x"
proof -
  have "target_plan_from_mapping 1 (canon v) \<noteq> Inr q" for q
  proof
    assume "target_plan_from_mapping 1 (canon v) = Inr q"
    then have q: "target_plan_from_mapping 1 v = Inr q" by (simp add: from_mapping_canon)
    have q_orders: "rmap (order_from_mapping 1) (jarr (fld (canon v) ''orders'')) = Inr (tp_orders q)"
      by (rule plan_parts [OF q assms(2)]) simp
    moreover have "rmap (order_from_mapping n) (jarr (fld (canon v) ''orders'')) = Inr (tp_orders p)"
      by (rule plan_parts [OF assms(1,2)]) simp
    ultimately have "o' \<in> set (tp_orders q)" using orders_limit_irrelevant assms(3) by metis
    then have "order_typed 1 o'" using rmap_Inr_all [OF q_orders] order_from_mapping_typed by blast
    then show False using assms(4) by (simp add: order_typed_def)
  qed
  then show ?thesis
    by (cases "target_plan_from_mapping 1 (canon v)")
      (auto simp: parse_plan_file_def invalid_plan_def raise_def)
qed

text \<open>
  C36: A plan with an order above one lot, which a runtime configured for more than one lot installs, is
  written by the durable store and can never be read again: its reader parses with the default limit,
  so that every later lookup of the id raises, in every process and whatever happens in between.
\<close>

theorem large_plan_is_written_but_lost:
  assumes "target_plan_from_mapping n v = Inr p" and "wf_json v" and "o' \<in> set (tp_orders p)" and "1 < to_volume o'"
    and "map_of (pd_files s) (tp_plan_id p) = None" and "durable_put e p s = (Inr (), t)"
  shows "\<exists>x. fst (durable_get e' (JStr (tp_plan_id p)) (durable.performs cs t)) = Inl x"
proof -
  let ?s = "durable.performs cs t"
  have "map_of (pd_files t) (tp_plan_id p) = Some (PlanText (canon v))"
    using assms(5) plan_file_text_of_parsed [OF assms(1,2)]
    by (cases rule: durable_put_Inr [OF assms(6)]) (auto simp: dir_held_def)
  then have kept: "map_of (pd_files ?s) (tp_plan_id p) = Some (PlanText (canon v))"
    by (rule durable_files_stay)
  have "fst (durable_get e' (JStr (tp_plan_id p)) ?s) \<noteq> Inr found" for found
  proof
    assume "fst (durable_get e' (JStr (tp_plan_id p)) ?s) = Inr found"
    then obtain t' where got: "durable_get e' (JStr (tp_plan_id p)) ?s = (Inr found, t')" by (metis prod.collapse)
    then obtain q where "found = Some q" using read_present [OF kept] by (cases found) auto
    then have "dir_held ?s (tp_plan_id p) = Some q" using durable.get_reads got by blast
    then show False using kept large_plan_unreadable [OF assms(1-4)] by (auto simp: dir_held_def)
  qed
  then show ?thesis by (cases "fst (durable_get e' (JStr (tp_plan_id p)) ?s)") auto
qed

text \<open>A signed plan of two lots.\<close>

definition two_lots :: target_plan_order where
  "two_lots = quoted_order\<lparr>to_volume := 2\<rparr>"

definition signed_sealed :: json where
  "signed_sealed = JObj
     [(''schema_version'', JStr TARGET_PLAN_SCHEMA_VERSION), (''plan_id'', JStr ''plan-two-lots''),
      (''account_scope'', JStr ''account:windows''), (''environment'', JStr ''SIMNOW''),
      (''authority_artifact_id'', JStr ''artifact-1''), (''authority_artifact_sha256'', JStr ZERO_HASH),
      (''authority_receipt_id'', JStr ''receipt-1''), (''authority_receipt_sha256'', JStr ZERO_HASH),
      (''signer_key_id'', JStr ''key''), (''signer_key_version'', JStr ''v1''), (''keyring_raw_sha256'', JStr ZERO_HASH),
      (''scope'', JObj []), (''expires_at'', JStr (format_utc 15000000)), (''orders'', JArr [order_as_dict two_lots]),
      (''phase'', JStr ''OPEN''), (''expected_before_position_hash'', JStr ZERO_HASH),
      (''expected_after_position_hash'', JStr other_hash),
      (''order_set_sha256'', JStr (json_hash (JArr [order_as_dict two_lots]))),
      (''production_allowed'', JBool False), (''live_trading_authorized'', JBool False),
      (''countable_forward'', JBool False)]"

definition signed_plan :: json where
  "signed_plan = dset signed_sealed ''plan_hash'' (JStr (json_hash signed_sealed))"

definition parsed_signed :: target_plan where
  "parsed_signed = \<lparr>tp_raw = canon signed_plan, tp_orders = [two_lots]\<rparr>"

lemma signed_ok: "wf_json signed_plan" "finite_json signed_plan" "is_obj signed_plan"
    "keys_are (canon signed_plan) PLAN_FIELDS_V1"
  by (auto simp: signed_plan_def signed_sealed_def dset_def order_as_dict_def two_lots_def quoted_order_def keys_are_iff
      keys_canon PLAN_FIELDS_V1_def AUTHORITY_FLAGS_def)

lemma two_lots_parsed: "order_from_mapping 2 (canon (order_as_dict two_lots)) = Inr two_lots"
proof -
  have wf: "wf_json (order_as_dict two_lots)" by (simp add: order_as_dict_def two_lots_def quoted_order_def)
  have "keys_are (order_as_dict two_lots) ORDER_FIELDS"
    by (auto simp: keys_are_iff order_as_dict_def ORDER_FIELDS_def)
  moreover have "is_obj (order_as_dict two_lots)" by (simp add: order_as_dict_def)
  moreover have "check_order 2 (canon (order_as_dict two_lots)) = Inr ()"
    using wf by (simp add: check_order_def Let_def fld_canon)
      (simp add: order_as_dict_def read_JObj two_lots_def quoted_order_def price_positive_def sample_order_keys
        EXCHANGES_def YD_AWARE_EXCHANGES_def)
  ultimately show ?thesis
    using wf by (simp add: order_from_mapping_def fld_canon)
      (simp add: order_as_dict_def read_JObj py_float_def contract_id_def two_lots_def quoted_order_def sample_order_keys)
qed

lemma signed_fields [simp]:
  "fld signed_plan ''schema_version'' = JStr TARGET_PLAN_SCHEMA_VERSION" "fld signed_plan ''plan_id'' = JStr ''plan-two-lots''"
  "fld signed_plan ''plan_hash'' = JStr (json_hash signed_sealed)"
  "fld signed_plan ''account_scope'' = JStr ''account:windows''" "fld signed_plan ''environment'' = JStr ''SIMNOW''"
  "fld signed_plan ''authority_artifact_id'' = JStr ''artifact-1''"
  "fld signed_plan ''authority_artifact_sha256'' = JStr ZERO_HASH"
  "fld signed_plan ''authority_receipt_id'' = JStr ''receipt-1''"
  "fld signed_plan ''authority_receipt_sha256'' = JStr ZERO_HASH"
  "fld signed_plan ''signer_key_id'' = JStr ''key''" "fld signed_plan ''signer_key_version'' = JStr ''v1''"
  "fld signed_plan ''keyring_raw_sha256'' = JStr ZERO_HASH" "fld signed_plan ''scope'' = JObj []"
  "fld signed_plan ''expires_at'' = JStr (format_utc 15000000)"
  "fld signed_plan ''orders'' = JArr [order_as_dict two_lots]" "fld signed_plan ''phase'' = JStr ''OPEN''"
  "fld signed_plan ''expected_before_position_hash'' = JStr ZERO_HASH"
  "fld signed_plan ''expected_after_position_hash'' = JStr other_hash"
  "fld signed_plan ''order_set_sha256'' = JStr (json_hash (JArr [order_as_dict two_lots]))"
  "fld signed_plan ''production_allowed'' = JBool False" "fld signed_plan ''live_trading_authorized'' = JBool False"
  "fld signed_plan ''countable_forward'' = JBool False"
  by (simp_all add: signed_plan_def fld_dset) (simp_all add: signed_sealed_def read_JObj)

lemma signed_not_keyless: "member_of (JStr TARGET_PLAN_SCHEMA_VERSION) KEYLESS_SCHEMAS = Inr False"
    "\<not> is_v3 (canon signed_plan)" "TARGET_PLAN_SCHEMA_VERSION \<noteq> KEYLESS_V3"
proof -
  show ne: "TARGET_PLAN_SCHEMA_VERSION \<noteq> KEYLESS_V3" by code_simp
  show "member_of (JStr TARGET_PLAN_SCHEMA_VERSION) KEYLESS_SCHEMAS = Inr False" by code_simp
  show "\<not> is_v3 (canon signed_plan)" using ne signed_ok by (simp add: is_v3_def fld_canon)
qed

lemma signed_keys: "CONTRACT_ID_RE ''plan-two-lots''" "CONTRACT_ID_RE ''artifact-1''" "CONTRACT_ID_RE ''receipt-1''"
  "IDENTIFIER_RE ''plan-two-lots''" "KEY_VERSION_RE ''v1''" "length (utf8 ''v1'') \<le> 128" "length (utf8 ''key'') \<le> 128"
  by code_simp+

lemma signed_header: "check_plan_header False (canon signed_plan) = Inr ()"
  using signed_ok signed_not_keyless sample_times signed_keys
  by (simp add: check_plan_header_def plan_fields_def each_field_def rall_Inr_iff fld_canon contract_id_def
      contract_sha_def contract_utc_format detached_mapping_def flags_false_def AUTHORITY_FLAGS_def short_string_def
      sample_order_keys other_hash_ok del: canon.simps) (simp add: jarr_def)

lemma signed_orders_ok: "check_plan_orders False (canon signed_plan) [two_lots] = Inr ()"
  using signed_ok
  by (simp add: check_plan_orders_def Let_def fld_canon phase_offsets_def) (simp add: two_lots_def quoted_order_def)

lemma signed_parses: "target_plan_from_mapping 2 signed_plan = Inr parsed_signed"
proof -
  let ?raw = "canon signed_plan"
  have "dpop signed_plan ''plan_hash'' = signed_sealed"
    by (simp add: signed_plan_def signed_sealed_def dpop_def dset_def)
  then have hash: "json_hash (dpop ?raw ''plan_hash'') = json_hash signed_sealed"
    by (simp flip: canon_dpop)
  have "has_key ?raw ''scope''"
    using keys_are_has_key [OF signed_ok(4), of "''scope''"] by (simp add: PLAN_FIELDS_V1_def)
  then have same: "dset ?raw ''scope'' (JObj []) = ?raw"
    using dset_same [of ?raw "''scope''"] signed_ok by (simp add: fld_canon sort_items_def)
  show ?thesis
    using signed_ok signed_header signed_orders_ok signed_not_keyless hash same
    by (simp add: target_plan_from_mapping_def detached_mapping_def fld_canon jarr_def two_lots_parsed parsed_signed_def
        with_quote_proof_def sort_items_def)
qed

lemma large_plan_is_written_but_lost_witness:
  "\<exists>t. durable_put quiet_dir parsed_signed empty_dir = (Inr (), t)
    \<and> (\<exists>x. fst (durable_get quiet_dir (JStr ''plan-two-lots'') (durable.performs [] t)) = Inl x)"
proof -
  have name: "tp_plan_id parsed_signed = ''plan-two-lots''"
    using signed_ok by (simp add: tp_plan_id_def parsed_signed_def fld_canon py_str_def)
  let ?t = "\<lparr>pd_files = [(''plan-two-lots'', PlanText (canon signed_plan))], pd_step = 4\<rparr>"
  have put: "durable_put quiet_dir parsed_signed empty_dir = (Inr (), ?t)"
    using quiet_put [of parsed_signed] plan_file_text_of_parsed [OF signed_parses signed_ok(1)] signed_keys(4)
    by (simp only: name)
  have lots: "two_lots \<in> set (tp_orders parsed_signed)" "1 < to_volume two_lots"
    by (simp_all add: parsed_signed_def two_lots_def quoted_order_def)
  have free: "map_of (pd_files empty_dir) (tp_plan_id parsed_signed) = None"
    by (simp add: empty_dir_def)
  show ?thesis
    using put large_plan_is_written_but_lost [OF signed_parses signed_ok(1) lots free put, of quiet_dir "[]"]
    by (auto simp only: name)
qed

end
