(* ===== verification/Artifact_Envelope.thy ===== *)
theory Artifact_Envelope
  imports Plan_Contract
begin

text \<open>
  The artifact envelope of \<open>shared/artifact_contracts/v1.py\<close> that custody keeps a target plan in, with
  the canonical bytes and the authority flags of \<open>shared/trust_contracts/v1.py\<close>. Which texts
  \<open>datetime.fromisoformat\<close> reads differs between Python versions; it is a parameter.
\<close>

abbreviation envelope_error :: "string \<Rightarrow> exn" where
  "envelope_error code \<equiv> Exn ArtifactContractError code"

definition ARTIFACT_ENVELOPE_SCHEMA_VERSION :: string where
  "ARTIFACT_ENVELOPE_SCHEMA_VERSION = ''web-bridge-artifact-envelope-v1''"

definition NON_AUTHORITATIVE_FIELDS :: "string list" where
  "NON_AUTHORITATIVE_FIELDS = [''sensitive_material_present'', ''packet_is_authority'', ''receipt_is_authority'',
     ''outcome_is_authority'', ''bundle_is_execution_authority'', ''official_forward_claimed'',
     ''production'', ''live'', ''countable_forward'', ''control_authorized'',
     ''deployment_authorized'', ''deployment_mutation_authorized'', ''execution_authorized'',
     ''simnow_execution_authorized'', ''runtime_activation_authorized'', ''readiness_authorized'',
     ''order_authorized'', ''permit_authorized'', ''position_authorized'', ''trading_authorized'',
     ''rpc_authorized'', ''network_query_authorized'', ''write_probe_authorized'',
     ''database_mutation_authorized'', ''collection_authorized'',
     ''execution_quality_collection_authorized'', ''strategy_activation_authorized'',
     ''replacement_authorized'', ''dynamic_selection_allowed'', ''replay_allowed'',
     ''automatic_promotion_authorized'', ''production_allowed'', ''production_authorized'',
     ''live_trading_authorized'', ''live_allowed'', ''web_bridge_rpc_authorized'',
     ''order_submission_authorized'', ''position_mutation_authorized'', ''dispatch_authorized'',
     ''network_authorized'', ''authority_granted'', ''signing_requested'', ''custody_published'']"

text \<open>A flag that would make the artifact an authority has to be false at every depth.\<close>

fun non_authoritative :: "json \<Rightarrow> bool" where
  "non_authoritative (JObj kvs) =
     list_all (\<lambda>(k, v). (k \<in> set NON_AUTHORITATIVE_FIELDS \<longrightarrow> v = JBool False) \<and> non_authoritative v) kvs"
| "non_authoritative (JArr xs) = list_all non_authoritative xs"
| "non_authoritative v = True"

section \<open>Fields\<close>

definition ARTIFACT_ID_RE :: "string \<Rightarrow> bool" where
  "ARTIFACT_ID_RE s \<longleftrightarrow>
     (case s of [] \<Rightarrow> False | c # cs \<Rightarrow> is_alnum_char c \<and> list_all id_rest_char cs \<and> length cs \<le> 191)"

definition envelope_id :: "json \<Rightarrow> string \<Rightarrow> string res" where
  "envelope_id v code = (if str_sat ARTIFACT_ID_RE v then Inr (the_str v) else Inl (envelope_error code))"

definition envelope_sha :: "json \<Rightarrow> string \<Rightarrow> string res" where
  "envelope_sha v code = (if str_sat SHA256_RE v then Inr (the_str v) else Inl (envelope_error code))"

text \<open>Four digits, two and two with dashes between, and a T.\<close>

definition iso_prefix :: "string \<Rightarrow> bool" where
  "iso_prefix s \<longleftrightarrow> 11 \<le> length s
     \<and> list_all (\<lambda>i. if i \<in> {4, 7} then s ! i = CHR ''-'' else is_digit_char (s ! i)) [0..<10] \<and> s ! 10 = CHR ''T''"

definition replace_z :: "string \<Rightarrow> string" where
  "replace_z s = concat (map (\<lambda>c. if c = CHR ''Z'' then ''+00:00'' else [c]) s)"

definition envelope_timestamp :: "(string \<Rightarrow> bool) \<Rightarrow> json \<Rightarrow> string \<Rightarrow> string res" where
  "envelope_timestamp fromisoformat v code =
     (if str_sat (\<lambda>s. s \<noteq> [] \<and> length (utf8 s) \<le> 128 \<and> iso_prefix s \<and> fromisoformat (replace_z s)) v
      then Inr (the_str v) else Inl (envelope_error code))"

definition predecessor :: "json \<Rightarrow> (string \<times> string) res" where
  "predecessor item =
     (if \<not> is_obj item then Inl (envelope_error ''ARTIFACT_PREDECESSOR_INVALID'')
      else rbind (envelope_id (fld item ''artifact_id'') ''ARTIFACT_PREDECESSOR_ID_INVALID'') (\<lambda>i.
        rbind (envelope_sha (fld item ''canonical_sha256'') ''ARTIFACT_PREDECESSOR_HASH_INVALID'') (\<lambda>h. Inr (i, h))))"

fun predecessor_pairs :: "(string \<times> string) list \<Rightarrow> json list \<Rightarrow> (string \<times> string) list res" where
  "predecessor_pairs seen [] = Inr seen"
| "predecessor_pairs seen (item # rest) =
     rbind (predecessor item) (\<lambda>pair.
     if pair \<in> set seen then Inl (envelope_error ''ARTIFACT_PREDECESSOR_DUPLICATE'')
     else predecessor_pairs (seen @ [pair]) rest)"

definition predecessors :: "json \<Rightarrow> json res" where
  "predecessors v =
     (if v = JNull then Inr (JArr [])
      else if \<not> is_jarr v \<or> 64 < length (jarr v) then Inl (envelope_error ''ARTIFACT_PREDECESSOR_INVALID'')
      else rbind (predecessor_pairs [] (jarr v)) (\<lambda>pairs.
        Inr (JArr (map (\<lambda>(i, h). JObj [(''artifact_id'', JStr i), (''canonical_sha256'', JStr h)]) pairs))))"

definition artifact_lineage :: "json \<Rightarrow> json res" where
  "artifact_lineage v =
     (if v = JNull then Inr (JArr [])
      else if \<not> is_jarr v \<or> 128 < length (jarr v) then Inl (envelope_error ''ARTIFACT_LINEAGE_INVALID'')
      else rbind (rmap (\<lambda>x. envelope_sha x ''ARTIFACT_LINEAGE_HASH_INVALID'') (jarr v)) (\<lambda>hashes.
        if \<not> distinct hashes then Inl (envelope_error ''ARTIFACT_LINEAGE_DUPLICATE'')
        else Inr (JArr (map JStr hashes))))"

section \<open>Hashes\<close>

definition canonical_line :: "json \<Rightarrow> string" where
  "canonical_line v = json_text v @ [char_of (10 :: nat)]"

definition line_hash :: "json \<Rightarrow> string" where
  "line_hash v = sha256_hex (utf8 (canonical_line v))"

definition trust_sha256_json :: "json \<Rightarrow> string res" where
  "trust_sha256_json v = (if finite_json v then Inr (json_hash v) else Inl (envelope_error ''CANONICAL_JSON_INVALID''))"

text \<open>The hash of the canonical payload, and of the line it is stored as.\<close>

definition payload_hashes :: "json \<Rightarrow> (string \<times> string) res" where
  "payload_hashes payload =
     rbind (trust_sha256_json payload) (\<lambda>canonical.
     if 16777216 < length (utf8 (canonical_line payload)) then Inl (envelope_error ''ARTIFACT_PAYLOAD_SIZE_INVALID'')
     else Inr (canonical, line_hash payload))"

definition derived_artifact_id :: "(string \<times> json) list \<Rightarrow> string res" where
  "derived_artifact_id binding = rbind (trust_sha256_json (JObj binding)) (\<lambda>h. Inr (''artifact-'' @ h))"

section \<open>The envelope\<close>

definition ENVELOPE_FIELDS :: "string list" where
  "ENVELOPE_FIELDS = [''schema_version'', ''artifact_id'', ''artifact_type'', ''trust_domain'', ''producer_id'',
     ''producer_version'', ''schema_ref'', ''canonical_sha256'', ''raw_sha256'', ''predecessor_refs'', ''lineage'',
     ''generated_at'', ''scope'', ''payload'']"

definition check_envelope_fields :: "(string \<Rightarrow> bool) \<Rightarrow> json \<Rightarrow> (json \<times> json) res" where
  "check_envelope_fields fromisoformat v =
     rbind (checks
       [rguard (is_obj v) (envelope_error ''ARTIFACT_ENVELOPE_ROOT_INVALID''),
        rguard (keys_are v ENVELOPE_FIELDS) (envelope_error ''ARTIFACT_ENVELOPE_FIELDS_INVALID''),
        rguard (fld v ''schema_version'' = JStr ARTIFACT_ENVELOPE_SCHEMA_VERSION)
          (envelope_error ''ARTIFACT_ENVELOPE_SCHEMA_INVALID''),
        just (envelope_id (fld v ''artifact_type'') ''ARTIFACT_TYPE_INVALID''),
        just (envelope_id (fld v ''trust_domain'') ''ARTIFACT_TRUST_DOMAIN_INVALID''),
        just (envelope_id (fld v ''producer_id'') ''ARTIFACT_PRODUCER_ID_INVALID''),
        just (envelope_id (fld v ''producer_version'') ''ARTIFACT_PRODUCER_VERSION_INVALID''),
        just (envelope_id (fld v ''schema_ref'') ''ARTIFACT_SCHEMA_REF_INVALID''),
        just (envelope_id (fld v ''artifact_id'') ''ARTIFACT_ID_INVALID''),
        just (envelope_sha (fld v ''canonical_sha256'') ''ARTIFACT_CANONICAL_HASH_INVALID''),
        just (envelope_sha (fld v ''raw_sha256'') ''ARTIFACT_RAW_HASH_INVALID'')]) (\<lambda>_.
     rbind (predecessors (fld v ''predecessor_refs'')) (\<lambda>refs.
     rbind (artifact_lineage (fld v ''lineage'')) (\<lambda>hashes.
     rbind (envelope_timestamp fromisoformat (fld v ''generated_at'') ''ARTIFACT_GENERATED_AT_INVALID'') (\<lambda>_.
     rbind (rguard (is_obj (fld v ''scope'')) (envelope_error ''ARTIFACT_SCOPE_INVALID'')) (\<lambda>_.
     rbind (rguard (non_authoritative v) (envelope_error ''TRUST_AUTHORITY_FLAG_MUST_BE_FALSE'')) (\<lambda>_.
     Inr (refs, hashes)))))))"

definition validate_artifact_envelope :: "(string \<Rightarrow> bool) \<Rightarrow> json \<Rightarrow> json res" where
  "validate_artifact_envelope fromisoformat v =
     rbind (check_envelope_fields fromisoformat v) (\<lambda>(refs, hashes).
     rbind (payload_hashes (fld v ''payload'')) (\<lambda>(canonical, raw).
     rbind (rguard (fld v ''canonical_sha256'' = JStr canonical) (envelope_error ''ARTIFACT_CANONICAL_HASH_MISMATCH'')) (\<lambda>_.
     rbind (rguard (fld v ''raw_sha256'' = JStr raw) (envelope_error ''ARTIFACT_RAW_HASH_MISMATCH'')) (\<lambda>_.
     rbind (derived_artifact_id
       [(''artifact_type'', fld v ''artifact_type''), (''trust_domain'', fld v ''trust_domain''),
        (''producer_id'', fld v ''producer_id''), (''canonical_sha256'', JStr canonical), (''predecessor_refs'', refs),
        (''lineage'', hashes), (''scope'', fld v ''scope'')]) (\<lambda>derived.
     rbind (rguard (fld v ''artifact_id'' = JStr derived) (envelope_error ''ARTIFACT_ID_MISMATCH'')) (\<lambda>_.
     Inr (JObj (map (\<lambda>f. (f, if f = ''predecessor_refs'' then refs else if f = ''lineage'' then hashes else fld v f))
       ENVELOPE_FIELDS))))))))"

end
