(* ===== verification/Plan_Runtime.thy ===== *)
theory Plan_Runtime
  imports Plan_Store Artifact_Envelope Active_Resume Orch_Control
begin

text \<open>
  \<open>FinalExecutionRuntime\<close> (\<open>backend/app/execution/final_runtime.py\<close>): its state, the custody chain that
  brings a plan in, and the checks every operation on an installed plan starts with. The runtime
  holds an orchestrator and a plan store; custody, the tick reader and the quote clock are outside
  services whose answers are numbered by the steps of the orchestrator's clock.
\<close>

section \<open>State\<close>

text \<open>The three calls of the protocol \<open>TargetPlanRepository\<close> that the runtime makes, and its probe.\<close>

record 'p plan_repo =
  pr_put :: "target_plan \<Rightarrow> ('p, exn, unit) act"
  pr_get :: "json \<Rightarrow> ('p, exn, target_plan option) act"
  pr_find :: "json \<Rightarrow> string \<Rightarrow> ('p, exn, target_plan option) act"
  pr_probe :: "('p, exn, unit) act"

definition memory_repo :: "plan_memory plan_repo" where
  "memory_repo = \<lparr>pr_put = memory_put, pr_get = memory_get, pr_find = memory_find_authority, pr_probe = memory_probe\<rparr>"

definition durable_repo :: "dir_env \<Rightarrow> plan_dir plan_repo" where
  "durable_repo e = \<lparr>pr_put = durable_put e, pr_get = durable_get e, pr_find = durable_find_authority e,
     pr_probe = durable_probe e\<rparr>"

text \<open>\<open>JNull\<close> is custody's answer \<open>None\<close>.\<close>

record ('g, 'p) renv =
  re_core :: "'g oenv"
  re_plans :: "'p plan_repo"
  re_receipt :: "nat \<Rightarrow> string \<Rightarrow> json res"
  re_artifact :: "nat \<Rightarrow> string \<Rightarrow> json res"
  re_custody_probe :: "nat \<Rightarrow> unit res"
  re_ticks :: "nat \<Rightarrow> tick_request list \<Rightarrow> tick_binding list res"
  re_quote_clock :: "nat \<Rightarrow> int"
  re_fromisoformat :: "string \<Rightarrow> bool"
  re_allowed_scope :: "json option"
  re_allow_simnow_execution :: bool
  re_allow_trusted_keyless :: bool
  re_max_order_volume :: int

record ('g, 'p) runtime =
  rt_world :: "'g world"
  rt_plans :: 'p

type_synonym ('g, 'p, 'a) rop = "(('g, 'p) runtime, exn, 'a) act"

definition core :: "('g, 'a) wop \<Rightarrow> ('g, 'p, 'a) rop" where
  "core m = (\<lambda>s. let (r, w) = m (rt_world s) in (r, s\<lparr>rt_world := w\<rparr>))"

definition stored :: "('p, exn, 'a) act \<Rightarrow> ('g, 'p, 'a) rop" where
  "stored m = (\<lambda>s. let (r, ps) = m (rt_plans s) in (r, s\<lparr>rt_plans := ps\<rparr>))"

definition ask :: "(nat \<Rightarrow> 'a res) \<Rightarrow> ('g, 'p, 'a) rop" where
  "ask f = abind (core next_tick) (\<lambda>n. alift (f n))"

definition rt_now :: "('g, 'p) renv \<Rightarrow> ('g, 'p, int) rop" where
  "rt_now e = core (utc_now (re_core e))"

definition rt_state :: "('g, 'p) renv \<Rightarrow> ('g, 'p, json) rop" where
  "rt_state e = core (read_state (re_core e))"

definition rt_scope :: "('g, 'p) renv \<Rightarrow> string" where
  "rt_scope e = fe_scope (re_core e)"

definition rt_environment :: "('g, 'p) renv \<Rightarrow> string" where
  "rt_environment e = oe_environment (re_core e)"

text \<open>\<open>except C as exc: raise D(msg)\<close>.\<close>

definition reraise :: "exn_class \<Rightarrow> exn \<Rightarrow> 'a res \<Rightarrow> 'a res" where
  "reraise c e r = rcatch r (\<lambda>x. if is_a x c then Inl e else Inl x)"

abbreviation authority_rejected :: "string \<Rightarrow> exn" where
  "authority_rejected msg \<equiv> Exn AuthorityRejected msg"

section \<open>The custody receipt of a signed plan\<close>

definition scope_allowed :: "('g, 'p) renv \<Rightarrow> json \<Rightarrow> bool" where
  "scope_allowed e scope = (case re_allowed_scope e of None \<Rightarrow> True | Some allowed \<Rightarrow> jeq scope allowed)"

definition custody_receipt_call :: "('g, 'p) renv \<Rightarrow> string \<Rightarrow> ('g, 'p, json) rop" where
  "custody_receipt_call e receipt_id =
     abind (ask (\<lambda>n. reraise PyException (authority_rejected ''custody receipt lookup outcome is unknown'')
       (re_receipt e n receipt_id))) (\<lambda>raw.
     abind (aguard (raw \<noteq> JNull) (authority_rejected ''custody receipt is unavailable'')) (\<lambda>_. aret raw))"

definition RECEIPT_PLAN_FIELDS :: "(string \<times> string) list" where
  "RECEIPT_PLAN_FIELDS = [(''receipt_id'', ''authority_receipt_id''), (''artifact_id'', ''authority_artifact_id''),
     (''artifact_sha256'', ''authority_artifact_sha256''), (''signer_key_id'', ''signer_key_id''),
     (''signer_key_version'', ''signer_key_version''), (''keyring_raw_sha256'', ''keyring_raw_sha256''),
     (''expires_at'', ''expires_at'')]"

definition receipt_matches_plan :: "('g, 'p) renv \<Rightarrow> target_plan \<Rightarrow> custody_receipt \<Rightarrow> bool" where
  "receipt_matches_plan e p r \<longleftrightarrow>
     fld (tp_raw p) ''authority_receipt_sha256'' = JStr (cu_sha256 r)
     \<and> list_all (\<lambda>(f, g). jeq (fld (cu_raw r) f) (fld (tp_raw p) g)) RECEIPT_PLAN_FIELDS
     \<and> jeq (fld (cu_raw r) ''scope'') (fld (tp_raw p) ''scope'') \<and> scope_allowed e (fld (cu_raw r) ''scope'')"

definition identifies_runtime_authorization :: "custody_receipt \<Rightarrow> bool" where
  "identifies_runtime_authorization r \<longleftrightarrow>
     fld (cu_raw r) ''artifact_type'' = JStr ''runtime-authorization''
     \<and> fld (cu_raw r) ''trust_domain'' = JStr ''runtime_authorization''
     \<and> fld (cu_raw r) ''schema_ref'' = JStr ''phase-c-runtime-authorization-v1''"

definition keyless_admitted :: "('g, 'p) renv \<Rightarrow> target_plan \<Rightarrow> unit res" where
  "keyless_admitted e p = checks
     [rguard (re_allow_trusted_keyless e) (authority_rejected ''trusted keyless SIMNOW custody is disabled''),
      rguard (scope_allowed e (fld (tp_raw p) ''scope''))
        (authority_rejected ''keyless target plan scope is not locally allowlisted'')]"

definition receipt_for :: "('g, 'p) renv \<Rightarrow> target_plan \<Rightarrow> ('g, 'p, custody_receipt option) rop" where
  "receipt_for e p =
     (if tp_keyless p then abind (alift (keyless_admitted e p)) (\<lambda>_. aret None)
      else abind (custody_receipt_call e (py_str (fld (tp_raw p) ''authority_receipt_id''))) (\<lambda>raw.
        abind (alift (reraise CommodityExecutionContractError
          (authority_rejected ''custody receipt is not strict verified evidence'') (verified_receipt_from_mapping raw))) (\<lambda>r.
        abind (aguard (identifies_runtime_authorization r)
          (authority_rejected ''custody receipt does not identify runtime authorization'')) (\<lambda>_.
        let bad = authority_rejected ''custody receipt does not match immutable target plan'' in
        abind (aguard (receipt_matches_plan e p r) bad) (\<lambda>_.
        abind (rt_now e) (\<lambda>now.
        abind (aguard (now < cu_expires_at r) bad) (\<lambda>_. aret (Some r))))))))"

section \<open>A plan from custody\<close>

definition plan_from_value :: "('g, 'p) renv \<Rightarrow> target_plan \<Rightarrow> ('g, 'p, unit) rop" where
  "plan_from_value e p =
     abind (aguard (fld (tp_raw p) ''account_scope'' = JStr (rt_scope e))
       (plan_rejected ''target plan account scope does not match Execution'')) (\<lambda>_.
     abind (aguard (fld (tp_raw p) ''environment'' = JStr ''SIMNOW'')
       (plan_rejected ''target plan environment is not SIMNOW'')) (\<lambda>_.
     abind (receipt_for e p) (\<lambda>_. aret ())))"

definition receipt_of :: "json \<Rightarrow> custody_receipt res" where
  "receipt_of raw =
     (if \<not> is_obj raw then raise PyAttributeError ''get''
      else reraise CommodityExecutionContractError
        (authority_rejected ''custody receipt is not strict verified evidence'')
        (rbind (member_of (fld raw ''schema_ref'') KEYLESS_SCHEMAS) (\<lambda>keyless.
         if keyless then keyless_receipt_from_mapping raw else verified_receipt_from_mapping raw)))"

definition identifies_target_plan :: "custody_receipt \<Rightarrow> bool" where
  "identifies_target_plan r \<longleftrightarrow>
     fld (cu_raw r) ''artifact_type'' = JStr ''simnow-target-plan''
     \<and> fld (cu_raw r) ''trust_domain'' = JStr ''runtime_authorization''
     \<and> (cu_keyless r \<or> fld (cu_raw r) ''schema_ref'' = JStr TARGET_PLAN_SCHEMA_VERSION)"

definition cu_text :: "custody_receipt \<Rightarrow> string \<Rightarrow> string" where
  "cu_text r f = py_str (fld (cu_raw r) f)"

definition artifact_call :: "('g, 'p) renv \<Rightarrow> string \<Rightarrow> ('g, 'p, json) rop" where
  "artifact_call e artifact_id =
     abind (ask (\<lambda>n. rcatch (re_artifact e n artifact_id) (\<lambda>x.
       if is_a x AuthorityRejected \<or> is_a x PlanRejected \<or> is_a x GatewayConfigurationError then Inl x
       else raise GatewayUnavailable ''custody artifact lookup outcome is unknown''))) (\<lambda>response.
     abind (aguard (response \<noteq> JNull) (authority_rejected ''custody target plan artifact is unavailable'')) (\<lambda>_.
     abind (aguard (is_obj response \<and> keys_are response [''artifact_id'', ''artifact_raw_sha256'', ''artifact''])
       (plan_rejected ''custody target plan artifact response is not exact'')) (\<lambda>_.
     abind (aguard (is_obj (fld response ''artifact''))
       (plan_rejected ''custody target plan artifact is not an object'')) (\<lambda>_. aret response))))"

definition artifact_contents :: "('g, 'p) renv \<Rightarrow> json \<Rightarrow> (json \<times> string \<times> target_plan) res" where
  "artifact_contents e response =
     (let bad = plan_rejected ''custody target plan artifact is invalid'' in
      reraise ArtifactContractError bad (reraise CommodityExecutionContractError bad
        (rbind (validate_artifact_envelope (re_fromisoformat e) (fld response ''artifact'')) (\<lambda>artifact.
         rbind (trust_sha256_json artifact) (\<lambda>_.
         rbind (target_plan_from_mapping (re_max_order_volume e) (fld artifact ''payload'')) (\<lambda>p.
         Inr (artifact, line_hash artifact, p)))))))"

definition artifact_bound :: "json \<Rightarrow> json \<Rightarrow> string \<Rightarrow> custody_receipt \<Rightarrow> bool" where
  "artifact_bound response artifact envelope_hash r \<longleftrightarrow>
     fld response ''artifact_id'' = JStr (cu_text r ''artifact_id'')
     \<and> fld response ''artifact_raw_sha256'' = JStr envelope_hash
     \<and> fld artifact ''raw_sha256'' = JStr (cu_text r ''artifact_sha256'')"

definition artifact_scoped :: "('g, 'p) renv \<Rightarrow> json \<Rightarrow> custody_receipt \<Rightarrow> target_plan \<Rightarrow> bool" where
  "artifact_scoped e artifact r p \<longleftrightarrow>
     fld artifact ''artifact_id'' = JStr (cu_text r ''artifact_id'')
     \<and> list_all (\<lambda>f. jeq (fld artifact f) (fld (cu_raw r) f)) [''artifact_type'', ''trust_domain'', ''schema_ref'']
     \<and> jeq (fld artifact ''schema_ref'') (fld (tp_raw p) ''schema_version'')
     \<and> jeq (fld artifact ''scope'') (fld (cu_raw r) ''scope'') \<and> jeq (fld artifact ''scope'') (fld (tp_raw p) ''scope'')
     \<and> jeq (fld (cu_raw r) ''scope'') (fld (tp_raw p) ''scope'') \<and> scope_allowed e (fld (cu_raw r) ''scope'')
     \<and> cu_keyless r = tp_keyless p
     \<and> (cu_keyless r \<longrightarrow> jeq (fld (cu_raw r) ''expires_at'') (fld (tp_raw p) ''expires_at''))"

text \<open>The expiry of a keyless receipt is not looked at when a plan that is already running is finalized.\<close>

definition check_custody_expiry :: "('g, 'p) renv \<Rightarrow> bool \<Rightarrow> custody_receipt \<Rightarrow> ('g, 'p, unit) rop" where
  "check_custody_expiry e require_current_expiry r =
     (if require_current_expiry \<or> \<not> cu_keyless r
      then abind (rt_now e) (\<lambda>now. aguard (now < cu_expires_at r)
        (plan_rejected ''custody target plan receipt scope/expiry mismatch''))
      else aret ())"

definition target_plan_from_custody_receipt ::
  "('g, 'p) renv \<Rightarrow> json \<Rightarrow> bool \<Rightarrow> ('g, 'p, target_plan \<times> custody_receipt) rop" where
  "target_plan_from_custody_receipt e raw_receipt require_current_expiry =
     abind (alift (receipt_of raw_receipt)) (\<lambda>r.
     abind (aguard (\<not> cu_keyless r \<or> re_allow_trusted_keyless e)
       (authority_rejected ''trusted keyless SIMNOW custody is disabled'')) (\<lambda>_.
     abind (aguard (identifies_target_plan r)
       (plan_rejected ''SIMNOW preview receipt does not identify a target plan'')) (\<lambda>_.
     abind (artifact_call e (cu_text r ''artifact_id'')) (\<lambda>response.
     abind (alift (artifact_contents e response)) (\<lambda>(artifact, envelope_hash, p).
     abind (aguard (artifact_bound response artifact envelope_hash r)
       (plan_rejected ''custody target plan artifact/receipt binding mismatch'')) (\<lambda>_.
     abind (aguard (artifact_scoped e artifact r p)
       (plan_rejected ''custody target plan receipt scope/expiry mismatch'')) (\<lambda>_.
     abind (check_custody_expiry e require_current_expiry r) (\<lambda>_.
     abind (plan_from_value e p) (\<lambda>_. aret (p, r))))))))))"

definition preview_from_custody ::
  "('g, 'p) renv \<Rightarrow> string \<Rightarrow> bool \<Rightarrow> ('g, 'p, target_plan \<times> custody_receipt) rop" where
  "preview_from_custody e receipt_id require_current_expiry =
     abind (custody_receipt_call e receipt_id) (\<lambda>raw_receipt.
     abind (target_plan_from_custody_receipt e raw_receipt require_current_expiry) (\<lambda>(p, r).
     abind (stored (pr_put (re_plans e) p)) (\<lambda>_. aret (p, r))))"

section \<open>Installed plans\<close>

definition readiness :: "('g, 'p) renv \<Rightarrow> ('g, 'p, unit) rop" where
  "readiness e =
     abind (stored (pr_probe (re_plans e))) (\<lambda>_.
     ask (\<lambda>n. reraise PyException (authority_rejected ''custody read-only readiness failed'') (re_custody_probe e n)))"

definition reparsed :: "('g, 'p) renv \<Rightarrow> target_plan \<Rightarrow> target_plan res" where
  "reparsed e p = reraise CommodityExecutionContractError
     (plan_rejected ''installed target plan exceeds local order bound'')
     (rbind (tp_as_dict p) (target_plan_from_mapping (re_max_order_volume e)))"

definition installed_plan :: "('g, 'p) renv \<Rightarrow> json \<Rightarrow> string option \<Rightarrow> ('g, 'p, target_plan) rop" where
  "installed_plan e plan_id plan_hash =
     abind (stored (pr_get (re_plans e) plan_id)) (\<lambda>found.
     case found of None \<Rightarrow> athrow (plan_rejected ''target plan is not installed in Execution'')
     | Some p0 \<Rightarrow>
         abind (aguard (plan_hash = None \<or> plan_hash = Some (tp_plan_hash p0))
           (plan_rejected ''target plan hash does not match installed plan'')) (\<lambda>_.
         abind (alift (reparsed e p0)) (\<lambda>p.
         abind (plan_from_value e p) (\<lambda>_. aret p))))"

definition install_target_plan :: "('g, 'p) renv \<Rightarrow> json \<Rightarrow> ('g, 'p, target_plan) rop" where
  "install_target_plan e raw =
     abind (alift (reraise CommodityExecutionContractError (plan_rejected ''target plan contract is invalid'')
       (target_plan_from_mapping (re_max_order_volume e) raw))) (\<lambda>p.
     abind (aguard (\<not> tp_keyless p) (plan_rejected ''keyless target plans must be installed from custody'')) (\<lambda>_.
     abind (plan_from_value e p) (\<lambda>_.
     abind (stored (pr_put (re_plans e) p)) (\<lambda>_. aret p))))"

end
