(* ===== verification/Runtime_Orders.thy ===== *)
theory Runtime_Orders
  imports Plan_Runtime
begin

text \<open>
  The runtime's two broker mutations, both handed to the orchestrator with names derived from the plan,
  the halt after a failed dispatch, and the quote proofs it reads or makes.
\<close>

section \<open>Sending and cancelling\<close>

definition token_int :: "token_arg \<Rightarrow> string \<Rightarrow> int res" where
  "token_int t f =
     (case t of
        NoToken \<Rightarrow> raise PyTypeError f
      | TokenObj k \<Rightarrow> Inr (if f = ''epoch'' then lt_epoch k else lt_fencing_token k)
      | TokenMap m \<Rightarrow> (case dget m f of
          None \<Rightarrow> raise PyKeyError f
        | Some v \<Rightarrow> (case py_int v of Some n \<Rightarrow> Inr n
            | None \<Rightarrow> raise (if is_jstr v then PyValueError else PyTypeError) f)))"

definition require_token :: "token_arg \<Rightarrow> (int \<times> int) res" where
  "require_token t =
     (if t = NoToken then raise MutationRejected ''SIMNOW plan mutation requires an explicit leader token''
      else rbind (token_int t ''epoch'') (\<lambda>epoch. rbind (token_int t ''fencing_token'') (\<lambda>fence. Inr (epoch, fence))))"

definition plan_args :: "target_plan \<Rightarrow> int \<times> int \<Rightarrow> token_arg \<Rightarrow> string \<Rightarrow> json option \<Rightarrow> order_args" where
  "plan_args p fence t intent_id proof' =
     \<lparr>oa_plan_id = Some (tp_plan_id p), oa_plan_hash = Some (tp_plan_hash p), oa_leader_epoch = Some (fst fence),
      oa_fencing_token = Some (snd fence), oa_token = t, oa_intent_id = Some intent_id, oa_target = None, oa_now = None,
      oa_emergency = False, oa_planned = True, oa_proof = proof'\<rparr>"

definition plan_is_active :: "target_plan \<Rightarrow> json \<Rightarrow> bool" where
  "plan_is_active p s \<longleftrightarrow> fld s ''lifecycle'' = JStr ''READY'' \<and> fld (fld s ''plan'') ''state'' = JStr ''ACTIVE''
     \<and> fld (fld s ''plan'') ''plan_id'' = JStr (tp_plan_id p) \<and> fld (fld s ''plan'') ''plan_hash'' = JStr (tp_plan_hash p)"

definition order_quote_proof :: "target_plan \<Rightarrow> string \<Rightarrow> json option \<Rightarrow> json option res" where
  "order_quote_proof p ref start_proof =
     (if \<not> is_v3 (tp_raw p) then Inr None
      else case start_proof of
        None \<Rightarrow> raise StartQuoteEvidenceInvalid ''TargetPlan v3 first send lacks execution start quote proof''
      | Some given \<Rightarrow> rcatch (rbind (quote_proof_for_order given p ref) (\<lambda>q. Inr (Some q))) (\<lambda>x.
          if is_a x ExecutionStartQuotePriceIncompatible then raise StartQuoteReplanRequired (exn_text x)
          else if is_a x PyValueError then raise StartQuoteEvidenceInvalid (exn_text x) else Inl x))"

definition runtime_bindings :: "('g, 'p) renv \<Rightarrow> target_plan \<Rightarrow> send_binding list res" where
  "runtime_bindings e p = expected_send_intent_bindings p (rt_scope e) (rt_environment e)"

definition binding_of :: "send_binding list \<Rightarrow> string \<Rightarrow> send_binding res" where
  "binding_of bs ref =
     (case find (\<lambda>b. sb_order_ref b = ref) bs of None \<Rightarrow> raise PyRuntimeError ''StopIteration'' | Some b \<Rightarrow> Inr b)"

text \<open>
  What a send reads before it hands the order over. A new send needs the active, ready plan; the same
  deterministic intent goes to the orchestrator always, which answers it from the document.
\<close>

record planned_send =
  ps_plan :: target_plan
  ps_order :: target_plan_order
  ps_binding :: send_binding
  ps_proof :: "json option"
  ps_fence :: "int \<times> int"

definition prepare_plan_send ::
  "('g, 'p) renv \<Rightarrow> string \<Rightarrow> string \<Rightarrow> token_arg \<Rightarrow> json option \<Rightarrow> ('g, 'p, planned_send) rop" where
  "prepare_plan_send e plan_id order_ref t start_proof =
     abind (aguard (re_allow_simnow_execution e) (authority_rejected ''SIMNOW execution is locally disabled'')) (\<lambda>_.
     abind (installed_plan e (JStr plan_id) None) (\<lambda>p.
     abind (alift (tp_order p (JStr order_ref))) (\<lambda>o'.
     abind (alift (rbind (runtime_bindings e p) (\<lambda>bs. binding_of bs (to_reference o')))) (\<lambda>b.
     abind (core (status (re_core e) None)) (\<lambda>s.
     abind (rt_state e) (\<lambda>state.
     abind (aguard (plan_is_active p s \<or> fld (fld state ''intent_keys'') (sb_idempotency_key b) = JStr (sb_intent_id b))
       (plan_rejected ''target plan is not the active reconciled execution plan'')) (\<lambda>_.
     abind (aguard (t \<noteq> NoToken)
       (Exn MutationRejected ''SIMNOW plan mutation requires an explicit leader token'')) (\<lambda>_.
     abind (alift (order_quote_proof p (to_reference o') start_proof)) (\<lambda>q.
     abind (alift (require_token t)) (\<lambda>fence.
     aret \<lparr>ps_plan = p, ps_order = o', ps_binding = b, ps_proof = q, ps_fence = fence\<rparr>))))))))))"

definition send_plan_order ::
  "('g, 'p) renv \<Rightarrow> string \<Rightarrow> string \<Rightarrow> token_arg \<Rightarrow> json option \<Rightarrow> ('g, 'p, json) rop" where
  "send_plan_order e plan_id order_ref t start_proof =
     abind (prepare_plan_send e plan_id order_ref t start_proof) (\<lambda>x.
     core (submit_planned_order (re_core e) (order_as_dict (ps_order x)) (sb_idempotency_key (ps_binding x))
       (plan_args (ps_plan x) (ps_fence x) t (sb_intent_id (ps_binding x)) (ps_proof x))))"

definition cancel_seed :: "target_plan \<Rightarrow> string \<Rightarrow> string" where
  "cancel_seed p intent_id = json_hash (JObj
     [(''plan_id'', JStr (tp_plan_id p)), (''plan_hash'', JStr (tp_plan_hash p)), (''intent_id'', JStr intent_id)])"

definition cancel_plan_intent ::
  "('g, 'p) renv \<Rightarrow> string \<Rightarrow> string \<Rightarrow> token_arg \<Rightarrow> ('g, 'p, json) rop" where
  "cancel_plan_intent e plan_id intent_id t =
     abind (installed_plan e (JStr plan_id) None) (\<lambda>p.
     abind (alift (validate_identifier (JStr intent_id) ''intent_id'')) (\<lambda>_.
     abind (rt_state e) (\<lambda>state.
     let raw = fld (fld state ''send_intents'') intent_id in
     abind (aguard (is_obj raw \<and> fld raw ''plan_id'' = JStr (tp_plan_id p) \<and> fld raw ''plan_hash'' = JStr (tp_plan_hash p))
       (plan_rejected ''intent is not owned by this immutable target plan'')) (\<lambda>_.
     abind (alift (require_token t)) (\<lambda>fence.
     core (cancel_planned_intent (re_core e) intent_id (''cancel-'' @ take 30 (cancel_seed p intent_id))
       (plan_args p fence t (''cancel-'' @ take 24 (cancel_seed p intent_id)) None)))))))"

section \<open>Halting\<close>

text \<open>What the emergency stop has left unknown is not overwritten by the less specific halt.\<close>

definition halt_runner_after_failure :: "('g, 'p) renv \<Rightarrow> string \<Rightarrow> ('g, 'p, unit) rop" where
  "halt_runner_after_failure e reason =
     abind (core (emergency_stop (re_core e) reason)) (\<lambda>_.
     abind (rt_state e) (\<lambda>state.
     if truthy (fld state ''unknown_outcomes'') then aret ()
     else abind (core (fail_closed_halt (re_core e) reason)) (\<lambda>_. aret ())))"

definition halting :: "('g, 'p) renv \<Rightarrow> string \<Rightarrow> ('g, 'p, 'a) rop \<Rightarrow> ('g, 'p, 'a) rop" where
  "halting e ref m =
     acatch m (\<lambda>x. abind (halt_runner_after_failure e
       (''SIMNOW runner order '' @ ref @ '' failed: '' @ exn_text x)) (\<lambda>_. athrow x))"

section \<open>Quote proofs of the start\<close>

definition START_EVIDENCE_ERRORS :: "exn_class list" where
  "START_EVIDENCE_ERRORS = [FormalTickEvidenceInvalid, FormalTickReadError, ExecutionStartQuoteProofError, PyTypeError,
     PyValueError]"

definition start_quote_error :: "exn \<Rightarrow> exn" where
  "start_quote_error x =
     (if is_a x ExecutionStartQuotePriceIncompatible then Exn StartQuoteReplanRequired (exn_text x)
      else if is_a x FormalTickSourceUnavailable then Exn StartQuoteSourceUnavailable (exn_text x)
      else if list_ex (is_a x) START_EVIDENCE_ERRORS then Exn StartQuoteEvidenceInvalid (exn_text x) else x)"

definition fresh_start_quote_proof :: "('g, 'p) renv \<Rightarrow> target_plan \<Rightarrow> string list \<Rightarrow> ('g, 'p, json) rop" where
  "fresh_start_quote_proof e p refs =
     ask (\<lambda>n. rcatch (build_execution_start_quote_proof (re_ticks e n) (re_quote_clock e n) p refs)
       (\<lambda>x. Inl (start_quote_error x)))"

definition persisted_start_receipt_ok :: "string \<Rightarrow> json \<Rightarrow> bool" where
  "persisted_start_receipt_ok hash receipt \<longleftrightarrow>
     is_obj receipt \<and> fld receipt ''command_hash'' = JStr hash \<and> fld receipt ''status'' = JStr ''COMPLETED''
     \<and> is_obj (fld receipt ''result'') \<and> fld (fld receipt ''result'') ''accepted'' = JBool True"

definition persisted_start_quote_proof :: "('g, 'p) renv \<Rightarrow> envelope \<Rightarrow> target_plan \<Rightarrow> ('g, 'p, json option) rop" where
  "persisted_start_quote_proof e c p =
     abind (rt_state e) (\<lambda>state. alift
       (let receipt = fld (get_or state ''receipts'' (JObj [])) (command_key c) in
        if receipt = JNull then Inr None
        else rbind (command_hash c) (\<lambda>hash.
          rbind (rguard (persisted_start_receipt_ok hash receipt)
            (Exn StartQuoteEvidenceInvalid ''persisted start receipt does not bind exact accepted command'')) (\<lambda>_.
          rbind (on_value_error
            (validate_plan_quote_proof (fld (fld receipt ''result'') ''execution_start_quote_proof'') p [])
            (Exn StartQuoteEvidenceInvalid ''persisted execution start quote proof is invalid'')) (\<lambda>q. Inr (Some q))))))"

text \<open>The proofs that receipts of this plan hold, by their hash.\<close>

definition receipt_start_proof :: "target_plan \<Rightarrow> json \<Rightarrow> json option res" where
  "receipt_start_proof p receipt =
     (let result = fld receipt ''result''; evidence = fld result ''execution_start_quote_proof'' in
      if \<not> is_obj receipt then Inl (plan_rejected ''Execution command receipt is invalid'')
      else if \<not> (is_obj result \<and> has_key result ''execution_start_quote_proof'') then Inr None
      else if \<not> is_obj evidence then Inl (plan_rejected ''persisted execution start quote proof is invalid'')
      else if \<not> (fld evidence ''plan_id'' = JStr (tp_plan_id p) \<or> fld evidence ''plan_hash'' = JStr (tp_plan_hash p))
      then Inr None
      else rbind (on_value_error (validate_plan_quote_proof evidence p [])
          (plan_rejected ''persisted execution start quote proof mismatches target plan'')) (\<lambda>q. Inr (Some q)))"

fun matched_proofs :: "target_plan \<Rightarrow> (string \<times> json) list \<Rightarrow> json list \<Rightarrow> (string \<times> json) list res" where
  "matched_proofs p matched [] = Inr matched"
| "matched_proofs p matched (receipt # receipts) =
     rbind (receipt_start_proof p receipt) (\<lambda>found.
     matched_proofs p (case found of None \<Rightarrow> matched
       | Some q \<Rightarrow> AList.update (the_str (fld q ''proof_sha256'')) q matched) receipts)"

definition persisted_start_quote_proof_for_plan :: "('g, 'p) renv \<Rightarrow> target_plan \<Rightarrow> ('g, 'p, json option) rop" where
  "persisted_start_quote_proof_for_plan e p =
     abind (rt_state e) (\<lambda>state. alift
       (let receipts = get_or state ''receipts'' (JObj []) in
        rbind (rguard (is_obj receipts) (plan_rejected ''Execution command receipts are invalid'')) (\<lambda>_.
        rbind (matched_proofs p [] (map snd (items receipts))) (\<lambda>matched.
        case matched of [] \<Rightarrow> Inr None | [(h, q)] \<Rightarrow> Inr (Some q)
        | _ \<Rightarrow> Inl (plan_rejected ''multiple execution start quote proofs bind target plan'')))))"

end
