(* ===== verification/Runtime_Start.thy ===== *)
theory Runtime_Start
  imports Runtime_Orders
begin

text \<open>
  The evidence the runtime proves before a reconcile, the dispatch of an accepted start, and
  \<open>FinalExecutionRuntime.process_command\<close>.
\<close>

section \<open>Finalization evidence\<close>

definition PREVIEW_PROOF_FIELDS :: "string list" where
  "PREVIEW_PROOF_FIELDS = [''preview_receipt_id'', ''preview_receipt_sha256'', ''preview_artifact_id'',
     ''preview_artifact_sha256'']"

definition has_preview_proof :: "json \<Rightarrow> bool" where
  "has_preview_proof active \<longleftrightarrow> fld active ''preview_mode'' = JStr ''simnow_preview''
     \<and> list_all (\<lambda>f. is_jstr (fld active f)) PREVIEW_PROOF_FIELDS
     \<and> fld active ''preview_receipt_id'' \<noteq> JStr UNKNOWN_ID \<and> fld active ''preview_receipt_sha256'' \<noteq> JStr ZERO_HASH
     \<and> fld active ''preview_artifact_id'' \<noteq> JStr UNKNOWN_ID \<and> fld active ''preview_artifact_sha256'' \<noteq> JStr ZERO_HASH"

definition preview_unchanged :: "target_plan \<Rightarrow> json \<Rightarrow> target_plan \<times> custody_receipt \<Rightarrow> bool" where
  "preview_unchanged p active = (\<lambda>(preview, r). tp_plan_hash preview = tp_plan_hash p
     \<and> fld active ''preview_receipt_sha256'' = JStr (cu_sha256 r)
     \<and> fld active ''preview_artifact_id'' = JStr (cu_text r ''artifact_id'')
     \<and> fld active ''preview_artifact_sha256'' = JStr (cu_text r ''artifact_sha256''))"

definition binding_evidence :: "target_plan \<Rightarrow> send_binding \<Rightarrow> json" where
  "binding_evidence p b = JObj
     [(''intent_id'', JStr (sb_intent_id b)), (''idempotency_key'', JStr (sb_idempotency_key b)),
      (''request_hash'', JStr (sb_request_hash b)), (''receipt_id'', JStr (sb_receipt_id b)),
      (''receipt_hash'', JStr (sb_receipt_hash b)), (''action'', JStr ''send''), (''target_intent_id'', JNull),
      (''plan_id'', JStr (tp_plan_id p)), (''plan_hash'', JStr (tp_plan_hash p))]"

definition evidence_base :: "target_plan \<Rightarrow> json \<Rightarrow> send_binding list \<Rightarrow> json" where
  "evidence_base p active bindings = JObj
     [(''plan_id'', JStr (tp_plan_id p)), (''plan_hash'', JStr (tp_plan_hash p)),
      (''expected_after_position_hash'', JStr (py_str (fld (tp_raw p) ''expected_after_position_hash''))),
      (''authority_artifact_id'', JStr (tp_authority_id p)), (''authority_artifact_sha256'', JStr (tp_authority_hash p)),
      (''authority_receipt_id'', JStr (str_or (tp_raw p) ''authority_receipt_id'' ''keyless-custody'')),
      (''authority_receipt_sha256'', JStr (str_or (tp_raw p) ''authority_receipt_sha256'' ZERO_HASH)),
      (''preview_receipt_id'', JStr (py_str (fld active ''preview_receipt_id''))),
      (''preview_receipt_sha256'', JStr (py_str (fld active ''preview_receipt_sha256''))),
      (''preview_artifact_id'', JStr (py_str (fld active ''preview_artifact_id''))),
      (''preview_artifact_sha256'', JStr (py_str (fld active ''preview_artifact_sha256''))),
      (''expected_send_intent_bindings'', JArr (map (binding_evidence p) bindings))]"

definition check_intent_proof :: "target_plan \<Rightarrow> json \<Rightarrow> send_binding \<Rightarrow> unit res" where
  "check_intent_proof p state b =
     (let intent = fld (fld state ''send_intents'') (sb_intent_id b) in
      if intent = JNull then Inr ()
      else if \<not> is_obj intent then Inl (plan_rejected ''SIMNOW v3 send intent is invalid'')
      else rbind (on_value_error
          (validate_plan_quote_proof (fld intent ''execution_start_quote_proof'') p [sb_order_ref b])
          (plan_rejected ''SIMNOW v3 send intent start quote proof does not bind order'')) (\<lambda>q.
        rguard (fld intent ''execution_start_quote_proof_sha256'' = fld q ''proof_sha256'')
          (plan_rejected ''SIMNOW v3 send intent start quote proof mismatches'')))"

definition v3_evidence ::
  "('g, 'p) renv \<Rightarrow> target_plan \<Rightarrow> json \<Rightarrow> send_binding list \<Rightarrow> json \<Rightarrow> ('g, 'p, json) rop" where
  "v3_evidence e p state bindings base =
     abind (persisted_start_quote_proof_for_plan e p) (\<lambda>start_proof. alift
       (case start_proof of
          None \<Rightarrow> Inl (plan_rejected ''SIMNOW v3 active plan lacks durable start quote proof'')
        | Some q \<Rightarrow>
            rbind (rall (check_intent_proof p state) bindings) (\<lambda>_.
            rbind (contract_sha256_json (creation_quotes p)) (\<lambda>creation.
            Inr (dupdate base [(''execution_run_id'', fld (tp_raw p) ''execution_run_id''),
              (''creation_quote_proof_sha256'', JStr creation),
              (''start_quote_proof_sha256'', fld q ''proof_sha256'')])))))"

text \<open>\<open>None\<close> when no plan is active.\<close>

definition finalization_evidence :: "('g, 'p) renv \<Rightarrow> ('g, 'p, json option) rop" where
  "finalization_evidence e =
     abind (rt_state e) (\<lambda>state.
     let active = fld state ''plan'' in
     if fld active ''state'' \<noteq> JStr ''ACTIVE'' then aret None
     else
       abind (installed_plan e (JStr (py_str (fld active ''plan_id''))) (Some (py_str (fld active ''plan_hash'')))) (\<lambda>p.
       abind (aguard (has_preview_proof active)
         (plan_rejected ''SIMNOW active plan lacks durable preview proof'')) (\<lambda>_.
       abind (preview_from_custody e (py_str (fld active ''preview_receipt_id'')) False) (\<lambda>preview.
       abind (aguard (preview_unchanged p active preview)
         (plan_rejected ''SIMNOW preview custody evidence changed after restart'')) (\<lambda>_.
       abind (alift (runtime_bindings e p)) (\<lambda>bindings.
       abind (alift (classify_active_plan_intents state p bindings)) (\<lambda>_.
       let base = evidence_base p active bindings in
       abind (if is_v3 (tp_raw p) then v3_evidence e p state bindings base else aret base) (\<lambda>evidence.
       aret (Some evidence)))))))))"

section \<open>Rollover evidence\<close>

text \<open>Chinese day session in local time, eight hours ahead: half past eight to three, end excluded.\<close>

definition local_us :: "int \<Rightarrow> int" where
  "local_us t = t + 8 * 3600 * 1000000"

definition day_session :: "int \<Rightarrow> bool" where
  "day_session t \<longleftrightarrow> (let minute = local_us t div 60000000 mod 1440 in 510 \<le> minute \<and> minute < 900)"

definition trading_day :: "int \<Rightarrow> string" where
  "trading_day t = (let s = format_utc (local_us t) in take 4 s @ take 2 (drop 5 s) @ take 2 (drop 8 s))"

definition only_limit_orders :: "target_plan \<Rightarrow> bool" where
  "only_limit_orders p \<longleftrightarrow> list_all (\<lambda>o'. fld o' ''type'' = JStr ''LIMIT'') (jarr (fld (tp_raw p) ''orders''))"

definition trading_day_rollover_evidence :: "('g, 'p) renv \<Rightarrow> ('g, 'p, json option) rop" where
  "trading_day_rollover_evidence e =
     abind (rt_state e) (\<lambda>state.
     let active = get_or state ''plan'' (JObj []) in
     if fld active ''state'' \<noteq> JStr ''ACTIVE'' then aret None
     else
       abind (installed_plan e (JStr (py_str (fld active ''plan_id''))) (Some (py_str (fld active ''plan_hash'')))) (\<lambda>p.
       let raw = tp_raw p; generated = utc_time (the_str (fld raw ''generated_at'')) in
       if \<not> (is_v3 raw \<and> fld raw ''environment'' = JStr ''SIMNOW'' \<and> fld raw ''gateway_name'' = JStr ''CTP''
           \<and> only_limit_orders p \<and> str_sat UTC_RE (fld raw ''generated_at'') \<and> day_session generated)
       then aret None
       else abind (alift (runtime_bindings e p)) (\<lambda>bindings. aret (Some (JObj
         [(''schema_version'', JStr ''execution_gfd_rollover_evidence_v1''), (''plan_id'', JStr (tp_plan_id p)),
          (''plan_hash'', JStr (tp_plan_hash p)), (''intent_trading_day'', JStr (trading_day generated)),
          (''time_condition'', JStr ''GFD''),
          (''intent_ids'', JArr (map JStr (sort (map sb_intent_id bindings))))])))))"

definition revoked_with_plan :: "json \<Rightarrow> json \<Rightarrow> bool" where
  "revoked_with_plan state rollover \<longleftrightarrow>
     (let active = get_or state ''plan'' (JObj []); authority = get_or state ''authority'' (JObj []) in
      is_obj active \<and> is_obj authority \<and> fld active ''state'' = JStr ''ACTIVE''
      \<and> fld authority ''state'' = JStr ''REVOKED'' \<and> jeq (fld rollover ''plan_id'') (fld active ''plan_id'')
      \<and> jeq (fld rollover ''plan_hash'') (fld active ''plan_hash''))"

definition authority_is_plans :: "target_plan \<Rightarrow> json \<Rightarrow> bool" where
  "authority_is_plans p authority \<longleftrightarrow> fld authority ''artifact_id'' = JStr (tp_authority_id p)
     \<and> fld authority ''artifact_hash'' = JStr (tp_authority_hash p)
     \<and> jeq (fld authority ''expires_at'') (fld (tp_raw p) ''expires_at'')"

definition expired_revoked_rollover_recovery :: "('g, 'p) renv \<Rightarrow> json option \<Rightarrow> ('g, 'p, bool) rop" where
  "expired_revoked_rollover_recovery e rollover =
     (case rollover of None \<Rightarrow> aret False
      | Some evidence \<Rightarrow> abind (rt_state e) (\<lambda>state.
          if \<not> revoked_with_plan state evidence then aret False
          else let active = get_or state ''plan'' (JObj []); authority = get_or state ''authority'' (JObj []) in
            abind (installed_plan e (JStr (py_str (fld active ''plan_id'')))
              (Some (py_str (fld active ''plan_hash'')))) (\<lambda>p.
            if \<not> authority_is_plans p authority then aret False
            else abind (rt_now e) (\<lambda>now. aret (utc_time (py_str (fld authority ''expires_at'')) \<le> now)))))"

section \<open>The dispatch of an accepted start\<close>

definition token_identity :: "leader_token \<Rightarrow> string \<times> string \<times> int \<times> int \<times> string" where
  "token_identity t = (lt_scope t, lt_owner_id t, lt_epoch t, lt_fencing_token t, lt_instance_id t)"

definition lost_token :: exn where
  "lost_token = Exn MutationRejected ''SIMNOW runner lost its leader token''"

text \<open>A new child is sent under the lease as it is now: held by the same leader, not shortened, valid.\<close>

definition renewed_token ::
  "('g, 'p) renv \<Rightarrow> leader_token \<Rightarrow> int \<Rightarrow> ('g, 'p, leader_token \<times> int) rop" where
  "renewed_token e start last_expiry =
     abind (core (aget f_token)) (\<lambda>held. case held of
       None \<Rightarrow> athrow lost_token
     | Some current \<Rightarrow>
         abind (aguard (token_identity current = token_identity start)
           (Exn MutationRejected ''SIMNOW runner leader identity changed during dispatch'')) (\<lambda>_.
         let expiry = utc_time (lt_lease_expires_at current) in
         abind (aguard (last_expiry \<le> expiry)
           (Exn MutationRejected ''SIMNOW runner leader lease expiry regressed during dispatch'')) (\<lambda>_.
         abind (core (validate_token (re_core e) (TokenObj current) None)) (\<lambda>valid. aret (valid, expiry)))))"

definition dispatch_proof :: "target_plan \<Rightarrow> json \<Rightarrow> json \<Rightarrow> json option \<Rightarrow> json option" where
  "dispatch_proof p state existing_id missing_proof =
     (let existing = (case existing_id of JStr i \<Rightarrow> fld (fld state ''send_intents'') i | _ \<Rightarrow> JNull);
          kept = fld existing ''execution_start_quote_proof''
      in if is_v3 (tp_raw p) \<and> is_obj existing \<and> kept \<noteq> JNull then Some kept else missing_proof)"

definition send_accepted :: "json \<Rightarrow> bool" where
  "send_accepted result \<longleftrightarrow>
     fld result ''accepted'' = JBool True \<and> state_upper result '''' \<in> {''SUBMITTED'', ''ACKNOWLEDGED''}"

definition dispatch_one ::
  "('g, 'p) renv \<Rightarrow> target_plan \<Rightarrow> leader_token \<Rightarrow> json option \<Rightarrow> send_binding list \<Rightarrow> int \<Rightarrow> target_plan_order
    \<Rightarrow> ('g, 'p, int) rop" where
  "dispatch_one e p start missing_proof bindings last_expiry o' =
     abind (alift (binding_of bindings (to_reference o'))) (\<lambda>b.
     abind (rt_state e) (\<lambda>state.
     let existing_id = fld (fld state ''intent_keys'') (sb_idempotency_key b) in
     abind (if existing_id = JStr (sb_intent_id b) then aret (start, last_expiry)
       else halting e (to_reference o') (renewed_token e start last_expiry)) (\<lambda>(t, expiry).
     abind (halting e (to_reference o') (send_plan_order e (tp_plan_id p) (to_reference o') (TokenObj t)
       (dispatch_proof p state existing_id missing_proof))) (\<lambda>result.
     if send_accepted result then aret expiry
     else abind (halt_runner_after_failure e (''SIMNOW runner order '' @ to_reference o' @ '' was not accepted'')) (\<lambda>_.
       athrow (Exn MutationRejected ''SIMNOW runner order was rejected or has unknown outcome''))))))"

fun dispatch_orders ::
  "('g, 'p) renv \<Rightarrow> target_plan \<Rightarrow> leader_token \<Rightarrow> json option \<Rightarrow> send_binding list \<Rightarrow> int \<Rightarrow> target_plan_order list
    \<Rightarrow> ('g, 'p, unit) rop" where
  "dispatch_orders e p start missing_proof bindings last_expiry [] = aret ()"
| "dispatch_orders e p start missing_proof bindings last_expiry (o' # os) =
     abind (dispatch_one e p start missing_proof bindings last_expiry o') (\<lambda>expiry.
     dispatch_orders e p start missing_proof bindings expiry os)"

text \<open>A replayed start needs a new proof for the children that are not there yet.\<close>

definition missing_order_refs :: "json \<Rightarrow> send_binding list \<Rightarrow> string list" where
  "missing_order_refs state bindings = map sb_order_ref
     (filter (\<lambda>b. fld (fld state ''intent_keys'') (sb_idempotency_key b) \<noteq> JStr (sb_intent_id b)) bindings)"

definition proof_for_missing ::
  "('g, 'p) renv \<Rightarrow> target_plan \<Rightarrow> bool \<Rightarrow> json option \<Rightarrow> send_binding list \<Rightarrow> ('g, 'p, json option) rop" where
  "proof_for_missing e p reused quote_proof bindings =
     (if \<not> (reused \<and> is_v3 (tp_raw p)) then aret quote_proof
      else abind (rt_state e) (\<lambda>state.
        let refs = missing_order_refs state bindings in
        if refs = [] then aret quote_proof
        else abind (fresh_start_quote_proof e p refs) (\<lambda>q. aret (Some q))))"

definition dispatch_accepted_start ::
  "('g, 'p) renv \<Rightarrow> json \<Rightarrow> target_plan \<Rightarrow> json option \<Rightarrow> ('g, 'p, json) rop" where
  "dispatch_accepted_start e response p quote_proof =
     (if fld (fld response ''result'') ''accepted'' \<noteq> JBool True then aret response
      else abind (core (aget f_token)) (\<lambda>held. case held of
        None \<Rightarrow> athrow lost_token
      | Some start \<Rightarrow>
          abind (alift (runtime_bindings e p)) (\<lambda>bindings.
          abind (proof_for_missing e p (fld response ''reused'' = JBool True) quote_proof bindings) (\<lambda>missing_proof.
          abind (dispatch_orders e p start missing_proof bindings (utc_time (lt_lease_expires_at start)) (tp_orders p)) (\<lambda>_.
          aret response)))))"

section \<open>Commands\<close>

definition no_evidence :: evidence where
  "no_evidence = \<lparr>evid_preview = None, evid_start = None, evid_finalization = None, evid_rollover = None\<rparr>"

definition payload_text :: "envelope \<Rightarrow> string \<Rightarrow> string" where
  "payload_text c f = py_str (fld (env_payload c) f)"

definition preview_evidence_of :: "target_plan \<Rightarrow> custody_receipt \<Rightarrow> json" where
  "preview_evidence_of p r = JObj
     [(''plan_hash'', JStr (tp_plan_hash p)), (''receipt_id'', JStr (cu_text r ''receipt_id'')),
      (''receipt_sha256'', JStr (cu_sha256 r)), (''artifact_id'', JStr (cu_text r ''artifact_id'')),
      (''artifact_sha256'', JStr (cu_text r ''artifact_sha256''))]"

definition simnow_preview :: "('g, 'p) renv \<Rightarrow> envelope \<Rightarrow> ('g, 'p, json) rop" where
  "simnow_preview e c =
     abind (preview_from_custody e (payload_text c ''receipt_id'') True) (\<lambda>(p, r).
     abind (aguard (fld (env_payload c) ''plan_hash'' = JStr (tp_plan_hash p)
         \<and> fld (env_payload c) ''artifact_hash'' = JStr (cu_text r ''artifact_sha256''))
       (plan_rejected ''SIMNOW preview plan/artifact hash mismatch'')) (\<lambda>_.
     core (process_command (re_core e) (Envelope c) (no_evidence\<lparr>evid_preview := Some (preview_evidence_of p r)\<rparr>))))"

definition enable_bound :: "('g, 'p) renv \<Rightarrow> envelope \<Rightarrow> ('g, 'p, unit) rop" where
  "enable_bound e c =
     abind (stored (pr_find (re_plans e) (fld (env_payload c) ''authority_artifact_id'')
       (payload_text c ''authority_hash''))) (\<lambda>found. case found of
       None \<Rightarrow> athrow (authority_rejected ''no installed target plan binds this authority'')
     | Some p \<Rightarrow>
         abind (plan_from_value e p) (\<lambda>_.
         aguard (jeq (fld (env_payload c) ''expires_at'') (fld (tp_raw p) ''expires_at''))
           (authority_rejected ''enable authority expiry is not receipt-bound'')))"

definition start_matches :: "target_plan \<Rightarrow> json \<Rightarrow> string \<Rightarrow> bool" where
  "start_matches p prior position_hash \<longleftrightarrow>
     (let plan = fld prior ''plan'' in
      fld plan ''state'' = JStr ''PREVIEWED'' \<and> fld plan ''plan_id'' = JStr (''preview-'' @ take 16 (tp_plan_hash p))
      \<and> fld plan ''plan_hash'' = JStr (tp_plan_hash p) \<and> fld plan ''preview_mode'' = JStr ''simnow_preview''
      \<and> is_jstr (fld plan ''preview_receipt_id'') \<and> fld plan ''preview_receipt_id'' \<noteq> JStr UNKNOWN_ID
      \<and> fld plan ''preview_receipt_sha256'' \<noteq> JStr ZERO_HASH \<and> fld plan ''preview_artifact_id'' \<noteq> JStr UNKNOWN_ID
      \<and> fld plan ''preview_artifact_sha256'' \<noteq> JStr ZERO_HASH
      \<and> fld (fld prior ''reconciliation'') ''state'' = JStr ''RECONCILED''
      \<and> fld (tp_raw p) ''expected_before_position_hash'' = JStr position_hash)"

definition start_fence :: "('g, 'p) renv \<Rightarrow> envelope \<Rightarrow> ('g, 'p, unit) rop" where
  "start_fence e c =
     abind (aguard (ev_leader_epoch (env_expected c) \<noteq> None \<and> ev_fencing_token (env_expected c) \<noteq> None)
       (Exn MutationRejected ''SIMNOW start requires an explicit leader fence'')) (\<lambda>_.
     abind (core (aget f_token)) (\<lambda>held.
     abind (core (admission (re_core e) (ev_leader_epoch (env_expected c)) (ev_fencing_token (env_expected c))
       (case held of None \<Rightarrow> NoToken | Some t \<Rightarrow> TokenObj t) None)) (\<lambda>_. aret ())))"

definition prove_start :: "('g, 'p) renv \<Rightarrow> envelope \<Rightarrow> target_plan \<Rightarrow> ('g, 'p, unit) rop" where
  "prove_start e c p =
     abind (rt_state e) (\<lambda>prior.
     abind (alift (reraise CommodityExecutionContractError
       (plan_rejected ''SIMNOW start current position projection is invalid'')
       (before_position_projection_hash (fld (fld prior ''broker'') ''positions'') (JStr (rt_scope e))
         (JStr (rt_environment e))))) (\<lambda>position_hash.
     abind (aguard (start_matches p prior position_hash)
       (plan_rejected ''SIMNOW start lacks matching preview/reconciliation/position proof'')) (\<lambda>_.
     abind (preview_from_custody e (py_str (fld (fld prior ''plan'') ''preview_receipt_id'')) True) (\<lambda>preview.
     abind (aguard (preview_unchanged p (fld prior ''plan'') preview)
       (plan_rejected ''SIMNOW preview custody evidence changed after restart'')) (\<lambda>_.
     start_fence e c)))))"

definition start_command :: "('g, 'p) renv \<Rightarrow> envelope \<Rightarrow> ('g, 'p, json) rop" where
  "start_command e c =
     abind (aguard (re_allow_simnow_execution e) (authority_rejected ''SIMNOW execution is locally disabled'')) (\<lambda>_.
     abind (installed_plan e (fld (env_payload c) ''plan_id'') (Some (payload_text c ''plan_hash''))) (\<lambda>p.
     abind (if is_v3 (tp_raw p) then persisted_start_quote_proof e c p else aret None) (\<lambda>persisted.
     abind (case persisted of
         Some q \<Rightarrow> aret (Some q)
       | None \<Rightarrow> abind (prove_start e c p) (\<lambda>_.
           if is_v3 (tp_raw p) then abind (fresh_start_quote_proof e p []) (\<lambda>q. aret (Some q)) else aret None)) (\<lambda>q.
     abind (core (process_command (re_core e) (Envelope c) (no_evidence\<lparr>evid_start := q\<rparr>))) (\<lambda>response.
     dispatch_accepted_start e response p q)))))"

definition reconcile_evidence :: "('g, 'p) renv \<Rightarrow> ('g, 'p, evidence) rop" where
  "reconcile_evidence e =
     abind (trading_day_rollover_evidence e) (\<lambda>rollover.
     abind (finalization_evidence e) (\<lambda>finalization.
     abind (expired_revoked_rollover_recovery e rollover) (\<lambda>recovery.
     aret (no_evidence\<lparr>evid_finalization := (if recovery then None else finalization), evid_rollover := rollover\<rparr>))))"

definition runtime_process :: "('g, 'p) renv \<Rightarrow> envelope \<Rightarrow> ('g, 'p, json) rop" where
  "runtime_process e c =
     (if wants_simnow c then simnow_preview e c
      else if env_command c = ''start'' then start_command e c
      else
        abind (aif (env_command c = ''enable'') (enable_bound e c)) (\<lambda>_.
        abind (if env_command c = ''reconcile'' then reconcile_evidence e else aret no_evidence) (\<lambda>ev.
        core (process_command (re_core e) (Envelope c) ev))))"

definition runtime_process_command :: "('g, 'p) renv \<Rightarrow> command_arg \<Rightarrow> ('g, 'p, json) rop" where
  "runtime_process_command e command =
     abind (alift (case command of Envelope c \<Rightarrow> Inr c | Mapping m \<Rightarrow> envelope_from_mapping m)) (runtime_process e)"

end
