(* ===== verification/Control_Projections.thy ===== *)
theory Control_Projections
  imports Active_Resume
begin

text \<open>
  The strict projections that Control and Execution exchange
  (\<open>backend/app/schemas/control_execution.py\<close>): leader tokens and statuses, completions, account facts,
  reconciliation snapshots, and the request and result of a resume. Each \<open>from_mapping\<close> returns the
  detached value or the error of the first check that fails.
\<close>

section \<open>Checks\<close>

abbreviation bad_value :: "string \<Rightarrow> exn" where
  "bad_value msg \<equiv> Exn PyValueError msg"

definition detached_object :: "json \<Rightarrow> string \<Rightarrow> json res" where
  "detached_object value name =
     (if \<not> is_obj value then raise PyTypeError (name @ '' must be an object'')
      else if finite_json value then Inr (canon value) else raise PyValueError (name @ '' is not canonical JSON''))"

definition strict_nonnegative_int :: "json \<Rightarrow> string \<Rightarrow> unit res" where
  "strict_nonnegative_int v field = rguard (int_at_least 0 v) (bad_value (field @ '' is invalid''))"

definition strict_sha :: "json \<Rightarrow> string \<Rightarrow> unit res" where
  "strict_sha v field = rguard (str_sat SHA256_RE v) (bad_value (field @ '' is invalid''))"

definition strict_utc :: "json \<Rightarrow> string \<Rightarrow> int res" where
  "strict_utc v field =
     (if \<not> str_sat UTC_RE v then raise PyValueError (field @ '' is invalid'')
      else rbind (on_value_error (parse_utc v field) (bad_value (field @ '' is invalid''))) (\<lambda>s. Inr (utc_time s)))"

definition is_id :: "json \<Rightarrow> bool" where
  "is_id v \<longleftrightarrow> str_sat IDENTIFIER_RE v"

definition nonempty_str :: "json \<Rightarrow> bool" where
  "nonempty_str v \<longleftrightarrow> str_sat (\<lambda>s. s \<noteq> []) v"

definition hash_closes :: "json \<Rightarrow> string \<Rightarrow> bool" where
  "hash_closes c field \<longleftrightarrow> fld c field = JStr (json_hash (dpop c field))"

section \<open>The leader\<close>

definition LEADER_TOKEN_FIELDS :: "string list" where
  "LEADER_TOKEN_FIELDS = [''scope'', ''owner_id'', ''held'', ''epoch'', ''fencing_token'', ''lease_expires_at'',
     ''instance_id'']"

definition check_leader_common :: "json \<Rightarrow> string list \<Rightarrow> unit res" where
  "check_leader_common c names =
     (let owner = fld c ''owner_id''; instance_id = fld c ''instance_id''; owned = truthy owner in checks
     [rguard (keys_are c names) (bad_value ''execution leader fields are not exact''),
      rguard (is_id (fld c ''scope'')) (bad_value ''execution leader scope is invalid''),
      rguard ((owned \<longrightarrow> is_id owner) \<and> is_jstr owner) (bad_value ''execution leader owner_id is invalid''),
      if owned then rguard (is_id instance_id) (bad_value ''execution leader instance_id is invalid'')
      else rguard (instance_id = JStr []) (bad_value ''released execution leader retains an instance_id''),
      rguard (int_at_least 0 (fld c ''epoch'')) (bad_value ''execution leader epoch is invalid''),
      rguard (int_at_least 0 (fld c ''fencing_token'')) (bad_value ''execution leader fencing_token is invalid''),
      rguard (is_jbool (fld c ''held'')) (bad_value ''execution leader held is invalid''),
      rguard (str_sat UTC_RE (fld c ''lease_expires_at'')) (bad_value ''execution leader lease_expires_at is invalid''),
      rguard (owned \<longrightarrow> int_at_least 1 (fld c ''epoch'') \<and> int_at_least 1 (fld c ''fencing_token''))
        (bad_value ''owned execution leader is missing a fence'')])"

definition leader_token_projection :: "json \<Rightarrow> json res" where
  "leader_token_projection value =
     rbind (detached_object value ''execution leader token'') (\<lambda>c.
     rbind (check_leader_common c LEADER_TOKEN_FIELDS) (\<lambda>_.
     rbind (rguard (fld c ''held'' = JBool True \<and> truthy (fld c ''owner_id'') \<and> truthy (fld c ''instance_id'')
         \<and> fld c ''lease_expires_at'' \<noteq> JStr EPOCH_TIMESTAMP)
       (bad_value ''execution leader token is not held'')) (\<lambda>_. Inr c)))"

definition leader_token_dict :: "json \<Rightarrow> json" where
  "leader_token_dict c = dpop c ''held''"

definition LEADER_STATES :: "string list" where
  "LEADER_STATES = [''ACTIVE'', ''EXPIRED_BOUND'', ''RELEASED'']"

definition leader_binding_valid :: "json \<Rightarrow> bool" where
  "leader_binding_valid c \<longleftrightarrow>
     (if fld c ''state'' = JStr ''RELEASED''
      then fld c ''held'' = JBool False \<and> fld c ''owner_id'' = JStr [] \<and> fld c ''instance_id'' = JStr []
        \<and> fld c ''lease_expires_at'' = JStr EPOCH_TIMESTAMP
      else fld c ''held'' = JBool (fld c ''state'' = JStr ''ACTIVE'') \<and> truthy (fld c ''owner_id'')
        \<and> truthy (fld c ''instance_id'') \<and> fld c ''lease_expires_at'' \<noteq> JStr EPOCH_TIMESTAMP)"

definition leader_status_projection :: "json \<Rightarrow> json res" where
  "leader_status_projection value =
     rbind (detached_object value ''execution leader status'') (\<lambda>c.
     rbind (check_leader_common c (LEADER_TOKEN_FIELDS @ [''state''])) (\<lambda>_.
     rbind (rguard (str_sat (\<lambda>s. s \<in> set LEADER_STATES) (fld c ''state''))
       (bad_value ''execution leader state is invalid'')) (\<lambda>_.
     rbind (rguard (leader_binding_valid c)
       (bad_value ''execution leader status has mixed state bindings'')) (\<lambda>_. Inr c))))"

section \<open>Completions\<close>

definition COMPLETION_FIELDS :: "string list" where
  "COMPLETION_FIELDS = [''plan_id'', ''plan_hash'', ''schema_version'', ''phase'', ''lineage'',
     ''expected_after_position_hash'', ''target_position_hash'', ''archived_at'']"

definition COMPLETION_V3_FIELDS :: "string list" where
  "COMPLETION_V3_FIELDS =
     COMPLETION_FIELDS @ [''execution_run_id'', ''creation_quote_proof_sha256'', ''start_quote_proof_sha256'']"

definition COMPLETION_LINEAGE_FIELDS :: "string list" where
  "COMPLETION_LINEAGE_FIELDS = [''static_core_equal_sha256'', ''position_manager_sha256'', ''final_target_sha256'']"

definition check_completion :: "json \<Rightarrow> unit res" where
  "check_completion c =
     (let v2 = keys_are c COMPLETION_FIELDS; v3 = keys_are c COMPLETION_V3_FIELDS; lineage = fld c ''lineage'' in checks
     [rguard (v2 \<or> v3) (bad_value ''execution completion projection fields are not exact''),
      rguard (is_id (fld c ''plan_id'')) (bad_value ''execution completion plan_id is invalid''),
      rall (\<lambda>f. rguard (str_sat SHA256_RE (fld c f)) (bad_value (''execution completion '' @ f @ '' is invalid'')))
        [''plan_hash'', ''expected_after_position_hash'', ''target_position_hash''],
      rguard ((v2 \<longrightarrow> fld c ''schema_version'' = JStr KEYLESS_V2) \<and> (v3 \<longrightarrow> fld c ''schema_version'' = JStr KEYLESS_V3))
        (bad_value ''execution completion schema/version variant mismatches''),
      if v3 then checks
        [rguard (is_id (fld c ''execution_run_id'')) (bad_value ''execution completion execution_run_id is invalid''),
         strict_sha (fld c ''creation_quote_proof_sha256'') ''creation_quote_proof_sha256'',
         strict_sha (fld c ''start_quote_proof_sha256'') ''start_quote_proof_sha256'']
      else Inr (),
      require_member (fld c ''phase'') [''CLOSE'', ''OPEN''] (bad_value ''execution completion phase is invalid''),
      rguard (is_obj lineage \<and> keys_are lineage COMPLETION_LINEAGE_FIELDS)
        (bad_value ''execution completion lineage fields are not exact''),
      rall (\<lambda>f. rguard (str_sat SHA256_RE (fld lineage f))
        (bad_value (''execution completion lineage '' @ f @ '' is invalid''))) COMPLETION_LINEAGE_FIELDS,
      rguard (fld c ''target_position_hash'' = fld c ''expected_after_position_hash'')
        (bad_value ''execution completion target position binding mismatches''),
      rguard (str_sat UTC_RE (fld c ''archived_at'')) (bad_value ''execution completion archived_at is invalid'')])"

definition completion_projection :: "json \<Rightarrow> json res" where
  "completion_projection value =
     (if \<not> is_obj value then raise PyTypeError ''execution completion projection must be an object''
      else if \<not> finite_json value then raise PyValueError ''Out of range float values are not JSON compliant''
      else let c = canon value in rbind (check_completion c) (\<lambda>_. Inr c))"

section \<open>Account facts\<close>

definition ACCOUNT_FACTS_FIELDS :: "string list" where
  "ACCOUNT_FACTS_FIELDS = [''schema_version'', ''service'', ''service_version'', ''account_scope'', ''environment'',
     ''snapshot_id'', ''generation'', ''observed_at'', ''connected'', ''fresh'', ''position_snapshot_hash'', ''positions'',
     ''active_order_count'', ''active_orders_sha256'', ''active_orders'', ''status_binding'', ''account_facts_sha256'']"

definition STATUS_BINDING_FIELDS :: "string list" where
  "STATUS_BINDING_FIELDS = [''status_schema_version'', ''state_version'', ''status_observed_at'', ''lifecycle'',
     ''reconciliation'', ''broker'', ''durable_active_orders_sha256'', ''durable_positions_sha256'',
     ''durable_position_identity_sha256'', ''snapshot_identity_mode'']"

definition RECONCILIATION_FIELDS :: "string list" where
  "RECONCILIATION_FIELDS = [''state'', ''run_id'', ''last_completed_at'', ''unknown_outcomes'', ''fresh_snapshot_id'']"

definition FACTS_BROKER_FIELDS :: "string list" where
  "FACTS_BROKER_FIELDS = [''connected'', ''generation'', ''active_order_count'', ''position_snapshot_hash'', ''last_snapshot_at'']"

text \<open>What account facts and reconciliation snapshots have in common: who observed what, and that it closes.\<close>

definition observed_identity :: "json \<Rightarrow> string \<Rightarrow> bool" where
  "observed_identity c schema \<longleftrightarrow>
     fld c ''schema_version'' = JStr schema \<and> fld c ''service'' = JStr ''execution-orchestrator''
     \<and> nonempty_str (fld c ''service_version'') \<and> is_id (fld c ''account_scope'') \<and> nonempty_str (fld c ''environment'')
     \<and> is_id (fld c ''snapshot_id'') \<and> fld c ''connected'' = JBool True \<and> fld c ''fresh'' = JBool True"

definition fact_rows :: "json \<Rightarrow> bool" where
  "fact_rows c \<longleftrightarrow> is_obj (fld c ''positions'') \<and> is_obj (fld c ''active_orders'')
     \<and> list_all (\<lambda>(k, row). is_obj row) (items (fld c ''positions'') @ items (fld c ''active_orders''))"

definition order_count_closes :: "json \<Rightarrow> bool" where
  "order_count_closes c \<longleftrightarrow> fld c ''active_order_count'' = JInt (int (length (items (fld c ''active_orders''))))"

definition positions_close :: "json \<Rightarrow> bool" where
  "positions_close c \<longleftrightarrow> fld c ''position_snapshot_hash'' = JStr (json_hash (fld c ''positions''))"

definition orders_close :: "json \<Rightarrow> bool" where
  "orders_close c \<longleftrightarrow> fld c ''active_orders_sha256'' = JStr (json_hash (fld c ''active_orders''))"

definition check_status_binding :: "json \<Rightarrow> unit res" where
  "check_status_binding b = checks
     [rguard (is_obj b \<and> keys_are b STATUS_BINDING_FIELDS)
        (bad_value ''execution account facts status binding is not exact''),
      rguard (fld b ''status_schema_version'' = JStr ''web_bridge_execution_status_v1'' \<and> nonempty_str (fld b ''lifecycle''))
        (bad_value ''execution account facts status identity is invalid''),
      require_member (fld b ''snapshot_identity_mode'') [''EXACT'', ''GENERATION_FACT_HASH_EQUIVALENT'']
        (bad_value ''execution account facts status identity is invalid''),
      strict_nonnegative_int (fld b ''state_version'') ''state_version'',
      just (strict_utc (fld b ''status_observed_at'') ''status_observed_at''),
      rall (\<lambda>f. strict_sha (fld b f) f)
        [''durable_active_orders_sha256'', ''durable_positions_sha256'', ''durable_position_identity_sha256'']]"

definition check_durable_binding :: "json \<Rightarrow> json \<Rightarrow> unit res" where
  "check_durable_binding reconciliation broker = checks
     [rguard (is_obj reconciliation \<and> keys_are reconciliation RECONCILIATION_FIELDS \<and> is_obj broker
         \<and> keys_are broker FACTS_BROKER_FIELDS)
        (bad_value ''execution account facts durable binding is not exact''),
      rguard (list_all (\<lambda>f. is_jstr (fld reconciliation f)) [''state'', ''run_id'', ''fresh_snapshot_id''])
        (bad_value ''execution reconciliation binding is invalid''),
      just (strict_utc (fld reconciliation ''last_completed_at'') ''last_completed_at''),
      strict_nonnegative_int (fld reconciliation ''unknown_outcomes'') ''unknown_outcomes'',
      rguard (is_jbool (fld broker ''connected''))
        (bad_value ''execution durable broker connected flag is invalid''),
      rall (\<lambda>f. strict_nonnegative_int (fld broker f) (''broker.'' @ f)) [''generation'', ''active_order_count''],
      strict_sha (fld broker ''position_snapshot_hash'') ''broker.position_snapshot_hash'']"

definition check_peek_name :: "json \<Rightarrow> unit res" where
  "check_peek_name snapshot_id =
     (if starts_with ''snapshot-peek-'' (the_str snapshot_id)
      then strict_sha (JStr (drop 14 (the_str snapshot_id))) ''snapshot peek facts hash'' else Inr ())"

definition facts_reconciled :: "json \<Rightarrow> string \<Rightarrow> int \<Rightarrow> int \<Rightarrow> bool" where
  "facts_reconciled c position_identity durable_observed observed \<longleftrightarrow>
     (let b = fld c ''status_binding''; reconciliation = fld b ''reconciliation''; broker = fld b ''broker'' in
      fld reconciliation ''state'' = JStr ''RECONCILED'' \<and> fld reconciliation ''unknown_outcomes'' = JInt 0
      \<and> fld broker ''connected'' = JBool True \<and> fld broker ''generation'' = fld c ''generation''
      \<and> fld broker ''position_snapshot_hash'' = fld b ''durable_positions_sha256''
      \<and> fld b ''durable_position_identity_sha256'' = JStr position_identity
      \<and> fld broker ''active_order_count'' = fld c ''active_order_count''
      \<and> fld b ''durable_active_orders_sha256'' = fld c ''active_orders_sha256''
      \<and> (fld b ''snapshot_identity_mode'' = JStr ''EXACT''
           \<longrightarrow> fld reconciliation ''fresh_snapshot_id'' = fld c ''snapshot_id'')
      \<and> durable_observed \<le> observed)"

definition check_account_facts :: "json \<Rightarrow> unit res" where
  "check_account_facts c =
     (let b = fld c ''status_binding'' in
      rbind (checks
        [rguard (keys_are c ACCOUNT_FACTS_FIELDS) (bad_value ''execution account facts fields are not exact''),
         rguard (observed_identity c ''web_bridge_execution_account_facts_v1'')
           (bad_value ''execution account facts identity is invalid''),
         strict_nonnegative_int (fld c ''generation'') ''generation'',
         strict_nonnegative_int (fld c ''active_order_count'') ''active_order_count'']) (\<lambda>_.
      rbind (strict_utc (fld c ''observed_at'') ''observed_at'') (\<lambda>observed.
      rbind (checks
        [rall (\<lambda>f. strict_sha (fld c f) f) [''position_snapshot_hash'', ''active_orders_sha256'', ''account_facts_sha256''],
         rguard (fact_rows c) (bad_value ''execution account fact rows are invalid''),
         rguard (order_count_closes c) (bad_value ''execution active order count does not close''),
         rguard (positions_close c) (bad_value ''execution position facts hash does not close''),
         rguard (orders_close c) (bad_value ''execution active order facts hash does not close''),
         check_status_binding b,
         check_durable_binding (fld b ''reconciliation'') (fld b ''broker'')]) (\<lambda>_.
      rbind (strict_utc (fld (fld b ''broker'') ''last_snapshot_at'') ''broker.last_snapshot_at'') (\<lambda>durable_observed.
      rbind (check_peek_name (fld c ''snapshot_id'')) (\<lambda>_.
      rbind (rcatch (before_position_projection_hash (fld c ''positions'') (fld c ''account_scope'') (fld c ''environment''))
        (\<lambda>x. if is_a x CommodityExecutionContractError
          then Inl (bad_value ''execution position identity is invalid'') else Inl x)) (\<lambda>position_identity.
      checks
        [rguard (facts_reconciled c position_identity durable_observed observed)
           (bad_value ''execution account facts are not bound to reconciled status''),
         rguard (hash_closes c ''account_facts_sha256'')
           (bad_value ''execution account facts projection hash does not close'')])))))))"

definition account_facts_dto :: "json \<Rightarrow> json res" where
  "account_facts_dto value =
     rbind (detached_object value ''execution account facts'') (\<lambda>c.
     rbind (check_account_facts c) (\<lambda>_. Inr c))"

end
