(* ===== verification/Resume_Projections.thy ===== *)
theory Resume_Projections
  imports Control_Projections
begin

text \<open>
  The projections of \<open>backend/app/schemas/control_execution.py\<close> that build on the account facts: the
  planner-ready facts of version 2, the reconciliation snapshot, and the request and the result of
  resuming an active plan.
\<close>

section \<open>Account facts, version 2\<close>

definition EXECUTION_BINDING_FIELDS :: "string list" where
  "EXECUTION_BINDING_FIELDS = [''state_version'', ''plan_state'', ''send_intents'', ''send_intents_sha256'',
     ''nonterminal_send_intent_count'']"

definition SEND_INTENT_REQUIRED_FIELDS :: "string list" where
  "SEND_INTENT_REQUIRED_FIELDS = [''intent_id'', ''idempotency_key'', ''state'', ''plan_id'', ''plan_hash'',
     ''leader_epoch'', ''fencing_token'', ''created_at'']"

definition SEND_INTENT_OPTIONAL_FIELDS :: "string list" where
  "SEND_INTENT_OPTIONAL_FIELDS = [''action'', ''request_hash'', ''target_intent_id'', ''receipt_id'', ''receipt_hash'',
     ''broker_order_id'', ''unknown_reason'', ''execution_start_quote_proof'', ''execution_start_quote_proof_sha256'']"

definition intent_proof_fields_ok :: "json \<Rightarrow> bool" where
  "intent_proof_fields_ok row \<longleftrightarrow>
     has_key row ''execution_start_quote_proof'' = has_key row ''execution_start_quote_proof_sha256''
     \<and> (has_key row ''execution_start_quote_proof_sha256''
          \<longrightarrow> str_sat SHA256_RE (fld row ''execution_start_quote_proof_sha256''))"

definition intent_row_ok :: "string \<times> json \<Rightarrow> bool" where
  "intent_row_ok = (\<lambda>(intent_id, row). is_obj row \<and> list_all (has_key row) SEND_INTENT_REQUIRED_FIELDS
     \<and> keys_within row (SEND_INTENT_REQUIRED_FIELDS @ SEND_INTENT_OPTIONAL_FIELDS)
     \<and> fld row ''intent_id'' = JStr intent_id \<and> is_jstr (fld row ''state'') \<and> nonempty_str (fld row ''idempotency_key'')
     \<and> is_id (fld row ''plan_id'') \<and> str_sat SHA256_RE (fld row ''plan_hash'')
     \<and> int_at_least 1 (fld row ''leader_epoch'') \<and> int_at_least 1 (fld row ''fencing_token'')
     \<and> str_sat UTC_RE (fld row ''created_at'') \<and> intent_proof_fields_ok row)"

definition nonterminal_count :: "json \<Rightarrow> int" where
  "nonterminal_count intents = int (length (filter (\<lambda>(i, row). \<not> str_sat (\<lambda>s. s \<in> set TERMINAL_INTENT_STATES)
     (fld row ''state'')) (items intents)))"

definition v1_facts :: "json \<Rightarrow> json" where
  "v1_facts c =
     (let v1 = dset (dpop (dpop c ''execution_binding'') ''account_facts_sha256'') ''schema_version''
        (JStr ''web_bridge_execution_account_facts_v1'')
      in dset v1 ''account_facts_sha256'' (JStr (json_hash v1)))"

definition check_execution_binding :: "json \<Rightarrow> unit res" where
  "check_execution_binding b = checks
     [rguard (is_obj b \<and> keys_are b EXECUTION_BINDING_FIELDS)
        (bad_value ''execution account facts v2 binding is not exact''),
      strict_nonnegative_int (fld b ''state_version'') ''state_version'',
      strict_nonnegative_int (fld b ''nonterminal_send_intent_count'') ''nonterminal_send_intent_count'',
      strict_sha (fld b ''send_intents_sha256'') ''send_intents_sha256'',
      rguard (is_obj (fld b ''send_intents'') \<and> list_all intent_row_ok (items (fld b ''send_intents'')))
        (bad_value ''execution account facts v2 send intents are invalid'')]"

definition check_planner_ready :: "json \<Rightarrow> unit res" where
  "check_planner_ready c =
     (let b = fld c ''execution_binding''; status = fld c ''status_binding''; intents = fld b ''send_intents'';
          bad = bad_value ''execution account facts v2 are not planner-ready'' in checks
     [rguard (fld b ''state_version'' = fld status ''state_version'') bad,
      require_member (fld b ''plan_state'') [''IDLE'', ''TERMINAL''] bad,
      rguard (fld b ''send_intents_sha256'' = JStr (json_hash intents)
          \<and> fld b ''nonterminal_send_intent_count'' = JInt (nonterminal_count intents) \<and> nonterminal_count intents = 0
          \<and> fld status ''lifecycle'' = JStr ''READY'' \<and> fld c ''active_order_count'' = JInt 0
          \<and> items (fld c ''active_orders'') = []) bad])"

definition account_facts_v2_dto :: "json \<Rightarrow> json res" where
  "account_facts_v2_dto value =
     rbind (detached_object value ''execution account facts v2'') (\<lambda>c.
     rbind (checks
       [rguard (keys_are c (ACCOUNT_FACTS_FIELDS @ [''execution_binding'']))
          (bad_value ''execution account facts v2 fields are not exact''),
        rguard (fld c ''schema_version'' = JStr ''web_bridge_execution_account_facts_v2'')
          (bad_value ''execution account facts v2 identity is invalid''),
        just (account_facts_dto (v1_facts c)),
        check_execution_binding (fld c ''execution_binding''),
        check_planner_ready c,
        rguard (hash_closes c ''account_facts_sha256'')
          (bad_value ''execution account facts v2 projection hash does not close'')]) (\<lambda>_. Inr c))"

section \<open>Reconciliation snapshots\<close>

definition RECONCILIATION_SNAPSHOT_FIELDS :: "string list" where
  "RECONCILIATION_SNAPSHOT_FIELDS = [''schema_version'', ''service'', ''service_version'', ''account_scope'',
     ''environment'', ''snapshot_id'', ''generation'', ''observed_at'', ''connected'', ''fresh'',
     ''position_snapshot_hash'', ''positions'', ''active_order_count'', ''active_orders_sha256'', ''active_orders'',
     ''state_binding'', ''production_allowed'', ''live_trading_authorized'', ''countable_forward'',
     ''official_forward_claimed'', ''reconciliation_snapshot_sha256'']"

definition STATE_BINDING_FIELDS :: "string list" where
  "STATE_BINDING_FIELDS = [''state_version'', ''durable_broker_generation'', ''lifecycle'', ''reconciliation'']"

definition LIFECYCLE_VALUES :: "string list" where
  "LIFECYCLE_VALUES = [''STARTING'', ''READY'', ''DEGRADED'', ''DRAINING'', ''HALTED_RECONCILE_REQUIRED'',
     ''HALTED_UNKNOWN_OUTCOME'', ''STOPPING'']"

definition RECONCILIATION_STATE_VALUES :: "string list" where
  "RECONCILIATION_STATE_VALUES = [''NOT_REQUIRED'', ''REQUIRED'', ''IN_PROGRESS'', ''RECONCILED'', ''UNKNOWN'']"

definition SNAPSHOT_FLAGS :: "string list" where
  "SNAPSHOT_FLAGS = [''production_allowed'', ''live_trading_authorized'', ''countable_forward'',
     ''official_forward_claimed'']"

definition check_state_binding :: "json \<Rightarrow> unit res" where
  "check_state_binding b =
     rguard (is_obj b \<and> keys_are b STATE_BINDING_FIELDS
         \<and> str_sat (\<lambda>s. s \<in> set LIFECYCLE_VALUES) (fld b ''lifecycle'') \<and> is_obj (fld b ''reconciliation'')
         \<and> keys_are (fld b ''reconciliation'') RECONCILIATION_FIELDS)
       (bad_value ''execution reconciliation state binding is not exact'')"

definition check_bound_reconciliation :: "json \<Rightarrow> unit res" where
  "check_bound_reconciliation r =
     (let bad = bad_value ''execution reconciliation state binding is invalid'' in checks
     [require_member (fld r ''state'') RECONCILIATION_STATE_VALUES bad,
      rguard (is_id (fld r ''run_id'') \<and> is_id (fld r ''fresh_snapshot_id'')) bad,
      just (strict_utc (fld r ''last_completed_at'') ''last_completed_at''),
      strict_nonnegative_int (fld r ''unknown_outcomes'') ''unknown_outcomes''])"

definition snapshot_current :: "int \<Rightarrow> int \<Rightarrow> bool" where
  "snapshot_current now observed \<longleftrightarrow>
     observed - now \<le> FUTURE_SKEW_SECONDS * 1000000 \<and> now - observed \<le> SNAPSHOT_STALE_SECONDS * 1000000"

definition check_reconciliation_snapshot :: "int \<Rightarrow> json \<Rightarrow> unit res" where
  "check_reconciliation_snapshot now c =
     (let b = fld c ''state_binding'' in
      rbind (checks
        [rguard (keys_are c RECONCILIATION_SNAPSHOT_FIELDS)
           (bad_value ''execution reconciliation snapshot fields are not exact''),
         rguard (observed_identity c ''web_bridge_execution_reconciliation_snapshot_v1''
             \<and> list_all (\<lambda>f. fld c f = JBool False) SNAPSHOT_FLAGS)
           (bad_value ''execution reconciliation snapshot identity is invalid''),
         strict_nonnegative_int (fld c ''generation'') ''generation'',
         strict_nonnegative_int (fld c ''active_order_count'') ''active_order_count'']) (\<lambda>_.
      rbind (strict_utc (fld c ''observed_at'') ''observed_at'') (\<lambda>observed.
      checks
        [rguard (snapshot_current now observed)
           (bad_value ''execution reconciliation snapshot timestamp is stale''),
         rall (\<lambda>f. strict_sha (fld c f) f)
           [''position_snapshot_hash'', ''active_orders_sha256'', ''reconciliation_snapshot_sha256''],
         rguard (fact_rows c) (bad_value ''execution reconciliation snapshot rows are invalid''),
         rguard (order_count_closes c \<and> positions_close c \<and> orders_close c)
           (bad_value ''execution reconciliation snapshot facts do not close''),
         check_state_binding b,
         strict_nonnegative_int (fld b ''state_version'') ''state_version'',
         strict_nonnegative_int (fld b ''durable_broker_generation'') ''durable_broker_generation'',
         rguard (the_int (fld b ''durable_broker_generation'') \<le> the_int (fld c ''generation''))
           (bad_value ''execution reconciliation snapshot generation regressed''),
         check_bound_reconciliation (fld b ''reconciliation''),
         rguard (hash_closes c ''reconciliation_snapshot_sha256'')
           (bad_value ''execution reconciliation snapshot hash does not close'')])))"

definition reconciliation_snapshot_dto :: "int \<Rightarrow> json \<Rightarrow> json res" where
  "reconciliation_snapshot_dto now value =
     rbind (detached_object value ''execution reconciliation snapshot'') (\<lambda>c.
     rbind (check_reconciliation_snapshot now c) (\<lambda>_. Inr c))"

section \<open>Resuming an active plan\<close>

definition RESUME_REQUEST_FIELDS :: "string list" where
  "RESUME_REQUEST_FIELDS = [''schema_version'', ''plan_id'', ''plan_hash'', ''leader_token'', ''reconciliation_snapshot'']"

definition resume_request :: "int \<Rightarrow> json \<Rightarrow> json res" where
  "resume_request now value =
     rbind (detached_object value ''execution active plan resume'') (\<lambda>c.
     rbind (checks
       [rguard (keys_are c RESUME_REQUEST_FIELDS) (bad_value ''execution active plan resume fields are not exact''),
        rguard (fld c ''schema_version'' = JStr ''web_bridge_execution_active_plan_resume_request_v1''
            \<and> is_id (fld c ''plan_id''))
          (bad_value ''execution active plan resume identity is invalid''),
        strict_sha (fld c ''plan_hash'') ''plan_hash'']) (\<lambda>_.
     rbind (leader_token_projection (fld c ''leader_token'')) (\<lambda>leader.
     rbind (reconciliation_snapshot_dto now (fld c ''reconciliation_snapshot'')) (\<lambda>snapshot.
     Inr (dset (dset c ''leader_token'' leader) ''reconciliation_snapshot'' snapshot)))))"

definition RESUME_FIELDS :: "string list" where
  "RESUME_FIELDS = [''schema_version'', ''plan_id'', ''plan_hash'', ''state'', ''expected_intent_count'',
     ''terminal_intent_count'', ''queried_intent_count'', ''new_intent_count'', ''reused_intent_count'', ''intents'',
     ''production_allowed'', ''live_trading_authorized'', ''countable_forward'', ''resume_sha256'']"

definition RESUME_ACTIONS :: "string list" where
  "RESUME_ACTIONS = [''TERMINAL_REUSED'', ''REUSED'', ''QUERY_ONLY'', ''FIRST_SEND'']"

definition check_resume_row :: "json \<Rightarrow> unit res" where
  "check_resume_row row =
     (let bad = bad_value ''execution active plan resume intents are invalid'' in checks
     [rguard (is_obj row \<and> keys_are row [''intent_id'', ''state'', ''resume_action''] \<and> is_id (fld row ''intent_id'')) bad,
      require_member (fld row ''state'') RESUMABLE_INTENT_STATES bad,
      require_member (fld row ''resume_action'') RESUME_ACTIONS bad])"

definition rows_where :: "string \<Rightarrow> string list \<Rightarrow> json list \<Rightarrow> int" where
  "rows_where field values rows = int (length (filter (\<lambda>row. str_sat (\<lambda>s. s \<in> set values) (fld row field)) rows))"

definition resume_counts_close :: "json \<Rightarrow> bool" where
  "resume_counts_close c \<longleftrightarrow>
     (let rows = jarr (fld c ''intents''); expected = the_int (fld c ''expected_intent_count'');
          terminal = rows_where ''state'' TERMINAL_INTENT_STATES rows; new = rows_where ''resume_action'' [''FIRST_SEND''] rows in
      1 \<le> expected \<and> int (length rows) = expected \<and> distinct (map (\<lambda>row. fld row ''intent_id'') rows)
      \<and> fld c ''terminal_intent_count'' = JInt terminal
      \<and> fld c ''queried_intent_count'' = JInt (rows_where ''resume_action'' [''QUERY_ONLY''] rows)
      \<and> fld c ''new_intent_count'' = JInt new \<and> fld c ''reused_intent_count'' = JInt (expected - new)
      \<and> (fld c ''state'' = JStr ''TERMINAL'' \<longleftrightarrow> terminal = expected))"

definition resume_projection :: "json \<Rightarrow> json res" where
  "resume_projection value =
     (let identity = bad_value ''execution active plan resume result identity is invalid'';
          rows_bad = bad_value ''execution active plan resume intents are invalid'' in
      rbind (detached_object value ''execution active plan resume result'') (\<lambda>c.
      rbind (checks
        [rguard (keys_are c RESUME_FIELDS) (bad_value ''execution active plan resume result fields are not exact''),
         rguard (fld c ''schema_version'' = JStr ''web_bridge_execution_active_plan_resume_v1'') identity,
         require_member (fld c ''state'') [''ACTIVE'', ''TERMINAL''] identity,
         rguard (is_id (fld c ''plan_id'')
             \<and> list_all (\<lambda>f. fld c f = JBool False) [''production_allowed'', ''live_trading_authorized'', ''countable_forward''])
           identity,
         rall (\<lambda>f. strict_sha (fld c f) f) [''plan_hash'', ''resume_sha256''],
         rall (\<lambda>f. strict_nonnegative_int (fld c f) f) [''expected_intent_count'', ''terminal_intent_count'',
           ''queried_intent_count'', ''new_intent_count'', ''reused_intent_count''],
         rguard (is_jarr (fld c ''intents'')) rows_bad,
         rall check_resume_row (jarr (fld c ''intents'')),
         rguard (resume_counts_close c) (bad_value ''execution active plan resume counts do not close''),
         rguard (hash_closes c ''resume_sha256'')
           (bad_value ''execution active plan resume hash does not close'')]) (\<lambda>_. Inr c)))"

end
