(* ===== verification/Runtime_Resume.thy ===== *)
theory Runtime_Resume
  imports Runtime_Start Resume_Projections
begin

text \<open>
  \<open>FinalExecutionRuntime.resume_active_plan\<close>: the deterministic intents of the active plan are looked at
  again. One that exists is reused or queried, never sent; only one that does not exist takes the
  first-send path, and only from a snapshot that closes exactly with the document.
\<close>

record resume_ctx =
  rc_plan :: target_plan
  rc_epoch :: int
  rc_fence :: int
  rc_token :: json
  rc_snapshot :: json
  rc_bindings :: "send_binding list"

definition expected_ids :: "resume_ctx \<Rightarrow> string list" where
  "expected_ids x = map sb_intent_id (rc_bindings x)"

definition resume_admission :: "('g, 'p) renv \<Rightarrow> resume_ctx \<Rightarrow> ('g, 'p, unit) rop" where
  "resume_admission e x =
     abind (core (admission (re_core e) (Some (rc_epoch x)) (Some (rc_fence x)) (TokenMap (rc_token x)) None))
       (\<lambda>_. aret ())"

definition resume_boundary :: "('g, 'p) renv \<Rightarrow> resume_ctx \<Rightarrow> json \<Rightarrow> unit res" where
  "resume_boundary e x state =
     require_active_resume_boundary state (rc_plan x) (rc_snapshot x) (rt_scope e) (rt_environment e)"

definition finalization_matches :: "resume_ctx \<Rightarrow> json option \<Rightarrow> bool" where
  "finalization_matches x evidence =
     (case evidence of None \<Rightarrow> False
      | Some ev \<Rightarrow> fld ev ''plan_id'' = JStr (tp_plan_id (rc_plan x)) \<and> fld ev ''plan_hash'' = JStr (tp_plan_hash (rc_plan x))
          \<and> map (\<lambda>row. fld row ''intent_id'') (jarr (fld ev ''expected_send_intent_bindings''))
            = map JStr (expected_ids x))"

definition missing_bindings :: "resume_ctx \<Rightarrow> resumed \<Rightarrow> send_binding list" where
  "missing_bindings x existing =
     filter (\<lambda>b. map_of existing (sb_intent_id b) = Some None) (rc_bindings x)"

definition same_missing :: "resume_ctx \<Rightarrow> resumed \<Rightarrow> send_binding list \<Rightarrow> bool" where
  "same_missing x existing missing \<longleftrightarrow>
     set (map sb_intent_id (missing_bindings x existing)) = set (map sb_intent_id missing)"

text \<open>What has to hold, whenever it is asked again, before a missing intent may be sent.\<close>

definition first_send_gate ::
  "('g, 'p) renv \<Rightarrow> resume_ctx \<Rightarrow> send_binding list \<Rightarrow> string \<Rightarrow> json \<Rightarrow> unit res" where
  "first_send_gate e x missing changed state =
     rbind (resume_boundary e x state) (\<lambda>_.
     rbind (classify_active_plan_intents state (rc_plan x) (rc_bindings x)) (\<lambda>existing. checks
       [rguard (same_missing x existing missing) (plan_rejected changed),
        require_snapshot_state_compatibility state (rc_snapshot x) (expected_ids x) True,
        require_first_send_snapshot_closure state (rc_snapshot x)]))"

section \<open>Before anything is touched\<close>

definition initial_gate :: "('g, 'p) renv \<Rightarrow> resume_ctx \<Rightarrow> json \<Rightarrow> resumed \<Rightarrow> send_binding list res" where
  "initial_gate e x state existing =
     (let missing = missing_bindings x existing in
      rbind (checks
        [require_snapshot_order_ownership (rc_snapshot x) existing,
         require_snapshot_state_compatibility state (rc_snapshot x) (expected_ids x) (missing \<noteq> []),
         rguard (\<not> (missing \<noteq> [] \<and> fld (tp_raw (rc_plan x)) ''schema_version'' = JStr KEYLESS_V2))
           (plan_rejected ''TargetPlan v2 missing intent has no formal quote proof; first send is blocked''),
         if missing \<noteq> [] then require_first_send_snapshot_closure state (rc_snapshot x) else Inr ()]) (\<lambda>_.
      Inr missing))"

text \<open>The fresh quotes of the missing children are read before any existing child is queried.\<close>

definition missing_quote_proof ::
  "('g, 'p) renv \<Rightarrow> resume_ctx \<Rightarrow> send_binding list \<Rightarrow> ('g, 'p, json option) rop" where
  "missing_quote_proof e x missing =
     (if missing = [] \<or> \<not> is_v3 (tp_raw (rc_plan x)) then aret None
      else abind (fresh_start_quote_proof e (rc_plan x) (map sb_order_ref missing)) (\<lambda>q.
        abind (rt_state e) (\<lambda>state.
        abind (alift (first_send_gate e x missing ''deterministic intent set changed during fresh quote read'' state)) (\<lambda>_.
        aret (Some q)))))"

section \<open>The existing children\<close>

record resumed_row =
  rr_intent_id :: string
  rr_action :: string
  rr_state :: string

definition require_current_active :: "('g, 'p) renv \<Rightarrow> resume_ctx \<Rightarrow> ('g, 'p, unit) rop" where
  "require_current_active e x =
     abind (rt_state e) (\<lambda>current.
     let active = get_or current ''plan'' (JObj []) in
     abind (aguard (fld active ''state'' = JStr ''ACTIVE'' \<and> fld active ''plan_id'' = JStr (tp_plan_id (rc_plan x))
         \<and> fld active ''plan_hash'' = JStr (tp_plan_hash (rc_plan x)))
       (plan_rejected ''ACTIVE target plan changed during resume'')) (\<lambda>_.
     resume_admission e x))"

definition queried_state :: "json \<Rightarrow> string" where
  "queried_state result =
     (let s = state_upper result ''UNKNOWN_OUTCOME''
      in if s \<in> {''UNKNOWN'', ''UNKNOWN_OUTCOME'', ''''} then ''UNKNOWN_OUTCOME'' else s)"

definition QUERIED_STATES :: "string list" where
  "QUERIED_STATES = [''PERSISTED'', ''SUBMITTED'', ''UNKNOWN_OUTCOME'']"

definition resume_existing :: "('g, 'p) renv \<Rightarrow> resume_ctx \<Rightarrow> string \<Rightarrow> json \<Rightarrow> ('g, 'p, resumed_row) rop" where
  "resume_existing e x intent_id raw =
     abind (require_current_active e x) (\<lambda>_.
     let state = py_str (fld raw ''state'') in
     if state \<in> set TERMINAL_INTENT_STATES
     then aret \<lparr>rr_intent_id = intent_id, rr_action = ''TERMINAL_REUSED'', rr_state = state\<rparr>
     else if state \<in> set QUERIED_STATES
     then abind (core (query_intent (re_core e) intent_id)) (\<lambda>result.
       aret \<lparr>rr_intent_id = intent_id, rr_action = ''QUERY_ONLY'', rr_state = queried_state result\<rparr>)
     else aret \<lparr>rr_intent_id = intent_id, rr_action = ''REUSED'', rr_state = state\<rparr>)"

fun resume_all_existing ::
  "('g, 'p) renv \<Rightarrow> resume_ctx \<Rightarrow> resumed \<Rightarrow> send_binding list \<Rightarrow> ('g, 'p, resumed_row list) rop" where
  "resume_all_existing e x existing [] = aret []"
| "resume_all_existing e x existing (b # bs) =
     (case map_of existing (sb_intent_id b) of
        Some (Some raw) \<Rightarrow> abind (resume_existing e x (sb_intent_id b) raw) (\<lambda>row.
          abind (resume_all_existing e x existing bs) (\<lambda>rows. aret (row # rows)))
      | _ \<Rightarrow> resume_all_existing e x existing bs)"

section \<open>The missing children\<close>

definition first_send :: "('g, 'p) renv \<Rightarrow> resume_ctx \<Rightarrow> json option \<Rightarrow> send_binding \<Rightarrow> ('g, 'p, resumed_row) rop" where
  "first_send e x q b =
     abind (require_current_active e x) (\<lambda>_.
     abind (send_plan_order e (tp_plan_id (rc_plan x)) (sb_order_ref b) (TokenMap (rc_token x)) q) (\<lambda>result.
     aret \<lparr>rr_intent_id = sb_intent_id b, rr_action = ''FIRST_SEND'', rr_state = str_or result ''state'' ''''\<rparr>))"

definition send_missing ::
  "('g, 'p) renv \<Rightarrow> resume_ctx \<Rightarrow> json option \<Rightarrow> send_binding list \<Rightarrow> resumed_row list \<Rightarrow> ('g, 'p, resumed_row list) rop" where
  "send_missing e x q missing done =
     (if missing = [] then aret done
      else if list_ex (\<lambda>r. rr_action r = ''QUERY_ONLY'') done
      then athrow (Exn ActiveResumeFreshSnapshotRequired
        ''existing intent query advanced durable state; obtain a fresh reconciliation snapshot'')
      else abind (rt_state e) (\<lambda>state.
        abind (alift (first_send_gate e x missing ''deterministic intent set changed before first send'' state)) (\<lambda>_.
        abind (amap (first_send e x q) missing) (\<lambda>sent. aret (done @ sent)))))"

section \<open>The answer\<close>

definition resume_row_json :: "resumed_row list \<Rightarrow> string \<Rightarrow> json option \<Rightarrow> json res" where
  "resume_row_json rows intent_id final =
     (case final of None \<Rightarrow> Inl (plan_rejected ''deterministic send intent disappeared during resume'')
      | Some raw \<Rightarrow>
          (let durable = py_str (fld raw ''state'') in
           case find (\<lambda>r. rr_intent_id r = intent_id) rows of None \<Rightarrow> raise PyKeyError intent_id
           | Some r \<Rightarrow> Inr (JObj [(''intent_id'', JStr intent_id),
               (''state'', JStr (if durable \<in> set TERMINAL_INTENT_STATES then durable else rr_state r)),
               (''resume_action'', JStr (rr_action r))])))"

definition resume_result :: "resume_ctx \<Rightarrow> resumed_row list \<Rightarrow> json list \<Rightarrow> json res" where
  "resume_result x done rows =
     (let terminal = rows_where ''state'' TERMINAL_INTENT_STATES rows; total = int (length (rc_bindings x));
          with_action = (\<lambda>p. int (length (filter (\<lambda>r. p (rr_action r)) done)));
          preimage = JObj
            [(''schema_version'', JStr ''web_bridge_execution_active_plan_resume_v1''),
             (''plan_id'', JStr (tp_plan_id (rc_plan x))), (''plan_hash'', JStr (tp_plan_hash (rc_plan x))),
             (''state'', JStr (if terminal = total then ''TERMINAL'' else ''ACTIVE'')),
             (''expected_intent_count'', JInt total), (''terminal_intent_count'', JInt terminal),
             (''queried_intent_count'', JInt (with_action (\<lambda>a. a = ''QUERY_ONLY''))),
             (''new_intent_count'', JInt (with_action (\<lambda>a. a = ''FIRST_SEND''))),
             (''reused_intent_count'', JInt (with_action (\<lambda>a. a \<noteq> ''FIRST_SEND''))),
             (''intents'', JArr rows), (''production_allowed'', JBool False), (''live_trading_authorized'', JBool False),
             (''countable_forward'', JBool False)]
      in resume_projection (dset preimage ''resume_sha256'' (JStr (json_hash preimage))))"

definition finish_resume :: "('g, 'p) renv \<Rightarrow> resume_ctx \<Rightarrow> resumed_row list \<Rightarrow> ('g, 'p, json) rop" where
  "finish_resume e x done =
     abind (rt_state e) (\<lambda>state. alift
       (rbind (classify_active_plan_intents state (rc_plan x) (rc_bindings x)) (\<lambda>final.
        rbind (rmap (\<lambda>b. resume_row_json done (sb_intent_id b)
          (case map_of final (sb_intent_id b) of Some r \<Rightarrow> r | None \<Rightarrow> None)) (rc_bindings x)) (\<lambda>rows.
        resume_result x done rows))))"

section \<open>The whole call\<close>

definition resume_children :: "('g, 'p) renv \<Rightarrow> resume_ctx \<Rightarrow> json \<Rightarrow> ('g, 'p, json) rop" where
  "resume_children e x state =
     abind (alift (classify_active_plan_intents state (rc_plan x) (rc_bindings x))) (\<lambda>existing.
     abind (alift (initial_gate e x state existing)) (\<lambda>missing.
     abind (missing_quote_proof e x missing) (\<lambda>q.
     abind (resume_all_existing e x existing (rc_bindings x)) (\<lambda>rows.
     abind (send_missing e x q missing rows) (\<lambda>done.
     finish_resume e x done)))))"

definition resume_active_plan :: "('g, 'p) renv \<Rightarrow> json \<Rightarrow> ('g, 'p, json) rop" where
  "resume_active_plan e request =
     abind (rt_now e) (\<lambda>now.
     abind (alift (resume_request now request)) (\<lambda>parsed.
     let leader = fld parsed ''leader_token'' in
     abind (installed_plan e (fld parsed ''plan_id'') (Some (the_str (fld parsed ''plan_hash'')))) (\<lambda>p.
     abind (aguard (fld leader ''scope'' = JStr (rt_scope e))
       (plan_rejected ''resume leader token scope mismatches Execution'')) (\<lambda>_.
     let x0 = \<lparr>rc_plan = p, rc_epoch = the_int (fld leader ''epoch''), rc_fence = the_int (fld leader ''fencing_token''),
       rc_token = leader_token_dict leader, rc_snapshot = fld parsed ''reconciliation_snapshot'', rc_bindings = []\<rparr> in
     abind (resume_admission e x0) (\<lambda>_.
     abind (rt_state e) (\<lambda>state.
     abind (alift (resume_boundary e x0 state)) (\<lambda>_.
     abind (alift (runtime_bindings e p)) (\<lambda>bindings.
     let x = x0\<lparr>rc_bindings := bindings\<rparr> in
     abind (finalization_evidence e) (\<lambda>evidence.
     abind (aguard (finalization_matches x evidence)
       (plan_rejected ''ACTIVE target plan lacks exact immutable custody binding'')) (\<lambda>_.
     resume_children e x state))))))))))"

end
