(* ===== verification/Runtime_Frame.thy ===== *)
theory Runtime_Frame
  imports Runtime_Resume Order_Properties
begin

text \<open>
  What the operations of the runtime leave alone: everything but sending and cancelling reads the
  orchestrator's world without touching its gateway or its token, and a send is one order mutation.
\<close>

section \<open>Observing the orchestrator through the runtime\<close>

abbreviation of_world :: "('g world \<Rightarrow> 'x) \<Rightarrow> ('g, 'p) runtime \<Rightarrow> 'x" where
  "of_world p \<equiv> \<lambda>s. p (rt_world s)"

lemma core_cases:
  assumes "core m s = (r, t)"
  obtains w where "m (rt_world s) = (r, w)" "t = s\<lparr>rt_world := w\<rparr>"
  using assms by (auto simp: core_def split: prod.splits)

lemma leaves_core [leaves_rules]: "leaves p m \<Longrightarrow> leaves (of_world p) (core m)"
  by (rule leavesI) (auto elim!: core_cases dest: leavesD)

lemma leaves_stored [leaves_rules]: "leaves (of_world p) (stored m)"
  by (simp add: leaves_def stored_def split: prod.splits)

lemma leaves_ask [leaves_rules]: "tick_blind p \<Longrightarrow> leaves (of_world p) (ask f)"
  unfolding ask_def by (intro leaves_rules)

text \<open>Observations that reading the document, the clocks and the lease do not change.\<close>

definition outside :: "('g world \<Rightarrow> 'x) \<Rightarrow> bool" where
  "outside p \<longleftrightarrow> repo_blind p \<and> fence_blind p"

lemma outsideD: "outside p \<Longrightarrow> repo_blind p" "outside p \<Longrightarrow> fence_blind p" "outside p \<Longrightarrow> tick_blind p"
  by (simp_all add: outside_def repo_blind_tick)

lemma leaves_runtime_reads [leaves_rules]:
  assumes "outside p"
  shows "leaves (of_world p) (rt_now e)" "leaves (of_world p) (rt_state e)"
  unfolding rt_now_def rt_state_def by (intro leaves_rules outsideD [OF assms])+

lemma leaves_admission: "outside p \<Longrightarrow> leaves p (admission e n k t now)" "outside p \<Longrightarrow> leaves p (validate_token e t now)"
  unfolding admission_def validate_token_def own_token_def
  by (auto intro!: leaves_rules dest: outsideD split: option.splits)

lemma leaves_status: "outside p \<Longrightarrow> leaves p (status e now)"
  unfolding status_def by (intro leaves_rules outsideD)

lemma leaves_token_read: "leaves (of_world p) (core (aget f))"
  by (intro leaves_rules)

section \<open>Reading operations\<close>

lemma leaves_custody [leaves_rules]:
  assumes "outside p"
  shows "leaves (of_world p) (custody_receipt_call e i)" "leaves (of_world p) (artifact_call e i)"
    "leaves (of_world p) (receipt_for e q)" "leaves (of_world p) (plan_from_value e q)"
    "leaves (of_world p) (check_custody_expiry e b r)"
proof -
  show c: "leaves (of_world p) (custody_receipt_call e i)" for i
    unfolding custody_receipt_call_def by (intro leaves_rules outsideD [OF assms])
  show "leaves (of_world p) (artifact_call e i)"
    unfolding artifact_call_def by (intro leaves_rules outsideD [OF assms])
  show "leaves (of_world p) (check_custody_expiry e b r)"
    unfolding check_custody_expiry_def by (intro leaves_rules assms)
  have f: "leaves (of_world p) (receipt_for e q)" for q
    unfolding receipt_for_def Let_def by (intro leaves_rules c assms)
  then show "leaves (of_world p) (receipt_for e q)" .
  show "leaves (of_world p) (plan_from_value e q)"
    unfolding plan_from_value_def by (intro leaves_rules f)
qed

lemma leaves_plans [leaves_rules]:
  assumes "outside p"
  shows "leaves (of_world p) (target_plan_from_custody_receipt e raw b)" "leaves (of_world p) (preview_from_custody e i b)"
    "leaves (of_world p) (installed_plan e v h)" "leaves (of_world p) (install_target_plan e v)"
  unfolding preview_from_custody_def target_plan_from_custody_receipt_def installed_plan_def install_target_plan_def
  by (intro leaves_rules assms)+

lemma leaves_prepare_plan_send [leaves_rules]:
  assumes "outside p"
  shows "leaves (of_world p) (prepare_plan_send e i ref t proof')"
  unfolding prepare_plan_send_def by (intro leaves_rules leaves_status assms)

lemma leaves_proofs [leaves_rules]:
  assumes "outside p"
  shows "leaves (of_world p) (fresh_start_quote_proof e q refs)" "leaves (of_world p) (persisted_start_quote_proof e c q)"
    "leaves (of_world p) (persisted_start_quote_proof_for_plan e q)"
    "leaves (of_world p) (proof_for_missing e q b o' bs)"
  unfolding fresh_start_quote_proof_def persisted_start_quote_proof_def persisted_start_quote_proof_for_plan_def
    proof_for_missing_def Let_def
  by (intro leaves_rules outsideD [OF assms] assms)+

lemma leaves_evidence [leaves_rules]:
  assumes "outside p"
  shows "leaves (of_world p) (finalization_evidence e)" "leaves (of_world p) (trading_day_rollover_evidence e)"
    "leaves (of_world p) (expired_revoked_rollover_recovery e ro)" "leaves (of_world p) (reconcile_evidence e)"
    "leaves (of_world p) (enable_bound e c)" "leaves (of_world p) (prove_start e c q)"
    "leaves (of_world p) (renewed_token e k n)"
proof -
  have "leaves (of_world p) (v3_evidence e q st bs b)" for q st bs b
    unfolding v3_evidence_def by (intro leaves_rules assms)
  then show f: "leaves (of_world p) (finalization_evidence e)"
    unfolding finalization_evidence_def Let_def by (intro leaves_rules assms)
  show r: "leaves (of_world p) (trading_day_rollover_evidence e)"
    unfolding trading_day_rollover_evidence_def Let_def by (intro leaves_rules assms)
  have x: "leaves (of_world p) (expired_revoked_rollover_recovery e ro)" for ro
    unfolding expired_revoked_rollover_recovery_def Let_def by (intro leaves_rules assms)
  then show "leaves (of_world p) (expired_revoked_rollover_recovery e ro)" .
  show "leaves (of_world p) (reconcile_evidence e)"
    unfolding reconcile_evidence_def by (intro leaves_rules f r x)
  show "leaves (of_world p) (enable_bound e c)"
    unfolding enable_bound_def by (intro leaves_rules assms)
  have "leaves (of_world p) (start_fence e c)"
    unfolding start_fence_def by (intro leaves_rules leaves_admission assms)
  then show "leaves (of_world p) (prove_start e c q)"
    unfolding prove_start_def by (intro leaves_rules assms)
  show "leaves (of_world p) (renewed_token e k n)"
    unfolding renewed_token_def Let_def by (intro leaves_rules leaves_admission assms)
qed

lemma leaves_resume_reads [leaves_rules]:
  assumes "outside p"
  shows "leaves (of_world p) (resume_admission e x)" "leaves (of_world p) (require_current_active e x)"
    "leaves (of_world p) (missing_quote_proof e x bs)" "leaves (of_world p) (finish_resume e x rows)"
proof -
  show a: "leaves (of_world p) (resume_admission e x)" for x
    unfolding resume_admission_def by (intro leaves_rules leaves_admission assms)
  show "leaves (of_world p) (require_current_active e x)" "leaves (of_world p) (missing_quote_proof e x bs)"
    "leaves (of_world p) (finish_resume e x rows)"
    unfolding require_current_active_def missing_quote_proof_def finish_resume_def Let_def
    by (intro leaves_rules a assms)+
qed

text \<open>Existing children are read and queried only.\<close>

lemma leaves_existing [leaves_rules]:
  assumes "outside p" and "reads_only (re_core e) p"
  shows "leaves (of_world p) (resume_existing e x i raw)" "leaves (of_world p) (resume_all_existing e x existing bs)"
proof -
  show r: "leaves (of_world p) (resume_existing e x i raw)" for i raw
    unfolding resume_existing_def Let_def by (intro leaves_rules leaves_query_intent assms)
  show "leaves (of_world p) (resume_all_existing e x existing bs)"
    by (induction bs) (simp_all only: resume_all_existing.simps, (intro leaves_rules r; assumption)+)
qed

end
