(* ===== verification/Runtime_Laws.thy ===== *)
theory Runtime_Laws
  imports Runtime_Frame
begin

text \<open>
  What a send of the runtime is: a plan that the contract accepts, one of its orders, and the order
  mutation under exactly the names that the plan alone determines.
\<close>

section \<open>The plan\<close>

lemma parsed_identity:
  assumes "target_plan_from_mapping n v = Inr p"
  shows "CONTRACT_ID_RE (tp_plan_id p)" "SHA256_RE (tp_plan_hash p)"
proof -
  obtain keyless raw0 raw scope where head: "check_plan_header keyless raw0 = Inr ()"
    and quo: "with_quote_proof raw0 (tp_orders p) = Inr raw" and p: "tp_raw p = dset raw ''scope'' scope"
    using assms by (auto simp: target_plan_from_mapping_def rbind_Inr_iff)
  have same: "fld (tp_raw p) f = fld raw0 f" if "f \<in> {''plan_id'', ''plan_hash''}" for f
    using quo that unfolding p by (auto simp: with_quote_proof_def rbind_Inr_iff Let_def fld_dset split: if_splits)
  have "each_field contract_id raw0 ''target plan '' [''plan_id''] = Inr ()"
      "each_field contract_sha raw0 ''target plan '' [''plan_hash''] = Inr ()"
    using head by (auto simp: check_plan_header_def each_field_def rbind_Inr_iff split: if_splits)
  then show "CONTRACT_ID_RE (tp_plan_id p)" "SHA256_RE (tp_plan_hash p)"
    by (auto simp: tp_plan_id_def tp_plan_hash_def same each_field_def just_def rbind_Inr_iff contract_id_def contract_sha_def
        py_str_def dest!: str_satE split: if_splits)
qed

lemma installed_plan_Inr:
  assumes "installed_plan e i h s = (Inr p, t)"
  shows "\<exists>v. target_plan_from_mapping (re_max_order_volume e) v = Inr p"
    and "fld (tp_raw p) ''account_scope'' = JStr (rt_scope e)" and "fld (tp_raw p) ''environment'' = JStr ''SIMNOW''"
proof -
  obtain p0 s1 s2 where r: "reparsed e p0 = Inr p" and v: "plan_from_value e p s1 = (Inr (), s2)"
    using assms by (auto simp: installed_plan_def abind_Inr_iff split: option.splits)
  show "\<exists>v. target_plan_from_mapping (re_max_order_volume e) v = Inr p"
    using r by (auto simp: reparsed_def reraise_def rbind_Inr_iff rcatch_Inr_iff split: if_splits)
  show "fld (tp_raw p) ''account_scope'' = JStr (rt_scope e)" "fld (tp_raw p) ''environment'' = JStr ''SIMNOW''"
    using v by (auto simp: plan_from_value_def abind_Inr_iff aguard_def split: if_splits)
qed

lemma tp_order_Inr:
  assumes "tp_order p (JStr ref) = Inr o'"
  shows "o' \<in> set (tp_orders p) \<and> to_reference o' = ref"
proof -
  obtain os where "filter (\<lambda>o'. to_reference o' = ref) (tp_orders p) = o' # os"
    using assms by (auto simp: tp_order_def contract_id_def contract_error_def raise_def split: list.splits if_splits)
  then show ?thesis by (auto dest: filter_eq_ConsD)
qed

section \<open>The names\<close>

lemma binding_of_Inr:
  assumes "runtime_bindings e p = Inr bs" and "binding_of bs ref = Inr b"
  shows "\<exists>o' \<in> set (tp_orders p). to_reference o' = ref \<and> send_binding_of p (rt_scope e) (rt_environment e) o' = Inr b"
proof -
  have "b \<in> set bs" "sb_order_ref b = ref"
    using assms(2) by (auto simp: binding_of_def raise_def find_Some_iff split: option.splits)
  moreover from this obtain o' where "o' \<in> set (tp_orders p)" "send_binding_of p (rt_scope e) (rt_environment e) o' = Inr b"
    using assms(1) rmap_Inr_all by (fastforce simp: runtime_bindings_def expected_send_intent_bindings_def)
  moreover from this have "to_reference o' = sb_order_ref b"
    by (auto simp: send_binding_of_def rbind_Inr_iff)
  ultimately show ?thesis by blast
qed

text \<open>The row of the deterministic table that a prepared order fills.\<close>

definition prepared_binding :: "string \<Rightarrow> prepared \<Rightarrow> send_binding" where
  "prepared_binding ref pr = \<lparr>sb_order_ref = ref, sb_intent_id = si_intent_id (pr_intent pr), sb_idempotency_key = pr_key pr,
     sb_request_hash = si_request_hash (pr_intent pr), sb_receipt_id = the_str (si_receipt_id (pr_intent pr)),
     sb_receipt_hash = the_str (si_receipt_hash (pr_intent pr))\<rparr>"

lemma prepared_names:
  assumes "prepare_order e ''send'' request key a s = (Inr (Inr pr), t)"
    and "oa_plan_id a = Some i" "oa_plan_hash a = Some h" "oa_intent_id a = Some n" "i \<noteq> []" "h \<noteq> []" "n \<noteq> []"
  shows "si_intent_id (pr_intent pr) = n" "pr_key pr = key" "si_request_hash (pr_intent pr) = json_hash (canon request)"
    "si_receipt_id (pr_intent pr) = JStr (''receipt-'' @ n)"
    "si_receipt_hash (pr_intent pr) = JStr (json_hash (receipt_preimage e n key i h (json_hash (canon request)) ''send''))"
    "si_plan_id (pr_intent pr) = i" "si_plan_hash (pr_intent pr) = h" "si_action (pr_intent pr) = ''send''"
proof -
  obtain now d rq u v where rq: "order_request ''send'' key request a = Inr rq"
    and i: "prepare_intent e ''send'' a rq now d u = (Inr pr, v)"
    using assms(1) by (auto simp: prepare_order_def abind_Inr_iff Let_def split: if_splits prod.splits)
  obtain key' detached h' quote_proof where rq_eq: "rq = (key', detached, h', quote_proof)" by (cases rq)
  note r = order_request_Inr [OF rq [unfolded rq_eq]]
  show "si_intent_id (pr_intent pr) = n" "pr_key pr = key" "si_request_hash (pr_intent pr) = json_hash (canon request)"
    "si_receipt_id (pr_intent pr) = JStr (''receipt-'' @ n)"
    "si_receipt_hash (pr_intent pr) = JStr (json_hash (receipt_preimage e n key i h (json_hash (canon request)) ''send''))"
    "si_plan_id (pr_intent pr) = i" "si_plan_hash (pr_intent pr) = h" "si_action (pr_intent pr) = ''send''"
    using i unfolding prepare_intent_def rq_eq r assms(2-4)
    by (auto simp: abind_Inr_iff Let_def intent_name_def text_or_def assms(5-7) validate_identifier_def sha256_json_Inr_iff
        raise_def split: if_splits)
qed

lemma seed_names: "send_intent_id p o' \<noteq> []" "send_key p o' \<noteq> []"
  by (simp_all add: send_intent_id_def send_key_def)

section \<open>The send\<close>

text \<open>A send that the runtime has decided: its plan, order, names, proof and fence.\<close>

definition decided_send :: "('g, 'p) renv \<Rightarrow> token_arg \<Rightarrow> json option \<Rightarrow> planned_send \<Rightarrow> bool" where
  "decided_send e t start_proof x \<longleftrightarrow>
     re_allow_simnow_execution e \<and> (\<exists>v. target_plan_from_mapping (re_max_order_volume e) v = Inr (ps_plan x))
     \<and> fld (tp_raw (ps_plan x)) ''account_scope'' = JStr (rt_scope e)
     \<and> fld (tp_raw (ps_plan x)) ''environment'' = JStr ''SIMNOW''
     \<and> ps_order x \<in> set (tp_orders (ps_plan x))
     \<and> send_binding_of (ps_plan x) (rt_scope e) (rt_environment e) (ps_order x) = Inr (ps_binding x)
     \<and> order_quote_proof (ps_plan x) (to_reference (ps_order x)) start_proof = Inr (ps_proof x)
     \<and> require_token t = Inr (ps_fence x)"

lemma binding_row:
  assumes "tp_order q (JStr ref) = Inr o'" and "rbind (runtime_bindings e q) (\<lambda>bs. binding_of bs (to_reference o')) = Inr b"
    and "target_plan_from_mapping n v = Inr q"
  shows "o' \<in> set (tp_orders q)" "to_reference o' = ref" "send_binding_of q (rt_scope e) (rt_environment e) o' = Inr b"
proof -
  show o': "o' \<in> set (tp_orders q)" "to_reference o' = ref" using tp_order_Inr [OF assms(1)] by simp_all
  obtain o'' where "o'' \<in> set (tp_orders q)" "to_reference o'' = to_reference o'"
      "send_binding_of q (rt_scope e) (rt_environment e) o'' = Inr b"
    using assms(2) binding_of_Inr by (fastforce simp: rbind_Inr_iff)
  moreover have "distinct (map to_reference (tp_orders q))"
    using assms(3) by (auto simp: target_plan_from_mapping_def rbind_Inr_iff check_plan_orders_def Let_def)
  ultimately show "send_binding_of q (rt_scope e) (rt_environment e) o' = Inr b"
    using o' by (metis inj_onD distinct_map)
qed

lemma prepare_plan_send_Inr:
  assumes "prepare_plan_send e i ref t start_proof s = (Inr x, s')"
  shows "decided_send e t start_proof x" "to_reference (ps_order x) = ref"
proof -
  obtain q s1 o' b where q: "installed_plan e (JStr i) None s = (Inr q, s1)" and o': "tp_order q (JStr ref) = Inr o'"
    and b: "rbind (runtime_bindings e q) (\<lambda>bs. binding_of bs (to_reference o')) = Inr b"
    and x: "re_allow_simnow_execution e" "ps_plan x = q" "ps_order x = o'" "ps_binding x = b"
      "order_quote_proof q (to_reference o') start_proof = Inr (ps_proof x)" "require_token t = Inr (ps_fence x)"
    using assms by (auto simp: prepare_plan_send_def abind_Inr_iff aguard_def split: if_splits)
  show "decided_send e t start_proof x" "to_reference (ps_order x) = ref"
    using installed_plan_Inr [OF q] binding_row [OF o' b] x by (auto simp: decided_send_def)
qed

lemma send_plan_order_changes:
  fixes s s' :: "('g, 'p) runtime"
  assumes "send_plan_order e i ref t start_proof s = (r, s')" and "outside p" and "p (rt_world s') \<noteq> p (rt_world s)"
  obtains x and s1 :: "('g, 'p) runtime" where "decided_send e t start_proof x" "to_reference (ps_order x) = ref" "p (rt_world s1) = p (rt_world s)"
    "submit_planned_order (re_core e) (order_as_dict (ps_order x)) (sb_idempotency_key (ps_binding x))
       (plan_args (ps_plan x) (ps_fence x) t (sb_intent_id (ps_binding x)) (ps_proof x)) (rt_world s1) = (r, rt_world s')"
proof (rule changed_after [where p = "of_world p"])
  show "abind (prepare_plan_send e i ref t start_proof) (\<lambda>x.
     core (submit_planned_order (re_core e) (order_as_dict (ps_order x)) (sb_idempotency_key (ps_binding x))
       (plan_args (ps_plan x) (ps_fence x) t (sb_intent_id (ps_binding x)) (ps_proof x)))) s = (r, s')"
    using assms(1) by (simp add: send_plan_order_def)
next
  fix x s1
  assume x: "prepare_plan_send e i ref t start_proof s = (Inr x, s1)" and w: "of_world p s1 = of_world p s"
    and c: "core (submit_planned_order (re_core e) (order_as_dict (ps_order x)) (sb_idempotency_key (ps_binding x))
       (plan_args (ps_plan x) (ps_fence x) t (sb_intent_id (ps_binding x)) (ps_proof x))) s1 = (r, s')"
  from c show thesis
    by (rule core_cases) (use that [OF prepare_plan_send_Inr [OF x], of s1] w in simp)
qed (intro leaves_rules assms(2), rule assms(3))

section \<open>The call\<close>

lemma sent_prepared:
  assumes "prepare_order (re_core e) ''send'' (order_as_dict (ps_order x)) (sb_idempotency_key (ps_binding x)) a s = (Inr (Inr p), t)"
    and "decided_send e k start_proof x" and "oa_plan_id a = Some (tp_plan_id (ps_plan x))"
    and "oa_plan_hash a = Some (tp_plan_hash (ps_plan x))" and "oa_intent_id a = Some (sb_intent_id (ps_binding x))"
  shows "prepared_binding (to_reference (ps_order x)) p = ps_binding x"
proof -
  obtain v where v: "target_plan_from_mapping (re_max_order_volume e) v = Inr (ps_plan x)"
    and b: "send_binding_of (ps_plan x) (rt_scope e) (rt_environment e) (ps_order x) = Inr (ps_binding x)"
    using assms(2) by (auto simp: decided_send_def)
  obtain h where h: "contract_sha256_json (order_as_dict (ps_order x)) = Inr h"
    and row: "ps_binding x = \<lparr>sb_order_ref = to_reference (ps_order x), sb_intent_id = send_intent_id (ps_plan x) (ps_order x),
       sb_idempotency_key = send_key (ps_plan x) (ps_order x),
       sb_request_hash = h, sb_receipt_id = ''receipt-'' @ send_intent_id (ps_plan x) (ps_order x),
       sb_receipt_hash = json_hash (send_receipt_preimage (ps_plan x) (rt_scope e) (rt_environment e) (ps_order x) h)\<rparr>"
    using b by (auto simp: send_binding_of_def rbind_Inr_iff)
  have ne: "tp_plan_id (ps_plan x) \<noteq> []" "tp_plan_hash (ps_plan x) \<noteq> []" "sb_intent_id (ps_binding x) \<noteq> []"
    using parsed_identity [OF v] by (auto simp: CONTRACT_ID_RE_def id_shape_def SHA256_RE_def row seed_names)
  have "h = json_hash (canon (order_as_dict (ps_order x)))"
    using h by (auto simp: contract_sha256_json_def contract_error_def raise_def split: if_splits)
  then show ?thesis
    using prepared_names [OF assms(1,3,4,5) ne]
    by (simp add: prepared_binding_def row receipt_preimage_def send_receipt_preimage_def rt_scope_def rt_environment_def)
qed

lemma send_plan_order_call:
  fixes s s' :: "('g, 'p) runtime"
  assumes "send_plan_order e i ref t start_proof s = (r, s')" and "w_gateway (rt_world s') \<noteq> w_gateway (rt_world s)"
  obtains x p before written latest now where "decided_send e t start_proof x" "to_reference (ps_order x) = ref"
    "pr_request p = canon (order_as_dict (ps_order x))" "prepared_binding ref p = ps_binding x"
    "intent_written (re_core e) ''send''
       (plan_args (ps_plan x) (ps_fence x) t (sb_intent_id (ps_binding x)) (ps_proof x)) p before written"
    "dispatch_admitted (re_core e) ''send''
       (plan_args (ps_plan x) (ps_fence x) t (sb_intent_id (ps_binding x)) (ps_proof x)) latest now"
    "w_gateway (rt_world s') = broker_call (re_core e) ''send'' p now (w_gateway (rt_world s))"
proof -
  have o: "outside w_gateway" by (simp add: outside_def)
  obtain x and s1 :: "('g, 'p) runtime" where x: "decided_send e t start_proof x" "to_reference (ps_order x) = ref"
    and w: "w_gateway (rt_world s1) = w_gateway (rt_world s)"
    and sub: "submit_planned_order (re_core e) (order_as_dict (ps_order x)) (sb_idempotency_key (ps_binding x))
       (plan_args (ps_plan x) (ps_fence x) t (sb_intent_id (ps_binding x)) (ps_proof x)) (rt_world s1) = (r, rt_world s')"
    by (rule send_plan_order_changes [OF assms(1) o assms(2)])
  let ?a = "plan_args (ps_plan x) (ps_fence x) t (sb_intent_id (ps_binding x)) (ps_proof x)"
  have same: "?a\<lparr>oa_target := None, oa_now := None, oa_emergency := False, oa_planned := True\<rparr> = ?a"
    by (simp add: plan_args_def)
  obtain p before written where at: "attempt (re_core e) ''send'' (order_as_dict (ps_order x)) (sb_idempotency_key (ps_binding x)) ?a
      p before written r (rt_world s')" and g: "w_gateway written = w_gateway (rt_world s)"
    using mutate_order_path [OF sub [unfolded submit_planned_order_def same mutate_order_def]] assms(2) w by auto
  obtain y s0 where "prepare_order (re_core e) ''send'' (order_as_dict (ps_order x)) (sb_idempotency_key (ps_binding x))
      (?a\<lparr>oa_proof := y\<rparr>) s0 = (Inr (Inr p), before)"
    using at by (auto simp: attempt_def)
  from sent_prepared [OF this x(1)] x(2) have "prepared_binding ref p = ps_binding x" by (simp add: plan_args_def)
  with that [OF x] attempt_facts [OF at] assms(2) g show thesis by (auto simp: carries_def)
qed

end
