(* ===== verification/Runtime_Effects.thy ===== *)
theory Runtime_Effects
  imports Runtime_Laws Control_Frame
begin

text \<open>
  How often an operation of the runtime sends. Sends are counted by an observation of the gateway that
  cancellations, queries and snapshots leave alone; an operation is bounded by the sends it adds at most.
\<close>

section \<open>Adding at most\<close>

named_theorems adds_rules \<open>operations add at most so many to a count of the state\<close>

definition adds :: "('s \<Rightarrow> nat) \<Rightarrow> nat \<Rightarrow> ('s, 'e, 'a) act \<Rightarrow> bool" where
  "adds p n m \<longleftrightarrow> (\<forall>s. p (snd (m s)) \<le> p s + n)"

lemma addsI: "(\<And>s r t. m s = (r, t) \<Longrightarrow> p t \<le> p s + n) \<Longrightarrow> adds p n m"
  by (metis adds_def prod.collapse)

lemma addsD: "adds p n m \<Longrightarrow> m s = (r, t) \<Longrightarrow> p t \<le> p s + n"
  by (metis adds_def snd_conv)

lemma leaves_adds: "leaves p m \<Longrightarrow> adds p n m"
  by (simp add: leaves_def adds_def)

lemma adds_bind:
  assumes "adds p i m" and "\<And>x. adds p j (f x)" and "i + j \<le> n"
  shows "adds p n (abind m f)"
proof (rule addsI)
  fix s r t assume "abind m f s = (r, t)"
  then show "p t \<le> p s + n"
  proof (cases rule: abind_cases)
    case (raised y)
    then show ?thesis using addsD [OF assms(1)] assms(3) by fastforce
  next
    case (went x u)
    then show ?thesis using addsD [OF assms(1) went(1)] addsD [OF assms(2) went(2)] assms(3) by simp
  qed
qed

lemma adds_after: "leaves p m \<Longrightarrow> (\<And>x. adds p n (f x)) \<Longrightarrow> adds p n (abind m f)"
  by (rule adds_bind [where i = 0 and j = n, OF leaves_adds]) auto

lemma adds_before: "adds p n m \<Longrightarrow> (\<And>x. leaves p (f x)) \<Longrightarrow> adds p n (abind m f)"
  by (rule adds_bind [where i = n and j = 0, OF _ leaves_adds]) auto

lemma adds_catch:
  assumes "adds p n m" and "\<And>x. leaves p (h x)"
  shows "adds p n (acatch m h)"
proof (rule addsI)
  fix s r t assume c: "acatch m h s = (r, t)"
  obtain x u where m: "m s = (x, u)" by fastforce
  have "p t = p u"
    using c m leavesD [OF assms(2)] by (auto simp: acatch_def split: sum.splits)
  then show "p t \<le> p s + n" using addsD [OF assms(1) m] by simp
qed

lemma adds_if: "adds p n m \<Longrightarrow> adds p n m' \<Longrightarrow> adds p n (if b then m else m')"
  by simp

lemma adds_amap:
  assumes "\<And>x. adds p 1 (f x)"
  shows "adds p (length xs) (amap f xs)"
proof (induction xs)
  case Nil
  then show ?case by (simp add: adds_def)
next
  case (Cons x xs)
  have "adds p (length xs) (abind (amap f xs) (\<lambda>ys. aret (y # ys)))" for y
    by (intro adds_before Cons leaves_rules)
  then show ?case
    by (auto intro!: adds_bind [OF assms])
qed

section \<open>Sends\<close>

locale send_boundary = broker_boundary +
  assumes cancel_keeps: "gw_cancel gw r c t g = (x, g') \<Longrightarrow> mutations g' = mutations g"
begin

abbreviation sends :: "'a world \<Rightarrow> nat" where
  "sends \<equiv> \<lambda>s. mutations (w_gateway s)"

lemma outside_sends: "outside sends"
  by (simp add: outside_def repo_blind_def fence_blind_def tick_blind_def)

lemma leaves_cancels:
  assumes "oe_gateway e = gw"
  shows "leaves sends (mutate_order e ''cancel'' request key a)"
proof (rule leavesI)
  fix s r t assume m: "mutate_order e ''cancel'' request key a s = (r, t)"
  show "sends t = sends s"
  proof (cases "w_gateway t = w_gateway s")
    case False
    then obtain p before written where at: "attempt e ''cancel'' request key a p before written r t"
      and w: "w_gateway written = w_gateway s"
      using mutate_order_path [OF m [unfolded mutate_order_def]] by blast
    from attempt_facts(3) [OF at] w False obtain u where "w_gateway t = broker_call e ''cancel'' p u (w_gateway s)"
      by auto
    then show ?thesis
      using cancel_keeps by (simp add: broker_call_def order_gateway_def assms) (metis prod.collapse)
  qed simp
qed

lemma leaves_sweeps:
  assumes "oe_gateway e = gw"
  shows "leaves sends (prepare_control_cancellation e b)" "leaves sends (emergency_stop e why)"
    "leaves sends (swept_command e name)"
proof -
  note reads = reads_only_mutations [OF assms]
  note blind = reads_onlyD [OF reads]
  have c: "leaves sends (cancel_one e b k i)" for b k i
    unfolding cancel_one_def cancel_order_def Let_def
    by (intro leaves_rules leaves_cancels [OF assms] leaves_halting blind)
  show p: "leaves sends (prepare_control_cancellation e b)" for b
    unfolding prepare_control_cancellation_def cancel_active_def Let_def
    by (intro leaves_rules c leaves_reconcile_steps(4) reads leaves_halting blind)
  show "leaves sends (emergency_stop e why)"
    unfolding emergency_stop_def by (intro leaves_rules p leaves_halting blind leaves_status outside_sends)
  show "leaves sends (swept_command e name)"
    unfolding swept_command_def by (intro leaves_rules p leaves_halting blind)
qed

lemma leaves_process_command:
  assumes "oe_gateway e = gw"
  shows "leaves sends (process_command e command ev)"
proof -
  note reads = reads_only_mutations [OF assms]
  have "leaves sends (process_envelope e c pe se fe re)" for c pe se fe re
    unfolding process_envelope_def write_command_def Let_def
    by (intro leaves_rules leaves_reconcile_command leaves_sweeps assms reads reads_onlyD [OF reads])
  then show ?thesis
    unfolding process_command_def by (intro leaves_rules)
qed

lemma adds_send:
  fixes e :: "('a, 'p) renv"
  assumes "oe_gateway (re_core e) = gw"
  shows "adds (of_world sends) 1 (send_plan_order e i ref t q)"
proof (rule addsI)
  fix s u :: "('a, 'p) runtime" and r assume m: "send_plan_order e i ref t q s = (r, u)"
  show "of_world sends u \<le> of_world sends s + 1"
  proof (cases "w_gateway (rt_world u) = w_gateway (rt_world s)")
    case False
    with m obtain p k where "w_gateway (rt_world u) = broker_call (re_core e) ''send'' p k (w_gateway (rt_world s))"
      by (rule send_plan_order_call)
    then show ?thesis using broker_call_counts [OF assms] by simp
  qed simp
qed

section \<open>The runtime\<close>

lemma reads_only_sends: "oe_gateway e = gw \<Longrightarrow> reads_only e sends"
  by (rule reads_only_mutations)

lemma leaves_halt_runner:
  assumes "oe_gateway (re_core e) = gw"
  shows "leaves (of_world sends) (halt_runner_after_failure e why)"
  unfolding halt_runner_after_failure_def fail_closed_halt_def
  by (intro leaves_rules leaves_sweeps assms outside_sends leaves_status outsideD [OF outside_sends])

lemma adds_dispatch_one:
  assumes "oe_gateway (re_core e) = gw"
  shows "adds (of_world sends) 1 (dispatch_one e p start q bs l o')"
proof -
  have "adds (of_world sends) 1 (halting e ref (send_plan_order e i ref t proof'))" for i ref t proof'
    unfolding halting_def by (intro adds_catch adds_send leaves_rules leaves_halt_runner assms)
  moreover have "leaves (of_world sends) (halting e ref (renewed_token e start l))" for ref
    unfolding halting_def by (intro leaves_rules leaves_halt_runner assms outside_sends)
  ultimately show ?thesis
    unfolding dispatch_one_def Let_def split_def
    by (intro adds_after adds_before leaves_rules leaves_halt_runner assms outside_sends)
qed

lemma adds_send_missing:
  assumes "oe_gateway (re_core e) = gw"
  shows "adds (of_world sends) (length missing) (send_missing e x q missing rows)"
proof -
  have f: "adds (of_world sends) 1 (first_send e x q b)" for b
    unfolding first_send_def by (intro adds_after adds_before adds_send assms leaves_resume_reads outside_sends leaves_rules)
  show ?thesis
    unfolding send_missing_def
    by (intro adds_if adds_after adds_before adds_amap f outside_sends leaves_rules leaves_adds
      leaves_simple)
qed

lemma disabled_send: "\<not> re_allow_simnow_execution e \<Longrightarrow> leaves p (send_plan_order e i ref t q)"
  by (simp add: send_plan_order_def prepare_plan_send_def aguard_def leaves_def abind_def)

lemma disabled_start: "\<not> re_allow_simnow_execution e \<Longrightarrow> leaves p (start_command e c)"
  by (simp add: start_command_def aguard_def leaves_def abind_def)

lemma disabled_process:
  assumes "oe_gateway (re_core e) = gw" and "\<not> re_allow_simnow_execution e"
  shows "leaves (of_world sends) (runtime_process_command e command)"
proof -
  have "leaves (of_world sends) (runtime_process e c)" for c
    unfolding runtime_process_def simnow_preview_def
    by (intro leaves_rules disabled_start leaves_process_command assms outside_sends)
  then show ?thesis
    unfolding runtime_process_command_def by (intro leaves_rules)
qed

lemma disabled_resume:
  assumes "oe_gateway (re_core e) = gw" and "\<not> re_allow_simnow_execution e"
  shows "leaves (of_world sends) (resume_active_plan e request)"
proof -
  have "leaves (of_world sends) (send_missing e x q missing rows)" for x q missing rows
    unfolding send_missing_def first_send_def
    by (intro leaves_rules disabled_send assms outside_sends)
  then show ?thesis
    unfolding resume_active_plan_def resume_children_def Let_def
    by (intro leaves_rules leaves_existing leaves_admission outside_sends reads_only_sends assms)
qed

end

interpretation memory_sends: send_boundary in_memory_gateway "\<lambda>g. length (im_send_calls g)"
  by unfold_locales
     (auto simp: in_memory_gateway_def memory_send_def memory_cancel_def memory_query_def record_outcome_def
       memory_snapshot_def Let_def split: option.splits if_splits)

interpretation null_sends: send_boundary null_gateway "\<lambda>_. 0"
  by unfold_locales (simp_all add: null_gateway_def)

end
