(* ===== verification/Runtime_Progress.thy ===== *)
theory Runtime_Progress
  imports Runtime_Effects
begin

text \<open>
  The dispatch of an accepted start, order by order, and under which circumstances an operation of
  the runtime sends at all.
\<close>

section \<open>Changing only under a condition\<close>

text \<open>An operation changes the count of sends from \<open>a\<close> to \<open>b\<close> only where \<open>P a b\<close> holds.\<close>

definition only_when :: "('s \<Rightarrow> nat) \<Rightarrow> (nat \<Rightarrow> nat \<Rightarrow> bool) \<Rightarrow> ('s, 'e, 'a) act \<Rightarrow> bool" where
  "only_when p P m \<longleftrightarrow> (\<forall>s. p (snd (m s)) = p s \<or> P (p s) (p (snd (m s))))"

lemma only_whenI: "(\<And>s r t. m s = (r, t) \<Longrightarrow> p t = p s \<or> P (p s) (p t)) \<Longrightarrow> only_when p P m"
  by (metis only_when_def prod.collapse)

lemma only_whenD: "only_when p P m \<Longrightarrow> m s = (r, t) \<Longrightarrow> p t = p s \<or> P (p s) (p t)"
  by (metis only_when_def snd_conv)

lemma only_when_adds: "adds p n m \<Longrightarrow> (\<And>a b. b \<le> a + n \<Longrightarrow> P a b) \<Longrightarrow> only_when p P m"
  by (simp add: adds_def only_when_def)

lemma only_when_leaves: "leaves p m \<Longrightarrow> only_when p P m"
  by (simp add: leaves_def only_when_def)

lemma only_when_bind:
  assumes "leaves p m" and "\<And>x s t. m s = (Inr x, t) \<Longrightarrow> only_when p P (f x)"
  shows "only_when p P (abind m f)"
proof (rule only_whenI)
  fix s r t assume "abind m f s = (r, t)"
  then show "p t = p s \<or> P (p s) (p t)"
  proof (cases rule: abind_cases)
    case (raised y)
    then show ?thesis using leavesD [OF assms(1)] by blast
  next
    case (went x u)
    then show ?thesis using leavesD [OF assms(1) went(1)] only_whenD [OF assms(2) [OF went(1)] went(2)] by simp
  qed
qed

lemma only_when_lift: "(\<And>x. r = Inr x \<Longrightarrow> only_when p P (f x)) \<Longrightarrow> only_when p P (abind (alift r) f)"
  by (rule only_when_bind) (auto intro: leaves_rules)

lemma only_when_guard: "(b \<Longrightarrow> only_when p P (f ())) \<Longrightarrow> only_when p P (abind (aguard b y) f)"
  by (rule only_when_bind) (auto intro: leaves_rules simp: aguard_def split: if_splits)

lemma only_when_before:
  assumes "only_when p P m" and "\<And>x. leaves p (f x)"
  shows "only_when p P (abind m f)"
proof (rule only_whenI)
  fix s r t assume "abind m f s = (r, t)"
  then show "p t = p s \<or> P (p s) (p t)"
    by (rule abind_cases) (use only_whenD [OF assms(1)] leavesD [OF assms(2)] in \<open>metis+\<close>)
qed

lemma only_when_if:
  "(b \<Longrightarrow> only_when p P m) \<Longrightarrow> (\<not> b \<Longrightarrow> only_when p P n) \<Longrightarrow> only_when p P (if b then m else n)"
  by simp

lemmas only_when_rules = only_when_lift only_when_guard only_when_if only_when_bind

section \<open>Dispatching in plan order\<close>

text \<open>An order that was sent under the leader that started and whose answer was accepted.\<close>

definition order_accepted :: "('g, 'p) renv \<Rightarrow> target_plan \<Rightarrow> leader_token \<Rightarrow> target_plan_order \<Rightarrow> bool" where
  "order_accepted e p start o' \<longleftrightarrow> (\<exists>t q result s s'. token_identity t = token_identity start
     \<and> send_plan_order e (tp_plan_id p) (to_reference o') (TokenObj t) q s = (Inr result, s') \<and> send_accepted result)"

text \<open>The runner has been halted, whatever the halt itself met with.\<close>

definition runner_halted :: "('g, 'p) renv \<Rightarrow> ('g, 'p) runtime \<Rightarrow> bool" where
  "runner_halted e s' \<longleftrightarrow> (\<exists>why r s. halt_runner_after_failure e why s = (r, s'))"

definition reading_failed :: "('g, 'p) renv \<Rightarrow> exn \<Rightarrow> ('g, 'p) runtime \<Rightarrow> bool" where
  "reading_failed e x s' \<longleftrightarrow> (\<exists>s. rt_state e s = (Inl x, s'))"

lemma halting_cases:
  assumes "halting e ref m s = (r, t)"
  obtains x where "m s = (Inr x, t)" "r = Inr x" | y where "r = Inl y" "runner_halted e t"
proof -
  obtain q u where m: "m s = (q, u)" by fastforce
  show thesis
  proof (cases q)
    case (Inr x)
    then have "u = t" "r = Inr x" using assms m by (simp_all add: halting_def acatch_def)
    then show thesis using m Inr that(1) by blast
  next
    case (Inl y)
    then obtain z v where h: "halt_runner_after_failure e (''SIMNOW runner order '' @ ref @ '' failed: '' @ exn_text y) u = (z, v)"
      by fastforce
    then have "runner_halted e v" by (auto simp: runner_halted_def)
    moreover have "t = v" "\<exists>x. r = Inl x"
      using assms m Inl h by (auto simp: halting_def acatch_def abind_def split: sum.splits)
    ultimately show thesis using that(2) by blast
  qed
qed

lemma core_Inr: "core m s = (Inr x, t) \<Longrightarrow> \<exists>w. m (rt_world s) = (Inr x, w)"
  by (auto simp: core_def split: prod.splits)

lemma validated_token: "validate_token e (TokenObj k) now s = (Inr t, s') \<Longrightarrow> t = k"
  by (auto simp: validate_token_def own_token_def or_own_def coerce_token_def abind_Inr_iff)

lemma renewed_token_Inr:
  assumes "renewed_token e start l s = (Inr (t, expiry), s')"
  shows "token_identity t = token_identity start"
  using assms
  by (auto simp: renewed_token_def abind_Inr_iff aguard_def Let_def split: option.splits if_splits dest!: core_Inr validated_token)

lemma abind_alift: "abind (alift (Inr b)) f = f b"
  by (rule ext) (simp add: abind_def)

lemma dispatch_one_cases:
  assumes "dispatch_one e p start q bs l o' s = (r, t)" and "binding_of bs (to_reference o') = Inr b"
  obtains n where "r = Inr n" "order_accepted e p start o'"
    | y where "r = Inl y" "reading_failed e y t \<or> runner_halted e t"
proof -
  let ?token = "\<lambda>state. if fld (fld state ''intent_keys'') (sb_idempotency_key b) = JStr (sb_intent_id b) then aret (start, l)
    else halting e (to_reference o') (renewed_token e start l)"
  let ?send = "\<lambda>state (k, expiry). abind (halting e (to_reference o') (send_plan_order e (tp_plan_id p) (to_reference o')
      (TokenObj k) (dispatch_proof p state (fld (fld state ''intent_keys'') (sb_idempotency_key b)) q))) (\<lambda>result.
     if send_accepted result then aret expiry
     else abind (halt_runner_after_failure e (''SIMNOW runner order '' @ to_reference o' @ '' was not accepted'')) (\<lambda>_.
       athrow (Exn MutationRejected ''SIMNOW runner order was rejected or has unknown outcome'')))"
  have "abind (rt_state e) (\<lambda>state. abind (?token state) (?send state)) s = (r, t)"
    using assms by (simp add: dispatch_one_def Let_def abind_alift)
  then show thesis
  proof (cases rule: abind_cases)
    case (raised y)
    then show thesis using that(2) by (auto simp: reading_failed_def)
  next
    case (went state s1)
    from went(2) show thesis
    proof (cases rule: abind_cases)
      case (raised y)
      then have "runner_halted e t" by (auto split: if_splits elim!: halting_cases)
      then show thesis using that(2) raised by blast
    next
      case (went k s2)
      obtain token expiry where k: "k = (token, expiry)" by fastforce
      have id: "token_identity token = token_identity start"
        using went(1) unfolding k by (auto split: if_splits elim!: halting_cases dest: renewed_token_Inr)
      from went(2) show thesis unfolding k prod.case
      proof (cases rule: abind_cases)
        case (raised y)
        then have "runner_halted e t" by (auto elim!: halting_cases)
        then show thesis using that(2) raised by blast
      next
        case (went result s3)
        then obtain z where sent: "send_plan_order e (tp_plan_id p) (to_reference o') (TokenObj token) z s2 = (Inr result, s3)"
          by (auto elim!: halting_cases)
        show thesis
        proof (cases "send_accepted result")
          case True
          have "order_accepted e p start o'"
            unfolding order_accepted_def using sent id True by blast
          then show thesis using that(1) went(2) True by auto
        next
          case False
          obtain h s4 where h: "halt_runner_after_failure e (''SIMNOW runner order '' @ to_reference o' @ '' was not accepted'') s3
            = (h, s4)" by fastforce
          then have "runner_halted e s4" by (auto simp: runner_halted_def)
          moreover have "t = s4" "\<exists>x. r = Inl x"
            using went(2) False h by (auto simp: abind_def split: sum.splits)
          ultimately show thesis using that(2) by blast
        qed
      qed
    qed
  qed
qed

lemma rmap_Inr_some: "rmap f xs = Inr ys \<Longrightarrow> x \<in> set xs \<Longrightarrow> \<exists>y \<in> set ys. f x = Inr y"
  by (induction xs arbitrary: ys) (auto simp: rbind_Inr_iff)

text \<open>Every order of the plan finds its row in the table of deterministic names.\<close>

lemma binding_found:
  assumes "runtime_bindings e p = Inr bs" and "o' \<in> set (tp_orders p)"
  obtains b where "binding_of bs (to_reference o') = Inr b"
proof -
  have "\<exists>b \<in> set bs. send_binding_of p (rt_scope e) (rt_environment e) o' = Inr b"
    using assms by (intro rmap_Inr_some) (auto simp: runtime_bindings_def expected_send_intent_bindings_def)
  then obtain b where "b \<in> set bs" "sb_order_ref b = to_reference o'"
    by (auto simp: send_binding_of_def rbind_Inr_iff)
  then show thesis
    using that by (cases "find (\<lambda>b. sb_order_ref b = to_reference o') bs") (auto simp: binding_of_def find_None_iff)
qed

text \<open>What a dispatch has done when it stops, after \<open>k\<close> of its orders.\<close>

definition dispatched ::
  "('g, 'p) renv \<Rightarrow> target_plan \<Rightarrow> leader_token \<Rightarrow> target_plan_order list \<Rightarrow> nat \<Rightarrow> exn + unit \<Rightarrow> ('g, 'p) runtime \<Rightarrow> bool" where
  "dispatched e p start os k r s' \<longleftrightarrow> k \<le> length os \<and> (\<forall>o' \<in> set (take k os). order_accepted e p start o')
     \<and> (case r of Inr _ \<Rightarrow> k = length os
        | Inl y \<Rightarrow> k < length os \<and> (reading_failed e y s' \<or> runner_halted e s'))"

context send_boundary
begin

lemma dispatch_orders_stop:
  fixes s :: "('a, 'p) runtime"
  assumes "oe_gateway (re_core e) = gw" and "dispatch_orders e p start q bs l os s = (r, s')"
    and "\<And>o'. o' \<in> set os \<Longrightarrow> \<exists>b. binding_of bs (to_reference o') = Inr b"
  shows "\<exists>k. dispatched e p start os k r s' \<and> of_world sends s' \<le> of_world sends s + min (length os) (Suc k)"
  using assms(2,3)
proof (induction os arbitrary: l s)
  case Nil
  then show ?case by (auto simp: dispatched_def)
next
  case (Cons o' os)
  obtain b where b: "binding_of bs (to_reference o') = Inr b" using Cons.prems(2) by auto
  from Cons.prems(1) have "abind (dispatch_one e p start q bs l o') (\<lambda>n. dispatch_orders e p start q bs n os) s = (r, s')"
    by simp
  then show ?case
  proof (cases rule: abind_cases)
    case (raised y)
    have "reading_failed e y s' \<or> runner_halted e s'"
      using raised b by (metis dispatch_one_cases sum.distinct(1) sum.inject(1))
    moreover have "of_world sends s' \<le> of_world sends s + 1"
      by (rule addsD [OF adds_dispatch_one [OF assms(1)] raised(1)])
    ultimately show ?thesis
      using raised(2) by (intro exI [of _ 0]) (auto simp: dispatched_def)
  next
    case (went n s1)
    have o': "order_accepted e p start o'"
      using went(1) b by (metis dispatch_one_cases sum.distinct(1))
    have "of_world sends s1 \<le> of_world sends s + 1"
      by (rule addsD [OF adds_dispatch_one [OF assms(1)] went(1)])
    moreover obtain k where "dispatched e p start os k r s'" "of_world sends s' \<le> of_world sends s1 + min (length os) (Suc k)"
      using Cons.IH [OF went(2)] Cons.prems(2) by auto
    ultimately show ?thesis
      using o' by (intro exI [of _ "Suc k"]) (auto simp: dispatched_def split: sum.splits)
  qed
qed

lemma adds_dispatch:
  fixes p :: target_plan
  assumes "oe_gateway (re_core e) = gw"
  shows "adds (of_world sends) (length (tp_orders p)) (dispatch_accepted_start e response p q)"
proof -
  have d: "adds (of_world sends) (length os) (dispatch_orders e p start q bs l os)" for start q bs l os
  proof (induction os arbitrary: l)
    case Nil
    then show ?case by (simp add: adds_def)
  next
    case (Cons o' os)
    show ?case unfolding dispatch_orders.simps by (rule adds_bind [OF adds_dispatch_one [OF assms] Cons]) simp
  qed
  have t: "leaves (of_world sends) (core (aget f_token))" by (rule leaves_token_read)
  have "adds (of_world sends) (length (tp_orders p)) (case held of None \<Rightarrow> athrow lost_token | Some start \<Rightarrow>
      abind (alift (runtime_bindings e p)) (\<lambda>bindings.
      abind (proof_for_missing e p (fld response ''reused'' = JBool True) q bindings) (\<lambda>missing_proof.
      abind (dispatch_orders e p start missing_proof bindings (utc_time (lt_lease_expires_at start)) (tp_orders p)) (\<lambda>_.
      aret response))))" for held
  proof (cases held)
    case None
    then show ?thesis by (simp add: leaves_adds leaves_simple)
  next
    case (Some start)
    show ?thesis
      unfolding Some option.case
      by (rule adds_after, rule leaves_simple, rule adds_after, rule leaves_proofs [OF outside_sends], rule adds_before, rule d,
        rule leaves_simple)
  qed
  then show ?thesis
    unfolding dispatch_accepted_start_def by (intro adds_if adds_after leaves_adds [of _ "aret response"] t leaves_simple)
qed

end

section \<open>When a command sends\<close>

text \<open>An accepted start: execution is allowed here, the contract accepts the plan, the core has answered.\<close>

definition start_accepted :: "('g, 'p) renv \<Rightarrow> envelope \<Rightarrow> target_plan \<Rightarrow> bool" where
  "start_accepted e c p \<longleftrightarrow> re_allow_simnow_execution e \<and> env_command c = ''start''
     \<and> (\<exists>v. target_plan_from_mapping (re_max_order_volume e) v = Inr p)
     \<and> (\<exists>q w response w'. process_command (re_core e) (Envelope c) (no_evidence\<lparr>evid_start := q\<rparr>) w = (Inr response, w')
         \<and> fld (fld response ''result'') ''accepted'' = JBool True)"

text \<open>The children of the active plan that are missing, with the gate that a first send of them passed.\<close>

definition resume_opened :: "('g, 'p) renv \<Rightarrow> resume_ctx \<Rightarrow> send_binding list \<Rightarrow> bool" where
  "resume_opened e x missing \<longleftrightarrow> re_allow_simnow_execution e
     \<and> runtime_bindings e (rc_plan x) = Inr (rc_bindings x)
     \<and> (\<exists>state existing. classify_active_plan_intents state (rc_plan x) (rc_bindings x) = Inr existing
         \<and> missing = missing_bindings x existing)
     \<and> (\<exists>state. first_send_gate e x missing ''deterministic intent set changed before first send'' state = Inr ())"

context send_boundary
begin

lemma start_sends:
  fixes e :: "('a, 'p) renv"
  assumes g: "oe_gateway (re_core e) = gw" and c: "env_command c = ''start''"
    and P: "\<And>p a b. start_accepted e c p \<Longrightarrow> b \<le> a + length (tp_orders p) \<Longrightarrow> P a b"
  shows "only_when (of_world sends) P (start_command e c)"
  unfolding start_command_def
proof (rule only_when_guard, rule only_when_bind)
  show "leaves (of_world sends) (installed_plan e (fld (env_payload c) ''plan_id'') (Some (payload_text c ''plan_hash'')))"
    by (rule leaves_plans(3) [OF outside_sends])
next
  fix p and s t :: "('a, 'p) runtime"
  assume allow: "re_allow_simnow_execution e"
    and plan: "installed_plan e (fld (env_payload c) ''plan_id'') (Some (payload_text c ''plan_hash'')) s = (Inr p, t)"
  have last: "only_when (of_world sends) P (dispatch_accepted_start e response p q)"
    if "core (process_command (re_core e) (Envelope c) (no_evidence\<lparr>evid_start := q\<rparr>)) u = (Inr response, v)" for q response u v
  proof (cases "fld (fld response ''result'') ''accepted'' = JBool True")
    case True
    then have "start_accepted e c p"
      using allow c installed_plan_Inr(1) [OF plan] core_Inr [OF that] by (auto simp: start_accepted_def)
    with P show ?thesis by (intro only_when_adds [OF adds_dispatch [OF g]])
  next
    case False
    then show ?thesis by (simp add: dispatch_accepted_start_def only_when_leaves leaves_simple)
  qed
  show "only_when (of_world sends) P
     (abind (if is_v3 (tp_raw p) then persisted_start_quote_proof e c p else aret None) (\<lambda>persisted.
     abind (case persisted of
         Some q \<Rightarrow> aret (Some q)
       | None \<Rightarrow> abind (prove_start e c p) (\<lambda>_.
           if is_v3 (tp_raw p) then abind (fresh_start_quote_proof e p []) (\<lambda>q. aret (Some q)) else aret None)) (\<lambda>q.
     abind (core (process_command (re_core e) (Envelope c) (no_evidence\<lparr>evid_start := q\<rparr>))) (\<lambda>response.
     dispatch_accepted_start e response p q))))"
    by (rule only_when_bind, (intro leaves_rules outside_sends)[1], rule only_when_bind, (intro leaves_rules outside_sends)[1],
      rule only_when_bind, (intro leaves_rules leaves_process_command g)[1], rule last)
qed

lemma process_sends:
  assumes "oe_gateway (re_core e) = gw"
  shows "only_when (of_world sends)
    (\<lambda>a b. \<exists>c p. (case command of Envelope c' \<Rightarrow> Inr c' | Mapping m \<Rightarrow> envelope_from_mapping m) = Inr c
       \<and> start_accepted e c p \<and> b \<le> a + length (tp_orders p)) (runtime_process_command e command)"
  unfolding runtime_process_command_def
proof (rule only_when_lift)
  fix c assume c: "(case command of Envelope c' \<Rightarrow> Inr c' | Mapping m \<Rightarrow> envelope_from_mapping m) = Inr c"
  have other: "leaves (of_world sends) (runtime_process e c)" if "wants_simnow c \<or> env_command c \<noteq> ''start''"
    using that unfolding runtime_process_def simnow_preview_def
    by (auto intro!: leaves_rules leaves_process_command assms outside_sends)
  show "only_when (of_world sends)
    (\<lambda>a b. \<exists>c p. (case command of Envelope c' \<Rightarrow> Inr c' | Mapping m \<Rightarrow> envelope_from_mapping m) = Inr c
       \<and> start_accepted e c p \<and> b \<le> a + length (tp_orders p)) (runtime_process e c)"
  proof (cases "wants_simnow c \<or> env_command c \<noteq> ''start''")
    case True
    from only_when_leaves [OF other [OF True]] show ?thesis .
  next
    case False
    then show ?thesis
      unfolding runtime_process_def using c by simp (rule start_sends [OF assms]; blast)
  qed
qed

text \<open>A resume sends only missing children, each once.\<close>

lemma resume_sends:
  fixes e :: "('a, 'p) renv"
  assumes g: "oe_gateway (re_core e) = gw"
  shows "only_when (of_world sends) (\<lambda>a b. \<exists>x missing. resume_opened e x missing \<and> b \<le> a + length missing)
    (resume_active_plan e request)"
proof (cases "re_allow_simnow_execution e")
  case False
  with disabled_resume [OF g] show ?thesis by (intro only_when_leaves)
next
  case True
  let ?P = "\<lambda>a b. \<exists>x missing. resume_opened e x missing \<and> b \<le> a + length missing"
  have send: "only_when (of_world sends) ?P (send_missing e x q missing rows)"
    if x: "runtime_bindings e (rc_plan x) = Inr (rc_bindings x)"
      "classify_active_plan_intents state (rc_plan x) (rc_bindings x) = Inr existing" "missing = missing_bindings x existing"
    for x q missing rows state existing
  proof -
    have f: "adds (of_world sends) 1 (first_send e x q b)" for b
      unfolding first_send_def by (intro adds_after adds_before adds_send g leaves_resume_reads outside_sends leaves_rules)
    have "only_when (of_world sends) ?P (abind (amap (first_send e x q) missing) (\<lambda>sent. aret (rows @ sent)))"
      if "first_send_gate e x missing ''deterministic intent set changed before first send'' current = Inr ()" for current
      using True x that
      by (intro only_when_adds [OF adds_before [OF adds_amap [OF f]]] leaves_simple) (auto simp: resume_opened_def)
    then show ?thesis
      unfolding send_missing_def
      by (intro only_when_if only_when_leaves [OF leaves_simple(1)] only_when_leaves [OF leaves_simple(2)]
        only_when_bind [OF leaves_runtime_reads(2) [OF outside_sends]] only_when_lift; simp)
  qed
  have children: "only_when (of_world sends) ?P (resume_children e x state)"
    if "runtime_bindings e (rc_plan x) = Inr (rc_bindings x)" for x state
    unfolding resume_children_def
  proof (rule only_when_lift, rule only_when_lift)
    fix existing missing
    assume c: "classify_active_plan_intents state (rc_plan x) (rc_bindings x) = Inr existing"
      and m: "initial_gate e x state existing = Inr missing"
    have "missing = missing_bindings x existing"
      using m by (auto simp: initial_gate_def Let_def rbind_Inr_iff)
    from send [OF that c this] show "only_when (of_world sends) ?P
       (abind (missing_quote_proof e x missing) (\<lambda>q.
        abind (resume_all_existing e x existing (rc_bindings x)) (\<lambda>rows.
        abind (send_missing e x q missing rows) (\<lambda>rows. finish_resume e x rows))))"
      by (intro only_when_bind [OF leaves_resume_reads(3) [OF outside_sends]]
        only_when_bind [OF leaves_existing(2) [OF outside_sends reads_only_sends [OF g]]]
        only_when_before leaves_resume_reads(4) outside_sends)
  qed
  show ?thesis
    unfolding resume_active_plan_def Let_def
    by (rule only_when_bind [OF leaves_runtime_reads(1) [OF outside_sends]], rule only_when_lift,
      rule only_when_bind [OF leaves_plans(3) [OF outside_sends]], rule only_when_guard,
      rule only_when_bind [OF leaves_resume_reads(1) [OF outside_sends]],
      rule only_when_bind [OF leaves_runtime_reads(2) [OF outside_sends]], rule only_when_lift, rule only_when_lift,
      rule only_when_bind [OF leaves_evidence(1) [OF outside_sends]], rule only_when_guard, rule children) simp
qed

end

end
