(* ===== verification/Runtime_Properties.thy ===== *)
theory Runtime_Properties
  imports Runtime_Progress Sample_Plan
begin

text \<open>
  The properties of the runtime over its orchestrator: which orders leave the process, under which
  names and under which circumstances. The concrete runtime keeps its plans in memory and trades on
  the in-memory gateway.
\<close>

section \<open>The concrete runtime\<close>

definition sample_renv :: "bool \<Rightarrow> (memory_gateway, plan_memory) renv" where
  "sample_renv allow = \<lparr>re_core = sample_env, re_plans = memory_repo, re_receipt = \<lambda>n i. Inr JNull,
     re_artifact = \<lambda>n i. Inr JNull, re_custody_probe = \<lambda>n. Inr (), re_ticks = \<lambda>n rs. Inr [], re_quote_clock = \<lambda>n. 0,
     re_fromisoformat = UTC_RE, re_allowed_scope = None, re_allow_simnow_execution = allow,
     re_allow_trusted_keyless = True, re_max_order_volume = 1\<rparr>"

definition sample_runtime :: "(memory_gateway, plan_memory) runtime" where
  "sample_runtime = \<lparr>rt_world = sample_world ready_sample, rt_plans = [(sample_plan_id, parsed_sample)]\<rparr>"

lemma sample_core [simp]: "re_core (sample_renv allow) = sample_env" "re_allow_simnow_execution (sample_renv allow) = allow"
  by (simp_all add: sample_renv_def)

lemma sample_send_boundary: "send_boundary (oe_gateway (re_core (sample_renv allow))) (\<lambda>g. length (im_send_calls g))"
  using memory_sends.send_boundary_axioms by simp

lemma sample_nothing_sent [simp]: "im_send_calls (w_gateway (rt_world sample_runtime)) = []"
  by (simp add: sample_runtime_def new_memory_gateway_def)

section \<open>What is sent\<close>


text \<open>
  C39: with SIMNOW execution disabled locally, no command and no resume sends anything, and a send is
  refused; cancellations, queries and snapshots still work.
\<close>

theorem disabled_runtime_never_sends:
  assumes "send_boundary (oe_gateway (re_core e)) sends" and "\<not> re_allow_simnow_execution e"
  shows "sends (w_gateway (rt_world (snd (runtime_process_command e command s)))) = sends (w_gateway (rt_world s))
    \<and> sends (w_gateway (rt_world (snd (resume_active_plan e request s)))) = sends (w_gateway (rt_world s))
    \<and> send_plan_order e i ref t start_proof s = (raise AuthorityRejected ''SIMNOW execution is locally disabled'', s)"
  using send_boundary.disabled_process [OF assms(1) refl assms(2)] send_boundary.disabled_resume [OF assms(1) refl assms(2)]
    assms(2)
  by (auto simp: leaves_def send_plan_order_def prepare_plan_send_def aguard_def abind_def raise_def)

lemma disabled_runtime_never_sends_witness:
  "im_send_calls (w_gateway (rt_world (snd (runtime_process_command (sample_renv False)
     (Envelope (sample_command ''start'' (JObj []))) sample_runtime)))) = []"
  using disabled_runtime_never_sends [OF sample_send_boundary [of False], where s = sample_runtime
      and command = "Envelope (sample_command ''start'' (JObj []))"]
  by simp



section \<open>Dispatch and resume\<close>


lemma sample_bindings_built: "\<exists>bs. runtime_bindings (sample_renv allow) parsed_sample = Inr bs"
  by (simp add: runtime_bindings_def expected_send_intent_bindings_def send_binding_of_def parsed_sample_def
      contract_sha256_json_def order_as_dict_def quoted_order_def)




end
