(* ===== verification/Adapter_Facts.thy ===== *)
theory Adapter_Facts
  imports Target_Plan Plan_Quote Exec_Gateway
begin

text \<open>
  The inputs of the offline target adapter (\<open>backend/app/execution/executable_target_adapter.py\<close>): the
  research candidates with their lineage, the target they select, and the current facts of the account,
  from a gateway snapshot or from the read-only peek of the Windows bridge.
\<close>

section \<open>Errors and texts\<close>

definition adapter_error :: "string \<Rightarrow> 'a res" where
  "adapter_error msg = raise ExecutableTargetAdapterError msg"

abbreviation adapter_exn :: "string \<Rightarrow> exn" where
  "adapter_exn msg \<equiv> Exn ExecutableTargetAdapterError msg"

text \<open>\<open>except CommodityExecutionContractError as exc: raise ExecutableTargetAdapterError(f"{what}: {exc}")\<close>.\<close>

definition on_contract_error :: "string \<Rightarrow> 'a res \<Rightarrow> 'a res" where
  "on_contract_error what r = rcatch r (\<lambda>x.
     if is_a x CommodityExecutionContractError then adapter_error (what @ '': '' @ exn_text x) else Inl x)"

definition adapter_mapping :: "json \<Rightarrow> string \<Rightarrow> json res" where
  "adapter_mapping value label =
     (if \<not> is_obj value then adapter_error (label @ '' must be an object'')
      else if \<not> finite_json value then adapter_error (label @ '' is not canonical JSON'')
      else Inr (canon value))"

definition adapter_sha :: "json \<Rightarrow> string \<Rightarrow> string res" where
  "adapter_sha value label =
     (if str_sat SHA256_RE value then Inr (the_str value) else adapter_error (label @ '' is not a SHA-256''))"

definition require_text :: "json \<Rightarrow> string \<Rightarrow> string res" where
  "require_text value label =
     (if str_sat (\<lambda>s. str_strip s \<noteq> []) value then Inr (str_strip (the_str value))
      else adapter_error (label @ '' is invalid''))"

text \<open>\<open>^(CFFEX|CZCE|DCE|GFEX|INE|SHFE)\.([A-Za-z]+[0-9]{4})$\<close>: the exchange and the native symbol.\<close>

definition exact_contract :: "string \<Rightarrow> (string \<times> string) option" where
  "exact_contract c =
     (case filter (\<lambda>ex. starts_with (ex @ ''.'') c) EXCHANGES of
        [] \<Rightarrow> None
      | ex # _ \<Rightarrow> let symbol = drop (length ex + 1) c in if product_of symbol = None then None else Some (ex, symbol))"

definition adapter_contract :: "json \<Rightarrow> (string \<times> string) res" where
  "adapter_contract value =
     rbind (require_text value ''C_FAST exact_contract'') (\<lambda>c.
     case exact_contract c of None \<Rightarrow> adapter_error ''C_FAST exact_contract is invalid'' | Some es \<Rightarrow> Inr es)"

section \<open>No authority\<close>

definition FALSE_AUTHORITY_FIELDS :: "string list" where
  "FALSE_AUTHORITY_FIELDS = [''control_authorized'', ''deployment_authorized'', ''execution_authorized'',
     ''simnow_execution_authorized'', ''runtime_activation_authorized'', ''network_authorized'',
     ''web_bridge_rpc_authorized'', ''order_authorized'', ''order_submission_authorized'',
     ''position_mutation_authorized'', ''dispatch_authorized'', ''trading_authorized'', ''production_authorized'',
     ''automatic_promotion_authorized'', ''production_allowed'', ''live_allowed'', ''countable_forward'',
     ''authority_granted'', ''signing_requested'', ''custody_published'']"

definition AUTHORITY_LIKE_FIELDS :: "string list" where
  "AUTHORITY_LIKE_FIELDS = [''production_allowed'', ''live_allowed'', ''countable_forward'', ''authority_granted'',
     ''execution_authorized'', ''simnow_execution_authorized'', ''order_authorized'', ''order_submission_authorized'',
     ''position_mutation_authorized'', ''dispatch_authorized'', ''trading_authorized'', ''signing_requested'',
     ''custody_published'']"

definition ends_with :: "string \<Rightarrow> string \<Rightarrow> bool" where
  "ends_with suffix s \<longleftrightarrow> starts_with (rev suffix) (rev s)"

definition authority_like :: "string \<Rightarrow> bool" where
  "authority_like k \<longleftrightarrow> ends_with ''_authorized'' k \<or> k \<in> set AUTHORITY_LIKE_FIELDS"

definition require_false_authority :: "json \<Rightarrow> string \<Rightarrow> unit res" where
  "require_false_authority payload label = checks
     [rguard (set (filter authority_like (keys payload)) = set FALSE_AUTHORITY_FIELDS)
        (adapter_exn (label @ '' authority field set is incomplete or has extra fields'')),
      rguard (list_all (\<lambda>f. fld payload f = JBool False) FALSE_AUTHORITY_FIELDS)
        (adapter_exn (label @ '' attempts to grant authority''))]"

section \<open>The candidates\<close>

definition candidate_roles :: "json \<Rightarrow> json \<Rightarrow> bool" where
  "candidate_roles m c \<longleftrightarrow>
     fld m ''schema_version'' = JStr ''commodity_map_signal_candidate_v1''
     \<and> fld m ''artifact_role'' = JStr ''unsigned_map_signal_candidate''
     \<and> fld m ''status'' = JStr ''UNSIGNED_MAP_SIGNAL_CANDIDATE''
     \<and> fld c ''schema_version'' = JStr ''commodity_c_fast_target_candidate_v1''
     \<and> fld c ''artifact_role'' = JStr ''unsigned_c_fast_target_candidate''
     \<and> fld c ''status'' = JStr ''UNSIGNED_C_FAST_TARGET_CANDIDATE''"

definition lineage_binds :: "json \<Rightarrow> json \<Rightarrow> string \<Rightarrow> bool" where
  "lineage_binds m c map_hash \<longleftrightarrow>
     (let before = fld c ''predecessor''; lineage = fld c ''lineage''; map_lineage = fld m ''lineage'' in
      fld before ''artifact_sha256'' = JStr map_hash \<and> jeq (fld before ''candidate_id'') (fld m ''candidate_id'')
      \<and> fld lineage ''map_predecessor_sha256'' = JStr map_hash
      \<and> jeq (fld lineage ''map_candidate_id'') (fld m ''candidate_id'')
      \<and> jeq (fld lineage ''source_view_canonical_sha256'') (fld map_lineage ''source_view_canonical_sha256'')
      \<and> jeq (fld lineage ''source_receipt_sha256'') (fld map_lineage ''source_receipt_sha256''))"

definition validate_lineage :: "json \<Rightarrow> json \<Rightarrow> (string \<times> string) res" where
  "validate_lineage map_candidate c_fast_candidate =
     rbind (adapter_mapping map_candidate ''MAP candidate'') (\<lambda>m.
     rbind (adapter_mapping c_fast_candidate ''C_FAST candidate'') (\<lambda>c.
     rbind (checks
       [rguard (candidate_roles m c) (adapter_exn ''MAP/C_FAST candidate roles are invalid''),
        require_false_authority m ''MAP candidate'', require_false_authority c ''C_FAST candidate'',
        rguard (is_obj (fld c ''predecessor'') \<and> is_obj (fld c ''lineage'') \<and> is_obj (fld m ''lineage''))
          (adapter_exn ''C_FAST predecessor/lineage is invalid''),
        rguard (lineage_binds m c (json_hash m)) (adapter_exn ''C_FAST lineage does not bind MAP'')]) (\<lambda>_.
     Inr (json_hash m, json_hash c))))"

text \<open>The row of the product, its exchange and symbol, and the reference price as a float.\<close>

definition selected_target :: "json \<Rightarrow> string \<Rightarrow> (json \<times> string \<times> string \<times> json) res" where
  "selected_target candidate product =
     (let targets = fld candidate ''targets'' in
      rbind (rguard (is_jarr targets) (adapter_exn ''C_FAST targets are invalid'')) (\<lambda>_.
      case filter (\<lambda>row. is_obj row \<and> fld row ''product'' = JStr product) (jarr targets) of
        [raw] \<Rightarrow>
          rbind (adapter_mapping raw ''selected C_FAST target'') (\<lambda>row.
          rbind (rguard (is_jint (fld row ''target_quantity'')) (adapter_exn ''C_FAST target quantity is invalid'')) (\<lambda>_.
          rbind (adapter_contract (fld row ''exact_contract'')) (\<lambda>(exchange, symbol).
          let price = fld row ''reference_open_price''; bad = adapter_exn ''C_FAST reference price is invalid'' in
          rbind (rguard (is_jint price \<or> is_float price) bad) (\<lambda>_.
          rbind (py_float price) (\<lambda>normalized.
          rbind (rguard (case dec_value normalized of None \<Rightarrow> False | Some x \<Rightarrow> 0 < x) bad) (\<lambda>_.
          Inr (row, exchange, symbol, normalized)))))))
      | _ \<Rightarrow> adapter_error ''selected C_FAST product is not unique''))"

section \<open>The price of a reduce-only close\<close>

definition positive_decimal :: "json \<Rightarrow> string \<Rightarrow> rat res" where
  "positive_decimal value label =
     (case dec_value value of
        None \<Rightarrow> adapter_error (label @ '' is invalid'')
      | Some x \<Rightarrow> if 0 < x then Inr x else adapter_error (label @ '' is invalid''))"

text \<open>\<open>x % y != 0\<close> of positive decimals: a quotient of more than 28 digits raises.\<close>

definition decimal_divides :: "rat \<Rightarrow> rat \<Rightarrow> bool res" where
  "decimal_divides x y =
     (let q = \<lfloor>x / y\<rfloor> in
      if 10 ^ 28 \<le> q then raise PyInvalidOperation ''DivisionImpossible'' else Inr (x = of_int q * y))"

definition reduce_only_limit_price :: "json \<Rightarrow> json \<Rightarrow> json res" where
  "reduce_only_limit_price value price_tick =
     rbind (positive_decimal value ''reduce-only close limit price'') (\<lambda>limit.
     rbind (positive_decimal price_tick ''C_FAST price tick'') (\<lambda>tick.
     rbind (decimal_divides limit tick) (\<lambda>aligned.
     rbind (rguard aligned (adapter_exn ''reduce-only close limit price is not aligned to C_FAST price tick'')) (\<lambda>_.
     Inr (float_of limit)))))"

section \<open>The current facts\<close>

definition validate_snapshot :: "gateway_snapshot \<Rightarrow> string \<Rightarrow> string \<Rightarrow> json \<Rightarrow> json res" where
  "validate_snapshot s account_scope environment reconciliation =
     rbind (checks
       [rguard (truthy (gs_connected s) \<and> truthy (gs_fresh s) \<and> gs_account_scope s = JStr account_scope
          \<and> gs_environment s = JStr environment) (adapter_exn ''current facts scope/freshness is invalid''),
        rguard (jeq (gs_active_order_count s) (JInt 0) \<and> \<not> truthy (gs_orders s))
          (adapter_exn ''active orders block target adaptation''),
        rguard (fld reconciliation ''state'' = JStr ''RECONCILED'' \<and> jeq (fld reconciliation ''unknown_outcomes'') (JInt 0))
          (adapter_exn ''unknown or unreconciled outcomes block target adaptation'')]) (\<lambda>_.
     rbind (adapter_mapping (gs_positions s) ''current positions'') (\<lambda>positions.
     rbind (rguard (gs_position_snapshot_hash s = JStr (json_hash positions))
       (adapter_exn ''current facts full position hash mismatch'')) (\<lambda>_.
     rbind (on_contract_error ''current position semantics are invalid''
       (rbind (canonical_target_position_projection positions (JStr account_scope) (JStr environment)) (\<lambda>_.
        canonical_before_position_projection positions (JStr account_scope) (JStr environment)))) (\<lambda>_.
     Inr positions))))"

text \<open>Only orders that the broker reports as terminal are taken out of a peek.\<close>

definition TERMINAL_EXECUTION_ORDER_STATUSES :: "string list" where
  "TERMINAL_EXECUTION_ORDER_STATUSES = [''ALLTRADED'', ''CANCELLED'', ''CANCELED'', ''REJECTED'']"

definition plain_status :: "json \<Rightarrow> string" where
  "plain_status v = (if is_jstr v then filter (\<lambda>c. c \<noteq> CHR ''_'' \<and> c \<noteq> CHR '' '') (str_upper (the_str v)) else [])"

definition without_terminal_execution_orders :: "json \<Rightarrow> json res" where
  "without_terminal_execution_orders value =
     (let execution = fld value ''execution'' in
      rbind (checks
        [rguard (is_obj value) (adapter_exn ''peek current facts are invalid''),
         rguard (is_obj execution \<and> keys_are execution [''orders''] \<and> is_obj (fld execution ''orders''))
           (adapter_exn ''peek execution facts are invalid''),
         rall (\<lambda>(i, row). checks
           [rguard (is_obj row) (adapter_exn ''peek execution order is invalid''),
            rguard (plain_status (fld row ''status'') \<in> set TERMINAL_EXECUTION_ORDER_STATUSES)
              (adapter_exn ''peek execution order is not explicitly terminal'')]) (items (fld execution ''orders''))]) (\<lambda>_.
      Inr (dset value ''execution'' (JObj [(''orders'', JObj [])]))))"

section \<open>The peek of the Windows bridge\<close>

record peek_facts =
  pf_snapshot :: gateway_snapshot
  pf_gateway_name :: string

definition rows_of_objects :: "json \<Rightarrow> bool" where
  "rows_of_objects v \<longleftrightarrow> is_obj v \<and> list_all (\<lambda>(k, row). is_obj row) (items v)"

definition peek_gateway_fields :: "json \<Rightarrow> string list" where
  "peek_gateway_fields g = [''gateway_name'', ''account_scope'', ''environment'', ''connected'']
     @ filter (has_key g) [''trading_day'', ''limit_time_condition'']"

definition check_peek_gateway :: "json \<Rightarrow> json \<Rightarrow> string \<Rightarrow> string res" where
  "check_peek_gateway g account account_scope =
     rbind (checks
       [rguard (is_obj g \<and> keys_are g (peek_gateway_fields g)) (adapter_exn ''peek gateway facts are invalid''),
        rguard (fld g ''trading_day'' = JNull \<or> str_sat (\<lambda>s. length s = 8 \<and> list_all is_digit_char s) (fld g ''trading_day''))
          (adapter_exn ''peek gateway trading day is invalid''),
        rguard (fld g ''limit_time_condition'' \<in> {JNull, JStr ''GFD''})
          (adapter_exn ''peek gateway LIMIT time condition is invalid'')]) (\<lambda>_.
     rbind (require_text (fld g ''gateway_name'') ''peek gateway name'') (\<lambda>name.
     rbind (rguard (name = ''CTP'' \<and> fld g ''account_scope'' = JStr account_scope \<and> fld g ''environment'' = JStr ''simnow''
         \<and> fld g ''connected'' = JBool True \<and> truthy account) (adapter_exn ''peek gateway binding is invalid'')) (\<lambda>_.
     Inr name)))"

definition PEEK_FENCE_COUNTS :: "string list" where
  "PEEK_FENCE_COUNTS = [''current_epoch'', ''current_fencing_token'', ''high_water_epoch'', ''high_water_fencing_token'']"

definition check_peek_admission :: "json \<Rightarrow> string \<Rightarrow> unit res" where
  "check_peek_admission a account_scope =
     (let fence = fld a ''fence''; intents = fld a ''receipt_intents'' in checks
     [rguard (is_obj a \<and> keys_are a [''account_scope'', ''environment'', ''durable_state_version'', ''durable_state_hash'',
        ''snapshot_generation'', ''fence'', ''receipt_intents'']) (adapter_exn ''peek admission facts are invalid''),
      rguard (fld a ''account_scope'' = JStr account_scope \<and> fld a ''environment'' = JStr ''simnow''
        \<and> int_at_least 0 (fld a ''durable_state_version'') \<and> int_at_least 0 (fld a ''snapshot_generation''))
        (adapter_exn ''peek admission scope is invalid''),
      just (adapter_sha (fld a ''durable_state_hash'') ''peek durable state hash''),
      rguard (is_obj fence \<and> keys_are fence (''active'' # PEEK_FENCE_COUNTS)) (adapter_exn ''peek fence is invalid''),
      rguard (is_jbool (fld fence ''active'') \<and> list_all (\<lambda>f. int_at_least 0 (fld fence f)) PEEK_FENCE_COUNTS)
        (adapter_exn ''peek fence is invalid''),
      rguard (is_jarr intents \<and> list_all is_jstr (jarr intents) \<and> sorted_wrt (<) (map the_str (jarr intents)))
        (adapter_exn ''peek receipt intents are invalid'')])"

definition PEEK_FIELDS :: "string list" where
  "PEEK_FIELDS = [''schema_version'', ''position_query_complete'', ''account'', ''positions'', ''active_orders'',
     ''gateway'', ''execution'', ''admission'']"

definition peek_snapshot :: "int \<Rightarrow> json \<Rightarrow> string \<Rightarrow> gateway_snapshot" where
  "peek_snapshot now facts account_scope =
     (snapshot_defaults now (JStr (''snapshot-peek-'' @ json_hash facts))
        (fld (fld facts ''admission'') ''snapshot_generation'') (fld (fld facts ''gateway'') ''connected''))
     \<lparr>gs_position_snapshot_hash := JStr (json_hash (canon (fld facts ''positions''))),
      gs_positions := canon (fld facts ''positions''), gs_account_scope := JStr account_scope,
      gs_environment := JStr ''SIMNOW''\<rparr>"

definition peek_current_facts_to_snapshot :: "int \<Rightarrow> json \<Rightarrow> string \<Rightarrow> peek_facts res" where
  "peek_current_facts_to_snapshot now value account_scope =
     rbind (adapter_mapping value ''peek current facts'') (\<lambda>facts.
     let blocked = adapter_exn ''peek active or execution orders block adaptation''; execution = fld facts ''execution'' in
     rbind (checks
       [rguard (keys_are facts PEEK_FIELDS \<and> fld facts ''schema_version'' = JStr ''windows_execution_current_facts_v1''
          \<and> fld facts ''position_query_complete'' = JBool True) (adapter_exn ''peek current facts schema is invalid''),
        rall (\<lambda>f. rguard (rows_of_objects (fld facts f)) (adapter_exn (''peek '' @ f @ '' facts are invalid'')))
          [''account'', ''positions'', ''active_orders''],
        rguard (truthy (fld facts ''account'')) (adapter_exn ''peek account facts are empty'')]) (\<lambda>_.
     rbind (check_peek_gateway (fld facts ''gateway'') (fld facts ''account'') account_scope) (\<lambda>name.
     rbind (checks
       [rguard (is_obj execution \<and> keys_are execution [''orders''] \<and> is_obj (fld execution ''orders''))
          (adapter_exn ''peek execution facts are invalid''),
        rguard (\<not> truthy (fld facts ''active_orders'')) blocked,
        rguard (\<not> truthy (fld execution ''orders'')) blocked,
        check_peek_admission (fld facts ''admission'') account_scope]) (\<lambda>_.
     Inr \<lparr>pf_snapshot = peek_snapshot now facts account_scope, pf_gateway_name = name\<rparr>))))"

end
