(* ===== verification/Adapter_Positions.thy ===== *)
theory Adapter_Positions
  imports Adapter_Facts
begin

text \<open>
  What the target adapter does with the rows of an account's positions: the rows of one contract, the
  close offset that the exchange demands of it, and the rows after a planned order.
\<close>

section \<open>The rows of a contract\<close>

definition text_field :: "json \<Rightarrow> string \<Rightarrow> string" where
  "text_field row f = str_upper (py_str (get_or row f (JStr [])))"

definition row_direction :: "json \<Rightarrow> string" where
  "row_direction row = text_field row ''direction''"

definition row_lots :: "json \<Rightarrow> int" where
  "row_lots row = the_int (fld row ''volume'')"

definition of_contract :: "string \<Rightarrow> string \<Rightarrow> json \<Rightarrow> bool" where
  "of_contract exchange symbol row \<longleftrightarrow>
     text_field row ''symbol'' = str_upper symbol \<and> text_field row ''exchange'' = exchange"

type_synonym position_rows = "(string \<times> json) list"

text \<open>A row of another contract is only checked for its volume.\<close>

definition contract_row :: "string \<Rightarrow> string \<Rightarrow> string \<Rightarrow> string \<times> json \<Rightarrow> position_rows res" where
  "contract_row exchange symbol gateway_name kv =
     (if \<not> is_obj (snd kv) then adapter_error ''current position row is invalid''
      else rbind (adapter_mapping (snd kv) ''current position row'') (\<lambda>row.
        rbind (rguard (int_at_least 0 (fld row ''volume'')) (adapter_exn ''current position volume is invalid'')) (\<lambda>_.
        if \<not> of_contract exchange symbol row then Inr []
        else rbind (checks
          [rguard (text_field row ''gateway_name'' = str_upper gateway_name)
             (adapter_exn ''current position gateway mismatch''),
           rguard (row_direction row \<in> {''LONG'', ''SHORT''}) (adapter_exn ''current position direction is invalid'')])
          (\<lambda>_. Inr [(fst kv, row)]))))"

definition lots_of :: "string \<Rightarrow> position_rows \<Rightarrow> int" where
  "lots_of direction rows = sum_list (map (\<lambda>kv. row_lots (snd kv)) (filter (\<lambda>kv. row_direction (snd kv) = direction) rows))"

definition current_contract_positions ::
  "json \<Rightarrow> string \<Rightarrow> string \<Rightarrow> string \<Rightarrow> (int \<times> int \<times> position_rows) res" where
  "current_contract_positions positions exchange symbol gateway_name =
     rbind (rmap (contract_row exchange symbol gateway_name) (items positions)) (\<lambda>found.
     let matching = concat found in Inr (lots_of ''LONG'' matching, lots_of ''SHORT'' matching, matching))"

section \<open>After an order\<close>

definition opposite :: "string \<Rightarrow> string" where
  "opposite direction = (if direction = ''LONG'' then ''SHORT'' else ''LONG'')"

definition closable :: "position_rows \<Rightarrow> string \<Rightarrow> position_rows" where
  "closable matching direction = filter (\<lambda>kv. row_direction (snd kv) = opposite direction \<and> 0 < row_lots (snd kv)) matching"

definition with_lots :: "json \<Rightarrow> int \<Rightarrow> json" where
  "with_lots row n = dset row ''volume'' (JInt n)"

definition new_position :: "string \<Rightarrow> string \<Rightarrow> string \<Rightarrow> string \<Rightarrow> int \<Rightarrow> json" where
  "new_position gateway_name symbol exchange direction quantity = JObj
     [(''gateway_name'', JStr gateway_name), (''symbol'', JStr symbol), (''exchange'', JStr exchange),
      (''direction'', JStr direction), (''volume'', JInt quantity)]"

definition new_position_key :: "string \<Rightarrow> string \<Rightarrow> string \<Rightarrow> string \<Rightarrow> string" where
  "new_position_key gateway_name symbol exchange direction =
     symbol @ ''.'' @ exchange @ ''.'' @ direction @ ''.'' @ gateway_name @ ''.target-v1''"

definition after_positions ::
  "json \<Rightarrow> position_rows \<Rightarrow> string \<Rightarrow> string \<Rightarrow> string \<Rightarrow> string \<Rightarrow> string \<Rightarrow> int \<Rightarrow> json res" where
  "after_positions positions matching exchange symbol gateway_name direction offset quantity =
     rbind (rguard (1 \<le> quantity) (adapter_exn ''target position quantity is invalid'')) (\<lambda>_.
     rbind (adapter_mapping positions ''current positions'') (\<lambda>result.
     if offset \<in> set CLOSE_ORDER_OFFSETS
     then (case sort_key fst (closable matching direction) of
         [] \<Rightarrow> adapter_error ''close direction has no current position''
       | (key, row) # _ \<Rightarrow>
           if row_lots row < quantity then adapter_error ''close target quantity exceeds position''
           else Inr (dset result key (with_lots row (row_lots row - quantity))))
     else (case sort_key fst (filter (\<lambda>kv. row_direction (snd kv) = direction) matching) of
         (key, row) # _ \<Rightarrow> Inr (dset result key (with_lots row (row_lots row + quantity)))
       | [] \<Rightarrow> let key = new_position_key gateway_name symbol exchange direction in
           if has_key result key then adapter_error ''new target position key collides''
           else Inr (dset result key (new_position gateway_name symbol exchange direction quantity)))))"

text \<open>SHFE and INE close today's and yesterday's lots under different offsets; today's go first.\<close>

definition yd_lots :: "json \<Rightarrow> int res" where
  "yd_lots row =
     (let yd = fld row ''yd_volume'' in
      if int_at_least 0 yd \<and> the_int yd \<le> row_lots row then Inr (the_int yd)
      else adapter_error ''SHFE/INE current position yd_volume is missing or inconsistent'')"

definition close_order_offset :: "position_rows \<Rightarrow> string \<Rightarrow> string \<Rightarrow> string res" where
  "close_order_offset matching exchange direction =
     (if exchange \<notin> set YD_AWARE_EXCHANGES then Inr ''CLOSE''
      else let rows = map snd (closable matching direction) in
        if rows = [] then adapter_error ''close direction has no current position''
        else rbind (rmap yd_lots rows) (\<lambda>yds.
          let volume = sum_list (map row_lots rows); yd = sum_list yds in
          if 1 \<le> volume - yd then Inr ''CLOSETODAY''
          else if 1 \<le> yd then Inr ''CLOSEYESTERDAY''
          else adapter_error ''SHFE/INE current position yd_volume is missing or inconsistent''))"

text \<open>One lot of the only closable row, with yesterday's lots kept in step.\<close>

definition after_one_close :: "json \<Rightarrow> string \<Rightarrow> json res" where
  "after_one_close row offset =
     (let less = with_lots row (row_lots row - 1);
          bad = adapter_error ''SHFE/INE current position yd_volume is missing or inconsistent'' in
      if offset = ''CLOSETODAY''
      then rbind (yd_lots row) (\<lambda>yd. if 1 \<le> row_lots row - yd then Inr less else bad)
      else if offset = ''CLOSEYESTERDAY''
      then rbind (yd_lots row) (\<lambda>yd. if 1 \<le> yd then Inr (dset less ''yd_volume'' (JInt (yd - 1))) else bad)
      else if offset = ''CLOSE'' then Inr less
      else adapter_error ''SAFETY FLAT would not close'')"

definition after_safety_flat_close :: "json \<Rightarrow> position_rows \<Rightarrow> string \<Rightarrow> string \<Rightarrow> json res" where
  "after_safety_flat_close positions matching direction offset =
     (case closable matching direction of
        [(key, row)] \<Rightarrow>
          rbind (adapter_mapping positions ''current positions'') (\<lambda>result.
          rbind (adapter_mapping row ''current position row'') (\<lambda>updated.
          rbind (after_one_close updated offset) (\<lambda>row'. Inr (dset result key row'))))
      | _ \<Rightarrow> adapter_error ''SAFETY FLAT close position is invalid'')"

definition require_single_reduce_only_position :: "json \<Rightarrow> position_rows \<Rightarrow> int \<Rightarrow> int \<Rightarrow> unit res" where
  "require_single_reduce_only_position positions matching long_volume short_volume = checks
     [rguard (dlen positions = 1 \<and> length matching = 1)
        (adapter_exn ''reduce-only close requires exactly one C_FAST contract position''),
      rguard ((long_volume, short_volume) \<in> {(1, 0), (0, 1)})
        (adapter_exn ''reduce-only close requires exactly one one-lot position'')]"

end
