(* ===== verification/Adapter_Plan.thy ===== *)
theory Adapter_Plan
  imports Adapter_Positions Artifact_Envelope
begin

text \<open>
  \<open>build_executable_target_plan\<close>: one lot of one contract, from the difference of a signed or keyless
  target and the current position to an immutable plan of one order.

  \<open>datetime.fromisoformat\<close> on a text of any ISO form is a parameter: no value where it raises, else the
  instant and, for an aware time, its offset to UTC.
\<close>

section \<open>Times\<close>

type_synonym iso_reader = "string \<Rightarrow> (int \<times> int option) option"

text \<open>\<open>t.isoformat().replace("+00:00", "Z")\<close> of a UTC time.\<close>

definition isoformat_z :: "int \<Rightarrow> string" where
  "isoformat_z t =
     (let (y, mo, d) = civil_of_day (t div day_micros + epoch_day);
          r = nat (t mod day_micros); sec = r div 1000000; u = r mod 1000000
      in clock_text (nat y) (nat mo) (nat d) (sec div 3600) (sec div 60 mod 60) (sec mod 60)
         @ (if u = 0 then [] else ''.'' @ pad6 u) @ ''Z'')"

section \<open>The move\<close>

record planned_move =
  mv_direction :: string
  mv_offset :: string
  mv_after :: json

definition closes_position :: "int \<Rightarrow> int \<Rightarrow> int \<Rightarrow> bool" where
  "closes_position delta long_volume short_volume \<longleftrightarrow>
     (0 < delta \<and> 0 < short_volume) \<or> (delta < 0 \<and> 0 < long_volume)"

definition one_lot_move ::
  "json \<Rightarrow> string \<Rightarrow> string \<Rightarrow> string \<Rightarrow> bool \<Rightarrow> int \<Rightarrow> int \<times> int \<times> position_rows \<Rightarrow> planned_move res" where
  "one_lot_move positions exchange symbol gateway_name reduce_only target_quantity current =
     (let (long_volume, short_volume, matching) = current; delta = target_quantity - (long_volume - short_volume);
          direction = (if 0 < delta then ''LONG'' else ''SHORT'') in
      rbind (checks
        [rguard (delta \<noteq> 0) (adapter_exn ''target-current delta is zero''),
         rguard (\<bar>delta\<bar> = 1) (adapter_exn ''only one-lot target-current deltas are allowed'')]) (\<lambda>_.
      rbind (if closes_position delta long_volume short_volume then close_order_offset matching exchange direction
        else Inr ''OPEN'') (\<lambda>offset.
      rbind (rguard (\<not> (reduce_only \<and> offset \<notin> set CLOSE_ORDER_OFFSETS))
        (adapter_exn ''reduce-only close would not close'')) (\<lambda>_.
      rbind (after_positions positions matching exchange symbol gateway_name direction offset 1) (\<lambda>after.
      Inr \<lparr>mv_direction = direction, mv_offset = offset, mv_after = after\<rparr>)))))"

section \<open>What is asked for\<close>

record plan_request =
  rq_map_candidate :: json
  rq_c_fast_candidate :: json
  rq_authority_receipt :: "json option"
  rq_current_facts :: gateway_snapshot
  rq_reconciliation :: json
  rq_product :: json
  rq_account_scope :: json
  rq_environment :: json
  rq_gateway_name :: json
  rq_reduce_only_close :: bool
  rq_limit_price :: "json option"
  rq_keyless_expires_at :: "string option"

record plan_tuple =
  pt_scope :: string
  pt_environment :: string
  pt_gateway :: string
  pt_product :: string

definition normalized_tuple :: "plan_request \<Rightarrow> plan_tuple res" where
  "normalized_tuple q =
     rbind (require_text (rq_account_scope q) ''account scope'') (\<lambda>scope.
     rbind (require_text (rq_environment q) ''environment'') (\<lambda>env.
     rbind (require_text (rq_gateway_name q) ''gateway name'') (\<lambda>gateway.
     rbind (checks
       [rguard (str_upper env = ''SIMNOW'') (adapter_exn ''only SIMNOW target plans are supported''),
        rguard (rq_reduce_only_close q \<or> rq_limit_price q = None)
          (adapter_exn ''reduce-only close limit price requires reduce-only close mode'')]) (\<lambda>_.
     rbind (require_text (rq_product q) ''product'') (\<lambda>product.
     Inr \<lparr>pt_scope = scope, pt_environment = str_upper env, pt_gateway = gateway, pt_product = str_lower product\<rparr>)))))"

section \<open>Under which authority\<close>

record plan_authority =
  pa_receipt :: "custody_receipt option"
  pa_scope :: json
  pa_expires_at :: string

definition keyless_expiry_ok :: "iso_reader \<Rightarrow> int \<Rightarrow> string \<Rightarrow> bool" where
  "keyless_expiry_ok read_iso now text =
     (case read_iso (replace_z text) of Some (t, Some offset) \<Rightarrow> now < t | _ \<Rightarrow> False)"

definition keyless_authority :: "iso_reader \<Rightarrow> int \<Rightarrow> plan_tuple \<Rightarrow> string option \<Rightarrow> plan_authority res" where
  "keyless_authority read_iso now tuple expiry =
     (case expiry of
        None \<Rightarrow> adapter_error ''trusted keyless tuple is invalid''
      | Some text \<Rightarrow> rbind (checks
          [rguard (pt_scope tuple = ''account:windows'' \<and> pt_environment tuple = ''SIMNOW'' \<and> pt_gateway tuple = ''CTP'')
             (adapter_exn ''trusted keyless tuple is invalid''),
           rguard (keyless_expiry_ok read_iso now text) (adapter_exn ''trusted keyless expiry is invalid'')]) (\<lambda>_.
          Inr \<lparr>pa_receipt = None, pa_scope = TRUSTED_KEYLESS_SIMNOW_SCOPE, pa_expires_at = text\<rparr>))"

definition is_runtime_authorization :: "json \<Rightarrow> bool" where
  "is_runtime_authorization raw \<longleftrightarrow> fld raw ''artifact_type'' = JStr ''runtime-authorization''
     \<and> fld raw ''trust_domain'' = JStr ''runtime_authorization''
     \<and> fld raw ''schema_ref'' = JStr ''phase-c-runtime-authorization-v1''"

definition signed_authority :: "int \<Rightarrow> plan_tuple \<Rightarrow> string option \<Rightarrow> json \<Rightarrow> plan_authority res" where
  "signed_authority now tuple expiry value =
     rbind (rguard (expiry = None) (adapter_exn ''signed target plan cannot set keyless expiry'')) (\<lambda>_.
     rbind (rcatch (verified_receipt_from_mapping value) (\<lambda>x. if is_a x CommodityExecutionContractError
       then adapter_error ''authority custody receipt is invalid'' else Inl x)) (\<lambda>r.
     let scope = fld (cu_raw r) ''scope'' in
     rbind (checks
       [rguard (is_runtime_authorization (cu_raw r)) (adapter_exn ''authority receipt type is invalid''),
        rguard (fld scope ''account_scope'' = JStr (pt_scope tuple) \<and> fld scope ''environment'' = JStr (pt_environment tuple)
          \<and> fld scope ''gateway_name'' = JStr (pt_gateway tuple))
          (adapter_exn ''authority scope/gateway does not match target''),
        rguard (now < cu_expires_at r) (adapter_exn ''authority receipt is expired'')]) (\<lambda>_.
     Inr \<lparr>pa_receipt = Some r, pa_scope = scope, pa_expires_at = py_str (fld (cu_raw r) ''expires_at'')\<rparr>)))"

definition plan_authority_of :: "iso_reader \<Rightarrow> int \<Rightarrow> plan_tuple \<Rightarrow> plan_request \<Rightarrow> plan_authority res" where
  "plan_authority_of read_iso now tuple q =
     (case rq_authority_receipt q of
        None \<Rightarrow> keyless_authority read_iso now tuple (rq_keyless_expires_at q)
      | Some value \<Rightarrow> signed_authority now tuple (rq_keyless_expires_at q) value)"

section \<open>The plan\<close>

text \<open>The hash of the positions before the order cannot raise here: the same projection was made for the snapshot.\<close>

text \<open>The lots that the plan aims at and the price of its order: a reduce-only close aims at none.\<close>

definition effective_target ::
  "plan_request \<Rightarrow> json \<Rightarrow> json \<Rightarrow> json \<Rightarrow> int \<times> int \<times> position_rows \<Rightarrow> (int \<times> json) res" where
  "effective_target q target price positions current =
     (let (long_volume, short_volume, matching) = current in
      if \<not> rq_reduce_only_close q then Inr (the_int (fld target ''target_quantity''), price)
      else rbind (rguard (fld target ''target_quantity'' = JInt (- 1))
          (adapter_exn ''reduce-only close requires the existing C_FAST target to be -1'')) (\<lambda>_.
        rbind (require_single_reduce_only_position positions matching long_volume short_volume) (\<lambda>_.
        rbind (reduce_only_limit_price (case rq_limit_price q of None \<Rightarrow> JNull | Some p \<Rightarrow> p) (fld target ''price_tick''))
          (\<lambda>limit. Inr (0, limit)))))"

definition one_lot_order :: "string \<Rightarrow> string \<Rightarrow> planned_move \<Rightarrow> json \<Rightarrow> string \<Rightarrow> string \<Rightarrow> json" where
  "one_lot_order symbol exchange m price reference gateway_name = JObj
     [(''symbol'', JStr symbol), (''exchange'', JStr exchange), (''direction'', JStr (mv_direction m)),
      (''type'', JStr ''LIMIT''), (''volume'', JInt 1), (''price'', price), (''offset'', JStr (mv_offset m)),
      (''reference'', JStr reference), (''gateway_name'', JStr gateway_name)]"

definition plan_identity :: "string \<Rightarrow> string \<Rightarrow> string \<Rightarrow> plan_tuple \<Rightarrow> string" where
  "plan_identity map_hash c_fast_hash before_hash tuple = json_hash (JObj
     [(''map_sha256'', JStr map_hash), (''c_fast_sha256'', JStr c_fast_hash),
      (''expected_before_position_hash'', JStr before_hash), (''product'', JStr (pt_product tuple)),
      (''gateway_name'', JStr (pt_gateway tuple))])"

definition shared_plan_fields ::
  "plan_tuple \<Rightarrow> plan_authority \<Rightarrow> string \<Rightarrow> string \<Rightarrow> string \<Rightarrow> string \<Rightarrow> json \<Rightarrow> (string \<times> json) list" where
  "shared_plan_fields tuple auth identity offset before_hash after_hash order =
     [(''plan_id'', JStr (''cfast-target-plan-v1-'' @ identity)), (''account_scope'', JStr (pt_scope tuple)),
      (''environment'', JStr (pt_environment tuple)), (''scope'', pa_scope auth),
      (''expires_at'', JStr (pa_expires_at auth)),
      (''phase'', JStr (if offset \<in> set CLOSE_ORDER_OFFSETS then ''CLOSE'' else ''OPEN'')),
      (''expected_before_position_hash'', JStr before_hash), (''expected_after_position_hash'', JStr after_hash),
      (''orders'', JArr [order])]"

definition receipt_plan_fields :: "custody_receipt \<Rightarrow> (string \<times> json) list" where
  "receipt_plan_fields r =
     [(''authority_artifact_id'', fld (cu_raw r) ''artifact_id''), (''authority_artifact_sha256'', fld (cu_raw r) ''artifact_sha256''),
      (''authority_receipt_id'', fld (cu_raw r) ''receipt_id''), (''authority_receipt_sha256'', JStr (cu_sha256 r)),
      (''signer_key_id'', JStr (py_str (fld (cu_raw r) ''signer_key_id''))),
      (''signer_key_version'', JStr (py_str (fld (cu_raw r) ''signer_key_version''))),
      (''keyring_raw_sha256'', JStr (py_str (fld (cu_raw r) ''keyring_raw_sha256'')))]"

definition sealed_plan :: "int \<Rightarrow> plan_authority \<Rightarrow> string \<times> string \<Rightarrow> (string \<times> json) list \<Rightarrow> json res" where
  "sealed_plan now auth lineage shared =
     (case pa_receipt auth of
        Some r \<Rightarrow> build_target_plan (JObj (shared @ receipt_plan_fields r))
      | None \<Rightarrow> build_trusted_keyless_target_plan (JObj (shared @
          [(''gateway_name'', JStr ''CTP''),
           (''lineage'', JObj [(''map_sha256'', JStr (fst lineage)), (''c_fast_sha256'', JStr (snd lineage))]),
           (''generated_at'', JStr (isoformat_z now))])))"

record plan_handoff =
  ho_target_plan :: json
  ho_lineage :: "string list"
  ho_scope :: json
  ho_expires_at :: string

definition build_executable_target_plan :: "iso_reader \<Rightarrow> int \<Rightarrow> plan_request \<Rightarrow> plan_handoff res" where
  "build_executable_target_plan read_iso now q =
     rbind (normalized_tuple q) (\<lambda>tuple.
     rbind (validate_lineage (rq_map_candidate q) (rq_c_fast_candidate q)) (\<lambda>lineage.
     rbind (adapter_mapping (rq_c_fast_candidate q) ''C_FAST candidate'') (\<lambda>candidate.
     rbind (selected_target candidate (pt_product tuple)) (\<lambda>(target, exchange, symbol, price).
     rbind (plan_authority_of read_iso now tuple q) (\<lambda>auth.
     rbind (validate_snapshot (rq_current_facts q) (pt_scope tuple) (pt_environment tuple) (rq_reconciliation q)) (\<lambda>positions.
     rbind (current_contract_positions positions exchange symbol (pt_gateway tuple)) (\<lambda>current.
     rbind (effective_target q target price positions current) (\<lambda>(target_quantity, order_price).
     rbind (one_lot_move positions exchange symbol (pt_gateway tuple) (rq_reduce_only_close q) target_quantity current) (\<lambda>m.
     rbind (before_position_projection_hash positions (JStr (pt_scope tuple)) (JStr (pt_environment tuple))) (\<lambda>before_hash.
     rbind (target_position_projection_hash (mv_after m) (JStr (pt_scope tuple)) (JStr (pt_environment tuple))) (\<lambda>after_hash.
     let identity = plan_identity (fst lineage) (snd lineage) before_hash tuple in
     rbind (sealed_plan now auth lineage (shared_plan_fields tuple auth identity (mv_offset m) before_hash after_hash
       (one_lot_order symbol exchange m order_price identity (pt_gateway tuple)))) (\<lambda>plan.
     Inr \<lparr>ho_target_plan = plan, ho_lineage = [fst lineage, snd lineage], ho_scope = pa_scope auth,
       ho_expires_at = py_str (fld plan ''expires_at'')\<rparr>))))))))))))"

definition build_trusted_keyless_executable_target_plan :: "iso_reader \<Rightarrow> int \<Rightarrow> plan_request \<Rightarrow> string \<Rightarrow> plan_handoff res" where
  "build_trusted_keyless_executable_target_plan read_iso now q expires_at =
     build_executable_target_plan read_iso now (q\<lparr>rq_authority_receipt := None, rq_account_scope := JStr ''account:windows'',
       rq_environment := JStr ''SIMNOW'', rq_gateway_name := JStr ''CTP'', rq_keyless_expires_at := Some expires_at\<rparr>)"

end
