(* ===== verification/Adapter_Targets.thy ===== *)
theory Adapter_Targets
  imports Adapter_Plan
begin

text \<open>
  The ten-product target of the STATIC_CORE_EQUAL strategy: the replayed research artifacts that it comes
  from, the position manager's snapshot bound to them, and the two decisions for one product, a target to
  open from a flat account and the close of everything.
\<close>

section \<open>The frozen universe\<close>

definition FROZEN_SECTOR_MAP :: "(string \<times> string) list" where
  "FROZEN_SECTOR_MAP = [(''ag'', ''precious''), (''al'', ''nonferrous''), (''au'', ''precious''),
     (''bu'', ''energy_chemical''), (''cu'', ''nonferrous''), (''rb'', ''ferrous''), (''ru'', ''energy_chemical''),
     (''sc'', ''energy''), (''sp'', ''light_industry''), (''zn'', ''nonferrous'')]"

definition STATIC_PRODUCTS :: "string list" where
  "STATIC_PRODUCTS = map fst FROZEN_SECTOR_MAP"

definition sector_map_json :: json where
  "sector_map_json = JObj (map (\<lambda>(p, s). (p, JStr s)) FROZEN_SECTOR_MAP)"

definition sector_of :: "string \<Rightarrow> json" where
  "sector_of product = (case map_of FROZEN_SECTOR_MAP product of None \<Rightarrow> JNull | Some s \<Rightarrow> JStr s)"

definition static_exchange :: "string \<Rightarrow> string" where
  "static_exchange product = (if product = ''sc'' then ''INE'' else ''SHFE'')"

definition STATIC_STATUS :: string where
  "STATIC_STATUS = ''PURE_RESEARCH_PRODUCER_ONLY_NOT_REAL_ARTIFACT''"

definition STATIC_KERNEL_ID :: string where
  "STATIC_KERNEL_ID = ''commodity_static_core_equal_pure_producer_v1''"

definition STATIC_ARTIFACT_ROLES :: "string list" where
  "STATIC_ARTIFACT_ROLES = [''freeze_contract'', ''research_manifest'', ''signal_evidence'', ''target_evidence'',
     ''allocation_evidence'', ''daily_roll_evidence'', ''reference_price_evidence'', ''calendar_authority'',
     ''contract_spec_evidence'']"

definition STATIC_AUTHORITY_FIELDS :: "string list" where
  "STATIC_AUTHORITY_FIELDS = [''control_authorized'', ''deployment_authorized'', ''execution_authorized'',
     ''simnow_execution_authorized'', ''runtime_activation_authorized'', ''network_authorized'',
     ''web_bridge_rpc_authorized'', ''order_authorized'', ''order_submission_authorized'',
     ''position_mutation_authorized'', ''dispatch_authorized'', ''trading_authorized'', ''production_authorized'',
     ''automatic_promotion_authorized'']"

definition candidate_weights :: json where
  "candidate_weights = JObj [(''C'', JDec 5 (- 1)), (''D'', JDec 5 (- 1))]"

section \<open>The replayed artifacts\<close>

definition require_static_false_authority :: "json \<Rightarrow> string \<Rightarrow> unit res" where
  "require_static_false_authority payload label =
     (let bad = adapter_exn (label @ '' attempts to grant authority'') in checks
     [rguard (list_all (\<lambda>f. fld payload f = JBool False) STATIC_AUTHORITY_FIELDS) bad,
      rguard (list_all (\<lambda>(k, v). ends_with ''_authorized'' k \<longrightarrow> v = JBool False) (items payload)) bad])"

definition STATIC_PROJECTION_FIELDS :: "string list" where
  "STATIC_PROJECTION_FIELDS = [''projection_type'', ''status'', ''scheduler_id'', ''producer_kernel_id'',
     ''source_view_canonical_sha256'', ''artifact_roles'', ''artifact_digests'']"

definition check_static_digest :: "string \<times> json \<Rightarrow> unit res" where
  "check_static_digest entry = checks
     [rguard (is_obj (snd entry) \<and> keys_are (snd entry) [''role'', ''sha256''] \<and> fld (snd entry) ''role'' = JStr (fst entry))
        (adapter_exn ''STATIC_CORE_EQUAL artifact digests are invalid''),
      just (adapter_sha (fld (snd entry) ''sha256'') ''STATIC_CORE_EQUAL artifact digest'')]"

definition role_digest :: "json \<Rightarrow> string \<Rightarrow> json" where
  "role_digest digests role =
     (case map_of (zip STATIC_ARTIFACT_ROLES (jarr digests)) role of None \<Rightarrow> JNull | Some item \<Rightarrow> fld item ''sha256'')"

definition check_static_projection :: "json \<Rightarrow> unit res" where
  "check_static_projection p =
     (let digests = fld p ''artifact_digests'' in checks
     [rguard (keys_are p STATIC_PROJECTION_FIELDS) (adapter_exn ''STATIC_CORE_EQUAL projection fields are invalid''),
      rguard (fld p ''projection_type'' = JStr ''research_evidence_projection_v1'' \<and> fld p ''status'' = JStr STATIC_STATUS
          \<and> fld p ''scheduler_id'' = JStr ''STATIC_CORE_EQUAL'' \<and> fld p ''producer_kernel_id'' = JStr STATIC_KERNEL_ID
          \<and> fld p ''artifact_roles'' = JArr (map JStr STATIC_ARTIFACT_ROLES))
        (adapter_exn ''STATIC_CORE_EQUAL projection identity is invalid''),
      just (adapter_sha (fld p ''source_view_canonical_sha256'') ''STATIC_CORE_EQUAL source hash''),
      rguard (is_jarr digests \<and> length (jarr digests) = length STATIC_ARTIFACT_ROLES)
        (adapter_exn ''STATIC_CORE_EQUAL artifact digests are invalid''),
      rall check_static_digest (zip STATIC_ARTIFACT_ROLES (jarr digests))])"

definition check_static_payload :: "json \<Rightarrow> json \<times> string \<times> string \<Rightarrow> unit res" where
  "check_static_payload projection entry =
     (let (payload, role, role_id) = entry in checks
     [rguard (fld payload ''status'' = JStr STATIC_STATUS \<and> fld payload ''scheduler_id'' = JStr ''STATIC_CORE_EQUAL''
          \<and> fld payload ''producer_kernel_id'' = JStr STATIC_KERNEL_ID \<and> fld payload ''artifact_role'' = JStr role_id
          \<and> fld payload ''source_view_canonical_sha256'' = fld projection ''source_view_canonical_sha256''
          \<and> fld payload ''research_evidence_only'' = JBool True)
        (adapter_exn (''STATIC_CORE_EQUAL '' @ role @ '' identity is invalid'')),
      require_static_false_authority payload (''STATIC_CORE_EQUAL '' @ role)])"

definition frozen_identity :: "json \<Rightarrow> bool" where
  "frozen_identity freeze \<longleftrightarrow> jeq (fld freeze ''candidate_weights'') candidate_weights
     \<and> fld freeze ''C_candidate_id'' = JStr ''C_FAST_CROSS_SECTION_NEUTRAL''
     \<and> fld freeze ''D_candidate_id'' = JStr ''D_DONCHIAN20_EXIT10_NEUTRAL''
     \<and> fld freeze ''sector_map_id'' = JStr ''COMMODITY_FROZEN_SECTOR_MAP_V1''
     \<and> jeq (fld freeze ''sector_map'') sector_map_json"

type_synonym product_rows = "(string \<times> json) list"

definition indexed :: "string \<Rightarrow> nat \<Rightarrow> string" where
  "indexed label i = label @ ''['' @ nat_str i @ '']''"

definition static_row :: "nat \<times> string \<times> json \<Rightarrow> (string \<times> json) res" where
  "static_row entry =
     (let (i, product, raw) = entry in
      rbind (adapter_mapping raw (indexed ''STATIC_CORE_EQUAL target'' i)) (\<lambda>row.
      rbind (checks
        [rguard (fld row ''product'' = JStr product)
           (adapter_exn ''STATIC_CORE_EQUAL targets are incomplete or reordered''),
         rguard (fld row ''sector'' = sector_of product) (adapter_exn ''STATIC_CORE_EQUAL target sector map is invalid''),
         rguard (is_jint (fld row ''target_quantity'')) (adapter_exn ''STATIC_CORE_EQUAL target quantity is invalid''),
         just (adapter_contract (fld row ''exact_contract''))]) (\<lambda>_.
      Inr (product, row))))"

record static_outputs =
  so_sha256 :: string
  so_rows :: product_rows
  so_execution_day :: string

definition static_core_equal_outputs :: "json \<Rightarrow> json \<Rightarrow> json \<Rightarrow> static_outputs res" where
  "static_core_equal_outputs producer_projection freeze_contract target_evidence =
     rbind (adapter_mapping producer_projection ''STATIC_CORE_EQUAL projection'') (\<lambda>projection.
     rbind (adapter_mapping freeze_contract ''STATIC_CORE_EQUAL freeze contract'') (\<lambda>freeze.
     rbind (adapter_mapping target_evidence ''STATIC_CORE_EQUAL target evidence'') (\<lambda>target.
     let digests = fld projection ''artifact_digests''; rows = fld target ''targets'' in
     rbind (checks
       [check_static_projection projection,
        rguard (role_digest digests ''freeze_contract'' = JStr (json_hash freeze)
          \<and> role_digest digests ''target_evidence'' = JStr (json_hash target))
          (adapter_exn ''STATIC_CORE_EQUAL replay artifacts are cross-spliced''),
        rall (check_static_payload projection)
          [(freeze, ''freeze contract'', ''freeze_contract''), (target, ''target evidence'', ''target_evidence'')],
        rguard (frozen_identity freeze) (adapter_exn ''STATIC_CORE_EQUAL frozen identity is invalid''),
        rguard (is_jarr rows \<and> length (jarr rows) = length STATIC_PRODUCTS)
          (adapter_exn ''STATIC_CORE_EQUAL must contain the frozen ten targets'')]) (\<lambda>_.
     rbind (rmap static_row (enumerate 0 (zip STATIC_PRODUCTS (jarr rows)))) (\<lambda>by_product.
     rbind (require_text (fld target ''execution_day'') ''STATIC_CORE_EQUAL execution day'') (\<lambda>day.
     Inr \<lparr>so_sha256 = json_hash projection, so_rows = by_product, so_execution_day = day\<rparr>))))))"

section \<open>The position manager's targets\<close>

definition row_for :: "product_rows \<Rightarrow> string \<Rightarrow> json" where
  "row_for rows product = (case map_of rows product of None \<Rightarrow> JNull | Some row \<Rightarrow> row)"

definition row_target :: "product_rows \<Rightarrow> string \<Rightarrow> int" where
  "row_target rows product = the_int (fld (row_for rows product) ''target_quantity'')"

text \<open>\<open>row[k]\<close>.\<close>

definition need :: "json \<Rightarrow> string \<Rightarrow> json res" where
  "need row k = (if has_key row k then Inr (fld row k) else raise PyKeyError k)"

definition BASELINE_FIELDS :: "(string \<times> string) list" where
  "BASELINE_FIELDS = [(''exact_contract'', ''exact_contract''), (''target_quantity'', ''baseline_target_quantity''),
     (''source_target_weight'', ''baseline_source_target_weight''),
     (''buffered_target_weight'', ''baseline_buffered_target_weight''),
     (''reference_open_price'', ''reference_open_price''), (''multiplier'', ''multiplier''), (''price_tick'', ''price_tick'')]"

definition baseline_binding :: "string \<Rightarrow> json \<Rightarrow> json" where
  "baseline_binding product row = JObj ((''product'', JStr product) # map (\<lambda>(k, f). (k, fld row f)) BASELINE_FIELDS)"

definition static_binding :: "json \<Rightarrow> json" where
  "static_binding row = JObj (map (\<lambda>k. (k, fld row k)) (''product'' # map fst BASELINE_FIELDS))"

definition final_row :: "product_rows \<Rightarrow> nat \<times> string \<times> json \<Rightarrow> (string \<times> json) res" where
  "final_row static_rows entry =
     (let (i, product, raw) = entry in
      rbind (adapter_mapping raw (indexed ''position-manager target'' i)) (\<lambda>row.
      rbind (checks
        [rguard (fld row ''product'' = JStr product)
           (adapter_exn ''position-manager targets are incomplete or reordered''),
         rguard (json_hash (baseline_binding product row) = json_hash (static_binding (row_for static_rows product)))
           (adapter_exn (''position-manager baseline is not bound to STATIC_CORE_EQUAL: '' @ product)),
         rguard (is_jint (fld row ''shadow_target_quantity''))
           (adapter_exn ''position-manager shadow target quantity is invalid''),
         just (adapter_contract (fld row ''exact_contract''))]) (\<lambda>_.
      rbind (need row ''reference_open_price'') (\<lambda>price.
      rbind (need row ''multiplier'') (\<lambda>multiplier.
      rbind (need row ''price_tick'') (\<lambda>tick.
      Inr (product, JObj
        [(''product'', JStr product), (''sector'', sector_of product), (''exact_contract'', fld row ''exact_contract''),
         (''target_quantity'', fld row ''shadow_target_quantity''), (''reference_open_price'', price),
         (''multiplier'', multiplier), (''price_tick'', tick)])))))))"

definition manager_identity :: "json \<Rightarrow> string \<Rightarrow> bool" where
  "manager_identity value day \<longleftrightarrow>
     fld value ''schema_version'' = JStr ''commodity_relative_vol_position_manager_shadow_v2''
     \<and> fld value ''position_manager_id'' = JStr ''MONTHLY_RELATIVE_VOL_THERMOSTAT_V1''
     \<and> fld value ''sector_map_id'' = JStr ''POSITION_MANAGER_SECTOR_MAP_V1''
     \<and> fld value ''baseline_scheduler_id'' = JStr ''STATIC_CORE_EQUAL'' \<and> fld value ''mode'' = JStr ''shadow_only''
     \<and> fld value ''execution_lane'' = JStr ''simnow_shakedown'' \<and> fld value ''countable_forward'' = JBool False
     \<and> fld value ''authority_granted'' = JBool False \<and> fld value ''dispatch_allowed'' = JBool False
     \<and> fld value ''execution_day'' = JStr day"

definition final_projection :: "json \<Rightarrow> product_rows \<Rightarrow> json" where
  "final_projection value rows = JObj
     [(''schema_version'', JStr ''commodity_static_core_equal_final_target_projection_v1''),
      (''strategy_id'', JStr ''STATIC_CORE_EQUAL''), (''baseline_scheduler_id'', JStr ''STATIC_CORE_EQUAL''),
      (''execution_lane'', JStr ''simnow_shakedown''), (''candidate_weights'', candidate_weights),
      (''c_sleeve_id'', JStr ''C_FAST_CROSS_SECTION_NEUTRAL''),
      (''c_map_rule_id'', JStr ''commodity_fast_tsmom_forward_freeze_v1''),
      (''d_sleeve_id'', JStr ''D_DONCHIAN20_EXIT10_NEUTRAL''), (''sector_map_id'', JStr ''COMMODITY_FROZEN_SECTOR_MAP_V1''),
      (''position_manager_id'', JStr ''MONTHLY_RELATIVE_VOL_THERMOSTAT_V1''), (''source_month'', fld value ''source_month''),
      (''execution_day'', fld value ''execution_day''), (''authority_granted'', JBool False),
      (''dispatch_allowed'', JBool False), (''production_allowed'', JBool False),
      (''live_trading_authorized'', JBool False), (''countable_forward'', JBool False), (''targets'', JArr (map snd rows))]"

definition position_manager_final_projection ::
  "json \<Rightarrow> json \<Rightarrow> static_outputs \<Rightarrow> (json \<times> product_rows) res" where
  "position_manager_final_projection manager_snapshot expected static =
     rbind (adapter_mapping manager_snapshot ''position-manager snapshot'') (\<lambda>value.
     rbind (adapter_sha expected ''position-manager snapshot hash'') (\<lambda>expected_sha.
     let targets = fld value ''targets'' in
     rbind (checks
       [rguard (json_hash value = expected_sha) (adapter_exn ''position-manager snapshot hash mismatch''),
        rguard (manager_identity value (so_execution_day static)) (adapter_exn ''position-manager snapshot identity is invalid''),
        rguard (is_jarr targets \<and> length (jarr targets) = length STATIC_PRODUCTS)
          (adapter_exn ''position-manager snapshot must contain the frozen ten targets'')]) (\<lambda>_.
     rbind (rmap (final_row (so_rows static)) (enumerate 0 (zip STATIC_PRODUCTS (jarr targets)))) (\<lambda>rows.
     rbind (adapter_mapping (final_projection value rows) ''STATIC_CORE_EQUAL final target projection'') (\<lambda>projection.
     Inr (projection, rows))))))"

section \<open>What both decisions start from\<close>

definition RUN_ID_RE :: "string \<Rightarrow> bool" where
  "RUN_ID_RE s \<longleftrightarrow> 8 \<le> length s \<and> length s \<le> 128 \<and> list_all (\<lambda>c. is_alnum_char c \<or> c \<in> {CHR ''.'', CHR ''_'', CHR ''-''}) s"

definition checked_run_id :: "json \<Rightarrow> string res" where
  "checked_run_id value =
     rbind (require_text value ''run id'') (\<lambda>r. rbind (rguard (RUN_ID_RE r) (adapter_exn ''run id is invalid'')) (\<lambda>_. Inr r))"

record target_inputs =
  ti_projection :: json
  ti_freeze :: json
  ti_target :: json
  ti_snapshot :: json
  ti_manager_sha256 :: json
  ti_facts :: gateway_snapshot
  ti_reconciliation :: json
  ti_run_id :: json

record final_target =
  ft_static :: static_outputs
  ft_manager_sha256 :: string
  ft_projection :: json
  ft_sha256 :: string
  ft_rows :: product_rows

definition replayed_target :: "target_inputs \<Rightarrow> final_target res" where
  "replayed_target q =
     rbind (static_core_equal_outputs (ti_projection q) (ti_freeze q) (ti_target q)) (\<lambda>static.
     rbind (position_manager_final_projection (ti_snapshot q) (ti_manager_sha256 q) static) (\<lambda>(projection, rows).
     rbind (adapter_sha (ti_manager_sha256 q) ''position-manager snapshot hash'') (\<lambda>manager_sha.
     Inr \<lparr>ft_static = static, ft_manager_sha256 = manager_sha, ft_projection = projection,
       ft_sha256 = json_hash projection, ft_rows = rows\<rparr>)))"

record keyless_source =
  ks_product :: string
  ks_run_id :: string
  ks_final :: final_target

definition keyless_source_of ::
  "iso_reader \<Rightarrow> int \<Rightarrow> target_inputs \<Rightarrow> json \<Rightarrow> string \<Rightarrow> keyless_source res" where
  "keyless_source_of read_iso now q product expires_at =
     rbind (require_text product ''product'') (\<lambda>given.
     let p = str_lower given in
     rbind (rguard (p \<in> set STATIC_PRODUCTS) (adapter_exn ''product is outside the frozen universe'')) (\<lambda>_.
     rbind (checked_run_id (ti_run_id q)) (\<lambda>run_id.
     rbind (rguard (keyless_expiry_ok read_iso now expires_at) (adapter_exn ''trusted keyless expiry is invalid'')) (\<lambda>_.
     rbind (replayed_target q) (\<lambda>final.
     Inr \<lparr>ks_product = p, ks_run_id = run_id, ks_final = final\<rparr>)))))"

definition eligible_products :: "product_rows \<Rightarrow> string list" where
  "eligible_products rows = filter (\<lambda>p. row_target rows p \<noteq> 0) STATIC_PRODUCTS"

definition minimum_products :: "product_rows \<Rightarrow> string list" where
  "minimum_products rows =
     (let eligible = eligible_products rows in
      filter (\<lambda>p. list_all (\<lambda>r. \<bar>row_target rows p\<bar> \<le> \<bar>row_target rows r\<bar>) eligible) eligible)"

record keyless_decision =
  kd_handoff :: "plan_handoff option"
  kd_source :: keyless_source
  kd_current :: "int option"
  kd_stop_reason :: "string option"

definition kd_target :: "keyless_decision \<Rightarrow> int" where
  "kd_target d = row_target (ft_rows (ks_final (kd_source d))) (ks_product (kd_source d))"

definition kd_noop :: "keyless_decision \<Rightarrow> bool" where
  "kd_noop d \<longleftrightarrow> kd_handoff d = None \<and> kd_stop_reason d = None"

definition kd_stopped :: "keyless_decision \<Rightarrow> bool" where
  "kd_stopped d \<longleftrightarrow> kd_stop_reason d \<noteq> None"

definition windows_scope :: json where
  "windows_scope = JStr ''account:windows''"

definition windows_positions :: "target_inputs \<Rightarrow> json res" where
  "windows_positions q = validate_snapshot (ti_facts q) ''account:windows'' ''SIMNOW'' (ti_reconciliation q)"

definition gross_volume :: "json \<Rightarrow> int" where
  "gross_volume positions = sum_list (map (\<lambda>kv. row_lots (snd kv)) (items positions))"

section \<open>The plan of a decision\<close>

definition child_order :: "string \<Rightarrow> string \<Rightarrow> string \<Rightarrow> json \<Rightarrow> string \<Rightarrow> string \<Rightarrow> json" where
  "child_order symbol exchange direction price offset reference = JObj
     [(''symbol'', JStr symbol), (''exchange'', JStr exchange), (''direction'', JStr direction), (''type'', JStr ''LIMIT''),
      (''volume'', JInt 1), (''price'', price), (''offset'', JStr offset), (''reference'', JStr reference),
      (''gateway_name'', JStr ''CTP'')]"

definition child_reference :: "string \<Rightarrow> nat \<Rightarrow> string" where
  "child_reference identity i = json_hash (JObj [(''plan_identity'', JStr identity), (''child_index'', JInt (int i))])"

definition lineage_fields :: "final_target \<Rightarrow> (string \<times> json) list" where
  "lineage_fields f =
     [(''static_core_equal_sha256'', JStr (so_sha256 (ft_static f))), (''position_manager_sha256'', JStr (ft_manager_sha256 f)),
      (''final_target_sha256'', JStr (ft_sha256 f))]"

definition lineage_hashes :: "final_target \<Rightarrow> string list" where
  "lineage_hashes f = [so_sha256 (ft_static f), ft_manager_sha256 f, ft_sha256 f]"

definition decision_identity :: "keyless_source \<Rightarrow> string \<Rightarrow> (string \<times> json) list \<Rightarrow> string" where
  "decision_identity s before_hash extra = json_hash (JObj (lineage_fields (ks_final s) @
     [(''expected_before_position_hash'', JStr before_hash), (''product'', JStr (ks_product s)),
      (''gateway_name'', JStr ''CTP''), (''run_id'', JStr (ks_run_id s))] @ extra))"

definition windows_plan_fields ::
  "final_target \<Rightarrow> string \<Rightarrow> string \<Rightarrow> string \<Rightarrow> string \<Rightarrow> string \<Rightarrow> json list \<Rightarrow> (string \<times> json) list" where
  "windows_plan_fields f generated_at expires_at phase before_hash after_hash orders =
     [(''account_scope'', windows_scope), (''environment'', JStr ''SIMNOW''), (''gateway_name'', JStr ''CTP''),
      (''lineage'', JObj (lineage_fields f)), (''scope'', TRUSTED_KEYLESS_SIMNOW_SCOPE),
      (''generated_at'', JStr generated_at), (''expires_at'', JStr expires_at), (''phase'', JStr phase),
      (''expected_before_position_hash'', JStr before_hash), (''expected_after_position_hash'', JStr after_hash),
      (''orders'', JArr orders)]"

definition decision_handoff ::
  "string \<Rightarrow> string \<Rightarrow> int \<Rightarrow> keyless_source \<Rightarrow> string \<Rightarrow> string \<Rightarrow> string \<Rightarrow> string \<Rightarrow> json list \<Rightarrow> plan_handoff res" where
  "decision_handoff what plan_id now s expires_at phase before_hash after_hash orders =
     rbind (on_contract_error what (build_trusted_keyless_target_plan_v2 (JObj ((''plan_id'', JStr plan_id) #
       windows_plan_fields (ks_final s) (isoformat_z now) expires_at phase before_hash after_hash orders)))) (\<lambda>plan.
     Inr \<lparr>ho_target_plan = plan, ho_lineage = lineage_hashes (ks_final s), ho_scope = TRUSTED_KEYLESS_SIMNOW_SCOPE,
       ho_expires_at = py_str (fld plan ''expires_at'')\<rparr>)"

section \<open>Opening a target from a flat account\<close>

text \<open>Nothing to do: the account holds exactly the target and nothing else.\<close>

definition holds_exactly :: "json \<Rightarrow> int \<times> int \<times> position_rows \<Rightarrow> int \<Rightarrow> bool" where
  "holds_exactly positions current target \<longleftrightarrow>
     (let (long_volume, short_volume, matching) = current in
      dlen positions = 1 \<and> length matching = 1 \<and> gross_volume positions = \<bar>target\<bar>
      \<and> long_volume + short_volume = \<bar>target\<bar>
      \<and> (0 < target \<longrightarrow> (long_volume, short_volume) = (target, 0))
      \<and> (target < 0 \<longrightarrow> (long_volume, short_volume) = (0, \<bar>target\<bar>)))"

definition open_children :: "string \<Rightarrow> string \<Rightarrow> string \<Rightarrow> json \<Rightarrow> string \<Rightarrow> int \<Rightarrow> json list" where
  "open_children symbol exchange direction price identity n =
     map (\<lambda>i. child_order symbol exchange direction price ''OPEN'' (child_reference identity i)) [1..<nat n + 1]"

definition open_from_flat ::
  "int \<Rightarrow> keyless_source \<Rightarrow> string \<Rightarrow> json \<Rightarrow> position_rows \<Rightarrow> string \<Rightarrow> string \<Rightarrow> int \<Rightarrow> plan_handoff res" where
  "open_from_flat now s expires_at positions matching exchange symbol delta =
     (let direction = (if 0 < delta then ''LONG'' else ''SHORT'');
          price = fld (row_for (ft_rows (ks_final s)) (ks_product s)) ''reference_open_price'' in
      rbind (before_position_projection_hash positions windows_scope (JStr ''SIMNOW'')) (\<lambda>before_hash.
      rbind (after_positions positions matching exchange symbol ''CTP'' direction ''OPEN'' \<bar>delta\<bar>) (\<lambda>after.
      rbind (target_position_projection_hash after windows_scope (JStr ''SIMNOW'')) (\<lambda>after_hash.
      let identity = decision_identity s before_hash [] in
      decision_handoff ''STATIC_CORE_EQUAL TargetPlan v2 is invalid'' (''static-core-equal-target-plan-v2-'' @ identity) now s
        expires_at ''OPEN'' before_hash after_hash (open_children symbol exchange direction price identity \<bar>delta\<bar>)))))"

definition build_static_core_equal_keyless_target_decision ::
  "iso_reader \<Rightarrow> int \<Rightarrow> target_inputs \<Rightarrow> json \<Rightarrow> string \<Rightarrow> keyless_decision res" where
  "build_static_core_equal_keyless_target_decision read_iso now q product expires_at =
     rbind (keyless_source_of read_iso now q product expires_at) (\<lambda>s.
     let rows = ft_rows (ks_final s); target = row_target rows (ks_product s); minimal = minimum_products rows;
         decide = (\<lambda>handoff current reason.
           \<lparr>kd_handoff = handoff, kd_source = s, kd_current = current, kd_stop_reason = reason\<rparr>) in
     rbind (rguard (minimal = [] \<or> ks_product s \<in> set minimal)
       (adapter_exn ''selected product is not a minimum nonzero target'')) (\<lambda>_.
     rbind (adapter_contract (fld (row_for rows (ks_product s)) ''exact_contract'')) (\<lambda>(exchange, symbol).
     rbind (windows_positions q) (\<lambda>positions.
     rbind (current_contract_positions positions exchange symbol ''CTP'') (\<lambda>(long_volume, short_volume, matching).
     let current = long_volume - short_volume; delta = target - current in
     if minimal = [] then Inr (decide None (Some current) (Some ''no_nonzero_target''))
     else if delta = 0
     then rbind (rguard (holds_exactly positions (long_volume, short_volume, matching) target)
         (adapter_exn ''NOOP requires the sole canonical target position'')) (\<lambda>_. Inr (decide None (Some current) None))
     else rbind (rguard (gross_volume positions = 0) (adapter_exn ''STATIC_CORE_EQUAL Run A requires a flat account'')) (\<lambda>_.
       rbind (open_from_flat now s expires_at positions matching exchange symbol delta) (\<lambda>handoff.
       Inr (decide (Some handoff) (Some current) None))))))))"

section \<open>Closing everything\<close>

text \<open>One lot after another: the offsets of the orders, and the positions after them.\<close>

fun safety_flat_closes ::
  "nat \<Rightarrow> string \<Rightarrow> string \<Rightarrow> string \<Rightarrow> json \<Rightarrow> (string list \<times> json) res" where
  "safety_flat_closes 0 exchange symbol direction positions = Inr ([], positions)"
| "safety_flat_closes (Suc n) exchange symbol direction positions =
     rbind (current_contract_positions positions exchange symbol ''CTP'') (\<lambda>(_, _, matching).
     rbind (close_order_offset matching exchange direction) (\<lambda>offset.
     rbind (rguard (offset \<in> set CLOSE_ORDER_OFFSETS) (adapter_exn ''SAFETY FLAT would not close'')) (\<lambda>_.
     rbind (after_safety_flat_close positions matching direction offset) (\<lambda>after.
     rbind (safety_flat_closes n exchange symbol direction after) (\<lambda>(offsets, final).
     Inr (offset # offsets, final))))))"

definition one_directional :: "json \<Rightarrow> int \<times> int \<times> position_rows \<Rightarrow> bool" where
  "one_directional positions current \<longleftrightarrow>
     (let (long_volume, short_volume, matching) = current in
      dlen positions = 1 \<and> length matching = 1 \<and> long_volume + short_volume = gross_volume positions
      \<and> \<not> (0 < long_volume \<and> 0 < short_volume) \<and> long_volume - short_volume \<noteq> 0)"

definition close_children :: "string \<Rightarrow> string \<Rightarrow> string \<Rightarrow> json \<Rightarrow> string \<Rightarrow> string list \<Rightarrow> json list" where
  "close_children symbol exchange direction price identity offsets =
     map (\<lambda>(i, offset). child_order symbol exchange direction price offset (child_reference identity i)) (enumerate 1 offsets)"

definition close_to_flat ::
  "int \<Rightarrow> keyless_source \<Rightarrow> string \<Rightarrow> json \<Rightarrow> json \<Rightarrow> string \<Rightarrow> string \<Rightarrow> int \<Rightarrow> plan_handoff res" where
  "close_to_flat now s expires_at price positions exchange symbol current =
     (let direction = (if 0 < current then ''SHORT'' else ''LONG'') in
      rbind (before_position_projection_hash positions windows_scope (JStr ''SIMNOW'')) (\<lambda>before_hash.
      rbind (adapter_mapping positions ''current positions'') (\<lambda>working.
      rbind (safety_flat_closes (nat \<bar>current\<bar>) exchange symbol direction working) (\<lambda>(offsets, after).
      rbind (target_position_projection_hash after windows_scope (JStr ''SIMNOW'')) (\<lambda>after_hash.
      let identity = decision_identity s before_hash [(''mode'', JStr ''SAFETY_FLAT''), (''protected_limit_price'', price)] in
      decision_handoff ''STATIC_CORE_EQUAL SAFETY FLAT TargetPlan v2 is invalid''
        (''static-core-equal-safety-flat-plan-v2-'' @ identity) now s expires_at ''CLOSE'' before_hash after_hash
        (close_children symbol exchange direction price identity offsets))))))"

definition build_static_core_equal_keyless_safety_flat_decision ::
  "iso_reader \<Rightarrow> int \<Rightarrow> target_inputs \<Rightarrow> json \<Rightarrow> string \<Rightarrow> json \<Rightarrow> keyless_decision res" where
  "build_static_core_equal_keyless_safety_flat_decision read_iso now q product expires_at limit_price =
     rbind (keyless_source_of read_iso now q product expires_at) (\<lambda>s.
     let rows = ft_rows (ks_final s); selected = row_for rows (ks_product s); target = row_target rows (ks_product s);
         minimal = minimum_products rows;
         decide = (\<lambda>handoff current reason.
           \<lparr>kd_handoff = handoff, kd_source = s, kd_current = current, kd_stop_reason = reason\<rparr>) in
     rbind (reduce_only_limit_price limit_price (fld selected ''price_tick'')) (\<lambda>price.
     if minimal = [] then Inr (decide None None (Some ''no_nonzero_target''))
     else rbind (rguard (ks_product s \<in> set minimal)
         (adapter_exn ''selected product is not a minimum nonzero target'')) (\<lambda>_.
       rbind (adapter_contract (fld selected ''exact_contract'')) (\<lambda>(exchange, symbol).
       rbind (windows_positions q) (\<lambda>positions.
       rbind (current_contract_positions positions exchange symbol ''CTP'') (\<lambda>(long_volume, short_volume, matching).
       let current = long_volume - short_volume in
       rbind (rguard (current = target)
         (adapter_exn ''SAFETY FLAT requires the exact selected strategy target position'')) (\<lambda>_.
       if gross_volume positions = 0
       then rbind (rguard (dlen positions = 0) (adapter_exn ''SAFETY FLAT positions are invalid'')) (\<lambda>_.
         Inr (decide None (Some current) None))
       else rbind (rguard (one_directional positions (long_volume, short_volume, matching))
           (adapter_exn ''SAFETY FLAT requires one directional selected-product position'')) (\<lambda>_.
         rbind (close_to_flat now s expires_at price positions exchange symbol current) (\<lambda>handoff.
         Inr (decide (Some handoff) (Some current) None))))))))))"

end
