(* ===== verification/Adapter_Numbers.thy ===== *)
theory Adapter_Numbers
  imports Adapter_Facts
begin

text \<open>
  \<open>float(s)\<close> and \<open>Decimal(s)\<close> of a text: an optional sign, digits with an optional point and an optional
  exponent, or one of the names of infinity and NaN. \<open>float\<close> takes an underscore only between two digits,
  \<open>Decimal\<close> ignores it anywhere.
\<close>

datatype reading = BadText | NonFinite | Finite rat

definition split_at :: "char \<Rightarrow> string \<Rightarrow> string \<times> string option" where
  "split_at c s =
     (let front = takeWhile (\<lambda>x. x \<noteq> c) s in
      (front, if length front = length s then None else Some (drop (length front + 1) s)))"

definition digit_group :: "string \<Rightarrow> bool" where
  "digit_group s \<longleftrightarrow> s \<noteq> [] \<and> list_all (\<lambda>c. is_digit_char c \<or> c = CHR ''_'') s
     \<and> hd s \<noteq> CHR ''_'' \<and> last s \<noteq> CHR ''_''
     \<and> list_all (\<lambda>(a, b). \<not> (a = CHR ''_'' \<and> b = CHR ''_'')) (zip s (tl s))"

definition without_underscores :: "string \<Rightarrow> string" where
  "without_underscores s = filter (\<lambda>c. c \<noteq> CHR ''_'') s"

definition unsigned :: "string \<Rightarrow> bool \<times> string" where
  "unsigned s = (case s of [] \<Rightarrow> (False, []) | c # cs \<Rightarrow> if c = CHR ''-'' then (True, cs)
     else if c = CHR ''+'' then (False, cs) else (False, s))"

text \<open>Integer part and fraction: at least one of them has digits.\<close>

definition mantissa :: "string \<Rightarrow> (int \<times> int) option" where
  "mantissa s =
     (let (whole, part) = split_at (CHR ''.'') s; frac = (case part of None \<Rightarrow> [] | Some f \<Rightarrow> f);
          ok = (\<lambda>t. t = [] \<or> digit_group t); digits = without_underscores (whole @ frac) in
      if whole @ frac \<noteq> [] \<and> ok whole \<and> ok frac
      then Some (int (str_nat digits), - int (length (without_underscores frac))) else None)"

definition decimal_exponent :: "string option \<Rightarrow> int option" where
  "decimal_exponent e =
     (case e of None \<Rightarrow> Some 0
      | Some t \<Rightarrow> let (negative, ds) = unsigned t in
          if digit_group ds then Some ((if negative then - 1 else 1) * int (str_nat (without_underscores ds))) else None)"

definition number_text :: "string list \<Rightarrow> string \<Rightarrow> reading" where
  "number_text names s =
     (let (negative, body) = unsigned (str_lower (str_strip s)); (m, e) = split_at (CHR ''e'') body in
      if body \<in> set names then NonFinite
      else case (mantissa m, decimal_exponent e) of
          (Some (v, scale), Some x) \<Rightarrow> Finite ((if negative then - 1 else 1) * of_int v * rpow 10 (scale + x))
        | _ \<Rightarrow> BadText)"

definition float_text :: "string \<Rightarrow> reading" where
  "float_text s = number_text [''inf'', ''infinity'', ''nan''] s"

text \<open>A NaN of \<open>Decimal\<close> may carry digits.\<close>

definition decimal_text :: "string \<Rightarrow> reading" where
  "decimal_text s =
     (let t = without_underscores s; (_, body) = unsigned (str_lower (str_strip t)) in
      if (starts_with ''nan'' body \<and> list_all is_digit_char (drop 3 body))
         \<or> (starts_with ''snan'' body \<and> list_all is_digit_char (drop 4 body)) then NonFinite
      else number_text [''inf'', ''infinity''] t)"

text \<open>\<open>Decimal(str(v))\<close>.\<close>

definition decimal_str :: "json \<Rightarrow> reading" where
  "decimal_str v =
     (case v of
        JStr s \<Rightarrow> decimal_text s
      | JNonFinite \<Rightarrow> NonFinite
      | _ \<Rightarrow> (case dec_value v of Some x \<Rightarrow> Finite x | None \<Rightarrow> BadText))"

text \<open>\<open>float(v)\<close>; what is neither a number nor a text raises.\<close>

definition float_value :: "json \<Rightarrow> json res" where
  "float_value v =
     (case v of
        JStr s \<Rightarrow> (case float_text s of
            BadText \<Rightarrow> raise PyValueError ''could not convert string to float''
          | NonFinite \<Rightarrow> Inr JNonFinite
          | Finite x \<Rightarrow> Inr (if 0 \<le> x then float_of x else case float_of (- x) of JDec m e \<Rightarrow> JDec (- m) e | j \<Rightarrow> j))
      | JBool b \<Rightarrow> Inr (JDec (if b then 1 else 0) 0)
      | JInt n \<Rightarrow> py_float v
      | JDec m e \<Rightarrow> Inr v
      | JNonFinite \<Rightarrow> Inr v
      | _ \<Rightarrow> raise PyTypeError ''float() argument must be a string or a real number'')"

lemma text_readings:
  "float_text '' +1_0.5E1 '' = Finite 105" "float_text ''-.5'' = Finite (- 1 / 2)" "float_text ''1__0'' = BadText"
  "float_text ''Infinity'' = NonFinite" "float_text ''.'' = BadText" "decimal_text ''_5.'' = Finite 5"
  "decimal_text ''sNaN12'' = NonFinite" "float_text ''_5'' = BadText"
  by code_simp+

end
