(* ===== verification/Adapter_Quotes.thy ===== *)
theory Adapter_Quotes
  imports Adapter_Targets Adapter_Numbers
begin

text \<open>
  The strategy's whole portfolio: one position for each product, the positions that the final target
  stands for, and the formal quote that prices the orders of one contract.
\<close>

text \<open>A loop over a list that may raise.\<close>

fun rfold :: "('s \<Rightarrow> 'a \<Rightarrow> 's res) \<Rightarrow> 's \<Rightarrow> 'a list \<Rightarrow> 's res" where
  "rfold f s [] = Inr s"
| "rfold f s (x # xs) = rbind (f s x) (\<lambda>s'. rfold f s' xs)"

section \<open>The portfolio\<close>

record portfolio =
  sp_positions :: json
  sp_rows :: "(string \<times> string \<times> json) list"

definition universe_product :: "string \<Rightarrow> string res" where
  "universe_product symbol =
     (case product_of symbol of
        None \<Rightarrow> adapter_error ''strategy portfolio position symbol is invalid''
      | Some p \<Rightarrow> if p \<in> set STATIC_PRODUCTS then Inr p
          else adapter_error ''strategy portfolio contains a position outside the frozen universe'')"

text \<open>The native spelling of the one symbol that each product is held in.\<close>

fun original_symbols :: "(string \<times> string) list \<Rightarrow> (string \<times> json) list \<Rightarrow> (string \<times> string) list res" where
  "original_symbols acc [] = Inr acc"
| "original_symbols acc ((k, raw) # rows) =
     (if \<not> is_obj raw then adapter_error ''strategy portfolio position is invalid''
      else if \<not> int_at_least 0 (fld raw ''volume'') then adapter_error ''strategy portfolio position volume is invalid''
      else if the_int (fld raw ''volume'') = 0 then original_symbols acc rows
      else rbind (require_text (fld raw ''symbol'') ''strategy position symbol'') (\<lambda>symbol.
        rbind (universe_product symbol) (\<lambda>p.
        if map_of acc p \<noteq> None
        then adapter_error ''strategy portfolio has split, hedged, or multi-contract product state''
        else original_symbols (acc @ [(p, symbol)]) rows)))"

definition portfolio_key :: "string \<Rightarrow> string \<Rightarrow> json \<Rightarrow> string" where
  "portfolio_key symbol exchange row =
     symbol @ ''.'' @ exchange @ ''.'' @ py_str (fld row ''direction'') @ ''.CTP.full-portfolio-v1''"

definition portfolio_row ::
  "(string \<times> string) list \<Rightarrow> nat \<times> json \<Rightarrow> (string \<times> string \<times> string \<times> json) res" where
  "portfolio_row symbols entry =
     rbind (adapter_mapping (snd entry) (indexed ''strategy portfolio position'' (fst entry))) (\<lambda>row.
     rbind (rguard (fld row ''gateway_name'' = JStr ''CTP'')
       (adapter_exn ''strategy portfolio position gateway is outside CTP'')) (\<lambda>_.
     rbind (require_text (fld row ''symbol'') ''strategy position symbol'') (\<lambda>canonical_symbol.
     rbind (universe_product canonical_symbol) (\<lambda>p.
     rbind (case map_of symbols p of None \<Rightarrow> raise PyKeyError p | Some s \<Rightarrow> Inr s) (\<lambda>symbol.
     rbind (require_text (fld row ''exchange'') ''strategy position exchange'') (\<lambda>given.
     let exchange = str_upper given; contract = exchange @ ''.'' @ symbol in
     rbind (adapter_contract (JStr contract)) (\<lambda>_.
     Inr (portfolio_key symbol exchange row, p, contract, dset row ''symbol'' (JStr symbol)))))))))"

definition canonical_strategy_portfolio_positions :: "json \<Rightarrow> portfolio res" where
  "canonical_strategy_portfolio_positions positions =
     rbind (original_symbols [] (items positions)) (\<lambda>symbols.
     rbind (on_contract_error ''strategy portfolio semantics are invalid''
       (canonical_before_position_projection positions windows_scope (JStr ''SIMNOW''))) (\<lambda>projection.
     rbind (rmap (portfolio_row symbols) (enumerate 0 (jarr (fld projection ''positions'')))) (\<lambda>rows.
     Inr \<lparr>sp_positions = dupdate (JObj []) (map (\<lambda>(k, p, contract, row). (k, row)) rows),
       sp_rows = foldl (\<lambda>m (k, p, contract, row). AList.update p (contract, row) m) [] rows\<rparr>)))"

definition portfolio_quantity :: "json \<Rightarrow> int" where
  "portfolio_quantity row =
     (if fld row ''direction'' = JStr ''LONG'' then row_lots row else - row_lots row)"

definition held_quantity :: "portfolio \<Rightarrow> string \<Rightarrow> int" where
  "held_quantity f product = (case map_of (sp_rows f) product of None \<Rightarrow> 0 | Some (contract, row) \<Rightarrow> portfolio_quantity row)"

section \<open>The positions of the final target\<close>

definition row_contract :: "product_rows \<Rightarrow> string \<Rightarrow> string" where
  "row_contract rows product = the_str (fld (row_for rows product) ''exact_contract'')"

definition target_position :: "string \<Rightarrow> string \<Rightarrow> int \<Rightarrow> json" where
  "target_position exchange symbol quantity = JObj
     [(''gateway_name'', JStr ''CTP''), (''symbol'', JStr symbol), (''exchange'', JStr exchange),
      (''direction'', JStr (if 0 < quantity then ''LONG'' else ''SHORT'')), (''volume'', JInt \<bar>quantity\<bar>)]"

definition add_target_position :: "product_rows \<Rightarrow> json \<Rightarrow> string \<Rightarrow> json res" where
  "add_target_position rows result product =
     rbind (adapter_contract (fld (row_for rows product) ''exact_contract'')) (\<lambda>(exchange, symbol).
     rbind (rguard (product_of symbol = Some product \<and> exchange = static_exchange product)
       (adapter_exn (''STATIC_CORE_EQUAL exact contract does not match product: '' @ product))) (\<lambda>_.
     let quantity = row_target rows product in
     if quantity = 0 then Inr result
     else Inr (dset result (symbol @ ''.'' @ exchange @ ''.'' @ (if 0 < quantity then ''LONG'' else ''SHORT'')
       @ ''.CTP.full-target-v1'') (target_position exchange symbol quantity))))"

definition full_portfolio_target_positions :: "product_rows \<Rightarrow> json res" where
  "full_portfolio_target_positions rows = rfold (add_target_position rows) (JObj []) STATIC_PRODUCTS"

section \<open>Quotes\<close>

text \<open>The checks of \<open>FormalTickRequest\<close>.\<close>

definition formal_tick_request :: "string \<Rightarrow> string \<Rightarrow> json \<Rightarrow> tick_request res" where
  "formal_tick_request vt_symbol side tick =
     rbind (checks
       [rguard (vt_symbol \<noteq> [] \<and> vt_symbol = str_strip vt_symbol)
          (Exn PyValueError ''formal CTP tick contract is invalid''),
        rguard (side \<in> {''bid'', ''ask''}) (Exn PyValueError ''formal CTP tick reference price is invalid''),
        rguard (case dec_value tick of None \<Rightarrow> False | Some x \<Rightarrow> 0 < x)
          (Exn PyValueError ''formal CTP price tick is invalid'')]) (\<lambda>_.
     Inr \<lparr>tq_vt_symbol = vt_symbol, tq_price_side = side, tq_price_tick = tick\<rparr>)"

definition tick_mismatch :: "string \<Rightarrow> exn" where
  "tick_mismatch c = adapter_exn (''full-portfolio frozen product price tick mismatch: '' @ c)"

definition full_portfolio_quote_request :: "string \<Rightarrow> string \<Rightarrow> string \<Rightarrow> json \<Rightarrow> tick_request res" where
  "full_portfolio_quote_request contract product side expected_tick =
     rbind (adapter_contract (JStr contract)) (\<lambda>(exchange, symbol).
     rbind (checks
       [rguard (product \<in> set STATIC_PRODUCTS \<and> product_of symbol = Some product \<and> exchange = static_exchange product
          \<and> side \<in> {''bid'', ''ask''}) (adapter_exn (''full-portfolio formal quote request is invalid: '' @ contract)),
        rguard (\<not> is_jbool expected_tick) (tick_mismatch contract)]) (\<lambda>_.
     rcatch (rbind (float_value expected_tick) (formal_tick_request (symbol @ ''.'' @ exchange) side))
       (\<lambda>x. if is_a x PyTypeError \<or> is_a x PyValueError then Inl (tick_mismatch contract) else Inl x)))"

text \<open>\<open>datetime.fromisoformat(s[:-1] + "+00:00")\<close> of a text that ends in Z, if it is UTC.\<close>

definition zulu_time :: "iso_reader \<Rightarrow> string \<Rightarrow> int option" where
  "zulu_time read_iso s =
     (if s = [] \<or> last s \<noteq> CHR ''Z'' then None
      else case read_iso (butlast s @ ''+00:00'') of
          Some (t, Some offset) \<Rightarrow> if offset = 0 then Some t else None
        | _ \<Rightarrow> None)"

definition check_quote_identity :: "iso_reader \<Rightarrow> int \<Rightarrow> string \<Rightarrow> tick_request \<Rightarrow> json \<Rightarrow> unit res" where
  "check_quote_identity read_iso now contract request observed =
     (let what = (\<lambda>s. adapter_exn (''full-portfolio formal quote '' @ s @ '': '' @ contract));
          received = zulu_time read_iso (the_str (fld observed ''received_at_utc'')) in checks
     [rguard (is_obj observed \<and> keys_are observed FORMAL_QUOTE_BINDING_FIELDS) (what ''binding is invalid''),
      rguard (fld observed ''source'' = JStr ''windows-tick-wire-v1'' \<and> fld observed ''vt_symbol'' = JStr (tq_vt_symbol request)
        \<and> fld observed ''price_side'' = JStr (tq_price_side request)) (what ''identity is invalid''),
      rall (\<lambda>f. just (require_text (fld observed f) (''formal quote '' @ f))) [''stream_generation'', ''ingest_id''],
      rguard (int_at_least 1 (fld observed ''ingest_seq'')) (what ''sequence is invalid''),
      just (adapter_sha (fld observed ''event_hash'') ''formal quote event hash''),
      rguard (is_jstr (fld observed ''received_at_utc'') \<and> received \<noteq> None) (what ''timestamp is invalid''),
      rguard (case received of None \<Rightarrow> False | Some t \<Rightarrow>
          now - t \<le> V3_FORMAL_QUOTE_MAX_AGE_SECONDS * 1000000 \<and> - (FORMAL_QUOTE_FUTURE_SKEW_SECONDS * 1000000) \<le> now - t)
        (what ''is stale or from the future'')])"

definition bad_quote_price :: "string \<Rightarrow> exn" where
  "bad_quote_price c = adapter_exn (''full-portfolio formal quote price is invalid: '' @ c)"

definition near_grid :: "exn \<Rightarrow> rat \<Rightarrow> rat \<Rightarrow> rat res" where
  "near_grid bad value tick =
     rbind (rcatch (normalize_near_grid_price value tick) (\<lambda>x. if is_a x PyValueError then Inl bad else Inl x)) (\<lambda>p.
     if p \<le> 0 then Inl bad else Inr p)"

text \<open>The reference price and the tick of a quote, as decimals.\<close>

definition quote_prices :: "string \<Rightarrow> tick_request \<Rightarrow> json \<Rightarrow> (rat \<times> rat) res" where
  "quote_prices contract request observed =
     (let tick = decimal_str (fld observed ''price_tick''); frozen = decimal_str (tq_price_tick request);
          reference = decimal_str (fld observed ''reference_price'') in
      if is_jbool (fld observed ''price_tick'') then Inl (tick_mismatch contract)
      else if BadText \<in> {tick, frozen, reference} then Inl (bad_quote_price contract)
      else case (tick, frozen) of
          (Finite x, Finite y) \<Rightarrow>
            if x \<le> 0 \<or> y \<le> 0 \<or> x \<noteq> y then Inl (tick_mismatch contract)
            else (case reference of
                Finite r \<Rightarrow> rbind (near_grid (bad_quote_price contract) r y) (\<lambda>r'. Inr (r', y))
              | _ \<Rightarrow> Inl (bad_quote_price contract))
        | _ \<Rightarrow> Inl (tick_mismatch contract))"

record quote_env =
  qe_read_iso :: iso_reader
  qe_now :: int
  qe_values :: json
  qe_only :: bool
  qe_run_id :: string

definition full_portfolio_formal_quote ::
  "quote_env \<Rightarrow> string \<Rightarrow> string \<Rightarrow> string \<Rightarrow> json \<Rightarrow> int \<Rightarrow> (json \<times> json \<times> tick_request) res" where
  "full_portfolio_formal_quote env contract product side expected_tick cushion =
     rbind (full_portfolio_quote_request contract product side expected_tick) (\<lambda>request.
     if qe_only env then Inr (tq_price_tick request, JObj [], request)
     else let values = qe_values env; observed = fld values contract in
       rbind (checks
         [rguard (0 \<le> cushion) (adapter_exn (''full-portfolio adverse cushion is invalid: '' @ contract)),
          rguard (is_obj values) (adapter_exn ''full-portfolio formal quote bindings must be an object''),
          rguard (has_key values contract) (adapter_exn (''full-portfolio formal quote is missing: '' @ contract)),
          check_quote_identity (qe_read_iso env) (qe_now env) contract request observed]) (\<lambda>_.
       rbind (quote_prices contract request observed) (\<lambda>(reference, tick).
       rbind (near_grid (adapter_exn (''full-portfolio protected limit price is invalid: '' @ contract))
         (adverse_price side reference (dec28 (tick * of_int (1 + cushion)))) tick) (\<lambda>protected.
       rbind (adapter_mapping (dset observed ''reference_price'' (float_of reference)) ''full-portfolio formal quote binding'')
         (\<lambda>binding. Inr (float_of protected, binding, request))))))"

definition simnow_adverse_cushion_ticks :: "string \<Rightarrow> string \<Rightarrow> int res" where
  "simnow_adverse_cushion_ticks run_id product =
     rcatch (adverse_cushion_ticks run_id (product @ ''0000'')) (\<lambda>x. if is_a x CommodityExecutionContractError
       then adapter_error ''SIMNOW_EXPERIMENTAL product is outside the frozen universe'' else Inl x)"

definition portfolio_quote ::
  "quote_env \<Rightarrow> string \<Rightarrow> string \<Rightarrow> string \<Rightarrow> json \<Rightarrow> (json \<times> json \<times> tick_request) res" where
  "portfolio_quote env contract product direction expected_tick =
     rbind (simnow_adverse_cushion_ticks (qe_run_id env) product) (\<lambda>cushion.
     full_portfolio_formal_quote env contract product (if direction = ''LONG'' then ''ask'' else ''bid'') expected_tick cushion)"

end
