(* ===== verification/Adapter_Phases.thy ===== *)
theory Adapter_Phases
  imports Adapter_Quotes
begin

text \<open>
  The two phases that take the whole portfolio to its final target: closes one lot at a time until no
  position is too large, on the wrong side or in an old contract, then opens of what is missing.
\<close>

type_synonym quote_use = "string \<times> string \<times> tick_request \<times> string"

definition phase_reference :: "string \<Rightarrow> string \<Rightarrow> string \<Rightarrow> string \<Rightarrow> nat \<Rightarrow> string" where
  "phase_reference run_id phase product contract i = json_hash (JObj
     [(''strategy_id'', JStr ''STATIC_CORE_EQUAL''), (''run_id'', JStr run_id), (''phase'', JStr phase),
      (''product'', JStr product), (''exact_contract'', JStr contract), (''child_index'', JInt (int i))])"

text \<open>\<open>d.setdefault(k, v)\<close>.\<close>

definition set_default :: "(string \<times> json) list \<Rightarrow> string \<Rightarrow> json \<Rightarrow> (string \<times> json) list" where
  "set_default d k v = (if map_of d k = None then d @ [(k, v)] else d)"

section \<open>Closing\<close>

record close_state =
  cs_after :: json
  cs_orders :: "json list"
  cs_bindings :: "(string \<times> json) list"
  cs_uses :: "quote_use list"

definition close_count :: "string \<Rightarrow> int \<Rightarrow> string \<Rightarrow> int \<Rightarrow> int" where
  "close_count contract quantity target_contract target =
     (if str_upper contract \<noteq> str_upper target_contract \<or> target = 0 \<or> quantity * target < 0 then \<bar>quantity\<bar>
      else if \<bar>target\<bar> < \<bar>quantity\<bar> then \<bar>quantity\<bar> - \<bar>target\<bar> else 0)"

definition close_child ::
  "quote_env \<Rightarrow> string \<Rightarrow> string \<Rightarrow> int \<Rightarrow> json \<Rightarrow> close_state \<Rightarrow> nat \<Rightarrow> close_state res" where
  "close_child env product contract quantity target st i =
     (let direction = (if 0 < quantity then ''SHORT'' else ''LONG''); reference = phase_reference (qe_run_id env) ''CLOSE'' product contract i in
      rbind (adapter_contract (JStr contract)) (\<lambda>(exchange, symbol).
      rbind (current_contract_positions (cs_after st) exchange symbol ''CTP'') (\<lambda>(_, _, matching).
      rbind (close_order_offset matching exchange direction) (\<lambda>offset.
      rbind (portfolio_quote env contract product direction (fld target ''price_tick'')) (\<lambda>(price, binding, request).
      rbind (after_safety_flat_close (cs_after st) matching direction offset) (\<lambda>after.
      Inr \<lparr>cs_after = after, cs_orders = cs_orders st @ [child_order symbol exchange direction price offset reference],
        cs_bindings = set_default (cs_bindings st) contract binding,
        cs_uses = cs_uses st @ [(product, contract, request, reference)]\<rparr>))))))"

definition close_product :: "quote_env \<Rightarrow> product_rows \<Rightarrow> close_state \<Rightarrow> string \<Rightarrow> close_state res" where
  "close_product env rows st product =
     rbind (canonical_strategy_portfolio_positions (cs_after st)) (\<lambda>book.
     let st' = st\<lparr>cs_after := sp_positions book\<rparr> in
     case map_of (sp_rows book) product of
       None \<Rightarrow> Inr st'
     | Some (contract, row) \<Rightarrow>
         let quantity = portfolio_quantity row;
             n = close_count contract quantity (row_contract rows product) (row_target rows product) in
         rfold (close_child env product contract quantity (row_for rows product)) st' [1..<nat n + 1])"

definition close_phase :: "quote_env \<Rightarrow> product_rows \<Rightarrow> json \<Rightarrow> close_state res" where
  "close_phase env rows positions =
     rfold (close_product env rows) \<lparr>cs_after = positions, cs_orders = [], cs_bindings = [], cs_uses = []\<rparr> STATIC_PRODUCTS"

section \<open>Between the phases\<close>

record phase_boundary =
  bd_positions :: json
  bd_target :: json
  bd_before :: json
  bd_close_after :: string
  bd_open_before :: string

definition phase_boundary_of :: "json \<Rightarrow> phase_boundary res" where
  "phase_boundary_of after =
     rbind (canonical_target_position_projection after windows_scope (JStr ''SIMNOW'')) (\<lambda>target.
     rbind (canonical_before_position_projection after windows_scope (JStr ''SIMNOW'')) (\<lambda>before.
     rbind (contract_sha256_json target) (\<lambda>close_after.
     rbind (contract_sha256_json before) (\<lambda>open_before.
     rbind (adapter_mapping after ''STATIC_CORE_EQUAL phase boundary'') (\<lambda>positions.
     rbind (adapter_mapping target ''STATIC_CORE_EQUAL phase boundary target projection'') (\<lambda>target'.
     rbind (adapter_mapping before ''STATIC_CORE_EQUAL phase boundary before projection'') (\<lambda>before'.
     Inr \<lparr>bd_positions = positions, bd_target = target', bd_before = before', bd_close_after = close_after,
       bd_open_before = open_before\<rparr>)))))))"

definition boundary_json :: "phase_boundary \<Rightarrow> json" where
  "boundary_json b = JObj
     [(''positions'', bd_positions b), (''target_projection'', bd_target b), (''before_projection'', bd_before b),
      (''close_expected_after_position_hash'', JStr (bd_close_after b)),
      (''open_expected_before_position_hash'', JStr (bd_open_before b))]"

section \<open>What to open\<close>

record open_intent =
  oi_product :: string
  oi_contract :: string
  oi_direction :: string
  oi_volume :: int
  oi_tick :: json

definition intent_json :: "open_intent \<Rightarrow> json" where
  "intent_json x = JObj
     [(''product'', JStr (oi_product x)), (''exact_contract'', JStr (oi_contract x)), (''direction'', JStr (oi_direction x)),
      (''volume'', JInt (oi_volume x)), (''price_side'', JStr (if oi_direction x = ''LONG'' then ''ask'' else ''bid'')),
      (''frozen_product_price_tick'', oi_tick x)]"

record open_state =
  os_after :: json
  os_intents :: "open_intent list"

text \<open>Lots opened today have no lots of yesterday.\<close>

definition yd_default_row :: "string \<Rightarrow> string \<Rightarrow> string \<Rightarrow> json \<Rightarrow> json" where
  "yd_default_row exchange symbol direction row =
     (if of_contract exchange symbol row \<and> row_direction row = direction \<and> 0 < row_lots row
      then with_default row ''yd_volume'' (JInt 0) else row)"

definition with_yd_default :: "json \<Rightarrow> string \<Rightarrow> string \<Rightarrow> string \<Rightarrow> json res" where
  "with_yd_default after exchange symbol direction =
     (if exchange \<notin> set YD_AWARE_EXCHANGES then Inr after
      else rbind (adapter_mapping after ''STATIC_CORE_EQUAL post-open positions'') (\<lambda>detached.
        Inr (JObj (map (\<lambda>(k, row). (k, yd_default_row exchange symbol direction row)) (items detached)))))"

definition check_open_row :: "product_rows \<Rightarrow> portfolio \<Rightarrow> string \<Rightarrow> unit res" where
  "check_open_row rows book product =
     rguard (case map_of (sp_rows book) product of None \<Rightarrow> True
       | Some (contract, row) \<Rightarrow> str_upper contract = str_upper (row_contract rows product))
       (adapter_exn ''post-close portfolio retains a stale exact contract'')"

definition open_product :: "product_rows \<Rightarrow> open_state \<Rightarrow> string \<Rightarrow> open_state res" where
  "open_product rows st product =
     rbind (canonical_strategy_portfolio_positions (os_after st)) (\<lambda>book.
     rbind (check_open_row rows book product) (\<lambda>_.
     let positions = sp_positions book; quantity = held_quantity book product; target = row_target rows product;
         delta = target - quantity; direction = (if 0 < delta then ''LONG'' else ''SHORT'') in
     if delta = 0 then Inr (st\<lparr>os_after := positions\<rparr>)
     else rbind (rguard (quantity = 0 \<or> 0 < quantity * target)
         (adapter_exn ''post-close portfolio has an unresolved direction reversal'')) (\<lambda>_.
       rbind (adapter_contract (fld (row_for rows product) ''exact_contract'')) (\<lambda>(exchange, symbol).
       rbind (current_contract_positions positions exchange symbol ''CTP'') (\<lambda>(_, _, matching).
       rbind (after_positions positions matching exchange symbol ''CTP'' direction ''OPEN'' \<bar>delta\<bar>) (\<lambda>after.
       rbind (with_yd_default after exchange symbol direction) (\<lambda>after'.
       Inr \<lparr>os_after = after', os_intents = os_intents st @
         [\<lparr>oi_product = product, oi_contract = row_contract rows product, oi_direction = direction, oi_volume = \<bar>delta\<bar>,
           oi_tick = fld (row_for rows product) ''price_tick''\<rparr>]\<rparr>)))))))"

text \<open>The positions after everything, which have to hash to the final target.\<close>

definition open_phase :: "product_rows \<Rightarrow> string \<Rightarrow> json \<Rightarrow> open_intent list res" where
  "open_phase rows final_hash positions =
     rbind (rfold (open_product rows) \<lparr>os_after = positions, os_intents = []\<rparr> STATIC_PRODUCTS) (\<lambda>st.
     rbind (canonical_strategy_portfolio_positions (os_after st)) (\<lambda>book.
     rbind (target_position_projection_hash (sp_positions book) windows_scope (JStr ''SIMNOW'')) (\<lambda>actual.
     rbind (rguard (actual = final_hash)
       (adapter_exn ''full-portfolio planner did not converge to the complete final target'')) (\<lambda>_.
     Inr (os_intents st)))))"

text \<open>The orders of the opens, each lot its own.\<close>

record open_orders =
  oo_orders :: "json list"
  oo_bindings :: "(string \<times> json) list"
  oo_uses :: "quote_use list"

definition open_children_of :: "quote_env \<Rightarrow> open_orders \<Rightarrow> open_intent \<Rightarrow> open_orders res" where
  "open_children_of env st x =
     rbind (adapter_contract (JStr (oi_contract x))) (\<lambda>(exchange, symbol).
     rbind (portfolio_quote env (oi_contract x) (oi_product x) (oi_direction x) (oi_tick x)) (\<lambda>(price, binding, request).
     let references = map (phase_reference (qe_run_id env) ''OPEN'' (oi_product x) (oi_contract x)) [1..<nat (oi_volume x) + 1] in
     Inr \<lparr>oo_orders = oo_orders st @ map (child_order symbol exchange (oi_direction x) price ''OPEN'') references,
       oo_bindings = set_default (oo_bindings st) (oi_contract x) binding,
       oo_uses = oo_uses st @ map (\<lambda>r. (oi_product x, oi_contract x, request, r)) references\<rparr>))"

definition no_open_orders :: open_orders where
  "no_open_orders = \<lparr>oo_orders = [], oo_bindings = [], oo_uses = []\<rparr>"

definition immediate_open_orders :: "quote_env \<Rightarrow> close_state \<Rightarrow> open_intent list \<Rightarrow> open_orders res" where
  "immediate_open_orders env closes intents =
     (if cs_orders closes \<noteq> [] then Inr no_open_orders else rfold (open_children_of env) no_open_orders intents)"

section \<open>Deferring the opens\<close>

definition deferred_intent_core ::
  "string \<Rightarrow> final_target \<Rightarrow> string \<Rightarrow> string \<Rightarrow> string \<Rightarrow> open_intent list \<Rightarrow> (string \<times> json) list" where
  "deferred_intent_core run_id f open_before final_hash event_generated_at intents =
     [(''schema_version'', JStr ''commodity_static_core_equal_deferred_open_intent_v1''),
      (''strategy_id'', JStr ''STATIC_CORE_EQUAL''), (''run_id'', JStr run_id)] @ lineage_fields f @
     [(''expected_post_close_before_position_hash'', JStr open_before), (''expected_final_position_hash'', JStr final_hash),
      (''event_generated_at'', JStr event_generated_at), (''custody_allowed'', JBool False), (''executable'', JBool False),
      (''intents'', JArr (map intent_json intents))]"

definition deferred_open_intent ::
  "string \<Rightarrow> final_target \<Rightarrow> string \<Rightarrow> string \<Rightarrow> string \<Rightarrow> open_intent list \<Rightarrow> json res" where
  "deferred_open_intent run_id f open_before final_hash event_generated_at intents =
     rbind (adapter_mapping (JObj (deferred_intent_core run_id f open_before final_hash event_generated_at intents))
       ''STATIC_CORE_EQUAL deferred OPEN intent'') (\<lambda>core.
     adapter_mapping (dset core ''intent_id'' (JStr (''static-core-deferred-open-v1-'' @ json_hash core)))
       ''STATIC_CORE_EQUAL deferred OPEN intent'')"

definition deferred_order_count :: "json option \<Rightarrow> int" where
  "deferred_order_count template =
     (case template of None \<Rightarrow> 0
      | Some t \<Rightarrow> sum_list (map (\<lambda>x. the_int (fld x ''volume'')) (filter is_obj (jarr (fld t ''intents'')))))"

section \<open>The handoff of a phase\<close>

record phase_handoff =
  hp_plan :: json
  hp_lineage :: "string list"
  hp_scope :: json
  hp_expires_at :: string
  hp_preimage :: "json option"

definition PHASE_IDENTITY_FIELDS :: "string list" where
  "PHASE_IDENTITY_FIELDS = [''identity_schema_version'', ''strategy_id'', ''run_id'', ''phase'', ''account_scope'',
     ''environment'', ''gateway_name'', ''scope'', ''lineage'', ''expected_before_position_hash'',
     ''expected_after_position_hash'', ''orders'', ''formal_quote_bindings'', ''generated_at'', ''expires_at'']"

definition PHASE_IDENTITY_SCHEMA :: string where
  "PHASE_IDENTITY_SCHEMA = ''commodity_static_core_equal_phase_identity_preimage_v1''"

definition plan_id_from_preimage :: "json \<Rightarrow> string res" where
  "plan_id_from_preimage value =
     rbind (adapter_mapping value ''full-portfolio phase identity preimage'') (\<lambda>p.
     let bad = adapter_exn ''full-portfolio phase identity preimage is invalid'' in
     rbind (checks
       [rguard (keys_are p PHASE_IDENTITY_FIELDS \<and> fld p ''identity_schema_version'' = JStr PHASE_IDENTITY_SCHEMA
          \<and> fld p ''strategy_id'' = JStr ''STATIC_CORE_EQUAL'') bad,
        require_member (fld p ''phase'') [''CLOSE'', ''OPEN''] bad,
        rguard (fld p ''account_scope'' = windows_scope \<and> fld p ''environment'' = JStr ''SIMNOW''
          \<and> fld p ''gateway_name'' = JStr ''CTP'' \<and> jeq (fld p ''scope'') TRUSTED_KEYLESS_SIMNOW_SCOPE) bad]) (\<lambda>_.
     Inr (''static-core-full-'' @ str_lower (the_str (fld p ''phase'')) @ ''-v2-'' @ json_hash p)))"

definition plan_id_from_payload :: "json \<Rightarrow> string res" where
  "plan_id_from_payload value = rcatch (v3_plan_id value) (\<lambda>x. if is_a x CommodityExecutionContractError
     then adapter_error ''full-portfolio phase target-plan identity is invalid'' else Inl x)"

record phase_material =
  pm_phase :: string
  pm_run_id :: string
  pm_final :: final_target
  pm_orders :: "json list"
  pm_before :: string
  pm_after :: string
  pm_bindings :: "(string \<times> json) list"
  pm_validated_at :: string
  pm_generated_at :: string
  pm_expires_at :: string

definition material_plan_fields :: "phase_material \<Rightarrow> (string \<times> json) list" where
  "material_plan_fields m = windows_plan_fields (pm_final m) (pm_generated_at m) (pm_expires_at m) (pm_phase m)
     (pm_before m) (pm_after m) (pm_orders m)"

definition phase_identity_preimage :: "phase_material \<Rightarrow> json" where
  "phase_identity_preimage m = JObj
     ([(''identity_schema_version'', JStr PHASE_IDENTITY_SCHEMA), (''strategy_id'', JStr ''STATIC_CORE_EQUAL''),
       (''run_id'', JStr (pm_run_id m)), (''formal_quote_bindings'', JObj (pm_bindings m))] @ material_plan_fields m)"

definition phase_plan_v2 :: "phase_material \<Rightarrow> (json \<times> json option) res" where
  "phase_plan_v2 m =
     rbind (adapter_mapping (phase_identity_preimage m) ''full-portfolio phase identity preimage'') (\<lambda>preimage.
     rbind (plan_id_from_preimage preimage) (\<lambda>plan_id.
     rbind (on_contract_error (''STATIC_CORE_EQUAL full-portfolio '' @ pm_phase m @ '' TargetPlan v2 is invalid'')
       (build_trusted_keyless_target_plan_v2 (JObj ((''plan_id'', JStr plan_id) # material_plan_fields m)))) (\<lambda>plan.
     Inr (plan, Some preimage))))"

definition material_quote_proof :: "phase_material \<Rightarrow> json" where
  "material_quote_proof m = JObj
     [(''schema_version'', JStr FORMAL_QUOTE_PROOF_SCHEMA_VERSION), (''validated_at_utc'', JStr (pm_validated_at m)),
      (''max_age_seconds'', JDec V3_FORMAL_QUOTE_MAX_AGE_SECONDS 0),
      (''future_skew_seconds'', JInt FORMAL_QUOTE_FUTURE_SKEW_SECONDS), (''journal_authenticated'', JBool False),
      (''start_authorized'', JBool False), (''bindings'', JObj (pm_bindings m))]"

definition phase_plan_v3 :: "phase_material \<Rightarrow> (json \<times> json option) res" where
  "phase_plan_v3 m =
     rbind (on_contract_error (''STATIC_CORE_EQUAL full-portfolio '' @ pm_phase m @ '' TargetPlan v3 is invalid'')
       (build_trusted_keyless_target_plan_v3 (JObj ((''execution_run_id'', JStr (pm_run_id m))
         # (''creation_quote_proof'', material_quote_proof m) # material_plan_fields m)))) (\<lambda>plan.
     Inr (plan, None))"

definition full_portfolio_plan_handoff :: "int \<Rightarrow> phase_material \<Rightarrow> phase_handoff res" where
  "full_portfolio_plan_handoff version m =
     rbind (rguard (version \<in> {2, 3}) (adapter_exn ''full-portfolio target plan version is invalid'')) (\<lambda>_.
     rbind (if version = 2 then phase_plan_v2 m else phase_plan_v3 m) (\<lambda>(plan, preimage).
     Inr \<lparr>hp_plan = plan, hp_lineage = lineage_hashes (pm_final m), hp_scope = TRUSTED_KEYLESS_SIMNOW_SCOPE,
       hp_expires_at = py_str (fld plan ''expires_at''), hp_preimage = preimage\<rparr>))"

end
