(* ===== verification/Adapter_Portfolio.thy ===== *)
theory Adapter_Portfolio
  imports Adapter_Phases
begin

text \<open>
  The planner of the whole portfolio: the quotes that the next phase needs, as a batch bound to its inputs,
  and the decision made with exactly those quotes.
\<close>

section \<open>Quote requirements\<close>

record quote_requirement =
  qr_phase :: string
  qr_product :: string
  qr_contract :: string
  qr_request :: tick_request
  qr_references :: "string list"

abbreviation value_error :: "string \<Rightarrow> exn" where
  "value_error msg \<equiv> Exn PyValueError msg"

definition requirement_request_ok :: "quote_requirement \<Rightarrow> unit res" where
  "requirement_request_ok r =
     rbind (rcatch (full_portfolio_quote_request (qr_contract r) (qr_product r) (tq_price_side (qr_request r))
         (tq_price_tick (qr_request r)))
       (\<lambda>x. if is_a x ExecutableTargetAdapterError
         then Inl (value_error ''full-portfolio quote requirement request is invalid'') else Inl x)) (\<lambda>expected.
     rguard (qr_request r = expected) (value_error ''full-portfolio quote requirement contract mismatches''))"

definition checked_requirement :: "quote_requirement \<Rightarrow> quote_requirement res" where
  "checked_requirement r =
     rbind (checks
       [rguard (qr_phase r \<in> {''CLOSE'', ''OPEN''}) (value_error ''full-portfolio quote requirement phase is invalid''),
        rguard (qr_product r \<in> set STATIC_PRODUCTS) (value_error ''full-portfolio quote requirement product is invalid''),
        requirement_request_ok r,
        rguard (qr_references r \<noteq> [] \<and> distinct (qr_references r))
          (value_error ''full-portfolio quote requirement orders are invalid''),
        rall (\<lambda>s. just (adapter_sha (JStr s) ''full-portfolio quote requirement order reference'')) (qr_references r)]) (\<lambda>_.
     Inr r)"

record quote_input_binding =
  qi_projection :: string
  qi_freeze :: string
  qi_target :: string
  qi_manager :: string
  qi_before :: string
  qi_desired :: string
  qi_reconciliation :: string
  qi_boundary :: string
  qi_deferred :: "string option"
  qi_run_id :: string
  qi_event_generated_at :: string
  qi_version :: int

definition option_json :: "string option \<Rightarrow> json" where
  "option_json x = (case x of None \<Rightarrow> JNull | Some s \<Rightarrow> JStr s)"

definition input_binding_payload :: "quote_input_binding \<Rightarrow> json" where
  "input_binding_payload b = JObj
     [(''schema_version'', JStr ''static_core_equal_quote_input_binding_v1''),
      (''static_core_equal_projection_sha256'', JStr (qi_projection b)),
      (''static_core_equal_freeze_contract_sha256'', JStr (qi_freeze b)),
      (''static_core_equal_target_evidence_sha256'', JStr (qi_target b)),
      (''position_manager_sha256'', JStr (qi_manager b)), (''current_before_position_hash'', JStr (qi_before b)),
      (''desired_target_sha256'', JStr (qi_desired b)), (''reconciliation_sha256'', JStr (qi_reconciliation b)),
      (''phase_boundary_sha256'', JStr (qi_boundary b)), (''deferred_open_intent_sha256'', option_json (qi_deferred b)),
      (''run_id'', JStr (qi_run_id b)), (''event_generated_at'', JStr (qi_event_generated_at b)),
      (''target_plan_version'', JInt (qi_version b))]"

definition input_binding_sha256 :: "quote_input_binding \<Rightarrow> string" where
  "input_binding_sha256 b = json_hash (input_binding_payload b)"

definition checked_input_binding :: "iso_reader \<Rightarrow> quote_input_binding \<Rightarrow> quote_input_binding res" where
  "checked_input_binding read_iso b =
     (let sha = (\<lambda>v what. just (adapter_sha (JStr v) (''quote input '' @ what @ '' hash''))) in
      rbind (checks
       [sha (qi_projection b) ''STATIC_CORE_EQUAL projection'', sha (qi_freeze b) ''STATIC_CORE_EQUAL freeze'',
        sha (qi_target b) ''STATIC_CORE_EQUAL target'', sha (qi_manager b) ''position-manager'',
        sha (qi_before b) ''current before-position'', sha (qi_desired b) ''desired-target'',
        sha (qi_reconciliation b) ''reconciliation'', sha (qi_boundary b) ''phase-boundary'',
        (case qi_deferred b of None \<Rightarrow> Inr () | Some h \<Rightarrow> sha h ''deferred OPEN intent''),
        rguard (RUN_ID_RE (qi_run_id b)) (value_error ''quote input run id is invalid''),
        rguard (zulu_time read_iso (qi_event_generated_at b) \<noteq> None)
          (value_error ''quote input event generated_at is invalid''),
        rguard (qi_version b \<in> {2, 3}) (value_error ''quote input target-plan version is invalid'')]) (\<lambda>_. Inr b))"

record quote_requirements =
  qs_phase :: "string option"
  qs_rows :: "quote_requirement list"
  qs_deferred :: int
  qs_binding :: quote_input_binding

definition requirement_json :: "quote_requirement \<Rightarrow> json" where
  "requirement_json r = JObj
     [(''phase'', JStr (qr_phase r)), (''product'', JStr (qr_product r)), (''exact_contract'', JStr (qr_contract r)),
      (''request'', JObj [(''vt_symbol'', JStr (tq_vt_symbol (qr_request r))),
         (''price_side'', JStr (tq_price_side (qr_request r))), (''price_tick'', tq_price_tick (qr_request r))]),
      (''order_references'', JArr (map JStr (qr_references r)))]"

definition quote_requirements_sha256 :: "quote_requirements \<Rightarrow> string" where
  "quote_requirements_sha256 s = json_hash (JObj
     [(''schema_version'', JStr ''static_core_equal_quote_requirements_v1''), (''phase'', option_json (qs_phase s)),
      (''requirements'', JArr (map requirement_json (qs_rows s))), (''deferred_open_order_count'', JInt (qs_deferred s)),
      (''input_binding_sha256'', JStr (input_binding_sha256 (qs_binding s)))])"

definition checked_requirements :: "quote_requirements \<Rightarrow> quote_requirements res" where
  "checked_requirements s =
     rbind (checks
       [rguard (qs_phase s \<in> {None, Some ''CLOSE'', Some ''OPEN''})
          (value_error ''full-portfolio quote requirements phase is invalid''),
        rguard (0 \<le> qs_deferred s) (value_error ''full-portfolio deferred OPEN count is invalid''),
        rguard (qs_phase s = Some ''CLOSE'' \<or> qs_deferred s = 0)
          (value_error ''full-portfolio deferred OPEN count requires a CLOSE phase''),
        rguard ((qs_deferred s = 0) = (qi_deferred (qs_binding s) = None))
          (value_error ''full-portfolio deferred OPEN intent binding is inconsistent''),
        rguard ((qs_phase s = None) = (qs_rows s = []))
          (value_error ''full-portfolio quote requirements phase is inconsistent''),
        rguard (list_all (\<lambda>r. Some (qr_phase r) = qs_phase s) (qs_rows s))
          (value_error ''full-portfolio quote requirement phases are mixed''),
        rguard (sorted (map qr_contract (qs_rows s)) \<and> distinct (map qr_contract (qs_rows s)))
          (value_error ''full-portfolio quote requirements are not canonical'')]) (\<lambda>_. Inr s)"

section \<open>The uses of a contract's quote\<close>

type_synonym contract_uses = "(string \<times> string \<times> tick_request \<times> string list) list"

fun group_uses :: "contract_uses \<Rightarrow> quote_use list \<Rightarrow> contract_uses res" where
  "group_uses acc [] = Inr acc"
| "group_uses acc ((product, contract, request, reference) # uses) =
     (case map_of acc contract of
        None \<Rightarrow> group_uses (acc @ [(contract, product, request, [reference])]) uses
      | Some (product', request', references) \<Rightarrow>
          if product' \<noteq> product \<or> request' \<noteq> request then adapter_error ''full-portfolio quote requirements conflict''
          else group_uses (AList.update contract (product, request, references @ [reference]) acc) uses)"

definition requirement_rows :: "string \<Rightarrow> contract_uses \<Rightarrow> quote_requirement list res" where
  "requirement_rows phase grouped =
     rmap (\<lambda>(contract, product, request, references). checked_requirement
       \<lparr>qr_phase = phase, qr_product = product, qr_contract = contract, qr_request = request, qr_references = references\<rparr>)
       (sort_key fst grouped)"

section \<open>What is planned\<close>

record portfolio_request = target_inputs +
  pq_quotes :: json
  pq_event_generated_at :: string
  pq_expires_at :: "string option"
  pq_version :: int
  pq_given :: "quote_requirements option"

record planning =
  pl_run_id :: string
  pl_event_time :: int
  pl_final :: final_target
  pl_freeze_sha256 :: string
  pl_target_sha256 :: string
  pl_reconciliation_sha256 :: string
  pl_portfolio :: portfolio
  pl_before_hash :: string
  pl_target_hash :: string
  pl_final_hash :: string

definition check_request_mode :: "bool \<Rightarrow> portfolio_request \<Rightarrow> unit res" where
  "check_request_mode only q = checks
     [if only then rguard (pq_given q = None) (adapter_exn ''quote-only planning cannot consume quote requirements'')
      else rguard (pq_given q \<noteq> None) (adapter_exn ''full-portfolio quote requirements are required''),
      rguard (pq_version q \<in> {2, 3}) (adapter_exn ''full-portfolio target-plan version is invalid'')]"

definition event_time_of :: "iso_reader \<Rightarrow> int \<Rightarrow> string \<Rightarrow> int res" where
  "event_time_of read_iso now text =
     (case zulu_time read_iso text of
        None \<Rightarrow> adapter_error ''event generated_at is invalid''
      | Some t \<Rightarrow> if FORMAL_QUOTE_FUTURE_SKEW_SECONDS * 1000000 < t - now
          then adapter_error ''event generated_at is invalid'' else Inr t)"

definition check_exchange :: "product_rows \<Rightarrow> string \<times> string \<times> json \<Rightarrow> unit res" where
  "check_exchange rows entry =
     (let (product, contract, row) = entry in
      rbind (adapter_contract (JStr contract)) (\<lambda>(current, _).
      rbind (adapter_contract (fld (row_for rows product) ''exact_contract'')) (\<lambda>(target, _).
      rguard (current = static_exchange product \<and> target = static_exchange product)
        (adapter_exn ''strategy portfolio product is on an unexpected exchange''))))"

definition planning_of :: "iso_reader \<Rightarrow> int \<Rightarrow> bool \<Rightarrow> portfolio_request \<Rightarrow> planning res" where
  "planning_of read_iso now only q =
     (let scope = windows_scope; env = JStr ''SIMNOW'' in
      rbind (check_request_mode only q) (\<lambda>_.
      rbind (checked_run_id (ti_run_id q)) (\<lambda>run_id.
      rbind (event_time_of read_iso now (pq_event_generated_at q)) (\<lambda>event_time.
      rbind (replayed_target (target_inputs.truncate q)) (\<lambda>final.
      rbind (windows_positions (target_inputs.truncate q)) (\<lambda>positions.
      rbind (adapter_mapping (ti_reconciliation q) ''full-portfolio reconciliation'') (\<lambda>reconciliation.
      rbind (canonical_strategy_portfolio_positions positions) (\<lambda>book.
      rbind (rall (check_exchange (ft_rows final)) (sp_rows book)) (\<lambda>_.
      rbind (full_portfolio_target_positions (ft_rows final)) (\<lambda>wanted.
      rbind (before_position_projection_hash (sp_positions book) scope env) (\<lambda>before_hash.
      rbind (target_position_projection_hash (sp_positions book) scope env) (\<lambda>target_hash.
      rbind (target_position_projection_hash wanted scope env) (\<lambda>final_hash.
      Inr \<lparr>pl_run_id = run_id, pl_event_time = event_time, pl_final = final, pl_freeze_sha256 = json_hash (ti_freeze q),
        pl_target_sha256 = json_hash (ti_target q), pl_reconciliation_sha256 = json_hash reconciliation,
        pl_portfolio = book, pl_before_hash = before_hash, pl_target_hash = target_hash, pl_final_hash = final_hash\<rparr>)))))))))))))"

record phases =
  px_closes :: close_state
  px_boundary :: phase_boundary
  px_intents :: "open_intent list"
  px_deferred :: "json option"
  px_opens :: open_orders

definition deferral :: "planning \<Rightarrow> string \<Rightarrow> close_state \<Rightarrow> phase_boundary \<Rightarrow> open_intent list \<Rightarrow> json option res" where
  "deferral p event_generated_at closes boundary intents =
     (if cs_orders closes = [] \<or> intents = [] then Inr None
      else rbind (deferred_open_intent (pl_run_id p) (pl_final p) (bd_open_before boundary) (pl_final_hash p) event_generated_at intents)
        (\<lambda>template. Inr (Some template)))"

definition phases_of :: "quote_env \<Rightarrow> planning \<Rightarrow> string \<Rightarrow> phases res" where
  "phases_of env p event_generated_at =
     (let rows = ft_rows (pl_final p) in
      rbind (close_phase env rows (sp_positions (pl_portfolio p))) (\<lambda>closes.
      rbind (canonical_strategy_portfolio_positions (cs_after closes)) (\<lambda>book.
      rbind (phase_boundary_of (sp_positions book)) (\<lambda>boundary.
      rbind (open_phase rows (pl_final_hash p) (sp_positions book)) (\<lambda>intents.
      rbind (deferral p event_generated_at closes boundary intents) (\<lambda>deferred.
      rbind (immediate_open_orders env closes intents) (\<lambda>opens.
      Inr \<lparr>px_closes = closes, px_boundary = boundary, px_intents = intents, px_deferred = deferred, px_opens = opens\<rparr>)))))))"

definition selected_phase :: "phases \<Rightarrow> string option" where
  "selected_phase x =
     (if cs_uses (px_closes x) \<noteq> [] then Some ''CLOSE'' else if oo_uses (px_opens x) \<noteq> [] then Some ''OPEN'' else None)"

definition selected_uses :: "phases \<Rightarrow> quote_use list" where
  "selected_uses x = (if cs_uses (px_closes x) \<noteq> [] then cs_uses (px_closes x) else oo_uses (px_opens x))"

definition phase_input_binding :: "portfolio_request \<Rightarrow> planning \<Rightarrow> phases \<Rightarrow> quote_input_binding" where
  "phase_input_binding q p x =
     \<lparr>qi_projection = so_sha256 (ft_static (pl_final p)), qi_freeze = pl_freeze_sha256 p, qi_target = pl_target_sha256 p,
      qi_manager = ft_manager_sha256 (pl_final p), qi_before = pl_before_hash p, qi_desired = ft_sha256 (pl_final p),
      qi_reconciliation = pl_reconciliation_sha256 p, qi_boundary = json_hash (boundary_json (px_boundary x)),
      qi_deferred = map_option json_hash (px_deferred x), qi_run_id = pl_run_id p,
      qi_event_generated_at = pq_event_generated_at q, qi_version = pq_version q\<rparr>"

definition computed_requirements ::
  "iso_reader \<Rightarrow> portfolio_request \<Rightarrow> planning \<Rightarrow> phases \<Rightarrow> quote_requirements res" where
  "computed_requirements read_iso q p x =
     rbind (group_uses [] (selected_uses x)) (\<lambda>grouped.
     rbind (requirement_rows (case selected_phase x of None \<Rightarrow> ''None'' | Some s \<Rightarrow> s) grouped) (\<lambda>rows.
     rbind (checked_input_binding read_iso (phase_input_binding q p x)) (\<lambda>binding.
     checked_requirements \<lparr>qs_phase = selected_phase x, qs_rows = rows, qs_deferred = deferred_order_count (px_deferred x),
       qs_binding = binding\<rparr>)))"

section \<open>The decision\<close>

record portfolio_decision =
  pd_close :: "phase_handoff option"
  pd_open :: "phase_handoff option"
  pd_planning :: planning
  pd_phases :: phases

definition pd_noop :: "portfolio_decision \<Rightarrow> bool" where
  "pd_noop d \<longleftrightarrow> pd_close d = None \<and> pd_open d = None \<and> px_deferred (pd_phases d) = None"

definition pd_handoffs :: "portfolio_decision \<Rightarrow> phase_handoff list" where
  "pd_handoffs d = (case pd_close d of None \<Rightarrow> [] | Some h \<Rightarrow> [h]) @ (case pd_open d of None \<Rightarrow> [] | Some h \<Rightarrow> [h])"

definition mutation_expiry :: "iso_reader \<Rightarrow> int \<Rightarrow> int \<Rightarrow> string option \<Rightarrow> string res" where
  "mutation_expiry read_iso now event_time expiry =
     (let bad = adapter_error ''trusted keyless expiry is invalid'' in
      case expiry of None \<Rightarrow> bad
      | Some text \<Rightarrow> (case zulu_time read_iso text of None \<Rightarrow> bad
          | Some t \<Rightarrow> if t \<le> now \<or> t \<le> event_time then bad else Inr text))"

definition phase_material_of ::
  "portfolio_request \<Rightarrow> int \<Rightarrow> planning \<Rightarrow> string \<Rightarrow> string \<Rightarrow> json list \<Rightarrow> string \<Rightarrow> string \<Rightarrow> (string \<times> json) list
    \<Rightarrow> phase_material" where
  "phase_material_of q now p expires_at phase orders before_hash after_hash bindings =
     \<lparr>pm_phase = phase, pm_run_id = pl_run_id p, pm_final = pl_final p, pm_orders = orders, pm_before = before_hash,
      pm_after = after_hash, pm_bindings = bindings, pm_validated_at = isoformat_z now,
      pm_generated_at = pq_event_generated_at q, pm_expires_at = expires_at\<rparr>"

definition phase_handoff_of :: "int \<Rightarrow> phase_material \<Rightarrow> phase_handoff option res" where
  "phase_handoff_of version m =
     (if pm_orders m = [] then Inr None
      else rbind (full_portfolio_plan_handoff version m) (\<lambda>h. Inr (Some h)))"

definition close_material :: "portfolio_request \<Rightarrow> int \<Rightarrow> planning \<Rightarrow> phases \<Rightarrow> string \<Rightarrow> phase_material" where
  "close_material q now p x expires_at = phase_material_of q now p expires_at ''CLOSE'' (cs_orders (px_closes x))
     (pl_before_hash p) (bd_close_after (px_boundary x)) (cs_bindings (px_closes x))"

definition open_material :: "portfolio_request \<Rightarrow> int \<Rightarrow> planning \<Rightarrow> phases \<Rightarrow> string \<Rightarrow> phase_material" where
  "open_material q now p x expires_at = phase_material_of q now p expires_at ''OPEN'' (oo_orders (px_opens x))
     (bd_open_before (px_boundary x)) (pl_final_hash p) (oo_bindings (px_opens x))"

definition nothing_planned :: "phases \<Rightarrow> bool" where
  "nothing_planned x \<longleftrightarrow> cs_orders (px_closes x) = [] \<and> oo_orders (px_opens x) = [] \<and> px_deferred x = None"

definition decide_portfolio ::
  "iso_reader \<Rightarrow> int \<Rightarrow> portfolio_request \<Rightarrow> planning \<Rightarrow> phases \<Rightarrow> quote_requirements \<Rightarrow> portfolio_decision res" where
  "decide_portfolio read_iso now q p x requirements =
     rbind (checks
       [rguard (pq_given q = Some requirements)
          (adapter_exn ''full-portfolio quote requirements do not match planner inputs''),
        rguard (is_obj (pq_quotes q) \<and> keys_are (pq_quotes q) (map qr_contract (qs_rows requirements)))
          (adapter_exn ''full-portfolio formal quote contract set is not exact'')]) (\<lambda>_.
     if nothing_planned x then Inr \<lparr>pd_close = None, pd_open = None, pd_planning = p, pd_phases = x\<rparr>
     else rbind (mutation_expiry read_iso now (pl_event_time p) (pq_expires_at q)) (\<lambda>expires_at.
       rbind (phase_handoff_of (pq_version q) (close_material q now p x expires_at)) (\<lambda>close_handoff.
       rbind (phase_handoff_of (pq_version q) (open_material q now p x expires_at)) (\<lambda>open_handoff.
       Inr \<lparr>pd_close = close_handoff, pd_open = open_handoff, pd_planning = p, pd_phases = x\<rparr>))))"

definition portfolio_env :: "iso_reader \<Rightarrow> int \<Rightarrow> bool \<Rightarrow> portfolio_request \<Rightarrow> planning \<Rightarrow> quote_env" where
  "portfolio_env read_iso now only q p =
     \<lparr>qe_read_iso = read_iso, qe_now = now, qe_values = pq_quotes q, qe_only = only, qe_run_id = pl_run_id p\<rparr>"

definition planned_portfolio ::
  "iso_reader \<Rightarrow> int \<Rightarrow> bool \<Rightarrow> portfolio_request \<Rightarrow> (planning \<times> phases \<times> quote_requirements) res" where
  "planned_portfolio read_iso now only q =
     rbind (planning_of read_iso now only q) (\<lambda>p.
     rbind (phases_of (portfolio_env read_iso now only q p) p (pq_event_generated_at q)) (\<lambda>x.
     rbind (computed_requirements read_iso q p x) (\<lambda>requirements. Inr (p, x, requirements))))"

definition build_full_portfolio_quote_requests ::
  "iso_reader \<Rightarrow> int \<Rightarrow> portfolio_request \<Rightarrow> quote_requirements res" where
  "build_full_portfolio_quote_requests read_iso now q =
     rbind (planned_portfolio read_iso now True (q\<lparr>pq_quotes := JNull, pq_given := None\<rparr>))
       (\<lambda>(p, x, requirements). Inr requirements)"

definition build_static_core_equal_full_portfolio_keyless_decision ::
  "iso_reader \<Rightarrow> int \<Rightarrow> portfolio_request \<Rightarrow> portfolio_decision res" where
  "build_static_core_equal_full_portfolio_keyless_decision read_iso now q =
     rbind (planned_portfolio read_iso now False q) (\<lambda>(p, x, requirements).
     decide_portfolio read_iso now q p x requirements)"

end
