(* ===== verification/Adapter_Custody.thy ===== *)
theory Adapter_Custody
  imports Adapter_Portfolio
begin

text \<open>
  What leaves the planner for custody: the proof that a phase's plan carries the id of its content, and the
  unsigned artifact envelopes (\<open>new_artifact_envelope\<close> of \<open>shared/artifact_contracts/v1.py\<close>).
\<close>

section \<open>Envelopes\<close>

record artifact_spec =
  as_type :: string
  as_domain :: string
  as_producer :: string
  as_producer_version :: string
  as_schema_ref :: string
  as_payload :: json
  as_generated_at :: string
  as_scope :: json
  as_predecessors :: json
  as_lineage :: json

definition check_artifact_spec :: "(string \<Rightarrow> bool) \<Rightarrow> artifact_spec \<Rightarrow> unit res" where
  "check_artifact_spec fromisoformat a = checks
     [just (envelope_id (JStr (as_type a)) ''ARTIFACT_TYPE_INVALID''),
      just (envelope_id (JStr (as_domain a)) ''ARTIFACT_TRUST_DOMAIN_INVALID''),
      just (envelope_id (JStr (as_producer a)) ''ARTIFACT_PRODUCER_ID_INVALID''),
      just (envelope_id (JStr (as_producer_version a)) ''ARTIFACT_PRODUCER_VERSION_INVALID''),
      just (envelope_id (JStr (as_schema_ref a)) ''ARTIFACT_SCHEMA_REF_INVALID''),
      just (envelope_timestamp fromisoformat (JStr (as_generated_at a)) ''ARTIFACT_GENERATED_AT_INVALID''),
      rguard (is_obj (as_scope a)) (envelope_error ''ARTIFACT_SCOPE_INVALID'')]"

definition artifact_binding :: "artifact_spec \<Rightarrow> string \<Rightarrow> json \<Rightarrow> json \<Rightarrow> (string \<times> json) list" where
  "artifact_binding a canonical refs hashes =
     [(''artifact_type'', JStr (as_type a)), (''trust_domain'', JStr (as_domain a)), (''producer_id'', JStr (as_producer a)),
      (''canonical_sha256'', JStr canonical), (''predecessor_refs'', refs), (''lineage'', hashes), (''scope'', as_scope a)]"

definition new_artifact_envelope :: "(string \<Rightarrow> bool) \<Rightarrow> artifact_spec \<Rightarrow> json res" where
  "new_artifact_envelope fromisoformat a =
     rbind (check_artifact_spec fromisoformat a) (\<lambda>_.
     rbind (predecessors (as_predecessors a)) (\<lambda>refs.
     rbind (artifact_lineage (as_lineage a)) (\<lambda>hashes.
     rbind (payload_hashes (as_payload a)) (\<lambda>(canonical, raw).
     rbind (derived_artifact_id (artifact_binding a canonical refs hashes)) (\<lambda>derived.
     Inr (JObj
       [(''schema_version'', JStr ARTIFACT_ENVELOPE_SCHEMA_VERSION), (''artifact_id'', JStr derived),
        (''artifact_type'', JStr (as_type a)), (''trust_domain'', JStr (as_domain a)), (''producer_id'', JStr (as_producer a)),
        (''producer_version'', JStr (as_producer_version a)), (''schema_ref'', JStr (as_schema_ref a)),
        (''canonical_sha256'', JStr canonical), (''raw_sha256'', JStr raw), (''predecessor_refs'', refs),
        (''lineage'', hashes), (''generated_at'', JStr (as_generated_at a)), (''scope'', as_scope a),
        (''payload'', as_payload a)]))))))"

text \<open>The unsigned artifact of a target plan.\<close>

definition plan_artifact :: "string \<Rightarrow> string \<Rightarrow> string \<Rightarrow> json \<Rightarrow> json \<Rightarrow> string \<Rightarrow> json \<Rightarrow> json \<Rightarrow> artifact_spec" where
  "plan_artifact producer version schema plan scope generated_at refs lineage =
     \<lparr>as_type = ''simnow-target-plan'', as_domain = ''runtime_authorization'', as_producer = producer,
      as_producer_version = version, as_schema_ref = schema, as_payload = plan, as_generated_at = generated_at,
      as_scope = scope, as_predecessors = refs, as_lineage = lineage\<rparr>"

section \<open>The signed path\<close>

definition authority_bound :: "json \<Rightarrow> string \<Rightarrow> string \<Rightarrow> json \<Rightarrow> bool" where
  "authority_bound artifact artifact_id raw_sha256 scope \<longleftrightarrow>
     fld artifact ''artifact_id'' = JStr artifact_id \<and> fld artifact ''raw_sha256'' = JStr raw_sha256
     \<and> is_runtime_authorization artifact \<and> jeq (fld artifact ''scope'') scope"

definition authority_custody_closure ::
  "(string \<Rightarrow> bool) \<Rightarrow> json \<Rightarrow> string \<Rightarrow> string \<Rightarrow> json \<Rightarrow> (json \<times> string list) res" where
  "authority_custody_closure fromisoformat value artifact_id raw_sha256 scope =
     rbind (rcatch (validate_artifact_envelope fromisoformat value) (\<lambda>x. if is_a x ArtifactContractError
       then adapter_error ''authority artifact envelope is invalid'' else Inl x)) (\<lambda>artifact.
     rbind (rguard (authority_bound artifact artifact_id raw_sha256 scope)
       (adapter_exn ''authority artifact does not match custody receipt/scope'')) (\<lambda>_.
     let canonical = the_str (fld artifact ''canonical_sha256'') in
     Inr (JObj [(''artifact_id'', fld artifact ''artifact_id''), (''canonical_sha256'', JStr canonical)],
       sort (remdups (canonical # map the_str (jarr (fld artifact ''lineage'')))))))"

definition handoff_artifact_envelope :: "(string \<Rightarrow> bool) \<Rightarrow> plan_handoff \<Rightarrow> string \<Rightarrow> json \<Rightarrow> json res" where
  "handoff_artifact_envelope fromisoformat h generated_at authority =
     (let plan = ho_target_plan h in
      rbind (need plan ''authority_artifact_id'') (\<lambda>artifact_id.
      rbind (need plan ''authority_artifact_sha256'') (\<lambda>artifact_sha.
      rbind (authority_custody_closure fromisoformat authority (py_str artifact_id) (py_str artifact_sha) (ho_scope h))
        (\<lambda>(reference, lineage).
      new_artifact_envelope fromisoformat (plan_artifact ''c-fast-executable-target-adapter'' ''v1'' TARGET_PLAN_SCHEMA_VERSION
        plan (ho_scope h) generated_at (JArr [reference]) (JArr (map JStr lineage)))))))"

section \<open>The keyless paths\<close>

definition keyless_artifact_spec :: "string \<Rightarrow> string \<Rightarrow> json \<Rightarrow> json \<Rightarrow> artifact_spec res" where
  "keyless_artifact_spec producer version plan scope =
     rbind (need plan ''generated_at'') (\<lambda>generated_at.
     Inr (plan_artifact producer version (py_str (fld plan ''schema_version'')) plan scope (py_str generated_at) (JArr []) (JArr [])))"

definition handoff_custody_artifact :: "(string \<Rightarrow> bool) \<Rightarrow> plan_handoff \<Rightarrow> json res" where
  "handoff_custody_artifact fromisoformat h =
     (let plan = ho_target_plan h; v2 = (fld plan ''schema_version'' = JStr KEYLESS_V2) in
      rbind (require_member (fld plan ''schema_version'') [KEYLESS_V1, KEYLESS_V2]
        (adapter_exn ''target plan is not trusted keyless'')) (\<lambda>_.
      rbind (keyless_artifact_spec
        (if v2 then ''static-core-equal-final-target-adapter'' else ''c-fast-executable-target-adapter'')
        (if v2 then ''v2'' else ''v1'') plan (ho_scope h)) (new_artifact_envelope fromisoformat)))"

section \<open>Identity proofs\<close>

definition recompute_plan_id :: "phase_handoff \<Rightarrow> string res" where
  "recompute_plan_id h =
     (let schema = fld (hp_plan h) ''schema_version'' in
      if schema = JStr KEYLESS_V3
      then if hp_preimage h \<noteq> None then adapter_error ''full-portfolio v3 must not retain a hidden identity preimage''
        else plan_id_from_payload (hp_plan h)
      else if schema \<noteq> JStr KEYLESS_V2 then adapter_error ''full-portfolio phase target plan schema is invalid''
      else (case hp_preimage h of
          None \<Rightarrow> adapter_error ''full-portfolio v2 identity preimage is missing''
        | Some p \<Rightarrow> if is_obj p then plan_id_from_preimage p
            else adapter_error ''full-portfolio v2 identity preimage is missing''))"

definition PHASE_BOUND_FIELDS :: "string list" where
  "PHASE_BOUND_FIELDS = [''account_scope'', ''environment'', ''gateway_name'', ''scope'', ''lineage'',
     ''expected_before_position_hash'', ''expected_after_position_hash'', ''orders'', ''generated_at'', ''expires_at'',
     ''phase'']"

definition expected_lineage :: "json \<Rightarrow> string list res" where
  "expected_lineage lineage =
     rmap (\<lambda>f. rbind (need lineage f) (\<lambda>v. Inr (py_str v)))
       [''static_core_equal_sha256'', ''position_manager_sha256'', ''final_target_sha256'']"

definition check_identity_bindings :: "phase_handoff \<Rightarrow> string \<Rightarrow> json \<Rightarrow> bool \<Rightarrow> json \<Rightarrow> string res" where
  "check_identity_bindings h plan_id stated fields_agree source =
     (let lineage = fld source ''lineage'' in
      rbind (rguard (is_obj lineage) (adapter_exn ''full-portfolio phase identity lineage is invalid'')) (\<lambda>_.
      rbind (expected_lineage lineage) (\<lambda>expected.
      rbind (rguard (JStr plan_id = stated \<and> fields_agree \<and> jeq (hp_scope h) (fld source ''scope'')
          \<and> JStr (hp_expires_at h) = fld source ''expires_at'' \<and> hp_lineage h = expected)
        (adapter_exn ''full-portfolio phase identity proof does not match target plan'')) (\<lambda>_. Inr plan_id))))"

definition validate_identity_proof :: "phase_handoff \<Rightarrow> string res" where
  "validate_identity_proof h =
     (let plan = hp_plan h; schema = fld plan ''schema_version'' in
      if schema = JStr KEYLESS_V2
      then rbind (recompute_plan_id h) (\<lambda>plan_id.
        let preimage = (case hp_preimage h of None \<Rightarrow> JNull | Some p \<Rightarrow> p) in
        check_identity_bindings h plan_id (fld plan ''plan_id'')
          (list_all (\<lambda>f. jeq (fld plan f) (fld preimage f)) PHASE_BOUND_FIELDS) preimage)
      else if schema \<noteq> JStr KEYLESS_V3 then adapter_error ''full-portfolio phase target plan schema is invalid''
      else rbind (rcatch (target_plan_from_mapping 1 plan) (\<lambda>x. if is_a x CommodityExecutionContractError
          then adapter_error ''full-portfolio phase identity proof is invalid'' else Inl x)) (\<lambda>parsed.
        rbind (recompute_plan_id h) (\<lambda>plan_id.
        check_identity_bindings h plan_id (JStr (tp_plan_id parsed)) True (tp_raw parsed))))"

definition phase_custody_artifact :: "(string \<Rightarrow> bool) \<Rightarrow> phase_handoff \<Rightarrow> json res" where
  "phase_custody_artifact fromisoformat h =
     (let plan = hp_plan h in
      rbind (require_member (fld plan ''schema_version'') [KEYLESS_V2, KEYLESS_V3]
        (adapter_exn ''full-portfolio phase target plan schema is invalid'')) (\<lambda>_.
      rbind (validate_identity_proof h) (\<lambda>_.
      rbind (keyless_artifact_spec ''static-core-equal-final-target-adapter''
        (if fld plan ''schema_version'' = JStr KEYLESS_V3 then ''v3'' else ''v2'') plan (hp_scope h))
        (new_artifact_envelope fromisoformat))))"

end
