(* ===== verification/Spec2Isabelle.thy ===== *)
theory Spec2Isabelle
  imports Repository_Laws Fencing_Laws Position_Facts Order_Properties Restart_Properties
    Control_Properties Command_Properties Reconcile_Properties Halt_Properties Query_Properties Plan_Properties Active_Resume
    Store_Properties Runtime_Properties Adapter_Custody
begin

text \<open>
  Execution core of the web bridge, first components.
\<close>

end
